(* ===== verification/Prelude.thy ===== *)
theory Prelude
  imports Main "HOL-Library.AList" "HOL-Library.Word"
begin

text \<open>
  Shared material of the development: the types that stand for Python's basic values,
  the small SQL vocabulary the store model is written in (tables with a primary key are
  association lists, other tables are lists of rows), and the collections of lemmas that
  the component theories extend.

  Python strings that hold user text are lists of Unicode code points (\<open>ustring\<close>), so that
  lengths and offsets are Python's. Internal identifiers (rule codes, outcomes, reasons,
  hexadecimal keys) are ASCII and are HOL strings. Timestamps and ids are Python's unbounded
  integers.
\<close>

type_synonym ustring = "nat list"
type_synonym blob = "8 word list"
type_synonym sender_key = string

definition ustr :: "string \<Rightarrow> ustring" where
  "ustr s = map of_char s"

lemma length_ustr [simp]: "length (ustr s) = length s"
  by (simp add: ustr_def)

lemma ustr_append: "ustr (a @ b) = ustr a @ ustr b"
  by (simp add: ustr_def)

lemma ustr_Nil [simp]: "ustr [] = []"
  by (simp add: ustr_def)

named_theorems store_defs \<open>the store operations, unfolded down to table operations\<close>
named_theorems table_simps \<open>how the table operations act on lookups, key lists and counts\<close>

subsection \<open>Tables with a primary key\<close>

text \<open>
  A table with a primary key is an association list in row order. \<open>INSERT OR IGNORE\<close> is
  \<open>insert_ignore\<close>; \<open>INSERT ... ON CONFLICT DO UPDATE\<close> is \<open>AList.map_default\<close>;
  \<open>UPDATE ... WHERE key=? AND cond\<close> is \<open>update_row\<close>, whose first component says whether
  the cursor's row count was one; \<open>DELETE ... WHERE key=?\<close> is \<open>delete_row\<close>.
\<close>

definition keys_of :: "('k \<times> 'v) list \<Rightarrow> 'k list" where
  "keys_of t = map fst t"

definition insert_ignore :: "'k \<Rightarrow> 'v \<Rightarrow> ('k \<times> 'v) list \<Rightarrow> ('k \<times> 'v) list" where
  "insert_ignore k v t = (case map_of t k of None \<Rightarrow> t @ [(k, v)] | Some _ \<Rightarrow> t)"

definition upsert_row :: "'k \<Rightarrow> 'v \<Rightarrow> ('v \<Rightarrow> 'v) \<Rightarrow> ('k \<times> 'v) list \<Rightarrow> ('k \<times> 'v) list" where
  "upsert_row k v f t = AList.map_default k v f t"

definition update_row ::
  "'k \<Rightarrow> ('v \<Rightarrow> bool) \<Rightarrow> ('v \<Rightarrow> 'v) \<Rightarrow> ('k \<times> 'v) list \<Rightarrow> bool \<times> ('k \<times> 'v) list" where
  "update_row k P f t = (case map_of t k of
      None \<Rightarrow> (False, t)
    | Some v \<Rightarrow> if P v then (True, AList.update k (f v) t) else (False, t))"

definition delete_row :: "'k \<Rightarrow> ('k \<times> 'v) list \<Rightarrow> ('k \<times> 'v) list" where
  "delete_row k t = AList.delete k t"

lemma keys_of_Nil [table_simps]: "keys_of [] = []"
  by (simp add: keys_of_def)

lemma map_of_insert_ignore [table_simps]:
  "map_of (insert_ignore k v t) j =
     (if j = k \<and> map_of t k = None then Some v else map_of t j)"
  by (auto simp: insert_ignore_def map_add_def split: option.splits)

lemma map_of_upsert_row [table_simps]:
  "map_of (upsert_row k v f t) j =
     (if j = k then Some (case map_of t k of None \<Rightarrow> v | Some u \<Rightarrow> f u) else map_of t j)"
  by (simp add: upsert_row_def map_of_map_default split: option.splits)

lemma map_of_update_row [table_simps]:
  "map_of (snd (update_row k P f t)) j =
     (if j = k then (case map_of t k of None \<Rightarrow> None | Some v \<Rightarrow> Some (if P v then f v else v))
      else map_of t j)"
  by (auto simp: update_row_def update_conv' split: option.splits)

lemma fst_update_row [table_simps]:
  "fst (update_row k P f t) \<longleftrightarrow> (case map_of t k of None \<Rightarrow> False | Some v \<Rightarrow> P v)"
  by (auto simp: update_row_def split: option.splits)

lemma map_of_delete_row [table_simps]:
  "map_of (delete_row k t) j = (if j = k then None else map_of t j)"
  by (simp add: delete_row_def delete_conv')

lemma distinct_insert_ignore [table_simps]:
  "distinct (keys_of t) \<Longrightarrow> distinct (keys_of (insert_ignore k v t))"
  by (auto simp: insert_ignore_def keys_of_def map_of_eq_None_iff split: option.splits)

lemma distinct_upsert_row [table_simps]:
  "distinct (keys_of t) \<Longrightarrow> distinct (keys_of (upsert_row k v f t))"
  by (simp add: upsert_row_def keys_of_def distinct_map_default)

lemma distinct_update_row [table_simps]:
  "distinct (keys_of t) \<Longrightarrow> distinct (keys_of (snd (update_row k P f t)))"
  by (auto simp: update_row_def keys_of_def distinct_update split: option.splits)

lemma distinct_delete_row [table_simps]:
  "distinct (keys_of t) \<Longrightarrow> distinct (keys_of (delete_row k t))"
  by (simp add: delete_row_def keys_of_def distinct_delete)

lemma update_row_False [table_simps]:
  "\<not> fst (update_row k P f t) \<Longrightarrow> snd (update_row k P f t) = t"
  by (auto simp: update_row_def split: option.splits if_splits)

subsection \<open>Tables without a declared key\<close>

text \<open>
  \<open>UPDATE ... WHERE cond\<close> on a list of rows, and \<open>SELECT COUNT(*) ... WHERE cond\<close>.
\<close>

definition update_where :: "('r \<Rightarrow> bool) \<Rightarrow> ('r \<Rightarrow> 'r) \<Rightarrow> 'r list \<Rightarrow> 'r list" where
  "update_where P f rs = map (\<lambda>r. if P r then f r else r) rs"

definition count_where :: "('r \<Rightarrow> bool) \<Rightarrow> 'r list \<Rightarrow> int" where
  "count_where P rs = int (length (filter P rs))"

definition delete_where :: "('r \<Rightarrow> bool) \<Rightarrow> 'r list \<Rightarrow> 'r list" where
  "delete_where P rs = filter (\<lambda>r. \<not> P r) rs"

lemma length_update_where [simp]: "length (update_where P f rs) = length rs"
  by (simp add: update_where_def)

lemma set_update_where [table_simps]:
  "set (update_where P f rs) = (\<lambda>r. if P r then f r else r) ` set rs"
  by (auto simp: update_where_def)

lemma set_delete_where [table_simps]: "set (delete_where P rs) = {r \<in> set rs. \<not> P r}"
  by (auto simp: delete_where_def)

lemma count_where_nonneg [simp]: "0 \<le> count_where P rs"
  by (simp add: count_where_def)

lemma count_where_Nil [simp]: "count_where P [] = 0"
  by (simp add: count_where_def)

lemma count_where_Cons [simp]:
  "count_where P (r # rs) = (if P r then 1 else 0) + count_where P rs"
  by (simp add: count_where_def)

lemma count_where_append [simp]:
  "count_where P (rs @ qs) = count_where P rs + count_where P qs"
  by (simp add: count_where_def)

lemma count_where_pos: "0 < count_where P rs \<longleftrightarrow> (\<exists>r \<in> set rs. P r)"
  by (induction rs) (auto simp: add_pos_nonneg)

lemma count_where_zero: "count_where P rs = 0 \<longleftrightarrow> (\<forall>r \<in> set rs. \<not> P r)"
  by (induction rs) (auto simp: add_nonneg_eq_0_iff)

lemma count_where_delete:
  "(\<And>r. P r \<Longrightarrow> \<not> Q r) \<Longrightarrow> count_where P (delete_where Q rs) = count_where P rs"
  by (induction rs) (auto simp: delete_where_def)

lemma count_where_mono:
  "(\<And>r. r \<in> set rs \<Longrightarrow> P r \<Longrightarrow> Q r) \<Longrightarrow> count_where P rs \<le> count_where Q rs"
  by (induction rs) auto

lemma count_where_filter: "count_where P (filter Q rs) = count_where (\<lambda>r. P r \<and> Q r) rs"
  by (induction rs) auto

lemma count_where_cong:
  "(\<And>r. r \<in> set rs \<Longrightarrow> P r = Q r) \<Longrightarrow> count_where P rs = count_where Q rs"
  by (induction rs) auto

lemma filter_update_where_None:
  "(\<And>r. P r \<Longrightarrow> \<not> Q (f r)) \<Longrightarrow> (\<And>r. Q r \<Longrightarrow> P r) \<Longrightarrow> filter Q (update_where P f rs) = []"
  by (induction rs) (auto simp: update_where_def)

lemma count_update_where:
  "(\<And>r. P r \<Longrightarrow> Q (f r) = Q r) \<Longrightarrow> count_where Q (update_where P f rs) = count_where Q rs"
  by (induction rs) (auto simp: update_where_def)

subsection \<open>Tables with an AUTOINCREMENT id\<close>

text \<open>
  \<open>ids_ok\<close>: the ids are distinct and at most the sequence counter. \<open>at_most_one P\<close>: for every
  key no two rows satisfy \<open>P\<close>. Both are kept by updates that leave ids alone and only falsify
  \<open>P\<close>, by deletions, and by an insertion with the next id.
\<close>

definition ids_ok :: "('r \<Rightarrow> int) \<Rightarrow> 'r list \<Rightarrow> int \<Rightarrow> bool" where
  "ids_ok idf rs seq \<longleftrightarrow> distinct (map idf rs) \<and> (\<forall>r \<in> set rs. idf r \<le> seq)"

definition at_most_one :: "('k \<Rightarrow> 'r \<Rightarrow> bool) \<Rightarrow> 'r list \<Rightarrow> bool" where
  "at_most_one P rs \<longleftrightarrow> (\<forall>k. count_where (P k) rs \<le> 1)"

named_theorems table_intros \<open>introduction rules for the table invariants\<close>

lemma ids_ok_Nil [table_intros]: "ids_ok idf [] seq"
  by (simp add: ids_ok_def)

lemma map_update_where:
  "(\<And>r. P r \<Longrightarrow> h (f r) = h r) \<Longrightarrow> map h (update_where P f rs) = map h rs"
  by (auto simp: update_where_def)

lemma ids_ok_update_where [table_intros]:
  assumes "\<And>r. P r \<Longrightarrow> idf (f r) = idf r" and "ids_ok idf rs seq"
  shows "ids_ok idf (update_where P f rs) seq"
  using assms by (auto simp: ids_ok_def map_update_where set_update_where)

lemma ids_ok_delete_where [table_intros]:
  "ids_ok idf rs seq \<Longrightarrow> ids_ok idf (delete_where P rs) seq"
  by (auto simp: ids_ok_def delete_where_def distinct_map_filter)

lemma ids_ok_snoc [table_intros]:
  "ids_ok idf rs seq \<Longrightarrow> idf r = seq + 1 \<Longrightarrow> ids_ok idf (rs @ [r]) (seq + 1)"
  by (fastforce simp: ids_ok_def)

lemma at_most_one_Nil [table_intros]: "at_most_one P []"
  by (simp add: at_most_one_def)

lemma count_update_where_le:
  "(\<And>r. P r \<Longrightarrow> Q (f r) \<Longrightarrow> Q r) \<Longrightarrow> count_where Q (update_where P f rs) \<le> count_where Q rs"
  by (induction rs) (auto simp: update_where_def intro: add_increasing)

lemma at_most_one_update_where [table_intros]:
  assumes "\<And>k r. P r \<Longrightarrow> Q k (f r) \<Longrightarrow> Q k r" and "at_most_one Q rs"
  shows "at_most_one Q (update_where P f rs)"
  unfolding at_most_one_def
proof
  fix k
  have "count_where (Q k) (update_where P f rs) \<le> count_where (Q k) rs"
    by (rule count_update_where_le) (rule assms(1))
  moreover from assms(2) have "count_where (Q k) rs \<le> 1" by (simp add: at_most_one_def)
  ultimately show "count_where (Q k) (update_where P f rs) \<le> 1" by simp
qed

lemma count_delete_where_le: "count_where Q (delete_where P rs) \<le> count_where Q rs"
  by (induction rs) (auto simp: delete_where_def)

lemma at_most_one_delete_where [table_intros]:
  "at_most_one Q rs \<Longrightarrow> at_most_one Q (delete_where P rs)"
  unfolding at_most_one_def by (meson count_delete_where_le order_trans)

lemma at_most_one_snoc:
  assumes "at_most_one Q rs" and "\<And>k. Q k r \<Longrightarrow> \<forall>x \<in> set rs. \<not> Q k x"
  shows "at_most_one Q (rs @ [r])"
  unfolding at_most_one_def
proof
  fix k
  show "count_where (Q k) (rs @ [r]) \<le> 1"
    using assms count_where_zero [of "Q k" rs] by (auto simp: at_most_one_def)
qed

text \<open>The SQL \<open>COALESCE\<close> of two columns.\<close>

fun coalesce :: "'a option \<Rightarrow> 'a option \<Rightarrow> 'a option" where
  "coalesce (Some x) _ = Some x"
| "coalesce None y = y"

lemma coalesce_None_iff [simp]: "coalesce x y = None \<longleftrightarrow> x = None \<and> y = None"
  by (cases x) auto

subsection \<open>Results that may be an error\<close>

named_theorems return_iff \<open>when a chain of checks returns\<close>

definition then_sum :: "'e + 'a \<Rightarrow> ('a \<Rightarrow> 'e + 'b) \<Rightarrow> 'e + 'b" where
  "then_sum r f = (case r of Inl e \<Rightarrow> Inl e | Inr x \<Rightarrow> f x)"

lemma then_sum_Inr [return_iff]: "then_sum r f = Inr y \<longleftrightarrow> (\<exists>x. r = Inr x \<and> f x = Inr y)"
  by (cases r) (simp_all add: then_sum_def)

end
