(* ===== verification/States.thy ===== *)
theory States
  imports Prelude
begin

text \<open>
  \<open>states.py\<close> and \<open>store/models.py\<close>: the persistent status values, the status sets the
  components branch on, and the row types the store returns. A \<open>SenderState\<close> is the sender's
  row without its \<open>archived_at\<close> column, so the row type extends it.
\<close>

datatype sender_status =
    UNKNOWN | CHALLENGE_ISSUING | CHALLENGE_ARCHIVING | CHALLENGED
  | PROVISIONAL | ALLOWED | QUARANTINED | SUPPRESSED

datatype review_status = RevPending | RevLegitimate | RevSpam | RevDismissed

datatype action_status = ActPending | ActCancelled | ActCompleted | ActFailed

datatype challenge_profile = Standard | Strict

datatype mode = Monitor | Protect

definition CHALLENGE_STARTING_STATUSES :: "sender_status set" where
  "CHALLENGE_STARTING_STATUSES = {CHALLENGE_ISSUING, CHALLENGE_ARCHIVING}"

definition RESTRICTED_STATUSES :: "sender_status set" where
  "RESTRICTED_STATUSES = {QUARANTINED, SUPPRESSED}"

definition GATEKEEPER_ARCHIVED_STATUSES :: "sender_status set" where
  "GATEKEEPER_ARCHIVED_STATUSES = {CHALLENGED} \<union> RESTRICTED_STATUSES"

definition REVIEW_DECISIONS :: "review_status set" where
  "REVIEW_DECISIONS = {RevPending, RevLegitimate, RevSpam, RevDismissed} - {RevPending}"

definition FINISHED_ACTION_STATUSES :: "action_status set" where
  "FINISHED_ACTION_STATUSES =
     {ActPending, ActCancelled, ActCompleted, ActFailed} - {ActPending}"

lemmas status_sets =
  CHALLENGE_STARTING_STATUSES_def RESTRICTED_STATUSES_def GATEKEEPER_ARCHIVED_STATUSES_def
  REVIEW_DECISIONS_def FINISHED_ACTION_STATUSES_def

subsection \<open>Row types\<close>

record sender_state =
  status :: sender_status
  challenge_id :: "string option"
  answer_digest :: "string option"
  challenge_expires_at :: "int option"
  challenge_message_id :: "int option"
  challenge_prompt :: "ustring option"
  challenge_profile :: "challenge_profile option"
  challenge_action_reference :: "blob option"
  restriction_reference :: "blob option"
  guidance_sent :: bool
  attempts :: int
  suppression_reason :: "string option"
  suppressed_until :: "int option"
  revision :: int
  updated_at :: int

record sender_row = sender_state +
  archived_at :: "int option"

record review_item =
  rv_id :: int
  rv_sender :: sender_key
  rv_reference :: "blob option"
  rv_classification :: string
  rv_signals :: string
  rv_features :: string
  rv_status :: review_status
  rv_message_count :: int
  rv_created_at :: int
  rv_updated_at :: int
  rv_expires_at :: int
  rv_reviewed_at :: "int option"

record enforcement_review =
  ev_reference :: "blob option"
  ev_envelope :: blob
  ev_reason :: string
  ev_created_at :: int
  ev_updated_at :: int
  ev_expires_at :: int

record dialog_snapshot =
  folder_id :: int
  silent :: bool
  mute_until :: "int option"

record pending_action =
  act_id :: int
  act_sender :: sender_key
  act_reason :: string
  act_reference :: blob
  act_execute_at :: int
  act_expected_revision :: int
  act_mode_independent :: bool
  act_status :: action_status
  act_created_at :: int
  act_finished_at :: "int option"

record active_restriction =
  ar_sender :: sender_key
  ar_reference :: "blob option"
  ar_status :: sender_status
  ar_reason :: string
  ar_suppressed_until :: "int option"
  ar_updated_at :: int
  ar_envelope :: "blob option"
  ar_evidence_created_at :: "int option"
  ar_evidence_expires_at :: "int option"
  ar_archived_at :: "int option"
  ar_has_open_actions :: bool

end
