(* ===== verification/Store_Base.thy ===== *)
theory Store_Base
  imports States
begin

text \<open>
  \<open>store/schema.py\<close> and \<open>store/base.py\<close>: the tables of the state database as one record, and
  the primitives every aggregate shares. Every operation is a function from the store to the
  store (with a result where the method returns one); a method runs in one SQLite transaction,
  so a function is one atomic step. Arguments called \<open>ts\<close> are the timestamp after the method's
  own default (\<open>now or int(time.time())\<close>) has been resolved. Row ids come from SQLite's
  AUTOINCREMENT sequences, which never reuse an id.
\<close>

subsection \<open>Tables\<close>

datatype outbound_category =
  ObLegacy | ObChallenge | ObNotice | ObChallengeRejected | ObNoticeRejected

record outbound_event =
  ob_sender :: "sender_key option"
  ob_category :: outbound_category
  ob_created_at :: int

record audit_row =
  au_id :: int
  au_sender :: sender_key
  au_rule_code :: string
  au_outcome :: string
  au_created_at :: int

record decision_event =
  de_id :: int
  de_sender :: sender_key
  de_detector :: string
  de_signals :: string
  de_assessment :: string
  de_risk_score :: "int option"
  de_model_version :: "string option"
  de_decision_basis :: string
  de_planned_action :: string
  de_actual_action :: string
  de_policy_version :: string
  de_created_at :: int

record maintenance =
  auto_forgotten :: int
  auto_forget_skipped :: int
  temporary_released :: int

record store =
  pending_review_retention_days :: int
  last_maintenance :: maintenance
  mode_setting :: "mode option"
  heartbeat_setting :: "int option"
  maintenance_setting :: "maintenance option"
  processed_messages :: "((sender_key \<times> int) \<times> string \<times> int) list"
  audit_log :: "audit_row list"
  audit_seq :: int
  link_events :: "(sender_key \<times> int) list"
  outbound_events :: "outbound_event list"
  automated_messages :: "((sender_key \<times> int) \<times> int) list"
  operator_artifacts :: "(int \<times> int \<times> int) list"
  dialog_snapshots :: "(sender_key \<times> dialog_snapshot) list"
  review_queue :: "review_item list"
  review_seq :: int
  pending_actions_table :: "pending_action list"
  action_seq :: int
  decision_events :: "decision_event list"
  decision_seq :: int
  campaign_events :: "((string \<times> sender_key) \<times> int) list"
  enforcement_reviews_table :: "(sender_key \<times> enforcement_review) list"
  sender_table :: "(sender_key \<times> sender_row) list"

definition SCHEMA_VERSION :: int where
  "SCHEMA_VERSION = 8"

definition CAMPAIGN_WINDOW_SECONDS :: int where
  "CAMPAIGN_WINDOW_SECONDS = 7 * 24 * 3600"

text \<open>An open deletion job (\<open>OPEN_ACTION_SQL\<close>) and a confirmed permanent restriction
  (\<open>ARCHIVED_PERMANENT_SQL\<close>).\<close>

definition open_status :: "action_status \<Rightarrow> bool" where
  "open_status st \<longleftrightarrow> st = ActPending \<or> st = ActFailed"

definition open_action :: "store \<Rightarrow> sender_key \<Rightarrow> bool" where
  "open_action s k \<longleftrightarrow>
     list_ex (\<lambda>a. act_sender a = k \<and> open_status (act_status a)) (pending_actions_table s)"

definition archived_permanent :: "sender_row \<Rightarrow> bool" where
  "archived_permanent r \<longleftrightarrow>
     status r = SUPPRESSED \<and> suppressed_until r = None \<and> archived_at r \<noteq> None"

subsection \<open>Opening the database\<close>

text \<open>
  A database file as \<open>initialize_schema\<close> finds it: its \<open>user_version\<close>, whether the
  \<open>operator_artifacts\<close> table and the \<open>archived_at\<close> column exist yet, and its rows. A file
  without a \<open>sender_state\<close> table is \<open>None\<close>.
\<close>

record database =
  db_version :: int
  db_has_artifacts :: bool
  db_has_archived_at :: bool
  db_rows :: store

definition empty_maintenance :: maintenance where
  "empty_maintenance = \<lparr>auto_forgotten = 0, auto_forget_skipped = 0, temporary_released = 0\<rparr>"

definition empty_store :: "int \<Rightarrow> store" where
  "empty_store days =
    \<lparr>pending_review_retention_days = days, last_maintenance = empty_maintenance,
     mode_setting = None, heartbeat_setting = None, maintenance_setting = None,
     processed_messages = [], audit_log = [], audit_seq = 0, link_events = [],
     outbound_events = [], automated_messages = [], operator_artifacts = [],
     dialog_snapshots = [], review_queue = [], review_seq = 0, pending_actions_table = [],
     action_seq = 0, decision_events = [], decision_seq = 0, campaign_events = [],
     enforcement_reviews_table = [], sender_table = []\<rparr>"

definition migrate_v6_to_v7 :: "database \<Rightarrow> database" where
  "migrate_v6_to_v7 d =
    (if db_has_artifacts d then d\<lparr>db_version := 7\<rparr>
     else d\<lparr>db_version := 7, db_has_artifacts := True,
            db_rows := (db_rows d)\<lparr>operator_artifacts := []\<rparr>\<rparr>)"

definition migrate_v7_to_v8 :: "database \<Rightarrow> database" where
  "migrate_v7_to_v8 d =
    (if db_has_archived_at d then d\<lparr>db_version := 8\<rparr>
     else d\<lparr>db_version := 8, db_has_archived_at := True,
            db_rows := (db_rows d)\<lparr>sender_table :=
              map (\<lambda>(k, r). (k, r\<lparr>archived_at := None\<rparr>)) (sender_table (db_rows d))\<rparr>\<rparr>)"

definition initialize_schema :: "int \<Rightarrow> database option \<Rightarrow> string + database" where
  "initialize_schema days f = (case f of
      None \<Rightarrow> Inr \<lparr>db_version = SCHEMA_VERSION, db_has_artifacts = True,
                   db_has_archived_at = True, db_rows = empty_store days\<rparr>
    | Some d \<Rightarrow>
        (let d = (if db_version d = 6 then migrate_v6_to_v7 d else d);
             d = (if db_version d = 7 then migrate_v7_to_v8 d else d)
         in if db_version d \<noteq> SCHEMA_VERSION then Inl ''StoreMigrationError'' else Inr d))"

definition open_store :: "int \<Rightarrow> database option \<Rightarrow> string + store" where
  "open_store days f =
    (if \<not> (1 \<le> days \<and> days \<le> 7) then Inl ''ValueError''
     else (case initialize_schema days f of
        Inl e \<Rightarrow> Inl e
      | Inr d \<Rightarrow>
          (let s = (db_rows d)\<lparr>pending_review_retention_days := days,
                               last_maintenance := empty_maintenance\<rparr>
           in Inr (case mode_setting s of
                None \<Rightarrow> s\<lparr>mode_setting := Some Monitor\<rparr> | Some _ \<Rightarrow> s))))"

subsection \<open>Settings\<close>

definition heartbeat :: "int \<Rightarrow> store \<Rightarrow> store" where
  "heartbeat ts s = s\<lparr>heartbeat_setting := Some ts\<rparr>"

definition healthy :: "int \<Rightarrow> int \<Rightarrow> int \<Rightarrow> store \<Rightarrow> bool" where
  "healthy max_age max_future_skew ts s = (case heartbeat_setting s of
      None \<Rightarrow> False
    | Some beat \<Rightarrow> (let age = ts - beat in - max_future_skew \<le> age \<and> age \<le> max_age))"

definition get_mode :: "store \<Rightarrow> mode" where
  "get_mode s = (case mode_setting s of Some m \<Rightarrow> m | None \<Rightarrow> Monitor)"

definition has_pending_review :: "sender_key \<Rightarrow> store \<Rightarrow> bool" where
  "has_pending_review k s \<longleftrightarrow>
     list_ex (\<lambda>r. rv_sender r = k \<and> rv_status r = RevPending) (review_queue s)"

text \<open>\<open>INSERT INTO review_queue\<close> with the columns the callers supply and the table's defaults
  (status pending, a message count of one).\<close>

definition insert_review ::
  "sender_key \<Rightarrow> blob option \<Rightarrow> string \<Rightarrow> string \<Rightarrow> string \<Rightarrow> int \<Rightarrow> int \<Rightarrow> store \<Rightarrow> int \<times> store" where
  "insert_review k reference classification signals features expires_at ts s =
    (let i = review_seq s + 1 in
     (i, s\<lparr>review_seq := i,
           review_queue := review_queue s @
             [\<lparr>rv_id = i, rv_sender = k, rv_reference = reference,
               rv_classification = classification, rv_signals = signals,
               rv_features = features, rv_status = RevPending, rv_message_count = 1,
               rv_created_at = ts, rv_updated_at = ts, rv_expires_at = expires_at,
               rv_reviewed_at = None\<rparr>]\<rparr>))"

definition mode_bound_pending :: "pending_action \<Rightarrow> bool" where
  "mode_bound_pending a \<longleftrightarrow> act_status a = ActPending \<and> \<not> act_mode_independent a"

definition cancel_action :: "int \<Rightarrow> pending_action \<Rightarrow> pending_action" where
  "cancel_action ts a = a\<lparr>act_status := ActCancelled, act_finished_at := Some ts\<rparr>"

fun queue_cancelled :: "int \<Rightarrow> pending_action list \<Rightarrow> store \<Rightarrow> store" where
  "queue_cancelled ts [] s = s"
| "queue_cancelled ts (a # items) s =
     queue_cancelled ts items
       (if has_pending_review (act_sender a) s then s
        else snd (insert_review (act_sender a) (Some (act_reference a))
               (''cancelled_'' @ act_reason a) ''[]'' ''{}''
               (ts + pending_review_retention_days s * 86400) ts s))"

definition set_mode :: "mode \<Rightarrow> int \<Rightarrow> store \<Rightarrow> store" where
  "set_mode m ts s =
    (let s = s\<lparr>mode_setting := map_option (\<lambda>_. m) (mode_setting s)\<rparr> in
     if m = Monitor then
       (let pending = filter mode_bound_pending (pending_actions_table s)
        in queue_cancelled ts pending
             (s\<lparr>pending_actions_table :=
                 update_where mode_bound_pending (cancel_action ts) (pending_actions_table s)\<rparr>))
     else s)"

subsection \<open>Processed messages\<close>

definition claim_message :: "sender_key \<Rightarrow> int \<Rightarrow> int \<Rightarrow> store \<Rightarrow> bool \<times> store" where
  "claim_message k message_id ts s =
    (map_of (processed_messages s) (k, message_id) = None,
     s\<lparr>processed_messages :=
         insert_ignore (k, message_id) (''claimed'', ts) (processed_messages s)\<rparr>)"

definition finish_message :: "sender_key \<Rightarrow> int \<Rightarrow> string \<Rightarrow> store \<Rightarrow> store" where
  "finish_message k message_id outcome s =
    s\<lparr>processed_messages :=
        snd (update_row (k, message_id) (\<lambda>_. True) (\<lambda>(_, at). (outcome, at))
               (processed_messages s))\<rparr>"

subsection \<open>Sender rows\<close>

definition unknown_sender :: sender_state where
  "unknown_sender =
    \<lparr>status = UNKNOWN, challenge_id = None, answer_digest = None, challenge_expires_at = None,
     challenge_message_id = None, challenge_prompt = None, challenge_profile = None,
     challenge_action_reference = None, restriction_reference = None, guidance_sent = False,
     attempts = 0, suppression_reason = None, suppressed_until = None, revision = 0,
     updated_at = 0\<rparr>"

definition sender :: "sender_key \<Rightarrow> store \<Rightarrow> sender_state" where
  "sender k s = (case map_of (sender_table s) k of
      None \<Rightarrow> unknown_sender | Some r \<Rightarrow> sender_state.truncate r)"

text \<open>The row that \<open>_set_state\<close> inserts; on a conflict every column but \<open>revision\<close> takes the
  inserted value.\<close>

definition set_state_row ::
  "sender_status \<Rightarrow> string option \<Rightarrow> string option \<Rightarrow> int option \<Rightarrow> int \<Rightarrow> blob option \<Rightarrow> int
   \<Rightarrow> int \<Rightarrow> sender_row" where
  "set_state_row st cid digest expires_at att restriction n ts =
    \<lparr>status = st, challenge_id = cid, answer_digest = digest,
     challenge_expires_at = expires_at, challenge_message_id = None, challenge_prompt = None,
     challenge_profile = None, challenge_action_reference = None,
     restriction_reference = restriction, guidance_sent = False, attempts = att,
     suppression_reason = None, suppressed_until = None, revision = n, updated_at = ts,
     archived_at = None\<rparr>"

definition set_state ::
  "sender_key \<Rightarrow> sender_status \<Rightarrow> string option \<Rightarrow> string option \<Rightarrow> int option \<Rightarrow> int
   \<Rightarrow> blob option \<Rightarrow> int \<Rightarrow> store \<Rightarrow> store" where
  "set_state k st cid digest expires_at att restriction ts s =
    s\<lparr>sender_table :=
        upsert_row k (set_state_row st cid digest expires_at att restriction 1 ts)
          (\<lambda>r. set_state_row st cid digest expires_at att restriction (revision r + 1) ts)
          (sender_table s)\<rparr>"

definition resolve_sender_actions :: "sender_key \<Rightarrow> int \<Rightarrow> store \<Rightarrow> int \<times> store" where
  "resolve_sender_actions k ts s =
    (let matching = (\<lambda>a. act_sender a = k \<and> open_status (act_status a)) in
     (count_where matching (pending_actions_table s),
      s\<lparr>pending_actions_table :=
          update_where matching (cancel_action ts) (pending_actions_table s)\<rparr>))"

definition delete_enforcement_review :: "sender_key \<Rightarrow> store \<Rightarrow> bool \<times> store" where
  "delete_enforcement_review k s =
    (map_of (enforcement_reviews_table s) k \<noteq> None,
     s\<lparr>enforcement_reviews_table := delete_row k (enforcement_reviews_table s)\<rparr>)"

definition expired_suppression :: "int \<Rightarrow> sender_row \<Rightarrow> bool" where
  "expired_suppression ts r \<longleftrightarrow>
     status r = SUPPRESSED \<and> (case suppressed_until r of None \<Rightarrow> False | Some u \<Rightarrow> u \<le> ts)"

definition released_row :: "int \<Rightarrow> sender_row \<Rightarrow> sender_row" where
  "released_row ts r =
    r\<lparr>status := UNKNOWN, suppression_reason := None, suppressed_until := None,
      challenge_action_reference := None, restriction_reference := None,
      revision := revision r + 1, archived_at := None, updated_at := ts\<rparr>"

definition release_expired_suppression_row ::
  "sender_key \<Rightarrow> int \<Rightarrow> store \<Rightarrow> bool \<times> store" where
  "release_expired_suppression_row k ts s =
    (let (released, senders) =
           update_row k (expired_suppression ts) (released_row ts) (sender_table s)
     in if \<not> released then (False, s)
        else (True,
          s\<lparr>sender_table := senders,
            pending_actions_table := update_where
              (\<lambda>a. act_sender a = k \<and> open_status (act_status a))
              (\<lambda>a. (cancel_action ts a)\<lparr>act_reference := []\<rparr>) (pending_actions_table s),
            enforcement_reviews_table := delete_row k (enforcement_reviews_table s),
            review_queue := delete_where (\<lambda>r. rv_sender r = k) (review_queue s),
            dialog_snapshots := delete_row k (dialog_snapshots s)\<rparr>))"

definition erase_sender_rows :: "sender_key \<Rightarrow> store \<Rightarrow> store" where
  "erase_sender_rows k s =
    s\<lparr>processed_messages := delete_where (\<lambda>((j, _), _). j = k) (processed_messages s),
      audit_log := delete_where (\<lambda>a. au_sender a = k) (audit_log s),
      link_events := delete_where (\<lambda>(j, _). j = k) (link_events s),
      outbound_events := delete_where (\<lambda>e. ob_sender e = Some k) (outbound_events s),
      automated_messages := delete_where (\<lambda>((j, _), _). j = k) (automated_messages s),
      dialog_snapshots := delete_row k (dialog_snapshots s),
      review_queue := delete_where (\<lambda>r. rv_sender r = k) (review_queue s),
      pending_actions_table := delete_where (\<lambda>a. act_sender a = k) (pending_actions_table s),
      decision_events := delete_where (\<lambda>d. de_sender d = k) (decision_events s),
      campaign_events := delete_where (\<lambda>((_, j), _). j = k) (campaign_events s),
      enforcement_reviews_table := delete_row k (enforcement_reviews_table s),
      sender_table := delete_row k (sender_table s)\<rparr>"

definition audit :: "sender_key \<Rightarrow> string \<Rightarrow> string \<Rightarrow> int \<Rightarrow> store \<Rightarrow> store" where
  "audit k rule_code outcome ts s =
    (let i = audit_seq s + 1 in
     s\<lparr>audit_seq := i,
       audit_log := audit_log s @
         [\<lparr>au_id = i, au_sender = k, au_rule_code = rule_code, au_outcome = outcome,
           au_created_at = ts\<rparr>]\<rparr>)"

subsection \<open>Preflight\<close>

text \<open>The integrity pragma's verdict is SQLite's own and is an argument.\<close>

definition unsafe_pending :: "store \<Rightarrow> pending_action \<Rightarrow> bool" where
  "unsafe_pending s a \<longleftrightarrow> act_status a = ActPending \<and>
     (case map_of (sender_table s) (act_sender a) of
        None \<Rightarrow> True
      | Some r \<Rightarrow> status r \<noteq> SUPPRESSED \<and> status r \<noteq> QUARANTINED
                  \<or> revision r \<noteq> act_expected_revision a)"

definition protect_preflight :: "int \<Rightarrow> bool \<Rightarrow> int \<Rightarrow> store \<Rightarrow> string list" where
  "protect_preflight max_heartbeat_age integrity_ok ts s =
    (if healthy max_heartbeat_age 5 ts s then [] else [''service heartbeat is stale''])
    @ (if integrity_ok then [] else [''database integrity check failed''])
    @ (if count_where (\<lambda>(k, r). status r \<in> {CHALLENGE_ISSUING, CHALLENGE_ARCHIVING, CHALLENGED})
            (sender_table s) \<noteq> 0
       then [''active challenges exist''] else [])
    @ (if count_where (\<lambda>a. act_status a = ActFailed) (pending_actions_table s) \<noteq> 0
       then [''failed actions require review''] else [])
    @ (if count_where (unsafe_pending s) (pending_actions_table s) \<noteq> 0
       then [''stale pending actions require review''] else [])"

lemmas base_defs [store_defs] =
  heartbeat_def set_mode_def claim_message_def finish_message_def set_state_def
  resolve_sender_actions_def delete_enforcement_review_def release_expired_suppression_row_def
  erase_sender_rows_def audit_def insert_review_def

end
