(* ===== verification/Store_Challenges.thy ===== *)
theory Store_Challenges
  imports Store_Base
begin

text \<open>
  \<open>store/challenges.py\<close>: the arithmetic challenge lifecycle on the sender's row. Each
  transition is an \<open>UPDATE ... WHERE status=...\<close>, so a transition that does not fit the row's
  status changes nothing and returns False.
\<close>

definition set_challenge ::
  "sender_key \<Rightarrow> string \<Rightarrow> string \<Rightarrow> int \<Rightarrow> int \<Rightarrow> int \<Rightarrow> store \<Rightarrow> store" where
  "set_challenge k cid digest expires_at message_id ts s =
    s\<lparr>sender_table := upsert_row k
        \<lparr>status = CHALLENGED, challenge_id = Some cid, answer_digest = Some digest,
         challenge_expires_at = Some expires_at, challenge_message_id = Some message_id,
         challenge_prompt = None, challenge_profile = Some Standard,
         challenge_action_reference = None, restriction_reference = None,
         guidance_sent = False, attempts = 0, suppression_reason = None,
         suppressed_until = None, revision = 0, updated_at = ts, archived_at = None\<rparr>
        (\<lambda>r. r\<lparr>status := CHALLENGED, challenge_id := Some cid, answer_digest := Some digest,
               challenge_expires_at := Some expires_at,
               challenge_message_id := Some message_id, challenge_prompt := None,
               challenge_profile := Some Standard, challenge_action_reference := None,
               restriction_reference := None, guidance_sent := False, attempts := 0,
               updated_at := ts\<rparr>)
        (sender_table s)\<rparr>"

definition begin_challenge_issue ::
  "sender_key \<Rightarrow> string \<Rightarrow> string \<Rightarrow> int \<Rightarrow> ustring \<Rightarrow> blob option \<Rightarrow> challenge_profile \<Rightarrow> int
   \<Rightarrow> store \<Rightarrow> store" where
  "begin_challenge_issue k cid digest expires_at prompt action_reference profile ts s =
    s\<lparr>sender_table := upsert_row k
        \<lparr>status = CHALLENGE_ISSUING, challenge_id = Some cid, answer_digest = Some digest,
         challenge_expires_at = Some expires_at, challenge_message_id = None,
         challenge_prompt = Some prompt, challenge_profile = Some profile,
         challenge_action_reference = action_reference, restriction_reference = None,
         guidance_sent = False, attempts = 0, suppression_reason = None,
         suppressed_until = None, revision = 0, updated_at = ts, archived_at = None\<rparr>
        (\<lambda>r. r\<lparr>status := CHALLENGE_ISSUING, challenge_id := Some cid,
               answer_digest := Some digest, challenge_expires_at := Some expires_at,
               challenge_message_id := None, challenge_prompt := Some prompt,
               challenge_profile := Some profile,
               challenge_action_reference := action_reference,
               restriction_reference := None, guidance_sent := False, attempts := 0,
               updated_at := ts\<rparr>)
        (sender_table s)\<rparr>"

text \<open>One \<open>UPDATE sender_state ... WHERE sender_key=? AND cond\<close>; True when a row matched.\<close>

definition update_sender ::
  "sender_key \<Rightarrow> (sender_row \<Rightarrow> bool) \<Rightarrow> (sender_row \<Rightarrow> sender_row) \<Rightarrow> store \<Rightarrow> bool \<times> store" where
  "update_sender k P f s =
    (fst (update_row k P f (sender_table s)),
     s\<lparr>sender_table := snd (update_row k P f (sender_table s))\<rparr>)"

definition bind_challenge_message ::
  "sender_key \<Rightarrow> int \<Rightarrow> int \<Rightarrow> store \<Rightarrow> bool \<times> store" where
  "bind_challenge_message k message_id ts =
    update_sender k (\<lambda>r. status r = CHALLENGE_ISSUING)
      (\<lambda>r. r\<lparr>status := CHALLENGE_ARCHIVING, challenge_message_id := Some message_id,
             updated_at := ts\<rparr>)"

definition activate_challenge :: "sender_key \<Rightarrow> int \<Rightarrow> store \<Rightarrow> bool \<times> store" where
  "activate_challenge k ts =
    update_sender k (\<lambda>r. status r = CHALLENGE_ARCHIVING)
      (\<lambda>r. r\<lparr>status := CHALLENGED, challenge_prompt := None, revision := revision r + 1,
             updated_at := ts\<rparr>)"

definition reset_incomplete_challenge :: "sender_key \<Rightarrow> int \<Rightarrow> store \<Rightarrow> bool \<times> store" where
  "reset_incomplete_challenge k ts s =
    (let (changed, s') = update_sender k (\<lambda>r. status r \<in> CHALLENGE_STARTING_STATUSES)
           (\<lambda>r. r\<lparr>status := UNKNOWN, challenge_id := None, answer_digest := None,
                  challenge_expires_at := None, challenge_message_id := None,
                  challenge_prompt := None, challenge_profile := None,
                  challenge_action_reference := None, restriction_reference := None,
                  guidance_sent := False, attempts := 0, updated_at := ts\<rparr>) s
     in if changed then (True, snd (delete_enforcement_review k s')) else (False, s'))"

definition mark_provisional :: "sender_key \<Rightarrow> int \<Rightarrow> store \<Rightarrow> store" where
  "mark_provisional k ts s =
    snd (delete_enforcement_review k (set_state k PROVISIONAL None None None 0 None ts s))"

definition mark_challenge_guidance_sent :: "sender_key \<Rightarrow> store \<Rightarrow> bool \<times> store" where
  "mark_challenge_guidance_sent k =
    update_sender k (\<lambda>r. status r = CHALLENGED \<and> \<not> guidance_sent r)
      (\<lambda>r. r\<lparr>guidance_sent := True\<rparr>)"

definition refresh_challenge_expiry ::
  "sender_key \<Rightarrow> int \<Rightarrow> int \<Rightarrow> store \<Rightarrow> bool \<times> store" where
  "refresh_challenge_expiry k expires_at ts =
    update_sender k (\<lambda>r. status r = CHALLENGE_ISSUING)
      (\<lambda>r. r\<lparr>challenge_expires_at := Some expires_at, updated_at := ts\<rparr>)"

definition expire_challenge_row ::
  "sender_key \<Rightarrow> int \<Rightarrow> int \<Rightarrow> int \<Rightarrow> blob option \<Rightarrow> store \<Rightarrow> bool \<times> store" where
  "expire_challenge_row k expires_at ts suppression_seconds restriction =
    update_sender k
      (\<lambda>r. status r = CHALLENGED \<and> challenge_expires_at r = Some expires_at)
      (\<lambda>r. r\<lparr>status := SUPPRESSED, challenge_id := None, answer_digest := None,
             challenge_expires_at := None, challenge_message_id := None,
             challenge_prompt := None, challenge_profile := None, guidance_sent := False,
             attempts := 0, suppression_reason := Some ''challenge_timeout'',
             suppressed_until := Some (ts + suppression_seconds),
             restriction_reference := restriction, revision := revision r + 1,
             updated_at := ts\<rparr>)"

definition challenge_states :: "store \<Rightarrow> (sender_key \<times> sender_state) list" where
  "challenge_states s =
    map (\<lambda>(k, _). (k, sender k s))
      (filter (\<lambda>(_, r). status r \<in> {CHALLENGE_ISSUING, CHALLENGE_ARCHIVING, CHALLENGED})
         (sender_table s))"

definition increment_attempts :: "sender_key \<Rightarrow> int \<Rightarrow> store \<Rightarrow> int \<times> store" where
  "increment_attempts k ts s =
    (let s' = snd (update_sender k (\<lambda>_. True)
           (\<lambda>r. r\<lparr>attempts := attempts r + 1, updated_at := ts\<rparr>) s)
     in (case map_of (sender_table s') k of None \<Rightarrow> 0 | Some r \<Rightarrow> attempts r, s'))"

fun max_option :: "int list \<Rightarrow> int option" where
  "max_option [] = None"
| "max_option (x # xs) = Some (foldl max x xs)"

definition latest_challenge_started_at :: "sender_key \<Rightarrow> int \<Rightarrow> store \<Rightarrow> int option" where
  "latest_challenge_started_at k before s =
    max_option (map (\<lambda>(_, _, at). at)
      (filter (\<lambda>((j, _), outcome, at). j = k \<and> outcome = ''challenged'' \<and> at \<le> before)
         (processed_messages s)))"

definition latest_challenge_terminal_event ::
  "sender_key \<Rightarrow> int \<Rightarrow> store \<Rightarrow> (string \<times> string) option" where
  "latest_challenge_terminal_event k since s =
    (case rev (sort_key au_id (filter (\<lambda>a. au_sender a = k \<and> au_created_at a \<ge> since
              \<and> au_rule_code a \<in> {''attempts_exhausted'', ''CHALLENGE_TIMEOUT''})
            (audit_log s))) of
       [] \<Rightarrow> None
     | a # _ \<Rightarrow> Some (au_rule_code a, au_outcome a))"

lemmas challenge_defs [store_defs] =
  set_challenge_def begin_challenge_issue_def update_sender_def bind_challenge_message_def
  activate_challenge_def reset_incomplete_challenge_def mark_provisional_def
  mark_challenge_guidance_sent_def refresh_challenge_expiry_def expire_challenge_row_def
  increment_attempts_def

end
