(* ===== verification/Store_Senders.thy ===== *)
theory Store_Senders
  imports Store_Challenges
begin

text \<open>
  \<open>store/senders.py\<close>: trust-state transitions outside the challenge flow.
\<close>

definition allow :: "sender_key \<Rightarrow> int \<Rightarrow> store \<Rightarrow> store" where
  "allow k ts s =
    (let s = set_state k ALLOWED None None None 0 None ts s;
         s = snd (resolve_sender_actions k ts s)
     in snd (delete_enforcement_review k s))"

definition revoke :: "sender_key \<Rightarrow> int \<Rightarrow> store \<Rightarrow> store" where
  "revoke k ts s =
    (let s = set_state k UNKNOWN None None None 0 None ts s
     in snd (resolve_sender_actions k ts s))"

definition reset_test_sender_row :: "sender_key \<Rightarrow> int \<Rightarrow> int \<Rightarrow> store \<Rightarrow> bool \<times> store" where
  "reset_test_sender_row k expected_updated_at ts s =
    (let (changed, s') = update_sender k
           (\<lambda>r. updated_at r = expected_updated_at
                \<and> status r \<in> {PROVISIONAL, QUARANTINED, SUPPRESSED})
           (\<lambda>r. r\<lparr>status := UNKNOWN, challenge_id := None, answer_digest := None,
                  challenge_expires_at := None, challenge_message_id := None,
                  challenge_prompt := None, challenge_profile := None,
                  challenge_action_reference := None, restriction_reference := None,
                  guidance_sent := False, attempts := 0, suppression_reason := None,
                  suppressed_until := None, archived_at := None, revision := revision r + 1,
                  updated_at := ts\<rparr>) s
     in if changed then (True, snd (delete_enforcement_review k s')) else (False, s'))"

definition quarantine :: "sender_key \<Rightarrow> blob option \<Rightarrow> int \<Rightarrow> store \<Rightarrow> store" where
  "quarantine k restriction ts s = set_state k QUARANTINED None None None 0 restriction ts s"

definition suppress ::
  "sender_key \<Rightarrow> string \<Rightarrow> int option \<Rightarrow> blob option \<Rightarrow> blob option \<Rightarrow> int \<Rightarrow> store
   \<Rightarrow> sender_state \<times> store" where
  "suppress k reason until reference restriction ts s =
    (let s' = s\<lparr>sender_table := upsert_row k
          \<lparr>status = SUPPRESSED, challenge_id = None, answer_digest = None,
           challenge_expires_at = None, challenge_message_id = None, challenge_prompt = None,
           challenge_profile = None, challenge_action_reference = reference,
           restriction_reference = restriction, guidance_sent = False, attempts = 0,
           suppression_reason = Some reason, suppressed_until = until, revision = 1,
           updated_at = ts, archived_at = None\<rparr>
          (\<lambda>r. r\<lparr>status := SUPPRESSED, challenge_id := None, answer_digest := None,
                 challenge_expires_at := None, challenge_message_id := None,
                 challenge_prompt := None, challenge_profile := None,
                 challenge_action_reference :=
                   coalesce reference (challenge_action_reference r),
                 restriction_reference := coalesce restriction (restriction_reference r),
                 guidance_sent := False, attempts := 0, suppression_reason := Some reason,
                 suppressed_until := until, archived_at := None, revision := revision r + 1,
                 updated_at := ts\<rparr>)
          (sender_table s)\<rparr>
     in (sender k s', s'))"

definition release_expired_suppression :: "sender_key \<Rightarrow> int \<Rightarrow> store \<Rightarrow> bool \<times> store" where
  "release_expired_suppression k ts s = release_expired_suppression_row k ts s"

lemmas sender_defs [store_defs] =
  allow_def revoke_def reset_test_sender_row_def quarantine_def suppress_def
  release_expired_suppression_def

end
