(* ===== verification/Store_Actions.thy ===== *)
theory Store_Actions
  imports Store_Senders
begin

text \<open>
  \<open>store/actions.py\<close>: persistent deletion jobs and the operator-artifact cleanup queue.
\<close>

subsection \<open>Deletion jobs\<close>

definition schedule_action ::
  "sender_key \<Rightarrow> string \<Rightarrow> blob \<Rightarrow> int \<Rightarrow> int \<Rightarrow> bool \<Rightarrow> int \<Rightarrow> store \<Rightarrow> int \<times> store" where
  "schedule_action k reason reference execute_at expected_revision mode_independent ts s =
    (let i = action_seq s + 1 in
     (i, s\<lparr>action_seq := i,
           pending_actions_table :=
             update_where (\<lambda>a. act_sender a = k \<and> act_status a = ActPending) (cancel_action ts)
               (pending_actions_table s)
             @ [\<lparr>act_id = i, act_sender = k, act_reason = reason, act_reference = reference,
                 act_execute_at = execute_at, act_expected_revision = expected_revision,
                 act_mode_independent = mode_independent, act_status = ActPending,
                 act_created_at = ts, act_finished_at = None\<rparr>]\<rparr>))"

definition pending_actions :: "store \<Rightarrow> pending_action list" where
  "pending_actions s =
    sort_key act_execute_at (filter (\<lambda>a. act_status a = ActPending) (pending_actions_table s))"

definition find_pending :: "int \<Rightarrow> store \<Rightarrow> pending_action option" where
  "find_pending i s =
    List.find (\<lambda>a. act_id a = i \<and> act_status a = ActPending) (pending_actions_table s)"

definition pending_action_sender_key :: "int \<Rightarrow> store \<Rightarrow> sender_key option" where
  "pending_action_sender_key i s = map_option act_sender (find_pending i s)"

definition claim_action :: "int \<Rightarrow> int \<Rightarrow> store \<Rightarrow> pending_action option" where
  "claim_action i ts s = (case find_pending i s of
      None \<Rightarrow> None
    | Some a \<Rightarrow>
        if get_mode s \<noteq> Protect \<and> \<not> act_mode_independent a then None
        else (let state = sender (act_sender a) s in
              if status state \<notin> RESTRICTED_STATUSES
                 \<or> revision state \<noteq> act_expected_revision a then None
              else if status state = SUPPRESSED
                 \<and> (case suppressed_until state of None \<Rightarrow> False | Some u \<Rightarrow> u \<le> ts) then None
              else Some a))"

definition finish_action :: "int \<Rightarrow> action_status \<Rightarrow> int \<Rightarrow> store \<Rightarrow> (string + bool) \<times> store" where
  "finish_action i st ts s =
    (if st \<notin> FINISHED_ACTION_STATUSES then (Inl ''ValueError'', s)
     else (let matching = (\<lambda>a. act_id a = i \<and> act_status a = ActPending) in
       (Inr (count_where matching (pending_actions_table s) = 1),
        s\<lparr>pending_actions_table := update_where matching
            (\<lambda>a. if st = ActCompleted
                 then a\<lparr>act_status := st, act_finished_at := Some ts, act_reference := []\<rparr>
                 else a\<lparr>act_status := st, act_finished_at := Some ts\<rparr>)
            (pending_actions_table s)\<rparr>)))"

definition clear_action_reference :: "sender_key \<Rightarrow> int \<Rightarrow> store \<Rightarrow> bool \<times> store" where
  "clear_action_reference k expected_revision =
    update_sender k (\<lambda>r. status r = SUPPRESSED \<and> revision r = expected_revision)
      (\<lambda>r. r\<lparr>challenge_action_reference := None\<rparr>)"

definition enqueue_action_failure :: "pending_action \<Rightarrow> int \<Rightarrow> store \<Rightarrow> store" where
  "enqueue_action_failure a ts s =
    (if has_pending_review (act_sender a) s then s
     else snd (insert_review (act_sender a) (Some (act_reference a))
            (act_reason a @ ''_action_failed'') ''[]'' ''{}''
            (ts + pending_review_retention_days s * 86400) ts s))"

subsection \<open>Operator artifacts\<close>

text \<open>A row is the message id with its deletion deadline and retry count.\<close>

definition schedule_operator_artifacts ::
  "int list \<Rightarrow> int \<Rightarrow> store \<Rightarrow> (string + unit) \<times> store" where
  "schedule_operator_artifacts message_ids delete_at s =
    (let unique_ids = rev (remdups (rev message_ids)) in
     if unique_ids = [] then (Inr (), s)
     else if delete_at < 0 \<or> list_ex (\<lambda>m. m \<le> 0) unique_ids then (Inl ''ValueError'', s)
     else (Inr (), s\<lparr>operator_artifacts :=
       foldl (\<lambda>t m. upsert_row m (delete_at, 0) (\<lambda>(at, n). (min at delete_at, n)) t)
         (operator_artifacts s) unique_ids\<rparr>))"

definition due_operator_artifacts ::
  "int \<Rightarrow> int \<Rightarrow> store \<Rightarrow> string + (int \<times> int) list" where
  "due_operator_artifacts now limit s =
    (if limit < 1 \<or> limit > 1000 then Inl ''ValueError''
     else Inr (map (\<lambda>(m, _, n). (m, n))
       (take (nat limit) (sort_key (\<lambda>(_, at, _). at) (sort_key fst
          (filter (\<lambda>(_, at, _). at \<le> now) (operator_artifacts s)))))))"

definition next_operator_artifact_delete_at :: "store \<Rightarrow> int option" where
  "next_operator_artifact_delete_at s =
    (case map (\<lambda>(_, at, _). at) (operator_artifacts s) of
       [] \<Rightarrow> None | x # xs \<Rightarrow> Some (foldl min x xs))"

definition complete_operator_artifacts :: "int list \<Rightarrow> store \<Rightarrow> store" where
  "complete_operator_artifacts message_ids s =
    s\<lparr>operator_artifacts := foldl (\<lambda>t m. delete_row m t) (operator_artifacts s)
        (rev (remdups (rev message_ids)))\<rparr>"

definition retry_operator_artifacts :: "int list \<Rightarrow> int \<Rightarrow> store \<Rightarrow> store" where
  "retry_operator_artifacts message_ids retry_at s =
    s\<lparr>operator_artifacts :=
        foldl (\<lambda>t m. snd (update_row m (\<lambda>_. True) (\<lambda>(_, n). (retry_at, n + 1)) t))
          (operator_artifacts s) (rev (remdups (rev message_ids)))\<rparr>"

lemmas action_defs [store_defs] =
  schedule_action_def finish_action_def clear_action_reference_def enqueue_action_failure_def
  schedule_operator_artifacts_def complete_operator_artifacts_def retry_operator_artifacts_def

end
