(* ===== verification/Store_Reviews.thy ===== *)
theory Store_Reviews
  imports Store_Actions
begin

text \<open>
  \<open>store/reviews.py\<close>: the pending review queue, at most one pending row per sender.
\<close>

definition pending_review :: "sender_key \<Rightarrow> store \<Rightarrow> review_item option" where
  "pending_review k s =
    List.find (\<lambda>r. rv_sender r = k \<and> rv_status r = RevPending) (review_queue s)"

definition enqueue_review ::
  "sender_key \<Rightarrow> blob \<Rightarrow> string \<Rightarrow> string \<Rightarrow> string \<Rightarrow> int \<Rightarrow> int \<Rightarrow> store \<Rightarrow> int \<times> store" where
  "enqueue_review k reference classification signals features expires_at ts s =
    (case pending_review k s of
       Some pending \<Rightarrow>
         (let this = (\<lambda>r. rv_id r = rv_id pending) in
          (rv_id pending,
           if \<not> (rv_classification pending = ''would_quarantine''
                 \<and> classification \<noteq> ''would_quarantine'')
           then s\<lparr>review_queue := update_where this
                  (\<lambda>r. r\<lparr>rv_reference := Some reference, rv_classification := classification,
                         rv_signals := signals, rv_features := features,
                         rv_message_count := rv_message_count r + 1,
                         rv_updated_at := ts, rv_expires_at := expires_at\<rparr>)
                  (review_queue s)\<rparr>
           else s\<lparr>review_queue := update_where this
                  (\<lambda>r. r\<lparr>rv_message_count := rv_message_count r + 1,
                         rv_updated_at := ts, rv_expires_at := expires_at\<rparr>)
                  (review_queue s)\<rparr>))
     | None \<Rightarrow>
         insert_review k (Some reference) classification signals features expires_at ts s)"

text \<open>\<open>ORDER BY updated_at DESC, id DESC LIMIT ? OFFSET ?\<close>.\<close>

definition page_of :: "int \<Rightarrow> int \<Rightarrow> 'a list \<Rightarrow> 'a list" where
  "page_of limit offset xs = take (nat limit) (drop (nat offset) xs)"

definition review_items :: "int \<Rightarrow> int \<Rightarrow> int \<Rightarrow> store \<Rightarrow> string + review_item list" where
  "review_items limit offset ts s =
    (if limit < 1 \<or> offset < 0 then Inl ''ValueError''
     else Inr (page_of limit offset (sort_key (\<lambda>r. - rv_updated_at r) (sort_key (\<lambda>r. - rv_id r)
       (filter (\<lambda>r. rv_status r = RevPending \<and> rv_expires_at r > ts) (review_queue s))))))"

definition pending_review_count :: "int \<Rightarrow> store \<Rightarrow> int" where
  "pending_review_count ts s =
    count_where (\<lambda>r. rv_status r = RevPending \<and> rv_expires_at r > ts) (review_queue s)"

definition review_item_by_id :: "int \<Rightarrow> store \<Rightarrow> review_item option" where
  "review_item_by_id i s = List.find (\<lambda>r. rv_id r = i) (review_queue s)"

definition close_review :: "review_status \<Rightarrow> int \<Rightarrow> review_item \<Rightarrow> review_item" where
  "close_review st ts r = r\<lparr>rv_status := st, rv_reviewed_at := Some ts, rv_reference := None\<rparr>"

definition decide_review :: "int \<Rightarrow> review_status \<Rightarrow> int \<Rightarrow> store \<Rightarrow> (string + bool) \<times> store" where
  "decide_review i st ts s =
    (if st \<notin> REVIEW_DECISIONS then (Inl ''ValueError'', s)
     else (let matching = (\<lambda>r. rv_id r = i \<and> rv_status r = RevPending) in
       (Inr (count_where matching (review_queue s) = 1),
        s\<lparr>review_queue := update_where matching (close_review st ts) (review_queue s)\<rparr>)))"

definition decide_sender_reviews ::
  "sender_key \<Rightarrow> review_status \<Rightarrow> int \<Rightarrow> store \<Rightarrow> (string + int) \<times> store" where
  "decide_sender_reviews k st ts s =
    (if st \<notin> REVIEW_DECISIONS then (Inl ''ValueError'', s)
     else (let matching = (\<lambda>r. rv_sender r = k \<and> rv_status r = RevPending) in
       (Inr (count_where matching (review_queue s)),
        s\<lparr>review_queue := update_where matching (close_review st ts) (review_queue s),
          pending_actions_table := update_where
            (\<lambda>a. act_sender a = k \<and> open_status (act_status a)) (cancel_action ts)
            (pending_actions_table s)\<rparr>)))"

lemmas review_defs [store_defs] =
  enqueue_review_def decide_review_def decide_sender_reviews_def

end
