(* ===== verification/Store_Restrictions.thy ===== *)
theory Store_Restrictions
  imports Store_Reviews "HOL-Library.List_Lexorder" "HOL-Library.Char_ord"
begin

text \<open>
  \<open>store/restrictions.py\<close>: the restriction lists and counts of the dashboard, evidence
  envelopes, dialog snapshots, archiving and forgetting. \<open>live_review\<close> is the join
  \<open>LEFT JOIN enforcement_reviews AS review ON ... AND review.expires_at>?\<close>.
\<close>

subsection \<open>Dialog snapshots\<close>

definition save_dialog_snapshot :: "sender_key \<Rightarrow> dialog_snapshot \<Rightarrow> store \<Rightarrow> store" where
  "save_dialog_snapshot k d s =
    s\<lparr>dialog_snapshots := insert_ignore k d (dialog_snapshots s)\<rparr>"

definition dialog_snapshot_of :: "sender_key \<Rightarrow> store \<Rightarrow> dialog_snapshot option" where
  "dialog_snapshot_of k s = map_of (dialog_snapshots s) k"

definition clear_dialog_snapshot :: "sender_key \<Rightarrow> store \<Rightarrow> store" where
  "clear_dialog_snapshot k s = s\<lparr>dialog_snapshots := delete_row k (dialog_snapshots s)\<rparr>"

subsection \<open>Evidence envelopes\<close>

definition save_enforcement_review ::
  "sender_key \<Rightarrow> blob option \<Rightarrow> blob \<Rightarrow> string \<Rightarrow> int \<Rightarrow> int \<Rightarrow> store \<Rightarrow> store" where
  "save_enforcement_review k reference envelope reason expires_at ts s =
    s\<lparr>enforcement_reviews_table := insert_ignore k
        \<lparr>ev_reference = reference, ev_envelope = envelope, ev_reason = reason,
         ev_created_at = ts, ev_updated_at = ts, ev_expires_at = expires_at\<rparr>
        (enforcement_reviews_table s)\<rparr>"

definition activate_enforcement_review ::
  "sender_key \<Rightarrow> string \<Rightarrow> int \<Rightarrow> blob option \<Rightarrow> int \<Rightarrow> store \<Rightarrow> bool \<times> store" where
  "activate_enforcement_review k reason expires_at reference ts s =
    (let f = (\<lambda>e. e\<lparr>ev_reference := coalesce (ev_reference e) reference, ev_reason := reason,
                     ev_updated_at := ts, ev_expires_at := expires_at\<rparr>)
     in (fst (update_row k (\<lambda>_. True) f (enforcement_reviews_table s)),
         s\<lparr>enforcement_reviews_table :=
             snd (update_row k (\<lambda>_. True) f (enforcement_reviews_table s))\<rparr>))"

definition live_review :: "sender_key \<Rightarrow> int \<Rightarrow> store \<Rightarrow> enforcement_review option" where
  "live_review k ts s = (case map_of (enforcement_reviews_table s) k of
      None \<Rightarrow> None | Some e \<Rightarrow> if ev_expires_at e > ts then Some e else None)"

definition restricted_row :: "sender_row \<Rightarrow> bool" where
  "restricted_row r \<longleftrightarrow> status r = QUARANTINED \<or> status r = SUPPRESSED"

definition enforcement_review_of ::
  "sender_key \<Rightarrow> int \<Rightarrow> store \<Rightarrow> (enforcement_review \<times> sender_status \<times> int option) option" where
  "enforcement_review_of k ts s = (case (live_review k ts s, map_of (sender_table s) k) of
      (Some e, Some r) \<Rightarrow>
        if restricted_row r then Some (e, status r, suppressed_until r) else None
    | _ \<Rightarrow> None)"

definition enforcement_reviews ::
  "int \<Rightarrow> int \<Rightarrow> store \<Rightarrow> (enforcement_review \<times> sender_status \<times> int option) list" where
  "enforcement_reviews limit ts s =
    take (nat limit) (sort_key (\<lambda>(e, _). - ev_updated_at e)
      (List.map_filter (\<lambda>(k, _). enforcement_review_of k ts s) (enforcement_reviews_table s)))"

subsection \<open>Active restrictions\<close>

definition restriction_reason :: "sender_key \<Rightarrow> sender_row \<Rightarrow> int \<Rightarrow> store \<Rightarrow> string" where
  "restriction_reason k r ts s =
    (case coalesce (suppression_reason r) (map_option ev_reason (live_review k ts s)) of
       Some reason \<Rightarrow> reason
     | None \<Rightarrow>
         if list_ex (\<lambda>v. rv_sender v = k \<and> rv_status v = RevSpam) (review_queue s)
         then ''manual_spam'' else ''reason_unavailable'')"

definition restriction_view :: "int \<Rightarrow> store \<Rightarrow> sender_key \<times> sender_row \<Rightarrow> active_restriction" where
  "restriction_view ts s = (\<lambda>(k, r).
    \<lparr>ar_sender = k, ar_reference = restriction_reference r, ar_status = status r,
     ar_reason = restriction_reason k r ts s, ar_suppressed_until = suppressed_until r,
     ar_updated_at = updated_at r,
     ar_envelope = map_option ev_envelope (live_review k ts s),
     ar_evidence_created_at = map_option ev_created_at (live_review k ts s),
     ar_evidence_expires_at = map_option ev_expires_at (live_review k ts s),
     ar_archived_at = archived_at r, ar_has_open_actions = open_action s k\<rparr>)"

definition active_restriction_of :: "sender_key \<Rightarrow> int \<Rightarrow> store \<Rightarrow> active_restriction option" where
  "active_restriction_of k ts s = (case map_of (sender_table s) k of
      None \<Rightarrow> None
    | Some r \<Rightarrow> if restricted_row r then Some (restriction_view ts s (k, r)) else None)"

text \<open>\<open>_restriction_partition\<close>: the archive, the working queue, or both.\<close>

definition restriction_partition ::
  "bool option \<Rightarrow> store \<Rightarrow> sender_key \<times> sender_row \<Rightarrow> bool" where
  "restriction_partition archived s = (\<lambda>(k, r).
    case archived of
      Some True \<Rightarrow> status r = SUPPRESSED \<and> suppressed_until r = None
                   \<and> archived_at r \<noteq> None \<and> \<not> open_action s k
    | Some False \<Rightarrow> restricted_row r
                   \<and> (status r = QUARANTINED \<or> suppressed_until r \<noteq> None
                      \<or> archived_at r = None \<or> open_action s k)
    | None \<Rightarrow> restricted_row r)"

definition archived_by :: "int \<Rightarrow> sender_row \<Rightarrow> bool" where
  "archived_by cutoff r \<longleftrightarrow> (case archived_at r of None \<Rightarrow> False | Some at \<Rightarrow> at \<le> cutoff)"

definition restriction_filter ::
  "bool option \<Rightarrow> string option \<Rightarrow> int option \<Rightarrow> int \<Rightarrow> store \<Rightarrow> sender_key \<times> sender_row \<Rightarrow> bool" where
  "restriction_filter archived reason archived_before ts s = (\<lambda>(k, r).
    restriction_partition archived s (k, r)
    \<and> (case reason of None \<Rightarrow> True | Some x \<Rightarrow> restriction_reason k r ts s = x)
    \<and> (case archived_before of None \<Rightarrow> True | Some cutoff \<Rightarrow> archived_by cutoff r))"

definition active_restrictions ::
  "bool option \<Rightarrow> string option \<Rightarrow> int option \<Rightarrow> int option \<Rightarrow> int \<Rightarrow> int \<Rightarrow> store
   \<Rightarrow> string + active_restriction list" where
  "active_restrictions archived reason archived_before limit offset ts s =
    (if offset < 0 \<or> (case limit of None \<Rightarrow> False | Some l \<Rightarrow> l < 1) then Inl ''ValueError''
     else (let rows = filter (restriction_filter archived reason archived_before ts s)
                        (sender_table s);
               ordered = sort_key (\<lambda>(_, r).
                   if archived = Some True
                   then - (case archived_at r of None \<Rightarrow> 0 | Some at \<Rightarrow> at)
                   else - updated_at r)
                 (sort_key fst rows);
               paged = (case limit of None \<Rightarrow> ordered | Some l \<Rightarrow> page_of l offset ordered)
           in Inr (map (restriction_view ts s) paged)))"

definition active_restriction_count ::
  "bool option \<Rightarrow> string option \<Rightarrow> int option \<Rightarrow> int \<Rightarrow> store \<Rightarrow> int" where
  "active_restriction_count archived reason archived_before ts s =
    count_where (restriction_filter archived reason archived_before ts s) (sender_table s)"

subsection \<open>Control identities\<close>

definition latest_queue_reference :: "sender_key \<Rightarrow> store \<Rightarrow> blob option" where
  "latest_queue_reference k s =
    (case sort_key (\<lambda>r. - rv_updated_at r)
        (filter (\<lambda>r. rv_sender r = k \<and> rv_reference r \<noteq> None) (review_queue s)) of
       [] \<Rightarrow> None | r # _ \<Rightarrow> rv_reference r)"

definition legacy_restriction_references :: "store \<Rightarrow> (sender_key \<times> blob) list" where
  "legacy_restriction_references s =
    List.map_filter (\<lambda>(k, r).
        if restricted_row r \<and> restriction_reference r = None then
          map_option (Pair k)
            (coalesce (challenge_action_reference r)
              (coalesce (Option.bind (map_of (enforcement_reviews_table s) k) ev_reference)
                (latest_queue_reference k s)))
        else None)
      (sender_table s)"

definition save_restriction_reference :: "sender_key \<Rightarrow> blob \<Rightarrow> store \<Rightarrow> bool \<times> store" where
  "save_restriction_reference k reference =
    update_sender k (\<lambda>r. restricted_row r \<and> restriction_reference r = None)
      (\<lambda>r. r\<lparr>restriction_reference := Some reference\<rparr>)"

subsection \<open>Statistics\<close>

record enforcement_stats =
  es_quarantined :: int
  es_suppressed :: int
  es_reviewable :: int
  es_identifiable :: int
  es_unreviewable :: int
  es_unidentified :: int
  es_reasons :: "(string \<times> int) list"

definition enforcement_statistics :: "bool option \<Rightarrow> int \<Rightarrow> store \<Rightarrow> enforcement_stats" where
  "enforcement_statistics archived ts s =
    (let rows = filter (restriction_partition archived s) (sender_table s);
         reason = (\<lambda>(k, r). restriction_reason k r ts s);
         reviewable = count_where (\<lambda>(k, r). live_review k ts s \<noteq> None) rows;
         identifiable = count_where (\<lambda>(k, r). restriction_reference r \<noteq> None) rows;
         quarantined = count_where (\<lambda>(k, r). status r = QUARANTINED) rows;
         suppressed = count_where (\<lambda>(k, r). status r = SUPPRESSED) rows
     in \<lparr>es_quarantined = quarantined, es_suppressed = suppressed, es_reviewable = reviewable,
         es_identifiable = identifiable,
         es_unreviewable = quarantined + suppressed - reviewable,
         es_unidentified = quarantined + suppressed - identifiable,
         es_reasons = map (\<lambda>x. (x, count_where (\<lambda>row. reason row = x) rows))
            (sort (remdups (map reason rows)))\<rparr>)"

subsection \<open>Archiving and forgetting\<close>

definition archive_restriction :: "sender_key \<Rightarrow> int \<Rightarrow> store \<Rightarrow> bool \<times> store" where
  "archive_restriction k ts =
    update_sender k (\<lambda>r. status r = SUPPRESSED \<and> suppressed_until r = None)
      (\<lambda>r. r\<lparr>archived_at := Some ts\<rparr>)"

definition unarchive_restriction :: "sender_key \<Rightarrow> store \<Rightarrow> bool \<times> store" where
  "unarchive_restriction k =
    update_sender k
      (\<lambda>r. status r = SUPPRESSED \<and> suppressed_until r = None \<and> archived_at r \<noteq> None)
      (\<lambda>r. r\<lparr>archived_at := None\<rparr>)"

definition forgettable :: "int option \<Rightarrow> store \<Rightarrow> sender_key \<times> sender_row \<Rightarrow> bool" where
  "forgettable archived_before s = (\<lambda>(k, r).
    archived_permanent r
    \<and> (case archived_before of None \<Rightarrow> True | Some cutoff \<Rightarrow> archived_by cutoff r)
    \<and> \<not> open_action s k)"

definition forget_restriction :: "sender_key \<Rightarrow> int option \<Rightarrow> store \<Rightarrow> bool \<times> store" where
  "forget_restriction k archived_before s = (case map_of (sender_table s) k of
      None \<Rightarrow> (False, s)
    | Some r \<Rightarrow> if forgettable archived_before s (k, r) then (True, erase_sender_rows k s)
                else (False, s))"

definition archived_before_keys :: "int \<Rightarrow> store \<Rightarrow> sender_key list" where
  "archived_before_keys cutoff s =
    sort (map fst (filter (\<lambda>(k, r). archived_permanent r \<and> archived_by cutoff r)
      (sender_table s)))"

definition maintenance_sender_keys :: "int \<Rightarrow> int option \<Rightarrow> store \<Rightarrow> sender_key list" where
  "maintenance_sender_keys ts retention_days s =
    (let expired = map fst (filter (\<lambda>(k, r). expired_suppression ts r) (sender_table s));
         old = (case retention_days of
             None \<Rightarrow> [] | Some days \<Rightarrow> archived_before_keys (ts - days * 86400) s)
     in sort (remdups (expired @ old)))"

definition archived_before_count :: "int \<Rightarrow> store \<Rightarrow> int" where
  "archived_before_count cutoff s =
    count_where (\<lambda>(k, r). archived_permanent r \<and> archived_by cutoff r \<and> \<not> open_action s k)
      (sender_table s)"

lemmas restriction_defs [store_defs] =
  save_dialog_snapshot_def clear_dialog_snapshot_def save_enforcement_review_def
  activate_enforcement_review_def save_restriction_reference_def archive_restriction_def
  unarchive_restriction_def forget_restriction_def

end
