(* ===== verification/Store_Events.thy ===== *)
theory Store_Events
  imports Store_Restrictions
begin

text \<open>
  \<open>store/events.py\<close>: decision records, the link and campaign windows, the hourly outbound
  quota and the automated-message index.
\<close>

definition record_decision ::
  "sender_key \<Rightarrow> string \<Rightarrow> string \<Rightarrow> string \<Rightarrow> int option \<Rightarrow> string option \<Rightarrow> string \<Rightarrow> string
   \<Rightarrow> string \<Rightarrow> string \<Rightarrow> int \<Rightarrow> store \<Rightarrow> store" where
  "record_decision k detector signals assessment score model_version basis planned actual
     policy ts s =
    (let i = decision_seq s + 1 in
     s\<lparr>decision_seq := i, decision_events := decision_events s @
         [\<lparr>de_id = i, de_sender = k, de_detector = detector, de_signals = signals,
           de_assessment = assessment, de_risk_score = score, de_model_version = model_version,
           de_decision_basis = basis, de_planned_action = planned, de_actual_action = actual,
           de_policy_version = policy, de_created_at = ts\<rparr>]\<rparr>)"

definition recent_link_messages :: "sender_key \<Rightarrow> int \<Rightarrow> int \<Rightarrow> store \<Rightarrow> int" where
  "recent_link_messages k window_seconds ts s =
    count_where (\<lambda>(j, at). j = k \<and> at \<ge> ts - window_seconds) (link_events s)"

definition record_link_message :: "sender_key \<Rightarrow> int \<Rightarrow> store \<Rightarrow> store" where
  "record_link_message k ts s = s\<lparr>link_events := link_events s @ [(k, ts)]\<rparr>"

definition observe_campaign :: "string \<Rightarrow> sender_key \<Rightarrow> int \<Rightarrow> int \<Rightarrow> store \<Rightarrow> int \<times> store" where
  "observe_campaign fingerprint k window_seconds ts s =
    (let cutoff = ts - window_seconds;
         kept = delete_where (\<lambda>(_, at). at < cutoff) (campaign_events s);
         rows = upsert_row (fingerprint, k) ts (\<lambda>_. ts) kept
     in (count_where (\<lambda>((f, _), at). f = fingerprint \<and> at \<ge> cutoff) rows,
         s\<lparr>campaign_events := rows\<rparr>))"

datatype slot_category = ChallengeSlot | NoticeSlot

fun accepted_category :: "slot_category \<Rightarrow> outbound_category" where
  "accepted_category ChallengeSlot = ObChallenge"
| "accepted_category NoticeSlot = ObNotice"

fun rejected_category :: "slot_category \<Rightarrow> outbound_category" where
  "rejected_category ChallengeSlot = ObChallengeRejected"
| "rejected_category NoticeSlot = ObNoticeRejected"

definition counted_event :: "int \<Rightarrow> outbound_event \<Rightarrow> bool" where
  "counted_event cutoff e \<longleftrightarrow>
     ob_created_at e \<ge> cutoff \<and> ob_category e \<in> {ObLegacy, ObChallenge, ObNotice}"

definition claim_outbound_slot ::
  "int \<Rightarrow> int \<Rightarrow> int \<Rightarrow> sender_key \<Rightarrow> slot_category \<Rightarrow> int \<Rightarrow> store \<Rightarrow> (string + bool) \<times> store" where
  "claim_outbound_slot limit notice_reserve notice_sender_limit k category ts s =
    (if limit < 1 then (Inl ''ValueError'', s)
     else if \<not> (0 \<le> notice_reserve \<and> notice_reserve < limit) then (Inl ''ValueError'', s)
     else if notice_sender_limit < 1 then (Inl ''ValueError'', s)
     else if k = [] then (Inl ''ValueError'', s)
     else
       (let cutoff = ts - 3600;
            events = delete_where (\<lambda>e. ob_created_at e < cutoff) (outbound_events s);
            total = count_where (counted_event cutoff) events;
            sender_notices = count_where
              (\<lambda>e. ob_created_at e \<ge> cutoff \<and> ob_sender e = Some k \<and> ob_category e = ObNotice)
              events;
            allowed = total < limit \<and>
              (case category of
                 ChallengeSlot \<Rightarrow> total < limit - notice_reserve
               | NoticeSlot \<Rightarrow> sender_notices < notice_sender_limit)
        in (Inr allowed,
            s\<lparr>outbound_events := events @
                [\<lparr>ob_sender = Some k,
                  ob_category = (if allowed then accepted_category category
                                 else rejected_category category),
                  ob_created_at = ts\<rparr>]\<rparr>)))"

record outbound_stats =
  outbound_total_1h :: int
  outbound_challenge_1h :: int
  outbound_notice_1h :: int
  outbound_quota_rejected_1h :: int

definition outbound_statistics :: "int \<Rightarrow> store \<Rightarrow> outbound_stats" where
  "outbound_statistics ts s =
    (let n = (\<lambda>c. count_where (\<lambda>e. ob_created_at e \<ge> ts - 3600 \<and> ob_category e = c)
                    (outbound_events s))
     in \<lparr>outbound_total_1h = n ObLegacy + n ObChallenge + n ObNotice,
         outbound_challenge_1h = n ObChallenge, outbound_notice_1h = n ObNotice,
         outbound_quota_rejected_1h = n ObChallengeRejected + n ObNoticeRejected\<rparr>)"

definition record_automated_message :: "sender_key \<Rightarrow> int \<Rightarrow> int \<Rightarrow> store \<Rightarrow> store" where
  "record_automated_message k message_id ts s =
    s\<lparr>automated_messages := insert_ignore (k, message_id) ts (automated_messages s)\<rparr>"

text \<open>A \<open>UNION ... ORDER BY message_id\<close> removes duplicates.\<close>

definition message_ids_since :: "sender_key \<Rightarrow> int \<Rightarrow> store \<Rightarrow> int list" where
  "message_ids_since k since s =
    sort (remdups
      (map (\<lambda>((_, m), _). m) (filter (\<lambda>((j, _), _, at). j = k \<and> at \<ge> since) (processed_messages s))
       @ map (\<lambda>((_, m), _). m) (filter (\<lambda>((j, _), at). j = k \<and> at \<ge> since) (automated_messages s))))"

definition message_ids_between :: "sender_key \<Rightarrow> int \<Rightarrow> int \<Rightarrow> store \<Rightarrow> int list" where
  "message_ids_between k lo hi s =
    sort (remdups
      (map (\<lambda>((_, m), _). m)
         (filter (\<lambda>((j, m), _). j = k \<and> lo \<le> m \<and> m \<le> hi) (processed_messages s))
       @ map (\<lambda>((_, m), _). m)
         (filter (\<lambda>((j, m), _). j = k \<and> lo \<le> m \<and> m \<le> hi) (automated_messages s))))"

definition automated_message_ids_between :: "sender_key \<Rightarrow> int \<Rightarrow> int \<Rightarrow> store \<Rightarrow> int list" where
  "automated_message_ids_between k lo hi s =
    sort (map (\<lambda>((_, m), _). m)
      (filter (\<lambda>((j, m), _). j = k \<and> lo \<le> m \<and> m \<le> hi) (automated_messages s)))"

definition is_automated_message :: "sender_key \<Rightarrow> int \<Rightarrow> store \<Rightarrow> bool" where
  "is_automated_message k message_id s \<longleftrightarrow> map_of (automated_messages s) (k, message_id) \<noteq> None"

lemmas event_defs [store_defs] =
  record_decision_def record_link_message_def observe_campaign_def claim_outbound_slot_def
  record_automated_message_def

end
