(* ===== verification/Store_Maintenance.thy ===== *)
theory Store_Maintenance
  imports Store_Events "HOL-Library.Sublist"
begin

text \<open>
  \<open>store/maintenance.py\<close>: retention pruning and the runtime statistics.
\<close>

fun release_all :: "sender_key list \<Rightarrow> int \<Rightarrow> store \<Rightarrow> int \<times> store" where
  "release_all [] ts s = (0, s)"
| "release_all (k # ks) ts s =
     (let (released, s1) = release_expired_suppression_row k ts s;
          (n, s2) = release_all ks ts s1
      in ((if released then 1 else 0) + n, s2))"

text \<open>The pruning of every table by age, between releasing expired suppressions and forgetting
  old archived restrictions.\<close>

definition prune_rows :: "int \<Rightarrow> int \<Rightarrow> store \<Rightarrow> store" where
  "prune_rows cutoff ts s =
    s\<lparr>audit_log := delete_where (\<lambda>a. au_created_at a < cutoff) (audit_log s),
      processed_messages := delete_where (\<lambda>(_, _, at). at < cutoff) (processed_messages s),
      link_events := delete_where (\<lambda>(_, at). at < ts - 3600) (link_events s),
      outbound_events := delete_where (\<lambda>e. ob_created_at e < ts - 3600) (outbound_events s),
      campaign_events := delete_where (\<lambda>(_, at). at < ts - CAMPAIGN_WINDOW_SECONDS)
        (campaign_events s),
      automated_messages := delete_where (\<lambda>(_, at). at < cutoff) (automated_messages s),
      decision_events := delete_where (\<lambda>d. de_created_at d < cutoff) (decision_events s),
      pending_actions_table := delete_where
        (\<lambda>a. (case act_finished_at a of None \<Rightarrow> False | Some at \<Rightarrow> at < cutoff)
             \<and> (act_status a = ActCompleted \<or> act_status a = ActCancelled
                \<or> (act_status a = ActFailed
                   \<and> \<not> (case map_of (sender_table s) (act_sender a) of
                          None \<Rightarrow> False | Some r \<Rightarrow> restricted_row r))))
        (pending_actions_table s),
      review_queue := delete_where
        (\<lambda>r. (rv_status r = RevPending \<and> rv_expires_at r \<le> ts)
             \<or> (rv_status r \<noteq> RevPending
                \<and> (case rv_reviewed_at r of None \<Rightarrow> False | Some at \<Rightarrow> at < cutoff)))
        (review_queue s),
      enforcement_reviews_table := delete_where (\<lambda>(_, e). ev_expires_at e \<le> ts)
        (enforcement_reviews_table s)\<rparr>"

fun erase_all :: "sender_key list \<Rightarrow> store \<Rightarrow> store" where
  "erase_all [] s = s"
| "erase_all (k # ks) s = erase_all ks (erase_sender_rows k s)"

definition permitted_by :: "sender_key list option \<Rightarrow> sender_key \<Rightarrow> bool" where
  "permitted_by lifecycle k \<longleftrightarrow> (case lifecycle of None \<Rightarrow> True | Some ks \<Rightarrow> k \<in> set ks)"

definition prune ::
  "int \<Rightarrow> int \<Rightarrow> int option \<Rightarrow> sender_key list option \<Rightarrow> store \<Rightarrow> maintenance \<times> store" where
  "prune retention_days ts archived_retention lifecycle s =
    (let cutoff = ts - retention_days * 86400;
         expired = filter (permitted_by lifecycle)
           (map fst (filter (\<lambda>(k, r). expired_suppression ts r) (sender_table s)));
         (released, s) = release_all expired ts s;
         s = prune_rows cutoff ts s;
         (forgotten, skipped, s) = (case archived_retention of
             None \<Rightarrow> (0, 0, s)
           | Some days \<Rightarrow>
               (let archive_cutoff = ts - days * 86400;
                    old = (\<lambda>(k, r). archived_permanent r \<and> archived_by archive_cutoff r);
                    skipped = count_where (\<lambda>row. old row \<and> open_action s (fst row))
                                (sender_table s);
                    rows = filter (\<lambda>row. old row \<and> \<not> open_action s (fst row)) (sender_table s);
                    doomed = filter (permitted_by lifecycle) (map fst rows)
                in (int (length doomed), skipped, erase_all doomed s)));
         m = \<lparr>auto_forgotten = forgotten, auto_forget_skipped = skipped,
              temporary_released = released\<rparr>
     in (m, s\<lparr>maintenance_setting := Some m, last_maintenance := m\<rparr>))"

subsection \<open>Statistics\<close>

text \<open>The page counts are SQLite's pragmas and are arguments.\<close>

record database_stats =
  database_page_count :: int
  database_freelist_count :: int
  database_page_size :: int
  database_logical_bytes :: int
  database_freelist_percent :: int

definition database_statistics :: "int \<Rightarrow> int \<Rightarrow> int \<Rightarrow> database_stats" where
  "database_statistics page_count freelist_count page_size =
    \<lparr>database_page_count = page_count, database_freelist_count = freelist_count,
     database_page_size = page_size, database_logical_bytes = page_count * page_size,
     database_freelist_percent =
       (if page_count \<noteq> 0 then freelist_count * 100 div page_count else 0)\<rparr>"

text \<open>SQLite's \<open>LIKE\<close> ignores ASCII case, and \<open>_\<close> in the pattern matches any character.\<close>

definition ascii_upper :: "char \<Rightarrow> char" where
  "ascii_upper c =
    (if 97 \<le> (of_char c :: nat) \<and> (of_char c :: nat) \<le> 122
     then char_of (of_char c - 32 :: nat) else c)"

fun like_prefix :: "string \<Rightarrow> string \<Rightarrow> bool" where
  "like_prefix [] _ = True"
| "like_prefix (p # ps) (c # cs) =
     ((p = CHR ''_'' \<or> ascii_upper p = ascii_upper c) \<and> like_prefix ps cs)"
| "like_prefix (p # ps) [] = False"

fun like_contains :: "string \<Rightarrow> string \<Rightarrow> bool" where
  "like_contains pat [] = like_prefix pat []"
| "like_contains pat (c # cs) = (like_prefix pat (c # cs) \<or> like_contains pat cs)"

datatype stat_value = StatInt int | StatMode mode | StatNone

definition statistics :: "int \<Rightarrow> database_stats \<Rightarrow> store \<Rightarrow> (string \<times> stat_value) list" where
  "statistics ts db s =
    (let state = (\<lambda>st. StatInt (count_where (\<lambda>(_, r). status r = st) (sender_table s)));
         week = ts - 7 * 86400;
         rule = (\<lambda>c. StatInt (count_where (\<lambda>a. au_created_at a \<ge> week \<and> au_rule_code a = c)
                               (audit_log s)));
         adaptive = (\<lambda>d. de_created_at d \<ge> week
                         \<and> de_policy_version d \<in> {''adaptive-v1'', ''adaptive-v2''});
         assessed = (\<lambda>x. StatInt (count_where (\<lambda>d. adaptive d \<and> de_assessment d = x)
                                    (decision_events s)));
         out = outbound_statistics ts s;
         kept = (case maintenance_setting s of None \<Rightarrow> empty_maintenance | Some m \<Rightarrow> m)
     in [(''schema_version'', StatInt SCHEMA_VERSION),
         (''mode'', StatMode (get_mode s)),
         (''allowed'', state ALLOWED),
         (''challenged'', state CHALLENGED),
         (''challenge_issuing'', state CHALLENGE_ISSUING),
         (''challenge_archiving'', state CHALLENGE_ARCHIVING),
         (''provisional'', state PROVISIONAL),
         (''quarantined'', state QUARANTINED),
         (''suppressed'', state SUPPRESSED),
         (''audit_records'', StatInt (int (length (audit_log s)))),
         (''pending_reviews'', StatInt (pending_review_count ts s)),
         (''pending_actions'', StatInt (count_where (\<lambda>a. act_status a = ActPending)
            (pending_actions_table s))),
         (''action_failures'', StatInt (count_where (\<lambda>a. act_status a = ActFailed)
            (pending_actions_table s))),
         (''operator_cleanup_pending'', StatInt (int (length (operator_artifacts s)))),
         (''operator_cleanup_retrying'', StatInt (count_where (\<lambda>(_, _, n). n > 0)
            (operator_artifacts s))),
         (''heartbeat'', (case heartbeat_setting s of
            None \<Rightarrow> StatNone | Some h \<Rightarrow> StatInt h)),
         (''challenge_sent_7d'', rule ''CHALLENGE_SENT''),
         (''challenge_correct_7d'', rule ''CHALLENGE_CORRECT''),
         (''challenge_wrong_reply_7d'', rule ''CHALLENGE_WRONG_REPLY_TARGET''),
         (''challenge_non_numeric_7d'', rule ''CHALLENGE_NON_NUMERIC''),
         (''challenge_timeout_7d'', rule ''CHALLENGE_TIMEOUT''),
         (''challenge_exhausted_7d'', rule ''attempts_exhausted''),
         (''challenge_restore_failed_7d'', rule ''CHALLENGE_RESTORE''),
         (''standard_challenge_7d'', assessed ''standard''),
         (''strict_challenge_7d'', assessed ''strict''),
         (''permanent_suppression_7d'', assessed ''permanent_suppression''),
         (''repeated_campaign_7d'', StatInt (count_where
            (\<lambda>d. adaptive d
                 \<and> like_contains (''\"code\":\"REPEATED_CAMPAIGN\"'') (de_signals d))
            (decision_events s))),
         (''outbound_total_1h'', StatInt (outbound_total_1h out)),
         (''outbound_challenge_1h'', StatInt (outbound_challenge_1h out)),
         (''outbound_notice_1h'', StatInt (outbound_notice_1h out)),
         (''outbound_quota_rejected_1h'', StatInt (outbound_quota_rejected_1h out)),
         (''attention_cases'',
            StatInt (active_restriction_count (Some False) None None ts s)),
         (''archived_restrictions'',
            StatInt (active_restriction_count (Some True) None None ts s)),
         (''database_page_count'', StatInt (database_page_count db)),
         (''database_freelist_count'', StatInt (database_freelist_count db)),
         (''database_page_size'', StatInt (database_page_size db)),
         (''database_logical_bytes'', StatInt (database_logical_bytes db)),
         (''database_freelist_percent'', StatInt (database_freelist_percent db)),
         (''auto_forgotten'', StatInt (auto_forgotten kept)),
         (''auto_forget_skipped'', StatInt (auto_forget_skipped kept)),
         (''temporary_released'', StatInt (temporary_released kept))])"

end
