(* ===== verification/Py_Text.thy ===== *)
theory Py_Text
  imports Prelude
begin

text \<open>
  The string operations of Python's standard library that the program uses, on lists of code
  points: \<open>strip\<close>, \<open>split\<close>, \<open>join\<close>, \<open>in\<close>, \<open>index\<close>, \<open>partition\<close>, \<open>splitlines\<close>, prefix and
  suffix removal, and decimal conversion. Unicode normalisation, case folding, lower-casing,
  the \<open>idna\<close> codec and the parser of IPv6 literals need tables or code of their own; they are
  the fields of a \<open>unicode\<close> record, an argument of the definitions that use them.
\<close>

record unicode =
  nfkc :: "ustring \<Rightarrow> ustring"
  casefold :: "ustring \<Rightarrow> ustring"
  lower :: "ustring \<Rightarrow> ustring"
  idna_encode :: "ustring \<Rightarrow> ustring option"
  bracketed_host_ok :: "ustring \<Rightarrow> bool"

text \<open>\<open>str.isspace\<close> of one character, which is also what \<open>\s\<close> matches.\<close>

definition is_space :: "nat \<Rightarrow> bool" where
  "is_space c \<longleftrightarrow> (9 \<le> c \<and> c \<le> 13) \<or> (28 \<le> c \<and> c \<le> 32) \<or> c = 133 \<or> c = 160 \<or> c = 5760
     \<or> (8192 \<le> c \<and> c \<le> 8202) \<or> c = 8232 \<or> c = 8233 \<or> c = 8239 \<or> c = 8287 \<or> c = 12288"

definition rstrip_set :: "(nat \<Rightarrow> bool) \<Rightarrow> ustring \<Rightarrow> ustring" where
  "rstrip_set P s = rev (dropWhile P (rev s))"

definition strip :: "ustring \<Rightarrow> ustring" where
  "strip s = rstrip_set is_space (dropWhile is_space s)"

text \<open>\<open>s.split()\<close>: the maximal runs of non-space characters.\<close>

fun split_ws :: "ustring \<Rightarrow> ustring \<Rightarrow> ustring list" where
  "split_ws [] acc = (if acc = [] then [] else [rev acc])"
| "split_ws (c # cs) acc =
     (if is_space c then (if acc = [] then split_ws cs [] else rev acc # split_ws cs [])
      else split_ws cs (c # acc))"

fun join :: "'a list \<Rightarrow> 'a list list \<Rightarrow> 'a list" where
  "join sep [] = []"
| "join sep [x] = x"
| "join sep (x # xs) = x @ sep @ join sep xs"

definition starts_with :: "'a list \<Rightarrow> 'a list \<Rightarrow> bool" where
  "starts_with s p \<longleftrightarrow> take (length p) s = p"

definition ends_with :: "'a list \<Rightarrow> 'a list \<Rightarrow> bool" where
  "ends_with s p \<longleftrightarrow> length p \<le> length s \<and> drop (length s - length p) s = p"

definition removeprefix :: "'a list \<Rightarrow> 'a list \<Rightarrow> 'a list" where
  "removeprefix s p = (if starts_with s p then drop (length p) s else s)"

definition removesuffix :: "'a list \<Rightarrow> 'a list \<Rightarrow> 'a list" where
  "removesuffix s p = (if ends_with s p \<and> p \<noteq> [] then take (length s - length p) s else s)"

text \<open>The least offset of a substring, searching the list from its first element on.\<close>

fun find_sub :: "'a list \<Rightarrow> 'a list \<Rightarrow> nat option" where
  "find_sub [] p = (if p = [] then Some 0 else None)"
| "find_sub (c # cs) p =
     (if starts_with (c # cs) p then Some 0 else map_option Suc (find_sub cs p))"

definition contains :: "'a list \<Rightarrow> 'a list \<Rightarrow> bool" where
  "contains s p \<longleftrightarrow> find_sub s p \<noteq> None"

text \<open>\<open>text.index(fragment, start)\<close>: None stands for the \<open>ValueError\<close>.\<close>

definition index_from :: "'a list \<Rightarrow> 'a list \<Rightarrow> nat \<Rightarrow> nat option" where
  "index_from s p start =
    (if start > length s then None else map_option (\<lambda>i. i + start) (find_sub (drop start s) p))"

definition before_first :: "'a \<Rightarrow> 'a list \<Rightarrow> 'a list" where
  "before_first c s = takeWhile (\<lambda>x. x \<noteq> c) s"

definition after_first :: "'a \<Rightarrow> 'a list \<Rightarrow> 'a list" where
  "after_first c s = drop 1 (dropWhile (\<lambda>x. x \<noteq> c) s)"

text \<open>\<open>s.split(sep)\<close> for a one-character separator.\<close>

fun split_on :: "'a \<Rightarrow> 'a list \<Rightarrow> 'a list \<Rightarrow> 'a list list" where
  "split_on c [] acc = [rev acc]"
| "split_on c (x # xs) acc =
     (if x = c then rev acc # split_on c xs [] else split_on c xs (x # acc))"

definition is_line_break :: "nat \<Rightarrow> bool" where
  "is_line_break c \<longleftrightarrow> (10 \<le> c \<and> c \<le> 13) \<or> (28 \<le> c \<and> c \<le> 30) \<or> c = 133 \<or> c = 8232 \<or> c = 8233"

fun splitlines :: "ustring \<Rightarrow> ustring \<Rightarrow> ustring list" where
  "splitlines [] acc = (if acc = [] then [] else [rev acc])"
| "splitlines (c # cs) acc =
     (if c = 13 \<and> take 1 cs = [10] then rev acc # splitlines (drop 1 cs) []
      else if is_line_break c then rev acc # splitlines cs [] else splitlines cs (c # acc))"

subsection \<open>Code points\<close>

text \<open>Halves of surrogate pairs, and the code points that a text encodes on its own.\<close>

definition surrogate :: "nat \<Rightarrow> bool" where
  "surrogate c \<longleftrightarrow> 55296 \<le> c \<and> c \<le> 57343"

definition scalar :: "nat \<Rightarrow> bool" where
  "scalar c \<longleftrightarrow> c < 1114112 \<and> \<not> surrogate c"

subsection \<open>Decimal numbers\<close>

definition is_digit :: "nat \<Rightarrow> bool" where
  "is_digit c \<longleftrightarrow> 48 \<le> c \<and> c \<le> 57"

definition digits_value :: "ustring \<Rightarrow> nat" where
  "digits_value s = foldl (\<lambda>n c. 10 * n + (c - 48)) 0 s"

fun show_nat :: "nat \<Rightarrow> ustring" where
  "show_nat n = (if n < 10 then [48 + n] else show_nat (n div 10) @ [48 + n mod 10])"

declare show_nat.simps [simp del]

definition show_int :: "int \<Rightarrow> ustring" where
  "show_int i = (if i < 0 then 45 # show_nat (nat (- i)) else show_nat (nat i))"

text \<open>An ASCII string of a decimal number, for identifiers built by the program.\<close>

definition ascii_int :: "int \<Rightarrow> string" where
  "ascii_int i = map char_of (show_int i)"

subsection \<open>Lemmas\<close>

lemma starts_with_append [simp]: "starts_with (p @ s) p"
  by (simp add: starts_with_def)

lemma starts_with_Nil [simp]: "starts_with s []"
  by (simp add: starts_with_def)

lemma starts_with_iff: "starts_with s p \<longleftrightarrow> (\<exists>t. s = p @ t)"
  unfolding starts_with_def by (metis append_take_drop_id append_eq_conv_conj)

lemma removeprefix_append [simp]: "removeprefix (p @ s) p = s"
  by (simp add: removeprefix_def)

lemma removesuffix_append [simp]: "p \<noteq> [] \<Longrightarrow> removesuffix (s @ p) p = s"
  by (simp add: removesuffix_def ends_with_def)

lemma find_sub_Some:
  "find_sub s p = Some i \<Longrightarrow> i + length p \<le> length s \<and> take (length p) (drop i s) = p"
proof (induction s p arbitrary: i rule: find_sub.induct)
  case (1 p)
  then show ?case by (auto split: if_splits)
next
  case (2 c cs p)
  show ?case
  proof (cases "starts_with (c # cs) p")
    case True
    then obtain t where "c # cs = p @ t" by (auto simp: starts_with_iff)
    then have "length p \<le> length (c # cs)" and "take (length p) (c # cs) = p"
      by (metis length_append le_add1, simp)
    with True "2.prems" show ?thesis by auto
  next
    case False
    with "2.prems" obtain j where "find_sub cs p = Some j" and "i = Suc j" by auto
    with "2.IH" [OF False] show ?thesis by simp
  qed
qed

lemma find_sub_append:
  "find_sub s p = None \<or> (\<exists>i. find_sub s p = Some i)"
  by auto

lemma find_sub_exists: "find_sub (a @ p @ b) p \<noteq> None"
proof (induction a)
  case Nil
  show ?case
  proof (cases "p @ b")
    case Nil
    then show ?thesis by simp
  next
    case (Cons x xs)
    then have "starts_with (x # xs) p" by (metis starts_with_append)
    with Cons show ?thesis by simp
  qed
next
  case (Cons c a)
  then show ?case by auto
qed

lemma contains_append: "contains (a @ p @ b) p"
  using find_sub_exists by (auto simp: contains_def)

lemma index_from_Some:
  assumes "index_from s p start = Some i"
  shows "start \<le> i \<and> i + length p \<le> length s \<and> take (length p) (drop i s) = p"
proof -
  from assms obtain j where le: "start \<le> length s"
    and f: "find_sub (drop start s) p = Some j" and i: "i = j + start"
    by (auto simp: index_from_def split: if_splits)
  from find_sub_Some [OF f] have "j + length p \<le> length s - start"
    and "take (length p) (drop j (drop start s)) = p" by auto
  with le i show ?thesis by (auto simp: add.commute)
qed

lemma show_nat_nonempty [simp]: "show_nat n \<noteq> []"
  by (subst show_nat.simps) simp

lemma show_nat_digits: "c \<in> set (show_nat n) \<Longrightarrow> is_digit c"
proof (induction n rule: show_nat.induct)
  case (1 n)
  show ?case
  proof (cases "n < 10")
    case True
    with "1.prems" show ?thesis by (auto simp: show_nat.simps [of n] is_digit_def)
  next
    case False
    with "1.prems" have "c \<in> set (show_nat (n div 10)) \<or> c = 48 + n mod 10"
      by (auto simp: show_nat.simps [of n])
    with "1.IH" [OF False] show ?thesis by (auto simp: is_digit_def)
  qed
qed

lemma digits_value_snoc: "digits_value (s @ [c]) = 10 * digits_value s + (c - 48)"
  by (simp add: digits_value_def)

lemma digits_value_show_nat [simp]: "digits_value (show_nat n) = n"
proof (induction n rule: show_nat.induct)
  case (1 n)
  show ?case
  proof (cases "n < 10")
    case True
    then show ?thesis by (simp add: show_nat.simps [of n] digits_value_def)
  next
    case False
    with "1.IH" [OF False] show ?thesis
      by (simp add: show_nat.simps [of n] digits_value_snoc)
  qed
qed

lemma show_nat_inj: "show_nat m = show_nat n \<Longrightarrow> m = n"
  by (metis digits_value_show_nat)

lemma digit_not_space: "is_digit c \<Longrightarrow> \<not> is_space c"
  by (auto simp: is_digit_def is_space_def)

lemma rstrip_set_id: "(\<And>c. c \<in> set s \<Longrightarrow> \<not> P c) \<Longrightarrow> rstrip_set P s = s"
  by (cases "rev s") (auto simp: rstrip_set_def rev_eq_Cons_iff)

lemma strip_id: "(\<And>c. c \<in> set s \<Longrightarrow> \<not> is_space c) \<Longrightarrow> strip s = s"
  unfolding strip_def by (cases s) (auto intro!: rstrip_set_id)

lemma strip_show_nat [simp]: "strip (show_nat n) = show_nat n"
  by (rule strip_id) (auto dest: show_nat_digits digit_not_space)

lemma split_ws_no_space:
  "(\<And>c. c \<in> set w \<Longrightarrow> \<not> is_space c) \<Longrightarrow> split_ws w acc = (if w = [] \<and> acc = [] then [] else [rev acc @ w])"
  by (induction w arbitrary: acc) auto

end
