(* ===== verification/Policy.thy ===== *)
theory Policy
  imports States
begin

text \<open>
  \<open>policy.py\<close>: evidence signals, the destructive evidence gate and the adaptive-v2
  decision. The severity order on planned actions is used to state that evidence only ever
  raises the decision.
\<close>

datatype signal_source = Authored | Button | Preview | Quoted | Behavior | OwnerPolicy

datatype screening_action = StandardChallenge | StrictChallenge | PermanentSuppression

record evidence_signal =
  sig_code :: string
  sig_source :: signal_source
  sig_weight :: int
  sig_explanation :: string

record screening_decision =
  dec_signals :: "evidence_signal list"
  dec_risk_score :: int
  dec_challenge_profile :: "challenge_profile option"
  dec_planned_action :: screening_action
  dec_decision_basis :: string
  dec_policy_version :: string

definition STRICT_CHALLENGE_THRESHOLD :: int where
  "STRICT_CHALLENGE_THRESHOLD = 30"

definition PERMANENT_SUPPRESSION_THRESHOLD :: int where
  "PERMANENT_SUPPRESSION_THRESHOLD = 70"

definition destructive_gate_basis :: "evidence_signal list \<Rightarrow> string option" where
  "destructive_gate_basis signals =
    (let codes = set (map sig_code signals);
         denied_authored_source =
           codes \<inter> {''AUTHORED_DENIED_DOMAIN'', ''BUTTON_DENIED_DOMAIN'',
                     ''PREVIEW_DENIED_DOMAIN''} \<noteq> {};
         repeated_campaign_core =
           {''REPEATED_CAMPAIGN''} \<subseteq> codes
           \<and> codes \<inter> {''MULTIPLE_LINKS'', ''QUOTED_MULTIPLE_LINKS''} \<noteq> {};
         forwarded_promotion =
           ''FORWARDED_PAYLOAD'' \<in> codes
           \<and> codes \<inter> {''PROMOTIONAL_LANGUAGE'', ''QUOTED_PROMOTIONAL_LANGUAGE''} \<noteq> {};
         preview_promotion =
           list_ex (\<lambda>s. sig_code s = ''PREVIEW_PROMOTIONAL_LANGUAGE'' \<and> sig_source s = Preview)
             signals
           \<and> list_ex (\<lambda>s. sig_code s = ''MULTIPLE_LINKS'' \<and> sig_source s = Preview) signals;
         repeated_campaign_gate =
           repeated_campaign_core \<and> (forwarded_promotion \<or> preview_promotion)
     in if denied_authored_source then Some ''owner_denied_domain''
        else if repeated_campaign_gate then Some ''corroborated_repeated_campaign''
        else None)"

definition risk_score :: "evidence_signal list \<Rightarrow> int" where
  "risk_score signals = sum_list (map sig_weight signals)"

definition decide :: "evidence_signal list \<Rightarrow> screening_decision" where
  "decide signals =
    (let score = risk_score signals;
         destructive_basis = destructive_gate_basis signals
     in if score \<ge> PERMANENT_SUPPRESSION_THRESHOLD \<and> destructive_basis \<noteq> None then
          \<lparr>dec_signals = signals, dec_risk_score = score, dec_challenge_profile = None,
           dec_planned_action = PermanentSuppression,
           dec_decision_basis = the destructive_basis, dec_policy_version = ''adaptive-v2''\<rparr>
        else if score \<ge> STRICT_CHALLENGE_THRESHOLD then
          \<lparr>dec_signals = signals, dec_risk_score = score, dec_challenge_profile = Some Strict,
           dec_planned_action = StrictChallenge,
           dec_decision_basis = ''risk_score_requires_strict_challenge'',
           dec_policy_version = ''adaptive-v2''\<rparr>
        else
          \<lparr>dec_signals = signals, dec_risk_score = score, dec_challenge_profile = Some Standard,
           dec_planned_action = StandardChallenge,
           dec_decision_basis = ''risk_score_below_strict_threshold'',
           dec_policy_version = ''adaptive-v2''\<rparr>)"

lemmas policy_defs =
  decide_def risk_score_def STRICT_CHALLENGE_THRESHOLD_def PERMANENT_SUPPRESSION_THRESHOLD_def

subsection \<open>Severity order\<close>

fun severity :: "screening_action \<Rightarrow> nat" where
  "severity StandardChallenge = 0"
| "severity StrictChallenge = 1"
| "severity PermanentSuppression = 2"

lemma severity_inj: "severity a = severity b \<Longrightarrow> a = b"
  by (cases a; cases b) auto

instantiation screening_action :: linorder
begin

definition less_eq_screening_action :: "screening_action \<Rightarrow> screening_action \<Rightarrow> bool" where
  "less_eq_screening_action a b \<longleftrightarrow> severity a \<le> severity b"

definition less_screening_action :: "screening_action \<Rightarrow> screening_action \<Rightarrow> bool" where
  "less_screening_action a b \<longleftrightarrow> severity a < severity b"

instance
  by standard
    (auto simp: less_eq_screening_action_def less_screening_action_def dest: severity_inj)

end

subsection \<open>Properties of the gate and the decision\<close>

lemma destructive_gate_basis_Some:
  "destructive_gate_basis signals \<noteq> None \<longleftrightarrow>
     (\<exists>s \<in> set signals. sig_code s \<in>
        {''AUTHORED_DENIED_DOMAIN'', ''BUTTON_DENIED_DOMAIN'', ''PREVIEW_DENIED_DOMAIN''})
     \<or> ((\<exists>s \<in> set signals. sig_code s = ''REPEATED_CAMPAIGN'')
        \<and> (\<exists>s \<in> set signals. sig_code s \<in> {''MULTIPLE_LINKS'', ''QUOTED_MULTIPLE_LINKS''})
        \<and> ((\<exists>s \<in> set signals. sig_code s = ''FORWARDED_PAYLOAD'')
            \<and> (\<exists>s \<in> set signals. sig_code s \<in>
                 {''PROMOTIONAL_LANGUAGE'', ''QUOTED_PROMOTIONAL_LANGUAGE''})
           \<or> (\<exists>s \<in> set signals. sig_code s = ''PREVIEW_PROMOTIONAL_LANGUAGE''
                 \<and> sig_source s = Preview)
             \<and> (\<exists>s \<in> set signals. sig_code s = ''MULTIPLE_LINKS'' \<and> sig_source s = Preview)))"
proof -
  have meet: "set (map sig_code signals) \<inter> A \<noteq> {} \<longleftrightarrow> (\<exists>s \<in> set signals. sig_code s \<in> A)"
    for A by auto
  have elem: "c \<in> set (map sig_code signals) \<longleftrightarrow> (\<exists>s \<in> set signals. sig_code s = c)"
    for c by auto
  have sub: "{c} \<subseteq> set (map sig_code signals) \<longleftrightarrow> (\<exists>s \<in> set signals. sig_code s = c)"
    for c by auto
  have decided: "(if a then Some x else if b then Some y else None) \<noteq> None \<longleftrightarrow> a \<or> b"
    for a b and x y :: string by simp
  show ?thesis
    unfolding destructive_gate_basis_def Let_def meet elem sub list_ex_iff decided conj_assoc
    by (rule refl)
qed

lemma destructive_gate_mono:
  assumes "set xs \<subseteq> set ys" and "destructive_gate_basis xs \<noteq> None"
  shows "destructive_gate_basis ys \<noteq> None"
  using assms(2) unfolding destructive_gate_basis_Some using assms(1) by (meson subsetD)

lemma planned_action_cases:
  "dec_planned_action (decide signals) =
    (if risk_score signals \<ge> 70 \<and> destructive_gate_basis signals \<noteq> None then PermanentSuppression
     else if risk_score signals \<ge> 30 then StrictChallenge else StandardChallenge)"
  by (simp add: policy_defs Let_def)

lemma challenge_profile_cases:
  "dec_challenge_profile (decide signals) =
    (case dec_planned_action (decide signals) of
       StandardChallenge \<Rightarrow> Some Standard
     | StrictChallenge \<Rightarrow> Some Strict
     | PermanentSuppression \<Rightarrow> None)"
  by (simp add: policy_defs Let_def)

lemma decide_signals [simp]: "dec_signals (decide signals) = signals"
  by (simp add: decide_def Let_def)

lemma decide_risk_score [simp]: "dec_risk_score (decide signals) = risk_score signals"
  by (simp add: decide_def Let_def)

lemma decide_Nil: "dec_planned_action (decide []) = StandardChallenge"
  by (simp add: planned_action_cases risk_score_def)

lemma risk_score_append: "risk_score (xs @ ys) = risk_score xs + risk_score ys"
  by (simp add: risk_score_def)

lemma risk_score_nonneg: "(\<And>s. s \<in> set xs \<Longrightarrow> 0 \<le> sig_weight s) \<Longrightarrow> 0 \<le> risk_score xs"
  unfolding risk_score_def by (rule sum_list_nonneg) auto

lemma planned_action_append_mono:
  assumes "\<And>s. s \<in> set extra \<Longrightarrow> 0 \<le> sig_weight s"
  shows "dec_planned_action (decide signals) \<le> dec_planned_action (decide (signals @ extra))"
proof -
  have score: "risk_score signals \<le> risk_score (signals @ extra)"
    using risk_score_nonneg [of extra] assms by (simp add: risk_score_append)
  have gate: "destructive_gate_basis signals \<noteq> None
      \<Longrightarrow> destructive_gate_basis (signals @ extra) \<noteq> None"
    by (rule destructive_gate_mono [of signals]) auto
  from score gate show ?thesis
    by (auto simp: planned_action_cases less_eq_screening_action_def)
qed

end
