(* ===== verification/Challenge_Text.thy ===== *)
theory Challenge_Text
  imports Py_Text Policy
begin

text \<open>
  The pure part of \<open>service.py\<close>: the notices, the generated arithmetic challenge, the prompt
  and its formatting spans, and the normalisation of an answer. \<open>None\<close> (in \<open>emphasized\<close> and
  the functions built on it) and \<open>Inl\<close> (in \<open>canonical_answer\<close>) stand for a \<open>ValueError\<close>.
\<close>

subsection \<open>Notices\<close>

definition CHALLENGE_PROCESSING_GRACE_SECONDS :: int where
  "CHALLENGE_PROCESSING_GRACE_SECONDS = 30"

definition CHALLENGE_DEADLINE_PREFIX :: ustring where
  "CHALLENGE_DEADLINE_PREFIX = ustr ''Send the answer in this chat within ''"

definition para :: ustring where
  "para = [10, 10]"

definition FAILED_TITLE :: ustring where
  "FAILED_TITLE = 9940 # ustr '' Verification Failed''"

definition DIGITS_REQUIRED_TEXT :: ustring where
  "DIGITS_REQUIRED_TEXT =
     (128290 # ustr '' Digits Only'') @ para
     @ ustr ''Send digits only. No attempt was used.''"

definition VERIFICATION_PASSED_TEXT :: ustring where
  "VERIFICATION_PASSED_TEXT =
     (9989 # ustr '' Verification Passed'') @ para @ ustr ''This conversation has been restored.''"

definition VERIFICATION_FAILED_TEXT :: ustring where
  "VERIFICATION_FAILED_TEXT =
     FAILED_TITLE @ para @ ustr ''This conversation remains archived and muted.'' @ para
     @ ustr ''This conversation will be deleted in 10 seconds. New messages will be removed ''
     @ ustr ''for 24 hours.''"

definition VERIFICATION_TIMEOUT_TEXT :: ustring where
  "VERIFICATION_TIMEOUT_TEXT =
     FAILED_TITLE @ para @ ustr ''The verification window expired.'' @ para
     @ ustr ''This conversation will be deleted in 10 seconds. Try again in 2 hours.''"

definition STRICT_VERIFICATION_TIMEOUT_TEXT :: ustring where
  "STRICT_VERIFICATION_TIMEOUT_TEXT =
     FAILED_TITLE @ para @ ustr ''The strict verification window expired.'' @ para
     @ ustr ''This conversation will be deleted in 10 seconds. Try again in 24 hours.''"

definition TEST_VERIFICATION_FAILED_TEXT :: ustring where
  "TEST_VERIFICATION_FAILED_TEXT =
     FAILED_TITLE @ para @ ustr ''This test conversation remains archived and muted.'' @ para
     @ ustr ''This conversation will be deleted in 10 seconds. The test sender will reset ''
     @ ustr ''after 60 seconds.''"

definition TEST_VERIFICATION_TIMEOUT_TEXT :: ustring where
  "TEST_VERIFICATION_TIMEOUT_TEXT =
     FAILED_TITLE @ para @ ustr ''The verification window expired.'' @ para
     @ ustr ''Messages recorded for this test challenge will be deleted in 10 seconds. ''
     @ ustr ''The conversation will remain archived and muted, and the test sender will reset ''
     @ ustr ''after 60 seconds.''"

definition FAILED_DIALOG_DELETE_DELAY_SECONDS :: int where
  "FAILED_DIALOG_DELETE_DELAY_SECONDS = 10"

definition VERIFICATION_FAILED_SUPPRESSION_SECONDS :: int where
  "VERIFICATION_FAILED_SUPPRESSION_SECONDS = 24 * 3600"

definition VERIFICATION_TIMEOUT_SUPPRESSION_SECONDS :: int where
  "VERIFICATION_TIMEOUT_SUPPRESSION_SECONDS = 2 * 3600"

definition TEST_MESSAGE_DELETE_DELAY_SECONDS :: int where
  "TEST_MESSAGE_DELETE_DELAY_SECONDS = 10"

definition VERIFICATION_SUCCESS_DELETE_DELAY_SECONDS :: int where
  "VERIFICATION_SUCCESS_DELETE_DELAY_SECONDS = 10"

definition TEST_STATE_RESET_DELAY_SECONDS :: int where
  "TEST_STATE_RESET_DELAY_SECONDS = 60"

subsection \<open>Formatting spans\<close>

datatype span_style = Bold | Italic | Code

record style_span =
  span_offset :: nat
  span_length :: nat
  span_style :: span_style

fun emphasized_from :: "ustring \<Rightarrow> ustring list \<Rightarrow> nat \<Rightarrow> style_span list option" where
  "emphasized_from t [] search_from = Some []"
| "emphasized_from t (f # fs) search_from =
     (case index_from t f search_from of
        None \<Rightarrow> None
      | Some i \<Rightarrow>
          map_option
            (Cons \<lparr>span_offset = i, span_length = length f, span_style = Bold\<rparr>)
            (emphasized_from t fs (i + length f)))"

definition emphasized :: "ustring \<Rightarrow> ustring list \<Rightarrow> style_span list option" where
  "emphasized t fragments = emphasized_from t fragments 0"

subsection \<open>The challenge and its prompt\<close>

record challenge =
  ch_id :: string
  ch_answer :: ustring
  ch_expression :: ustring

text \<open>\<open>randbelow i n\<close> is the \<open>i\<close>-th call of \<open>secrets.randbelow\<close>, with bound \<open>n\<close>.\<close>

definition new_challenge :: "(nat \<Rightarrow> int \<Rightarrow> int) \<Rightarrow> string \<Rightarrow> challenge" where
  "new_challenge randbelow token =
    (let operation = randbelow 0 3 in
     if operation = 0 then
       (let left = randbelow 1 24 + 2; right = randbelow 2 24 + 2 in
        \<lparr>ch_id = token, ch_answer = show_int (left + right),
         ch_expression = show_int left @ ustr '' + '' @ show_int right @ ustr '' = ?''\<rparr>)
     else if operation = 1 then
       (let answer = randbelow 1 25 + 1; right = randbelow 2 20 + 1; left = answer + right in
        \<lparr>ch_id = token, ch_answer = show_int answer,
         ch_expression = show_int left @ ustr '' - '' @ show_int right @ ustr '' = ?''\<rparr>)
     else
       (let left = randbelow 1 9 + 2; right = randbelow 2 9 + 2 in
        \<lparr>ch_id = token, ch_answer = show_int (left * right),
         ch_expression = show_int left @ [32, 215, 32] @ show_int right @ ustr '' = ?''\<rparr>))"

definition PROMPT_TITLE :: ustring where
  "PROMPT_TITLE = [9888, 65039] @ ustr '' Verification Required''"

definition prompt_duration :: "int \<Rightarrow> ustring" where
  "prompt_duration ttl_seconds =
    (if ttl_seconds = 60 then ustr ''1 minute''
     else show_int ttl_seconds @ ustr '' ''
          @ (if ttl_seconds = 1 then ustr ''second'' else ustr ''seconds''))"

definition challenge_prompt :: "challenge \<Rightarrow> int \<Rightarrow> int \<Rightarrow> ustring" where
  "challenge_prompt ch ttl_seconds max_attempts =
     PROMPT_TITLE @ para
     @ CHALLENGE_DEADLINE_PREFIX @ prompt_duration ttl_seconds @ ustr ''.'' @ para
     @ ustr ''Answer: '' @ ch_expression ch @ [10]
     @ ustr ''Attempts allowed: '' @ show_int max_attempts @ para
     @ ustr ''Send digits only. You do not need to use Reply.''"

definition challenge_prompt_formatting :: "ustring \<Rightarrow> style_span list option" where
  "challenge_prompt_formatting prompt =
    (let lines = splitlines prompt [] in
     if length lines < 6
        \<or> \<not> starts_with (lines ! 2) CHALLENGE_DEADLINE_PREFIX
        \<or> \<not> starts_with (lines ! 4) (ustr ''Answer: '')
        \<or> \<not> starts_with (lines ! 5) (ustr ''Attempts allowed: '')
     then Some []
     else emphasized prompt
       [PROMPT_TITLE,
        removesuffix (removeprefix (lines ! 2) CHALLENGE_DEADLINE_PREFIX) (ustr ''.''),
        removeprefix (lines ! 4) (ustr ''Answer: ''),
        removeprefix (lines ! 5) (ustr ''Attempts allowed: '')])"

definition notice_formatting :: "ustring \<Rightarrow> style_span list option" where
  "notice_formatting t = emphasized t [before_first 10 t]"

subsection \<open>Answers\<close>

text \<open>CPython's \<open>int()\<close> refuses a decimal string of more than 4300 digits.\<close>

definition INT_MAX_STR_DIGITS :: nat where
  "INT_MAX_STR_DIGITS = 4300"

definition canonical_answer :: "unicode \<Rightarrow> ustring \<Rightarrow> string + ustring option" where
  "canonical_answer u t =
    (let normalized = strip (nfkc u t) in
     if normalized = [] \<or> \<not> list_all is_digit normalized then Inr None
     else if length normalized > INT_MAX_STR_DIGITS then Inl ''ValueError''
     else Inr (Some (show_nat (digits_value normalized))))"

subsection \<open>Lemmas\<close>

text \<open>Spans returned by \<open>emphasized\<close> lie in the text, in order and without overlap, and each
  covers its fragment.\<close>

fun spans_cover :: "ustring \<Rightarrow> ustring list \<Rightarrow> nat \<Rightarrow> style_span list \<Rightarrow> bool" where
  "spans_cover t [] from spans = (spans = [])"
| "spans_cover t (f # fs) from [] = False"
| "spans_cover t (f # fs) from (sp # sps) =
     (from \<le> span_offset sp \<and> span_offset sp + span_length sp \<le> length t
      \<and> take (span_length sp) (drop (span_offset sp) t) = f
      \<and> spans_cover t fs (span_offset sp + span_length sp) sps)"

lemma emphasized_from_cover:
  "emphasized_from t fs from = Some spans \<Longrightarrow> spans_cover t fs from spans"
proof (induction t fs "from" arbitrary: spans rule: emphasized_from.induct)
  case (1 t search_from)
  then show ?case by simp
next
  case (2 t f fs search_from)
  from "2.prems" obtain i sps where i: "index_from t f search_from = Some i"
    and sps: "emphasized_from t fs (i + length f) = Some sps"
    and spans: "spans = \<lparr>span_offset = i, span_length = length f, span_style = Bold\<rparr> # sps"
    by (auto split: option.splits)
  from "2.IH" [OF i sps] index_from_Some [OF i] spans show ?case by auto
qed

lemma find_sub_prefix: "find_sub (p @ b) p = Some 0"
  by (cases "p @ b") (simp_all, metis starts_with_append)

lemma notice_formatting_total: "notice_formatting t \<noteq> None"
proof -
  have "t = before_first 10 t @ dropWhile (\<lambda>x. x \<noteq> 10) t"
    by (simp add: before_first_def)
  then have "find_sub t (before_first 10 t) = Some 0"
    by (metis find_sub_prefix)
  then show ?thesis
    by (simp add: notice_formatting_def emphasized_def index_from_def)
qed

lemma emphasized_single: "emphasized (p @ t) [p] \<noteq> None"
  by (simp add: emphasized_def index_from_def find_sub_prefix)

lemma canonical_answer_show_nat:
  assumes "nfkc u (show_nat n) = show_nat n" and "length (show_nat n) \<le> 4300"
  shows "canonical_answer u (show_nat n) = Inr (Some (show_nat n))"
  using assms
  by (auto simp: canonical_answer_def Let_def list_all_iff INT_MAX_STR_DIGITS_def
      dest: show_nat_digits)

end
