(* ===== verification/Py_Url.thy ===== *)
theory Py_Url
  imports Py_Text
begin

text \<open>
  The parts of \<open>urllib.parse\<close> that \<open>rules.py\<close> relies on: \<open>urlsplit\<close> with its \<open>ValueError\<close>s
  (\<open>None\<close>), the \<open>hostname\<close> and \<open>port\<close> properties, and which names \<open>parse_qs\<close> finds.
\<close>

record split_url =
  url_scheme :: ustring
  url_netloc :: ustring
  url_path :: ustring
  url_query :: ustring
  url_fragment :: ustring

definition is_ascii_alpha :: "nat \<Rightarrow> bool" where
  "is_ascii_alpha c \<longleftrightarrow> (65 \<le> c \<and> c \<le> 90) \<or> (97 \<le> c \<and> c \<le> 122)"

definition scheme_char :: "nat \<Rightarrow> bool" where
  "scheme_char c \<longleftrightarrow> is_ascii_alpha c \<or> is_digit c \<or> c \<in> {43, 45, 46}"

definition ascii_lower :: "nat \<Rightarrow> nat" where
  "ascii_lower c = (if 65 \<le> c \<and> c \<le> 90 then c + 32 else c)"

text \<open>The part after the last \<open>@\<close> (\<open>rpartition\<close>).\<close>

definition after_last :: "'a \<Rightarrow> 'a list \<Rightarrow> 'a list" where
  "after_last c s = rev (takeWhile (\<lambda>x. x \<noteq> c) (rev s))"

text \<open>\<open>_hostinfo\<close>: the raw host and the raw port, an absent port being empty.\<close>

definition hostinfo :: "ustring \<Rightarrow> ustring \<times> ustring" where
  "hostinfo netloc =
    (let hostinfo = after_last 64 netloc in
     if 91 \<in> set hostinfo then
       (let bracketed = after_first 91 hostinfo
        in (before_first 93 bracketed, after_first 58 (after_first 93 bracketed)))
     else (before_first 58 hostinfo, after_first 58 hostinfo))"

definition check_bracketed_netloc :: "unicode \<Rightarrow> ustring \<Rightarrow> bool" where
  "check_bracketed_netloc u netloc =
    (let hostinfo = after_last 64 netloc in
     if 91 \<in> set hostinfo then
       (let bracketed = after_first 91 hostinfo; port = after_first 93 bracketed in
        before_first 91 hostinfo = [] \<and> (port = [] \<or> take 1 port = [58])
        \<and> bracketed_host_ok u (before_first 93 bracketed))
     else bracketed_host_ok u (before_first 58 hostinfo))"

definition check_netloc :: "unicode \<Rightarrow> ustring \<Rightarrow> bool" where
  "check_netloc u netloc =
    (if list_all (\<lambda>c. c < 128) netloc then True
     else (let n = filter (\<lambda>c. c \<notin> {64, 58, 35, 63}) netloc; n2 = nfkc u n in
           n = n2 \<or> list_all (\<lambda>c. c \<notin> {47, 63, 35, 64, 58}) n2))"

definition split_scheme :: "ustring \<Rightarrow> ustring \<times> ustring" where
  "split_scheme url =
    (let scheme = before_first 58 url in
     if 58 \<in> set url \<and> scheme \<noteq> [] \<and> is_ascii_alpha (hd scheme) \<and> list_all scheme_char scheme
     then (map ascii_lower scheme, after_first 58 url) else ([], url))"

definition urlsplit :: "unicode \<Rightarrow> ustring \<Rightarrow> split_url option" where
  "urlsplit u url =
    (let url = filter (\<lambda>c. c \<notin> {9, 10, 13}) (dropWhile (\<lambda>c. c \<le> 32) url);
         (scheme, url) = split_scheme url;
         has_netloc = (take 2 url = [47, 47]);
         netloc = (if has_netloc then takeWhile (\<lambda>c. c \<notin> {47, 63, 35}) (drop 2 url) else []);
         url = (if has_netloc then dropWhile (\<lambda>c. c \<notin> {47, 63, 35}) (drop 2 url) else url);
         opened = 91 \<in> set netloc; closed = 93 \<in> set netloc
     in if opened \<noteq> closed then None
        else if opened \<and> closed \<and> \<not> check_bracketed_netloc u netloc then None
        else
          (let fragment = after_first 35 url; url = before_first 35 url;
               query = after_first 63 url; path = before_first 63 url
           in if \<not> check_netloc u netloc then None
              else Some \<lparr>url_scheme = scheme, url_netloc = netloc, url_path = path,
                         url_query = query, url_fragment = fragment\<rparr>))"

definition url_hostname :: "unicode \<Rightarrow> split_url \<Rightarrow> ustring option" where
  "url_hostname u p =
    (let host = fst (hostinfo (url_netloc p)) in
     if host = [] then None
     else Some (lower u (before_first 37 host) @ dropWhile (\<lambda>c. c \<noteq> 37) host))"

text \<open>\<open>None\<close> is the \<open>ValueError\<close> of a port that is not a number below 65536.\<close>

definition url_port :: "split_url \<Rightarrow> nat option option" where
  "url_port p =
    (let port = snd (hostinfo (url_netloc p)) in
     if port = [] then Some None
     else if list_all is_digit port \<and> digits_value port \<le> 65535
     then Some (Some (digits_value port)) else None)"

subsection \<open>Query names\<close>

definition hex_value :: "nat \<Rightarrow> nat option" where
  "hex_value c =
    (if is_digit c then Some (c - 48)
     else if 65 \<le> c \<and> c \<le> 70 then Some (c - 55)
     else if 97 \<le> c \<and> c \<le> 102 then Some (c - 87) else None)"

text \<open>
  \<open>unquote\<close> of a query name. An escaped byte below 128 is its character; the bytes of a
  multi-byte sequence become U+FFFD, which is enough to compare a name with an ASCII one.
\<close>

fun unquote_name :: "ustring \<Rightarrow> ustring" where
  "unquote_name (c # a # b # cs) =
     (case (c = 37, hex_value a, hex_value b) of
        (True, Some x, Some y) \<Rightarrow>
          (if 16 * x + y < 128 then 16 * x + y else 65533) # unquote_name cs
      | _ \<Rightarrow> (if c = 43 then 32 else c) # unquote_name (a # b # cs))"
| "unquote_name (c # cs) = (if c = 43 then 32 else c) # unquote_name cs"
| "unquote_name [] = []"

text \<open>\<open>name in parse_qs(query)\<close>: pairs with a blank value are dropped.\<close>

definition query_has :: "ustring \<Rightarrow> ustring \<Rightarrow> bool" where
  "query_has query name \<longleftrightarrow>
     list_ex (\<lambda>pair. after_first 61 pair \<noteq> [] \<and> unquote_name (before_first 61 pair) = name)
       (split_on 38 query [])"

end
