(* ===== verification/Url_Rules.thy ===== *)
theory Url_Rules
  imports Py_Url "HOL-Library.List_Lexorder"
begin

text \<open>
  The URL part of \<open>rules.py\<close>: the URL scanner, normalised domains and keys, the shape of a
  URL list, Telegram link kinds, and the campaign template. \<open>None\<close> stands for the source's
  \<open>None\<close>; errors of the URL library are caught in the source and are branches here.
\<close>

subsection \<open>The URL scanner\<close>

definition url_stop :: "nat \<Rightarrow> bool" where
  "url_stop c \<longleftrightarrow> is_space c \<or> c \<in> {60, 62, 40, 41, 91, 93, 123, 125}"

text \<open>A letter of the pattern under \<open>(?i)\<close>; \<open>s\<close> also matches U+017F.\<close>

definition ci_char :: "nat \<Rightarrow> nat \<Rightarrow> bool" where
  "ci_char p c \<longleftrightarrow> ascii_lower c = p \<or> (p = 115 \<and> c = 383)"

fun ci_prefix :: "ustring \<Rightarrow> ustring \<Rightarrow> bool" where
  "ci_prefix [] s = True"
| "ci_prefix (p # ps) [] = False"
| "ci_prefix (p # ps) (c # cs) = (ci_char p c \<and> ci_prefix ps cs)"

definition url_scheme_length :: "ustring \<Rightarrow> nat" where
  "url_scheme_length s =
    (if ci_prefix (ustr ''https://'') s then 8
     else if ci_prefix (ustr ''http://'') s then 7
     else if ci_prefix (ustr ''tg://'') s then 5
     else if ci_prefix (ustr ''www.'') s then 4 else 0)"

text \<open>The length of the match of \<open>URL_RE\<close> at the start of the text, 0 for no match.\<close>

definition url_match :: "ustring \<Rightarrow> nat" where
  "url_match s =
    (let n = url_scheme_length s; body = takeWhile (\<lambda>c. \<not> url_stop c) (drop n s) in
     if n = 0 \<or> body = [] then 0 else n + length body)"

function find_urls :: "ustring \<Rightarrow> ustring list" where
  "find_urls s =
    (if s = [] then []
     else if url_match s = 0 then find_urls (drop 1 s)
     else take (url_match s) s # find_urls (drop (url_match s) s))"
  by pat_completeness auto
termination
  by (relation "measure length") auto

declare find_urls.simps [simp del]

function sub_urls :: "(ustring \<Rightarrow> ustring) \<Rightarrow> ustring \<Rightarrow> ustring" where
  "sub_urls f s =
    (if s = [] then []
     else if url_match s = 0 then take 1 s @ sub_urls f (drop 1 s)
     else f (take (url_match s) s) @ sub_urls f (drop (url_match s) s))"
  by pat_completeness auto
termination
  by (relation "measure (\<lambda>(f, s). length s)") auto

declare sub_urls.simps [simp del]

subsection \<open>Domains and keys\<close>

definition TRAILING_URL_PUNCTUATION :: ustring where
  "TRAILING_URL_PUNCTUATION =
    [46, 44, 59, 58, 33, 63, 65292, 12290, 65307, 65306, 65281, 65311, 39, 34, 8221, 8217,
     12299, 12305, 65289]"

definition url_candidate :: "ustring \<Rightarrow> ustring" where
  "url_candidate url =
    (let candidate = rstrip_set (\<lambda>c. c \<in> set TRAILING_URL_PUNCTUATION) (strip url) in
     if contains candidate (ustr ''://'') then candidate else ustr ''https://'' @ candidate)"

definition hostname_alnum :: "nat \<Rightarrow> bool" where
  "hostname_alnum c \<longleftrightarrow> is_ascii_alpha c \<or> is_digit c"

definition hostname_label :: "ustring \<Rightarrow> bool" where
  "hostname_label l \<longleftrightarrow> l \<noteq> [] \<and> length l \<le> 63 \<and> hostname_alnum (hd l) \<and> hostname_alnum (last l)
     \<and> list_all (\<lambda>c. hostname_alnum c \<or> c = 45) l"

definition ascii_hostname :: "ustring \<Rightarrow> bool" where
  "ascii_hostname s \<longleftrightarrow> 1 \<le> length s \<and> length s \<le> 253 \<and> list_all hostname_label (split_on 46 s [])"

definition encoded_host :: "unicode \<Rightarrow> ustring \<Rightarrow> ustring option" where
  "encoded_host u hostname =
    map_option (casefold u) (idna_encode u (rstrip_set (\<lambda>c. c = 46) hostname))"

definition normalize_text :: "unicode \<Rightarrow> ustring \<Rightarrow> ustring" where
  "normalize_text u t = join [32] (split_ws (casefold u (nfkc u t)) [])"

definition normalized_domain :: "unicode \<Rightarrow> ustring \<Rightarrow> ustring option" where
  "normalized_domain u url =
    (case urlsplit u (url_candidate url) of
       None \<Rightarrow> None
     | Some parsed \<Rightarrow>
         (case url_hostname u parsed of
            None \<Rightarrow> None
          | Some hostname \<Rightarrow>
              (case encoded_host u hostname of
                 None \<Rightarrow> None
               | Some normalized \<Rightarrow> if ascii_hostname normalized then Some normalized else None)))"

definition normalized_url_key :: "unicode \<Rightarrow> ustring \<Rightarrow> ustring option" where
  "normalized_url_key u url =
    (case urlsplit u (url_candidate url) of
       None \<Rightarrow> None
     | Some parsed \<Rightarrow>
         (case url_hostname u parsed of
            None \<Rightarrow> None
          | Some hostname \<Rightarrow>
              (case encoded_host u hostname of
                 None \<Rightarrow> None
               | Some normalized_host \<Rightarrow>
                   if \<not> ascii_hostname normalized_host then None
                   else (case url_port parsed of
                      None \<Rightarrow> None
                    | Some port \<Rightarrow>
                        Some (normalized_host
                          @ (case port of None \<Rightarrow> [] | Some p \<Rightarrow> 58 # show_nat p)
                          @ (if url_path parsed = [] then [47] else url_path parsed)
                          @ (if url_query parsed = [] then [] else 63 # url_query parsed))))))"

subsection \<open>URL shape\<close>

record url_shape =
  has_fragment :: bool
  has_non_root_path :: bool
  has_query :: bool
  max_path_depth :: nat
  uses_plain_http :: bool

definition path_parts :: "ustring \<Rightarrow> ustring list" where
  "path_parts path = filter (\<lambda>part. part \<noteq> []) (split_on 47 path [])"

definition url_shape_step :: "unicode \<Rightarrow> url_shape \<Rightarrow> ustring \<Rightarrow> url_shape" where
  "url_shape_step u acc url =
    (case urlsplit u (url_candidate url) of
       None \<Rightarrow> acc
     | Some parsed \<Rightarrow>
         (let parts = path_parts (url_path parsed) in
          \<lparr>has_fragment = has_fragment acc \<or> url_fragment parsed \<noteq> [],
           has_non_root_path = has_non_root_path acc \<or> parts \<noteq> [],
           has_query = has_query acc \<or> url_query parsed \<noteq> [],
           max_path_depth = max (max_path_depth acc) (min (length parts) 3),
           uses_plain_http = uses_plain_http acc \<or> url_scheme parsed = ustr ''http''\<rparr>))"

definition url_shape_of :: "unicode \<Rightarrow> ustring list \<Rightarrow> url_shape" where
  "url_shape_of u urls = foldl (url_shape_step u)
    \<lparr>has_fragment = False, has_non_root_path = False, has_query = False, max_path_depth = 0,
     uses_plain_http = False\<rparr> urls"

subsection \<open>Telegram links\<close>

definition telegram_link_kind :: "unicode \<Rightarrow> ustring \<Rightarrow> string" where
  "telegram_link_kind u url =
    (case urlsplit u (url_candidate url) of
       None \<Rightarrow> ''unknown''
     | Some parsed \<Rightarrow>
         (let scheme = url_scheme parsed;
              hostname = (case encoded_host u
                  (case url_hostname u parsed of None \<Rightarrow> [] | Some h \<Rightarrow> h) of
                None \<Rightarrow> [] | Some h \<Rightarrow> h);
              has = (\<lambda>name. query_has (url_query parsed) (ustr name))
          in if scheme = ustr ''tg'' then
               (if url_netloc parsed = ustr ''join'' \<or> has ''invite'' then ''invite''
                else if has ''start'' \<or> has ''startapp'' then ''bot_start''
                else if has ''domain'' then ''public_username''
                else ''unknown'')
             else if hostname \<notin> {ustr ''t.me'', ustr ''telegram.me''} then ''external_web''
             else (case path_parts (url_path parsed) of
                 [] \<Rightarrow> ''unknown''
               | part # rest \<Rightarrow>
                   (let first = casefold u part in
                    if first = ustr ''joinchat'' \<or> starts_with part [43] then ''invite''
                    else if first = ustr ''c'' \<and> length (part # rest) \<ge> 3 then ''internal_message''
                    else if has ''start'' \<or> has ''startapp'' then ''bot_start''
                    else ''public_username''))))"

definition campaign_link_kind :: "unicode \<Rightarrow> ustring \<Rightarrow> string" where
  "campaign_link_kind u url =
    (let kind = telegram_link_kind u url in
     if kind = ''invite'' then ''telegram-invite''
     else if kind = ''public_username'' then ''telegram-public''
     else if kind = ''internal_message'' then ''telegram-internal''
     else if kind = ''bot_start'' then ''telegram-bot''
     else if kind = ''external_web'' then ''external-web''
     else ''unknown-link'')"

definition campaign_template_text :: "unicode \<Rightarrow> ustring \<Rightarrow> ustring" where
  "campaign_template_text u t =
    (let normalized = casefold u (nfkc u t);
         templated = sub_urls (\<lambda>m. 60 # ustr (campaign_link_kind u m) @ [62]) normalized
     in join [32] (split_ws templated []))"

text \<open>\<open>distinct.setdefault(key, kind)\<close> for every URL with a key.\<close>

definition campaign_link_kinds :: "unicode \<Rightarrow> ustring list \<Rightarrow> ustring list" where
  "campaign_link_kinds u urls =
    sort (map snd (foldl (\<lambda>kinds url. case normalized_url_key u url of
        None \<Rightarrow> kinds
      | Some key \<Rightarrow> insert_ignore key (ustr (campaign_link_kind u url)) kinds) [] urls))"

subsection \<open>Evidence records\<close>

record url_record =
  ur_url :: ustring
  ur_kind :: string
  ur_sources :: "string list"

definition url_evidence :: "unicode \<Rightarrow> ustring list \<Rightarrow> ustring list \<Rightarrow> ustring list \<Rightarrow> url_record list" where
  "url_evidence u urls button_urls preview_urls =
    map (\<lambda>url. \<lparr>ur_url = url, ur_kind = telegram_link_kind u url,
        ur_sources =
          (if url \<in> set button_urls then [''button''] else [])
          @ (if url \<in> set preview_urls then [''preview''] else [])
          @ (if url \<notin> set button_urls \<and> url \<notin> set preview_urls then [''message''] else [])\<rparr>)
      (take 10 (sort (remdups urls)))"

definition domain_is_denied :: "ustring \<Rightarrow> ustring list \<Rightarrow> bool" where
  "domain_is_denied domain denylist \<longleftrightarrow>
     list_ex (\<lambda>denied. domain = denied \<or> ends_with domain (46 # denied)) denylist"

subsection \<open>Lemmas\<close>

lemma find_urls_Nil [simp]: "find_urls [] = []"
  by (simp add: find_urls.simps)

lemma url_match_le: "url_match s \<le> length s"
proof -
  have ci: "ci_prefix p s \<Longrightarrow> length p \<le> length s" for p s
    by (induction p s rule: ci_prefix.induct) auto
  have "url_scheme_length s \<le> length s"
    using ci [of "ustr ''https://''" s] ci [of "ustr ''http://''" s] ci [of "ustr ''tg://''" s]
      ci [of "ustr ''www.''" s]
    by (auto simp: url_scheme_length_def)
  then show ?thesis
    using length_takeWhile_le [of "\<lambda>c. \<not> url_stop c" "drop (url_scheme_length s) s"]
    by (auto simp: url_match_def Let_def)
qed

lemma url_evidence_bounds: "length (url_evidence u urls bs ps) \<le> 10"
  by (simp add: url_evidence_def)

lemma url_evidence_urls: "r \<in> set (url_evidence u urls bs ps) \<Longrightarrow> ur_url r \<in> set urls"
  by (auto simp: url_evidence_def dest: in_set_takeD)

lemma url_shape_depth: "max_path_depth (url_shape_of u urls) \<le> 3"
proof -
  have "max_path_depth acc \<le> 3 \<Longrightarrow> max_path_depth (foldl (url_shape_step u) acc urls) \<le> 3" for acc
  proof (induction urls arbitrary: acc)
    case Nil
    then show ?case by simp
  next
    case (Cons x xs)
    then have "max_path_depth (url_shape_step u acc x) \<le> 3"
      by (auto simp: url_shape_step_def Let_def split: option.splits)
    then show ?case using Cons.IH by simp
  qed
  then show ?thesis by (simp add: url_shape_of_def)
qed

lemma domain_is_denied_append: "domain_is_denied d (xs @ ys) \<longleftrightarrow> domain_is_denied d xs \<or> domain_is_denied d ys"
  by (simp add: domain_is_denied_def)

end
