(* ===== verification/Signals.thy ===== *)
theory Signals
  imports Url_Rules Policy
begin

text \<open>
  The signal part of \<open>rules.py\<close>: the term lists, the two text patterns, the evidence detector
  and the campaign candidate.
\<close>

subsection \<open>Terms\<close>

definition PROMOTION_TERMS :: "ustring list" where
  "PROMOTION_TERMS =
     [[25512, 24191], [32852, 30431], [24341, 27969], [20195, 21457], [20195, 29702],
      [21152, 30431], ustr ''promotion'', ustr ''affiliate'']
   @ [[21338, 24425], [19979, 27880], [25237, 27880], [23089, 20048, 22478], [21253, 36194],
      [21453, 27700], [30424, 21475], ustr ''betting'', ustr ''casino'']
   @ [[24102, 21333], [21512, 32422, 36319, 21333], [31283, 36186], [22871, 21033],
      [21512, 32422, 32676], [39640, 36820], [36820, 20323], [31354, 25237], [25644, 30742],
      [37327, 21270], [20132, 26131, 25152, 36820, 20323], ustr ''crypto signal'',
      ustr ''guaranteed return'', ustr ''airdrop'']
   @ [[26426, 22330, 25512, 33616], [26426, 22330, 35746, 38405], [33410, 28857, 35746, 38405],
      [19987, 32447, 33410, 28857], [20302, 20493, 29575], [27704, 20037, 22871, 39184],
      [27969, 23186, 20307, 35299, 38145], [32763, 22681, 26426, 22330],
      ustr ''vpn subscription'', ustr ''proxy subscription'']"

definition CRYPTO_SERVICE_TERMS :: "ustring list" where
  "CRYPTO_SERVICE_TERMS =
     [[36716, 36134], [33021, 37327], [24102, 23485], [20195, 20184], ustr ''gas fee'']"

definition COMMERCIAL_TERMS :: "ustring list" where
  "COMMERCIAL_TERMS =
     [[19979, 21333], [36141, 20080], [20986, 21806], [20817, 25442], [23458, 26381],
      [27963, 21160], [32852, 31995]]"

definition LOW_INFORMATION_OPENERS :: "ustring list" where
  "LOW_INFORMATION_OPENERS =
     [[22312, 21527], [28404, 28404], [20320, 22909], [24744, 22909], ustr ''hi'',
      ustr ''hello'', ustr ''hey'']"

subsection \<open>Patterns\<close>

definition ascii_small :: "nat \<Rightarrow> bool" where
  "ascii_small c \<longleftrightarrow> 97 \<le> c \<and> c \<le> 122"

text \<open>\<open>CRYPTO_ASSET_RE.search\<close>, with the character before the current one (if any).\<close>

definition crypto_asset_at :: "ustring \<Rightarrow> bool" where
  "crypto_asset_at s \<longleftrightarrow>
     list_ex (\<lambda>asset. starts_with s asset
         \<and> (case drop (length asset) s of [] \<Rightarrow> True | c # _ \<Rightarrow> \<not> ascii_small c))
       [ustr ''trx'', ustr ''usdt'', ustr ''usdc'', ustr ''ton'']"

fun crypto_asset_search :: "nat option \<Rightarrow> ustring \<Rightarrow> bool" where
  "crypto_asset_search before [] = False"
| "crypto_asset_search before (c # cs) =
     ((case before of None \<Rightarrow> True | Some b \<Rightarrow> \<not> ascii_small b) \<and> crypto_asset_at (c # cs)
      \<or> crypto_asset_search (Some c) cs)"

text \<open>\<open>[a-z0-9_]\<close> under \<open>IGNORECASE\<close>, with the four non-ASCII letters that fold into it.\<close>

definition username_char :: "nat \<Rightarrow> bool" where
  "username_char c \<longleftrightarrow> is_ascii_alpha c \<or> is_digit c \<or> c = 95 \<or> c \<in> {304, 305, 383, 8490}"

text \<open>\<open>USERNAME_RE.search\<close>: the lookahead makes the run of name characters maximal.\<close>

fun username_search :: "nat option \<Rightarrow> ustring \<Rightarrow> bool" where
  "username_search before [] = False"
| "username_search before (c # cs) =
     (c = 64 \<and> (case before of None \<Rightarrow> True | Some b \<Rightarrow> \<not> username_char b \<and> b \<noteq> 64)
        \<and> 5 \<le> length (takeWhile username_char cs) \<and> length (takeWhile username_char cs) \<le> 32
      \<or> username_search (Some c) cs)"

subsection \<open>Message facts\<close>

record message_facts =
  f_text :: ustring
  f_preview_text :: ustring
  f_quote_text :: ustring
  f_urls :: "ustring list"
  f_domains :: "ustring list"
  f_button_texts :: "ustring list"
  f_button_urls :: "ustring list"
  f_preview_urls :: "ustring list"
  f_quote_urls :: "ustring list"
  f_quote_domains :: "ustring list"
  f_has_link_button :: bool
  f_link_button_count :: nat
  f_has_any_button :: bool
  f_is_forwarded :: bool
  f_via_bot :: bool

definition f_has_link :: "message_facts \<Rightarrow> bool" where
  "f_has_link f \<longleftrightarrow> f_urls f \<noteq> [] \<or> f_has_link_button f"

subsection \<open>The detector\<close>

definition signal :: "string \<Rightarrow> signal_source \<Rightarrow> int \<Rightarrow> string \<Rightarrow> evidence_signal" where
  "signal c src w e = \<lparr>sig_code = c, sig_source = src, sig_weight = w, sig_explanation = e\<rparr>"

definition mentions :: "ustring list \<Rightarrow> ustring \<Rightarrow> bool" where
  "mentions terms t \<longleftrightarrow> list_ex (contains t) terms"

definition quoted_promotion :: "unicode \<Rightarrow> message_facts \<Rightarrow> bool" where
  "quoted_promotion u f \<longleftrightarrow>
    (let q = normalize_text u (f_quote_text f) in
     mentions PROMOTION_TERMS q
     \<or> (crypto_asset_search None q
        \<and> length (filter (contains q) CRYPTO_SERVICE_TERMS) \<ge> 2
        \<and> (mentions COMMERCIAL_TERMS q \<or> username_search None q)))"

definition url_keys :: "unicode \<Rightarrow> ustring list \<Rightarrow> ustring list" where
  "url_keys u urls = remdups (List.map_filter (normalized_url_key u) urls)"

definition link_kinds :: "unicode \<Rightarrow> message_facts \<Rightarrow> string list" where
  "link_kinds u f = map (telegram_link_kind u) (f_urls f @ f_quote_urls f)"

definition invites :: "unicode \<Rightarrow> ustring list \<Rightarrow> bool" where
  "invites u urls \<longleftrightarrow> list_ex (\<lambda>url. telegram_link_kind u url = ''invite'') urls"

definition invite_source :: "unicode \<Rightarrow> message_facts \<Rightarrow> signal_source" where
  "invite_source u f =
    (if invites u (filter (\<lambda>url. url \<notin> set (f_preview_urls f)) (f_urls f)) then Authored
     else if invites u (f_preview_urls f) then Preview else Quoted)"

definition any_denied :: "ustring list \<Rightarrow> ustring list \<Rightarrow> bool" where
  "any_denied denylist domains \<longleftrightarrow> list_ex (\<lambda>d. domain_is_denied d denylist) domains"

definition authored_denied_code :: "unicode \<Rightarrow> ustring list \<Rightarrow> message_facts \<Rightarrow> string option" where
  "authored_denied_code u denylist f =
    (if denylist \<noteq> [] \<and> any_denied denylist (f_domains f) then
       Some (if any_denied denylist (List.map_filter (normalized_domain u) (f_button_urls f))
             then ''BUTTON_DENIED_DOMAIN''
             else if any_denied denylist (List.map_filter (normalized_domain u) (f_preview_urls f))
             then ''PREVIEW_DENIED_DOMAIN''
             else ''AUTHORED_DENIED_DOMAIN'')
     else None)"

definition promotion_signals :: "bool \<Rightarrow> bool \<Rightarrow> evidence_signal list" where
  "promotion_signals authored_promotion preview_promotion =
    (if authored_promotion then
       [signal ''PROMOTIONAL_LANGUAGE'' Authored 20
          ''The authored message contains promotional language.'']
     else if preview_promotion then
       [signal ''PREVIEW_PROMOTIONAL_LANGUAGE'' Preview 20
          ''Telegram webpage preview metadata contains promotional language.''] else [])"

definition button_signals :: "message_facts \<Rightarrow> nat \<Rightarrow> evidence_signal list" where
  "button_signals f link_button_count =
    (if f_is_forwarded f \<and> f_has_link_button f then
       [signal ''FORWARDED_LINK_BUTTON'' Button 25
          ''A forwarded message contains an interactive link button.'']
     else if link_button_count \<ge> 2 then
       [signal ''MULTIPLE_LINK_BUTTONS'' Button 25
          ''The message contains multiple interactive link buttons.''] else [])"

definition owner_policy_signals ::
  "ustring list \<Rightarrow> message_facts \<Rightarrow> string option \<Rightarrow> evidence_signal list" where
  "owner_policy_signals denylist f denied = (case denied of
      Some c \<Rightarrow>
        [signal c OwnerPolicy 100
           ''A non-quoted link matches the owner's local domain denylist.'']
    | None \<Rightarrow>
        if denylist \<noteq> [] \<and> any_denied denylist (f_quote_domains f) then
          [signal ''QUOTED_DENIED_DOMAIN'' OwnerPolicy 30
             ''A quoted-context link matches the owner's local domain denylist.'']
        else [])"

definition detect_evidence_signals ::
  "unicode \<Rightarrow> message_facts \<Rightarrow> int \<Rightarrow> ustring list \<Rightarrow> evidence_signal list" where
  "detect_evidence_signals u f previous_link_messages denylist =
    (let normalized = normalize_text u (f_text f);
         authored_promotion = mentions PROMOTION_TERMS normalized;
         preview_promotion = mentions PROMOTION_TERMS (normalize_text u (f_preview_text f));
         link_button_count = max (f_link_button_count f) (if f_has_link_button f then 1 else 0);
         kinds = set (link_kinds u f);
         denied = authored_denied_code u denylist f
     in (if normalized \<in> set LOW_INFORMATION_OPENERS then
           [signal ''LOW_INFORMATION_OPENER'' Authored 5
              ''The authored message is a low-information opener.''] else [])
      @ (if ''invite'' \<in> kinds then
           [signal ''TELEGRAM_INVITE'' (invite_source u f) 10
              ''A Telegram invitation link is present.''] else [])
      @ (if link_button_count = 1 \<and> \<not> invites u (f_button_urls f) then
           [signal ''LINK_BUTTON'' Button 10
              ''The message contains one interactive link button.''] else [])
      @ (if f_is_forwarded f then
           [signal ''FORWARDED_PAYLOAD'' Behavior 10
              ''Telegram marks the message as forwarded.''] else [])
      @ (if previous_link_messages \<ge> 1 \<and> f_has_link f then
           [signal ''LINK_BURST'' Behavior 10
              ''The sender recently sent another link-bearing message.''] else [])
      @ (if length (url_keys u (f_urls f)) \<ge> 2 \<or> length (remdups (f_domains f)) \<ge> 2 then
           [signal ''MULTIPLE_LINKS''
              (if length (url_keys u (f_preview_urls f)) \<ge> 2 then Preview else Authored) 15
              ''The message or webpage preview contains multiple distinct links.''] else [])
      @ (if length (url_keys u (f_quote_urls f)) \<ge> 2
            \<or> length (remdups (f_quote_domains f)) \<ge> 2 then
           [signal ''QUOTED_MULTIPLE_LINKS'' Quoted 15
              ''The quoted context contains multiple distinct links.''] else [])
      @ (if quoted_promotion u f then
           [signal ''QUOTED_PROMOTIONAL_LANGUAGE'' Quoted 15
              ''The quoted context contains promotional language.''] else [])
      @ (if ''external_web'' \<in> kinds \<and> ''invite'' \<in> kinds then
           [signal ''EXTERNAL_AND_TELEGRAM_LINKS'' Behavior 15
              ''External web and Telegram invitation links appear together.''] else [])
      @ promotion_signals authored_promotion preview_promotion
      @ button_signals f link_button_count
      @ owner_policy_signals denylist f denied)"

lemmas detector_defs = detect_evidence_signals_def promotion_signals_def button_signals_def owner_policy_signals_def

definition campaign_candidate ::
  "unicode \<Rightarrow> message_facts \<Rightarrow> evidence_signal list \<Rightarrow> ustring option" where
  "campaign_candidate u f signals =
    (let codes = set (map sig_code signals);
         quote_link_kinds = campaign_link_kinds u (f_quote_urls f);
         authored_link_kinds = campaign_link_kinds u (f_urls f);
         preview_link_kinds = campaign_link_kinds u (f_preview_urls f);
         outer_text = join [10] (f_text f # f_preview_text f # f_button_texts f);
         choice =
           (if ''QUOTED_PROMOTIONAL_LANGUAGE'' \<in> codes \<and> length quote_link_kinds \<ge> 2 then
              Some (campaign_template_text u (f_quote_text f), quote_link_kinds, ''quoted'')
            else if ''PREVIEW_PROMOTIONAL_LANGUAGE'' \<in> codes \<and> length preview_link_kinds \<ge> 2 then
              Some (campaign_template_text u outer_text, authored_link_kinds, ''preview'')
            else if ''PROMOTIONAL_LANGUAGE'' \<in> codes \<and> length authored_link_kinds \<ge> 2 then
              Some (campaign_template_text u outer_text, authored_link_kinds, ''authored'')
            else None)
     in (case choice of
           None \<Rightarrow> None
         | Some (t, kinds, src) \<Rightarrow>
             if t = [] \<or> kinds = [] then None
             else Some (ustr ''adaptive-v2:'' @ ustr src @ ustr '':'' @ t @ ustr '':''
                        @ join [124] kinds)))"

definition repeated_campaign_signal :: evidence_signal where
  "repeated_campaign_signal =
     signal ''REPEATED_CAMPAIGN'' Behavior 40
       ''The same promotional template appeared from another sender within 7 days.''"

end
