(* ===== verification/Message_Facts.thy ===== *)
theory Message_Facts
  imports Signals
begin

text \<open>
  \<open>message_facts.py\<close>: the content facts of a Telegram message, and the UTF-16 offsets Telegram
  uses for entities; offsets and lengths are taken to be as Telegram sends them, never negative. A record
  holds the attributes of a Telethon message the code reads. A
  Python set that is sorted before use is a list without duplicates.
\<close>

subsection \<open>UTF-16\<close>

definition high_surrogate :: "nat \<Rightarrow> bool" where
  "high_surrogate c \<longleftrightarrow> 55296 \<le> c \<and> c \<le> 56319"

definition low_surrogate :: "nat \<Rightarrow> bool" where
  "low_surrogate c \<longleftrightarrow> 56320 \<le> c \<and> c \<le> 57343"

definition utf16_units :: "nat \<Rightarrow> nat list" where
  "utf16_units c =
    (if c < 65536 then [c]
     else [55296 + (c - 65536) div 1024, 56320 + (c - 65536) mod 1024])"

text \<open>\<open>encode("utf-16-le")\<close> in code units; \<open>None\<close> is the error on a lone surrogate.\<close>

definition utf16_encode :: "ustring \<Rightarrow> nat list option" where
  "utf16_encode t =
    (if list_ex surrogate t then None else Some (concat (map utf16_units t)))"

text \<open>\<open>decode("utf-16-le", errors="ignore")\<close> drops unpaired surrogates.\<close>

fun utf16_decode :: "nat list \<Rightarrow> ustring" where
  "utf16_decode [] = []"
| "utf16_decode [c] = (if surrogate c then [] else [c])"
| "utf16_decode (c # d # cs) =
     (if high_surrogate c \<and> low_surrogate d
      then (65536 + (c - 55296) * 1024 + (d - 56320)) # utf16_decode cs
      else if surrogate c then utf16_decode (d # cs)
      else c # utf16_decode (d # cs))"

definition entity_text :: "ustring \<Rightarrow> nat \<Rightarrow> nat \<Rightarrow> ustring option" where
  "entity_text t offset n =
    map_option (\<lambda>units. utf16_decode (take n (drop offset units))) (utf16_encode t)"

subsection \<open>Messages\<close>

datatype entity = TextUrlEntity ustring | UrlEntity nat nat | OtherEntity

text \<open>A button: its text, whether its type is one of \<open>LINK_BUTTON_TYPES\<close>, and that type's
  \<open>url\<close> attribute when it is a string.\<close>

record tg_button =
  bt_text :: "ustring option"
  bt_link_type :: bool
  bt_url :: "ustring option"

record tg_webpage =
  wp_site_name :: "ustring option"
  wp_title :: "ustring option"
  wp_description :: "ustring option"
  wp_author :: "ustring option"
  wp_url :: "ustring option"

record tg_message =
  tm_id :: int
  tm_text :: "ustring option"
  tm_entities :: "entity list"
  tm_date :: "int option"
  tm_quote_text :: "ustring option"
  tm_quote_entities :: "entity list"
  tm_reply_to_id :: "int option"
  tm_button_rows :: "tg_button list list"
  tm_webpage :: "tg_webpage option"
  tm_forwarded :: bool
  tm_via_bot :: bool

fun entity_urls :: "ustring \<Rightarrow> entity list \<Rightarrow> ustring list option" where
  "entity_urls t [] = Some []"
| "entity_urls t (TextUrlEntity url # es) = map_option (Cons url) (entity_urls t es)"
| "entity_urls t (UrlEntity offset n # es) =
     (case entity_text t offset n of
        None \<Rightarrow> None | Some url \<Rightarrow> map_option (Cons url) (entity_urls t es))"
| "entity_urls t (OtherEntity # es) = entity_urls t es"

definition urls_from_text_and_entities :: "ustring \<Rightarrow> entity list \<Rightarrow> ustring list option" where
  "urls_from_text_and_entities t es = map_option (\<lambda>urls. find_urls t @ urls) (entity_urls t es)"

definition or_empty :: "ustring option \<Rightarrow> ustring" where
  "or_empty x = (case x of None \<Rightarrow> [] | Some t \<Rightarrow> t)"

definition sorted_set :: "ustring list \<Rightarrow> ustring list" where
  "sorted_set xs = sort (remdups xs)"

definition button_is_link :: "tg_button \<Rightarrow> bool" where
  "button_is_link b \<longleftrightarrow> bt_link_type b \<or> bt_url b \<noteq> None"

definition link_urls_of_buttons :: "tg_button list \<Rightarrow> ustring list" where
  "link_urls_of_buttons bs =
    List.map_filter (\<lambda>b. case bt_url b of
        Some (c # cs) \<Rightarrow> Some (c # cs) | _ \<Rightarrow> None) (filter button_is_link bs)"

definition button_labels :: "tg_button list \<Rightarrow> ustring list" where
  "button_labels bs =
    List.map_filter (\<lambda>b. case bt_text b of
        None \<Rightarrow> None | Some t \<Rightarrow> if strip t = [] then None else Some (strip t)) bs"

definition preview_text_of :: "tg_webpage option \<Rightarrow> ustring" where
  "preview_text_of wp = (case wp of
      None \<Rightarrow> []
    | Some w \<Rightarrow> join [10] (List.map_filter
        (\<lambda>v. case v of Some (c # cs) \<Rightarrow> Some (c # cs) | _ \<Rightarrow> None)
        [wp_site_name w, wp_title w, wp_description w, wp_author w]))"

definition domains_of :: "unicode \<Rightarrow> ustring list \<Rightarrow> ustring list" where
  "domains_of u urls = sorted_set (List.map_filter (normalized_domain u) urls)"

definition facts_from_message :: "unicode \<Rightarrow> tg_message \<Rightarrow> message_facts option" where
  "facts_from_message u m =
    (let t = or_empty (tm_text m); q = or_empty (tm_quote_text m);
         buttons = concat (tm_button_rows m);
         links = filter button_is_link buttons;
         preview = preview_text_of (tm_webpage m);
         page_url = (case Option.bind (tm_webpage m) wp_url of
             Some (c # cs) \<Rightarrow> [c # cs] | _ \<Rightarrow> [])
     in (case (urls_from_text_and_entities t (tm_entities m),
               urls_from_text_and_entities q (tm_quote_entities m)) of
           (Some text_urls, Some quote_urls) \<Rightarrow>
             (let preview_urls = find_urls preview @ page_url;
                  urls = text_urls @ link_urls_of_buttons buttons @ preview_urls
              in Some
                \<lparr>f_text = t, f_preview_text = preview, f_quote_text = q,
                 f_urls = sorted_set urls, f_domains = domains_of u urls,
                 f_button_texts = sorted_set (button_labels buttons),
                 f_button_urls = sorted_set (link_urls_of_buttons buttons),
                 f_preview_urls = sorted_set preview_urls,
                 f_quote_urls = sorted_set quote_urls,
                 f_quote_domains = domains_of u quote_urls,
                 f_has_link_button = (links \<noteq> []), f_link_button_count = length links,
                 f_has_any_button = (buttons \<noteq> []), f_is_forwarded = tm_forwarded m,
                 f_via_bot = tm_via_bot m\<rparr>)
         | _ \<Rightarrow> None))"

subsection \<open>Lemmas\<close>

lemma decode_units:
  assumes "scalar c"
  shows "utf16_decode (utf16_units c @ us) = c # utf16_decode us"
proof (cases "c < 65536")
  case True
  with assms show ?thesis
    by (cases us) (auto simp: utf16_units_def scalar_def surrogate_def high_surrogate_def)
next
  case False
  let ?d = "c - 65536"
  have "?d < 1024 * 1024" using assms False by (auto simp: scalar_def)
  then have d: "?d div 1024 < 1024" by (rule less_mult_imp_div_less)
  have m: "?d mod 1024 < 1024" by simp
  have high: "high_surrogate (55296 + ?d div 1024)" using d by (simp add: high_surrogate_def)
  have low: "low_surrogate (56320 + ?d mod 1024)" using m by (simp add: low_surrogate_def)
  have "65536 + (?d div 1024 * 1024 + ?d mod 1024) = c" using False by simp
  with high low False show ?thesis
    by (simp add: utf16_units_def)
qed

lemma decode_concat_units:
  "list_all scalar t \<Longrightarrow> utf16_decode (concat (map utf16_units t)) = t"
  by (induction t) (simp_all add: decode_units)

lemma sorted_set_distinct [simp]: "distinct (sorted_set xs)"
  by (simp add: sorted_set_def)

lemma set_sorted_set [simp]: "set (sorted_set xs) = set xs"
  by (simp add: sorted_set_def)

lemma sorted_sorted_set [simp]: "sorted (sorted_set xs)"
  by (simp add: sorted_set_def)

lemma length_utf16_units: "1 \<le> length (utf16_units c) \<and> length (utf16_units c) \<le> 2"
  by (simp add: utf16_units_def)

lemma length_concat_units: "length t \<le> length (concat (map utf16_units t))"
proof (induction t)
  case (Cons c t)
  then show ?case using length_utf16_units [of c] by simp
qed simp

lemma entity_text_slice:
  assumes "list_all scalar (a @ b @ c)"
  shows "entity_text (a @ b @ c) (length (concat (map utf16_units a)))
           (length (concat (map utf16_units b))) = Some b"
proof -
  from assms have "\<not> list_ex surrogate (a @ b @ c)"
    by (auto simp: list_all_iff list_ex_iff scalar_def)
  with assms show ?thesis
    by (simp add: entity_text_def utf16_encode_def decode_concat_units)
qed

end
