(* ===== verification/Effects.thy ===== *)
theory Effects
  imports Store_Maintenance Challenge_Text Message_Facts
begin

text \<open>
  The effects of the service and the adapter. A program runs on a \<open>world\<close>: the state database,
  the successive readings of the clock, the successive random draws, the successive replies of
  the Telegram server, and the trace of what was sent to Telegram or scheduled on the event
  loop. A program returns a value (\<open>Inr\<close>) or raises (\<open>Inl\<close>); the world it has changed so far
  stays changed, as in Python. \<open>actions\<close> is the protocol \<open>MessageActions\<close> of \<open>service.py\<close>.
\<close>

type_synonym exn = string

text \<open>A reply of the Telegram server: the request failed, it succeeded, a message was sent with
  the given id, a dialog's current settings were returned (\<open>None\<close>: no such dialog), the
  messages of a conversation, newest first, one message with the type name of its media, the
  profiles of users, or messages found in Saved Messages.\<close>

record history_message =
  hm_id :: int
  hm_out :: bool
  hm_text :: ustring
  hm_date :: "int option"

record tg_profile =
  up_first_name :: "ustring option"
  up_last_name :: "ustring option"
  up_username :: "ustring option"

record saved_message =
  sv_id :: "int option"
  sv_date :: "int option"
  sv_out :: bool
  sv_forwarded :: bool
  sv_text :: ustring

datatype reply =
    ReplyError
  | ReplyOk
  | ReplyId int
  | ReplyDialog "dialog_snapshot option"
  | ReplyHistory "history_message list"
  | ReplyMessage "(tg_message \<times> string) option"
  | ReplyUsers "tg_profile list"
  | ReplySaved "saved_message list"

datatype peer_key = PeerUser int int

datatype request =
    SendMessage peer_key ustring "int option" "(span_style \<times> nat \<times> nat) list"
  | GetPeerDialogs peer_key
  | EditPeerFolders peer_key int
  | UpdateNotifySettings peer_key bool int
  | DeleteMessages peer_key "int list"
  | DeleteDialog peer_key
  | IterMessages peer_key int bool
  | GetMessage peer_key int
  | GetEntities "peer_key list"
  | SearchSaved ustring int
  | DeleteSaved "int list"
  | RespondSaved ustring

text \<open>Work put on the event loop: the timer of a challenge (expiry, grace, least delay), the
  cancellation of a sender's timer or of its cleanup tasks, and the deletions and resets with the
  time they are due.\<close>

datatype job =
    TimeoutJob sender_key int int int "peer_key option"
  | CancelTimeoutJob sender_key
  | CancelCleanupJob sender_key
  | MessageDeletionJob "peer_key option" sender_key int int
  | VerificationDeletionJob "peer_key option" sender_key "int list" int
  | DialogDeletionJob int int
  | StateResetJob sender_key int int

datatype event = Telegram request | Scheduled job

record world =
  db :: store
  clock :: "nat \<Rightarrow> int"
  ticks :: nat
  draws :: nat
  replies :: "nat \<Rightarrow> reply"
  calls :: nat
  trace :: "event list"

type_synonym ('a, 'w) prog_on = "'w \<Rightarrow> (exn + 'a) \<times> 'w"

type_synonym 'a prog = "('a, world) prog_on"

subsection \<open>Combinators\<close>

definition ret :: "'a \<Rightarrow> ('a, 'w) prog_on" where
  "ret x w = (Inr x, w)"

definition raise_exn :: "exn \<Rightarrow> ('a, 'w) prog_on" where
  "raise_exn e w = (Inl e, w)"

definition bind_prog :: "('a, 'w) prog_on \<Rightarrow> ('a \<Rightarrow> ('b, 'w) prog_on) \<Rightarrow> ('b, 'w) prog_on" where
  "bind_prog m f w = (case m w of (Inl e, w') \<Rightarrow> (Inl e, w') | (Inr x, w') \<Rightarrow> f x w')"

text \<open>\<open>try: m except Exception: h\<close>.\<close>

definition try_except :: "('a, 'w) prog_on \<Rightarrow> ('a, 'w) prog_on \<Rightarrow> ('a, 'w) prog_on" where
  "try_except m h w = (case m w of (Inl e, w') \<Rightarrow> h w' | (Inr x, w') \<Rightarrow> (Inr x, w'))"

definition query :: "(store \<Rightarrow> 'a) \<Rightarrow> 'a prog" where
  "query f w = (Inr (f (db w)), w)"

definition change :: "(store \<Rightarrow> store) \<Rightarrow> unit prog" where
  "change f w = (Inr (), w\<lparr>db := f (db w)\<rparr>)"

definition transact :: "(store \<Rightarrow> 'a \<times> store) \<Rightarrow> 'a prog" where
  "transact f w = (Inr (fst (f (db w))), w\<lparr>db := snd (f (db w))\<rparr>)"

text \<open>A store method that may raise.\<close>

definition transact_exn :: "(store \<Rightarrow> (exn + 'a) \<times> store) \<Rightarrow> 'a prog" where
  "transact_exn f w = (fst (f (db w)), w\<lparr>db := snd (f (db w))\<rparr>)"

definition read_clock :: "int prog" where
  "read_clock w = (Inr (clock w (ticks w)), w\<lparr>ticks := Suc (ticks w)\<rparr>)"

definition draw :: "(nat \<Rightarrow> 'a) \<Rightarrow> 'a prog" where
  "draw f w = (Inr (f (draws w)), w\<lparr>draws := Suc (draws w)\<rparr>)"

definition schedule :: "job \<Rightarrow> unit prog" where
  "schedule j w = (Inr (), w\<lparr>trace := trace w @ [Scheduled j]\<rparr>)"

text \<open>One awaited request to Telegram; a failed one raises, and one without a peer raises before
  anything is sent.\<close>

definition telegram :: "request \<Rightarrow> reply prog" where
  "telegram q w =
    (let r = replies w (calls w);
         w' = w\<lparr>calls := Suc (calls w), trace := trace w @ [Telegram q]\<rparr>
     in if r = ReplyError then (Inl ''TelegramError'', w') else (Inr r, w'))"

definition telegram_peer :: "peer_key option \<Rightarrow> (peer_key \<Rightarrow> request) \<Rightarrow> reply prog" where
  "telegram_peer peer q = (case peer of
      None \<Rightarrow> raise_exn ''TypeError'' | Some p \<Rightarrow> telegram (q p))"

lemmas prog_defs =
  ret_def raise_exn_def bind_prog_def try_except_def query_def change_def transact_def
  transact_exn_def read_clock_def draw_def schedule_def

text \<open>Programs in sequence, where the first one's value is not used.\<close>

definition then_prog :: "('a, 'w) prog_on \<Rightarrow> ('b, 'w) prog_on \<Rightarrow> ('b, 'w) prog_on" where
  "then_prog m n = bind_prog m (\<lambda>_. n)"

lemma bind_ret [simp]: "bind_prog (ret x) f = f x"
  by (simp add: bind_prog_def ret_def fun_eq_iff)

lemma bind_raise [simp]: "bind_prog (raise_exn e) f = raise_exn e"
  by (simp add: bind_prog_def raise_exn_def fun_eq_iff)

lemma bind_assoc:
  "bind_prog (bind_prog m f) g = bind_prog m (\<lambda>x. bind_prog (f x) g)"
  by (rule ext) (auto simp: bind_prog_def split: prod.splits sum.splits)

lemma try_ret [simp]: "try_except (ret x) h = ret x"
  by (simp add: try_except_def ret_def fun_eq_iff)

subsection \<open>The protocol MessageActions\<close>

record actions =
  send_text :: "ustring \<Rightarrow> int option \<Rightarrow> style_span list \<Rightarrow> int prog"
  archive_and_mute :: "bool prog"
  restore_from_pending :: "bool prog"
  delete_message :: "int \<Rightarrow> bool prog"
  delete_messages :: "int list \<Rightarrow> bool prog"
  delete_dialog :: "bool prog"
  schedule_timeout :: "sender_key \<Rightarrow> int \<Rightarrow> int \<Rightarrow> unit prog"
  cancel_timeout :: "sender_key \<Rightarrow> unit prog"
  schedule_test_message_deletion :: "sender_key \<Rightarrow> int \<Rightarrow> int \<Rightarrow> unit prog"
  schedule_verification_message_deletion :: "sender_key \<Rightarrow> int list \<Rightarrow> int \<Rightarrow> unit prog"
  schedule_dialog_deletion :: "int \<Rightarrow> int \<Rightarrow> unit prog"
  schedule_test_state_reset :: "sender_key \<Rightarrow> int \<Rightarrow> int \<Rightarrow> unit prog"

subsection \<open>Programs that keep a relation\<close>

text \<open>
  \<open>preserves R m\<close>: whatever \<open>m\<close> returns or raises, the worlds before and after are related by
  \<open>R\<close>. For a preorder \<open>R\<close> this is closed under every combinator, so a contract of the single
  operations lifts to whole handlers. \<open>keeps R m\<close> is the special case of a relation on stores.
\<close>

definition preserves :: "(world \<Rightarrow> world \<Rightarrow> bool) \<Rightarrow> 'a prog \<Rightarrow> bool" where
  "preserves R m \<longleftrightarrow> (\<forall>w. R w (snd (m w)))"

definition keeps :: "(store \<Rightarrow> store \<Rightarrow> bool) \<Rightarrow> 'a prog \<Rightarrow> bool" where
  "keeps R m \<longleftrightarrow> preserves (\<lambda>w w'. R (db w) (db w')) m"

lemma preservesD: "preserves R m \<Longrightarrow> R w (snd (m w))"
  by (simp add: preserves_def)

lemma keepsD: "keeps R m \<Longrightarrow> R (db w) (db (snd (m w)))"
  by (simp add: keeps_def preserves_def)

lemma keeps_iff: "keeps R m \<longleftrightarrow> (\<forall>w. R (db w) (db (snd (m w))))"
  by (simp add: keeps_def preserves_def)

locale prog_relation =
  fixes R :: "world \<Rightarrow> world \<Rightarrow> bool"
  assumes R_refl: "R w w"
    and R_trans: "R u v \<Longrightarrow> R v w \<Longrightarrow> R u w"
begin

lemma pres_ret: "preserves R (ret x)"
  by (simp add: preserves_def ret_def R_refl)

lemma pres_raise: "preserves R (raise_exn e)"
  by (simp add: preserves_def raise_exn_def R_refl)

lemma pres_query: "preserves R (query f)"
  by (simp add: preserves_def query_def R_refl)

text \<open>The sequential rules, with the values the first program can return.\<close>

lemma bind_at:
  assumes "R w (snd (m w))" and "\<And>x w'. m w = (Inr x, w') \<Longrightarrow> R w' (snd (f x w'))"
  shows "R w (snd (bind_prog m f w))"
proof -
  obtain r w' where m: "m w = (r, w')" by fastforce
  with assms show ?thesis by (cases r) (auto simp: bind_prog_def intro: R_trans)
qed

lemma try_at:
  assumes "R w (snd (m w))" and "\<And>e w'. m w = (Inl e, w') \<Longrightarrow> R w' (snd (h w'))"
  shows "R w (snd (try_except m h w))"
proof -
  obtain r w' where m: "m w = (r, w')" by fastforce
  with assms show ?thesis by (cases r) (auto simp: try_except_def intro: R_trans)
qed

lemma pres_bind:
  assumes "preserves R m" and "\<And>x. preserves R (f x)"
  shows "preserves R (bind_prog m f)"
  unfolding preserves_def using assms by (blast intro: bind_at preservesD)

lemma pres_then: "preserves R m \<Longrightarrow> preserves R n \<Longrightarrow> preserves R (then_prog m n)"
  unfolding then_prog_def by (rule pres_bind)

lemma pres_try:
  assumes "preserves R m" and "preserves R h"
  shows "preserves R (try_except m h)"
  unfolding preserves_def using assms by (blast intro: try_at preservesD)

lemma pres_if:
  "(b \<Longrightarrow> preserves R m) \<Longrightarrow> (\<not> b \<Longrightarrow> preserves R n) \<Longrightarrow> preserves R (if b then m else n)"
  by simp

lemma pres_case_option:
  "(x = None \<Longrightarrow> preserves R m) \<Longrightarrow> (\<And>y. x = Some y \<Longrightarrow> preserves R (f y))
   \<Longrightarrow> preserves R (case x of None \<Rightarrow> m | Some y \<Rightarrow> f y)"
  by (cases x) auto

lemma pres_case_sum:
  "(\<And>a. x = Inl a \<Longrightarrow> preserves R (f a)) \<Longrightarrow> (\<And>b. x = Inr b \<Longrightarrow> preserves R (g b))
   \<Longrightarrow> preserves R (case x of Inl a \<Rightarrow> f a | Inr b \<Rightarrow> g b)"
  by (cases x) auto

lemma pres_case_prod:
  "(\<And>a b. x = (a, b) \<Longrightarrow> preserves R (f a b)) \<Longrightarrow> preserves R (case x of (a, b) \<Rightarrow> f a b)"
  by (cases x) auto

lemma pres_Let: "preserves R (f x) \<Longrightarrow> preserves R (let y = x in f y)"
  by simp

lemmas pres_control =
  pres_ret pres_raise pres_query pres_bind pres_then pres_try pres_if pres_case_option
  pres_case_sum pres_case_prod pres_Let

end

text \<open>Relations that only look at the trace, such as not having touched Telegram.\<close>

definition quiet :: "'a prog \<Rightarrow> bool" where
  "quiet m \<longleftrightarrow> preserves (\<lambda>w w'. trace w' = trace w) m"

interpretation quiet_run: prog_relation "\<lambda>w w'. trace w' = trace w"
  by unfold_locales auto

lemma quietD: "quiet m \<Longrightarrow> trace (snd (m w)) = trace w"
  by (simp add: quiet_def preserves_def)

lemma quiet_change: "quiet (change f)"
  by (simp add: quiet_def preserves_def change_def)

lemma quiet_transact: "quiet (transact f)"
  by (simp add: quiet_def preserves_def transact_def)

lemma quiet_transact_exn: "quiet (transact_exn f)"
  by (simp add: quiet_def preserves_def transact_exn_def)

lemma quiet_read_clock: "quiet read_clock"
  by (simp add: quiet_def preserves_def read_clock_def)

lemma quiet_draw: "quiet (draw f)"
  by (simp add: quiet_def preserves_def draw_def)

lemmas quiet_control =
  quiet_change quiet_transact quiet_transact_exn quiet_read_clock quiet_draw
  quiet_run.pres_control [folded quiet_def]

locale store_relation =
  fixes R :: "store \<Rightarrow> store \<Rightarrow> bool"
  assumes R_refl: "R s s"
    and R_trans: "R s t \<Longrightarrow> R t u \<Longrightarrow> R s u"

sublocale store_relation \<subseteq> worlds: prog_relation "\<lambda>w w'. R (db w) (db w')"
  by unfold_locales (rule R_refl, rule R_trans)

context store_relation
begin

lemmas keeps_bind_at = worlds.bind_at
lemmas keeps_try_at = worlds.try_at
lemmas keeps_world = worlds.pres_control [folded keeps_def]

lemma keeps_ret: "keeps R (ret x)"
  by (rule keeps_world)

lemma keeps_raise: "keeps R (raise_exn e)"
  by (rule keeps_world)

lemma keeps_same: "(\<And>w. db (snd (m w)) = db w) \<Longrightarrow> keeps R m"
  by (simp add: keeps_iff R_refl)

lemma keeps_read_clock: "keeps R read_clock"
  by (rule keeps_same) (simp add: read_clock_def)

lemma keeps_draw: "keeps R (draw f)"
  by (rule keeps_same) (simp add: draw_def)

lemma keeps_schedule: "keeps R (schedule j)"
  by (rule keeps_same) (simp add: schedule_def)

lemma keeps_telegram: "keeps R (telegram q)"
  by (rule keeps_same) (simp add: telegram_def Let_def)

lemma keeps_telegram_peer: "keeps R (telegram_peer peer q)"
  by (cases peer) (simp_all add: telegram_peer_def keeps_raise keeps_telegram)

lemma keeps_change: "(\<And>s. R s (f s)) \<Longrightarrow> keeps R (change f)"
  by (simp add: keeps_iff change_def)

lemma keeps_transact: "(\<And>s. R s (snd (f s))) \<Longrightarrow> keeps R (transact f)"
  by (simp add: keeps_iff transact_def)

lemma keeps_transact_exn: "(\<And>s. R s (snd (f s))) \<Longrightarrow> keeps R (transact_exn f)"
  by (simp add: keeps_iff transact_exn_def)

lemmas keeps_control =
  keeps_read_clock keeps_draw keeps_schedule keeps_telegram keeps_telegram_peer keeps_world

end

end
