(* ===== verification/Service_Core.thy ===== *)
theory Service_Core
  imports Effects Signals
begin

text \<open>
  \<open>service.py\<close>, first part: the configuration of \<open>GatekeeperService\<close>, the control references,
  the evidence envelope, the decision record and the review queue entry. The keyed hashes and
  the ciphers are the fields of a \<open>protector\<close>; \<open>Crypto\<close> models \<open>crypto.py\<close> and supplies one.
  A \<open>nat\<close> argument of a field is the number of the random draw it uses.
\<close>

record protector =
  prot_sender_key :: "int \<Rightarrow> sender_key"
  prot_answer_digest :: "sender_key \<Rightarrow> string \<Rightarrow> ustring \<Rightarrow> string"
  prot_campaign_fingerprint :: "ustring \<Rightarrow> exn + string"
  prot_open_review :: "blob \<Rightarrow> (int \<times> int \<times> int) option"
  prot_open_restriction :: "blob \<Rightarrow> (int \<times> int) option"
  prot_seal_review :: "nat \<Rightarrow> int \<Rightarrow> int \<Rightarrow> int \<Rightarrow> blob"
  prot_seal_restriction :: "nat \<Rightarrow> int \<Rightarrow> int \<Rightarrow> blob"

record incoming_message =
  m_sender_id :: int
  m_message_id :: int
  m_text :: ustring
  m_facts :: message_facts
  m_sent_at :: int
  m_reply_to :: "int option"
  m_is_contact :: bool
  m_is_bot :: bool
  m_is_service :: bool
  m_has_trusted_history :: bool
  m_review_reference :: "blob option"

subsection \<open>The evidence envelope's content\<close>

record case_features =
  cf_button_text_count :: nat
  cf_domain_count :: nat
  cf_forwarded :: bool
  cf_has_any_button :: bool
  cf_has_link :: bool
  cf_has_link_button :: bool
  cf_has_preview_text :: bool
  cf_has_quote :: bool
  cf_link_button_count :: nat
  cf_quote_url_count :: nat
  cf_url_count :: nat
  cf_via_bot :: bool

record active_case =
  ac_schema_version :: int
  ac_text :: ustring
  ac_quote_text :: ustring
  ac_preview_text :: ustring
  ac_button_texts :: "ustring list"
  ac_urls :: "url_record list"
  ac_quote_urls :: "url_record list"
  ac_domains :: "ustring list"
  ac_quote_domains :: "ustring list"
  ac_url_shape :: url_shape
  ac_quote_url_shape :: url_shape
  ac_features :: case_features
  ac_signals :: "evidence_signal list"
  ac_risk_score :: int
  ac_challenge_profile :: "challenge_profile option"
  ac_planned_action :: screening_action
  ac_decision_basis :: string
  ac_policy_version :: string

definition MAX_REVIEW_BUTTON_TEXTS :: nat where
  "MAX_REVIEW_BUTTON_TEXTS = 10"

subsection \<open>The service\<close>

record gatekeeper =
  gk_protector :: protector
  gk_ttl_seconds :: int
  gk_max_attempts :: int
  gk_outbound_limit :: int
  gk_notice_reserve :: int
  gk_notice_sender_limit :: int
  gk_review_days :: int
  gk_case_days :: int
  gk_denylist :: "ustring list"
  gk_test_sender_key :: "sender_key option"
  gk_seal_case :: "(nat \<Rightarrow> active_case \<Rightarrow> exn + blob) option"
  gk_challenge_factory :: "nat \<Rightarrow> challenge"
  gk_unicode :: unicode

text \<open>\<open>GatekeeperService.__init__\<close>, up to the backfill of references.\<close>

definition new_gatekeeper ::
  "protector \<Rightarrow> int \<Rightarrow> int \<Rightarrow> int \<Rightarrow> int option \<Rightarrow> int \<Rightarrow> int \<Rightarrow> int \<Rightarrow> ustring list
   \<Rightarrow> int option \<Rightarrow> (nat \<Rightarrow> active_case \<Rightarrow> exn + blob) option \<Rightarrow> (nat \<Rightarrow> challenge) \<Rightarrow> unicode
   \<Rightarrow> exn + gatekeeper" where
  "new_gatekeeper p ttl max_att limit reserve sender_limit review_days case_days denylist
     test_sender_id seal factory u =
    (let notice_reserve = (case reserve of None \<Rightarrow> min 3 (limit - 1) | Some n \<Rightarrow> n) in
     if \<not> (0 \<le> notice_reserve \<and> notice_reserve < limit) then Inl ''ValueError''
     else if sender_limit < 1 then Inl ''ValueError''
     else Inr \<lparr>gk_protector = p, gk_ttl_seconds = ttl, gk_max_attempts = max_att,
        gk_outbound_limit = limit, gk_notice_reserve = notice_reserve,
        gk_notice_sender_limit = sender_limit, gk_review_days = min review_days 7,
        gk_case_days = min case_days 30, gk_denylist = denylist,
        gk_test_sender_key = map_option (prot_sender_key p) test_sender_id,
        gk_seal_case = seal, gk_challenge_factory = factory, gk_unicode = u\<rparr>)"

definition is_test_key :: "gatekeeper \<Rightarrow> sender_key \<Rightarrow> bool" where
  "is_test_key g k \<longleftrightarrow> gk_test_sender_key g = Some k"

text \<open>Python's \<open>or\<close> on optional bytes and integers: an empty value and a zero are false.\<close>

fun bytes_or :: "blob option \<Rightarrow> blob option \<Rightarrow> blob option" where
  "bytes_or (Some (b # bs)) y = Some (b # bs)"
| "bytes_or _ y = y"

definition int_or :: "int option \<Rightarrow> int \<Rightarrow> int" where
  "int_or x y = (case x of None \<Rightarrow> y | Some i \<Rightarrow> if i = 0 then y else i)"

lemma bytes_or_None_iff: "bytes_or x y = None \<longleftrightarrow> (x = None \<or> x = Some []) \<and> y = None"
  by (cases "(x, y)" rule: bytes_or.cases) auto

text \<open>A value a pure function computes, or the exception it raises.\<close>

definition need :: "exn \<Rightarrow> 'a option \<Rightarrow> ('a, 'w) prog_on" where
  "need e x = (case x of None \<Rightarrow> raise_exn e | Some y \<Rightarrow> ret y)"

definition need_sum :: "exn + 'a \<Rightarrow> ('a, 'w) prog_on" where
  "need_sum x = (case x of Inl e \<Rightarrow> raise_exn e | Inr y \<Rightarrow> ret y)"

text \<open>The outcome of a program whose exception its caller inspects.\<close>

definition attempt :: "('a, 'w) prog_on \<Rightarrow> (exn + 'a, 'w) prog_on" where
  "attempt m w = (Inr (fst (m w)), snd (m w))"

subsection \<open>Control references\<close>

definition restriction_reference_for :: "gatekeeper \<Rightarrow> blob option \<Rightarrow> blob option prog" where
  "restriction_reference_for g review_reference = (case review_reference of
      None \<Rightarrow> ret None
    | Some r \<Rightarrow> (case prot_open_review (gk_protector g) r of
        None \<Rightarrow> ret None
      | Some (user_id, access_hash, _) \<Rightarrow>
          draw (\<lambda>n. Some (prot_seal_restriction (gk_protector g) n user_id access_hash))))"

fun backfill_rows :: "gatekeeper \<Rightarrow> (sender_key \<times> blob) list \<Rightarrow> unit prog" where
  "backfill_rows g [] = ret ()"
| "backfill_rows g ((k, review_reference) # rows) =
     bind_prog (restriction_reference_for g (Some review_reference)) (\<lambda>r.
       then_prog
         (case r of
            None \<Rightarrow> ret ()
          | Some reference \<Rightarrow>
              bind_prog (transact (save_restriction_reference k reference)) (\<lambda>_. ret ()))
         (backfill_rows g rows))"

definition backfill_restriction_references :: "gatekeeper \<Rightarrow> unit prog" where
  "backfill_restriction_references g =
    bind_prog (query legacy_restriction_references) (backfill_rows g)"

subsection \<open>Evidence\<close>

definition count_upto :: "nat \<Rightarrow> ustring list \<Rightarrow> nat" where
  "count_upto n xs = min (length (remdups xs)) n"

definition active_case_payload ::
  "gatekeeper \<Rightarrow> incoming_message \<Rightarrow> screening_decision \<Rightarrow> active_case" where
  "active_case_payload g m d =
    (let f = m_facts m; u = gk_unicode g in
     \<lparr>ac_schema_version = 5, ac_text = m_text m, ac_quote_text = f_quote_text f,
      ac_preview_text = f_preview_text f,
      ac_button_texts = take MAX_REVIEW_BUTTON_TEXTS (f_button_texts f),
      ac_urls = url_evidence u (f_urls f) (f_button_urls f) (f_preview_urls f),
      ac_quote_urls = url_evidence u (f_quote_urls f) [] [],
      ac_domains = take 3 (sort (remdups (f_domains f))),
      ac_quote_domains = take 3 (sort (remdups (f_quote_domains f))),
      ac_url_shape = url_shape_of u (f_urls f),
      ac_quote_url_shape = url_shape_of u (f_quote_urls f),
      ac_features =
        \<lparr>cf_button_text_count = count_upto 10 (f_button_texts f),
         cf_domain_count = count_upto 2 (f_domains f), cf_forwarded = f_is_forwarded f,
         cf_has_any_button = f_has_any_button f, cf_has_link = f_has_link f,
         cf_has_link_button = f_has_link_button f,
         cf_has_preview_text = (f_preview_text f \<noteq> []), cf_has_quote = (f_quote_text f \<noteq> []),
         cf_link_button_count = min (f_link_button_count f) 3,
         cf_quote_url_count = count_upto 2 (f_quote_urls f),
         cf_url_count = count_upto 2 (f_urls f), cf_via_bot = f_via_bot f\<rparr>,
      ac_signals = dec_signals d, ac_risk_score = dec_risk_score d,
      ac_challenge_profile = dec_challenge_profile d,
      ac_planned_action = dec_planned_action d, ac_decision_basis = dec_decision_basis d,
      ac_policy_version = dec_policy_version d\<rparr>)"

definition capture_enforcement_review ::
  "gatekeeper \<Rightarrow> sender_key \<Rightarrow> incoming_message \<Rightarrow> string \<Rightarrow> screening_decision \<Rightarrow> int
   \<Rightarrow> unit prog" where
  "capture_enforcement_review g k m reason d now = (case gk_seal_case g of
      None \<Rightarrow> ret ()
    | Some seal \<Rightarrow>
        if is_test_key g k then ret ()
        else try_except
          (bind_prog (draw (\<lambda>n. seal n (active_case_payload g m d))) (\<lambda>sealed.
             bind_prog (need_sum sealed) (\<lambda>envelope.
               change (save_enforcement_review k (m_review_reference m) envelope reason
                 (now + gk_case_days g * 86400) now))))
          (change (audit k ''ENFORCEMENT_REVIEW'' ''action_failed'' now)))"

definition activate_review ::
  "gatekeeper \<Rightarrow> sender_key \<Rightarrow> string \<Rightarrow> blob option \<Rightarrow> int \<Rightarrow> unit prog" where
  "activate_review g k reason reference now =
    try_except
      (bind_prog (transact (activate_enforcement_review k reason
          (now + gk_case_days g * 86400) reference now)) (\<lambda>_. ret ()))
      (change (audit k ''ENFORCEMENT_REVIEW'' ''action_failed'' now))"

subsection \<open>Records of decisions and reviews\<close>

fun source_name :: "signal_source \<Rightarrow> string" where
  "source_name Authored = ''authored''"
| "source_name Button = ''button''"
| "source_name Preview = ''preview''"
| "source_name Quoted = ''quoted''"
| "source_name Behavior = ''behavior''"
| "source_name OwnerPolicy = ''owner_policy''"

fun profile_name :: "challenge_profile \<Rightarrow> string" where
  "profile_name Standard = ''standard''"
| "profile_name Strict = ''strict''"

fun action_name :: "screening_action \<Rightarrow> string" where
  "action_name StandardChallenge = ''standard_challenge''"
| "action_name StrictChallenge = ''strict_challenge''"
| "action_name PermanentSuppression = ''permanent_suppression''"

text \<open>\<open>json.dumps\<close> of the compact objects the service stores; the keys and the codes are ASCII
  without a character that JSON escapes.\<close>

definition quoted_json :: "string \<Rightarrow> string" where
  "quoted_json s = CHR 0x22 # s @ [CHR 0x22]"

definition json_object :: "(string \<times> string) list \<Rightarrow> string" where
  "json_object entries =
     ''{'' @ join '','' (map (\<lambda>(key, v). quoted_json key @ '':'' @ v) entries) @ ''}''"

definition json_bool :: "bool \<Rightarrow> string" where
  "json_bool b = (if b then ''true'' else ''false'')"

definition signals_json :: "evidence_signal list \<Rightarrow> string" where
  "signals_json signals =
     ''['' @ join '','' (map (\<lambda>s. json_object
        [(''code'', quoted_json (sig_code s)), (''source'', quoted_json (source_name (sig_source s))),
         (''weight'', ascii_int (sig_weight s))]) signals) @ '']''"

definition features_json :: "message_facts \<Rightarrow> string" where
  "features_json f = json_object
     [(''domain_count'', ascii_int (int (count_upto 2 (f_domains f)))),
      (''forwarded'', json_bool (f_is_forwarded f)),
      (''has_any_button'', json_bool (f_has_any_button f)),
      (''has_link'', json_bool (f_has_link f)),
      (''has_link_button'', json_bool (f_has_link_button f)),
      (''has_quote'', json_bool (f_quote_text f \<noteq> [])),
      (''link_button_count'', ascii_int (int (min (f_link_button_count f) 3))),
      (''quote_url_count'', ascii_int (int (count_upto 2 (f_quote_urls f)))),
      (''url_count'', ascii_int (int (count_upto 2 (f_urls f)))),
      (''via_bot'', json_bool (f_via_bot f))]"

definition record_screening ::
  "sender_key \<Rightarrow> screening_decision \<Rightarrow> string \<Rightarrow> int \<Rightarrow> unit prog" where
  "record_screening k d actual_action now =
    change (record_decision k ''adaptive_signals'' (signals_json (dec_signals d))
      (case dec_challenge_profile d of
         Some p \<Rightarrow> profile_name p | None \<Rightarrow> ''permanent_suppression'')
      (Some (dec_risk_score d)) None (dec_decision_basis d) (action_name (dec_planned_action d))
      actual_action (dec_policy_version d) now)"

definition queue_review ::
  "gatekeeper \<Rightarrow> sender_key \<Rightarrow> incoming_message \<Rightarrow> string \<Rightarrow> evidence_signal list \<Rightarrow> int
   \<Rightarrow> unit prog" where
  "queue_review g k m classification signals now = (case m_review_reference m of
      None \<Rightarrow> change (audit k ''REVIEW_REFERENCE'' ''unavailable'' now)
    | Some reference \<Rightarrow>
        bind_prog (transact (enqueue_review k reference classification (signals_json signals)
            (features_json (m_facts m)) (now + gk_review_days g * 86400) now)) (\<lambda>_. ret ()))"

end
