(* ===== verification/Service_Notices.thy ===== *)
theory Service_Notices
  imports Service_Core
begin

text \<open>
  \<open>service.py\<close>, second part: notices under the hourly quota, the restore retries, the end of a
  challenge by timeout, and the fallback when no challenge may be sent. The protocol's actions
  are the record \<open>A\<close>; \<open>attempt\<close> and \<open>try_except\<close> stand for the \<open>except Exception\<close> clauses.
\<close>

definition RESTORE_ATTEMPTS :: nat where
  "RESTORE_ATTEMPTS = 3"

definition claim_slot :: "gatekeeper \<Rightarrow> sender_key \<Rightarrow> slot_category \<Rightarrow> int \<Rightarrow> bool prog" where
  "claim_slot g k category now =
    (if is_test_key g k then ret True
     else transact_exn (claim_outbound_slot (gk_outbound_limit g) (gk_notice_reserve g)
            (gk_notice_sender_limit g) k category now))"

definition send_notice ::
  "gatekeeper \<Rightarrow> actions \<Rightarrow> sender_key \<Rightarrow> ustring \<Rightarrow> int option \<Rightarrow> style_span list \<Rightarrow> int
   \<Rightarrow> int option prog" where
  "send_notice g A k t reply_to formatting now =
    bind_prog (claim_slot g k NoticeSlot now) (\<lambda>granted.
      if \<not> granted then
        then_prog (change (audit k ''OUTBOUND_RATE_LIMIT'' ''suppressed'' now)) (ret None)
      else try_except
        (bind_prog (send_text A t reply_to formatting) (\<lambda>message_id.
           bind_prog read_clock (\<lambda>at.
             then_prog (change (record_automated_message k message_id at))
               (ret (Some message_id)))))
        (then_prog (change (audit k ''OUTBOUND_NOTICE'' ''action_failed'' now)) (ret None)))"

definition send_guidance_once ::
  "gatekeeper \<Rightarrow> actions \<Rightarrow> sender_key \<Rightarrow> sender_state \<Rightarrow> ustring \<Rightarrow> style_span list \<Rightarrow> int
   \<Rightarrow> unit prog" where
  "send_guidance_once g A k state t formatting now =
    (if guidance_sent state then ret ()
     else bind_prog (send_notice g A k t (challenge_message_id state) formatting now) (\<lambda>sent.
       if int_or sent 0 = 0 then ret ()
       else bind_prog (transact (mark_challenge_guidance_sent k)) (\<lambda>_. ret ())))"

fun restore_tries :: "actions \<Rightarrow> nat \<Rightarrow> bool prog" where
  "restore_tries A 0 = ret False"
| "restore_tries A (Suc n) =
     bind_prog (try_except (restore_from_pending A) (ret False)) (\<lambda>ok.
       if ok then ret True else restore_tries A n)"

definition restore_with_retry :: "actions \<Rightarrow> bool prog" where
  "restore_with_retry A = restore_tries A RESTORE_ATTEMPTS"

definition quarantine_sender ::
  "gatekeeper \<Rightarrow> sender_key \<Rightarrow> blob option \<Rightarrow> int \<Rightarrow> unit prog" where
  "quarantine_sender g k reference now =
    bind_prog (restriction_reference_for g reference) (\<lambda>restriction.
      change (quarantine k restriction now))"

definition timeout_text :: "gatekeeper \<Rightarrow> sender_key \<Rightarrow> sender_state \<Rightarrow> ustring" where
  "timeout_text g k challenge_state =
    (if is_test_key g k then TEST_VERIFICATION_TIMEOUT_TEXT
     else if challenge_profile challenge_state = Some Strict then STRICT_VERIFICATION_TIMEOUT_TEXT
     else VERIFICATION_TIMEOUT_TEXT)"

definition finalize_timeout_failure ::
  "gatekeeper \<Rightarrow> actions \<Rightarrow> sender_key \<Rightarrow> sender_state \<Rightarrow> blob option \<Rightarrow> int \<Rightarrow> unit prog" where
  "finalize_timeout_failure g A k challenge_state fallback_reference now =
    bind_prog (need ''ValueError'' (notice_formatting (timeout_text g k challenge_state)))
      (\<lambda>formatting.
    bind_prog (send_notice g A k (timeout_text g k challenge_state) None formatting now)
      (\<lambda>notice_id.
    if \<not> is_test_key g k then
      bind_prog (query (sender k)) (\<lambda>terminal.
      (case (notice_id, bytes_or (challenge_action_reference terminal) fallback_reference) of
         (Some _, Some reference) \<Rightarrow>
           then_prog (activate_review g k ''challenge_timeout'' (Some reference) now)
           (bind_prog (transact (schedule_action k ''challenge_timeout'' reference
                (now + FAILED_DIALOG_DELETE_DELAY_SECONDS) (revision terminal) False now))
              (\<lambda>action_id. schedule_dialog_deletion A action_id
                 (now + FAILED_DIALOG_DELETE_DELAY_SECONDS)))
       | (_, unscheduled) \<Rightarrow>
           then_prog
             (case unscheduled of
                None \<Rightarrow> ret ()
              | Some reference \<Rightarrow>
                  bind_prog (transact (enqueue_review k reference ''timeout_notice_failed''
                      ''[]'' ''{}'' (now + gk_review_days g * 86400) now)) (\<lambda>_. ret ()))
           (then_prog (quarantine_sender g k unscheduled now)
           (then_prog (activate_review g k ''timeout_notice_failed'' unscheduled now)
              (change (audit k ''CHALLENGE_TIMEOUT_DELETE'' ''not_scheduled'' now))))))
    else
      (let started_at = (case challenge_expires_at challenge_state of
             Some at \<Rightarrow> at - gk_ttl_seconds g | None \<Rightarrow> updated_at challenge_state)
       in then_prog
            (schedule_test_message_deletion A k started_at
               (now + TEST_MESSAGE_DELETE_DELAY_SECONDS))
            (schedule_test_state_reset A k now (now + TEST_STATE_RESET_DELAY_SECONDS)))))"

definition rate_limit_fallback ::
  "gatekeeper \<Rightarrow> actions \<Rightarrow> sender_key \<Rightarrow> incoming_message \<Rightarrow> int \<Rightarrow> string prog" where
  "rate_limit_fallback g A k m now =
    then_prog (change (audit k ''OUTBOUND_RATE_LIMIT'' ''suppressed'' now))
    (bind_prog (try_except (archive_and_mute A) (ret False)) (\<lambda>archived.
     if archived then
       then_prog (quarantine_sender g k (m_review_reference m) now)
       (then_prog (activate_review g k ''challenge_unavailable'' (m_review_reference m) now)
       (then_prog (change (audit k ''CHALLENGE_UNAVAILABLE'' ''archived_muted'' now))
       (then_prog (queue_review g k m ''challenge_unavailable'' [] now)
          (ret ''quarantined_rate_limited''))))
     else
       then_prog (bind_prog (transact (delete_enforcement_review k)) (\<lambda>_. ret ()))
       (then_prog (change (audit k ''CHALLENGE_UNAVAILABLE'' ''action_failed'' now))
       (then_prog (queue_review g k m ''challenge_unavailable_action_failed'' [] now)
          (ret ''fail_safe'')))))"

subsection \<open>Deletion of a suppressed sender's dialog\<close>

definition schedule_permanent_suppression ::
  "gatekeeper \<Rightarrow> actions \<Rightarrow> sender_key \<Rightarrow> incoming_message \<Rightarrow> int \<Rightarrow> string prog" where
  "schedule_permanent_suppression g A k m now = (case m_review_reference m of
      None \<Rightarrow>
        then_prog (bind_prog (transact (delete_enforcement_review k)) (\<lambda>_. ret ()))
        (then_prog (change (audit k ''PERMANENT_SUPPRESSION'' ''reference_unavailable'' now))
           (ret ''fail_safe''))
    | Some reference \<Rightarrow>
        bind_prog (restriction_reference_for g (Some reference)) (\<lambda>restriction.
        bind_prog (transact (suppress k ''permanent_suppression'' None (Some reference)
            restriction now)) (\<lambda>state.
        then_prog (activate_review g k ''permanent_suppression'' (Some reference) now)
        (bind_prog (transact (schedule_action k ''permanent_suppression'' reference now
            (revision state) False now)) (\<lambda>action_id.
        then_prog (cancel_timeout A k)
        (then_prog (schedule_dialog_deletion A action_id now)
        (then_prog (change (audit k ''PERMANENT_SUPPRESSION'' ''scheduled'' now))
           (ret ''suppressed''))))))))"

definition schedule_suppressed_delete ::
  "actions \<Rightarrow> sender_key \<Rightarrow> sender_state \<Rightarrow> incoming_message \<Rightarrow> int \<Rightarrow> string prog" where
  "schedule_suppressed_delete A k state m now =
    (case bytes_or (m_review_reference m) (challenge_action_reference state) of
       None \<Rightarrow>
         then_prog (change (audit k ''SUPPRESSION_DELETE'' ''reference_unavailable'' now))
           (ret ''fail_safe'')
     | Some reference \<Rightarrow>
         bind_prog (transact (schedule_action k
             (case suppression_reason state of
                Some (c # cs) \<Rightarrow> c # cs | _ \<Rightarrow> ''suppressed_sender'')
             reference now (revision state) False now)) (\<lambda>action_id.
         then_prog (schedule_dialog_deletion A action_id now) (ret ''suppressed'')))"

end
