(* ===== verification/Service_Challenge.thy ===== *)
theory Service_Challenge
  imports Service_Notices
begin

text \<open>
  \<open>service.py\<close>, third part: issuing a challenge, and the branches of a reply to it.
\<close>

subsection \<open>Issuing\<close>

text \<open>The \<open>except\<close> clause of \<open>_issue_challenge\<close>; its arguments are the local variables
  \<open>archive_confirmed\<close> and \<open>challenge_message_id\<close> when the exception was raised.\<close>

definition roll_back_delivery ::
  "actions \<Rightarrow> sender_key \<Rightarrow> bool \<Rightarrow> int option \<Rightarrow> int \<Rightarrow> string prog" where
  "roll_back_delivery A k archive_confirmed message_id now =
    bind_prog (if archive_confirmed then restore_with_retry A else ret False) (\<lambda>restored.
    then_prog
      (if \<not> archive_confirmed \<or> restored then
         then_prog
           (case message_id of
              None \<Rightarrow> ret () | Some i \<Rightarrow> bind_prog (delete_message A i) (\<lambda>_. ret ()))
           (bind_prog read_clock (\<lambda>at.
              bind_prog (transact (reset_incomplete_challenge k at)) (\<lambda>_. ret ())))
       else ret ())
    (then_prog (cancel_timeout A k)
    (then_prog
       (change (audit k ''CHALLENGE_DELIVERY'' (if restored then ''restored'' else ''action_failed'')
          now))
       (ret ''fail_safe''))))"

text \<open>The message is withdrawn and the challenge forgotten; the outcome is \<open>fail_safe\<close>.\<close>

definition withdraw_challenge ::
  "actions \<Rightarrow> sender_key \<Rightarrow> int \<Rightarrow> bool \<Rightarrow> string \<Rightarrow> string \<Rightarrow> int \<Rightarrow> string prog" where
  "withdraw_challenge A k message_id cancel rule_code result now =
    bind_prog (delete_message A message_id) (\<lambda>_.
    bind_prog read_clock (\<lambda>at.
    bind_prog (transact (reset_incomplete_challenge k at)) (\<lambda>_.
    then_prog (if cancel then cancel_timeout A k else ret ())
    (then_prog (change (audit k rule_code result now)) (ret ''fail_safe'')))))"

text \<open>The body of the \<open>try\<close> between the sent prompt and the confirmed archive; \<open>Inl\<close> is an
  early return, \<open>Inr\<close> carries the refreshed expiry on.\<close>

definition bind_sent_challenge ::
  "gatekeeper \<Rightarrow> actions \<Rightarrow> sender_key \<Rightarrow> int \<Rightarrow> int \<Rightarrow> (string + int) prog" where
  "bind_sent_challenge g A k message_id now =
    bind_prog read_clock (\<lambda>recorded_at.
    then_prog (change (record_automated_message k message_id recorded_at))
    (bind_prog read_clock (\<lambda>sent_at.
     let expires_at = sent_at + gk_ttl_seconds g in
     bind_prog (transact (refresh_challenge_expiry k expires_at sent_at)) (\<lambda>refreshed.
     if \<not> refreshed then
       bind_prog (withdraw_challenge A k message_id False ''CHALLENGE_EXPIRY'' ''state_changed'' now)
         (\<lambda>outcome. ret (Inl outcome))
     else
       bind_prog read_clock (\<lambda>bound_at.
       bind_prog (transact (bind_challenge_message k message_id bound_at)) (\<lambda>bound.
       if \<not> bound then
         bind_prog (withdraw_challenge A k message_id False ''CHALLENGE_BIND'' ''state_changed'' now)
           (\<lambda>outcome. ret (Inl outcome))
       else
         bind_prog (archive_and_mute A) (\<lambda>archived.
         if \<not> archived then
           bind_prog (withdraw_challenge A k message_id True ''PENDING_QUARANTINE''
               ''action_failed'' now) (\<lambda>outcome. ret (Inl outcome))
         else ret (Inr expires_at))))))))"

definition activate_sent_challenge ::
  "actions \<Rightarrow> sender_key \<Rightarrow> int \<Rightarrow> int \<Rightarrow> string option prog" where
  "activate_sent_challenge A k message_id now =
    bind_prog read_clock (\<lambda>activated_at.
    bind_prog (transact (activate_challenge k activated_at)) (\<lambda>activated.
    if activated then ret None
    else
      bind_prog (restore_with_retry A) (\<lambda>restored.
      then_prog
        (if restored then
           bind_prog (delete_message A message_id) (\<lambda>_.
           bind_prog read_clock (\<lambda>at.
             bind_prog (transact (reset_incomplete_challenge k at)) (\<lambda>_. ret ())))
         else ret ())
      (then_prog (change (audit k ''CHALLENGE_ACTIVATE'' ''state_changed'' now))
         (ret (Some ''fail_safe''))))))"

definition challenge_limit :: "gatekeeper \<Rightarrow> challenge_profile option \<Rightarrow> int" where
  "challenge_limit g profile = (if profile = Some Strict then 1 else gk_max_attempts g)"

text \<open>From the sent prompt on.\<close>

definition deliver_challenge ::
  "gatekeeper \<Rightarrow> actions \<Rightarrow> sender_key \<Rightarrow> ustring \<Rightarrow> int \<Rightarrow> string prog" where
  "deliver_challenge g A k prompt now =
    bind_prog (attempt (bind_prog (need ''ValueError'' (challenge_prompt_formatting prompt))
        (\<lambda>formatting. send_text A prompt None formatting))) (\<lambda>sent.
    case sent of
      Inl _ \<Rightarrow> roll_back_delivery A k False None now
    | Inr message_id \<Rightarrow>
        bind_prog (attempt (bind_sent_challenge g A k message_id now)) (\<lambda>delivered.
        case delivered of
          Inl _ \<Rightarrow> roll_back_delivery A k False (Some message_id) now
        | Inr (Inl outcome) \<Rightarrow> ret outcome
        | Inr (Inr expires_at) \<Rightarrow>
            bind_prog (attempt (activate_sent_challenge A k message_id now)) (\<lambda>activated.
            case activated of
              Inl _ \<Rightarrow> roll_back_delivery A k True (Some message_id) now
            | Inr (Some outcome) \<Rightarrow> ret outcome
            | Inr None \<Rightarrow>
                then_prog (change (audit k ''CHALLENGE_SENT'' ''archived_muted'' now))
                (then_prog (schedule_timeout A k expires_at CHALLENGE_PROCESSING_GRACE_SECONDS)
                   (ret ''challenged'')))))"

definition issue_challenge ::
  "gatekeeper \<Rightarrow> actions \<Rightarrow> sender_key \<Rightarrow> incoming_message \<Rightarrow> screening_decision \<Rightarrow> int
   \<Rightarrow> string prog" where
  "issue_challenge g A k m d now =
    then_prog (capture_enforcement_review g k m ''challenge_pending'' d now)
    (bind_prog (claim_slot g k ChallengeSlot now) (\<lambda>granted.
     if \<not> granted then rate_limit_fallback g A k m now
     else
       bind_prog (draw (gk_challenge_factory g)) (\<lambda>ch.
       let profile = (case dec_challenge_profile d of None \<Rightarrow> Standard | Some p \<Rightarrow> p);
           prompt = Challenge_Text.challenge_prompt ch (gk_ttl_seconds g)
                      (challenge_limit g (Some profile))
       in then_prog
            (change (begin_challenge_issue k (ch_id ch)
               (prot_answer_digest (gk_protector g) k (ch_id ch) (ch_answer ch))
               (now + gk_ttl_seconds g) prompt (m_review_reference m) profile now))
            (deliver_challenge g A k prompt now))))"

subsection \<open>Replies\<close>

definition suppression_seconds :: "sender_state \<Rightarrow> int" where
  "suppression_seconds state =
    (if challenge_profile state = Some Strict then VERIFICATION_FAILED_SUPPRESSION_SECONDS
     else VERIFICATION_TIMEOUT_SUPPRESSION_SECONDS)"

definition expire_late_reply ::
  "gatekeeper \<Rightarrow> actions \<Rightarrow> sender_key \<Rightarrow> sender_state \<Rightarrow> incoming_message \<Rightarrow> int \<Rightarrow> string prog" where
  "expire_late_reply g A k state m now =
    bind_prog (restriction_reference_for g (challenge_action_reference state)) (\<lambda>restriction.
    bind_prog (transact (expire_challenge_row k (int_or (challenge_expires_at state) 0) now
        (suppression_seconds state) restriction)) (\<lambda>_.
    then_prog (change (audit k ''challenge_expired'' ''already_archived'' now))
    (then_prog (cancel_timeout A k)
    (then_prog (finalize_timeout_failure g A k state (m_review_reference m) now)
       (ret ''suppressed'')))))"

definition ignore_with_guidance ::
  "gatekeeper \<Rightarrow> actions \<Rightarrow> sender_key \<Rightarrow> sender_state \<Rightarrow> ustring \<Rightarrow> string \<Rightarrow> int \<Rightarrow> string prog" where
  "ignore_with_guidance g A k state t rule_code now =
    bind_prog (need ''ValueError'' (notice_formatting t)) (\<lambda>formatting.
    then_prog (send_guidance_once g A k state t formatting now)
    (then_prog (change (audit k rule_code ''ignored'' now)) (ret ''challenge_pending'')))"

definition verification_message_ids ::
  "sender_key \<Rightarrow> sender_state \<Rightarrow> incoming_message \<Rightarrow> int option \<Rightarrow> store \<Rightarrow> int list" where
  "verification_message_ids k state m passed_message_id s =
    sort (remdups
      (message_ids_between k (int_or (challenge_message_id state) (m_message_id m))
         (max (m_message_id m) (int_or passed_message_id (m_message_id m))) s
       @ [m_message_id m]
       @ (case challenge_message_id state of None \<Rightarrow> [] | Some i \<Rightarrow> [i])
       @ (case passed_message_id of None \<Rightarrow> [] | Some i \<Rightarrow> [i])))"

definition accept_correct_answer ::
  "gatekeeper \<Rightarrow> actions \<Rightarrow> sender_key \<Rightarrow> sender_state \<Rightarrow> incoming_message \<Rightarrow> int \<Rightarrow> string prog" where
  "accept_correct_answer g A k state m now =
    bind_prog (restore_with_retry A) (\<lambda>restored.
    if \<not> restored then
      then_prog (change (audit k ''CHALLENGE_RESTORE'' ''action_failed'' now))
      (then_prog (queue_review g k m ''restore_failed'' [] now) (ret ''fail_safe''))
    else
      then_prog (change (mark_provisional k now))
      (then_prog (change (audit k ''CHALLENGE_CORRECT'' ''provisional'' now))
      (then_prog (cancel_timeout A k)
      (bind_prog (need ''ValueError'' (notice_formatting VERIFICATION_PASSED_TEXT)) (\<lambda>formatting.
       bind_prog (send_notice g A k VERIFICATION_PASSED_TEXT (Some (m_message_id m)) formatting now)
         (\<lambda>passed_message_id.
       bind_prog (query (verification_message_ids k state m passed_message_id)) (\<lambda>ids.
       then_prog (schedule_verification_message_deletion A k ids
           (now + VERIFICATION_SUCCESS_DELETE_DELAY_SECONDS))
       (then_prog (change (audit k ''CHALLENGE_CLEANUP'' ''scheduled'' now))
       (then_prog
          (if is_test_key g k
           then schedule_test_state_reset A k now (now + TEST_STATE_RESET_DELAY_SECONDS)
           else ret ())
          (ret ''provisional'')))))))))) "

definition failed_text :: "gatekeeper \<Rightarrow> sender_key \<Rightarrow> ustring" where
  "failed_text g k =
    (if is_test_key g k then TEST_VERIFICATION_FAILED_TEXT else VERIFICATION_FAILED_TEXT)"

definition fail_exhausted_attempts ::
  "gatekeeper \<Rightarrow> actions \<Rightarrow> sender_key \<Rightarrow> sender_state \<Rightarrow> incoming_message \<Rightarrow> int \<Rightarrow> string prog" where
  "fail_exhausted_attempts g A k state m now =
    then_prog (cancel_timeout A k)
    (bind_prog (need ''ValueError'' (emphasized (failed_text g k)
        [FAILED_TITLE, ustr ''10 seconds''])) (\<lambda>formatting.
     bind_prog (send_notice g A k (failed_text g k) None formatting now) (\<lambda>warning_message_id.
     if warning_message_id = None then
       then_prog (quarantine_sender g k (m_review_reference m) now)
       (then_prog (activate_review g k ''warning_failed'' (m_review_reference m) now)
       (then_prog (queue_review g k m ''warning_failed'' [] now)
       (then_prog (change (audit k ''attempts_exhausted'' ''warning_failed'' now))
          (ret ''quarantined''))))
     else (case bytes_or (m_review_reference m) (challenge_action_reference state) of
       None \<Rightarrow>
         then_prog (change (quarantine k None now))
         (then_prog (activate_review g k ''reference_unavailable'' None now)
         (then_prog (change (audit k ''attempts_exhausted'' ''reference_unavailable'' now))
            (ret ''quarantined'')))
     | Some reference \<Rightarrow>
         bind_prog
           (if is_test_key g k then
              then_prog (change (quarantine k None now))
              (bind_prog (query (sender k)) (\<lambda>terminal.
               then_prog (schedule_test_state_reset A k (updated_at terminal)
                   (now + TEST_STATE_RESET_DELAY_SECONDS)) (ret terminal)))
            else
              bind_prog (restriction_reference_for g (Some reference)) (\<lambda>restriction.
              bind_prog (transact (suppress k ''attempts_exhausted''
                  (Some (now + VERIFICATION_FAILED_SUPPRESSION_SECONDS)) (Some reference)
                  restriction now)) (\<lambda>terminal.
              then_prog (activate_review g k ''attempts_exhausted'' (Some reference) now)
                (ret terminal)))) (\<lambda>terminal.
         bind_prog (transact (schedule_action k ''attempts_exhausted'' reference
             (now + FAILED_DIALOG_DELETE_DELAY_SECONDS) (revision terminal) (is_test_key g k) now))
           (\<lambda>action_id.
         then_prog (schedule_dialog_deletion A action_id
             (now + FAILED_DIALOG_DELETE_DELAY_SECONDS))
         (then_prog (change (audit k ''attempts_exhausted'' ''dialog_deletion_scheduled'' now))
            (ret (if is_test_key g k then ''quarantined'' else ''suppressed'')))))))))"

definition remaining_text :: "int \<Rightarrow> ustring" where
  "remaining_text remaining =
     show_int remaining @ ustr '' ''
     @ (if remaining = 1 then ustr ''attempt'' else ustr ''attempts'') @ ustr '' remaining''"

definition INCORRECT_TITLE :: ustring where
  "INCORRECT_TITLE = 10060 # ustr '' Incorrect Answer''"

definition incorrect_text :: "int \<Rightarrow> ustring" where
  "incorrect_text remaining =
     INCORRECT_TITLE @ para @ ustr ''Send digits only. '' @ remaining_text remaining @ ustr ''.''"

definition reject_incorrect_answer ::
  "gatekeeper \<Rightarrow> actions \<Rightarrow> sender_key \<Rightarrow> sender_state \<Rightarrow> int \<Rightarrow> int \<Rightarrow> string prog" where
  "reject_incorrect_answer g A k state remaining now =
    bind_prog (need ''ValueError'' (emphasized (incorrect_text remaining)
        [INCORRECT_TITLE, remaining_text remaining])) (\<lambda>formatting.
    bind_prog (send_notice g A k (incorrect_text remaining) (challenge_message_id state)
        formatting now) (\<lambda>_.
    ret ''challenge_incorrect''))"

text \<open>A reply from before the prompt that does not answer it.\<close>

definition before_prompt :: "sender_state \<Rightarrow> incoming_message \<Rightarrow> bool" where
  "before_prompt state m \<longleftrightarrow> (case challenge_message_id state of
      None \<Rightarrow> False
    | Some i \<Rightarrow> m_message_id m < i \<and> m_reply_to m \<noteq> Some i)"

definition late_reply :: "sender_state \<Rightarrow> incoming_message \<Rightarrow> bool" where
  "late_reply state m \<longleftrightarrow>
     int_or (challenge_expires_at state) 0 = 0
     \<or> m_sent_at m > int_or (challenge_expires_at state) 0"

definition answer_matches ::
  "gatekeeper \<Rightarrow> sender_key \<Rightarrow> sender_state \<Rightarrow> ustring \<Rightarrow> bool" where
  "answer_matches g k state answer \<longleftrightarrow> (case answer_digest state of
      None \<Rightarrow> False
    | Some digest \<Rightarrow> digest \<noteq> [] \<and>
        digest = prot_answer_digest (gk_protector g) k
          (case challenge_id state of None \<Rightarrow> [] | Some i \<Rightarrow> i) answer)"

definition handle_challenge ::
  "gatekeeper \<Rightarrow> actions \<Rightarrow> sender_key \<Rightarrow> sender_state \<Rightarrow> incoming_message \<Rightarrow> int \<Rightarrow> string prog" where
  "handle_challenge g A k state m now =
    (if late_reply state m then expire_late_reply g A k state m now
     else if before_prompt state m then
       then_prog (change (audit k ''CHALLENGE_BEFORE_PROMPT'' ''ignored'' now))
         (ret ''challenge_pending'')
     else
       bind_prog (need_sum (canonical_answer (gk_unicode g) (m_text m))) (\<lambda>canonical.
       case canonical of
         None \<Rightarrow>
           ignore_with_guidance g A k state DIGITS_REQUIRED_TEXT ''CHALLENGE_NON_NUMERIC'' now
       | Some answer \<Rightarrow>
           if answer_matches g k state answer then accept_correct_answer g A k state m now
           else
             bind_prog (transact (increment_attempts k now)) (\<lambda>used.
             then_prog (change (audit k ''CHALLENGE_INCORRECT'' ''rejected'' now))
             (if used \<ge> challenge_limit g (challenge_profile state)
              then fail_exhausted_attempts g A k state m now
              else reject_incorrect_answer g A k state
                     (challenge_limit g (challenge_profile state) - used) now))))"

end
