(* ===== verification/Service.thy ===== *)
theory Service
  imports Service_Challenge
begin

text \<open>
  \<open>service.py\<close>, fourth part: the handler of one private message. \<open>handle\<close> claims the message,
  screens it, and records the outcome; an exception anywhere in the screening is the outcome
  \<open>fail_safe\<close>. The handler holds the sender's lock, so no other handler of the same sender runs
  between its steps.
\<close>

definition revoke_test_sender :: "sender_key \<Rightarrow> bool \<Rightarrow> int \<Rightarrow> sender_state \<Rightarrow> sender_state prog" where
  "revoke_test_sender k is_test now state =
    (if is_test \<and> status state = ALLOWED then
       then_prog (change (revoke k now)) (query (sender k))
     else ret state)"

text \<open>The part of \<open>_settle_before_screening\<close> on a restricted row: \<open>Inl\<close> is its early return.\<close>

definition settle_restricted ::
  "actions \<Rightarrow> sender_key \<Rightarrow> incoming_message \<Rightarrow> bool \<Rightarrow> int \<Rightarrow> sender_state
   \<Rightarrow> (string + sender_state) prog" where
  "settle_restricted A k m is_test now state =
    (if status state = SUPPRESSED then
       (if (case suppressed_until state of None \<Rightarrow> False | Some u \<Rightarrow> u \<le> now) then
          bind_prog (transact (release_expired_suppression k now)) (\<lambda>_.
          bind_prog (query (sender k)) (\<lambda>fresh. ret (Inr fresh)))
        else if \<not> is_test then
          bind_prog (query get_mode) (\<lambda>mode.
          if mode = Monitor then ret (Inl ''would_delete_suppressed'')
          else bind_prog (schedule_suppressed_delete A k state m now) (\<lambda>outcome.
                 ret (Inl outcome)))
        else ret (Inr state))
     else if is_test \<and> status state \<in> {PROVISIONAL, QUARANTINED}
             \<and> updated_at state + TEST_STATE_RESET_DELAY_SECONDS \<le> now then
       bind_prog (transact (reset_test_sender_row k (updated_at state) now)) (\<lambda>_.
       bind_prog (query (sender k)) (\<lambda>fresh. ret (Inr fresh)))
     else ret (Inr state))"

definition settle_trusted ::
  "sender_key \<Rightarrow> incoming_message \<Rightarrow> bool \<Rightarrow> int \<Rightarrow> sender_state
   \<Rightarrow> (sender_state \<times> string option) prog" where
  "settle_trusted k m is_test now state =
    (if \<not> is_test \<and> (m_is_service m \<or> m_is_bot m \<or> m_is_contact m) then
       then_prog (change (allow k now))
       (then_prog (change (audit k ''TRUSTED_SENDER'' ''allowed'' now))
          (ret (state, Some ''allowed'')))
     else if status state = ALLOWED then ret (state, Some ''allowed'')
     else if \<not> is_test \<and> status state \<in> {UNKNOWN, PROVISIONAL} \<and> m_has_trusted_history m then
       then_prog (change (allow k now))
       (then_prog (change (audit k ''TRUSTED_HISTORY'' ''allowed'' now))
          (ret (state, Some ''allowed'')))
     else if status state = QUARANTINED then ret (state, Some ''already_quarantined'')
     else if status state \<in> CHALLENGE_STARTING_STATUSES then
       ret (state, Some ''challenge_starting'')
     else ret (state, None))"

definition settle_before_screening ::
  "actions \<Rightarrow> sender_key \<Rightarrow> incoming_message \<Rightarrow> bool \<Rightarrow> int
   \<Rightarrow> (sender_state \<times> string option) prog" where
  "settle_before_screening A k m is_test now =
    bind_prog (query (sender k)) (\<lambda>state.
    bind_prog (revoke_test_sender k is_test now state) (\<lambda>state.
    bind_prog (settle_restricted A k m is_test now state) (\<lambda>r.
    case r of
      Inl outcome \<Rightarrow> ret (state, Some outcome)
    | Inr state \<Rightarrow> settle_trusted k m is_test now state)))"

text \<open>\<open>recent_link_messages\<close> looks back one minute (its default argument).\<close>

definition LINK_WINDOW_SECONDS :: int where
  "LINK_WINDOW_SECONDS = 60"

definition evidence_signals ::
  "gatekeeper \<Rightarrow> sender_key \<Rightarrow> incoming_message \<Rightarrow> bool \<Rightarrow> int \<Rightarrow> evidence_signal list prog" where
  "evidence_signals g k m is_test now =
    bind_prog (query (recent_link_messages k LINK_WINDOW_SECONDS now)) (\<lambda>recent_links.
    let signals = detect_evidence_signals (gk_unicode g) (m_facts m) recent_links (gk_denylist g)
    in then_prog
      (if f_has_link (m_facts m) \<and> \<not> is_test then change (record_link_message k now) else ret ())
      (if is_test then ret signals
       else (case campaign_candidate (gk_unicode g) (m_facts m) signals of
           None \<Rightarrow> ret signals
         | Some candidate \<Rightarrow>
             bind_prog (need_sum (prot_campaign_fingerprint (gk_protector g) candidate))
               (\<lambda>fingerprint.
             bind_prog (transact (observe_campaign fingerprint k CAMPAIGN_WINDOW_SECONDS now))
               (\<lambda>senders.
             ret (if senders \<ge> 2 then signals @ [repeated_campaign_signal] else signals))))))"

fun audit_signals :: "sender_key \<Rightarrow> evidence_signal list \<Rightarrow> int \<Rightarrow> store \<Rightarrow> store" where
  "audit_signals k [] now s = s"
| "audit_signals k (x # xs) now s = audit_signals k xs now (audit k (sig_code x) ''matched'' now s)"

definition suppress_permanently ::
  "gatekeeper \<Rightarrow> actions \<Rightarrow> sender_key \<Rightarrow> incoming_message \<Rightarrow> screening_decision \<Rightarrow> int
   \<Rightarrow> string prog" where
  "suppress_permanently g A k m d now =
    then_prog (change (audit_signals k (dec_signals d) now))
    (bind_prog (query get_mode) (\<lambda>mode.
     bind_prog
       (if mode = Monitor then
          then_prog (queue_review g k m ''would_delete'' (dec_signals d) now) (ret ''would_delete'')
        else
          then_prog (capture_enforcement_review g k m ''permanent_suppression'' d now)
            (schedule_permanent_suppression g A k m now)) (\<lambda>outcome.
     then_prog (record_screening k d outcome now) (ret outcome))))"

definition challenge_sender ::
  "gatekeeper \<Rightarrow> actions \<Rightarrow> sender_key \<Rightarrow> incoming_message \<Rightarrow> screening_decision \<Rightarrow> int
   \<Rightarrow> string prog" where
  "challenge_sender g A k m d now =
    bind_prog (query get_mode) (\<lambda>mode.
    if mode = Monitor \<and> \<not> is_test_key g k then
      then_prog (change (audit k ''CHALLENGE_REQUIRED'' ''observed'' now))
      (then_prog (queue_review g k m ''would_challenge'' (dec_signals d) now)
      (then_prog (record_screening k d ''would_challenge'' now) (ret ''would_challenge'')))
    else
      bind_prog (issue_challenge g A k m d now) (\<lambda>outcome.
      then_prog (if is_test_key g k then ret () else record_screening k d outcome now)
        (ret outcome)))"

text \<open>The screening of a message that no earlier state decides.\<close>

definition screen_message ::
  "gatekeeper \<Rightarrow> actions \<Rightarrow> sender_key \<Rightarrow> incoming_message \<Rightarrow> sender_state \<Rightarrow> int
   \<Rightarrow> string prog" where
  "screen_message g A k m state now =
    bind_prog (evidence_signals g k m (is_test_key g k) now) (\<lambda>signals.
    let d = decide (if is_test_key g k then [] else signals) in
    if dec_planned_action d = PermanentSuppression \<and> \<not> is_test_key g k then
      suppress_permanently g A k m d now
    else if status state = PROVISIONAL \<and> signals = [] then ret ''provisional''
    else if status state = CHALLENGED then handle_challenge g A k state m now
    else challenge_sender g A k m d now)"

definition process_message ::
  "gatekeeper \<Rightarrow> actions \<Rightarrow> sender_key \<Rightarrow> incoming_message \<Rightarrow> int \<Rightarrow> string prog" where
  "process_message g A k m now =
    bind_prog (settle_before_screening A k m (is_test_key g k) now) (\<lambda>(state, settled).
    case settled of
      Some outcome \<Rightarrow> ret outcome
    | None \<Rightarrow> screen_message g A k m state now)"

text \<open>\<open>_handle_locked\<close> and \<open>handle\<close>. No assignment of the local \<open>outcome\<close> precedes a call that may
  raise, so the \<open>finally\<close> clause stores the value that is returned.\<close>

definition handle_locked ::
  "gatekeeper \<Rightarrow> actions \<Rightarrow> sender_key \<Rightarrow> incoming_message \<Rightarrow> string prog" where
  "handle_locked g A k m =
    bind_prog read_clock (\<lambda>now.
    bind_prog (transact (claim_message k (m_message_id m) now)) (\<lambda>fresh.
    if \<not> fresh then ret ''duplicate''
    else
      bind_prog
        (try_except (process_message g A k m now)
          (then_prog (change (audit k ''FAIL_SAFE'' ''no_action'' now)) (ret ''fail_safe'')))
        (\<lambda>outcome.
      then_prog (change (finish_message k (m_message_id m) outcome)) (ret outcome))))"

definition handle :: "gatekeeper \<Rightarrow> actions \<Rightarrow> incoming_message \<Rightarrow> string prog" where
  "handle g A m = handle_locked g A (prot_sender_key (gk_protector g) (m_sender_id m)) m"

end
