(* ===== verification/Service_Recovery.thy ===== *)
theory Service_Recovery
  imports Service
begin

text \<open>
  \<open>service.py\<close>, last part: what timers and the start-up recovery call. \<open>None\<close> for the optional
  argument \<open>now\<close> reads the clock.
\<close>

definition timestamp_of :: "int option \<Rightarrow> int prog" where
  "timestamp_of now = (case now of None \<Rightarrow> read_clock | Some ts \<Rightarrow> ret ts)"

definition expire_challenge ::
  "gatekeeper \<Rightarrow> actions option \<Rightarrow> sender_key \<Rightarrow> int \<Rightarrow> int option \<Rightarrow> bool prog" where
  "expire_challenge g A k expires_at now =
    bind_prog (timestamp_of now) (\<lambda>ts.
    bind_prog (query (sender k)) (\<lambda>state.
    bind_prog (restriction_reference_for g (challenge_action_reference state)) (\<lambda>restriction.
    bind_prog (transact (expire_challenge_row k expires_at ts (suppression_seconds state)
        restriction)) (\<lambda>expired.
    then_prog
      (if \<not> expired then ret ()
       else
         then_prog
           (if is_test_key g k then ret ()
            else activate_review g k ''challenge_timeout'' (challenge_action_reference state) ts)
         (then_prog (change (audit k ''CHALLENGE_TIMEOUT'' ''already_archived'' ts))
            (case A of
               None \<Rightarrow> ret ()
             | Some acts \<Rightarrow> finalize_timeout_failure g acts k state None ts)))
      (ret expired)))))"

definition reset_test_sender ::
  "gatekeeper \<Rightarrow> sender_key \<Rightarrow> int \<Rightarrow> int option \<Rightarrow> bool prog" where
  "reset_test_sender g k expected_updated_at now =
    (if \<not> is_test_key g k then ret False
     else
       bind_prog (timestamp_of now) (\<lambda>ts.
       bind_prog (transact (reset_test_sender_row k expected_updated_at ts)) (\<lambda>was_reset.
       then_prog (if was_reset then change (audit k ''TEST_STATE_RESET'' ''unknown'' ts) else ret ())
         (ret was_reset))))"

definition abandon_incomplete_challenge :: "sender_key \<Rightarrow> string \<Rightarrow> unit prog" where
  "abandon_incomplete_challenge k reason =
    bind_prog read_clock (\<lambda>now.
    bind_prog (transact (reset_incomplete_challenge k now)) (\<lambda>was_reset.
    if was_reset then change (audit k ''CHALLENGE_RECOVERY'' reason now) else ret ()))"

text \<open>The failure branches of the recovery: the message (if any) is deleted and the row reset.\<close>

definition drop_recovery ::
  "actions \<Rightarrow> sender_key \<Rightarrow> int option \<Rightarrow> string \<Rightarrow> int \<Rightarrow> bool prog" where
  "drop_recovery A k message_id result now =
    then_prog
      (case message_id of
         None \<Rightarrow> ret () | Some i \<Rightarrow> bind_prog (delete_message A i) (\<lambda>_. ret ()))
    (bind_prog (transact (reset_incomplete_challenge k now)) (\<lambda>_.
     then_prog (change (audit k ''CHALLENGE_RECOVERY'' result now)) (ret False)))"

definition activate_recovered ::
  "actions \<Rightarrow> sender_key \<Rightarrow> int option \<Rightarrow> int \<Rightarrow> bool prog" where
  "activate_recovered A k message_id now =
    bind_prog (archive_and_mute A) (\<lambda>archived.
    if \<not> archived then drop_recovery A k message_id ''archive_failed'' now
    else
      bind_prog (transact (activate_challenge k now)) (\<lambda>activated.
      if \<not> activated then
        bind_prog (restore_with_retry A) (\<lambda>restored.
        then_prog
          (if restored then
             then_prog
               (case message_id of
                  None \<Rightarrow> ret () | Some i \<Rightarrow> bind_prog (delete_message A i) (\<lambda>_. ret ()))
               (bind_prog (transact (reset_incomplete_challenge k now)) (\<lambda>_. ret ()))
           else ret ())
        (then_prog (change (audit k ''CHALLENGE_RECOVERY'' ''activate_failed'' now)) (ret False)))
      else
        bind_prog (query (sender k)) (\<lambda>refreshed.
        then_prog (schedule_timeout A k (int_or (challenge_expires_at refreshed) now) 30)
        (then_prog (change (audit k ''CHALLENGE_RECOVERY'' ''activated'' now)) (ret True)))))"

text \<open>The branch of a row that was being issued, once its prompt's message id is known.\<close>

definition rebind_recovered ::
  "gatekeeper \<Rightarrow> actions \<Rightarrow> sender_key \<Rightarrow> int \<Rightarrow> int \<Rightarrow> bool prog" where
  "rebind_recovered g A k message_id now =
    then_prog (change (record_automated_message k message_id now))
    (bind_prog (transact (refresh_challenge_expiry k (now + gk_ttl_seconds g) now)) (\<lambda>refreshed.
     if \<not> refreshed then drop_recovery A k (Some message_id) ''expiry_failed'' now
     else
       bind_prog (transact (bind_challenge_message k message_id now)) (\<lambda>bound.
       if \<not> bound then drop_recovery A k (Some message_id) ''bind_failed'' now
       else activate_recovered A k (Some message_id) now)))"

definition resend_prompt ::
  "actions \<Rightarrow> sender_key \<Rightarrow> sender_state \<Rightarrow> int \<Rightarrow> int option prog" where
  "resend_prompt A k state now =
    (case sender_state.challenge_prompt state of
       Some (c # cs) \<Rightarrow>
         try_except
           (bind_prog (need ''ValueError'' (challenge_prompt_formatting (c # cs))) (\<lambda>formatting.
            bind_prog (send_text A (c # cs) None formatting) (\<lambda>i. ret (Some i))))
           (bind_prog (transact (reset_incomplete_challenge k now)) (\<lambda>_.
            then_prog (change (audit k ''CHALLENGE_RECOVERY'' ''send_failed'' now)) (ret None)))
     | _ \<Rightarrow> bind_prog (transact (reset_incomplete_challenge k now)) (\<lambda>_. ret None))"

definition recover_incomplete_challenge ::
  "gatekeeper \<Rightarrow> actions \<Rightarrow> sender_key \<Rightarrow> int option \<Rightarrow> bool prog" where
  "recover_incomplete_challenge g A k recovered_message_id =
    bind_prog read_clock (\<lambda>now.
    bind_prog (query (sender k)) (\<lambda>state.
    if status state \<notin> CHALLENGE_STARTING_STATUSES then ret False
    else if int_or (challenge_expires_at state) 0 = 0
            \<or> int_or (challenge_expires_at state) 0 \<le> now then
      drop_recovery A k
        (if int_or recovered_message_id 0 = 0 then challenge_message_id state
         else recovered_message_id) ''expired_reset'' now
    else if status state = CHALLENGE_ISSUING then
      bind_prog
        (case recovered_message_id of
           Some i \<Rightarrow> ret (Some i) | None \<Rightarrow> resend_prompt A k state now) (\<lambda>message_id.
      case message_id of
        None \<Rightarrow> ret False
      | Some i \<Rightarrow> rebind_recovered g A k i now)
    else activate_recovered A k (challenge_message_id state) now))"

text \<open>\<open>_quarantine\<close>, which no caller in the repository uses.\<close>

definition quarantine_now :: "actions \<Rightarrow> sender_key \<Rightarrow> string \<Rightarrow> int \<Rightarrow> string prog" where
  "quarantine_now A k reason now =
    bind_prog (query get_mode) (\<lambda>mode.
    if mode = Monitor then
      then_prog (change (audit k reason ''observed'' now)) (ret ''would_quarantine'')
    else
      bind_prog (archive_and_mute A) (\<lambda>success.
      if success then
        then_prog (change (quarantine k None now))
        (then_prog (change (audit k reason ''archived_muted'' now))
        (then_prog (cancel_timeout A k) (ret ''quarantined'')))
      else then_prog (change (audit k reason ''action_failed'' now)) (ret ''fail_safe'')))"

end
