(* ===== verification/Restriction_Actions.thy ===== *)
theory Restriction_Actions
  imports Service_Recovery
begin

text \<open>
  \<open>restriction_actions.py\<close>: lifting a restriction, on the operator's request or because the owner
  wrote to the sender. Both run under the sender's lock.
\<close>

datatype release_result = Released | NotActive | IdentityUnavailable | TelegramActionFailed

text \<open>\<open>restore_dialog\<close>; \<open>TelegramActions.restore_from_pending\<close> has the same body. A dialog without
  a snapshot goes to the main folder, unmuted from now on.\<close>

definition restore_settings :: "dialog_snapshot option \<Rightarrow> int \<Rightarrow> int \<times> bool \<times> int" where
  "restore_settings snapshot now = (case snapshot of
      None \<Rightarrow> (0, False, now)
    | Some d \<Rightarrow> (folder_id d, silent d,
                (case mute_until d of None \<Rightarrow> now | Some at \<Rightarrow> at)))"

definition restore_dialog :: "peer_key option \<Rightarrow> sender_key \<Rightarrow> bool prog" where
  "restore_dialog peer k =
    try_except
      (bind_prog (query (dialog_snapshot_of k)) (\<lambda>snapshot.
       bind_prog read_clock (\<lambda>now.
       let (folder, quiet, until) = restore_settings snapshot now in
       bind_prog (telegram_peer peer (\<lambda>p. EditPeerFolders p folder)) (\<lambda>_.
       bind_prog (telegram_peer peer (\<lambda>p. UpdateNotifySettings p quiet until)) (\<lambda>_.
       then_prog (change (clear_dialog_snapshot k)) (ret True))))))
      (ret False)"

definition allow_restricted :: "gatekeeper \<Rightarrow> sender_key \<Rightarrow> release_result prog" where
  "allow_restricted g k =
    bind_prog read_clock (\<lambda>seen_at.
    bind_prog (query (active_restriction_of k seen_at)) (\<lambda>item.
    case item of
      None \<Rightarrow> ret NotActive
    | Some restriction \<Rightarrow>
        (case Option.bind (ar_reference restriction) (prot_open_restriction (gk_protector g)) of
           None \<Rightarrow> ret IdentityUnavailable
         | Some (user_id, access_hash) \<Rightarrow>
             bind_prog (restore_dialog (Some (PeerUser user_id access_hash)) k) (\<lambda>restored.
             if \<not> restored then ret TelegramActionFailed
             else
               bind_prog read_clock (\<lambda>now.
               then_prog (change (allow k now))
               (then_prog (schedule (CancelTimeoutJob k)) (ret Released)))))))"

definition release_after_owner_contact :: "peer_key option \<Rightarrow> sender_key \<Rightarrow> bool prog" where
  "release_after_owner_contact peer k =
    bind_prog (query (sender k)) (\<lambda>state.
    if status state \<notin> GATEKEEPER_ARCHIVED_STATUSES then ret False
    else
      bind_prog read_clock (\<lambda>now.
      bind_prog (restore_dialog peer k) (\<lambda>restored.
      if \<not> restored then
        then_prog (change (audit k ''OWNER_CONTACT'' ''action_failed'' now)) (ret False)
      else
        then_prog (change (allow k now))
        (then_prog (change (audit k ''OWNER_CONTACT'' ''allowed'' now))
        (then_prog (schedule (CancelTimeoutJob k))
        (then_prog
           (case challenge_message_id state of
              None \<Rightarrow> ret ()
            | Some i \<Rightarrow>
                try_except
                  (bind_prog (telegram_peer peer (\<lambda>p. DeleteMessages p [i])) (\<lambda>_. ret ()))
                  (ret ()))
           (ret True)))))))"

end
