(* ===== verification/Adapter.thy ===== *)
theory Adapter
  imports Restriction_Actions Message_Facts
begin

text \<open>
  \<open>telegram_adapter.py\<close>: the Telegram implementation of the protocol \<open>MessageActions\<close>, the
  message handler, the scheduled workers and the start-up recovery. A worker is the program that
  runs once its sleep is over; \<open>worker_delay\<close> is the sleep. A peer is \<open>None\<close> when Telethon
  does not know the conversation.
\<close>

subsection \<open>Pure helpers\<close>

text \<open>\<open>UpdateStallDetector.observe\<close>: the state is when the current backlog was first seen.\<close>

definition observe_backlog :: "int \<Rightarrow> int option \<Rightarrow> int \<Rightarrow> int \<Rightarrow> int option \<times> int option" where
  "observe_backlog threshold backlog_since queued_updates now =
    (if queued_updates \<le> 0 then (None, None)
     else (case backlog_since of
        None \<Rightarrow> (None, Some now)
      | Some since \<Rightarrow>
          (if now - since \<ge> threshold then Some (now - since) else None, backlog_since)))"

text \<open>\<open>formatting_entities_from_spans\<close>: offsets and lengths in UTF-16 code units. A span's offset
  is a \<open>nat\<close>, so the source's test for a negative one does not arise.\<close>

fun formatting_entities ::
  "ustring \<Rightarrow> style_span list \<Rightarrow> exn + (span_style \<times> nat \<times> nat) list" where
  "formatting_entities t [] = Inr []"
| "formatting_entities t (sp # sps) =
     (if span_length sp = 0 \<or> span_offset sp + span_length sp > length t then Inl ''ValueError''
      else (case (utf16_encode (take (span_offset sp) t),
                  utf16_encode (take (span_length sp) (drop (span_offset sp) t))) of
         (Some before, Some body) \<Rightarrow>
           (case formatting_entities t sps of
              Inl e \<Rightarrow> Inl e
            | Inr rest \<Rightarrow> Inr ((span_style sp, length before, length body) # rest))
       | _ \<Rightarrow> Inl ''UnicodeEncodeError''))"

text \<open>\<open>load_denylist\<close> on the file's text (\<open>None\<close>: no file is configured).\<close>

fun denylist_domains :: "unicode \<Rightarrow> ustring list \<Rightarrow> exn + ustring list" where
  "denylist_domains u [] = Inr []"
| "denylist_domains u (line # rest) =
     (let v = strip line in
      if v = [] \<or> starts_with v [35] then denylist_domains u rest
      else if contains v [47] \<or> contains v [58] then Inl ''ConfigurationError''
      else (case normalized_domain u v of
          None \<Rightarrow> Inl ''ConfigurationError''
        | Some domain \<Rightarrow>
            (case denylist_domains u rest of
               Inl e \<Rightarrow> Inl e | Inr ds \<Rightarrow> Inr (List.insert domain ds))))"

definition load_denylist :: "unicode \<Rightarrow> ustring option \<Rightarrow> exn + ustring list" where
  "load_denylist u file = (case file of
      None \<Rightarrow> Inr [] | Some t \<Rightarrow> denylist_domains u (splitlines t []))"

text \<open>\<open>BoundedStringSession\<close>: the entity index in order of use, oldest first, and the number of
  evictions. The entities are pairs of a user's id and access hash.\<close>

record bounded_session =
  bs_limit :: nat
  bs_entities :: "(int \<times> int) list"
  bs_evictions :: nat

definition touch_entity :: "int \<Rightarrow> int \<Rightarrow> (int \<times> int) list \<Rightarrow> (int \<times> int) list" where
  "touch_entity i h es = filter (\<lambda>(j, _). j \<noteq> i) es @ [(i, h)]"

definition process_entity :: "int \<times> int \<Rightarrow> bounded_session \<Rightarrow> bounded_session" where
  "process_entity e b =
    (let es = touch_entity (fst e) (snd e) (bs_entities b);
         excess = length es - bs_limit b
     in b\<lparr>bs_entities := drop excess es, bs_evictions := bs_evictions b + excess\<rparr>)"

definition process_entities :: "(int \<times> int) list \<Rightarrow> bounded_session \<Rightarrow> bounded_session" where
  "process_entities es b = foldl (\<lambda>b e. process_entity e b) b es"

definition get_input_entity :: "int \<Rightarrow> bounded_session \<Rightarrow> (exn + (int \<times> int)) \<times> bounded_session" where
  "get_input_entity i b = (case map_of (bs_entities b) i of
      None \<Rightarrow> (Inl ''ValueError'', b)
    | Some h \<Rightarrow> (Inr (i, h), b\<lparr>bs_entities := touch_entity i h (bs_entities b)\<rparr>))"

subsection \<open>TelegramActions\<close>

definition tg_send_text ::
  "peer_key option \<Rightarrow> ustring \<Rightarrow> int option \<Rightarrow> style_span list \<Rightarrow> int prog" where
  "tg_send_text peer t reply_to formatting =
    bind_prog (need_sum (formatting_entities t formatting)) (\<lambda>entities.
    bind_prog (telegram_peer peer (\<lambda>p. SendMessage p t reply_to entities)) (\<lambda>r.
    case r of ReplyId i \<Rightarrow> ret i | _ \<Rightarrow> raise_exn ''AttributeError''))"

text \<open>The first \<open>if\<close> of \<open>archive_and_mute\<close>: the settings are saved once.\<close>

definition snapshot_dialog :: "peer_key option \<Rightarrow> sender_key \<Rightarrow> unit prog" where
  "snapshot_dialog peer k =
    bind_prog (query (dialog_snapshot_of k)) (\<lambda>saved.
    case saved of
      Some _ \<Rightarrow> ret ()
    | None \<Rightarrow>
        bind_prog (telegram_peer peer GetPeerDialogs) (\<lambda>r.
        case r of
          ReplyDialog (Some d) \<Rightarrow> change (save_dialog_snapshot k d)
        | _ \<Rightarrow> raise_exn ''RuntimeError''))"

definition tg_restore_from_pending :: "peer_key option \<Rightarrow> sender_key \<Rightarrow> bool prog" where
  "tg_restore_from_pending peer k = restore_dialog peer k"

definition tg_archive_and_mute :: "int \<Rightarrow> peer_key option \<Rightarrow> sender_key \<Rightarrow> bool prog" where
  "tg_archive_and_mute mute_days peer k =
    bind_prog (attempt
      (then_prog (snapshot_dialog peer k)
        (telegram_peer peer (\<lambda>p. EditPeerFolders p 1)))) (\<lambda>archived.
    case archived of
      Inl _ \<Rightarrow> ret False
    | Inr _ \<Rightarrow>
        bind_prog (attempt
          (bind_prog read_clock (\<lambda>now.
             telegram_peer peer (\<lambda>p. UpdateNotifySettings p True (now + mute_days * 86400)))))
          (\<lambda>muted.
        case muted of
          Inl _ \<Rightarrow> bind_prog (tg_restore_from_pending peer k) (\<lambda>_. ret False)
        | Inr _ \<Rightarrow> ret True))"

definition tg_delete_messages :: "peer_key option \<Rightarrow> int list \<Rightarrow> bool prog" where
  "tg_delete_messages peer ids =
    (if ids = [] then ret True
     else try_except
       (bind_prog (telegram_peer peer (\<lambda>p. DeleteMessages p ids)) (\<lambda>_. ret True)) (ret False))"

definition tg_delete_message :: "peer_key option \<Rightarrow> int \<Rightarrow> bool prog" where
  "tg_delete_message peer i =
    try_except
      (bind_prog (telegram_peer peer (\<lambda>p. DeleteMessages p [i])) (\<lambda>_. ret True)) (ret False)"

definition tg_delete_dialog :: "peer_key option \<Rightarrow> sender_key \<Rightarrow> bool prog" where
  "tg_delete_dialog peer k =
    try_except
      (bind_prog (telegram_peer peer DeleteDialog) (\<lambda>_.
         then_prog (change (clear_dialog_snapshot k)) (ret True)))
      (ret False)"

definition adapter_schedule_timeout ::
  "sender_key \<Rightarrow> int \<Rightarrow> int \<Rightarrow> int \<Rightarrow> peer_key option \<Rightarrow> unit prog" where
  "adapter_schedule_timeout k expires_at grace minimum_delay peer =
    then_prog (schedule (CancelTimeoutJob k))
      (schedule (TimeoutJob k expires_at grace minimum_delay peer))"

definition telegram_actions :: "int \<Rightarrow> peer_key option \<Rightarrow> sender_key \<Rightarrow> actions" where
  "telegram_actions mute_days peer k =
    \<lparr>send_text = tg_send_text peer,
     archive_and_mute = tg_archive_and_mute mute_days peer k,
     restore_from_pending = tg_restore_from_pending peer k,
     delete_message = tg_delete_message peer,
     delete_messages = tg_delete_messages peer,
     delete_dialog = tg_delete_dialog peer k,
     schedule_timeout = (\<lambda>j expires_at grace. adapter_schedule_timeout j expires_at grace 0 peer),
     cancel_timeout = (\<lambda>j. schedule (CancelTimeoutJob j)),
     schedule_test_message_deletion = (\<lambda>j since at. schedule (MessageDeletionJob peer j since at)),
     schedule_verification_message_deletion =
       (\<lambda>j ids at. schedule (VerificationDeletionJob peer j ids at)),
     schedule_dialog_deletion = (\<lambda>i at. schedule (DialogDeletionJob i at)),
     schedule_test_state_reset = (\<lambda>j seen at. schedule (StateResetJob j seen at))\<rparr>"

end
