(* ===== verification/Adapter_Workers.thy ===== *)
theory Adapter_Workers
  imports Adapter
begin

text \<open>
  \<open>telegram_adapter.py\<close>, continued: the handler of an incoming event, the owner-contact lookup,
  the scheduled workers, the periodic maintenance, and the recovery at start-up.
\<close>

record adapter =
  ad_gatekeeper :: gatekeeper
  ad_mute_days :: int
  ad_test_sender_id :: "int option"
  ad_audit_days :: int
  ad_archived_days :: "int option"

record tg_sender =
  ts_id :: "int option"
  ts_access_hash :: "int option"
  ts_contact :: bool
  ts_bot :: bool

text \<open>A \<open>NewMessage\<close> event: \<open>ev_message\<close> is \<open>None\<close> for anything but a message, \<open>ev_sender\<close> is what
  \<open>get_sender\<close> returns or raises.\<close>

record tg_event =
  te_private :: bool
  te_message :: "tg_message option"
  te_sender :: "exn + tg_sender"
  te_input_chat :: "peer_key option"

definition SERVICE_USER_IDS :: "int set" where
  "SERVICE_USER_IDS = {777000, 42777}"

definition HISTORY_LOOKUP_LIMIT :: int where
  "HISTORY_LOOKUP_LIMIT = 100"

definition GATEKEEPER_MESSAGE_PREFIXES :: "ustring list" where
  "GATEKEEPER_MESSAGE_PREFIXES =
     [ustr ''To filter spam,'',
      [9888, 65039] @ ustr '' Verification Required'', [8617, 65039] @ ustr '' Reply Required'',
      128290 # ustr '' Digits Only'', 10060 # ustr '' Incorrect Answer'',
      9989 # ustr '' Verification Passed'', 9940 # ustr '' Verification Failed'',
      ustr ''Verification required'', ustr ''Reply required'', ustr ''Digits only'',
      ustr ''Incorrect answer'', ustr ''Verification passed'', ustr ''Verification failed'',
      ustr ''Please use Telegram's Reply action'', ustr ''Reply with digits only.'',
      ustr ''Incorrect answer.'', ustr ''Verification passed.'', ustr ''Verification failed.'']"

definition input_peer_from_sender :: "tg_sender \<Rightarrow> peer_key option" where
  "input_peer_from_sender sd = (case (ts_id sd, ts_access_hash sd) of
      (Some i, Some h) \<Rightarrow> Some (PeerUser i h) | _ \<Rightarrow> None)"

definition acts_for :: "adapter \<Rightarrow> peer_key option \<Rightarrow> sender_key \<Rightarrow> actions" where
  "acts_for ad peer k = telegram_actions (ad_mute_days ad) peer k"

subsection \<open>Owner contact\<close>

text \<open>An outgoing message that neither the gatekeeper's records nor its fixed texts explain.\<close>

definition owner_message ::
  "sender_key \<Rightarrow> int \<Rightarrow> int option \<Rightarrow> store \<Rightarrow> history_message \<Rightarrow> bool" where
  "owner_message k message_id since s h \<longleftrightarrow>
     \<not> (case (since, hm_date h) of (Some t, Some at) \<Rightarrow> at < t | _ \<Rightarrow> False)
     \<and> hm_id h \<noteq> message_id \<and> hm_out h \<and> \<not> is_automated_message k (hm_id h) s
     \<and> \<not> list_ex (starts_with (hm_text h)) GATEKEEPER_MESSAGE_PREFIXES"

definition has_prior_outgoing ::
  "peer_key option \<Rightarrow> int \<Rightarrow> sender_key \<Rightarrow> int option \<Rightarrow> bool prog" where
  "has_prior_outgoing peer message_id k since = (case peer of
      None \<Rightarrow> raise_exn ''ValueError''
    | Some p \<Rightarrow>
        bind_prog (telegram (IterMessages p HISTORY_LOOKUP_LIMIT False)) (\<lambda>r.
        case r of
          ReplyHistory hs \<Rightarrow> query (\<lambda>s. list_ex (owner_message k message_id since s) hs)
        | _ \<Rightarrow> raise_exn ''TypeError''))"

definition owner_contacted ::
  "peer_key option \<Rightarrow> int \<Rightarrow> sender_key \<Rightarrow> int option \<Rightarrow> bool prog" where
  "owner_contacted peer message_id k since =
    try_except (has_prior_outgoing peer message_id k since)
      (bind_prog read_clock (\<lambda>now.
        then_prog (change (audit k ''TRUSTED_HISTORY_LOOKUP'' ''action_failed'' now))
          (ret False)))"

definition release_if_owner_contacted ::
  "peer_key option \<Rightarrow> int \<Rightarrow> sender_key \<Rightarrow> int \<Rightarrow> bool prog" where
  "release_if_owner_contacted peer message_id k since =
    bind_prog (owner_contacted peer message_id k (Some since)) (\<lambda>contacted.
      if \<not> contacted then ret False else release_after_owner_contact peer k)"

subsection \<open>Incoming events\<close>

definition review_reference_of :: "gatekeeper \<Rightarrow> tg_sender \<Rightarrow> int \<Rightarrow> blob option prog" where
  "review_reference_of g sd message_id = (case (ts_id sd, ts_access_hash sd) of
      (Some i, Some h) \<Rightarrow> draw (\<lambda>n. Some (prot_seal_review (gk_protector g) n i h message_id))
    | _ \<Rightarrow> ret None)"

definition trusted_history_of ::
  "peer_key option \<Rightarrow> int \<Rightarrow> sender_key \<Rightarrow> sender_state \<Rightarrow> bool \<Rightarrow> bool prog" where
  "trusted_history_of peer message_id k state checks_history =
    (if checks_history \<and> status state \<in> GATEKEEPER_ARCHIVED_STATUSES then
       bind_prog (release_if_owner_contacted peer message_id k (updated_at state)) (\<lambda>_. ret False)
     else if checks_history \<and> status state \<in> {UNKNOWN, PROVISIONAL} then
       owner_contacted peer message_id k
         (if status state = PROVISIONAL then Some (updated_at state) else None)
     else ret False)"

definition handle_event_message ::
  "adapter \<Rightarrow> tg_event \<Rightarrow> tg_message \<Rightarrow> tg_sender \<Rightarrow> int \<Rightarrow> unit prog" where
  "handle_event_message ad e m sd sender_id =
    (let g = ad_gatekeeper ad; k = prot_sender_key (gk_protector g) sender_id;
         peer = (case input_peer_from_sender sd of Some p \<Rightarrow> Some p | None \<Rightarrow> te_input_chat e) in
     bind_prog (query (sender k)) (\<lambda>state.
     bind_prog (trusted_history_of peer (tm_id m) k state
        (ad_test_sender_id ad \<noteq> Some sender_id \<and> \<not> ts_bot sd \<and> \<not> ts_contact sd
         \<and> sender_id \<notin> SERVICE_USER_IDS)) (\<lambda>trusted_history.
     bind_prog read_clock (\<lambda>fallback.
     bind_prog (need ''UnicodeEncodeError'' (facts_from_message (gk_unicode g) m)) (\<lambda>facts.
     bind_prog (review_reference_of g sd (tm_id m)) (\<lambda>reference.
     bind_prog (handle g (acts_for ad peer k)
       \<lparr>m_sender_id = sender_id, m_message_id = tm_id m, m_text = or_empty (tm_text m),
        m_facts = facts,
        m_sent_at = (case tm_date m of None \<Rightarrow> fallback | Some at \<Rightarrow> at),
        m_reply_to = tm_reply_to_id m, m_is_contact = ts_contact sd, m_is_bot = ts_bot sd,
        m_is_service = (sender_id \<in> SERVICE_USER_IDS),
        m_has_trusted_history = trusted_history, m_review_reference = reference\<rparr>)
       (\<lambda>_. ret ())))))))"

definition on_message :: "adapter \<Rightarrow> tg_event \<Rightarrow> unit prog" where
  "on_message ad e =
    try_except
      (case (te_private e, te_message e) of
         (True, Some m) \<Rightarrow>
           bind_prog (need_sum (te_sender e)) (\<lambda>sd.
             case ts_id sd of
               None \<Rightarrow> ret () | Some sender_id \<Rightarrow> handle_event_message ad e m sd sender_id)
       | _ \<Rightarrow> ret ())
      (ret ())"

subsection \<open>Workers\<close>

definition worker_delay :: "int \<Rightarrow> int \<Rightarrow> int" where
  "worker_delay due now = max 0 (due - now)"

definition timeout_delay :: "int \<Rightarrow> int \<Rightarrow> int \<Rightarrow> int \<Rightarrow> int" where
  "timeout_delay minimum_delay expires_at grace now = max minimum_delay (expires_at + grace - now)"

definition timeout_worker ::
  "adapter \<Rightarrow> sender_key \<Rightarrow> int \<Rightarrow> peer_key option \<Rightarrow> unit prog" where
  "timeout_worker ad k expires_at peer =
    try_except
      (bind_prog (query (sender k)) (\<lambda>state.
       bind_prog
         (if peer \<noteq> None \<and> \<not> is_test_key (ad_gatekeeper ad) k \<and> status state = CHALLENGED
             \<and> challenge_expires_at state = Some expires_at
          then release_if_owner_contacted peer 0 k (updated_at state) else ret False) (\<lambda>released.
       if released then ret ()
       else bind_prog (expire_challenge (ad_gatekeeper ad)
              (case peer of None \<Rightarrow> None | Some p \<Rightarrow> Some (acts_for ad (Some p) k))
              k expires_at None) (\<lambda>_. ret ()))))
      (ret ())"

definition verification_message_deletion_worker ::
  "peer_key option \<Rightarrow> sender_key \<Rightarrow> int list \<Rightarrow> unit prog" where
  "verification_message_deletion_worker peer k ids =
    try_except
      (bind_prog (telegram_peer peer (\<lambda>p. DeleteMessages p ids)) (\<lambda>_.
       bind_prog read_clock (\<lambda>now.
         change (audit k ''CHALLENGE_CLEANUP'' ''messages_deleted'' now))))
      (bind_prog read_clock (\<lambda>now.
         change (audit k ''CHALLENGE_CLEANUP'' ''action_failed'' now)))"

definition test_message_deletion_worker ::
  "peer_key option \<Rightarrow> sender_key \<Rightarrow> int \<Rightarrow> unit prog" where
  "test_message_deletion_worker peer k since =
    try_except
      (bind_prog (query (message_ids_since k since)) (\<lambda>ids.
       if ids = [] then ret ()
       else bind_prog (telegram_peer peer (\<lambda>p. DeleteMessages p ids)) (\<lambda>_. ret ())))
      (ret ())"

definition delete_claimed_dialog :: "adapter \<Rightarrow> pending_action \<Rightarrow> unit prog" where
  "delete_claimed_dialog ad a =
    bind_prog (need ''ValueError'' (prot_open_review (gk_protector (ad_gatekeeper ad))
        (act_reference a))) (\<lambda>(user_id, access_hash, _).
    bind_prog (delete_dialog (acts_for ad (Some (PeerUser user_id access_hash)) (act_sender a)))
      (\<lambda>deleted.
    bind_prog read_clock (\<lambda>finished_at.
    bind_prog (transact_exn (finish_action (act_id a)
        (if deleted then ActCompleted else ActFailed) finished_at)) (\<lambda>_.
    then_prog
      (if deleted then
         bind_prog (transact (clear_action_reference (act_sender a) (act_expected_revision a)))
           (\<lambda>_. ret ())
       else bind_prog read_clock (\<lambda>failed_at. change (enqueue_action_failure a failed_at)))
      (bind_prog read_clock (\<lambda>now.
         change (audit (act_sender a) ''DIALOG_DELETE''
           (if deleted then ''deleted'' else ''action_failed'') now)))))))"

definition fail_claimed_action :: "pending_action \<Rightarrow> unit prog" where
  "fail_claimed_action a =
    bind_prog read_clock (\<lambda>finished_at.
    bind_prog (transact_exn (finish_action (act_id a) ActFailed finished_at)) (\<lambda>_.
    bind_prog read_clock (\<lambda>failed_at.
    then_prog (change (enqueue_action_failure a failed_at))
    (bind_prog read_clock (\<lambda>now.
       change (audit (act_sender a) ''DIALOG_DELETE'' ''action_failed'' now))))))"

definition dialog_deletion_worker :: "adapter \<Rightarrow> int \<Rightarrow> unit prog" where
  "dialog_deletion_worker ad i =
    bind_prog (query (pending_action_sender_key i)) (\<lambda>k.
    case k of
      None \<Rightarrow> ret ()
    | Some _ \<Rightarrow>
        bind_prog read_clock (\<lambda>claimed_at.
        bind_prog (query (claim_action i claimed_at)) (\<lambda>action.
        case action of
          None \<Rightarrow> ret ()
        | Some a \<Rightarrow> try_except (delete_claimed_dialog ad a) (fail_claimed_action a))))"

definition test_state_reset_worker :: "adapter \<Rightarrow> sender_key \<Rightarrow> int \<Rightarrow> unit prog" where
  "test_state_reset_worker ad k expected_updated_at =
    try_except
      (bind_prog (reset_test_sender (ad_gatekeeper ad) k expected_updated_at None) (\<lambda>_. ret ()))
      (ret ())"

text \<open>The program a scheduled job runs when its sleep is over.\<close>

fun run_job :: "adapter \<Rightarrow> job \<Rightarrow> unit prog" where
  "run_job ad (TimeoutJob k expires_at grace minimum_delay peer) =
     timeout_worker ad k expires_at peer"
| "run_job ad (CancelTimeoutJob k) = ret ()"
| "run_job ad (CancelCleanupJob k) = ret ()"
| "run_job ad (MessageDeletionJob peer k since at) = test_message_deletion_worker peer k since"
| "run_job ad (VerificationDeletionJob peer k ids at) =
     verification_message_deletion_worker peer k ids"
| "run_job ad (DialogDeletionJob i at) = dialog_deletion_worker ad i"
| "run_job ad (StateResetJob k seen at) = test_state_reset_worker ad k seen"

subsection \<open>Maintenance\<close>

text \<open>One pass of \<open>_heartbeat_loop\<close> whose pruning is due: the timers and cleanup tasks of senders
  that are no longer restricted are cancelled. The caches of the dashboard backend and of the
  operator controls, from which such a sender is evicted too, are not part of the world.\<close>

fun cancel_released :: "int \<Rightarrow> sender_key list \<Rightarrow> unit prog" where
  "cancel_released now [] = ret ()"
| "cancel_released now (k # ks) =
     bind_prog (query (active_restriction_of k now)) (\<lambda>item.
     then_prog
       (if item = None then then_prog (schedule (CancelTimeoutJob k)) (schedule (CancelCleanupJob k))
        else ret ())
       (cancel_released now ks))"

definition maintenance_pass :: "adapter \<Rightarrow> unit prog" where
  "maintenance_pass ad =
    bind_prog read_clock (\<lambda>now.
    then_prog (change (heartbeat now))
    (bind_prog (query (maintenance_sender_keys now (ad_archived_days ad))) (\<lambda>ks.
     bind_prog (transact (prune (ad_audit_days ad) now (ad_archived_days ad) (Some ks))) (\<lambda>_.
     cancel_released now ks))))"

subsection \<open>Recovery at start-up\<close>

definition recovered_prompt_id :: "sender_state \<Rightarrow> history_message list \<Rightarrow> int option" where
  "recovered_prompt_id state hs =
    map_option hm_id (List.find (\<lambda>h. hm_out h
        \<and> Some (hm_text h) = sender_state.challenge_prompt state
        \<and> (case hm_date h of None \<Rightarrow> 0 | Some at \<Rightarrow> at) \<ge> updated_at state - 5) hs)"

definition challenged_peer :: "gatekeeper \<Rightarrow> sender_state \<Rightarrow> peer_key option" where
  "challenged_peer g state =
    (case Option.bind (challenge_action_reference state) (prot_open_review (gk_protector g)) of
       None \<Rightarrow> None | Some (user_id, access_hash, _) \<Rightarrow> Some (PeerUser user_id access_hash))"

definition recover_challenge :: "adapter \<Rightarrow> sender_key \<Rightarrow> sender_state \<Rightarrow> unit prog" where
  "recover_challenge ad k state =
    (let g = ad_gatekeeper ad in
     if status state = CHALLENGED then
       (case challenge_expires_at state of
          None \<Rightarrow> ret ()
        | Some expires_at \<Rightarrow>
            adapter_schedule_timeout k expires_at 30
              (if challenged_peer g state = None then 30 else 0) (challenged_peer g state))
     else (case challenge_action_reference state of
        None \<Rightarrow> abandon_incomplete_challenge k ''reference_unavailable''
      | Some reference \<Rightarrow>
          (case prot_open_review (gk_protector g) reference of
             None \<Rightarrow> abandon_incomplete_challenge k ''reference_invalid''
           | Some (user_id, access_hash, _) \<Rightarrow>
               (let p = PeerUser user_id access_hash in
                bind_prog
                  (if status state = CHALLENGE_ISSUING
                      \<and> sender_state.challenge_prompt state \<notin> {None, Some []}
                   then bind_prog (telegram (IterMessages p 10 True)) (\<lambda>r.
                     case r of
                       ReplyHistory hs \<Rightarrow> ret (recovered_prompt_id state hs)
                     | _ \<Rightarrow> raise_exn ''TypeError'')
                   else ret None) (\<lambda>recovered.
                bind_prog (recover_incomplete_challenge g (acts_for ad (Some p) k) k recovered)
                  (\<lambda>_. ret ()))))))"

fun recover_rows :: "adapter \<Rightarrow> (sender_key \<times> sender_state) list \<Rightarrow> unit prog" where
  "recover_rows ad [] = ret ()"
| "recover_rows ad ((k, state) # rows) =
     then_prog (recover_challenge ad k state) (recover_rows ad rows)"

definition recover_challenges :: "adapter \<Rightarrow> unit prog" where
  "recover_challenges ad = bind_prog (query challenge_states) (recover_rows ad)"

definition test_cleanup_peer :: "gatekeeper \<Rightarrow> sender_state \<Rightarrow> peer_key option" where
  "test_cleanup_peer g state =
    (case bytes_or (restriction_reference state) (challenge_action_reference state) of
       None \<Rightarrow> None
     | Some reference \<Rightarrow>
         if restriction_reference state \<noteq> None then
           map_option (\<lambda>(i, h). PeerUser i h) (prot_open_restriction (gk_protector g) reference)
         else
           map_option (\<lambda>(i, h, _). PeerUser i h) (prot_open_review (gk_protector g) reference))"

definition recover_test_sender_cleanup :: "adapter \<Rightarrow> unit prog" where
  "recover_test_sender_cleanup ad =
    (case (ad_test_sender_id ad, gk_test_sender_key (ad_gatekeeper ad)) of
       (Some _, Some k) \<Rightarrow>
         bind_prog (query (sender k)) (\<lambda>state.
         if status state \<notin> {PROVISIONAL, QUARANTINED} then ret ()
         else
           then_prog
             (case (if status state = QUARANTINED
                    then test_cleanup_peer (ad_gatekeeper ad) state else None) of
                None \<Rightarrow> ret ()
              | Some p \<Rightarrow>
                  bind_prog (query (latest_challenge_started_at k (updated_at state))) (\<lambda>started.
                  let started_at = (case started of
                        None \<Rightarrow> updated_at state - gk_ttl_seconds (ad_gatekeeper ad)
                      | Some at \<Rightarrow> at) in
                  bind_prog (query (latest_challenge_terminal_event k started_at)) (\<lambda>terminal.
                  if map_option fst terminal = Some ''CHALLENGE_TIMEOUT'' then
                    schedule (MessageDeletionJob (Some p) k started_at
                      (updated_at state + TEST_MESSAGE_DELETE_DELAY_SECONDS))
                  else ret ())))
             (schedule (StateResetJob k (updated_at state)
                (updated_at state + TEST_STATE_RESET_DELAY_SECONDS))))
     | _ \<Rightarrow> ret ())"

fun schedule_deletions :: "pending_action list \<Rightarrow> unit prog" where
  "schedule_deletions [] = ret ()"
| "schedule_deletions (a # xs) =
     then_prog (schedule (DialogDeletionJob (act_id a) (act_execute_at a))) (schedule_deletions xs)"

definition recover_pending_actions :: "unit prog" where
  "recover_pending_actions = bind_prog (query pending_actions) schedule_deletions"

end
