(* ===== verification/Store_Steps.thy ===== *)
theory Store_Steps
  imports Store_Maintenance
begin

text \<open>
  The state database as a state machine. \<open>sender_step k\<close> has one rule for every operation of the
  store that the handlers run for the sender \<open>k\<close>; \<open>store_step\<close> adds the operations that are not
  about one sender (mode, maintenance, the dashboard's decision by review id, the cleanup queue,
  the end of a deletion job). Invariants are proved by rule induction.
\<close>

text \<open>The operations that decide a sender's fate need a capability: a proof that a program runs
  without one is a proof that it cannot have that effect.\<close>

datatype capability = Trust | Verify | Destroy | Delete | Attempt

inductive sender_step :: "capability set \<Rightarrow> sender_key \<Rightarrow> store \<Rightarrow> store \<Rightarrow> bool"
  for C :: "capability set" and k :: sender_key where
  claim_message_step: "sender_step C k s (snd (claim_message k i ts s))"
| finish_message_step: "sender_step C k s (finish_message k i outcome s)"
| audit_step: "sender_step C k s (audit k rule_code outcome ts s)"
| delete_enforcement_review_step: "sender_step C k s (snd (delete_enforcement_review k s))"
| set_challenge_step: "sender_step C k s (set_challenge k cid digest expires_at i ts s)"
| begin_challenge_issue_step:
    "sender_step C k s (begin_challenge_issue k cid digest expires_at prompt reference profile ts s)"
| bind_challenge_message_step: "sender_step C k s (snd (bind_challenge_message k i ts s))"
| activate_challenge_step: "sender_step C k s (snd (activate_challenge k ts s))"
| reset_incomplete_challenge_step: "sender_step C k s (snd (reset_incomplete_challenge k ts s))"
| mark_provisional_step: "Verify \<in> C \<Longrightarrow> sender_step C k s (mark_provisional k ts s)"
| mark_guidance_step: "sender_step C k s (snd (mark_challenge_guidance_sent k s))"
| refresh_expiry_step: "sender_step C k s (snd (refresh_challenge_expiry k expires_at ts s))"
| expire_challenge_step:
    "sender_step C k s (snd (expire_challenge_row k expires_at ts seconds restriction s))"
| increment_attempts_step: "Attempt \<in> C \<Longrightarrow> sender_step C k s (snd (increment_attempts k ts s))"
| allow_step: "Trust \<in> C \<Longrightarrow> sender_step C k s (allow k ts s)"
| revoke_step: "sender_step C k s (revoke k ts s)"
| reset_test_sender_step: "sender_step C k s (snd (reset_test_sender_row k seen ts s))"
| quarantine_step: "sender_step C k s (quarantine k restriction ts s)"
| suppress_step: "until \<noteq> None \<or> Destroy \<in> C \<Longrightarrow>
    sender_step C k s (snd (suppress k reason until reference restriction ts s))"
| release_step: "sender_step C k s (snd (release_expired_suppression k ts s))"
| schedule_action_step:
    "Delete \<in> C \<Longrightarrow>
     sender_step C k s (snd (schedule_action k reason action_reference at expected independent ts s))"
| clear_action_reference_step: "sender_step C k s (snd (clear_action_reference k expected s))"
| action_failure_step: "act_sender a = k \<Longrightarrow> sender_step C k s (enqueue_action_failure a ts s)"
| enqueue_review_step:
    "sender_step C k s (snd (enqueue_review k review_reference cl sg features expires_at ts s))"
| decide_sender_step: "sender_step C k s (snd (decide_sender_reviews k st ts s))"
| save_review_step: "sender_step C k s (save_enforcement_review k reference envelope reason expires_at ts s)"
| activate_review_step:
    "sender_step C k s (snd (activate_enforcement_review k reason expires_at reference ts s))"
| save_snapshot_step: "sender_step C k s (save_dialog_snapshot k d s)"
| clear_snapshot_step: "sender_step C k s (clear_dialog_snapshot k s)"
| save_reference_step: "sender_step C k s (snd (save_restriction_reference k action_reference s))"
| archive_step: "sender_step C k s (snd (archive_restriction k ts s))"
| unarchive_step: "sender_step C k s (snd (unarchive_restriction k s))"
| record_decision_step:
    "sender_step C k s (record_decision k detector sg assessment score version basis planned actual policy ts s)"
| record_link_step: "sender_step C k s (record_link_message k ts s)"
| observe_campaign_step: "sender_step C k s (snd (observe_campaign fingerprint k window ts s))"
| claim_slot_step: "sender_step C k s (snd (claim_outbound_slot limit reserve per_sender k category ts s))"
| record_automated_step: "sender_step C k s (record_automated_message k i ts s)"

inductive store_step :: "store \<Rightarrow> store \<Rightarrow> bool" where
  by_sender: "sender_step UNIV k s s' \<Longrightarrow> store_step s s'"
| by_forget: "store_step s (snd (forget_restriction k before s))"
| by_finish_action: "store_step s (snd (finish_action i st ts s))"
| by_decide_review: "store_step s (snd (decide_review i st ts s))"
| by_set_mode: "store_step s (set_mode m ts s)"
| by_heartbeat: "store_step s (heartbeat ts s)"
| by_prune: "store_step s (snd (prune days ts archived lifecycle s))"
| by_schedule_artifacts: "store_step s (snd (schedule_operator_artifacts ids at s))"
| by_complete_artifacts: "store_step s (complete_operator_artifacts ids s)"
| by_retry_artifacts: "store_step s (retry_operator_artifacts ids at s)"

inductive_cases sender_stepE: "sender_step C k s s'"
inductive_cases store_stepE: "store_step s s'"

subsection \<open>Rows\<close>

text \<open>The shape of a sender's row in each status: a starting challenge can be delivered or
  recovered, an active one can be answered, a suppression has its reason, and no other status
  carries a challenge.\<close>

definition row_ok :: "sender_row \<Rightarrow> bool" where
  "row_ok r \<longleftrightarrow> 0 \<le> attempts r \<and> 0 \<le> revision r
   \<and> (status r \<in> {CHALLENGE_ISSUING, CHALLENGE_ARCHIVING, CHALLENGED} \<longrightarrow>
        challenge_id r \<noteq> None \<and> answer_digest r \<noteq> None \<and> challenge_expires_at r \<noteq> None
        \<and> challenge_profile r \<noteq> None)
   \<and> (status r \<in> CHALLENGE_STARTING_STATUSES \<longrightarrow> challenge_prompt r \<noteq> None)
   \<and> (status r \<in> {CHALLENGE_ARCHIVING, CHALLENGED} \<longrightarrow> challenge_message_id r \<noteq> None)
   \<and> (status r = SUPPRESSED \<longrightarrow> suppression_reason r \<noteq> None)
   \<and> (status r \<in> {UNKNOWN, PROVISIONAL, ALLOWED, QUARANTINED, SUPPRESSED} \<longrightarrow>
        challenge_id r = None \<and> answer_digest r = None \<and> challenge_expires_at r = None
        \<and> challenge_message_id r = None \<and> challenge_prompt r = None \<and> challenge_profile r = None)"

text \<open>What one operation may do to a row: the revision never falls, it rises when the sender
  becomes restricted, and the shape is kept.\<close>

definition row_step :: "sender_row option \<Rightarrow> sender_row option \<Rightarrow> bool" where
  "row_step old new \<longleftrightarrow> (case new of
      None \<Rightarrow> old = None
    | Some r' \<Rightarrow> (case old of
        None \<Rightarrow> row_ok r'
      | Some r \<Rightarrow> revision r \<le> revision r' \<and> (row_ok r \<longrightarrow> row_ok r')
          \<and> (restricted_row r' \<and> \<not> restricted_row r \<longrightarrow> revision r < revision r')))"

lemma row_step_refl [simp]: "row_step x x"
  by (cases x) (auto simp: row_step_def)

lemmas step_simps = row_step_def row_ok_def restricted_row_def status_sets set_state_row_def
  expired_suppression_def released_row_def

lemma sender_step_other_rows:
  "sender_step C k s s' \<Longrightarrow> j \<noteq> k \<Longrightarrow> map_of (sender_table s') j = map_of (sender_table s) j"
  by (induction rule: sender_step.induct)
    (auto simp: store_defs table_simps Let_def split_beta split: if_splits option.splits)

lemma sender_step_row:
  "sender_step C k s s' \<Longrightarrow> row_step (map_of (sender_table s) k) (map_of (sender_table s') k)"
  by (induction rule: sender_step.induct)
    (auto simp: store_defs table_simps step_simps Let_def split_beta split: if_splits option.splits)

subsection \<open>Tables\<close>

definition pending_for :: "sender_key \<Rightarrow> review_item \<Rightarrow> bool" where
  "pending_for k r \<longleftrightarrow> rv_sender r = k \<and> rv_status r = RevPending"

definition job_for :: "sender_key \<Rightarrow> pending_action \<Rightarrow> bool" where
  "job_for k a \<longleftrightarrow> act_sender a = k \<and> act_status a = ActPending"

definition reviews_ok :: "store \<Rightarrow> bool" where
  "reviews_ok s \<longleftrightarrow>
     ids_ok rv_id (review_queue s) (review_seq s) \<and> at_most_one pending_for (review_queue s)"

definition actions_ok :: "store \<Rightarrow> bool" where
  "actions_ok s \<longleftrightarrow>
     ids_ok act_id (pending_actions_table s) (action_seq s)
     \<and> at_most_one job_for (pending_actions_table s)"

definition keys_ok :: "store \<Rightarrow> bool" where
  "keys_ok s \<longleftrightarrow>
     distinct (keys_of (sender_table s)) \<and> distinct (keys_of (processed_messages s))
     \<and> distinct (keys_of (automated_messages s)) \<and> distinct (keys_of (dialog_snapshots s))
     \<and> distinct (keys_of (enforcement_reviews_table s)) \<and> distinct (keys_of (campaign_events s))
     \<and> distinct (keys_of (operator_artifacts s))"

definition rows_ok :: "store \<Rightarrow> bool" where
  "rows_ok s \<longleftrightarrow> (\<forall>k r. map_of (sender_table s) k = Some r \<longrightarrow> row_ok r)"

definition wf_store :: "store \<Rightarrow> bool" where
  "wf_store s \<longleftrightarrow> keys_ok s \<and> rows_ok s \<and> reviews_ok s \<and> actions_ok s"

lemma release_cases:
  obtains "\<not> fst (release_expired_suppression_row k ts s)"
      "snd (release_expired_suppression_row k ts s) = s"
  | senders where "fst (release_expired_suppression_row k ts s)"
      "snd (release_expired_suppression_row k ts s) =
        s\<lparr>sender_table := senders,
          pending_actions_table := update_where
            (\<lambda>a. act_sender a = k \<and> open_status (act_status a))
            (\<lambda>a. (cancel_action ts a)\<lparr>act_reference := []\<rparr>) (pending_actions_table s),
          enforcement_reviews_table := delete_row k (enforcement_reviews_table s),
          review_queue := delete_where (\<lambda>r. rv_sender r = k) (review_queue s),
          dialog_snapshots := delete_row k (dialog_snapshots s)\<rparr>"
proof -
  obtain b t where u: "update_row k (expired_suppression ts) (released_row ts) (sender_table s) = (b, t)"
    by fastforce
  show thesis
  proof (cases b)
    case True
    with u show ?thesis by (intro that(2)) (simp_all add: release_expired_suppression_row_def)
  next
    case False
    with u show ?thesis by (intro that(1)) (simp_all add: release_expired_suppression_row_def)
  qed
qed

lemma has_pending_review_iff: "has_pending_review k s \<longleftrightarrow> (\<exists>r \<in> set (review_queue s). pending_for k r)"
  by (auto simp: has_pending_review_def pending_for_def list_ex_iff)

lemma pending_review_None: "pending_review k s = None \<longleftrightarrow> \<not> has_pending_review k s"
  by (auto simp: pending_review_def has_pending_review_def find_None_iff list_ex_iff)

lemma reviews_ok_insert:
  assumes "reviews_ok s" and "\<not> has_pending_review k s"
  shows "reviews_ok (snd (insert_review k reference cl sg features expires_at ts s))"
  using assms unfolding reviews_ok_def
  by (auto simp: insert_review_def Let_def has_pending_review_iff pending_for_def
      intro!: ids_ok_snoc at_most_one_snoc)

lemma reviews_ok_enqueue:
  assumes "reviews_ok s"
  shows "reviews_ok (snd (enqueue_review k reference cl sg features expires_at ts s))"
proof (cases "pending_review k s")
  case None
  then have "\<not> has_pending_review k s" by (simp add: pending_review_None)
  with assms show ?thesis by (simp add: enqueue_review_def None reviews_ok_insert)
next
  case (Some p)
  with assms show ?thesis unfolding reviews_ok_def
    by (auto simp: enqueue_review_def Let_def pending_for_def intro!: table_intros)
qed

lemma reviews_ok_same:
  "review_queue s' = review_queue s \<Longrightarrow> review_seq s' = review_seq s \<Longrightarrow> reviews_ok s \<Longrightarrow> reviews_ok s'"
  by (simp add: reviews_ok_def)

lemma reviews_ok_delete:
  "reviews_ok s \<Longrightarrow> review_queue s' = delete_where P (review_queue s) \<Longrightarrow> review_seq s' = review_seq s
   \<Longrightarrow> reviews_ok s'"
  by (simp add: reviews_ok_def ids_ok_delete_where at_most_one_delete_where)

lemma reviews_ok_close:
  "reviews_ok s \<Longrightarrow> review_queue s' = update_where P (close_review st ts) (review_queue s)
   \<Longrightarrow> review_seq s' = review_seq s \<Longrightarrow> (\<And>r. P r \<Longrightarrow> rv_status r = RevPending) \<Longrightarrow> reviews_ok s'"
  unfolding reviews_ok_def
  by (auto simp: close_review_def pending_for_def intro!: ids_ok_update_where at_most_one_update_where)

lemma sender_step_reviews: "sender_step C k s s' \<Longrightarrow> reviews_ok s \<Longrightarrow> reviews_ok s'"
proof (induction rule: sender_step.induct)
  case (enqueue_review_step s review_reference cl sg features expires_at ts)
  then show ?case by (rule reviews_ok_enqueue)
next
  case (action_failure_step a s ts)
  then show ?case by (simp add: enqueue_action_failure_def reviews_ok_insert)
next
  case (release_step s ts)
  then show ?case unfolding release_expired_suppression_def
    by (cases rule: release_cases [of k ts s]) (auto elim: reviews_ok_delete)
next
  case (decide_sender_step s st ts)
  then show ?case
    by (auto simp: decide_sender_reviews_def Let_def elim: reviews_ok_close)
qed (simp_all add: store_defs reviews_ok_def Let_def split_beta)

lemma actions_ok_cancel:
  assumes "actions_ok s" and "action_seq s' = action_seq s"
    and "pending_actions_table s' = update_where P f (pending_actions_table s)"
    and "\<And>a. P a \<Longrightarrow> act_id (f a) = act_id a" and "\<And>a. P a \<Longrightarrow> act_status (f a) \<noteq> ActPending"
  shows "actions_ok s'"
  using assms(1) unfolding actions_ok_def assms(2,3)
  by (auto simp: job_for_def assms(4,5) intro!: ids_ok_update_where at_most_one_update_where)

lemma cancel_action_simps [simp]:
  "act_id (cancel_action ts a) = act_id a" "act_sender (cancel_action ts a) = act_sender a"
  "act_status (cancel_action ts a) = ActCancelled"
  "act_expected_revision (cancel_action ts a) = act_expected_revision a"
  by (simp_all add: cancel_action_def)

text \<open>Cancelling or releasing the open jobs of one sender.\<close>

lemmas actions_ok_resolve =
  actions_ok_cancel [where P = "\<lambda>a. act_sender a = k \<and> open_status (act_status a)"
    and f = "cancel_action ts" for k ts]

lemmas actions_ok_release =
  actions_ok_cancel [where P = "\<lambda>a. act_sender a = k \<and> open_status (act_status a)"
    and f = "\<lambda>a. (cancel_action ts a)\<lparr>act_reference := []\<rparr>" for k ts]

lemma actions_ok_same:
  "pending_actions_table s' = pending_actions_table s \<Longrightarrow> action_seq s' = action_seq s
   \<Longrightarrow> actions_ok s \<Longrightarrow> actions_ok s'"
  by (simp add: actions_ok_def)

lemma actions_ok_schedule:
  assumes "actions_ok s"
  shows "actions_ok (snd (schedule_action k reason reference at expected independent ts s))"
proof -
  let ?P = "\<lambda>a. act_sender a = k \<and> act_status a = ActPending"
  let ?rs = "update_where ?P (cancel_action ts) (pending_actions_table s)"
  have ids: "ids_ok act_id ?rs (action_seq s)" and one: "at_most_one job_for ?rs"
    using assms by (auto simp: actions_ok_def job_for_def
        intro!: ids_ok_update_where at_most_one_update_where)
  have none: "\<not> job_for k x" if "x \<in> set ?rs" for x
  proof -
    from that have "x \<in> (\<lambda>a. if ?P a then cancel_action ts a else a) ` set (pending_actions_table s)"
      by (simp add: set_update_where)
    then obtain a where x: "x = (if ?P a then cancel_action ts a else a)" by blast
    show ?thesis by (cases "?P a") (auto simp: x job_for_def)
  qed
  let ?a = "\<lparr>act_id = action_seq s + 1, act_sender = k, act_reason = reason,
    act_reference = reference, act_execute_at = at, act_expected_revision = expected,
    act_mode_independent = independent, act_status = ActPending, act_created_at = ts,
    act_finished_at = None\<rparr>"
  have "ids_ok act_id (?rs @ [?a]) (action_seq s + 1)"
    using ids by (rule ids_ok_snoc) simp
  moreover have "at_most_one job_for (?rs @ [?a])"
    by (rule at_most_one_snoc [OF one]) (use none in \<open>auto simp: job_for_def\<close>)
  ultimately show ?thesis by (simp add: schedule_action_def actions_ok_def Let_def)
qed

lemma sender_step_actions: "sender_step C k s s' \<Longrightarrow> actions_ok s \<Longrightarrow> actions_ok s'"
proof (induction rule: sender_step.induct)
  case (schedule_action_step s reason action_reference at expected independent ts)
  from schedule_action_step(2) show ?case by (rule actions_ok_schedule)
next
  case (allow_step s ts)
  from allow_step(2) show ?case by (rule actions_ok_resolve) (simp_all add: store_defs Let_def)
next
  case (revoke_step s ts)
  then show ?case by (rule actions_ok_resolve) (simp_all add: store_defs Let_def)
next
  case (release_step s ts)
  then show ?case unfolding release_expired_suppression_def
    by (cases rule: release_cases [of k ts s]) (auto elim: actions_ok_release)
next
  case (decide_sender_step s st ts)
  show ?case
  proof (cases "st \<in> REVIEW_DECISIONS")
    case True
    show ?thesis
      by (rule actions_ok_resolve [OF decide_sender_step])
        (insert True, simp_all add: decide_sender_reviews_def Let_def)
  next
    case False
    with decide_sender_step show ?thesis by (simp add: decide_sender_reviews_def)
  qed
qed (simp_all add: store_defs actions_ok_def Let_def split_beta split: option.splits)

lemma distinct_keys_delete_where [table_simps]:
  "distinct (keys_of t) \<Longrightarrow> distinct (keys_of (delete_where P t))"
  by (auto simp: keys_of_def delete_where_def distinct_map_filter)

lemma sender_step_keys: "sender_step C k s s' \<Longrightarrow> keys_ok s \<Longrightarrow> keys_ok s'"
  by (induction rule: sender_step.induct)
    (auto simp: store_defs table_simps keys_ok_def Let_def split_beta split: if_splits option.splits)

lemma sender_step_rows:
  assumes "sender_step C k s s'" and "rows_ok s"
  shows "rows_ok s'"
  unfolding rows_ok_def
proof (intro allI impI)
  fix j r assume r: "map_of (sender_table s') j = Some r"
  show "row_ok r"
  proof (cases "j = k")
    case True
    with sender_step_row [OF assms(1)] r assms(2) show ?thesis
      by (auto simp: row_step_def rows_ok_def split: option.splits)
  next
    case False
    with sender_step_other_rows [OF assms(1)] r assms(2) show ?thesis by (simp add: rows_ok_def)
  qed
qed

lemma sender_step_wf: "sender_step C k s s' \<Longrightarrow> wf_store s \<Longrightarrow> wf_store s'"
  by (simp add: wf_store_def sender_step_keys sender_step_rows sender_step_reviews
      sender_step_actions)

end
