(* ===== verification/Store_Invariants.thy ===== *)
theory Store_Invariants
  imports Store_Steps
begin

text \<open>
  The invariants of the state database over every operation: \<open>wf_store\<close> is kept by \<open>store_step\<close>,
  and a deletion job whose sender has moved on can never be claimed again.
\<close>

subsection \<open>Well-formedness\<close>

lemma erase_sender_rows_wf: "wf_store s \<Longrightarrow> wf_store (erase_sender_rows k s)"
  by (auto simp: wf_store_def erase_sender_rows_def keys_ok_def rows_ok_def reviews_ok_def
      actions_ok_def table_simps intro!: ids_ok_delete_where at_most_one_delete_where
      split: if_splits)

lemma erase_all_wf: "wf_store s \<Longrightarrow> wf_store (erase_all ks s)"
  by (induction ks arbitrary: s) (simp_all add: erase_sender_rows_wf)

lemma release_row_step: "sender_step C k s (snd (release_expired_suppression_row k ts s))"
  using release_step [of C k s ts] by (simp add: release_expired_suppression_def)

lemma release_all_wf: "wf_store s \<Longrightarrow> wf_store (snd (release_all ks ts s))"
proof (induction ks arbitrary: s)
  case (Cons k ks)
  from sender_step_wf [OF release_row_step Cons.prems]
  show ?case by (auto simp: split_beta Let_def intro: Cons.IH)
qed simp

lemma prune_rows_wf: "wf_store s \<Longrightarrow> wf_store (prune_rows cutoff ts s)"
  unfolding wf_store_def prune_rows_def keys_ok_def rows_ok_def reviews_ok_def actions_ok_def
  by (simp add: table_simps ids_ok_delete_where at_most_one_delete_where)

lemma wf_store_settings:
  "wf_store s \<Longrightarrow> wf_store (s\<lparr>maintenance_setting := a, last_maintenance := b\<rparr>)"
  "wf_store s \<Longrightarrow> wf_store (s\<lparr>heartbeat_setting := h\<rparr>)"
  "wf_store s \<Longrightarrow> wf_store (s\<lparr>mode_setting := m\<rparr>)"
  by (simp_all add: wf_store_def keys_ok_def rows_ok_def reviews_ok_def actions_ok_def)

lemma prune_wf: "wf_store s \<Longrightarrow> wf_store (snd (prune days ts archived lifecycle s))"
  by (cases archived)
    (simp_all add: prune_def Let_def split_beta wf_store_settings(1) erase_all_wf prune_rows_wf
      release_all_wf)

lemma queue_cancelled_wf: "wf_store s \<Longrightarrow> wf_store (queue_cancelled ts items s)"
proof (induction items arbitrary: s)
  case (Cons a items)
  show ?case
  proof (cases "has_pending_review (act_sender a) s")
    case True
    with Cons show ?thesis by simp
  next
    case False
    let ?s = "snd (insert_review (act_sender a) (Some (act_reference a))
       (''cancelled_'' @ act_reason a) ''[]'' ''{}''
       (ts + pending_review_retention_days s * 86400) ts s)"
    have "reviews_ok ?s" using Cons.prems False by (simp add: wf_store_def reviews_ok_insert)
    moreover have "keys_ok ?s \<and> rows_ok ?s \<and> actions_ok ?s" using Cons.prems
      by (simp add: wf_store_def insert_review_def Let_def keys_ok_def rows_ok_def actions_ok_def)
    ultimately have "wf_store ?s" by (simp add: wf_store_def)
    with False show ?thesis by (simp add: Cons.IH)
  qed
qed simp

lemma set_mode_wf:
  assumes "wf_store s"
  shows "wf_store (set_mode m ts s)"
proof -
  let ?s = "s\<lparr>mode_setting := map_option (\<lambda>_. m) (mode_setting s)\<rparr>"
  let ?t = "?s\<lparr>pending_actions_table :=
      update_where mode_bound_pending (cancel_action ts) (pending_actions_table ?s)\<rparr>"
  have "wf_store ?s" using assms by (rule wf_store_settings)
  moreover have "actions_ok ?t"
    by (rule actions_ok_cancel [where s = s and P = mode_bound_pending and f = "cancel_action ts"])
      (use assms in \<open>simp_all add: wf_store_def\<close>)
  ultimately have "wf_store ?t"
    by (simp add: wf_store_def keys_ok_def rows_ok_def reviews_ok_def)
  with \<open>wf_store ?s\<close> show ?thesis
    by (cases "m = Monitor") (simp_all add: set_mode_def Let_def queue_cancelled_wf)
qed

lemma finish_action_wf:
  assumes "wf_store s"
  shows "wf_store (snd (finish_action i st ts s))"
proof (cases "st \<in> FINISHED_ACTION_STATUSES")
  case False
  with assms show ?thesis by (simp add: finish_action_def)
next
  case True
  let ?P = "\<lambda>a. act_id a = i \<and> act_status a = ActPending"
  let ?f = "\<lambda>a. if st = ActCompleted
     then a\<lparr>act_status := st, act_finished_at := Some ts, act_reference := []\<rparr>
     else a\<lparr>act_status := st, act_finished_at := Some ts\<rparr>"
  have "actions_ok (s\<lparr>pending_actions_table := update_where ?P ?f (pending_actions_table s)\<rparr>)"
    by (rule actions_ok_cancel [where s = s and P = ?P and f = ?f])
      (use assms True in \<open>auto simp: wf_store_def FINISHED_ACTION_STATUSES_def\<close>)
  with True assms show ?thesis
    by (simp add: finish_action_def Let_def wf_store_def keys_ok_def rows_ok_def reviews_ok_def)
qed

lemma decide_review_wf:
  assumes "wf_store s"
  shows "wf_store (snd (decide_review i st ts s))"
proof (cases "st \<in> REVIEW_DECISIONS")
  case False
  with assms show ?thesis by (simp add: decide_review_def)
next
  case True
  let ?P = "\<lambda>r. rv_id r = i \<and> rv_status r = RevPending"
  have "reviews_ok (s\<lparr>review_queue := update_where ?P (close_review st ts) (review_queue s)\<rparr>)"
    by (rule reviews_ok_close [where s = s and P = ?P and st = st and ts = ts])
      (use assms in \<open>simp_all add: wf_store_def\<close>)
  with True assms show ?thesis
    by (simp add: decide_review_def Let_def wf_store_def keys_ok_def rows_ok_def actions_ok_def)
qed

lemma distinct_keys_foldl:
  "(\<And>t m. distinct (keys_of t) \<Longrightarrow> distinct (keys_of (f t m))) \<Longrightarrow> distinct (keys_of t)
   \<Longrightarrow> distinct (keys_of (foldl f t ms))"
  by (induction ms arbitrary: t) simp_all

lemma wf_store_artifacts:
  "wf_store s \<Longrightarrow> distinct (keys_of t) \<Longrightarrow> wf_store (s\<lparr>operator_artifacts := t\<rparr>)"
  by (simp add: wf_store_def keys_ok_def rows_ok_def reviews_ok_def actions_ok_def)

lemma wf_store_artifact_keys: "wf_store s \<Longrightarrow> distinct (keys_of (operator_artifacts s))"
  by (simp add: wf_store_def keys_ok_def)

lemma store_step_wf: "store_step s s' \<Longrightarrow> wf_store s \<Longrightarrow> wf_store s'"
proof (induction rule: store_step.induct)
  case (by_sender k s s')
  then show ?case by (rule sender_step_wf)
next
  case (by_forget s k before)
  then show ?case
    by (auto simp: forget_restriction_def erase_sender_rows_wf split: option.splits)
qed (auto simp: finish_action_wf decide_review_wf set_mode_wf prune_wf heartbeat_def
    wf_store_settings schedule_operator_artifacts_def complete_operator_artifacts_def
    retry_operator_artifacts_def Let_def table_simps
    intro!: wf_store_artifacts distinct_keys_foldl wf_store_artifact_keys)

lemma empty_store_wf: "wf_store (empty_store days)"
  by (simp add: wf_store_def empty_store_def keys_ok_def rows_ok_def reviews_ok_def actions_ok_def
      ids_ok_Nil at_most_one_Nil keys_of_Nil)

lemma reachable_wf: "store_step\<^sup>*\<^sup>* s s' \<Longrightarrow> wf_store s \<Longrightarrow> wf_store s'"
  by (induction rule: rtranclp_induct) (auto intro: store_step_wf)

subsection \<open>Jobs whose sender has moved on\<close>

text \<open>A job is outdated when its sender's row is past the expected revision, or has that revision
  and is no longer restricted.\<close>

definition outdated :: "pending_action \<Rightarrow> store \<Rightarrow> bool" where
  "outdated a s \<longleftrightarrow> (case map_of (sender_table s) (act_sender a) of
      None \<Rightarrow> False
    | Some r \<Rightarrow> act_expected_revision a < revision r
               \<or> act_expected_revision a = revision r \<and> \<not> restricted_row r)"

text \<open>Every open job of the later store with an old id is a job of the earlier one, and stays
  outdated.\<close>

definition jobs_from :: "store \<Rightarrow> store \<Rightarrow> bool" where
  "jobs_from s s' \<longleftrightarrow> action_seq s \<le> action_seq s' \<and>
     (\<forall>a \<in> set (pending_actions_table s'). act_status a = ActPending \<and> act_id a \<le> action_seq s \<longrightarrow>
        a \<in> set (pending_actions_table s) \<and> (outdated a s \<longrightarrow> outdated a s'))"

lemma jobs_from_refl [simp]: "jobs_from s s"
  by (simp add: jobs_from_def)

lemma jobs_from_trans: "jobs_from s t \<Longrightarrow> jobs_from t u \<Longrightarrow> jobs_from s u"
  unfolding jobs_from_def by (meson order_trans)

lemma jobs_from_same_rows:
  assumes "sender_table s' = sender_table s" and "action_seq s' = action_seq s"
    and "\<And>a. a \<in> set (pending_actions_table s') \<Longrightarrow> act_status a = ActPending
           \<Longrightarrow> a \<in> set (pending_actions_table s)"
  shows "jobs_from s s'"
  using assms by (auto simp: jobs_from_def outdated_def)

lemma pending_update_where:
  "a \<in> set (update_where P f rs) \<Longrightarrow> act_status a = ActPending
   \<Longrightarrow> (\<And>x. P x \<Longrightarrow> act_status (f x) \<noteq> ActPending) \<Longrightarrow> a \<in> set rs"
  by (auto simp: set_update_where split: if_splits)

lemma outdated_step:
  assumes "sender_step C k s s'" and "outdated a s"
  shows "outdated a s'"
proof (cases "act_sender a = k")
  case True
  with assms sender_step_row [OF assms(1)] show ?thesis
    by (fastforce simp: outdated_def row_step_def split: option.splits)
next
  case False
  with assms sender_step_other_rows [OF assms(1)] show ?thesis by (simp add: outdated_def)
qed

lemma sender_step_pending:
  "sender_step C k s s' \<Longrightarrow> action_seq s \<le> action_seq s' \<and>
     (\<forall>a \<in> set (pending_actions_table s'). act_status a = ActPending \<and> act_id a \<le> action_seq s
        \<longrightarrow> a \<in> set (pending_actions_table s))"
proof (induction rule: sender_step.induct)
  case (schedule_action_step s reason action_reference at expected independent ts)
  show ?case
    by (auto simp: schedule_action_def Let_def dest: pending_update_where)
next
  case (release_step s ts)
  show ?case unfolding release_expired_suppression_def
    by (cases rule: release_cases [of k ts s]) (auto dest: pending_update_where)
next
  case (allow_step s ts)
  show ?case by (auto simp: store_defs Let_def dest: pending_update_where)
next
  case (revoke_step s ts)
  show ?case by (auto simp: store_defs Let_def dest: pending_update_where)
next
  case (decide_sender_step s st ts)
  show ?case by (auto simp: store_defs Let_def dest: pending_update_where)
qed (simp_all add: store_defs Let_def split_beta split: option.splits)

lemma sender_step_jobs: "sender_step C k s s' \<Longrightarrow> jobs_from s s'"
  using sender_step_pending outdated_step by (simp add: jobs_from_def)

lemma erase_jobs: "jobs_from s (erase_sender_rows k s)"
  by (auto simp: jobs_from_def erase_sender_rows_def outdated_def table_simps)

lemma erase_all_jobs: "jobs_from s (erase_all ks s)"
proof (induction ks arbitrary: s)
  case (Cons k ks)
  then show ?case by (auto intro: jobs_from_trans erase_jobs)
qed simp

lemma release_all_jobs: "jobs_from s (snd (release_all ks ts s))"
proof (induction ks arbitrary: s)
  case (Cons k ks)
  have "jobs_from s (snd (release_expired_suppression_row k ts s))"
    by (rule sender_step_jobs) (rule release_row_step)
  then show ?case by (auto simp: split_beta Let_def intro: jobs_from_trans Cons.IH)
qed simp

lemma prune_rows_jobs: "jobs_from s (prune_rows cutoff ts s)"
  by (rule jobs_from_same_rows) (auto simp: prune_rows_def table_simps)

lemma jobs_from_settings:
  "jobs_from s t \<Longrightarrow> jobs_from s (t\<lparr>maintenance_setting := a, last_maintenance := b\<rparr>)"
  by (simp add: jobs_from_def outdated_def)

lemma prune_jobs: "jobs_from s (snd (prune days ts archived lifecycle s))"
proof -
  have "jobs_from s (erase_all ks (prune_rows c ts (snd (release_all js ts s))))" for ks c js
    by (meson erase_all_jobs prune_rows_jobs release_all_jobs jobs_from_trans)
  from this this [where ks = "[]"] show ?thesis
    by (cases archived) (simp_all add: prune_def Let_def split_beta jobs_from_settings)
qed

lemma queue_cancelled_same:
  "sender_table (queue_cancelled ts items s) = sender_table s"
  "pending_actions_table (queue_cancelled ts items s) = pending_actions_table s"
  "action_seq (queue_cancelled ts items s) = action_seq s"
  "mode_setting (queue_cancelled ts items s) = mode_setting s"
  by (induction items arbitrary: s) (simp_all add: insert_review_def Let_def)

lemma set_mode_jobs: "jobs_from s (set_mode m ts s)"
  by (rule jobs_from_same_rows)
    (auto simp: set_mode_def Let_def queue_cancelled_same dest: pending_update_where split: if_splits)

lemma finish_action_jobs: "jobs_from s (snd (finish_action i st ts s))"
proof (cases "st \<in> FINISHED_ACTION_STATUSES")
  case True
  then have "st \<noteq> ActPending" by (auto simp: FINISHED_ACTION_STATUSES_def)
  with True show ?thesis
    by (intro jobs_from_same_rows) (auto simp: finish_action_def Let_def dest: pending_update_where
        split: if_splits)
qed (simp add: finish_action_def)

lemma store_step_jobs: "store_step s s' \<Longrightarrow> jobs_from s s'"
proof (induction rule: store_step.induct)
  case (by_sender k s s')
  then show ?case by (rule sender_step_jobs)
next
  case (by_forget s k before)
  show ?case by (auto simp: forget_restriction_def erase_jobs split: option.splits)
next
  case (by_prune s days ts archived lifecycle)
  show ?case by (rule prune_jobs)
next
  case (by_set_mode s m ts)
  show ?case by (rule set_mode_jobs)
next
  case (by_finish_action s i st ts)
  show ?case by (rule finish_action_jobs)
qed (auto simp: jobs_from_def outdated_def decide_review_def heartbeat_def Let_def
    schedule_operator_artifacts_def complete_operator_artifacts_def retry_operator_artifacts_def)

lemma reachable_jobs: "store_step\<^sup>*\<^sup>* s s' \<Longrightarrow> jobs_from s s'"
  by (induction rule: rtranclp_induct) (auto intro: store_step_jobs jobs_from_trans)

lemma sender_Some: "map_of (sender_table s) k = Some r \<Longrightarrow> sender k s = sender_state.truncate r"
  by (simp add: sender_def)

lemma truncate_simps [simp]:
  "status (sender_state.truncate r) = status r" "revision (sender_state.truncate r) = revision r"
  "suppressed_until (sender_state.truncate r) = suppressed_until r"
  "updated_at (sender_state.truncate r) = updated_at r"
  "challenge_expires_at (sender_state.truncate r) = challenge_expires_at r"
  "challenge_profile (sender_state.truncate r) = challenge_profile r"
  "challenge_id (sender_state.truncate r) = challenge_id r"
  "answer_digest (sender_state.truncate r) = answer_digest r"
  "challenge_message_id (sender_state.truncate r) = challenge_message_id r"
  "challenge_prompt (sender_state.truncate r) = challenge_prompt r"
  "challenge_action_reference (sender_state.truncate r) = challenge_action_reference r"
  "restriction_reference (sender_state.truncate r) = restriction_reference r"
  "guidance_sent (sender_state.truncate r) = guidance_sent r"
  "attempts (sender_state.truncate r) = attempts r"
  "suppression_reason (sender_state.truncate r) = suppression_reason r"
  by (simp_all add: sender_state.truncate_def)

lemma find_pending_Some:
  assumes "find_pending i s = Some a"
  shows "a \<in> set (pending_actions_table s)" "act_id a = i" "act_status a = ActPending"
  using assms by (auto simp: find_pending_def find_Some_iff)

lemma claim_outdated:
  assumes "find_pending i s = Some a" and "outdated a s"
  shows "claim_action i ts s = None"
  using assms by (auto simp: claim_action_def outdated_def sender_def restricted_row_def Let_def
      status_sets split: option.splits)

lemma outdated_never_claimed:
  assumes "store_step\<^sup>*\<^sup>* s s'" and "wf_store s" and "find_pending i s = Some a" and "outdated a s"
  shows "claim_action i ts s' = None"
proof (cases "find_pending i s'")
  case None
  then show ?thesis by (simp add: claim_action_def)
next
  case (Some b)
  note a = find_pending_Some [OF assms(3)] and b = find_pending_Some [OF Some]
  from assms(2) a have "i \<le> action_seq s" by (auto simp: wf_store_def actions_ok_def ids_ok_def)
  with reachable_jobs [OF assms(1)] b
  have mem: "b \<in> set (pending_actions_table s)" and out: "outdated b s \<longrightarrow> outdated b s'"
    by (auto simp: jobs_from_def)
  from assms(2) have "distinct (map act_id (pending_actions_table s))"
    by (simp add: wf_store_def actions_ok_def ids_ok_def)
  with mem a b have "b = a" by (auto simp: distinct_map inj_on_def)
  with out assms(4) Some show ?thesis by (auto intro: claim_outdated)
qed

end
