(* ===== verification/Service_Contract.thy ===== *)
theory Service_Contract
  imports Adapter_Workers Store_Invariants
begin

text \<open>
  The contract between the service and its two collaborators. \<open>sender_contract\<close> asks for a
  preorder \<open>R\<close> on stores that contains the steps of one sender, and for an implementation \<open>A\<close> of
  \<open>MessageActions\<close> that moves the store along \<open>R\<close>; then every program of the service does. It is
  interpreted for \<open>telegram_actions\<close> and the reflexive transitive closure of \<open>sender_step\<close>: the
  whole handler refines the state machine of \<open>Store_Steps\<close>.
\<close>

text \<open>A reply that counts as an answer: in time, and not from before the prompt. The right one
  needs the capability to verify, a wrong one that of using up an attempt.\<close>

definition answers :: "gatekeeper \<Rightarrow> sender_state \<Rightarrow> incoming_message \<Rightarrow> ustring \<Rightarrow> bool" where
  "answers g state m answer \<longleftrightarrow>
     \<not> late_reply state m \<and> \<not> before_prompt state m
     \<and> canonical_answer (gk_unicode g) (m_text m) = Inr (Some answer)"

text \<open>The grounds on which a message makes its sender trusted.\<close>

definition trusted_message :: "incoming_message \<Rightarrow> bool" where
  "trusted_message m \<longleftrightarrow>
     m_is_service m \<or> m_is_bot m \<or> m_is_contact m \<or> m_has_trusted_history m"

locale sender_contract = store_relation R
  for R :: "store \<Rightarrow> store \<Rightarrow> bool" +
  fixes C :: "capability set" and k :: sender_key and A :: actions
  assumes step: "sender_step C k s s' \<Longrightarrow> R s s'"
    and send_text_keeps: "keeps R (send_text A t reply_to formatting)"
    and archive_keeps: "keeps R (archive_and_mute A)"
    and restore_keeps: "keeps R (restore_from_pending A)"
    and delete_message_keeps: "keeps R (delete_message A i)"
    and schedule_timeout_keeps: "keeps R (schedule_timeout A j at grace)"
    and cancel_timeout_keeps: "keeps R (cancel_timeout A j)"
    and schedule_test_deletion_keeps: "keeps R (schedule_test_message_deletion A j since at)"
    and schedule_verification_deletion_keeps:
      "keeps R (schedule_verification_message_deletion A j ids at)"
    and schedule_dialog_deletion_keeps: "keeps R (schedule_dialog_deletion A i at)"
    and schedule_reset_keeps: "keeps R (schedule_test_state_reset A j seen at)"
begin

lemma keeps_change_step: "(\<And>s. sender_step C k s (f s)) \<Longrightarrow> keeps R (change f)"
  by (rule keeps_change) (rule step)

lemma keeps_transact_step: "(\<And>s. sender_step C k s (snd (f s))) \<Longrightarrow> keeps R (transact f)"
  by (rule keeps_transact) (rule step)

lemma keeps_transact_exn_step: "(\<And>s. sender_step C k s (snd (f s))) \<Longrightarrow> keeps R (transact_exn f)"
  by (rule keeps_transact_exn) (rule step)

lemma keeps_need: "keeps R (need e x)"
  by (cases x) (simp_all add: need_def keeps_raise keeps_ret)

lemma keeps_need_sum: "keeps R (need_sum x)"
  by (cases x) (simp_all add: need_sum_def keeps_raise keeps_ret)

lemma keeps_attempt: "keeps R m \<Longrightarrow> keeps R (attempt m)"
  by (simp add: keeps_iff attempt_def)

lemmas keeps_step =
  keeps_change_step [OF audit_step] keeps_change_step [OF finish_message_step]
  keeps_change_step [OF revoke_step] keeps_change_step [OF quarantine_step]
  keeps_change_step [OF begin_challenge_issue_step] keeps_change_step [OF record_automated_step]
  keeps_change_step [OF record_link_step] keeps_change_step [OF save_review_step]
  keeps_change_step [OF record_decision_step]
  keeps_transact_step [OF claim_message_step]
  keeps_transact_step [OF delete_enforcement_review_step]
  keeps_transact_step [OF activate_review_step]
  keeps_transact_step [OF enqueue_review_step] keeps_transact_step [OF release_step]
  keeps_transact_step [OF reset_test_sender_step] keeps_transact_step [OF observe_campaign_step]
  keeps_transact_step [OF expire_challenge_step]
  keeps_transact_step [OF mark_guidance_step] keeps_transact_step [OF refresh_expiry_step]
  keeps_transact_step [OF bind_challenge_message_step]
  keeps_transact_step [OF activate_challenge_step]
  keeps_transact_step [OF reset_incomplete_challenge_step]
  keeps_transact_exn_step [OF claim_slot_step]

lemma keeps_allow: "Trust \<in> C \<Longrightarrow> keeps R (change (allow k ts))"
  by (rule keeps_change_step) (rule allow_step)

lemma keeps_mark_provisional: "Verify \<in> C \<Longrightarrow> keeps R (change (mark_provisional k ts))"
  by (rule keeps_change_step) (rule mark_provisional_step)

lemma keeps_increment: "Attempt \<in> C \<Longrightarrow> keeps R (transact (increment_attempts k ts))"
  by (rule keeps_transact_step) (rule increment_attempts_step)

lemma keeps_schedule_action:
  "Delete \<in> C \<Longrightarrow> keeps R (transact (schedule_action k reason reference at expected independent ts))"
  by (rule keeps_transact_step) (rule schedule_action_step)

lemma keeps_suppress:
  "until \<noteq> None \<or> Destroy \<in> C
   \<Longrightarrow> keeps R (transact (suppress k reason until reference restriction ts))"
  by (rule keeps_transact_step) (rule suppress_step)

lemmas keeps_rules =
  keeps_control keeps_step keeps_need keeps_need_sum keeps_attempt send_text_keeps archive_keeps
  restore_keeps delete_message_keeps schedule_timeout_keeps cancel_timeout_keeps
  schedule_test_deletion_keeps schedule_verification_deletion_keeps
  schedule_dialog_deletion_keeps schedule_reset_keeps

lemma restriction_reference_keeps: "keeps R (restriction_reference_for g reference)"
  unfolding restriction_reference_for_def by (intro keeps_rules)

lemma capture_keeps: "keeps R (capture_enforcement_review g k m reason d now)"
  unfolding capture_enforcement_review_def by (intro keeps_rules)

lemma activate_keeps: "keeps R (activate_review g k reason reference now)"
  unfolding activate_review_def by (intro keeps_rules)

lemma record_screening_keeps: "keeps R (record_screening k d actual now)"
  unfolding record_screening_def by (intro keeps_rules)

lemma queue_review_keeps: "keeps R (queue_review g k m classification signals now)"
  unfolding queue_review_def by (intro keeps_rules)

lemma claim_slot_keeps: "keeps R (claim_slot g k category now)"
  unfolding claim_slot_def by (intro keeps_rules)

lemma send_notice_keeps: "keeps R (send_notice g A k t reply_to formatting now)"
  unfolding send_notice_def by (intro keeps_rules claim_slot_keeps)

lemma guidance_keeps: "keeps R (send_guidance_once g A k state t formatting now)"
  unfolding send_guidance_once_def by (intro keeps_rules send_notice_keeps)

lemma restore_tries_keeps: "keeps R (restore_tries A n)"
  by (induction n) (auto intro!: keeps_rules)

lemma restore_with_retry_keeps: "keeps R (restore_with_retry A)"
  by (simp add: restore_with_retry_def restore_tries_keeps)

lemma quarantine_sender_keeps: "keeps R (quarantine_sender g k reference now)"
  unfolding quarantine_sender_def by (intro keeps_rules restriction_reference_keeps)

lemmas keeps_parts =
  keeps_rules restriction_reference_keeps capture_keeps activate_keeps record_screening_keeps
  queue_review_keeps claim_slot_keeps send_notice_keeps guidance_keeps restore_with_retry_keeps
  quarantine_sender_keeps

lemma finalize_keeps: "Delete \<in> C \<Longrightarrow> keeps R (finalize_timeout_failure g A k state fallback now)"
  unfolding finalize_timeout_failure_def by (intro keeps_parts keeps_schedule_action)

lemma rate_limit_keeps: "keeps R (rate_limit_fallback g A k m now)"
  unfolding rate_limit_fallback_def by (intro keeps_parts)

lemma permanent_keeps:
  "Delete \<in> C \<Longrightarrow> Destroy \<in> C \<Longrightarrow> keeps R (schedule_permanent_suppression g A k m now)"
  unfolding schedule_permanent_suppression_def
  by (intro keeps_parts keeps_schedule_action keeps_suppress) simp_all

lemma suppressed_delete_keeps:
  "Delete \<in> C \<Longrightarrow> keeps R (schedule_suppressed_delete A k state m now)"
  unfolding schedule_suppressed_delete_def by (intro keeps_parts keeps_schedule_action)

lemma roll_back_keeps: "keeps R (roll_back_delivery A k confirmed i now)"
  unfolding roll_back_delivery_def by (intro keeps_parts)

lemma withdraw_keeps: "keeps R (withdraw_challenge A k i cancel rule_code result now)"
  unfolding withdraw_challenge_def by (intro keeps_parts)

lemma bind_sent_keeps: "keeps R (bind_sent_challenge g A k i now)"
  unfolding bind_sent_challenge_def by (intro keeps_parts withdraw_keeps)

lemma activate_sent_keeps: "keeps R (activate_sent_challenge A k i now)"
  unfolding activate_sent_challenge_def by (intro keeps_parts)

lemma deliver_keeps: "keeps R (deliver_challenge g A k prompt now)"
  unfolding deliver_challenge_def
  by (intro keeps_parts roll_back_keeps bind_sent_keeps activate_sent_keeps)

lemma issue_keeps: "keeps R (issue_challenge g A k m d now)"
  unfolding issue_challenge_def by (intro keeps_parts rate_limit_keeps deliver_keeps)

lemma expire_late_keeps: "Delete \<in> C \<Longrightarrow> keeps R (expire_late_reply g A k state m now)"
  unfolding expire_late_reply_def by (intro keeps_parts finalize_keeps)

lemma ignore_keeps: "keeps R (ignore_with_guidance g A k state t rule_code now)"
  unfolding ignore_with_guidance_def by (intro keeps_parts)

lemma accept_keeps: "Verify \<in> C \<Longrightarrow> keeps R (accept_correct_answer g A k state m now)"
  unfolding accept_correct_answer_def by (intro keeps_parts keeps_mark_provisional)

lemma exhausted_keeps: "Delete \<in> C \<Longrightarrow> keeps R (fail_exhausted_attempts g A k state m now)"
  unfolding fail_exhausted_attempts_def
  by (intro keeps_parts keeps_schedule_action keeps_suppress) simp_all

lemma reject_keeps: "keeps R (reject_incorrect_answer g A k state remaining now)"
  unfolding reject_incorrect_answer_def by (intro keeps_parts)

lemma handle_challenge_keeps:
  assumes "Delete \<in> C"
    and "\<And>a. answers g state m a \<Longrightarrow> answer_matches g k state a \<Longrightarrow> Verify \<in> C"
    and "\<And>a. answers g state m a \<Longrightarrow> \<not> answer_matches g k state a \<Longrightarrow> Attempt \<in> C"
  shows "keeps R (handle_challenge g A k state m now)"
proof (cases "late_reply state m \<or> before_prompt state m")
  case True
  with assms(1) show ?thesis
    unfolding handle_challenge_def by (auto intro!: keeps_parts expire_late_keeps)
next
  case False
  then have replies: "answers g state m a \<longleftrightarrow> canonical_answer (gk_unicode g) (m_text m) = Inr (Some a)" for a
    by (simp add: answers_def)
  show ?thesis
  proof (cases "canonical_answer (gk_unicode g) (m_text m)")
    case (Inl e)
    with False show ?thesis
      by (simp add: handle_challenge_def need_sum_def keeps_raise)
  next
    case (Inr canonical)
    show ?thesis
    proof (cases canonical)
      case None
      with Inr False show ?thesis
        by (simp add: handle_challenge_def need_sum_def ignore_keeps)
    next
      case (Some a)
      with Inr False assms(1) replies assms(2,3) [of a] show ?thesis
        unfolding handle_challenge_def
        by (auto simp: need_sum_def
            intro!: keeps_parts keeps_increment accept_keeps exhausted_keeps reject_keeps)
    qed
  qed
qed

lemma audit_signals_R: "R s (audit_signals k xs now s)"
proof (induction xs arbitrary: s)
  case Nil
  then show ?case by (simp add: R_refl)
next
  case (Cons x xs)
  have "R s (audit k (sig_code x) ''matched'' now s)" by (rule step) (rule audit_step)
  then show ?case unfolding audit_signals.simps by (rule R_trans) (rule Cons.IH)
qed

lemma suppress_permanently_keeps:
  "Delete \<in> C \<Longrightarrow> Destroy \<in> C \<Longrightarrow> keeps R (suppress_permanently g A k m d now)"
  unfolding suppress_permanently_def
  by (intro keeps_parts keeps_change [OF audit_signals_R] permanent_keeps)

lemma challenge_sender_keeps: "keeps R (challenge_sender g A k m d now)"
  unfolding challenge_sender_def by (intro keeps_parts issue_keeps)

lemma evidence_keeps: "keeps R (evidence_signals g k m is_test now)"
  unfolding evidence_signals_def by (intro keeps_parts)

lemma screen_keeps:
  assumes "Delete \<in> C"
    and "\<not> is_test_key g k \<Longrightarrow> Destroy \<in> C"
    and "\<And>a. status state = CHALLENGED \<Longrightarrow> answers g state m a \<Longrightarrow> answer_matches g k state a
           \<Longrightarrow> Verify \<in> C"
    and "\<And>a. status state = CHALLENGED \<Longrightarrow> answers g state m a \<Longrightarrow> \<not> answer_matches g k state a
           \<Longrightarrow> Attempt \<in> C"
  shows "keeps R (screen_message g A k m state now)"
  unfolding screen_message_def
  using assms by (intro keeps_parts evidence_keeps suppress_permanently_keeps
      handle_challenge_keeps challenge_sender_keeps) auto

lemma revoke_test_keeps: "keeps R (revoke_test_sender k is_test now state)"
  unfolding revoke_test_sender_def by (intro keeps_parts)

lemma settle_restricted_keeps: "Delete \<in> C \<Longrightarrow> keeps R (settle_restricted A k m is_test now state)"
  unfolding settle_restricted_def by (intro keeps_parts suppressed_delete_keeps)

lemma settle_trusted_keeps:
  assumes "\<not> is_test \<Longrightarrow> trusted_message m \<Longrightarrow> Trust \<in> C"
  shows "keeps R (settle_trusted k m is_test now state)"
  unfolding settle_trusted_def using assms
  by (intro keeps_parts keeps_allow) (auto simp: trusted_message_def)

lemma settle_keeps:
  assumes "Delete \<in> C" and "\<not> is_test \<Longrightarrow> trusted_message m \<Longrightarrow> Trust \<in> C"
  shows "keeps R (settle_before_screening A k m is_test now)"
  unfolding settle_before_screening_def
  by (intro keeps_parts revoke_test_keeps settle_restricted_keeps settle_trusted_keeps assms)

lemma process_keeps:
  assumes "C = UNIV"
  shows "keeps R (process_message g A k m now)"
  unfolding process_message_def using assms by (intro keeps_parts settle_keeps screen_keeps) simp_all

lemma handle_locked_keeps: "C = UNIV \<Longrightarrow> keeps R (handle_locked g A k m)"
  unfolding handle_locked_def by (intro keeps_parts process_keeps)

lemma timestamp_keeps: "keeps R (timestamp_of now)"
  unfolding timestamp_of_def by (intro keeps_parts)

lemma expire_keeps:
  "Delete \<in> C \<Longrightarrow> keeps R (expire_challenge g (if with_actions then Some A else None) k at now)"
  unfolding expire_challenge_def by (cases with_actions) (auto intro!: keeps_parts timestamp_keeps finalize_keeps)

lemma reset_test_keeps: "keeps R (reset_test_sender g k seen now)"
  unfolding reset_test_sender_def by (intro keeps_parts timestamp_keeps)

lemma abandon_keeps: "keeps R (abandon_incomplete_challenge k reason)"
  unfolding abandon_incomplete_challenge_def by (intro keeps_parts)

lemma drop_recovery_keeps: "keeps R (drop_recovery A k i result now)"
  unfolding drop_recovery_def by (intro keeps_parts)

lemma activate_recovered_keeps: "keeps R (activate_recovered A k i now)"
  unfolding activate_recovered_def by (intro keeps_parts drop_recovery_keeps)

lemma rebind_keeps: "keeps R (rebind_recovered g A k i now)"
  unfolding rebind_recovered_def
  by (intro keeps_parts drop_recovery_keeps activate_recovered_keeps)

lemma resend_keeps: "keeps R (resend_prompt A k state now)"
  unfolding resend_prompt_def
  by (auto intro!: keeps_parts split: option.splits list.splits)

lemma recover_keeps: "keeps R (recover_incomplete_challenge g A k recovered)"
  unfolding recover_incomplete_challenge_def
  by (intro keeps_parts drop_recovery_keeps activate_recovered_keeps rebind_keeps resend_keeps)

lemma quarantine_now_keeps: "keeps R (quarantine_now A k reason now)"
  unfolding quarantine_now_def by (intro keeps_parts)

end

subsection \<open>The Telegram implementation\<close>

interpretation steps: store_relation "(sender_step C k)\<^sup>*\<^sup>*" for C k
  by unfold_locales auto

lemma keeps_snapshot_step:
  "(\<And>s. sender_step C k s (f s)) \<Longrightarrow> keeps (sender_step C k)\<^sup>*\<^sup>* (change f)"
  by (rule steps.keeps_change) (rule r_into_rtranclp)

lemma restore_dialog_keeps: "keeps (sender_step C k)\<^sup>*\<^sup>* (restore_dialog peer k)"
  unfolding restore_dialog_def
  by (auto intro!: steps.keeps_control keeps_snapshot_step clear_snapshot_step simp: Let_def split_beta)

lemma keeps_attempt_steps:
  "keeps (sender_step C k)\<^sup>*\<^sup>* m \<Longrightarrow> keeps (sender_step C k)\<^sup>*\<^sup>* (attempt m)"
  by (simp add: keeps_iff attempt_def)

lemma keeps_need_sum_steps: "keeps (sender_step C k)\<^sup>*\<^sup>* (need_sum x)"
  by (cases x) (simp_all add: need_sum_def steps.keeps_raise steps.keeps_ret)

lemma tg_send_keeps: "keeps (sender_step C k)\<^sup>*\<^sup>* (tg_send_text peer t reply_to formatting)"
  unfolding tg_send_text_def
  by (auto intro!: steps.keeps_control keeps_need_sum_steps split: reply.splits)

lemma snapshot_dialog_keeps: "keeps (sender_step C k)\<^sup>*\<^sup>* (snapshot_dialog peer k)"
  unfolding snapshot_dialog_def
  by (auto intro!: steps.keeps_control keeps_snapshot_step save_snapshot_step
      split: reply.splits option.splits)

lemma tg_archive_keeps: "keeps (sender_step C k)\<^sup>*\<^sup>* (tg_archive_and_mute days peer k)"
  unfolding tg_archive_and_mute_def tg_restore_from_pending_def
  by (intro steps.keeps_control keeps_attempt_steps snapshot_dialog_keeps restore_dialog_keeps)

lemma tg_delete_message_keeps: "keeps (sender_step C k)\<^sup>*\<^sup>* (tg_delete_message peer i)"
  unfolding tg_delete_message_def by (intro steps.keeps_control)

interpretation tg: sender_contract "(sender_step C k)\<^sup>*\<^sup>*" C k "telegram_actions days peer k"
  for C k days peer
  by unfold_locales
    (auto simp: telegram_actions_def tg_restore_from_pending_def adapter_schedule_timeout_def
      intro: tg_send_keeps tg_archive_keeps restore_dialog_keeps tg_delete_message_keeps
        steps.keeps_control)

end
