(* ===== verification/System.thy ===== *)
theory System
  imports Service_Contract
begin

text \<open>
  The running service as a transition system on worlds: an incoming event, a job whose sleep is
  over, a maintenance pass, the recovery at start-up, a mode change from the command line. Every
  transition moves the database along \<open>store_step\<close>, so the invariants of \<open>Store_Invariants\<close>
  hold in every reachable world. Handlers of different senders are not interleaved within one
  transition; handlers of the same sender hold its lock.
\<close>

interpretation any: store_relation "store_step\<^sup>*\<^sup>*"
  by unfold_locales auto

lemma keeps_mono: "keeps R m \<Longrightarrow> (\<And>s s'. R s s' \<Longrightarrow> R' s s') \<Longrightarrow> keeps R' m"
  by (simp add: keeps_iff)

lemma sender_steps_store: "(sender_step C k)\<^sup>*\<^sup>* s s' \<Longrightarrow> store_step\<^sup>*\<^sup>* s s'"
proof (induction rule: rtranclp_induct)
  case (step t u)
  from step.hyps(2) have "sender_step UNIV k t u"
  proof (induction rule: sender_step.induct)
  qed (auto intro: sender_step.intros)
  with step.IH show ?case by (meson by_sender rtranclp.rtrancl_into_rtrancl)
qed simp

lemma keeps_sender: "keeps (sender_step C k)\<^sup>*\<^sup>* m \<Longrightarrow> keeps store_step\<^sup>*\<^sup>* m"
  by (erule keeps_mono) (rule sender_steps_store)

lemma keeps_change_sender: "(\<And>s. sender_step UNIV k s (f s)) \<Longrightarrow> keeps store_step\<^sup>*\<^sup>* (change f)"
  by (rule any.keeps_change) (blast intro: by_sender)

lemma keeps_change_store: "(\<And>s. store_step s (f s)) \<Longrightarrow> keeps store_step\<^sup>*\<^sup>* (change f)"
  by (rule any.keeps_change) blast

lemma keeps_transact_store: "(\<And>s. store_step s (snd (f s))) \<Longrightarrow> keeps store_step\<^sup>*\<^sup>* (transact f)"
  by (rule any.keeps_transact) blast

lemma keeps_transact_exn_store:
  "(\<And>s. store_step s (snd (f s))) \<Longrightarrow> keeps store_step\<^sup>*\<^sup>* (transact_exn f)"
  by (rule any.keeps_transact_exn) blast

lemma any_need: "keeps store_step\<^sup>*\<^sup>* (need e x)"
  by (cases x) (simp_all add: need_def any.keeps_raise any.keeps_ret)

lemma any_need_sum: "keeps store_step\<^sup>*\<^sup>* (need_sum x)"
  by (cases x) (simp_all add: need_sum_def any.keeps_raise any.keeps_ret)

lemma any_audit: "keeps store_step\<^sup>*\<^sup>* (change (audit k rule_code outcome ts))"
  by (rule keeps_change_sender) (rule audit_step)

lemma any_restore: "keeps store_step\<^sup>*\<^sup>* (restore_dialog peer k)"
  by (rule keeps_sender) (rule restore_dialog_keeps)

lemma any_allow: "keeps store_step\<^sup>*\<^sup>* (change (allow k ts))"
  by (rule keeps_change_sender) (rule allow_step, simp)

lemmas any_rules = any.keeps_control any_need any_need_sum any_audit any_restore any_allow

lemma release_after_owner_contact_keeps: "keeps store_step\<^sup>*\<^sup>* (release_after_owner_contact peer k)"
  unfolding release_after_owner_contact_def by (intro any_rules)

lemma owner_contacted_keeps: "keeps store_step\<^sup>*\<^sup>* (owner_contacted peer i k since)"
  unfolding owner_contacted_def has_prior_outgoing_def
  by (auto intro!: any_rules split: reply.splits option.splits)

lemma release_if_keeps: "keeps store_step\<^sup>*\<^sup>* (release_if_owner_contacted peer i k since)"
  unfolding release_if_owner_contacted_def
  by (intro any_rules owner_contacted_keeps release_after_owner_contact_keeps)

lemma trusted_history_keeps: "keeps store_step\<^sup>*\<^sup>* (trusted_history_of peer i k state checks)"
  unfolding trusted_history_of_def
  by (intro any_rules owner_contacted_keeps release_if_keeps)

lemma review_reference_keeps: "keeps store_step\<^sup>*\<^sup>* (review_reference_of g sd i)"
  unfolding review_reference_of_def
  by (auto intro!: any_rules split: option.splits)

lemma handle_keeps: "keeps store_step\<^sup>*\<^sup>* (handle_locked g (acts_for ad peer k) k m)"
  unfolding acts_for_def by (rule keeps_sender [where C = UNIV]) (rule tg.handle_locked_keeps, simp)

lemma handle_event_keeps: "keeps store_step\<^sup>*\<^sup>* (handle_event_message ad e m sd sender_id)"
  unfolding handle_event_message_def handle_def Let_def
  by (intro any_rules trusted_history_keeps review_reference_keeps) (simp add: handle_keeps)

lemma on_message_keeps: "keeps store_step\<^sup>*\<^sup>* (on_message ad e)"
  unfolding on_message_def
  by (auto intro!: any_rules handle_event_keeps split: option.splits bool.splits)

subsection \<open>Workers\<close>

lemma expire_keeps_some:
  "keeps store_step\<^sup>*\<^sup>* (expire_challenge g (Some (acts_for ad peer k)) k at now)"
  using keeps_sender [OF tg.expire_keeps [where with_actions = True and C = UNIV and k = k]]
  by (simp add: acts_for_def)

lemma expire_keeps_none: "keeps store_step\<^sup>*\<^sup>* (expire_challenge g None k at now)"
  using keeps_sender [OF tg.expire_keeps [where with_actions = False and C = UNIV and k = k]] by simp

lemma timeout_worker_keeps: "keeps store_step\<^sup>*\<^sup>* (timeout_worker ad k at peer)"
  unfolding timeout_worker_def
  by (cases peer) (auto intro!: any_rules release_if_keeps expire_keeps_some expire_keeps_none)

lemma finish_action_keeps: "keeps store_step\<^sup>*\<^sup>* (transact_exn (finish_action i st ts))"
  by (rule keeps_transact_exn_store) (rule by_finish_action)

lemma action_failure_keeps: "keeps store_step\<^sup>*\<^sup>* (change (enqueue_action_failure a ts))"
  by (rule keeps_change_store) (rule by_sender, rule action_failure_step, rule refl)

lemma delete_dialog_keeps: "keeps store_step\<^sup>*\<^sup>* (delete_dialog (acts_for ad peer k))"
proof -
  have "keeps store_step\<^sup>*\<^sup>* (change (clear_dialog_snapshot k))"
    by (rule keeps_change_sender) (rule clear_snapshot_step)
  then show ?thesis
    by (auto simp: acts_for_def telegram_actions_def tg_delete_dialog_def intro!: any_rules)
qed

lemma clear_reference_keeps: "keeps store_step\<^sup>*\<^sup>* (transact (clear_action_reference k n))"
  by (rule keeps_transact_store) (rule by_sender, rule clear_action_reference_step)

lemma deletion_worker_keeps: "keeps store_step\<^sup>*\<^sup>* (dialog_deletion_worker ad i)"
  unfolding dialog_deletion_worker_def delete_claimed_dialog_def fail_claimed_action_def
  by (intro any_rules finish_action_keeps action_failure_keeps delete_dialog_keeps
      clear_reference_keeps)

lemma run_job_keeps: "keeps store_step\<^sup>*\<^sup>* (run_job ad j)"
proof (cases j)
  case (StateResetJob k seen at)
  have "keeps store_step\<^sup>*\<^sup>* (reset_test_sender (ad_gatekeeper ad) k seen None)"
    by (rule keeps_sender [where C = UNIV]) (rule tg.reset_test_keeps)
  with StateResetJob show ?thesis
    by (auto simp: test_state_reset_worker_def intro!: any_rules)
qed (auto simp: test_message_deletion_worker_def verification_message_deletion_worker_def
    intro!: any_rules timeout_worker_keeps deletion_worker_keeps)

lemma cancel_released_keeps: "keeps store_step\<^sup>*\<^sup>* (cancel_released now ks)"
  by (induction ks) (auto intro!: any_rules)

lemma maintenance_keeps: "keeps store_step\<^sup>*\<^sup>* (maintenance_pass ad)"
  unfolding maintenance_pass_def
  by (intro any_rules cancel_released_keeps keeps_change_store [OF by_heartbeat]
      keeps_transact_store [OF by_prune])

subsection \<open>Recovery\<close>

lemma any_abandon_keeps: "keeps store_step\<^sup>*\<^sup>* (abandon_incomplete_challenge k reason)"
  by (rule keeps_sender [where C = UNIV]) (rule tg.abandon_keeps)

lemma any_recover_keeps:
  "keeps store_step\<^sup>*\<^sup>* (recover_incomplete_challenge g (acts_for ad peer k) k recovered)"
  unfolding acts_for_def by (rule keeps_sender [where C = UNIV]) (rule tg.recover_keeps)

lemma recover_challenge_keeps: "keeps store_step\<^sup>*\<^sup>* (recover_challenge ad k state)"
  unfolding recover_challenge_def adapter_schedule_timeout_def Let_def
  by (auto intro!: any_rules any_abandon_keeps any_recover_keeps split: option.splits reply.splits)

lemma recover_rows_keeps: "keeps store_step\<^sup>*\<^sup>* (recover_rows ad rows)"
  by (induction rows) (auto intro!: any_rules recover_challenge_keeps)

lemma schedule_deletions_keeps: "keeps store_step\<^sup>*\<^sup>* (schedule_deletions xs)"
  by (induction xs) (auto intro!: any_rules)

definition recover :: "adapter \<Rightarrow> unit prog" where
  "recover ad = then_prog (recover_challenges ad)
    (then_prog (recover_test_sender_cleanup ad) recover_pending_actions)"

lemma recover_all_keeps: "keeps store_step\<^sup>*\<^sup>* (recover ad)"
  unfolding recover_def recover_challenges_def recover_pending_actions_def
    recover_test_sender_cleanup_def Let_def
  by (auto intro!: any_rules recover_rows_keeps schedule_deletions_keeps split: option.splits)

subsection \<open>Runs\<close>

inductive system_step :: "adapter \<Rightarrow> world \<Rightarrow> world \<Rightarrow> bool" for ad :: adapter where
  event_arrives: "system_step ad w (snd (on_message ad e w))"
| job_runs: "system_step ad w (snd (run_job ad j w))"
| maintenance_runs: "system_step ad w (snd (maintenance_pass ad w))"
| recovery_runs: "system_step ad w (snd (recover ad w))"
| mode_changes: "system_step ad w (w\<lparr>db := set_mode m ts (db w)\<rparr>)"
| world_moves: "system_step ad w (w\<lparr>clock := c, ticks := t, draws := d, replies := r, calls := n\<rparr>)"

lemma system_step_store: "system_step ad w w' \<Longrightarrow> store_step\<^sup>*\<^sup>* (db w) (db w')"
  by (induction rule: system_step.induct)
    (auto intro: keepsD on_message_keeps run_job_keeps maintenance_keeps recover_all_keeps by_set_mode)

lemma system_run_store: "(system_step ad)\<^sup>*\<^sup>* w w' \<Longrightarrow> store_step\<^sup>*\<^sup>* (db w) (db w')"
  by (induction rule: rtranclp_induct) (auto dest: system_step_store)

end
