(* ===== verification/Scenarios.thy ===== *)
theory Scenarios
  imports Adapter_Workers "HOL-Library.Code_Target_Nat"
begin

text \<open>
  Concrete inputs on which the theorems with hypotheses are applied: an example protector, an
  example gatekeeper, and messages, rows and worlds built from them. Nothing here models code.
\<close>

definition demo_unicode :: unicode where
  "demo_unicode = \<lparr>nfkc = (\<lambda>t. t), casefold = (\<lambda>t. t), lower = (\<lambda>t. t),
     idna_encode = Some, bracketed_host_ok = (\<lambda>_. False)\<rparr>"

text \<open>The demonstration seals are lists of the low bytes, and the digest shows its input.\<close>

definition demo_protector :: protector where
  "demo_protector =
    \<lparr>prot_sender_key = (\<lambda>i. if i = 7 then ''me'' else ''other''),
     prot_answer_digest = (\<lambda>k i a. k @ i @ map char_of a),
     prot_campaign_fingerprint = (\<lambda>_. Inr ''campaign''),
     prot_open_review = (\<lambda>b. if b = [1, 2] then Some (5, 6, 9) else None),
     prot_open_restriction = (\<lambda>b. if b = [3, 4] then Some (5, 6) else None),
     prot_seal_review = (\<lambda>_ _ _ _. [1, 2]),
     prot_seal_restriction = (\<lambda>_ _ _. [3, 4])\<rparr>"

definition demo_challenge :: challenge where
  "demo_challenge = \<lparr>ch_id = ''c1'', ch_answer = ustr ''15'', ch_expression = ustr ''7 + 8''\<rparr>"

definition demo_gatekeeper :: gatekeeper where
  "demo_gatekeeper =
    \<lparr>gk_protector = demo_protector, gk_ttl_seconds = 300, gk_max_attempts = 3,
     gk_outbound_limit = 20, gk_notice_reserve = 3, gk_notice_sender_limit = 3,
     gk_review_days = 7, gk_case_days = 30, gk_denylist = [ustr ''bad.example''],
     gk_test_sender_key = None, gk_seal_case = None, gk_challenge_factory = (\<lambda>_. demo_challenge),
     gk_unicode = demo_unicode\<rparr>"

definition no_facts :: message_facts where
  "no_facts = \<lparr>f_text = [], f_preview_text = [], f_quote_text = [], f_urls = [], f_domains = [],
     f_button_texts = [], f_button_urls = [], f_preview_urls = [], f_quote_urls = [],
     f_quote_domains = [], f_has_link_button = False, f_link_button_count = 0,
     f_has_any_button = False, f_is_forwarded = False, f_via_bot = False\<rparr>"

definition demo_message :: "string \<Rightarrow> incoming_message" where
  "demo_message t = \<lparr>m_sender_id = 9, m_message_id = 20, m_text = ustr t,
     m_facts = no_facts\<lparr>f_text := ustr t\<rparr>, m_sent_at = 1000, m_reply_to = None,
     m_is_contact = False, m_is_bot = False, m_is_service = False,
     m_has_trusted_history = False, m_review_reference = Some [1, 2]\<rparr>"

definition denied_message :: incoming_message where
  "denied_message = (demo_message ''see'')\<lparr>m_facts := no_facts\<lparr>f_text := ustr ''see'',
     f_urls := [ustr ''https://bad.example/x''], f_domains := [ustr ''bad.example'']\<rparr>\<rparr>"

definition demo_row :: "sender_status \<Rightarrow> sender_row" where
  "demo_row st = (set_state_row st (Some ''c1'') (Some ''otherc115'') (Some 1200) 0 None 4 950)
     \<lparr>challenge_message_id := Some 10, challenge_profile := Some Standard,
      challenge_action_reference := Some [1, 2]\<rparr>"

definition demo_store :: "mode \<Rightarrow> (sender_key \<times> sender_row) list \<Rightarrow> store" where
  "demo_store md rows = (empty_store 7)\<lparr>mode_setting := Some md, sender_table := rows\<rparr>"

text \<open>Telegram answers each request with success; a sent message gets id 50.\<close>

definition demo_world :: "store \<Rightarrow> world" where
  "demo_world s = \<lparr>db = s, clock = (\<lambda>_. 1000), ticks = 0, draws = 0, replies = (\<lambda>_. ReplyId 50),
     calls = 0, trace = []\<rparr>"

abbreviation demo_actions :: actions where
  "demo_actions \<equiv> telegram_actions 30 (Some (PeerUser 5 6)) ''other''"

end
