(* ===== verification/Service_Security.thy ===== *)
theory Service_Security
  imports System Scenarios
begin

text \<open>
  What one handled message can do to its sender. The capabilities of \<open>Store_Steps\<close> turn each
  question into the same argument: without the capability the effect is impossible, and the
  handler only needs the capability under the condition of the code.
\<close>

subsection \<open>Effects and capabilities\<close>

definition sender_status_of :: "sender_key \<Rightarrow> store \<Rightarrow> sender_status" where
  "sender_status_of k s = status (sender k s)"

lemma sender_status_of_row:
  "sender_status_of k s = (case map_of (sender_table s) k of None \<Rightarrow> UNKNOWN | Some r \<Rightarrow> status r)"
  by (simp add: sender_status_of_def sender_def unknown_sender_def split: option.splits)

definition attempts_of :: "sender_key \<Rightarrow> store \<Rightarrow> int" where
  "attempts_of k s = (case map_of (sender_table s) k of None \<Rightarrow> 0 | Some r \<Rightarrow> attempts r)"

lemma attempts_of_sender: "attempts (sender k s) = attempts_of k s"
  by (simp add: attempts_of_def sender_def unknown_sender_def split: option.splits)

definition banned :: "sender_key \<Rightarrow> store \<Rightarrow> bool" where
  "banned k s \<longleftrightarrow> (case map_of (sender_table s) k of
      None \<Rightarrow> False | Some r \<Rightarrow> status r = SUPPRESSED \<and> suppressed_until r = None)"

lemmas effect_simps = store_defs table_simps sender_status_of_row attempts_of_def banned_def
  set_state_row_def released_row_def expired_suppression_def Let_def split_beta

lemma no_verify_step:
  "sender_step C k s s' \<Longrightarrow> Verify \<notin> C \<Longrightarrow> sender_status_of k s' = PROVISIONAL
   \<Longrightarrow> sender_status_of k s = PROVISIONAL"
  by (induction rule: sender_step.induct)
    (auto simp: effect_simps split: if_splits option.splits)

lemma no_trust_step:
  "sender_step C k s s' \<Longrightarrow> Trust \<notin> C \<Longrightarrow> sender_status_of k s' = ALLOWED
   \<Longrightarrow> sender_status_of k s = ALLOWED"
  by (induction rule: sender_step.induct)
    (auto simp: effect_simps split: if_splits option.splits)

lemma no_destroy_step:
  "sender_step C k s s' \<Longrightarrow> Destroy \<notin> C \<Longrightarrow> banned k s' \<Longrightarrow> banned k s"
  by (induction rule: sender_step.induct)
    (auto simp: effect_simps split: if_splits option.splits)

lemma no_attempt_step:
  "sender_step C k s s' \<Longrightarrow> Attempt \<notin> C \<Longrightarrow> 0 \<le> attempts_of k s
   \<Longrightarrow> attempts_of k s' \<le> attempts_of k s \<and> 0 \<le> attempts_of k s'"
  by (induction rule: sender_step.induct)
    (auto simp: effect_simps split: if_splits option.splits)

lemma no_verify: "(sender_step C k)\<^sup>*\<^sup>* s s' \<Longrightarrow> Verify \<notin> C \<Longrightarrow> sender_status_of k s' = PROVISIONAL
   \<Longrightarrow> sender_status_of k s = PROVISIONAL"
  by (induction rule: rtranclp_induct) (auto dest: no_verify_step)

lemma no_trust: "(sender_step C k)\<^sup>*\<^sup>* s s' \<Longrightarrow> Trust \<notin> C \<Longrightarrow> sender_status_of k s' = ALLOWED
   \<Longrightarrow> sender_status_of k s = ALLOWED"
  by (induction rule: rtranclp_induct) (auto dest: no_trust_step)

lemma no_destroy: "(sender_step C k)\<^sup>*\<^sup>* s s' \<Longrightarrow> Destroy \<notin> C \<Longrightarrow> banned k s' \<Longrightarrow> banned k s"
  by (induction rule: rtranclp_induct) (auto dest: no_destroy_step)

lemma no_attempt: "(sender_step C k)\<^sup>*\<^sup>* s s' \<Longrightarrow> Attempt \<notin> C \<Longrightarrow> 0 \<le> attempts_of k s
   \<Longrightarrow> attempts_of k s' \<le> attempts_of k s \<and> 0 \<le> attempts_of k s'"
  by (induction rule: rtranclp_induct) (auto dest: no_attempt_step)

subsection \<open>The state a message is screened in\<close>

lemma revoke_status: "status (sender k (revoke k ts s)) = UNKNOWN"
  by (auto simp: revoke_def set_state_def resolve_sender_actions_def Let_def sender_def
      set_state_row_def map_of_upsert_row split: option.splits)

lemma release_status:
  assumes "status (sender k s) = SUPPRESSED" and "suppressed_until (sender k s) = Some u" and "u \<le> ts"
  shows "status (sender k (snd (release_expired_suppression k ts s))) = UNKNOWN"
  using assms
  by (auto simp: sender_def unknown_sender_def release_expired_suppression_def update_row_def
      release_expired_suppression_row_def expired_suppression_def released_row_def
      update_conv' split: option.splits)

lemma reset_status:
  assumes "status (sender k s) \<in> {PROVISIONAL, QUARANTINED}"
  shows "status (sender k (snd (reset_test_sender_row k (updated_at (sender k s)) ts s))) = UNKNOWN"
  using assms
  by (auto simp: sender_def unknown_sender_def reset_test_sender_row_def update_sender_def
      update_row_def delete_enforcement_review_def update_conv' split: option.splits)

lemma settle_trusted_state:
  "settle_trusted k m t now state w = (Inr (st, out), w') \<Longrightarrow> st = state"
  by (auto simp: settle_trusted_def then_prog_def prog_defs split: if_splits)

lemma settle_restricted_state:
  assumes "settle_restricted A k m t now state w = (Inr (Inr st), w')" and "state = sender k (db w)"
  shows "(st = state \<and> db w' = db w) \<or> status st = UNKNOWN"
  using assms release_status [of k "db w"] reset_status [of k "db w" now]
  by (auto simp: settle_restricted_def prog_defs split: if_splits option.splits sum.splits prod.splits)

lemma settle_state:
  assumes "settle_before_screening A k m t now w = (Inr (st, None), w')"
  shows "st = sender k (db w) \<or> status st = UNKNOWN"
proof (cases "t \<and> status (sender k (db w)) = ALLOWED")
  case True
  from assms True obtain r w1 where
    r: "settle_restricted A k m t now (sender k (revoke k now (db w))) (w\<lparr>db := revoke k now (db w)\<rparr>)
        = (r, w1)" by fastforce
  have "status (sender k (revoke k now (db w))) = UNKNOWN" by (rule revoke_status)
  with assms True r settle_restricted_state [of A k m t now "sender k (revoke k now (db w))"
      "w\<lparr>db := revoke k now (db w)\<rparr>"] settle_trusted_state
  show ?thesis
    by (fastforce simp: settle_before_screening_def revoke_test_sender_def then_prog_def prog_defs
        split: sum.splits)
next
  case False
  with assms settle_restricted_state [of A k m t now "sender k (db w)" w] settle_trusted_state
  show ?thesis
    by (fastforce simp: settle_before_screening_def revoke_test_sender_def then_prog_def prog_defs
        split: sum.splits prod.splits)
qed

subsection \<open>Lifting to the handler\<close>

lemma claim_sender: "sender k (snd (claim_message k i ts s)) = sender k s"
  by (simp add: claim_message_def sender_def)

lemma handle_effect:
  assumes "\<And>w1 now. db w1 = snd (claim_message k (m_message_id m) now (db w))
    \<Longrightarrow> (sender_step C k)\<^sup>*\<^sup>* (db w1)
          (db (snd (process_message g (telegram_actions days peer k) k m now w1)))"
  shows "(sender_step C k)\<^sup>*\<^sup>* (db w)
    (db (snd (handle_locked g (telegram_actions days peer k) k m w)))"
proof -
  let ?A = "telegram_actions days peer k"
  show ?thesis
    unfolding handle_locked_def
  proof (rule steps.keeps_bind_at)
    show "(sender_step C k)\<^sup>*\<^sup>* (db w) (db (snd (read_clock w)))"
      by (simp add: read_clock_def)
  next
    fix now w0 assume "read_clock w = (Inr now, w0)"
    then have w0: "db w0 = db w" by (auto simp: read_clock_def)
    show "(sender_step C k)\<^sup>*\<^sup>* (db w0) (db (snd (bind_prog
        (transact (claim_message k (m_message_id m) now)) (\<lambda>fresh.
          if \<not> fresh then ret ''duplicate''
          else bind_prog (try_except (process_message g ?A k m now)
              (then_prog (change (audit k ''FAIL_SAFE'' ''no_action'' now)) (ret ''fail_safe'')))
            (\<lambda>outcome. then_prog (change (finish_message k (m_message_id m) outcome)) (ret outcome))) w0)))"
    proof (rule steps.keeps_bind_at)
      show "(sender_step C k)\<^sup>*\<^sup>* (db w0)
          (db (snd (transact (claim_message k (m_message_id m) now) w0)))"
        by (rule keepsD) (rule tg.keeps_rules)
    next
      fix fresh w1
      assume "transact (claim_message k (m_message_id m) now) w0 = (Inr fresh, w1)"
      then have w1: "db w1 = snd (claim_message k (m_message_id m) now (db w))"
        by (auto simp: transact_def w0)
      have body: "(sender_step C k)\<^sup>*\<^sup>* (db w1) (db (snd (try_except (process_message g ?A k m now)
          (then_prog (change (audit k ''FAIL_SAFE'' ''no_action'' now)) (ret ''fail_safe'')) w1)))"
        by (rule steps.keeps_try_at, rule assms [OF w1], rule keepsD) (intro tg.keeps_rules)
      show "(sender_step C k)\<^sup>*\<^sup>* (db w1) (db (snd ((if \<not> fresh then ret ''duplicate''
          else bind_prog (try_except (process_message g ?A k m now)
              (then_prog (change (audit k ''FAIL_SAFE'' ''no_action'' now)) (ret ''fail_safe'')))
            (\<lambda>outcome. then_prog (change (finish_message k (m_message_id m) outcome)) (ret outcome))) w1)))"
      proof (cases fresh)
        case True
        with body show ?thesis
          by (simp, intro steps.keeps_bind_at) (simp, intro keepsD tg.keeps_rules)
      qed (simp add: ret_def)
    qed
  qed
qed

lemma process_effect:
  assumes "(sender_step C k)\<^sup>*\<^sup>* (db w)
      (db (snd (settle_before_screening A k m (is_test_key g k) now w)))"
    and "\<And>st w'. settle_before_screening A k m (is_test_key g k) now w = (Inr (st, None), w')
      \<Longrightarrow> (sender_step C k)\<^sup>*\<^sup>* (db w') (db (snd (screen_message g A k m st now w')))"
  shows "(sender_step C k)\<^sup>*\<^sup>* (db w) (db (snd (process_message g A k m now w)))"
  unfolding process_message_def
proof (rule steps.keeps_bind_at)
  show "(sender_step C k)\<^sup>*\<^sup>* (db w)
      (db (snd (settle_before_screening A k m (is_test_key g k) now w)))" by (rule assms(1))
next
  fix x w' assume "settle_before_screening A k m (is_test_key g k) now w = (Inr x, w')"
  then show "(sender_step C k)\<^sup>*\<^sup>* (db w') (db (snd ((case x of (state, settled) \<Rightarrow>
      case settled of None \<Rightarrow> screen_message g A k m state now | Some outcome \<Rightarrow> ret outcome) w')))"
    by (cases x) (auto simp: ret_def intro: assms(2) split: option.splits)
qed

subsection \<open>No way around the challenge, no unfounded trust\<close>

text \<open>C2. A handled message makes its sender provisional only if the sender was challenged, and the
  message, in time and not from before the prompt, is an answer whose digest is the stored one.\<close>

lemma provisional_only_by_answer:
  assumes "sender_status_of k (db (snd (handle_locked g (telegram_actions days peer k) k m w)))
             = PROVISIONAL"
    and "sender_status_of k (db w) \<noteq> PROVISIONAL"
  shows "sender_status_of k (db w) = CHALLENGED \<and>
    (\<exists>a. answers g (sender k (db w)) m a \<and> answer_matches g k (sender k (db w)) a)"
proof (rule ccontr)
  assume no: "\<not> ?thesis"
  let ?C = "UNIV - {Verify}" and ?A = "telegram_actions days peer k"
  have "(sender_step ?C k)\<^sup>*\<^sup>* (db w) (db (snd (handle_locked g ?A k m w)))"
  proof (rule handle_effect)
    fix w1 :: world and now assume w1: "db w1 = snd (claim_message k (m_message_id m) now (db w))"
    have same: "sender k (db w1) = sender k (db w)" by (simp add: w1 claim_sender)
    show "(sender_step ?C k)\<^sup>*\<^sup>* (db w1) (db (snd (process_message g ?A k m now w1)))"
    proof (rule process_effect)
      show "(sender_step ?C k)\<^sup>*\<^sup>* (db w1)
          (db (snd (settle_before_screening ?A k m (is_test_key g k) now w1)))"
        by (rule keepsD) (rule tg.settle_keeps, simp_all)
    next
      fix st and w' :: world
      assume "settle_before_screening ?A k m (is_test_key g k) now w1 = (Inr (st, None), w')"
      from settle_state [OF this] same have st: "st = sender k (db w) \<or> status st = UNKNOWN" by simp
      have "keeps (sender_step ?C k)\<^sup>*\<^sup>* (screen_message g ?A k m st now)"
        by (rule tg.screen_keeps) (use st no in \<open>auto simp: sender_status_of_def\<close>)
      then show "(sender_step ?C k)\<^sup>*\<^sup>* (db w') (db (snd (screen_message g ?A k m st now w')))"
        by (rule keepsD)
    qed
  qed
  from no_verify [OF this] assms show False by simp
qed

lemma provisional_only_by_answer_witness:
  "sender_status_of ''other'' (db (snd (handle_locked demo_gatekeeper demo_actions ''other''
      (demo_message ''15'') (demo_world (demo_store Protect [(''other'', demo_row CHALLENGED)])))))
    = PROVISIONAL \<and> (\<exists>a. answers demo_gatekeeper (sender ''other'' (demo_store Protect
        [(''other'', demo_row CHALLENGED)])) (demo_message ''15'') a)"
proof -
  let ?w = "demo_world (demo_store Protect [(''other'', demo_row CHALLENGED)])"
  have after: "sender_status_of ''other'' (db (snd (handle_locked demo_gatekeeper demo_actions
      ''other'' (demo_message ''15'') ?w))) = PROVISIONAL"
    by code_simp
  have before: "sender_status_of ''other'' (db ?w) \<noteq> PROVISIONAL" by code_simp
  show ?thesis
    using provisional_only_by_answer [OF after before] after by (auto simp: demo_world_def)
qed

text \<open>C3. A handled message makes its sender allowed only if the sender is not the test sender and
  the message carries trust: a service account, a bot, a contact, or a trusted history.\<close>

lemma allowed_only_by_trust:
  assumes "sender_status_of k (db (snd (handle_locked g (telegram_actions days peer k) k m w)))
             = ALLOWED"
    and "sender_status_of k (db w) \<noteq> ALLOWED"
  shows "\<not> is_test_key g k \<and> trusted_message m"
proof (rule ccontr)
  assume no: "\<not> ?thesis"
  let ?C = "UNIV - {Trust}" and ?A = "telegram_actions days peer k"
  have "(sender_step ?C k)\<^sup>*\<^sup>* (db w) (db (snd (handle_locked g ?A k m w)))"
  proof (rule handle_effect, rule process_effect)
    fix w1 :: world and now
    show "(sender_step ?C k)\<^sup>*\<^sup>* (db w1)
        (db (snd (settle_before_screening ?A k m (is_test_key g k) now w1)))"
      by (rule keepsD) (rule tg.settle_keeps, use no in auto)
  next
    fix now st and w' :: world
    show "(sender_step ?C k)\<^sup>*\<^sup>* (db w') (db (snd (screen_message g ?A k m st now w')))"
      by (rule keepsD) (rule tg.screen_keeps, simp_all)
  qed
  from no_trust [OF this] assms show False by simp
qed

lemma allowed_only_by_trust_witness:
  "\<not> is_test_key demo_gatekeeper ''other''
   \<and> trusted_message ((demo_message ''hi'')\<lparr>m_is_contact := True\<rparr>)"
proof -
  let ?w = "demo_world (demo_store Protect [])"
  have after: "sender_status_of ''other'' (db (snd (handle_locked demo_gatekeeper demo_actions
      ''other'' ((demo_message ''hi'')\<lparr>m_is_contact := True\<rparr>) ?w))) = ALLOWED"
    by code_simp
  have before: "sender_status_of ''other'' (db ?w) \<noteq> ALLOWED" by code_simp
  show ?thesis by (rule allowed_only_by_trust [OF after before])
qed

text \<open>C6. A handled message uses up an attempt only if the sender was challenged and the message, in
  time and not from before the prompt, is a numeric answer whose digest is not the stored one.\<close>

lemma attempts_only_by_wrong_answer:
  assumes "attempts_of k (db w) < attempts_of k
      (db (snd (handle_locked g (telegram_actions days peer k) k m w)))"
    and "0 \<le> attempts_of k (db w)"
  shows "sender_status_of k (db w) = CHALLENGED \<and>
    (\<exists>a. answers g (sender k (db w)) m a \<and> \<not> answer_matches g k (sender k (db w)) a)"
proof (rule ccontr)
  assume no: "\<not> ?thesis"
  let ?C = "UNIV - {Attempt}" and ?A = "telegram_actions days peer k"
  have "(sender_step ?C k)\<^sup>*\<^sup>* (db w) (db (snd (handle_locked g ?A k m w)))"
  proof (rule handle_effect)
    fix w1 :: world and now assume w1: "db w1 = snd (claim_message k (m_message_id m) now (db w))"
    have same: "sender k (db w1) = sender k (db w)" by (simp add: w1 claim_sender)
    show "(sender_step ?C k)\<^sup>*\<^sup>* (db w1) (db (snd (process_message g ?A k m now w1)))"
    proof (rule process_effect)
      show "(sender_step ?C k)\<^sup>*\<^sup>* (db w1)
          (db (snd (settle_before_screening ?A k m (is_test_key g k) now w1)))"
        by (rule keepsD) (rule tg.settle_keeps, simp_all)
    next
      fix st and w' :: world
      assume "settle_before_screening ?A k m (is_test_key g k) now w1 = (Inr (st, None), w')"
      from settle_state [OF this] same have st: "st = sender k (db w) \<or> status st = UNKNOWN" by simp
      have "keeps (sender_step ?C k)\<^sup>*\<^sup>* (screen_message g ?A k m st now)"
        by (rule tg.screen_keeps) (use st no in \<open>auto simp: sender_status_of_def\<close>)
      then show "(sender_step ?C k)\<^sup>*\<^sup>* (db w') (db (snd (screen_message g ?A k m st now w')))"
        by (rule keepsD)
    qed
  qed
  from no_attempt [OF this] assms show False by simp
qed

lemma attempts_only_by_wrong_answer_witness:
  "sender_status_of ''other'' (demo_store Protect [(''other'', demo_row CHALLENGED)]) = CHALLENGED
   \<and> (\<exists>a. answers demo_gatekeeper (sender ''other'' (demo_store Protect
        [(''other'', demo_row CHALLENGED)])) (demo_message ''16'') a)"
proof -
  let ?w = "demo_world (demo_store Protect [(''other'', demo_row CHALLENGED)])"
  have after: "attempts_of ''other'' (db ?w) < attempts_of ''other''
      (db (snd (handle_locked demo_gatekeeper demo_actions ''other'' (demo_message ''16'') ?w)))"
    by code_simp
  have before: "0 \<le> attempts_of ''other'' (db ?w)" by code_simp
  show ?thesis
    using attempts_only_by_wrong_answer [OF after before] by (auto simp: demo_world_def)
qed

subsection \<open>Permanent suppression only through the evidence gate\<close>

lemma sender_step_mode: "sender_step C k s s' \<Longrightarrow> get_mode s' = get_mode s"
  by (induction rule: sender_step.induct)
    (auto simp: store_defs get_mode_def Let_def split_beta split: if_splits option.splits)

lemma sender_steps_mode: "(sender_step C k)\<^sup>*\<^sup>* s s' \<Longrightarrow> get_mode s' = get_mode s"
  by (induction rule: rtranclp_induct) (auto dest: sender_step_mode)

lemma evidence_value:
  assumes "evidence_signals g k m t now w = (Inr sig, w')"
  obtains links extra where "extra = [] \<or> extra = [repeated_campaign_signal]"
    "sig = detect_evidence_signals (gk_unicode g) (m_facts m) links (gk_denylist g) @ extra"
proof -
  let ?links = "recent_link_messages k LINK_WINDOW_SECONDS now (db w)"
  let ?d = "detect_evidence_signals (gk_unicode g) (m_facts m) ?links (gk_denylist g)"
  have "sig = ?d \<or> sig = ?d @ [repeated_campaign_signal]"
    using assms
    by (auto simp: evidence_signals_def then_prog_def prog_defs need_sum_def Let_def
        split: if_splits option.splits sum.splits prod.splits)
  then show ?thesis using that [of "[]" ?links] that [of "[repeated_campaign_signal]" ?links] by auto
qed

lemma suppress_permanently_mild:
  assumes "Delete \<in> C" and "get_mode (db w) = Monitor \<or> m_review_reference m = None"
  shows "(sender_step C k)\<^sup>*\<^sup>* (db w)
    (db (snd (suppress_permanently g (telegram_actions days peer k) k m d now w)))"
proof -
  let ?A = "telegram_actions days peer k"
  let ?w = "w\<lparr>db := audit_signals k (dec_signals d) now (db w)\<rparr>"
  let ?rest = "\<lambda>outcome. then_prog (record_screening k d outcome now) (ret outcome)"
  let ?body = "if get_mode (db w) = Monitor
    then then_prog (queue_review g k m ''would_delete'' (dec_signals d) now) (ret ''would_delete'')
    else then_prog (capture_enforcement_review g k m ''permanent_suppression'' d now)
           (schedule_permanent_suppression g ?A k m now)"
  have audits: "(sender_step C k)\<^sup>*\<^sup>* (db w) (audit_signals k (dec_signals d) now (db w))"
    by (rule tg.audit_signals_R)
  have "keeps (sender_step C k)\<^sup>*\<^sup>* (bind_prog ?body ?rest)"
  proof (cases "get_mode (db w) = Monitor")
    case True
    then show ?thesis by (simp, intro tg.keeps_parts)
  next
    case False
    with assms(2) have none: "m_review_reference m = None" by simp
    have "keeps (sender_step C k)\<^sup>*\<^sup>* (schedule_permanent_suppression g ?A k m now)"
      by (simp add: schedule_permanent_suppression_def none, intro tg.keeps_parts)
    with False show ?thesis by (simp, intro tg.keeps_parts)
  qed
  from audits keepsD [OF this, of ?w] sender_steps_mode [OF audits] show ?thesis
    by (simp add: suppress_permanently_def then_prog_def [of "change _"] bind_prog_def [of "change _"]
        bind_prog_def [of "query _"] change_def query_def)
qed

text \<open>The decision a message leads to with some count of recent links, and with or without the
  campaign signal, is the permanent one.\<close>

definition gate_open :: "gatekeeper \<Rightarrow> incoming_message \<Rightarrow> bool" where
  "gate_open g m \<longleftrightarrow> (\<exists>links extra. (extra = [] \<or> extra = [repeated_campaign_signal]) \<and>
     dec_planned_action (decide (detect_evidence_signals (gk_unicode g) (m_facts m) links
       (gk_denylist g) @ extra)) = PermanentSuppression)"

lemma keeps_mode:
  assumes "keeps (sender_step C k)\<^sup>*\<^sup>* p" and "p w = (r, w')"
  shows "get_mode (db w') = get_mode (db w)"
  using sender_steps_mode [OF keepsD [OF assms(1), of w]] assms(2) by simp

lemma screen_mild:
  assumes "{Delete, Verify, Attempt} \<subseteq> C"
    and "is_test_key g k \<or> get_mode (db w) = Monitor \<or> m_review_reference m = None \<or> \<not> gate_open g m"
  shows "(sender_step C k)\<^sup>*\<^sup>* (db w)
    (db (snd (screen_message g (telegram_actions days peer k) k m st now w)))"
  unfolding screen_message_def
proof (rule steps.keeps_bind_at)
  show "(sender_step C k)\<^sup>*\<^sup>* (db w)
      (db (snd (evidence_signals g k m (is_test_key g k) now w)))"
    by (rule keepsD) (rule tg.evidence_keeps)
next
  let ?A = "telegram_actions days peer k"
  fix sig and w2 :: world
  assume ev: "evidence_signals g k m (is_test_key g k) now w = (Inr sig, w2)"
  have mode: "get_mode (db w2) = get_mode (db w)"
    by (rule keeps_mode [OF tg.evidence_keeps ev])
  let ?d = "decide (if is_test_key g k then [] else sig)"
  show "(sender_step C k)\<^sup>*\<^sup>* (db w2) (db (snd ((let d = ?d in
      if dec_planned_action d = PermanentSuppression \<and> \<not> is_test_key g k
      then suppress_permanently g ?A k m d now
      else if status st = PROVISIONAL \<and> sig = [] then ret ''provisional''
      else if status st = CHALLENGED then handle_challenge g ?A k st m now
      else challenge_sender g ?A k m d now) w2)))"
  proof (cases "dec_planned_action ?d = PermanentSuppression \<and> \<not> is_test_key g k")
    case True
    obtain links extra where extra: "extra = [] \<or> extra = [repeated_campaign_signal]"
      and sig: "sig = detect_evidence_signals (gk_unicode g) (m_facts m) links (gk_denylist g) @ extra"
      by (rule evidence_value [OF ev])
    from True have "dec_planned_action (decide sig) = PermanentSuppression" by auto
    with extra have "gate_open g m" unfolding gate_open_def sig by blast
    with True assms(2) mode have "get_mode (db w2) = Monitor \<or> m_review_reference m = None" by auto
    with assms(1) have "(sender_step C k)\<^sup>*\<^sup>* (db w2)
        (db (snd (suppress_permanently g ?A k m ?d now w2)))"
      by (intro suppress_permanently_mild) simp_all
    with True show ?thesis by (auto simp: Let_def)
  next
    case False
    have "keeps (sender_step C k)\<^sup>*\<^sup>*
      (if status st = PROVISIONAL \<and> sig = [] then ret ''provisional''
       else if status st = CHALLENGED then handle_challenge g ?A k st m now
       else challenge_sender g ?A k m ?d now)"
      using assms(1)
      by (intro tg.keeps_parts tg.handle_challenge_keeps tg.challenge_sender_keeps) simp_all
    from keepsD [OF this, of w2] False show ?thesis by (auto simp: Let_def)
  qed
qed

text \<open>C1. A handled message bans its sender (a suppression without an end) only in protect mode, not
  for the test sender, with a reference to the dialog at hand, and only if its evidence passes the
  destructive gate of the policy, with some count of recent links and possibly the campaign
  signal.\<close>

lemma banned_only_through_gate:
  assumes "banned k (db (snd (handle_locked g (telegram_actions days peer k) k m w)))"
    and "\<not> banned k (db w)"
  shows "\<not> is_test_key g k \<and> get_mode (db w) = Protect \<and> m_review_reference m \<noteq> None
    \<and> gate_open g m"
proof (rule ccontr)
  assume no: "\<not> ?thesis"
  let ?C = "UNIV - {Destroy}" and ?A = "telegram_actions days peer k"
  have "(sender_step ?C k)\<^sup>*\<^sup>* (db w) (db (snd (handle_locked g ?A k m w)))"
  proof (rule handle_effect, rule process_effect)
    fix w1 :: world and now
    show "(sender_step ?C k)\<^sup>*\<^sup>* (db w1)
        (db (snd (settle_before_screening ?A k m (is_test_key g k) now w1)))"
      by (rule keepsD) (rule tg.settle_keeps, simp_all)
  next
    fix w1 :: world and now st and w' :: world
    assume w1: "db w1 = snd (claim_message k (m_message_id m) now (db w))"
      and settled: "settle_before_screening ?A k m (is_test_key g k) now w1 = (Inr (st, None), w')"
    have "get_mode (db w') = get_mode (db w1)"
      by (rule keeps_mode [OF tg.settle_keeps settled, where C = UNIV]) simp_all
    then have "get_mode (db w') = get_mode (db w)"
      by (simp add: w1 claim_message_def get_mode_def)
    with no show "(sender_step ?C k)\<^sup>*\<^sup>* (db w') (db (snd (screen_message g ?A k m st now w')))"
      by (intro screen_mild) (auto, (metis mode.exhaust)+)
  qed
  from no_destroy [OF this] assms show False by simp
qed

lemma banned_only_through_gate_witness:
  "banned ''other'' (db (snd (handle_locked demo_gatekeeper demo_actions ''other'' denied_message
      (demo_world (demo_store Protect []))))) \<and> gate_open demo_gatekeeper denied_message"
proof -
  let ?w = "demo_world (demo_store Protect [])"
  have after: "banned ''other'' (db (snd (handle_locked demo_gatekeeper demo_actions ''other''
      denied_message ?w)))"
    by code_simp
  have before: "\<not> banned ''other'' (db ?w)" by code_simp
  show ?thesis using banned_only_through_gate [OF after before] after by simp
qed

end
