(* ===== verification/Service_Outcomes.thy ===== *)
theory Service_Outcomes
  imports Service_Security
begin

text \<open>
  What the service's programs return, and where they leave the sender, when the actions behave as
  Telegram's implementation does: an action that reports success as a boolean never raises, and
  no action touches the sender's row. \<open>safe_actions\<close> is that contract; \<open>telegram_actions\<close>
  satisfies it for every sequence of server replies.
\<close>

definition row_at :: "sender_key \<Rightarrow> world \<Rightarrow> sender_row option" where
  "row_at k w = map_of (sender_table (db w)) k"

text \<open>A program that returns normally, without touching any sender's row.\<close>

definition harmless :: "'a prog \<Rightarrow> bool" where
  "harmless p \<longleftrightarrow> (\<forall>w. \<exists>x w'. p w = (Inr x, w') \<and> sender_table (db w') = sender_table (db w))"

lemma harmlessE:
  assumes "harmless p"
  obtains x w' where "p w = (Inr x, w')" "sender_table (db w') = sender_table (db w)"
  using assms unfolding harmless_def by blast

lemma harmless_row:
  assumes "harmless p"
  obtains x w' where "p w = (Inr x, w')" "row_at k w' = row_at k w"
  by (rule harmlessE [OF assms, of w]) (simp add: row_at_def)

lemma harmless_ret: "harmless (ret x)"
  by (simp add: harmless_def ret_def)

lemma harmless_change: "(\<And>s. sender_table (f s) = sender_table s) \<Longrightarrow> harmless (change f)"
  by (simp add: harmless_def change_def)

lemma harmless_transact: "(\<And>s. sender_table (snd (f s)) = sender_table s) \<Longrightarrow> harmless (transact f)"
  by (simp add: harmless_def transact_def)

lemma harmless_query: "harmless (query f)"
  by (simp add: harmless_def query_def)

lemma harmless_clock: "harmless read_clock"
  by (simp add: harmless_def read_clock_def)

lemma harmless_draw: "harmless (draw f)"
  by (simp add: harmless_def draw_def)

lemma harmless_schedule: "harmless (schedule j)"
  by (simp add: harmless_def schedule_def)

lemma harmless_bind:
  assumes "harmless p" and "\<And>x. harmless (f x)"
  shows "harmless (bind_prog p f)"
  unfolding harmless_def
proof
  fix w
  obtain x w' where p: "p w = (Inr x, w')" "sender_table (db w') = sender_table (db w)"
    by (rule harmlessE [OF assms(1)])
  obtain y w'' where f: "f x w' = (Inr y, w'')" "sender_table (db w'') = sender_table (db w')"
    by (rule harmlessE [OF assms(2)])
  with p show "\<exists>x w'. bind_prog p f w = (Inr x, w') \<and> sender_table (db w') = sender_table (db w)"
    by (simp add: bind_prog_def)
qed

lemma harmless_then: "harmless p \<Longrightarrow> harmless q \<Longrightarrow> harmless (then_prog p q)"
  unfolding then_prog_def by (rule harmless_bind)

lemma harmless_if: "harmless p \<Longrightarrow> harmless q \<Longrightarrow> harmless (if b then p else q)"
  by simp

lemma harmless_case_option:
  "harmless p \<Longrightarrow> (\<And>y. harmless (f y)) \<Longrightarrow> harmless (case x of None \<Rightarrow> p | Some y \<Rightarrow> f y)"
  by (cases x) auto

lemma harmless_try:
  assumes "\<And>w. sender_table (db (snd (p w))) = sender_table (db w)" and "harmless h"
  shows "harmless (try_except p h)"
  unfolding harmless_def
proof
  fix w
  obtain r w' where p: "p w = (r, w')" by fastforce
  obtain y w'' where h: "h w' = (Inr y, w'')" "sender_table (db w'') = sender_table (db w')"
    by (rule harmlessE [OF assms(2)])
  from p h assms(1) [of w]
  show "\<exists>x w'. try_except p h w = (Inr x, w') \<and> sender_table (db w') = sender_table (db w)"
    by (cases r) (simp_all add: try_except_def)
qed

lemma bind_Inr: "p w = (Inr x, w') \<Longrightarrow> bind_prog p f w = f x w'"
  by (simp add: bind_prog_def)

lemma then_Inr: "p w = (Inr x, w') \<Longrightarrow> then_prog p q w = q w'"
  by (simp add: then_prog_def bind_prog_def)

subsection \<open>The contract\<close>

locale safe_actions =
  fixes A :: actions
  assumes archive_harmless: "harmless (archive_and_mute A)"
    and restore_harmless: "harmless (restore_from_pending A)"
    and delete_harmless: "harmless (delete_message A i)"
    and send_keeps_rows: "sender_table (db (snd (send_text A t reply_to formatting w))) = sender_table (db w)"
    and timeout_harmless: "harmless (schedule_timeout A j at grace)"
    and cancel_harmless: "harmless (cancel_timeout A j)"
    and test_deletion_harmless: "harmless (schedule_test_message_deletion A j since at)"
    and verification_deletion_harmless: "harmless (schedule_verification_message_deletion A j ids at)"
    and dialog_deletion_harmless: "harmless (schedule_dialog_deletion A n at)"
    and reset_harmless: "harmless (schedule_test_state_reset A j seen at)"
begin

lemma send_notice_harmless:
  assumes "\<And>w. sender_table (db (snd (claim_slot g k NoticeSlot now w))) = sender_table (db w)"
    and "harmless (claim_slot g k NoticeSlot now)"
  shows "harmless (send_notice g A k t reply_to formatting now)"
  unfolding send_notice_def
proof (intro harmless_bind assms(2) harmless_if harmless_then harmless_try harmless_ret harmless_change)
  fix w :: world
  obtain r w' where s: "send_text A t reply_to formatting w = (r, w')" by fastforce
  with send_keeps_rows [of t reply_to formatting w]
  show "sender_table (db (snd (bind_prog (send_text A t reply_to formatting) (\<lambda>message_id.
      bind_prog read_clock (\<lambda>at. then_prog (change (record_automated_message k message_id at))
        (ret (Some message_id)))) w))) = sender_table (db w)"
    by (cases r) (simp_all add: bind_prog_def then_prog_def read_clock_def change_def ret_def
        record_automated_message_def)
qed (simp_all add: audit_def Let_def)

lemma restore_with_retry_harmless: "harmless (restore_with_retry A)"
proof -
  have "harmless (restore_tries A n)" for n
  proof (induction n)
    case 0
    then show ?case by (simp add: harmless_ret)
  next
    case (Suc n)
    have "harmless (try_except (restore_from_pending A) (ret False))"
    proof (rule harmless_try)
      fix w :: world
      show "sender_table (db (snd (restore_from_pending A w))) = sender_table (db w)"
        by (rule harmlessE [OF restore_harmless, of w]) simp
    qed (rule harmless_ret)
    with Suc show ?case by (simp add: harmless_bind harmless_ret)
  qed
  then show ?thesis by (simp add: restore_with_retry_def)
qed

end

subsection \<open>Telegram's actions are safe\<close>

lemma telegram_rows: "sender_table (db (snd (telegram q w))) = sender_table (db w)"
  by (simp add: telegram_def Let_def)

lemma telegram_peer_rows: "sender_table (db (snd (telegram_peer p q w))) = sender_table (db w)"
  by (cases p) (simp_all add: telegram_peer_def raise_exn_def telegram_rows)

definition same_rows :: "store \<Rightarrow> store \<Rightarrow> bool" where
  "same_rows s s' \<longleftrightarrow> sender_table s' = sender_table s"

interpretation rows: store_relation same_rows
  by unfold_locales (simp_all add: same_rows_def)

lemma rows_snapshot:
  "keeps same_rows (change (save_dialog_snapshot k d))"
  "keeps same_rows (change (clear_dialog_snapshot k))"
  by (rule rows.keeps_change, simp add: same_rows_def save_dialog_snapshot_def clear_dialog_snapshot_def)+

lemma rows_attempt: "keeps same_rows p \<Longrightarrow> keeps same_rows (attempt p)"
  by (simp add: keeps_iff attempt_def)

lemma rows_need_sum: "keeps same_rows (need_sum x)"
  by (cases x) (simp_all add: need_sum_def rows.keeps_raise rows.keeps_ret)

lemma keeps_rowsD: "keeps same_rows p \<Longrightarrow> sender_table (db (snd (p w))) = sender_table (db w)"
  using keepsD [of same_rows p w] by (simp add: same_rows_def)

lemma harmlessI:
  assumes "keeps same_rows p" and "\<And>w e w'. p w \<noteq> (Inl e, w')"
  shows "harmless p"
  unfolding harmless_def
proof
  fix w
  obtain r w' where p: "p w = (r, w')" by fastforce
  with assms(2) [of w] obtain x where "r = Inr x" by (cases r) auto
  with p keeps_rowsD [OF assms(1), of w]
  show "\<exists>x w'. p w = (Inr x, w') \<and> sender_table (db w') = sender_table (db w)" by auto
qed

lemma try_ret_total: "try_except p (ret b) w \<noteq> (Inl e, w')"
  by (auto simp: try_except_def ret_def split: prod.splits sum.splits)

lemma restore_dialog_rows: "keeps same_rows (restore_dialog peer k)"
  unfolding restore_dialog_def
  by (auto intro!: rows.keeps_control rows_snapshot simp: Let_def split_beta)

lemma restore_dialog_harmless: "harmless (restore_dialog peer k)"
  by (rule harmlessI [OF restore_dialog_rows]) (simp add: restore_dialog_def try_ret_total)

lemma archive_rows: "keeps same_rows (tg_archive_and_mute days peer k)"
  unfolding tg_archive_and_mute_def tg_restore_from_pending_def snapshot_dialog_def
  by (auto intro!: rows.keeps_control rows_attempt restore_dialog_rows rows_snapshot
      split: option.splits reply.splits sum.splits)

lemma bind_not_raise:
  assumes "harmless p" and "\<And>x w. \<nexists>e w'. f x w = (Inl e, w')"
  shows "bind_prog p f w \<noteq> (Inl e, w')"
  by (rule harmlessE [OF assms(1), of w]) (use assms(2) in \<open>auto simp: bind_prog_def\<close>)

lemma archive_total: "tg_archive_and_mute days peer k w \<noteq> (Inl e, w')"
proof -
  have "harmless (bind_prog (tg_restore_from_pending peer k) (\<lambda>_. ret False))"
    unfolding tg_restore_from_pending_def
    by (intro harmless_bind restore_dialog_harmless harmless_ret)
  then have total: "bind_prog (tg_restore_from_pending peer k) (\<lambda>_. ret False) w \<noteq> (Inl e, w')" for w
    by (metis harmlessE Inl_Inr_False prod.inject)
  then show ?thesis
    by (auto simp: tg_archive_and_mute_def bind_prog_def [of "attempt _"] attempt_def ret_def
        split: sum.splits prod.splits)
qed

lemma delete_message_harmless: "harmless (tg_delete_message peer i)"
proof (rule harmlessI)
  show "keeps same_rows (tg_delete_message peer i)"
    unfolding tg_delete_message_def by (intro rows.keeps_control)
qed (simp add: tg_delete_message_def try_ret_total)

lemma send_text_rows: "keeps same_rows (tg_send_text peer t reply_to formatting)"
  unfolding tg_send_text_def
  by (auto intro!: rows.keeps_control rows_need_sum split: reply.splits)

interpretation tg_safe: safe_actions "telegram_actions days peer k" for days peer k
  by unfold_locales
    (auto simp: telegram_actions_def tg_restore_from_pending_def adapter_schedule_timeout_def
      intro: harmlessI [OF archive_rows archive_total] restore_dialog_harmless
        delete_message_harmless keeps_rowsD [OF send_text_rows] harmless_then harmless_schedule)

end
