(* ===== verification/Service_Rows.thy ===== *)
theory Service_Rows
  imports Service_Outcomes Scenarios
begin

text \<open>
  A small logic of total correctness for the sender's row, and with it what each program of the
  challenge flow returns and leaves in the row, for all actions that satisfy \<open>safe_actions\<close>.
\<close>

subsection \<open>Total correctness on the sender's row\<close>

text \<open>
  \<open>row_triple k r p Q\<close>: started with \<open>r\<close> as the row of \<open>k\<close>, the program returns a value \<open>x\<close>,
  without raising, and leaves a row \<open>r'\<close> with \<open>Q x r'\<close>.
\<close>

definition row_triple ::
  "sender_key \<Rightarrow> sender_row option \<Rightarrow> 'a prog \<Rightarrow> ('a \<Rightarrow> sender_row option \<Rightarrow> bool) \<Rightarrow> bool" where
  "row_triple k r p Q \<longleftrightarrow>
     (\<forall>w. row_at k w = r \<longrightarrow> (\<exists>x w'. p w = (Inr x, w') \<and> Q x (row_at k w')))"

lemma row_tripleE:
  assumes "row_triple k r p Q" and "row_at k w = r"
  obtains x w' where "p w = (Inr x, w')" "Q x (row_at k w')"
  using assms unfolding row_triple_def by blast

lemma triple_harmless:
  assumes "harmless p" and "\<And>x. Q x r"
  shows "row_triple k r p Q"
  unfolding row_triple_def
proof (intro allI impI)
  fix w assume w: "row_at k w = r"
  show "\<exists>x w'. p w = (Inr x, w') \<and> Q x (row_at k w')"
    by (rule harmless_row [OF assms(1), of w k]) (use w assms(2) in auto)
qed

lemma triple_ret: "Q x r \<Longrightarrow> row_triple k r (ret x) Q"
  by (simp add: row_triple_def ret_def)

lemma triple_bind:
  assumes "row_triple k r p P" and "\<And>x r'. P x r' \<Longrightarrow> row_triple k r' (f x) Q"
  shows "row_triple k r (bind_prog p f) Q"
  unfolding row_triple_def
proof (intro allI impI)
  fix w assume "row_at k w = r"
  with assms(1) obtain x w' where p: "p w = (Inr x, w')" "P x (row_at k w')"
    by (rule row_tripleE)
  obtain y w'' where "f x w' = (Inr y, w'')" "Q y (row_at k w'')"
    by (rule row_tripleE [OF assms(2) [OF p(2)] refl])
  with p show "\<exists>x w'. bind_prog p f w = (Inr x, w') \<and> Q x (row_at k w')"
    by (simp add: bind_Inr)
qed

lemma triple_skip:
  assumes "harmless p" and "\<And>x. row_triple k r (f x) Q"
  shows "row_triple k r (bind_prog p f) Q"
  by (rule triple_bind [OF triple_harmless [OF assms(1), of "\<lambda>_ r'. r' = r"]]) (use assms(2) in auto)

lemma triple_then:
  "row_triple k r p (\<lambda>_ r'. P r') \<Longrightarrow> (\<And>r'. P r' \<Longrightarrow> row_triple k r' q Q)
   \<Longrightarrow> row_triple k r (then_prog p q) Q"
  unfolding then_prog_def by (rule triple_bind)

lemma triple_then_skip:
  "harmless p \<Longrightarrow> row_triple k r q Q \<Longrightarrow> row_triple k r (then_prog p q) Q"
  unfolding then_prog_def by (rule triple_skip)


lemma triple_then_change:
  assumes "\<And>s. map_of (sender_table s) k = r \<Longrightarrow> map_of (sender_table (f s)) k = r'"
    and "row_triple k r' q Q"
  shows "row_triple k r (then_prog (change f) q) Q"
  using assms by (auto simp: row_triple_def row_at_def then_prog_def bind_prog_def change_def)

lemma triple_transact:
  assumes "\<And>s. map_of (sender_table s) k = r \<Longrightarrow>
      fst (f s) = x \<and> map_of (sender_table (snd (f s))) k = r'"
    and "row_triple k r' (p x) Q"
  shows "row_triple k r (bind_prog (transact f) p) Q"
  using assms by (auto simp: row_triple_def row_at_def bind_prog_def transact_def)

lemma triple_sender:
  "row_triple k r (p (case r of None \<Rightarrow> unknown_sender | Some x \<Rightarrow> sender_state.truncate x)) Q
   \<Longrightarrow> row_triple k r (bind_prog (query (sender k)) p) Q"
  by (auto simp: row_triple_def row_at_def bind_prog_def query_def sender_def)

lemma triple_draw:
  "(\<And>n. row_triple k r (f (h n)) Q) \<Longrightarrow> row_triple k r (bind_prog (draw h) f) Q"
  by (auto simp: row_triple_def row_at_def bind_prog_def draw_def)

lemma triple_attempt:
  assumes "row_triple k r p P" and "\<And>x r'. P x r' \<Longrightarrow> row_triple k r' (f (Inr x)) Q"
  shows "row_triple k r (bind_prog (attempt p) f) Q"
proof (rule triple_bind)
  show "row_triple k r (attempt p) (\<lambda>y r'. \<exists>x. y = Inr x \<and> P x r')"
    using assms(1) by (fastforce simp: row_triple_def attempt_def)
qed (use assms(2) in auto)

lemma triple_attempt_rows:
  assumes "\<And>w. sender_table (db (snd (p w))) = sender_table (db w)"
    and "\<And>y. row_triple k r (f y) Q"
  shows "row_triple k r (bind_prog (attempt p) f) Q"
proof (rule triple_bind)
  show "row_triple k r (attempt p) (\<lambda>_ r'. r' = r)"
    by (auto simp: row_triple_def attempt_def row_at_def assms(1))
qed (use assms(2) in auto)

lemma triple_option:
  "(x = None \<Longrightarrow> row_triple k r p Q) \<Longrightarrow> (\<And>y. x = Some y \<Longrightarrow> row_triple k r (f y) Q)
   \<Longrightarrow> row_triple k r (case x of None \<Rightarrow> p | Some y \<Rightarrow> f y) Q"
  by (cases x) auto

lemma triple_if:
  "(b \<Longrightarrow> row_triple k r p Q) \<Longrightarrow> (\<not> b \<Longrightarrow> row_triple k r q Q)
   \<Longrightarrow> row_triple k r (if b then p else q) Q"
  by simp

lemma triple_weaken:
  "row_triple k r p P \<Longrightarrow> (\<And>x r'. P x r' \<Longrightarrow> Q x r') \<Longrightarrow> row_triple k r p Q"
  unfolding row_triple_def by blast

text \<open>What cannot change the row is skipped.\<close>

lemma harmless_audit: "harmless (change (audit k rule_code outcome at))"
  by (rule harmless_change) (simp add: audit_def Let_def)

lemma harmless_automated: "harmless (change (record_automated_message k i at))"
  by (rule harmless_change) (simp add: record_automated_message_def)

lemmas harmless_intros =
  harmless_ret harmless_query harmless_clock harmless_draw harmless_schedule harmless_audit
  harmless_automated harmless_bind harmless_then harmless_if harmless_case_option

lemmas skip_steps =
  triple_skip [OF harmless_clock] triple_skip [OF harmless_draw] triple_then_skip [OF harmless_audit]
  triple_then_skip [OF harmless_automated]

subsection \<open>Delivering a challenge\<close>

definition forgotten :: "sender_row option \<Rightarrow> bool" where
  "forgotten ro \<longleftrightarrow> (\<exists>r. ro = Some r \<and> status r = UNKNOWN \<and> challenge_id r = None
     \<and> answer_digest r = None \<and> challenge_expires_at r = None \<and> attempts r = 0)"

definition delivered :: "sender_row \<Rightarrow> string \<Rightarrow> sender_row option \<Rightarrow> bool" where
  "delivered r x ro \<longleftrightarrow> x = ''fail_safe'' \<and> forgotten ro
     \<or> x = ''challenged'' \<and> (\<exists>r'. ro = Some r' \<and> status r' = CHALLENGED
        \<and> challenge_message_id r' \<noteq> None \<and> challenge_expires_at r' \<noteq> None
        \<and> challenge_id r' = challenge_id r \<and> answer_digest r' = answer_digest r
        \<and> attempts r' = attempts r)"

lemma reset_triple:
  assumes "status r \<in> CHALLENGE_STARTING_STATUSES"
    and "\<And>ro. forgotten ro \<Longrightarrow> row_triple k ro (p True) Q"
  shows "row_triple k (Some r) (bind_prog (transact (reset_incomplete_challenge k at)) p) Q"
  by (rule triple_transact [where x = True], use assms(1) in
      \<open>simp add: reset_incomplete_challenge_def update_sender_def table_simps
         delete_enforcement_review_def split_beta Let_def\<close>) (rule assms(2), simp add: forgotten_def)

lemma update_sender_triple:
  assumes "f = update_sender k P h" and "P r" and "row_triple k (Some (h r)) (p True) Q"
  shows "row_triple k (Some r) (bind_prog (transact f) p) Q"
proof (rule triple_transact)
  show "row_triple k (Some (h r)) (p True) Q" by (rule assms(3))
qed (simp add: assms(1,2) update_sender_def table_simps)

lemma then_fail_safe:
  assumes "harmless p" and "forgotten ro"
  shows "row_triple k ro (then_prog p (ret ''fail_safe'')) (delivered r)"
  using assms by (intro triple_then_skip triple_ret) (simp_all add: delivered_def)

context safe_actions
begin

lemma delete_optional_harmless:
  "harmless (case i of None \<Rightarrow> ret () | Some j \<Rightarrow> bind_prog (delete_message A j) (\<lambda>_. ret ()))"
  by (intro harmless_intros delete_harmless)

lemma roll_back_triple:
  assumes "status r \<in> CHALLENGE_STARTING_STATUSES"
  shows "row_triple k (Some r) (roll_back_delivery A k False message_id now) (delivered r)"
proof -
  have "row_triple k (Some r)
      (bind_prog read_clock (\<lambda>at. bind_prog (transact (reset_incomplete_challenge k at)) (\<lambda>_. ret ())))
      (\<lambda>_. forgotten)"
    by (intro triple_skip harmless_clock reset_triple [OF assms] triple_ret)
  then show ?thesis
    unfolding roll_back_delivery_def
    by (simp, intro triple_then [where P = forgotten] triple_then_skip delete_optional_harmless
        cancel_harmless then_fail_safe harmless_audit) simp_all
qed

lemma withdraw_triple:
  assumes "status r \<in> CHALLENGE_STARTING_STATUSES"
  shows "row_triple k (Some r) (withdraw_challenge A k message_id cancel rule_code result now)
    (\<lambda>x ro. x = ''fail_safe'' \<and> forgotten ro)"
  unfolding withdraw_challenge_def
  by (intro triple_skip delete_harmless harmless_clock reset_triple [OF assms] triple_then_skip
      harmless_intros cancel_harmless triple_ret) simp

lemma bind_sent_triple:
  assumes "status r = CHALLENGE_ISSUING"
  shows "row_triple k (Some r) (bind_sent_challenge g A k message_id now) (\<lambda>x ro. case x of
      Inl outcome \<Rightarrow> outcome = ''fail_safe'' \<and> forgotten ro
    | Inr expires_at \<Rightarrow> (\<exists>r'. ro = Some r' \<and> status r' = CHALLENGE_ARCHIVING
        \<and> challenge_message_id r' = Some message_id \<and> challenge_expires_at r' = Some expires_at
        \<and> challenge_id r' = challenge_id r \<and> answer_digest r' = answer_digest r
        \<and> attempts r' = attempts r))"
  unfolding bind_sent_challenge_def Let_def
  apply (intro skip_steps)
  apply (rule update_sender_triple [OF refresh_challenge_expiry_def], simp add: assms)
  apply (simp, intro skip_steps)
  apply (rule update_sender_triple [OF bind_challenge_message_def], simp add: assms)
  apply (simp, intro triple_skip [OF archive_harmless] triple_if)
   apply (rule triple_bind [OF withdraw_triple], simp add: status_sets, rule triple_ret, simp)
  apply (rule triple_ret, simp)
  done

lemma activate_sent_triple:
  assumes "status r = CHALLENGE_ARCHIVING"
  shows "row_triple k (Some r) (activate_sent_challenge A k message_id now)
    (\<lambda>x ro. x = None \<and> (\<exists>r'. ro = Some r' \<and> status r' = CHALLENGED
        \<and> challenge_message_id r' = challenge_message_id r
        \<and> challenge_expires_at r' = challenge_expires_at r
        \<and> challenge_id r' = challenge_id r \<and> answer_digest r' = answer_digest r
        \<and> attempts r' = attempts r))"
  unfolding activate_sent_challenge_def
  apply (rule triple_skip [OF harmless_clock])
  apply (rule update_sender_triple [OF activate_challenge_def], simp add: assms)
  apply (simp, rule triple_ret, simp)
  done

lemma deliver_triple:
  assumes "status r = CHALLENGE_ISSUING"
  shows "row_triple k (Some r) (deliver_challenge g A k prompt now) (delivered r)"
  unfolding deliver_challenge_def
proof (rule triple_attempt_rows)
  fix w :: world
  show "sender_table (db (snd (bind_prog (need ''ValueError'' (challenge_prompt_formatting prompt))
      (\<lambda>formatting. send_text A prompt None formatting) w))) = sender_table (db w)"
    by (cases "challenge_prompt_formatting prompt")
      (simp_all add: need_def send_keeps_rows raise_exn_def)
next
  fix sent :: "exn + int"
  show "row_triple k (Some r) (case sent of Inl _ \<Rightarrow> roll_back_delivery A k False None now
      | Inr message_id \<Rightarrow>
        bind_prog (attempt (bind_sent_challenge g A k message_id now)) (\<lambda>delivered.
        case delivered of
          Inl _ \<Rightarrow> roll_back_delivery A k False (Some message_id) now
        | Inr (Inl outcome) \<Rightarrow> ret outcome
        | Inr (Inr expires_at) \<Rightarrow>
            bind_prog (attempt (activate_sent_challenge A k message_id now)) (\<lambda>activated.
            case activated of
              Inl _ \<Rightarrow> roll_back_delivery A k True (Some message_id) now
            | Inr (Some outcome) \<Rightarrow> ret outcome
            | Inr None \<Rightarrow>
                then_prog (change (audit k ''CHALLENGE_SENT'' ''archived_muted'' now))
                (then_prog (schedule_timeout A k expires_at CHALLENGE_PROCESSING_GRACE_SECONDS)
                   (ret ''challenged''))))) (delivered r)"
  proof (cases sent)
    case (Inl e)
    then show ?thesis using roll_back_triple assms by (simp add: status_sets)
  next
    case (Inr message_id)
    show ?thesis
      apply (simp add: Inr)
      apply (rule triple_attempt [OF bind_sent_triple [OF assms]])
      apply (auto split: sum.split_asm simp: delivered_def intro!: triple_ret)
      apply (rule triple_attempt [OF activate_sent_triple], assumption)
      apply (auto simp: delivered_def
          intro!: triple_then_skip harmless_audit timeout_harmless triple_ret)
      done
  qed
qed

end

subsection \<open>The quota and the notices\<close>

lemma harmless_rows: "harmless p \<Longrightarrow> sender_table (db (snd (p w))) = sender_table (db w)"
  by (erule harmlessE [where w = w]) simp

text \<open>What \<open>GatekeeperService.__init__\<close> checks, and the keys the protector makes.\<close>

definition quota_ok :: "gatekeeper \<Rightarrow> sender_key \<Rightarrow> bool" where
  "quota_ok g k \<longleftrightarrow> 0 \<le> gk_notice_reserve g \<and> gk_notice_reserve g < gk_outbound_limit g
     \<and> 1 \<le> gk_notice_sender_limit g \<and> k \<noteq> []"

lemma new_gatekeeper_quota:
  "new_gatekeeper p ttl max_att limit reserve sender_limit rd cd dl test seal factory u = Inr g
   \<Longrightarrow> k \<noteq> [] \<Longrightarrow> quota_ok g k"
  by (auto simp: new_gatekeeper_def quota_ok_def Let_def split: if_splits)

lemma claim_slot_harmless: "quota_ok g k \<Longrightarrow> harmless (claim_slot g k category now)"
  by (auto simp: harmless_def claim_slot_def ret_def transact_exn_def claim_outbound_slot_def
      quota_ok_def Let_def split: if_splits)

lemma need_harmless: "x \<noteq> None \<Longrightarrow> harmless (need e x)"
  by (auto simp: need_def harmless_ret)

lemma review_change_harmless:
  "harmless (transact (enqueue_review k reference c s f e at))"
  "harmless (transact (activate_enforcement_review k reason e ref at))"
  "harmless (transact (delete_enforcement_review k))"
  "harmless (transact (schedule_action k reason refr at expected independent ts))"
  by (rule harmless_transact, simp add: store_defs Let_def split_beta split: option.splits)+

lemma activate_review_harmless: "harmless (activate_review g k reason reference now)"
  unfolding activate_review_def
  by (intro harmless_try harmless_rows harmless_intros review_change_harmless)

lemma queue_review_harmless: "harmless (queue_review g k m classification signals now)"
  unfolding queue_review_def
  by (intro harmless_intros review_change_harmless)

lemma restriction_reference_harmless: "harmless (restriction_reference_for g reference)"
  unfolding restriction_reference_for_def
  by (auto intro!: harmless_intros split: option.splits)

context safe_actions
begin

lemma notice_harmless:
  assumes "quota_ok g k"
  shows "harmless (send_notice g A k t reply_to formatting now)"
  by (intro send_notice_harmless harmless_rows claim_slot_harmless assms)

end

subsection \<open>Correct answers\<close>

text \<open>The challenge has been passed: the row keeps neither the challenge nor its digest.\<close>

definition verified :: "sender_row \<Rightarrow> string \<Rightarrow> sender_row option \<Rightarrow> bool" where
  "verified r x ro \<longleftrightarrow> x = ''provisional'' \<and> (\<exists>r'. ro = Some r' \<and> status r' = PROVISIONAL
     \<and> challenge_id r' = None \<and> answer_digest r' = None \<and> attempts r' = 0
     \<and> revision r' = revision r + 1)"

context safe_actions
begin

lemma accepted_triple:
  assumes "quota_ok g k"
  shows "row_triple k (Some r) (then_prog (change (mark_provisional k now))
      (then_prog (change (audit k ''CHALLENGE_CORRECT'' ''provisional'' now))
      (then_prog (cancel_timeout A k)
      (bind_prog (need ''ValueError'' (notice_formatting VERIFICATION_PASSED_TEXT)) (\<lambda>formatting.
       bind_prog (send_notice g A k VERIFICATION_PASSED_TEXT (Some (m_message_id m)) formatting now)
         (\<lambda>passed_message_id.
       bind_prog (query (verification_message_ids k state m passed_message_id)) (\<lambda>ids.
       then_prog (schedule_verification_message_deletion A k ids
           (now + VERIFICATION_SUCCESS_DELETE_DELAY_SECONDS))
       (then_prog (change (audit k ''CHALLENGE_CLEANUP'' ''scheduled'' now))
       (then_prog
          (if is_test_key g k
           then schedule_test_state_reset A k now (now + TEST_STATE_RESET_DELAY_SECONDS)
           else ret ())
          (ret ''provisional'')))))))))) (verified r)"
    (is "row_triple k (Some r) (then_prog ?mark ?rest) _")
proof -
  let ?p = "set_state_row PROVISIONAL None None None 0 None (revision r + 1) now"
  have "row_triple k (Some ?p) ?rest (verified r)"
    by (intro skip_steps triple_then_skip [OF cancel_harmless]
        triple_skip [OF need_harmless [OF notice_formatting_total]]
        triple_skip [OF notice_harmless [OF assms]] triple_skip [OF harmless_query]
        triple_then_skip [OF verification_deletion_harmless]
        triple_then_skip [OF harmless_if [OF reset_harmless harmless_ret]] triple_ret)
      (simp add: verified_def set_state_row_def)
  then show ?thesis
    by (rule triple_then_change [rotated]) (simp add: store_defs table_simps)
qed

lemma accept_triple:
  assumes "quota_ok g k"
  shows "row_triple k (Some r) (accept_correct_answer g A k state m now)
    (\<lambda>x ro. verified r x ro \<or> x = ''fail_safe'' \<and> ro = Some r)"
  unfolding accept_correct_answer_def
proof (intro triple_skip [OF restore_with_retry_harmless] triple_if, goal_cases)
  case 1
  then show ?case
    by (intro skip_steps triple_then_skip [OF queue_review_harmless] triple_ret) simp
next
  case 2
  show ?case by (rule triple_weaken [OF accepted_triple [OF assms]]) simp
qed

end

subsection \<open>Wrong answers\<close>

lemma emphasized_pair: "emphasized (p @ a @ q @ b) [p, q] \<noteq> None"
proof -
  have "find_sub (p @ a @ q @ b) p = Some 0" by (rule find_sub_prefix)
  moreover obtain i where "find_sub (a @ q @ b) q = Some i"
    using find_sub_exists [of a q b] by auto
  ultimately show ?thesis by (simp add: emphasized_def index_from_def)
qed

lemma incorrect_formatting: "emphasized (incorrect_text n) [INCORRECT_TITLE, remaining_text n] \<noteq> None"
  using emphasized_pair [of INCORRECT_TITLE "para @ ustr ''Send digits only. ''" "remaining_text n" "ustr ''.''"]
  by (simp add: incorrect_text_def)

lemma failed_formatting: "emphasized (failed_text g k) [FAILED_TITLE, ustr ''10 seconds''] \<noteq> None"
proof -
  have "emphasized VERIFICATION_FAILED_TEXT [FAILED_TITLE, ustr ''10 seconds''] \<noteq> None"
    and "emphasized TEST_VERIFICATION_FAILED_TEXT [FAILED_TITLE, ustr ''10 seconds''] \<noteq> None"
    by code_simp+
  then show ?thesis by (simp add: failed_text_def)
qed

definition restricted_at :: "sender_row option \<Rightarrow> bool" where
  "restricted_at ro \<longleftrightarrow> (\<exists>r. ro = Some r \<and> restricted_row r)"

lemma quarantine_triple:
  assumes "\<And>ro. restricted_at ro \<Longrightarrow> row_triple k ro q Q"
  shows "row_triple k r (then_prog (change (quarantine k restriction now)) q) Q"
proof (rule triple_then_change)
  let ?r = "set_state_row QUARANTINED None None None 0 restriction
    (case r of None \<Rightarrow> 1 | Some x \<Rightarrow> revision x + 1) now"
  show "row_triple k (Some ?r) q Q"
    by (rule assms) (simp add: restricted_at_def restricted_row_def set_state_row_def)
qed (simp add: store_defs table_simps split: option.splits)

lemma quarantine_sender_triple:
  "row_triple k r (quarantine_sender g k reference now) (\<lambda>_. restricted_at)"
proof -
  have "row_triple k r (then_prog (change (quarantine k restriction now)) (ret ()))
      (\<lambda>_. restricted_at)" for restriction
    by (rule quarantine_triple) (rule triple_ret)
  moreover have "then_prog (change f) (ret ()) = change f" for f
    by (simp add: fun_eq_iff then_prog_def bind_prog_def change_def ret_def)
  ultimately show ?thesis
    unfolding quarantine_sender_def
    by (intro triple_skip restriction_reference_harmless) simp
qed

lemma suppress_triple:
  assumes "\<And>ro x. restricted_at ro \<Longrightarrow> row_triple k ro (q x) Q"
  shows "row_triple k r (bind_prog (transact (suppress k reason until reference restriction now)) q) Q"
proof (rule triple_bind)
  show "row_triple k r (transact (suppress k reason until reference restriction now))
      (\<lambda>_. restricted_at)"
    by (auto simp: row_triple_def row_at_def transact_def restricted_at_def restricted_row_def
        suppress_def Let_def table_simps split: option.splits)
qed (rule assms)

context safe_actions
begin

lemma fail_exhausted_triple:
  assumes "quota_ok g k"
  shows "row_triple k r (fail_exhausted_attempts g A k state m now)
    (\<lambda>x ro. x \<in> {''quarantined'', ''suppressed''} \<and> restricted_at ro)"
  unfolding fail_exhausted_attempts_def
proof (intro triple_then_skip [OF cancel_harmless] triple_skip [OF need_harmless [OF failed_formatting]]
    triple_skip [OF notice_harmless [OF assms]] triple_if triple_option)
  show "row_triple k r (then_prog (quarantine_sender g k (m_review_reference m) now)
       (then_prog (activate_review g k ''warning_failed'' (m_review_reference m) now)
       (then_prog (queue_review g k m ''warning_failed'' [] now)
       (then_prog (change (audit k ''attempts_exhausted'' ''warning_failed'' now))
          (ret ''quarantined'')))))
     (\<lambda>x ro. x \<in> {''quarantined'', ''suppressed''} \<and> restricted_at ro)"
    by (rule triple_then [OF quarantine_sender_triple])
      (intro triple_then_skip activate_review_harmless queue_review_harmless harmless_audit
        triple_ret, simp)
next
  show "row_triple k r (then_prog (change (quarantine k None now))
         (then_prog (activate_review g k ''reference_unavailable'' None now)
         (then_prog (change (audit k ''attempts_exhausted'' ''reference_unavailable'' now))
            (ret ''quarantined''))))
     (\<lambda>x ro. x \<in> {''quarantined'', ''suppressed''} \<and> restricted_at ro)"
    by (rule quarantine_triple)
      (intro triple_then_skip activate_review_harmless harmless_audit triple_ret, simp)
next
  fix reference
  show "row_triple k r (bind_prog
           (if is_test_key g k then
              then_prog (change (quarantine k None now))
              (bind_prog (query (sender k)) (\<lambda>terminal.
               then_prog (schedule_test_state_reset A k (updated_at terminal)
                   (now + TEST_STATE_RESET_DELAY_SECONDS)) (ret terminal)))
            else
              bind_prog (restriction_reference_for g (Some reference)) (\<lambda>restriction.
              bind_prog (transact (suppress k ''attempts_exhausted''
                  (Some (now + VERIFICATION_FAILED_SUPPRESSION_SECONDS)) (Some reference)
                  restriction now)) (\<lambda>terminal.
              then_prog (activate_review g k ''attempts_exhausted'' (Some reference) now)
                (ret terminal)))) (\<lambda>terminal.
         bind_prog (transact (schedule_action k ''attempts_exhausted'' reference
             (now + FAILED_DIALOG_DELETE_DELAY_SECONDS) (revision terminal) (is_test_key g k) now))
           (\<lambda>action_id.
         then_prog (schedule_dialog_deletion A action_id
             (now + FAILED_DIALOG_DELETE_DELAY_SECONDS))
         (then_prog (change (audit k ''attempts_exhausted'' ''dialog_deletion_scheduled'' now))
            (ret (if is_test_key g k then ''quarantined'' else ''suppressed''))))))
     (\<lambda>x ro. x \<in> {''quarantined'', ''suppressed''} \<and> restricted_at ro)"
  proof (rule triple_bind [where P = "\<lambda>_. restricted_at"], goal_cases)
    case 1
    show ?case
      by (intro triple_if quarantine_triple triple_skip [OF harmless_query]
          triple_then_skip [OF reset_harmless] triple_skip [OF restriction_reference_harmless]
          suppress_triple triple_then_skip [OF activate_review_harmless] triple_ret)
  next
    case (2 x r')
    then show ?case
      by (intro triple_skip [OF review_change_harmless(4)] triple_then_skip
          dialog_deletion_harmless harmless_audit triple_ret) simp
  qed
qed

end

context safe_actions
begin

lemma wrong_triple:
  assumes "quota_ok g k" and "answers g (sender_state.truncate r) m a"
    and "\<not> answer_matches g k (sender_state.truncate r) a"
  shows "row_triple k (Some r) (handle_challenge g A k (sender_state.truncate r) m now)
    (\<lambda>x ro. if attempts r + 1 \<ge> challenge_limit g (challenge_profile r)
       then x \<in> {''quarantined'', ''suppressed''} \<and> restricted_at ro
       else x = ''challenge_incorrect''
         \<and> ro = Some (r\<lparr>attempts := attempts r + 1, updated_at := now\<rparr>))"
proof -
  let ?r = "r\<lparr>attempts := attempts r + 1, updated_at := now\<rparr>"
  let ?s = "sender_state.truncate r"
  let ?Q = "\<lambda>x ro. if attempts r + 1 \<ge> challenge_limit g (challenge_profile r)
       then x \<in> {''quarantined'', ''suppressed''} \<and> restricted_at ro
       else x = ''challenge_incorrect'' \<and> ro = Some ?r"
  have "row_triple k (Some r) (bind_prog (transact (increment_attempts k now)) (\<lambda>used.
         then_prog (change (audit k ''CHALLENGE_INCORRECT'' ''rejected'' now))
         (if used \<ge> challenge_limit g (challenge_profile ?s)
          then fail_exhausted_attempts g A k ?s m now
          else reject_incorrect_answer g A k ?s (challenge_limit g (challenge_profile ?s) - used) now)))
       ?Q"
  proof (rule triple_transact [where x = "attempts r + 1" and r' = "Some ?r"], goal_cases)
    case (1 s)
    then show ?case
      by (simp add: increment_attempts_def update_sender_def Let_def table_simps)
  next
    case 2
    show ?case
    proof (intro skip_steps triple_if)
      assume "challenge_limit g (challenge_profile ?s) \<le> attempts r + 1"
      then show "row_triple k (Some ?r) (fail_exhausted_attempts g A k ?s m now) ?Q"
        by (intro triple_weaken [OF fail_exhausted_triple [OF assms(1)]]) simp
    next
      assume "\<not> challenge_limit g (challenge_profile ?s) \<le> attempts r + 1"
      then show "row_triple k (Some ?r) (reject_incorrect_answer g A k ?s
          (challenge_limit g (challenge_profile ?s) - (attempts r + 1)) now) ?Q"
        unfolding reject_incorrect_answer_def
        by (intro triple_skip [OF need_harmless [OF incorrect_formatting]]
            triple_skip [OF notice_harmless [OF assms(1)]] triple_ret) simp
    qed
  qed
  with assms(2,3) show ?thesis
    by (simp add: handle_challenge_def answers_def need_sum_def)
qed

lemma correct_triple:
  assumes "quota_ok g k" and "answers g (sender_state.truncate r) m a"
    and "answer_matches g k (sender_state.truncate r) a"
  shows "row_triple k (Some r) (handle_challenge g A k (sender_state.truncate r) m now)
    (\<lambda>x ro. verified r x ro \<or> x = ''fail_safe'' \<and> ro = Some r)"
  using accept_triple [OF assms(1)] assms(2,3)
  by (simp add: handle_challenge_def answers_def need_sum_def)

lemma ignored_triple:
  assumes "quota_ok g k" and "status r = CHALLENGED" and "\<not> late_reply (sender_state.truncate r) m"
    and "before_prompt (sender_state.truncate r) m
      \<or> canonical_answer (gk_unicode g) (m_text m) = Inr None"
  shows "row_triple k (Some r) (handle_challenge g A k (sender_state.truncate r) m now)
    (\<lambda>x ro. x = ''challenge_pending'' \<and> (ro = Some r \<or> ro = Some (r\<lparr>guidance_sent := True\<rparr>)))"
proof -
  let ?Q = "\<lambda>x ro. x = ''challenge_pending'' \<and> (ro = Some r \<or> ro = Some (r\<lparr>guidance_sent := True\<rparr>))"
  let ?s = "sender_state.truncate r"
  have guidance: "row_triple k (Some r) (send_guidance_once g A k ?s DIGITS_REQUIRED_TEXT formatting now)
      (\<lambda>_ ro. ro = Some r \<or> ro = Some (r\<lparr>guidance_sent := True\<rparr>))" for formatting
    unfolding send_guidance_once_def
  proof (intro triple_if triple_ret triple_skip [OF notice_harmless [OF assms(1)]])
    assume "\<not> guidance_sent ?s"
    then show "row_triple k (Some r) (bind_prog (transact (mark_challenge_guidance_sent k)) (\<lambda>_. ret ()))
        (\<lambda>_ ro. ro = Some r \<or> ro = Some (r\<lparr>guidance_sent := True\<rparr>))"
      using assms(2)
      by (intro update_sender_triple [OF mark_challenge_guidance_sent_def] triple_ret)
        (auto simp: sender_state.truncate_def)
  qed simp_all
  have "row_triple k (Some r)
      (ignore_with_guidance g A k ?s DIGITS_REQUIRED_TEXT ''CHALLENGE_NON_NUMERIC'' now) ?Q"
    unfolding ignore_with_guidance_def
    by (intro triple_skip [OF need_harmless [OF notice_formatting_total]] triple_then [OF guidance]
        skip_steps triple_ret) simp
  moreover have "row_triple k (Some r)
      (then_prog (change (audit k ''CHALLENGE_BEFORE_PROMPT'' ''ignored'' now)) (ret ''challenge_pending'')) ?Q"
    by (intro skip_steps triple_ret) simp
  ultimately show ?thesis
    using assms(3,4) by (auto simp: handle_challenge_def need_sum_def)
qed

end

subsection \<open>Late replies\<close>

context safe_actions
begin

lemma enqueue_optional_harmless:
  "harmless (case r of None \<Rightarrow> ret () | Some reference \<Rightarrow>
     bind_prog (transact (enqueue_review k reference c s f e at)) (\<lambda>_. ret ()))"
  by (intro harmless_intros review_change_harmless)

lemma unscheduled_triple:
  "row_triple k r (then_prog
     (case u of None \<Rightarrow> ret () | Some reference \<Rightarrow>
        bind_prog (transact (enqueue_review k reference c s f e at)) (\<lambda>_. ret ()))
     (then_prog (quarantine_sender g k u now)
     (then_prog (activate_review g k reason u now)
        (change (audit k ''CHALLENGE_TIMEOUT_DELETE'' ''not_scheduled'' now)))))
   (\<lambda>_. restricted_at)"
  by (intro triple_then_skip [OF enqueue_optional_harmless] triple_then [OF quarantine_sender_triple]
      triple_then_skip [OF activate_review_harmless] triple_harmless [OF harmless_audit])

lemma finalize_triple:
  assumes "quota_ok g k" and "restricted_at r"
  shows "row_triple k r (finalize_timeout_failure g A k state fallback now) (\<lambda>_. restricted_at)"
  unfolding finalize_timeout_failure_def
proof (intro triple_skip [OF need_harmless [OF notice_formatting_total]]
    triple_skip [OF notice_harmless [OF assms(1)]] triple_if triple_skip [OF harmless_query], goal_cases)
  case (1 _ notice_id terminal)
  let ?ref = "bytes_or (challenge_action_reference terminal) fallback"
  show ?case
  proof (cases notice_id)
    case None
    then show ?thesis by simp (rule unscheduled_triple)
  next
    case (Some i)
    show ?thesis
    proof (cases ?ref)
      case None
      with Some show ?thesis using unscheduled_triple [where u = None] by simp
    next
      case (Some reference)
      with \<open>notice_id = Some i\<close> assms(2) show ?thesis
        by (simp, intro triple_harmless harmless_then harmless_bind activate_review_harmless
            review_change_harmless dialog_deletion_harmless)
    qed
  qed
next
  case (2 _ notice_id)
  with assms(2) show ?case
    by (auto simp: Let_def intro!: triple_harmless harmless_then test_deletion_harmless reset_harmless)
qed

lemma late_triple:
  assumes "quota_ok g k" and "status r = CHALLENGED" and "challenge_expires_at r = Some e"
    and "late_reply (sender_state.truncate r) m"
  shows "row_triple k (Some r) (handle_challenge g A k (sender_state.truncate r) m now)
    (\<lambda>x ro. x = ''suppressed'' \<and> restricted_at ro)"
proof -
  have at: "int_or (challenge_expires_at (sender_state.truncate r)) 0 = e"
    by (simp add: int_or_def assms(3))
  have "row_triple k (Some r) (expire_late_reply g A k (sender_state.truncate r) m now)
      (\<lambda>x ro. x = ''suppressed'' \<and> restricted_at ro)"
    unfolding expire_late_reply_def at
    apply (rule triple_skip [OF restriction_reference_harmless])
    apply (rule update_sender_triple [OF expire_challenge_row_def], simp add: assms)
    apply (intro skip_steps triple_then_skip [OF cancel_harmless]
        triple_then [OF finalize_triple [OF assms(1)]] triple_ret)
     apply (simp_all add: restricted_at_def restricted_row_def)
    done
  with assms(4) show ?thesis by (simp add: handle_challenge_def)
qed

end

subsection \<open>New challenges\<close>

text \<open>The row of a sender with a challenge that the factory made for this key.\<close>

definition challenge_from ::
  "gatekeeper \<Rightarrow> sender_key \<Rightarrow> (nat \<Rightarrow> challenge) \<Rightarrow> sender_row option \<Rightarrow> bool" where
  "challenge_from g k factory ro \<longleftrightarrow> (\<exists>r n. ro = Some r \<and> status r = CHALLENGED
     \<and> challenge_message_id r \<noteq> None \<and> challenge_expires_at r \<noteq> None \<and> attempts r = 0
     \<and> challenge_id r = Some (ch_id (factory n))
     \<and> answer_digest r = Some (prot_answer_digest (gk_protector g) k (ch_id (factory n))
          (ch_answer (factory n))))"

lemma delivered_challenge:
  assumes "delivered r x ro" and "attempts r = 0" and "challenge_id r = Some (ch_id (factory n))"
    and "answer_digest r = Some (prot_answer_digest (gk_protector g) k (ch_id (factory n))
          (ch_answer (factory n)))"
  shows "x = ''challenged'' \<and> challenge_from g k factory ro \<or> x = ''fail_safe'' \<and> forgotten ro"
proof (cases "x = ''fail_safe'' \<and> forgotten ro")
  case False
  with assms(1) obtain r' where "x = ''challenged''" "ro = Some r'" "status r' = CHALLENGED"
    "challenge_message_id r' \<noteq> None" "challenge_expires_at r' \<noteq> None"
    "challenge_id r' = challenge_id r" "answer_digest r' = answer_digest r" "attempts r' = attempts r"
    by (auto simp: delivered_def)
  with assms(2-4) show ?thesis unfolding challenge_from_def by metis
qed simp

lemma begun_row:
  "\<exists>r'. map_of (sender_table (begin_challenge_issue k c d e p a profile now s)) k = Some r'
     \<and> status r' = CHALLENGE_ISSUING \<and> attempts r' = 0 \<and> challenge_id r' = Some c
     \<and> answer_digest r' = Some d"
  by (simp add: begin_challenge_issue_def map_of_upsert_row split: option.split)

lemma seal_rows: "keeps same_rows (bind_prog (draw f) (\<lambda>sealed. bind_prog (need_sum sealed) (\<lambda>envelope.
    change (save_enforcement_review k reference envelope reason e now))))"
  by (intro rows.keeps_control rows_need_sum rows.keeps_change)
    (simp add: same_rows_def save_enforcement_review_def)

lemma capture_harmless: "harmless (capture_enforcement_review g k m reason d now)"
  unfolding capture_enforcement_review_def
  by (intro harmless_intros harmless_try keeps_rowsD seal_rows)

context safe_actions
begin

lemma fallback_triple:
  "row_triple k r (rate_limit_fallback g A k m now) (\<lambda>x ro.
     x = ''quarantined_rate_limited'' \<and> restricted_at ro \<or> x = ''fail_safe'' \<and> ro = r)"
proof -
  have archive: "harmless (try_except (archive_and_mute A) (ret False))"
    by (intro harmless_try harmless_rows archive_harmless harmless_ret)
  have dropped: "harmless (bind_prog (transact (delete_enforcement_review k)) (\<lambda>_. ret ()))"
    by (intro harmless_intros review_change_harmless)
  show ?thesis
    unfolding rate_limit_fallback_def
    apply (rule triple_then_skip [OF harmless_audit], rule triple_skip [OF archive], rule triple_if)
     apply (rule triple_then [OF quarantine_sender_triple])
     apply (rule triple_then_skip [OF activate_review_harmless], rule triple_then_skip [OF harmless_audit])
     apply (rule triple_then_skip [OF queue_review_harmless], rule triple_ret, simp)
    apply (rule triple_then_skip [OF dropped], rule triple_then_skip [OF harmless_audit])
    apply (rule triple_then_skip [OF queue_review_harmless], rule triple_ret, simp)
    done
qed

lemma issue_triple:
  assumes "quota_ok g k"
  shows "row_triple k r (issue_challenge g A k m d now) (\<lambda>x ro.
      x = ''challenged'' \<and> challenge_from g k (gk_challenge_factory g) ro
    \<or> x = ''quarantined_rate_limited'' \<and> restricted_at ro
    \<or> x = ''fail_safe'' \<and> (ro = r \<or> forgotten ro))"
    (is "row_triple k r ?p ?Q")
proof -
  let ?deliver = "\<lambda>ch. let profile = (case dec_challenge_profile d of None \<Rightarrow> Standard | Some p \<Rightarrow> p);
           prompt = Challenge_Text.challenge_prompt ch (gk_ttl_seconds g)
                      (challenge_limit g (Some profile))
       in then_prog
            (change (begin_challenge_issue k (ch_id ch)
               (prot_answer_digest (gk_protector g) k (ch_id ch) (ch_answer ch))
               (now + gk_ttl_seconds g) prompt (m_review_reference m) profile now))
            (deliver_challenge g A k prompt now)"
  have deliver: "row_triple k r (?deliver (gk_challenge_factory g n)) ?Q" for n
  proof -
    let ?ch = "gk_challenge_factory g n"
    define profile where "profile = (case dec_challenge_profile d of None \<Rightarrow> Standard | Some p \<Rightarrow> p)"
    define prompt where "prompt = Challenge_Text.challenge_prompt ?ch (gk_ttl_seconds g)
                      (challenge_limit g (Some profile))"
    have "row_triple k r (then_prog
            (change (begin_challenge_issue k (ch_id ?ch)
               (prot_answer_digest (gk_protector g) k (ch_id ?ch) (ch_answer ?ch))
               (now + gk_ttl_seconds g) prompt (m_review_reference m) profile now))
            (deliver_challenge g A k prompt now)) ?Q"
    proof (rule triple_then [where P = "\<lambda>ro. \<exists>r'. ro = Some r' \<and> status r' = CHALLENGE_ISSUING
        \<and> attempts r' = 0 \<and> challenge_id r' = Some (ch_id ?ch)
        \<and> answer_digest r' = Some (prot_answer_digest (gk_protector g) k (ch_id ?ch) (ch_answer ?ch))"],
        goal_cases)
      case 1
      show ?case
        by (simp add: row_triple_def row_at_def change_def begun_row)
    next
      case (2 ro)
      then obtain r' where r': "ro = Some r'" "status r' = CHALLENGE_ISSUING" "attempts r' = 0"
        "challenge_id r' = Some (ch_id ?ch)"
        "answer_digest r' = Some (prot_answer_digest (gk_protector g) k (ch_id ?ch) (ch_answer ?ch))"
        by auto
      show ?case
        unfolding r'(1)
        using delivered_challenge [of r' _ _ "gk_challenge_factory g" n g k, OF _ r'(3-5)]
        by (intro triple_weaken [OF deliver_triple [OF r'(2)]]) blast
    qed
    then show ?thesis by (simp add: Let_def profile_def prompt_def)
  qed
  have drawn: "row_triple k r (bind_prog (draw (gk_challenge_factory g)) ?deliver) ?Q"
    by (rule triple_draw) (rule deliver)
  show ?thesis
    unfolding issue_challenge_def
  proof (intro triple_then_skip [OF capture_harmless] triple_skip [OF claim_slot_harmless [OF assms]]
      triple_if)
    show "row_triple k r (rate_limit_fallback g A k m now) ?Q"
      by (rule triple_weaken [OF fallback_triple]) auto
  qed (rule drawn)
qed

end

end
