(* ===== verification/Signal_Codes.thy ===== *)
theory Signal_Codes
  imports Signals
begin

text \<open>
  Which evidence codes the detector of \<open>rules.py\<close> emits, and what the policy makes of them: without the
  campaign signal, which only the state database can add, the permanent decision is exactly
  the owner's denylist.
\<close>

subsection \<open>Membership of a code\<close>

lemma mem_codes_if:
  "c \<in> sig_code ` set (if b then xs else ys) \<longleftrightarrow>
     b \<and> c \<in> sig_code ` set xs \<or> \<not> b \<and> c \<in> sig_code ` set ys"
  by simp

lemma mem_codes_append:
  "c \<in> sig_code ` set (xs @ ys) \<longleftrightarrow> c \<in> sig_code ` set xs \<or> c \<in> sig_code ` set ys"
  by auto

lemma mem_codes_signal: "c \<in> sig_code ` set [signal d s w e] \<longleftrightarrow> c = d"
  by (simp add: signal_def)

lemma mem_codes_Nil: "c \<in> sig_code ` set [] \<longleftrightarrow> False"
  by simp

lemma mem_codes_option:
  "c \<in> sig_code ` set (case x of Some y \<Rightarrow> [signal y s w e] | None \<Rightarrow> xs) \<longleftrightarrow>
     x = Some c \<or> x = None \<and> c \<in> sig_code ` set xs"
  by (auto simp: signal_def split: option.splits)

lemmas mem_codes = mem_codes_append mem_codes_if mem_codes_option mem_codes_signal mem_codes_Nil

definition denied_codes :: "string set" where
  "denied_codes = {''AUTHORED_DENIED_DOMAIN'', ''BUTTON_DENIED_DOMAIN'', ''PREVIEW_DENIED_DOMAIN''}"

lemma any_denied_Nil [simp]: "\<not> any_denied [] xs"
  by (auto simp: any_denied_def domain_is_denied_def list_ex_iff)

lemma authored_denied_code_Some:
  "authored_denied_code u deny f = Some c \<Longrightarrow> c \<in> denied_codes \<and> any_denied deny (f_domains f)"
  by (auto simp: authored_denied_code_def denied_codes_def split: if_splits)

lemma authored_denied_code_None:
  "authored_denied_code u deny f = None \<longleftrightarrow> \<not> any_denied deny (f_domains f)"
  by (cases "deny = []") (simp_all add: authored_denied_code_def)

lemma multiple_links_code:
  "''MULTIPLE_LINKS'' \<in> sig_code ` set (detect_evidence_signals u f n deny) \<longleftrightarrow>
     length (url_keys u (f_urls f)) \<ge> 2 \<or> length (remdups (f_domains f)) \<ge> 2"
  unfolding detector_defs Let_def mem_codes
  using authored_denied_code_Some [of u deny f] by (auto simp: denied_codes_def)

lemma quoted_multiple_links_code:
  "''QUOTED_MULTIPLE_LINKS'' \<in> sig_code ` set (detect_evidence_signals u f n deny) \<longleftrightarrow>
     length (url_keys u (f_quote_urls f)) \<ge> 2 \<or> length (remdups (f_quote_domains f)) \<ge> 2"
  unfolding detector_defs Let_def mem_codes
  using authored_denied_code_Some [of u deny f] by (auto simp: denied_codes_def)

lemma campaign_code:
  "''REPEATED_CAMPAIGN'' \<notin> sig_code ` set (detect_evidence_signals u f n deny)"
  unfolding detector_defs Let_def mem_codes
  using authored_denied_code_Some [of u deny f] by (auto simp: denied_codes_def)

lemma denied_code_emitted:
  assumes "c \<in> denied_codes"
  shows "c \<in> sig_code ` set (detect_evidence_signals u f n deny) \<longleftrightarrow>
     authored_denied_code u deny f = Some c"
  unfolding detector_defs Let_def mem_codes
  using assms by (auto simp: denied_codes_def)

subsection \<open>Weights\<close>

definition weights_ok :: "evidence_signal list \<Rightarrow> bool" where
  "weights_ok xs \<longleftrightarrow> list_all (\<lambda>s. 0 \<le> sig_weight s) xs"

lemma weights_ok_parts [simp]:
  "weights_ok []"
  "weights_ok (xs @ ys) \<longleftrightarrow> weights_ok xs \<and> weights_ok ys"
  "weights_ok [signal c src w e] \<longleftrightarrow> 0 \<le> w"
  by (simp_all add: weights_ok_def signal_def)

lemma weights_ok_if: "weights_ok xs \<Longrightarrow> weights_ok ys \<Longrightarrow> weights_ok (if b then xs else ys)"
  by simp

lemma weights_ok_case:
  "(\<And>y. weights_ok (f y)) \<Longrightarrow> weights_ok xs
   \<Longrightarrow> weights_ok (case x of Some y \<Rightarrow> f y | None \<Rightarrow> xs)"
  by (cases x) simp_all

lemma detect_weights: "weights_ok (detect_evidence_signals u f n deny)"
  unfolding detector_defs Let_def weights_ok_parts
  by (intro conjI weights_ok_if weights_ok_case) simp_all

lemma risk_score_member:
  assumes "weights_ok xs" and "s \<in> set xs"
  shows "sig_weight s \<le> risk_score xs"
proof -
  from assms(1) have nonneg: "\<And>x. x \<in> set xs \<Longrightarrow> 0 \<le> sig_weight x"
    by (simp add: weights_ok_def list_all_iff)
  from assms(2) obtain ys zs where xs: "xs = ys @ s # zs" by (auto simp: in_set_conv_decomp)
  have "0 \<le> risk_score ys" "0 \<le> risk_score zs"
    using nonneg by (auto simp: xs intro!: risk_score_nonneg)
  then show ?thesis by (simp add: xs risk_score_def)
qed

lemma denied_signal:
  assumes "authored_denied_code u deny f = Some c"
  shows "\<exists>s \<in> set (detect_evidence_signals u f n deny). sig_code s = c \<and> sig_weight s = 100"
proof -
  have "\<exists>before. detect_evidence_signals u f n deny = before @
      (case authored_denied_code u deny f of
         Some c \<Rightarrow> [signal c OwnerPolicy 100
           ''A non-quoted link matches the owner's local domain denylist.'']
       | None \<Rightarrow> if deny \<noteq> [] \<and> any_denied deny (f_quote_domains f) then
           [signal ''QUOTED_DENIED_DOMAIN'' OwnerPolicy 30
             ''A quoted-context link matches the owner's local domain denylist.''] else [])"
    unfolding detector_defs Let_def append_assoc [symmetric] by (rule exI, rule refl)
  with assms show ?thesis by (auto simp: signal_def)
qed

subsection \<open>The gate\<close>

lemma gate_codes:
  assumes "destructive_gate_basis signals \<noteq> None"
  shows "(\<exists>c \<in> denied_codes. c \<in> sig_code ` set signals)
    \<or> ''REPEATED_CAMPAIGN'' \<in> sig_code ` set signals
      \<and> (''MULTIPLE_LINKS'' \<in> sig_code ` set signals \<or> ''QUOTED_MULTIPLE_LINKS'' \<in> sig_code ` set signals)"
  using assms
  unfolding destructive_gate_basis_def Let_def set_map denied_codes_def [symmetric]
  by (auto split: if_splits)

lemma denied_gate:
  assumes "c \<in> denied_codes" and "c \<in> sig_code ` set signals"
  shows "destructive_gate_basis signals = Some ''owner_denied_domain''"
proof -
  have "sig_code ` set signals \<inter> denied_codes \<noteq> {}" using assms by auto
  then show ?thesis
    unfolding destructive_gate_basis_def Let_def set_map denied_codes_def [symmetric] by simp
qed

lemma decide_permanent_iff:
  "dec_planned_action (decide signals) = PermanentSuppression \<longleftrightarrow>
     risk_score signals \<ge> 70 \<and> destructive_gate_basis signals \<noteq> None"
  by (simp add: decide_def PERMANENT_SUPPRESSION_THRESHOLD_def Let_def)

lemma denied_is_permanent:
  assumes "any_denied deny (f_domains f)" and "weights_ok extra"
  shows "dec_planned_action (decide (detect_evidence_signals u f n deny @ extra)) = PermanentSuppression"
proof -
  let ?d = "detect_evidence_signals u f n deny"
  from assms(1) obtain c where c: "authored_denied_code u deny f = Some c"
    using authored_denied_code_None by (metis not_None_eq)
  then obtain s where s: "s \<in> set ?d" "sig_code s = c" "sig_weight s = 100"
    using denied_signal [of u deny f c n] by blast
  have "weights_ok (?d @ extra)"
    using detect_weights [of u f n deny] assms(2) by (simp add: weights_ok_def)
  from risk_score_member [OF this, of s] s have "70 \<le> risk_score (?d @ extra)" by simp
  moreover have "c \<in> denied_codes" using authored_denied_code_Some [OF c] by simp
  then have "destructive_gate_basis (?d @ extra) \<noteq> None"
    using denied_gate [of c "?d @ extra"] s by force
  ultimately show ?thesis by (simp add: decide_permanent_iff)
qed

text \<open>C26. Evidence from the message alone leads to a permanent suppression exactly when a link outside
  the quoted context is on the owner's denylist; every other permanent decision needs the
  campaign signal.\<close>

theorem permanent_without_campaign:
  "dec_planned_action (decide (detect_evidence_signals u f n deny)) = PermanentSuppression
     \<longleftrightarrow> any_denied deny (f_domains f)"
proof
  assume "dec_planned_action (decide (detect_evidence_signals u f n deny)) = PermanentSuppression"
  then have "\<exists>c \<in> denied_codes. c \<in> sig_code ` set (detect_evidence_signals u f n deny)"
    using gate_codes [of "detect_evidence_signals u f n deny"] campaign_code
    by (auto simp: decide_permanent_iff)
  then obtain c where "authored_denied_code u deny f = Some c"
    using denied_code_emitted by blast
  then show "any_denied deny (f_domains f)" using authored_denied_code_Some by blast
next
  assume "any_denied deny (f_domains f)"
  from denied_is_permanent [OF this, of "[]"]
  show "dec_planned_action (decide (detect_evidence_signals u f n deny)) = PermanentSuppression"
    by (simp add: weights_ok_def)
qed

end
