(* ===== verification/Py_Json.thy ===== *)
theory Py_Json
  imports Py_Text
begin

text \<open>
  Python's \<open>json\<close> module and the text codecs, as far as the program uses them: values, \<open>dumps\<close>
  with compact separators (with and without \<open>ensure_ascii\<close> and \<open>sort_keys\<close>), \<open>loads\<close> of a string
  and of bytes, UTF-8 in both directions and the UTF-16 and UTF-32 decoders \<open>loads\<close> may choose.
  A float is the text \<open>dumps\<close> writes for it; how a numeral is rounded is the parameter \<open>ft\<close>.
  The interpreter's recursion limit is not modelled.
\<close>

datatype json =
  JNull
| JBool bool
| JInt int
| JFloat ustring
| JStr ustring
| JArr "json list"
| JObj "(ustring \<times> json) list"

subsection \<open>Writing\<close>

definition hex_digit :: "nat \<Rightarrow> nat" where
  "hex_digit d = (if d < 10 then 48 + d else 87 + d)"

definition u_escape :: "nat \<Rightarrow> ustring" where
  "u_escape n = [92, 117, hex_digit (n div 4096 mod 16), hex_digit (n div 256 mod 16),
     hex_digit (n div 16 mod 16), hex_digit (n mod 16)]"

definition escape_char :: "bool \<Rightarrow> nat \<Rightarrow> ustring" where
  "escape_char ascii c =
    (if c = 34 then [92, 34] else if c = 92 then [92, 92]
     else if c = 8 then [92, 98] else if c = 9 then [92, 116] else if c = 10 then [92, 110]
     else if c = 12 then [92, 102] else if c = 13 then [92, 114]
     else if c < 32 then u_escape c
     else if \<not> ascii \<or> c \<le> 126 then [c]
     else if c < 65536 then u_escape c
     else u_escape (55296 + (c - 65536) div 1024 mod 1024) @ u_escape (56320 + (c - 65536) mod 1024))"

definition quote :: "bool \<Rightarrow> ustring \<Rightarrow> ustring" where
  "quote ascii s = 34 # concat (map (escape_char ascii) s) @ [34]"

fun dumps :: "bool \<Rightarrow> json \<Rightarrow> ustring" where
  "dumps a JNull = ustr ''null''"
| "dumps a (JBool b) = (if b then ustr ''true'' else ustr ''false'')"
| "dumps a (JInt i) = show_int i"
| "dumps a (JFloat t) = t"
| "dumps a (JStr s) = quote a s"
| "dumps a (JArr xs) = [91] @ join [44] (map (dumps a) xs) @ [93]"
| "dumps a (JObj kvs) =
     [123] @ join [44] (map (\<lambda>(k, v). quote a k @ [58] @ dumps a v) kvs) @ [125]"

text \<open>\<open>sort_keys=True\<close> sorts the items of every dict by code points.\<close>

fun text_le :: "ustring \<Rightarrow> ustring \<Rightarrow> bool" where
  "text_le [] _ = True"
| "text_le (_ # _) [] = False"
| "text_le (x # xs) (y # ys) = (x < y \<or> x = y \<and> text_le xs ys)"

fun insert_item :: "ustring \<times> 'a \<Rightarrow> (ustring \<times> 'a) list \<Rightarrow> (ustring \<times> 'a) list" where
  "insert_item x [] = [x]"
| "insert_item x (y # ys) = (if text_le (fst x) (fst y) then x # y # ys else y # insert_item x ys)"

definition sort_items :: "(ustring \<times> 'a) list \<Rightarrow> (ustring \<times> 'a) list" where
  "sort_items xs = foldr insert_item xs []"

fun sort_keys :: "json \<Rightarrow> json" where
  "sort_keys (JArr xs) = JArr (map sort_keys xs)"
| "sort_keys (JObj kvs) = JObj (sort_items (map (\<lambda>(k, v). (k, sort_keys v)) kvs))"
| "sort_keys v = v"

subsection \<open>Reading strings\<close>

definition hex_val :: "nat \<Rightarrow> nat option" where
  "hex_val c = (if 48 \<le> c \<and> c \<le> 57 then Some (c - 48) else if 97 \<le> c \<and> c \<le> 102 then Some (c - 87)
     else if 65 \<le> c \<and> c \<le> 70 then Some (c - 55) else None)"

fun hex4 :: "ustring \<Rightarrow> (nat \<times> ustring) option" where
  "hex4 (a # b # c # d # r) = (case (hex_val a, hex_val b, hex_val c, hex_val d) of
      (Some w, Some x, Some y, Some z) \<Rightarrow> Some (4096 * w + 256 * x + 16 * y + z, r)
    | _ \<Rightarrow> None)"
| "hex4 _ = None"

text \<open>The low half of a surrogate pair, written as an escape of its own.\<close>

definition low_half :: "nat \<Rightarrow> ustring \<Rightarrow> (nat \<times> ustring) option" where
  "low_half u r =
    (if 55296 \<le> u \<and> u \<le> 56319 \<and> starts_with r [92, 117] then
       (case hex4 (drop 2 r) of
          Some (l, r') \<Rightarrow> if 56320 \<le> l \<and> l \<le> 57343 then Some (l, r') else None
        | None \<Rightarrow> None)
     else None)"

definition simple_escape :: "nat \<Rightarrow> nat option" where
  "simple_escape e = (if e = 34 \<or> e = 92 \<or> e = 47 then Some e else if e = 98 then Some 8
     else if e = 102 then Some 12 else if e = 110 then Some 10 else if e = 114 then Some 13
     else if e = 116 then Some 9 else None)"

definition push :: "nat \<Rightarrow> (ustring \<times> ustring) option \<Rightarrow> (ustring \<times> ustring) option" where
  "push c p = map_option (\<lambda>(s, r). (c # s, r)) p"

lemma push_cong [fundef_cong]: "c = d \<Longrightarrow> p = q \<Longrightarrow> push c p = push d q"
  by simp

lemma hex4_shorter: "hex4 s = Some (u, r) \<Longrightarrow> length s = length r + 4"
  by (induction s rule: hex4.induct) (auto split: option.splits prod.splits)

lemma low_half_shorter: "low_half u s = Some (l, r) \<Longrightarrow> length r < length s"
  by (auto simp: low_half_def starts_with_iff dest!: hex4_shorter split: option.splits if_splits)

function (sequential) p_string :: "ustring \<Rightarrow> (ustring \<times> ustring) option" where
  "p_string [] = None"
| "p_string (c # r) =
    (if c = 34 then Some ([], r)
     else if c = 92 then (case r of
         [] \<Rightarrow> None
       | e # r1 \<Rightarrow>
           if e = 117 then (case hex4 r1 of
               None \<Rightarrow> None
             | Some (u, r2) \<Rightarrow> (case low_half u r2 of
                 None \<Rightarrow> push u (p_string r2)
               | Some (l, r3) \<Rightarrow> push (65536 + (u - 55296) * 1024 + (l - 56320)) (p_string r3)))
           else (case simple_escape e of None \<Rightarrow> None | Some x \<Rightarrow> push x (p_string r1)))
     else if c < 32 then None
     else push c (p_string r))"
  by pat_completeness auto
termination
  by (relation "measure length") (auto dest!: hex4_shorter low_half_shorter)

lemma p_string_shorter: "p_string s = Some (t, r) \<Longrightarrow> length r < length s"
proof (induction s arbitrary: t r rule: p_string.induct)
  case (2 c r0)
  then show ?case
    by (fastforce simp: push_def dest: hex4_shorter low_half_shorter
        split: if_splits list.splits option.splits prod.splits)
qed simp

subsection \<open>Reading numbers\<close>

definition MAX_INT_DIGITS :: nat where
  "MAX_INT_DIGITS = 4300"

definition fraction_part :: "ustring \<Rightarrow> ustring" where
  "fraction_part s = (case s of
      c # d # r \<Rightarrow> if c = 46 \<and> is_digit d then c # takeWhile is_digit (d # r) else []
    | _ \<Rightarrow> [])"

definition exponent_part :: "ustring \<Rightarrow> ustring" where
  "exponent_part s = (case s of
      c # r \<Rightarrow>
        if c = 101 \<or> c = 69 then
          (let sign = (case r of d # _ \<Rightarrow> if d = 43 \<or> d = 45 then [d] else [] | [] \<Rightarrow> []);
               ds = takeWhile is_digit (drop (length sign) r) in
           if ds = [] then [] else c # sign @ ds)
        else []
    | [] \<Rightarrow> [])"

definition integer_part :: "ustring \<Rightarrow> ustring" where
  "integer_part s = (case s of
      [] \<Rightarrow> [] | d # _ \<Rightarrow> if d = 48 then [48] else takeWhile is_digit s)"

definition p_number :: "(ustring \<Rightarrow> ustring) \<Rightarrow> ustring \<Rightarrow> string + json \<times> ustring" where
  "p_number ft s =
    (let sign = (if starts_with s [45] then [45] else []);
         r = drop (length sign) s;
         ds = integer_part r;
         r1 = drop (length ds) r;
         frac = fraction_part r1;
         ex = exponent_part (drop (length frac) r1);
         rest = drop (length ex) (drop (length frac) r1) in
     if ds = [] then Inl ''JSONDecodeError''
     else if frac = [] \<and> ex = [] then
       if MAX_INT_DIGITS < length ds then Inl ''ValueError''
       else Inr (JInt (if sign = [] then int (digits_value ds) else - int (digits_value ds)), rest)
     else Inr (JFloat (ft (sign @ ds @ frac @ ex)), rest))"

subsection \<open>Reading values\<close>

definition is_json_space :: "nat \<Rightarrow> bool" where
  "is_json_space c \<longleftrightarrow> c = 32 \<or> c = 9 \<or> c = 10 \<or> c = 13"

definition skip_ws :: "ustring \<Rightarrow> ustring" where
  "skip_ws s = dropWhile is_json_space s"

definition literals :: "(ustring \<times> json) list" where
  "literals = [(ustr ''null'', JNull), (ustr ''true'', JBool True), (ustr ''false'', JBool False),
     (ustr ''NaN'', JFloat (ustr ''NaN'')), (ustr ''Infinity'', JFloat (ustr ''Infinity'')),
     (ustr ''-Infinity'', JFloat (ustr ''-Infinity''))]"

text \<open>A value that is neither a string, an array nor an object.\<close>

definition p_scalar :: "(ustring \<Rightarrow> ustring) \<Rightarrow> ustring \<Rightarrow> string + json \<times> ustring" where
  "p_scalar ft s = (case find (\<lambda>(w, v). starts_with s w) literals of
      Some (w, v) \<Rightarrow> Inr (v, drop (length w) s)
    | None \<Rightarrow> p_number ft s)"

text \<open>
  \<open>scan_once\<close>, the items of an array after its bracket or a comma, and the members of an object.
  The fuel is one more than the length of the text, see \<open>p_value_fuel\<close>.
\<close>

fun p_value :: "(ustring \<Rightarrow> ustring) \<Rightarrow> nat \<Rightarrow> ustring \<Rightarrow> string + json \<times> ustring"
and p_items :: "(ustring \<Rightarrow> ustring) \<Rightarrow> nat \<Rightarrow> ustring \<Rightarrow> string + json list \<times> ustring"
and p_members :: "(ustring \<Rightarrow> ustring) \<Rightarrow> nat \<Rightarrow> (ustring \<times> json) list \<Rightarrow> ustring
  \<Rightarrow> string + (ustring \<times> json) list \<times> ustring" where
  "p_value ft 0 s = Inl ''RecursionError''"
| "p_value ft (Suc n) s = (case s of
      [] \<Rightarrow> Inl ''JSONDecodeError''
    | c # r \<Rightarrow>
        if c = 34 then (case p_string r of
            None \<Rightarrow> Inl ''JSONDecodeError'' | Some (t, r') \<Rightarrow> Inr (JStr t, r'))
        else if c = 91 then
          (if starts_with (skip_ws r) [93] then Inr (JArr [], drop 1 (skip_ws r))
           else (case p_items ft n (skip_ws r) of
               Inl e \<Rightarrow> Inl e | Inr (xs, r') \<Rightarrow> Inr (JArr xs, r')))
        else if c = 123 then
          (if starts_with (skip_ws r) [125] then Inr (JObj [], drop 1 (skip_ws r))
           else (case p_members ft n [] (skip_ws r) of
               Inl e \<Rightarrow> Inl e | Inr (kvs, r') \<Rightarrow> Inr (JObj kvs, r')))
        else p_scalar ft s)"
| "p_items ft 0 s = Inl ''RecursionError''"
| "p_items ft (Suc n) s = (case p_value ft (Suc n) s of
      Inl e \<Rightarrow> Inl e
    | Inr (v, r) \<Rightarrow> (case skip_ws r of
          [] \<Rightarrow> Inl ''JSONDecodeError''
        | c # r' \<Rightarrow>
            if c = 93 then Inr ([v], r')
            else if c = 44 then (case p_items ft n (skip_ws r') of
                Inl e \<Rightarrow> Inl e | Inr (xs, r'') \<Rightarrow> Inr (v # xs, r''))
            else Inl ''JSONDecodeError''))"
| "p_members ft 0 d s = Inl ''RecursionError''"
| "p_members ft (Suc n) d s =
    (if \<not> starts_with s [34] then Inl ''JSONDecodeError''
     else case p_string (drop 1 s) of
       None \<Rightarrow> Inl ''JSONDecodeError''
     | Some (k, r) \<Rightarrow>
         if \<not> starts_with (skip_ws r) [58] then Inl ''JSONDecodeError''
         else (case p_value ft n (skip_ws (drop 1 (skip_ws r))) of
             Inl e \<Rightarrow> Inl e
           | Inr (v, r2) \<Rightarrow> (case skip_ws r2 of
                 [] \<Rightarrow> Inl ''JSONDecodeError''
               | c # r3 \<Rightarrow>
                   if c = 125 then Inr (AList.update k v d, r3)
                   else if c = 44 then p_members ft n (AList.update k v d) (skip_ws r3)
                   else Inl ''JSONDecodeError'')))"

definition loads :: "(ustring \<Rightarrow> ustring) \<Rightarrow> ustring \<Rightarrow> string + json" where
  "loads ft s = (let t = skip_ws s in
     case p_value ft (Suc (length t)) t of
       Inl e \<Rightarrow> Inl e
     | Inr (v, r) \<Rightarrow> if skip_ws r = [] then Inr v else Inl ''JSONDecodeError'')"


subsection \<open>The fuel is enough\<close>

lemma starts_with_shorter: "starts_with s w \<Longrightarrow> w \<noteq> [] \<Longrightarrow> length (drop (length w) s) < length s"
  by (auto simp: starts_with_iff)

lemma p_number_shorter: "p_number ft s = Inr (v, r) \<Longrightarrow> length r < length s"
  by (cases s) (auto simp: p_number_def integer_part_def Let_def split: if_splits list.splits)

lemma p_scalar_shorter:
  assumes "p_scalar ft s = Inr (v, r)" shows "length r < length s"
proof (cases "find (\<lambda>(w, v). starts_with s w) literals")
  case None
  with assms show ?thesis by (auto simp: p_scalar_def dest: p_number_shorter)
next
  case (Some x)
  obtain w u where x: "x = (w, u)" by (cases x)
  from Some x have "(w, u) \<in> set literals" and "starts_with s w"
    by (auto simp: find_Some_iff) (metis nth_mem)
  moreover from this(1) have "w \<noteq> []" by (auto simp: literals_def ustr_def)
  ultimately show ?thesis
    using assms Some x starts_with_shorter [of s w] by (auto simp: p_scalar_def)
qed

lemma length_skip_ws: "length (skip_ws s) \<le> length s"
  by (simp add: skip_ws_def length_dropWhile_le)

lemma skip_ws_Cons_shorter: "skip_ws s = c # r \<Longrightarrow> length r < length s"
  using length_skip_ws [of s] by simp

lemma length_tl_skip_ws: "length (skip_ws (drop 1 (skip_ws s))) \<le> length s"
  using length_skip_ws [of "drop 1 (skip_ws s)"] length_skip_ws [of s] by simp

lemma p_shorter:
  "p_value ft n s = Inr (v, r) \<Longrightarrow> length r < length s"
  "p_items ft n s = Inr (xs, r) \<Longrightarrow> length r < length s"
  "p_members ft n d s = Inr (kvs, r) \<Longrightarrow> length r < length s"
proof (induction ft n s and ft n s and ft n d s arbitrary: v r and xs r and kvs r
    rule: p_value_p_items_p_members.induct)
  case (2 ft n s)
  show ?case
  proof (cases s)
    case Nil
    with "2.prems" show ?thesis by simp
  next
    case (Cons c r0)
    from length_skip_ws [of r0] show ?thesis
      using "2.prems" Cons "2.IH"
      by (fastforce dest: p_string_shorter p_scalar_shorter split: if_splits option.splits sum.splits)
  qed
next
  case (4 ft n s)
  from "4.prems" obtain v r1 c r2 where v: "p_value ft (Suc n) s = Inr (v, r1)" "skip_ws r1 = c # r2"
    by (auto split: sum.splits list.splits)
  with "4.IH"(1) have "length r1 < length s" by blast
  moreover from v have "length r2 < length r1" by (auto dest: skip_ws_Cons_shorter)
  ultimately show ?case
    using "4.prems" v "4.IH"(2) [OF v(1) refl v(2)] length_skip_ws [of r2]
    by (fastforce split: if_splits sum.splits)
next
  case (6 ft n d s)
  then obtain k r0 v r1 c r2 where
    v: "starts_with s [34]" "p_string (drop 1 s) = Some (k, r0)" "starts_with (skip_ws r0) [58]"
      "p_value ft n (skip_ws (drop 1 (skip_ws r0))) = Inr (v, r1)" "skip_ws r1 = c # r2"
    by (auto split: if_splits sum.splits list.splits option.splits)
  from v(2) have "length r0 < length s" by (auto dest: p_string_shorter)
  moreover have "length r1 < length (skip_ws (drop 1 (skip_ws r0)))" using "6.IH"(1) v by auto
  moreover note length_tl_skip_ws [of r0]
  moreover from v(5) have "length r2 < length r1" by (auto dest: skip_ws_Cons_shorter)
  ultimately have "length r2 < length s" by linarith
  then show ?case
    using "6.prems" v "6.IH"(2) length_skip_ws [of r2]
    by (fastforce split: if_splits)
qed auto

lemma p_value_fuel:
  "length s < n \<Longrightarrow> p_value ft (Suc n) s = p_value ft n s"
  "length s < n \<Longrightarrow> p_items ft (Suc n) s = p_items ft n s"
  "length s < n \<Longrightarrow> p_members ft (Suc n) d s = p_members ft n d s"
proof (induction ft n s and ft n s and ft n d s rule: p_value_p_items_p_members.induct)
  case (2 ft n s)
  show ?case
  proof (cases s)
    case Nil
    then show ?thesis by simp
  next
    case (Cons c r)
    with "2.prems" have "length (skip_ws r) < n" using length_skip_ws [of r] by simp
    with "2.IH" Cons show ?thesis
      by (simp del: p_value.simps(2) p_items.simps p_members.simps add: p_value.simps(2)
          split: if_splits)
  qed
next
  case (4 ft n s)
  show ?case
  proof (cases "p_value ft (Suc n) s")
    case (Inl e)
    with 4 show ?thesis by simp
  next
    case (Inr p)
    obtain v r where p: "p = (v, r)" by (cases p)
    show ?thesis
    proof (cases "skip_ws r")
      case Nil
      with Inr p 4 show ?thesis by simp
    next
      case (Cons c r')
      from p_shorter(1) [OF Inr [unfolded p]] Cons "4.prems" have "length (skip_ws r') < n"
        using skip_ws_Cons_shorter [OF Cons] length_skip_ws [of r'] by linarith
      with 4 Inr p Cons show ?thesis
        by (simp del: p_value.simps(2) p_items.simps(2) add: p_items.simps(2))
    qed
  qed
next
  case (6 ft n d s)
  show ?case
  proof (cases "starts_with s [34] \<and> (\<exists>k r. p_string (drop 1 s) = Some (k, r) \<and> starts_with (skip_ws r) [58])")
    case False
    then show ?thesis by (auto split: option.splits)
  next
    case True
    then obtain k r where r: "starts_with s [34]" "p_string (drop 1 s) = Some (k, r)"
      "starts_with (skip_ws r) [58]" by blast
    let ?t = "skip_ws (drop 1 (skip_ws r))"
    have len: "length ?t < n"
      using p_string_shorter [OF r(2)] length_tl_skip_ws [of r] "6.prems" by simp
    show ?thesis
    proof (cases "p_value ft n ?t")
      case (Inl e)
      with 6 r len show ?thesis by (simp del: p_value.simps(2))
    next
      case (Inr p)
      obtain v r2 where p: "p = (v, r2)" by (cases p)
      show ?thesis
      proof (cases "skip_ws r2")
        case Nil
        with Inr p 6 r len show ?thesis by (simp del: p_value.simps(2))
      next
        case (Cons c r')
        from p_shorter(1) [OF Inr [unfolded p]] have "length (skip_ws r') < n"
          using skip_ws_Cons_shorter [OF Cons] length_skip_ws [of r'] len by linarith
        with 6 r len Inr p Cons show ?thesis
          by (simp del: p_value.simps(2) p_members.simps(2) add: p_members.simps(2))
      qed
    qed
  qed
qed simp_all


text \<open>The only errors are a syntax error and an int of too many digits.\<close>

lemma p_number_error: "p_number ft s = Inl e \<Longrightarrow> e \<in> {''JSONDecodeError'', ''ValueError''}"
  by (auto simp: p_number_def Let_def split: if_splits)

lemma p_scalar_error: "p_scalar ft s = Inl e \<Longrightarrow> e \<in> {''JSONDecodeError'', ''ValueError''}"
  by (auto simp: p_scalar_def split: option.splits dest!: p_number_error)

lemma p_error:
  "length s < n \<Longrightarrow> p_value ft n s = Inl e \<Longrightarrow> e \<in> {''JSONDecodeError'', ''ValueError''}"
  "length s < n \<Longrightarrow> p_items ft n s = Inl e \<Longrightarrow> e \<in> {''JSONDecodeError'', ''ValueError''}"
  "length s < n \<Longrightarrow> p_members ft n d s = Inl e \<Longrightarrow> e \<in> {''JSONDecodeError'', ''ValueError''}"
proof (induction ft n s and ft n s and ft n d s arbitrary: e and e and e
    rule: p_value_p_items_p_members.induct)
  case (2 ft n s)
  show ?case
  proof (cases s)
    case Nil
    with "2.prems" show ?thesis by simp
  next
    case (Cons c r)
    with "2.prems" have "length (skip_ws r) < n" using length_skip_ws [of r] by simp
    with "2.IH" "2.prems" Cons show ?thesis
      by (auto dest: p_scalar_error split: if_splits option.splits sum.splits)
  qed
next
  case (4 ft n s)
  show ?case
  proof (cases "p_value ft (Suc n) s")
    case (Inl e')
    with 4 show ?thesis by auto
  next
    case (Inr p)
    obtain v r where p: "p = (v, r)" by (cases p)
    show ?thesis
    proof (cases "skip_ws r")
      case Nil
      with Inr p 4 show ?thesis by simp
    next
      case (Cons c r')
      from p_shorter(1) [OF Inr [unfolded p]] Cons "4.prems" have "length (skip_ws r') < n"
        using skip_ws_Cons_shorter [OF Cons] length_skip_ws [of r'] by linarith
      with 4 Inr p Cons show ?thesis by (auto split: if_splits sum.splits)
    qed
  qed
next
  case (6 ft n d s)
  show ?case
  proof (cases "starts_with s [34] \<and> (\<exists>k r. p_string (drop 1 s) = Some (k, r) \<and> starts_with (skip_ws r) [58])")
    case False
    with "6.prems" show ?thesis by (auto split: if_splits option.splits)
  next
    case True
    then obtain k r where r: "starts_with s [34]" "p_string (drop 1 s) = Some (k, r)"
      "starts_with (skip_ws r) [58]" by blast
    let ?t = "skip_ws (drop 1 (skip_ws r))"
    have len: "length ?t < n"
      using p_string_shorter [OF r(2)] length_tl_skip_ws [of r] "6.prems" by simp
    show ?thesis
    proof (cases "p_value ft n ?t")
      case (Inl e')
      with 6 r len show ?thesis by auto
    next
      case (Inr p)
      obtain v r2 where p: "p = (v, r2)" by (cases p)
      show ?thesis
      proof (cases "skip_ws r2")
        case Nil
        with Inr p 6 r len show ?thesis by simp
      next
        case (Cons c r')
        from p_shorter(1) [OF Inr [unfolded p]] have "length (skip_ws r') < n"
          using skip_ws_Cons_shorter [OF Cons] length_skip_ws [of r'] len by linarith
        with 6 r len Inr p Cons show ?thesis by (auto split: if_splits)
      qed
    qed
  qed
qed simp_all

lemma loads_error: "loads ft s = Inl e \<Longrightarrow> e \<in> {''JSONDecodeError'', ''ValueError''}"
  by (auto simp: loads_def Let_def simp del: p_value.simps split: sum.splits if_splits
      dest!: p_error(1) [rotated])

subsection \<open>What is written is read back\<close>

text \<open>
  \<open>json_ok\<close>: a value without
  floats, whose strings have no halves of surrogate pairs, whose ints Python would read (at most 4300
  digits) and whose dicts have each key once.
\<close>

fun json_ok :: "json \<Rightarrow> bool" where
  "json_ok (JInt i) = (length (show_nat (nat \<bar>i\<bar>)) \<le> MAX_INT_DIGITS)"
| "json_ok (JFloat t) = False"
| "json_ok (JStr s) = list_all scalar s"
| "json_ok (JArr xs) = list_all json_ok xs"
| "json_ok (JObj kvs) = (distinct (map fst kvs) \<and> list_all (\<lambda>(k, v). list_all scalar k \<and> json_ok v) kvs)"
| "json_ok _ = True"

lemma hex_val_digit [simp]: "d < 16 \<Longrightarrow> hex_val (hex_digit d) = Some d"
  by (auto simp: hex_val_def hex_digit_def)

lemma four_digits:
  "16 * b + n0 = n \<Longrightarrow> 16 * c + b0 = b \<Longrightarrow> 16 * d + c0 = c \<Longrightarrow>
    4096 * d + 256 * c0 + 16 * b0 + n0 = (n::nat)"
  by simp

lemma hex_digits_value:
  assumes "(n::nat) < 65536"
  shows "4096 * (n div 4096 mod 16) + 256 * (n div 256 mod 16) + 16 * (n div 16 mod 16) + n mod 16 = n"
proof -
  have e: "n div 256 = n div 16 div 16" "n div 4096 = n div 16 div 16 div 16"
    by (simp_all add: div_mult2_eq [symmetric])
  have "n div 4096 mod 16 = n div 4096" using assms by simp
  then show ?thesis
    using four_digits [OF mult_div_mod_eq mult_div_mod_eq mult_div_mod_eq, of n] by (simp only: e)
qed

lemma hex4_digits:
  "n < 65536 \<Longrightarrow> hex4 (hex_digit (n div 4096 mod 16) # hex_digit (n div 256 mod 16)
     # hex_digit (n div 16 mod 16) # hex_digit (n mod 16) # r) = Some (n, r)"
  using hex_digits_value [of n] by simp

lemma hex4_u_escape: "n < 65536 \<Longrightarrow> hex4 (drop 2 (u_escape n @ r)) = Some (n, r)"
  using hex4_digits [of n r] by (simp add: u_escape_def del: hex4.simps)

lemma starts_u_escape: "starts_with (u_escape n @ r) [92, 117]"
  by (simp add: u_escape_def starts_with_def)

lemma p_string_u:
  assumes "n < 65536"
  shows "p_string (u_escape n @ r) = (case low_half n r of
     None \<Rightarrow> push n (p_string r)
   | Some (l, r3) \<Rightarrow> push (65536 + (n - 55296) * 1024 + (l - 56320)) (p_string r3))"
  using hex4_digits [OF assms] by (simp add: u_escape_def del: hex4.simps)

lemma p_string_pair:
  assumes "h < 1024" and "l < 1024"
  shows "p_string (u_escape (55296 + h) @ u_escape (56320 + l) @ r) =
    push (65536 + h * 1024 + l) (p_string r)"
proof -
  have "low_half (55296 + h) (u_escape (56320 + l) @ r) = Some (56320 + l, r)"
    unfolding low_half_def
    using assms by (simp add: starts_u_escape hex4_u_escape del: drop_append)
  then show ?thesis
    using p_string_u [of "55296 + h" "u_escape (56320 + l) @ r"] assms by simp
qed

lemma p_string_escape:
  assumes "scalar c"
  shows "p_string (escape_char a c @ r) = push c (p_string r)"
proof -
  have low: "low_half c r = None" using assms by (auto simp: scalar_def surrogate_def low_half_def)
  consider (plain) "escape_char a c = [c]" "c \<noteq> 34" "c \<noteq> 92" "32 \<le> c"
    | (short) e where "escape_char a c = [92, e]" "simple_escape e = Some c" "e \<noteq> 117"
    | (u) "escape_char a c = u_escape c" "c < 65536"
    | (pair) "65536 \<le> c" "escape_char a c = u_escape (55296 + (c - 65536) div 1024 mod 1024)
        @ u_escape (56320 + (c - 65536) mod 1024)"
  proof -
    consider "c \<in> {34, 92, 8, 9, 10, 12, 13}" | "c \<notin> {34, 92, 8, 9, 10, 12, 13}" "c < 32"
      | "c \<notin> {34, 92}" "32 \<le> c" "\<not> a \<or> c \<le> 126"
      | "c \<notin> {34, 92}" "32 \<le> c" "\<not> (\<not> a \<or> c \<le> 126)" "c < 65536"
      | "\<not> (\<not> a \<or> c \<le> 126)" "65536 \<le> c"
      by fastforce
    then show thesis
    proof cases
      case 1
      then show thesis
        by (auto simp: escape_char_def simple_escape_def intro: short)
    next
      case 2
      then show thesis by (intro u) (auto simp: escape_char_def)
    next
      case 3
      then show thesis by (intro plain) (auto simp: escape_char_def)
    next
      case 4
      then show thesis by (intro u) (auto simp: escape_char_def)
    next
      case 5
      then show thesis by (intro pair) (auto simp: escape_char_def)
    qed
  qed
  then show ?thesis
  proof cases
    case plain
    then show ?thesis by simp
  next
    case short
    then show ?thesis by simp
  next
    case u
    with low show ?thesis by (simp add: p_string_u)
  next
    case pair
    have "(c - 65536) div 1024 < 1024" using assms by (auto simp: scalar_def surrogate_def)
    then have "65536 + (c - 65536) div 1024 mod 1024 * 1024 + (c - 65536) mod 1024 = c"
      using pair(1) div_mult_mod_eq [of "c - 65536" 1024] by simp
    with pair(2) show ?thesis
      using p_string_pair [of "(c - 65536) div 1024 mod 1024" "(c - 65536) mod 1024" r] by simp
  qed
qed

lemma p_string_quote:
  "list_all scalar s \<Longrightarrow> p_string (concat (map (escape_char a) s) @ 34 # r) = Some (s, r)"
  by (induction s) (simp_all add: p_string_escape push_def del: p_string.simps(2),
      simp add: p_string.simps(2))

lemma show_nat_hd: "hd (show_nat n) = 48 \<Longrightarrow> n = 0"
proof (induction n rule: show_nat.induct)
  case (1 n)
  then show ?case by (cases "n < 10") (auto simp: show_nat.simps [of n])
qed

text \<open>What may follow a value: anything but a character that would continue a number.\<close>

definition clean :: "ustring \<Rightarrow> bool" where
  "clean r \<longleftrightarrow> (case r of [] \<Rightarrow> True | c # _ \<Rightarrow> \<not> is_digit c \<and> c \<noteq> 46 \<and> c \<noteq> 101 \<and> c \<noteq> 69)"

lemma clean_Cons [simp]: "clean (c # r) \<longleftrightarrow> \<not> is_digit c \<and> c \<noteq> 46 \<and> c \<noteq> 101 \<and> c \<noteq> 69"
  by (simp add: clean_def)

lemma clean_Nil [simp]: "clean []"
  by (simp add: clean_def)

lemma clean_parts: "clean r \<Longrightarrow> fraction_part r = [] \<and> exponent_part r = []"
  by (auto simp: clean_def fraction_part_def exponent_part_def split: list.splits)

lemma takeWhile_digits:
  "(\<And>c. c \<in> set ds \<Longrightarrow> is_digit c) \<Longrightarrow> clean r \<Longrightarrow> takeWhile is_digit (ds @ r) = ds"
  by (cases r) auto

lemma p_number_int:
  assumes "clean r" and "length (show_nat (nat \<bar>i\<bar>)) \<le> MAX_INT_DIGITS"
  shows "p_number ft (show_int i @ r) = Inr (JInt i, r)"
proof -
  obtain d ds where d: "show_nat (nat \<bar>i\<bar>) = d # ds"
    by (cases "show_nat (nat \<bar>i\<bar>)") auto
  have digits: "\<And>c. c \<in> set (d # ds) \<Longrightarrow> is_digit c"
    using show_nat_digits [of _ "nat \<bar>i\<bar>"] d by simp
  from this [of d] have "d \<noteq> 45" by (auto simp: is_digit_def)
  have zero: "d = 48 \<Longrightarrow> ds = []"
    using show_nat_hd [of "nat \<bar>i\<bar>"] d by (simp add: show_nat.simps [of 0])
  have num: "int (digits_value (d # ds)) = \<bar>i\<bar>"
    using digits_value_show_nat [of "nat \<bar>i\<bar>"] d by simp
  have ip: "integer_part (d # ds @ r) = d # ds"
    using zero takeWhile_digits [of "d # ds", OF digits assms(1)]
    by (cases "d = 48") (simp_all add: integer_part_def del: takeWhile.simps)
  have len: "length (d # ds) \<le> MAX_INT_DIGITS" using assms(2) d by simp
  have si: "show_int i @ r = (if i < 0 then [45] else []) @ d # ds @ r"
    using d by (simp add: show_int_def abs_if split: if_splits)
  have st: "starts_with (show_int i @ r) [45] \<longleftrightarrow> i < 0"
    using \<open>d \<noteq> 45\<close> by (simp add: si starts_with_def)
  show ?thesis
    unfolding p_number_def Let_def st unfolding si
    using ip num len clean_parts [OF assms(1)] by (cases "i < 0") simp_all
qed


lemma p_scalar_int:
  assumes "clean r" and "length (show_nat (nat \<bar>i\<bar>)) \<le> MAX_INT_DIGITS"
  shows "p_scalar ft (show_int i @ r) = Inr (JInt i, r)"
proof -
  obtain d ds where d: "show_nat (nat \<bar>i\<bar>) = d # ds" by (cases "show_nat (nat \<bar>i\<bar>)") auto
  have "is_digit d" using show_nat_digits [of d "nat \<bar>i\<bar>"] d by simp
  moreover have "show_int i @ r = (if i < 0 then [45] else []) @ d # ds @ r"
    using d by (simp add: show_int_def abs_if split: if_splits)
  ultimately have "find (\<lambda>(w, v). starts_with (show_int i @ r) w) literals = None"
    by (auto simp: find_None_iff literals_def ustr_def starts_with_def is_digit_def)
  with p_number_int [OF assms, of ft] show ?thesis by (simp add: p_scalar_def)
qed

text \<open>The first character written: never a space, a closing bracket, or \<open>,\<close>.\<close>

lemma dumps_first:
  assumes "json_ok v"
  obtains c t where "dumps a v = c # t" and "\<not> is_json_space c" and "c \<noteq> 93"
proof -
  have "\<exists>c t. dumps a v = c # t \<and> \<not> is_json_space c \<and> c \<noteq> 93"
  proof (cases v)
    case (JInt i)
    obtain d ds where d: "show_nat (nat \<bar>i\<bar>) = d # ds" by (cases "show_nat (nat \<bar>i\<bar>)") auto
    have "is_digit d" using show_nat_digits [of d "nat \<bar>i\<bar>"] d by simp
    with d JInt show ?thesis
      by (auto simp: show_int_def abs_if is_json_space_def is_digit_def split: if_splits)
  qed (use assms in \<open>auto simp: ustr_def is_json_space_def quote_def\<close>)
  then show thesis using that by blast
qed

lemma skip_ws_dumps: "json_ok v \<Longrightarrow> skip_ws (dumps a v @ r) = dumps a v @ r"
  by (erule dumps_first [of v a]) (simp add: skip_ws_def)

lemma skip_ws_stop: "\<not> is_json_space c \<Longrightarrow> skip_ws (c # r) = c # r"
  by (simp add: skip_ws_def)

lemma p_items_dumps:
  assumes "\<And>v n r. v \<in> set (x # xs) \<Longrightarrow> clean r \<Longrightarrow> length (dumps a v @ r) < n \<Longrightarrow>
      p_value ft n (dumps a v @ r) = Inr (v, r)"
    and "\<And>v. v \<in> set (x # xs) \<Longrightarrow> json_ok v"
    and "length (join [44] (map (dumps a) (x # xs)) @ 93 # r) < n"
  shows "p_items ft n (join [44] (map (dumps a) (x # xs)) @ 93 # r) = Inr (x # xs, r)"
  using assms
proof (induction xs arbitrary: x n)
  case Nil
  from Nil.prems(3) obtain m where n: "n = Suc m" by (cases n) auto
  have "p_value ft (Suc m) (dumps a x @ 93 # r) = Inr (x, 93 # r)"
    using Nil.prems(1) [of x "93 # r" n] Nil.prems(3) n by (simp add: is_digit_def)
  then show ?case by (simp add: n skip_ws_stop is_json_space_def del: p_value.simps)
next
  case (Cons y ys)
  from Cons.prems(3) obtain m where n: "n = Suc m" by (cases n) auto
  let ?t = "join [44] (map (dumps a) (y # ys)) @ 93 # r"
  have split: "join [44] (map (dumps a) (x # y # ys)) @ 93 # r = dumps a x @ 44 # ?t" by simp
  have "p_value ft (Suc m) (dumps a x @ 44 # ?t) = Inr (x, 44 # ?t)"
    using Cons.prems(1) [of x "44 # ?t" n] Cons.prems(3) n by (simp add: is_digit_def)
  moreover have "p_items ft m ?t = Inr (y # ys, r)"
    using Cons.IH [of y m] Cons.prems n by (simp del: p_items.simps)
  moreover have "skip_ws ?t = ?t"
    using skip_ws_dumps [of y a] Cons.prems(2) [of y] by (cases ys) simp_all
  ultimately show ?case
    unfolding split n p_items.simps by (simp add: skip_ws_stop is_json_space_def del: p_value.simps)
qed

lemma update_new: "k \<notin> set (map fst d) \<Longrightarrow> AList.update k v d = d @ [(k, v)]"
  by (induction d) auto

abbreviation member_text :: "bool \<Rightarrow> ustring \<times> json \<Rightarrow> ustring" where
  "member_text a x \<equiv> (case x of (k, v) \<Rightarrow> quote a k @ [58] @ dumps a v)"

lemma p_members_dumps:
  assumes "\<And>k v n r. (k, v) \<in> set (x # xs) \<Longrightarrow> clean r \<Longrightarrow> length (dumps a v @ r) < n \<Longrightarrow>
      p_value ft n (dumps a v @ r) = Inr (v, r)"
    and "\<And>k v. (k, v) \<in> set (x # xs) \<Longrightarrow> list_all scalar k \<and> json_ok v"
    and "distinct (map fst (d @ x # xs))"
    and "length (join [44] (map (member_text a) (x # xs)) @ 125 # r) < n"
  shows "p_members ft n d (join [44] (map (member_text a) (x # xs)) @ 125 # r) = Inr (d @ x # xs, r)"
  using assms
proof (induction xs arbitrary: x n d)
  case Nil
  obtain k v where x: "x = (k, v)" by (cases x)
  from Nil.prems(4) obtain m where n: "n = Suc m" by (cases n) auto
  have "p_value ft m (dumps a v @ 125 # r) = Inr (v, 125 # r)"
    using Nil.prems(1) [of k v "125 # r" m] Nil.prems(4) n x by (simp add: is_digit_def quote_def)
  with Nil.prems show ?case
    using p_string_quote [of k a "58 # dumps a v @ 125 # r"] skip_ws_dumps [of v a "125 # r"]
    by (simp add: n x quote_def starts_with_def skip_ws_stop is_json_space_def update_new
        del: p_value.simps p_string.simps)
next
  case (Cons y ys)
  obtain k v where x: "x = (k, v)" by (cases x)
  from Cons.prems(4) obtain m where n: "n = Suc m" by (cases n) auto
  let ?t = "join [44] (map (member_text a) (y # ys)) @ 125 # r"
  have split: "join [44] (map (member_text a) (x # y # ys)) @ 125 # r = quote a k @ 58 # dumps a v @ 44 # ?t"
    by (simp add: x)
  have "p_value ft m (dumps a v @ 44 # ?t) = Inr (v, 44 # ?t)"
    using Cons.prems(1) [of k v "44 # ?t" m] Cons.prems(4) n x by (simp add: is_digit_def quote_def)
  moreover have "p_members ft m (d @ [x]) ?t = Inr ((d @ [x]) @ y # ys, r)"
  proof (rule Cons.IH)
    show "p_value ft i (dumps a w @ q) = Inr (w, q)"
      if "(j, w) \<in> set (y # ys)" "clean q" "length (dumps a w @ q) < i" for j w i q
      by (rule Cons.prems(1) [of j]) (use that in simp_all)
    show "list_all scalar j \<and> json_ok w" if "(j, w) \<in> set (y # ys)" for j w
      by (rule Cons.prems(2)) (use that in simp)
    show "distinct (map fst ((d @ [x]) @ y # ys))" using Cons.prems(3) by simp
    show "length ?t < m" using Cons.prems(4) n unfolding split by (simp add: quote_def)
  qed
  moreover have "skip_ws ?t = ?t"
    by (cases y; cases ys) (simp_all add: quote_def skip_ws_stop is_json_space_def)
  ultimately show ?case
    using p_string_quote [of k a "58 # dumps a v @ 44 # ?t"] skip_ws_dumps [of v a "44 # ?t"] Cons.prems(2) [of k v] Cons.prems(3)
    unfolding split n
    by (simp add: x quote_def starts_with_def skip_ws_stop is_json_space_def update_new
        del: p_value.simps p_string.simps)
qed


lemma p_value_dumps:
  "json_ok v \<Longrightarrow> clean r \<Longrightarrow> length (dumps a v @ r) < n \<Longrightarrow>
    p_value ft n (dumps a v @ r) = Inr (v, r)"
proof (induction v arbitrary: r n)
  case (JInt i)
  obtain m where n: "n = Suc m" using JInt.prems by (cases n) auto
  obtain d ds where d: "show_nat (nat \<bar>i\<bar>) = d # ds" by (cases "show_nat (nat \<bar>i\<bar>)") auto
  then have "is_digit d" using show_nat_digits [of d "nat \<bar>i\<bar>"] by simp
  with d have "\<exists>c t. show_int i @ r = c # t \<and> c \<noteq> 34 \<and> c \<noteq> 91 \<and> c \<noteq> 123"
    by (auto simp: show_int_def abs_if is_digit_def split: if_splits)
  then show ?case
    using p_scalar_int [of r i ft] JInt.prems by (auto simp: n)
next
  case (JStr s)
  obtain m where "n = Suc m" using JStr.prems by (cases n) auto
  with p_string_quote [of s a r] JStr.prems show ?case by (simp add: quote_def del: p_string.simps)
next
  case (JArr xs)
  obtain m where n: "n = Suc m" using JArr.prems by (cases n) auto
  show ?case
  proof (cases xs)
    case Nil
    then show ?thesis by (simp add: n skip_ws_stop is_json_space_def starts_with_def)
  next
    case (Cons y ys)
    let ?t = "join [44] (map (dumps a) (y # ys)) @ 93 # r"
    have ok: "\<And>v. v \<in> set (y # ys) \<Longrightarrow> json_ok v" using JArr.prems(1) Cons by (auto simp: list_all_iff)
    have "p_items ft m ?t = Inr (y # ys, r)"
    proof (rule p_items_dumps)
      show "p_value ft i (dumps a w @ q) = Inr (w, q)"
        if "w \<in> set (y # ys)" "clean q" "length (dumps a w @ q) < i" for w i q
        using JArr.IH [of w] that ok Cons by blast
    qed (use ok JArr.prems(3) n Cons in auto)
    moreover have "skip_ws ?t = ?t"
      using skip_ws_dumps [of y a] ok [of y] by (cases ys) simp_all
    moreover have "\<not> starts_with ?t [93]"
    proof (rule dumps_first [of y a])
      show "json_ok y" by (rule ok) simp
    qed (cases ys, simp_all add: starts_with_def)
    ultimately show ?thesis by (simp add: n Cons)
  qed
next
  case (JObj kvs)
  obtain m where n: "n = Suc m" using JObj.prems by (cases n) auto
  show ?case
  proof (cases kvs)
    case Nil
    then show ?thesis by (simp add: n skip_ws_stop is_json_space_def starts_with_def)
  next
    case (Cons y ys)
    let ?t = "join [44] (map (member_text a) (y # ys)) @ 125 # r"
    have ok: "\<And>k v. (k, v) \<in> set (y # ys) \<Longrightarrow> list_all scalar k \<and> json_ok v"
      using JObj.prems(1) Cons by (auto simp: list_all_iff)
    have "p_members ft m [] ?t = Inr ([] @ y # ys, r)"
    proof (rule p_members_dumps)
      show "p_value ft i (dumps a w @ q) = Inr (w, q)"
        if "(j, w) \<in> set (y # ys)" "clean q" "length (dumps a w @ q) < i" for j w i q
        using JObj.IH [of "(j, w)" w] that ok Cons by auto
    qed (use ok JObj.prems n Cons in auto)
    moreover have "skip_ws ?t = ?t" and "\<not> starts_with ?t [125]"
      by (cases y; cases ys; simp add: quote_def skip_ws_stop is_json_space_def starts_with_def)+
    ultimately show ?thesis by (simp add: n Cons)
  qed
qed (use clean_def in \<open>auto simp: gr0_conv_Suc p_scalar_def literals_def starts_with_def ustr_def
       dest!: less_imp_Suc_add\<close>)

theorem loads_dumps: "json_ok v \<Longrightarrow> loads ft (dumps a v) = Inr v"
  using p_value_dumps [of v "[]" a "Suc (length (dumps a v))" ft] skip_ws_dumps [of v a "[]"]
  by (simp add: loads_def Let_def skip_ws_def del: p_value.simps)

text \<open>A line: the text with the newline that ends it.\<close>

theorem loads_dumps_line: "json_ok v \<Longrightarrow> loads ft (dumps a v @ [10]) = Inr v"
  using p_value_dumps [of v "[10]" a "Suc (Suc (length (dumps a v)))" ft] skip_ws_dumps [of v a "[10]"]
  by (simp add: loads_def Let_def del: p_value.simps)
    (simp add: skip_ws_def is_json_space_def is_digit_def del: p_value.simps)

declare p_string.simps(2) [simp del] p_value.simps [simp del] p_items.simps [simp del]
  p_members.simps [simp del]

end
