(* ===== verification/Py_Codec.thy ===== *)
theory Py_Codec
  imports Py_Json
begin

text \<open>
  Bytes and text: the ASCII and UTF-8 codecs, the wide decoders that \<open>json.loads\<close> picks for bytes
  by their zero pattern or byte order mark, and \<open>loads\<close> of bytes. The flag \<open>pass\<close> is the error
  handler \<open>surrogatepass\<close>; None is a \<open>UnicodeDecodeError\<close>.
\<close>

definition bytes_of :: "ustring \<Rightarrow> blob" where
  "bytes_of s = map word_of_nat s"

definition ascii_encode :: "ustring \<Rightarrow> blob option" where
  "ascii_encode s = (if list_all (\<lambda>c. c < 128) s then Some (bytes_of s) else None)"

definition ascii_decode :: "blob \<Rightarrow> ustring option" where
  "ascii_decode b = (if list_all (\<lambda>w. unat w < 128) b then Some (map unat b) else None)"

definition utf8_char :: "nat \<Rightarrow> nat list" where
  "utf8_char c =
    (if c < 128 then [c]
     else if c < 2048 then [192 + c div 64, 128 + c mod 64]
     else if c < 65536 then [224 + c div 4096, 128 + c div 64 mod 64, 128 + c mod 64]
     else [240 + c div 262144, 128 + c div 4096 mod 64, 128 + c div 64 mod 64, 128 + c mod 64])"

definition utf8_encode :: "bool \<Rightarrow> ustring \<Rightarrow> blob option" where
  "utf8_encode pass s =
    (if pass \<or> list_all (\<lambda>c. \<not> surrogate c) s then Some (bytes_of (concat (map utf8_char s))) else None)"

definition is_cont :: "nat \<Rightarrow> bool" where
  "is_cont b \<longleftrightarrow> 128 \<le> b \<and> b \<le> 191"

fun utf8_units :: "bool \<Rightarrow> nat list \<Rightarrow> ustring option" where
  "utf8_units pass [] = Some []"
| "utf8_units pass (b # r) =
    (if b < 128 then map_option (Cons b) (utf8_units pass r)
     else if 194 \<le> b \<and> b \<le> 223 then (case r of
         c1 # r1 \<Rightarrow>
           if is_cont c1 then map_option (Cons ((b - 192) * 64 + (c1 - 128))) (utf8_units pass r1) else None
       | _ \<Rightarrow> None)
     else if 224 \<le> b \<and> b \<le> 239 then (case r of
         c1 # c2 # r2 \<Rightarrow>
           (let c = (b - 224) * 4096 + (c1 - 128) * 64 + (c2 - 128) in
            if is_cont c1 \<and> is_cont c2 \<and> 2048 \<le> c \<and> (pass \<or> \<not> surrogate c)
            then map_option (Cons c) (utf8_units pass r2) else None)
       | _ \<Rightarrow> None)
     else if 240 \<le> b \<and> b \<le> 244 then (case r of
         c1 # c2 # c3 # r3 \<Rightarrow>
           (let c = (b - 240) * 262144 + (c1 - 128) * 4096 + (c2 - 128) * 64 + (c3 - 128) in
            if is_cont c1 \<and> is_cont c2 \<and> is_cont c3 \<and> 65536 \<le> c \<and> c \<le> 1114111
            then map_option (Cons c) (utf8_units pass r3) else None)
       | _ \<Rightarrow> None)
     else None)"

definition utf8_decode :: "bool \<Rightarrow> blob \<Rightarrow> ustring option" where
  "utf8_decode pass b = utf8_units pass (map unat b)"

subsection \<open>The wide encodings\<close>

text \<open>Pairs and quadruples of bytes as numbers; None when a unit is truncated.\<close>

fun units16 :: "bool \<Rightarrow> nat list \<Rightarrow> nat list option" where
  "units16 big (x # y # r) =
     map_option (Cons (if big then 256 * x + y else x + 256 * y)) (units16 big r)"
| "units16 big [] = Some []"
| "units16 big [x] = None"

fun join_pairs :: "nat list \<Rightarrow> ustring" where
  "join_pairs (h # l # r) =
    (if 55296 \<le> h \<and> h \<le> 56319 \<and> 56320 \<le> l \<and> l \<le> 57343
     then (65536 + (h - 55296) * 1024 + (l - 56320)) # join_pairs r
     else h # join_pairs (l # r))"
| "join_pairs s = s"

definition wide16_decode :: "bool \<Rightarrow> blob \<Rightarrow> ustring option" where
  "wide16_decode big b = map_option join_pairs (units16 big (map unat b))"

fun units32 :: "bool \<Rightarrow> nat list \<Rightarrow> nat list option" where
  "units32 big [] = Some []"
| "units32 big (w # x # y # z # r) =
    (let c = (if big then ((w * 256 + x) * 256 + y) * 256 + z else ((z * 256 + y) * 256 + x) * 256 + w) in
     if c \<le> 1114111 then map_option (Cons c) (units32 big r) else None)"
| "units32 big _ = None"

definition wide32_decode :: "bool \<Rightarrow> blob \<Rightarrow> ustring option" where
  "wide32_decode big b = units32 big (map unat b)"

text \<open>\<open>json.detect_encoding\<close> and the decoding it leads to.\<close>

definition json_text :: "blob \<Rightarrow> ustring option" where
  "json_text b =
    (if starts_with b [0, 0, 0xFE, 0xFF] then wide32_decode True (drop 4 b)
     else if starts_with b [0xFF, 0xFE, 0, 0] then wide32_decode False (drop 4 b)
     else if starts_with b [0xFE, 0xFF] then wide16_decode True (drop 2 b)
     else if starts_with b [0xFF, 0xFE] then wide16_decode False (drop 2 b)
     else if starts_with b [0xEF, 0xBB, 0xBF] then utf8_decode True (drop 3 b)
     else (case b of
         b0 # b1 # b2 # b3 # _ \<Rightarrow>
           if b0 = 0 then (if b1 \<noteq> 0 then wide16_decode True b else wide32_decode True b)
           else if b1 = 0 then (if b2 \<noteq> 0 \<or> b3 \<noteq> 0 then wide16_decode False b else wide32_decode False b)
           else utf8_decode True b
       | [b0, b1] \<Rightarrow>
           if b0 = 0 then wide16_decode True b
           else if b1 = 0 then wide16_decode False b else utf8_decode True b
       | _ \<Rightarrow> utf8_decode True b))"

definition loads_bytes :: "(ustring \<Rightarrow> ustring) \<Rightarrow> blob \<Rightarrow> string + json" where
  "loads_bytes ft b = (case json_text b of
      None \<Rightarrow> Inl ''UnicodeDecodeError'' | Some s \<Rightarrow> loads ft s)"

subsection \<open>Round trips\<close>

lemma unat_bytes_of: "list_all (\<lambda>c. c < 256) s \<Longrightarrow> map unat (bytes_of s) = s"
  by (induction s) (simp_all add: bytes_of_def unat_of_nat)

lemma length_bytes_of [simp]: "length (bytes_of s) = length s"
  by (simp add: bytes_of_def)

lemma ascii_round_trip: "list_all (\<lambda>c. c < 128) s \<Longrightarrow> ascii_decode (bytes_of s) = Some s"
proof -
  assume small: "list_all (\<lambda>c. c < 128) s"
  then have "map unat (bytes_of s) = s" by (intro unat_bytes_of) (auto simp: list_all_iff)
  moreover from this small have "list_all (\<lambda>w. unat w < 128) (bytes_of s)"
    by (simp add: list_all_iff flip: set_map) (metis image_eqI set_map)
  ultimately show ?thesis by (simp add: ascii_decode_def)
qed

lemma two64: "d * 64 + n0 = n \<Longrightarrow> c * 64 + d0 = d \<Longrightarrow> c * 4096 + d0 * 64 + n0 = (n::nat)"
  by simp

lemma base64: "c div 4096 * 4096 + c div 64 mod 64 * 64 + c mod 64 = (c::nat)"
proof -
  have "c div 4096 = c div 64 div 64" by (simp add: div_mult2_eq [symmetric])
  then show ?thesis using two64 [OF div_mult_mod_eq div_mult_mod_eq, of c] by (simp only:)
qed

lemma base64_high: "c div 262144 * 262144 + c div 4096 mod 64 * 4096 = c div 4096 * (4096::nat)"
proof -
  have "c div 262144 = c div 4096 div 64" by (simp add: div_mult2_eq [symmetric])
  then show ?thesis using div_mult_mod_eq [of "c div 4096" 64] by linarith
qed

lemma is_cont_mod [simp]: "is_cont (128 + c mod 64)"
  using mod_less_divisor [of 64 c] by (simp add: is_cont_def)

lemma utf8_units_char:
  assumes "scalar c"
  shows "utf8_units pass (utf8_char c @ r) = map_option (Cons c) (utf8_units pass r)"
proof -
  have max: "c < 1114112" and ok: "\<not> surrogate c"
    using assms by (auto simp: scalar_def surrogate_def)
  consider "c < 128" | "128 \<le> c" "c < 2048" | "2048 \<le> c" "c < 65536" | "65536 \<le> c" by linarith
  then show ?thesis
  proof cases
    case 1
    then show ?thesis by (simp add: utf8_char_def)
  next
    case 2
    then have "2 \<le> c div 64" and "c div 64 < 32"
      by (simp_all add: less_eq_div_iff_mult_less_eq less_mult_imp_div_less)
    then obtain q where "q = c div 64" "2 \<le> q" "q \<le> 31" by simp
    with 2 show ?thesis using div_mult_mod_eq [of c 64]
      by (simp only: utf8_char_def flip: \<open>q = c div 64\<close>) simp
  next
    case 3
    then have "c div 4096 \<le> 15" by (simp flip: less_Suc_eq_le)
    with 3 ok show ?thesis using base64 [of c] by (simp add: utf8_char_def Let_def)
  next
    case 4
    from max have "c div 262144 \<le> 4" by (simp flip: less_Suc_eq_le)
    with 4 max show ?thesis using base64 [of c] base64_high [of c] by (simp add: utf8_char_def Let_def)
  qed
qed

lemma utf8_char_bytes: "scalar c \<Longrightarrow> list_all (\<lambda>b. b < 256) (utf8_char c)"
proof -
  assume "scalar c"
  then have "c div 262144 < 16" by (simp add: scalar_def surrogate_def less_mult_imp_div_less)
  moreover have "128 + n mod 64 < 256" for n :: nat using mod_less_divisor [of 64 n] by simp
  ultimately show ?thesis by (auto simp: utf8_char_def)
qed

lemma utf8_units_text:
  "list_all scalar s \<Longrightarrow> utf8_units pass (concat (map utf8_char s)) = Some s"
  by (induction s) (simp_all add: utf8_units_char)

theorem utf8_round_trip:
  assumes "list_all scalar s"
  obtains b where "utf8_encode pass s = Some b" and "utf8_decode pass b = Some s"
proof
  have "list_all (\<lambda>b. b < 256) (concat (map utf8_char s))"
    using assms utf8_char_bytes by (induction s) auto
  then show "utf8_decode pass (bytes_of (concat (map utf8_char s))) = Some s"
    using assms by (simp add: utf8_decode_def unat_bytes_of utf8_units_text)
  show "utf8_encode pass s = Some (bytes_of (concat (map utf8_char s)))"
    using assms by (auto simp: utf8_encode_def list_all_iff scalar_def surrogate_def)
qed

subsection \<open>What \<open>ensure_ascii\<close> writes\<close>

definition printable :: "nat \<Rightarrow> bool" where
  "printable c \<longleftrightarrow> 32 \<le> c \<and> c \<le> 126"

lemma hex_digit_printable [simp]: "d < 16 \<Longrightarrow> printable (hex_digit d)"
  by (auto simp: printable_def hex_digit_def)

lemma u_escape_printable: "list_all printable (u_escape n)"
  by (simp add: u_escape_def) (simp add: printable_def)

lemma escape_printable: "list_all printable (escape_char True c)"
  by (auto simp: escape_char_def u_escape_printable) (auto simp: printable_def)

lemma quote_printable: "list_all printable (quote True s)"
  using escape_printable by (auto simp: quote_def list_all_iff) (auto simp: printable_def)

lemma show_int_printable: "list_all printable (show_int i)"
proof -
  have "printable c" if "c \<in> set (show_nat n)" for c n
    using show_nat_digits [OF that] by (simp add: printable_def is_digit_def)
  then show ?thesis by (auto simp: show_int_def list_all_iff printable_def [of 45])
qed

lemma join_all: "list_all P sep \<Longrightarrow> list_all (list_all P) xs \<Longrightarrow> list_all P (join sep xs)"
  by (induction sep xs rule: join.induct) auto

lemma printable_all:
  "(\<And>c. printable c \<Longrightarrow> P c) \<Longrightarrow> list_all printable s \<Longrightarrow> list_all P s"
  by (auto simp: list_all_iff)

text \<open>A predicate of all printable characters and of all quoted strings holds of what is written.\<close>

lemma dumps_all:
  assumes pr: "\<And>c. printable c \<Longrightarrow> P c" and qu: "\<And>s. list_all scalar s \<Longrightarrow> list_all P (quote a s)"
  shows "json_ok v \<Longrightarrow> list_all P (dumps a v)"
proof (induction v)
  case (JArr xs)
  then have "list_all P (join [44] (map (dumps a) xs))"
    by (intro join_all) (auto simp: list_all_iff printable_def intro: pr)
  then show ?case by (simp add: pr printable_def)
next
  case (JObj kvs)
  have "list_all P (member_text a x)" if "x \<in> set kvs" for x
  proof -
    obtain k v where x: "x = (k, v)" by (cases x)
    from JObj.IH [OF that] JObj.prems that x have "list_all P (dumps a v)" and "list_all P (quote a k)"
      by (auto simp: list_all_iff qu [unfolded list_all_iff])
    then show ?thesis using x by (simp add: pr printable_def)
  qed
  then have "list_all P (join [44] (map (member_text a) kvs))"
    by (intro join_all) (auto simp: list_all_iff printable_def intro: pr)
  then show ?case by (simp add: pr printable_def)
next
  case (JInt i)
  show ?case using printable_all [OF pr show_int_printable] by simp
next
  case (JStr s)
  then show ?case by (simp add: qu)
qed (auto simp: ustr_def printable_def intro!: pr)

lemma dumps_printable: "json_ok v \<Longrightarrow> list_all printable (dumps True v)"
  by (rule dumps_all [OF _ quote_printable])

lemma printable_scalar: "printable c \<Longrightarrow> scalar c"
  by (simp add: printable_def scalar_def surrogate_def)

lemma u_escape_scalar: "list_all scalar (u_escape n)"
  by (rule printable_all [OF printable_scalar u_escape_printable])

lemma escape_scalar: "scalar c \<Longrightarrow> list_all scalar (escape_char a c)"
  by (auto simp: escape_char_def u_escape_scalar) (auto simp: scalar_def surrogate_def)

lemma quote_scalar: "list_all scalar s \<Longrightarrow> list_all scalar (quote a s)"
  using escape_scalar by (fastforce simp: quote_def list_all_iff scalar_def [of 34] surrogate_def)

lemma dumps_scalar: "json_ok v \<Longrightarrow> list_all scalar (dumps a v)"
  by (rule dumps_all [OF printable_scalar quote_scalar])

lemma json_text_printable:
  assumes "list_all printable s" and "s \<noteq> []"
  shows "json_text (bytes_of (s @ [10])) = Some (s @ [10])"
proof -
  have small: "list_all (\<lambda>c. 10 \<le> c \<and> c < 128) (s @ [10])"
    using assms(1) by (auto simp: list_all_iff printable_def)
  have low: "10 \<le> unat w \<and> unat w < 128" if "w \<in> set (bytes_of (s @ [10]))" for w
    using that small by (auto simp: bytes_of_def list_all_iff unat_of_nat)
  have units: "utf8_units True t = Some t" if "list_all (\<lambda>c. 10 \<le> c \<and> c < 128) t" for t
    using that by (induction t) auto
  have dec: "utf8_decode True (bytes_of (s @ [10])) = Some (s @ [10])"
  proof -
    have "list_all (\<lambda>c. c < 256) (s @ [10])" using small by (auto simp: list_all_iff)
    then show ?thesis using units [OF small] by (simp only: utf8_decode_def unat_bytes_of)
  qed
  have "0 \<notin> set (bytes_of (s @ [10]))" and "0xFE \<notin> set (bytes_of (s @ [10]))"
    and "0xFF \<notin> set (bytes_of (s @ [10]))" and "0xEF \<notin> set (bytes_of (s @ [10]))"
    using low by force+
  moreover obtain w b where "bytes_of (s @ [10]) = w # b" using assms(2) by (cases s) (auto simp: bytes_of_def)
  ultimately show ?thesis
    using dec by (auto simp: json_text_def starts_with_def split: list.splits)
qed

theorem loads_ascii_line:
  assumes "json_ok v" shows "loads_bytes ft (bytes_of (dumps True v @ [10])) = Inr v"
proof -
  have "dumps True v \<noteq> []" using dumps_first [OF assms] by (metis list.distinct(1))
  then show ?thesis
    using json_text_printable [OF dumps_printable [OF assms]] loads_dumps_line [OF assms]
    by (simp add: loads_bytes_def)
qed

end
