(* ===== verification/Crypto.thy ===== *)
theory Crypto
  imports Service_Core Py_Codec
begin

text \<open>
  \<open>crypto.py\<close>: the keyed digests, the sealed references and the sealed case contents. HMAC-SHA-256,
  AES in counter mode, AES-GCM and HKDF are the fields of a \<open>ciphers\<close> record; what is proved about
  the round trips needs of them only that decryption undoes encryption and that a tag has 32
  bytes (\<open>good_ciphers\<close>). The random bytes of an operation are its argument.
\<close>

record ciphers =
  hmac_sha256 :: "blob \<Rightarrow> blob \<Rightarrow> blob"
  ctr_encrypt :: "blob \<Rightarrow> nat \<Rightarrow> blob \<Rightarrow> blob"
  ctr_decrypt :: "blob \<Rightarrow> nat \<Rightarrow> blob \<Rightarrow> blob"
  hkdf_sha256 :: "blob \<Rightarrow> blob \<Rightarrow> blob"
  gcm_encrypt :: "blob \<Rightarrow> blob \<Rightarrow> blob \<Rightarrow> blob \<Rightarrow> blob"
  gcm_decrypt :: "blob \<Rightarrow> blob \<Rightarrow> blob \<Rightarrow> blob \<Rightarrow> blob option"
  float_text :: "ustring \<Rightarrow> ustring"

definition good_ciphers :: "ciphers \<Rightarrow> bool" where
  "good_ciphers C \<longleftrightarrow> (\<forall>k m. length (hmac_sha256 C k m) = 32)
     \<and> (\<forall>k n p. ctr_decrypt C k n (ctr_encrypt C k n p) = p \<and> length (ctr_encrypt C k n p) = length p)
     \<and> (\<forall>k n p a. gcm_decrypt C k n (gcm_encrypt C k n p a) a = Some p
          \<and> length (gcm_encrypt C k n p a) = length p + 16)"

definition ascii_bytes :: "string \<Rightarrow> blob" where
  "ascii_bytes s = bytes_of (ustr s)"

subsection \<open>IdentifierProtector\<close>

definition identifier_protector :: "blob \<Rightarrow> exn + blob" where
  "identifier_protector key = (if length key < 32 then Inl ''ValueError'' else Inr key)"

definition hex_string :: "blob \<Rightarrow> string" where
  "hex_string b = concat (map (\<lambda>w. [char_of (hex_digit (unat w div 16)), char_of (hex_digit (unat w mod 16))]) b)"

definition digest :: "ciphers \<Rightarrow> blob \<Rightarrow> string \<Rightarrow> ustring \<Rightarrow> exn + string" where
  "digest C key purpose value =
    (case utf8_encode False (ustr ''v1:'' @ ustr purpose @ [58] @ value) of
       None \<Rightarrow> Inl ''UnicodeEncodeError''
     | Some payload \<Rightarrow> Inr (hex_string (hmac_sha256 C key payload)))"

definition sender_key_of :: "ciphers \<Rightarrow> blob \<Rightarrow> int \<Rightarrow> exn + string" where
  "sender_key_of C key telegram_user_id = digest C key ''sender'' (show_int telegram_user_id)"

definition answer_digest_of :: "ciphers \<Rightarrow> blob \<Rightarrow> sender_key \<Rightarrow> string \<Rightarrow> ustring \<Rightarrow> exn + string" where
  "answer_digest_of C key k cid answer =
     digest C key ''answer'' (ustr k @ [58] @ ustr cid @ [58] @ answer)"

definition campaign_fingerprint :: "ciphers \<Rightarrow> blob \<Rightarrow> ustring \<Rightarrow> exn + string" where
  "campaign_fingerprint C key canonical_payload = digest C key ''campaign'' canonical_payload"

definition big_endian :: "blob \<Rightarrow> nat" where
  "big_endian b = foldl (\<lambda>n w. 256 * n + unat w) 0 b"

definition encryption_key :: "ciphers \<Rightarrow> blob \<Rightarrow> string \<Rightarrow> blob" where
  "encryption_key C key purpose = hmac_sha256 C key (ascii_bytes (''v1:'' @ purpose @ '':encryption''))"

definition authentication_key :: "ciphers \<Rightarrow> blob \<Rightarrow> string \<Rightarrow> blob" where
  "authentication_key C key purpose =
     hmac_sha256 C key (ascii_bytes (''v1:'' @ purpose @ '':authentication''))"

definition seal_reference :: "ciphers \<Rightarrow> blob \<Rightarrow> blob \<Rightarrow> int list \<Rightarrow> string \<Rightarrow> blob" where
  "seal_reference C key nonce values purpose =
    (let plaintext = bytes_of (dumps True (JArr (map JInt values)));
         ciphertext = ctr_encrypt C (encryption_key C key purpose) (big_endian nonce) plaintext;
         envelope = [1] @ nonce @ ciphertext
     in envelope @ hmac_sha256 C (authentication_key C key purpose) envelope)"

text \<open>\<open>isinstance(value, int)\<close> holds of a bool too, which is then the int 0 or 1.\<close>

fun json_int :: "json \<Rightarrow> int option" where
  "json_int (JInt i) = Some i"
| "json_int (JBool b) = Some (if b then 1 else 0)"
| "json_int _ = None"

fun all_ints :: "json list \<Rightarrow> int list option" where
  "all_ints [] = Some []"
| "all_ints (v # vs) = (case (json_int v, all_ints vs) of (Some i, Some is) \<Rightarrow> Some (i # is) | _ \<Rightarrow> None)"

definition open_reference :: "ciphers \<Rightarrow> blob \<Rightarrow> blob \<Rightarrow> string \<Rightarrow> nat \<Rightarrow> exn + int list" where
  "open_reference C key envelope purpose expected_values =
    (if length envelope < 50 \<or> hd envelope \<noteq> 1 then Inl ''ValueError''
     else
       let payload = take (length envelope - 32) envelope;
           supplied_tag = drop (length envelope - 32) envelope in
       if supplied_tag \<noteq> hmac_sha256 C (authentication_key C key purpose) payload then Inl ''ValueError''
       else
         let nonce = take 16 (drop 1 payload); ciphertext = drop 17 payload;
             plaintext = ctr_decrypt C (encryption_key C key purpose) (big_endian nonce) ciphertext in
         case ascii_decode plaintext of
           None \<Rightarrow> Inl ''ValueError''
         | Some text \<Rightarrow> (case loads (float_text C) text of
               Inl e \<Rightarrow> Inl (if e = ''JSONDecodeError'' then ''ValueError'' else e)
             | Inr v \<Rightarrow> (case v of
                   JArr vs \<Rightarrow>
                     if length vs \<noteq> expected_values then Inl ''ValueError''
                     else (case all_ints vs of None \<Rightarrow> Inl ''ValueError'' | Some is \<Rightarrow> Inr is)
                 | _ \<Rightarrow> Inl ''ValueError'')))"

definition seal_review_reference :: "ciphers \<Rightarrow> blob \<Rightarrow> blob \<Rightarrow> int \<Rightarrow> int \<Rightarrow> int \<Rightarrow> blob" where
  "seal_review_reference C key nonce user_id access_hash message_id =
     seal_reference C key nonce [user_id, access_hash, message_id] ''review''"

definition seal_restriction_reference :: "ciphers \<Rightarrow> blob \<Rightarrow> blob \<Rightarrow> int \<Rightarrow> int \<Rightarrow> blob" where
  "seal_restriction_reference C key nonce user_id access_hash =
     seal_reference C key nonce [user_id, access_hash] ''restriction''"

definition open_review_reference :: "ciphers \<Rightarrow> blob \<Rightarrow> blob \<Rightarrow> exn + int \<times> int \<times> int" where
  "open_review_reference C key envelope = (case open_reference C key envelope ''review'' 3 of
      Inl e \<Rightarrow> Inl e | Inr vs \<Rightarrow> Inr (vs ! 0, vs ! 1, vs ! 2))"

definition open_restriction_reference :: "ciphers \<Rightarrow> blob \<Rightarrow> blob \<Rightarrow> exn + int \<times> int" where
  "open_restriction_reference C key envelope = (case open_reference C key envelope ''restriction'' 2 of
      Inl e \<Rightarrow> Inl e | Inr vs \<Rightarrow> Inr (vs ! 0, vs ! 1))"

definition matches :: "string \<Rightarrow> string \<Rightarrow> bool" where
  "matches expected actual \<longleftrightarrow> expected = actual"

subsection \<open>ActiveCaseProtector\<close>

definition active_case_protector :: "ciphers \<Rightarrow> blob \<Rightarrow> exn + blob" where
  "active_case_protector C key =
    (if length key < 32 then Inl ''ValueError''
     else Inr (hkdf_sha256 C (ascii_bytes ''active-case-content:v1'') key))"

definition CASE_DOMAIN :: blob where
  "CASE_DOMAIN = ascii_bytes ''tg-pm-gatekeeper:active-case:v1''"

definition seal_case :: "ciphers \<Rightarrow> blob \<Rightarrow> blob \<Rightarrow> json \<Rightarrow> exn + blob" where
  "seal_case C key nonce payload = (case utf8_encode False (dumps False (sort_keys payload)) of
      None \<Rightarrow> Inl ''UnicodeEncodeError''
    | Some plaintext \<Rightarrow> Inr ([1] @ nonce @ gcm_encrypt C key nonce plaintext CASE_DOMAIN))"

definition open_case :: "ciphers \<Rightarrow> blob \<Rightarrow> blob \<Rightarrow> exn + (ustring \<times> json) list" where
  "open_case C key envelope =
    (if length envelope < 30 \<or> hd envelope \<noteq> 1 then Inl ''ValueError''
     else case gcm_decrypt C key (take 12 (drop 1 envelope)) (drop 13 envelope) CASE_DOMAIN of
       None \<Rightarrow> Inl ''ValueError''
     | Some plaintext \<Rightarrow> (case utf8_decode False plaintext of
           None \<Rightarrow> Inl ''ValueError''
         | Some text \<Rightarrow> (case loads (float_text C) text of
               Inl e \<Rightarrow> Inl ''ValueError''
             | Inr v \<Rightarrow> (case v of JObj kvs \<Rightarrow> Inr kvs | _ \<Rightarrow> Inl ''ValueError''))))"

subsection \<open>The payload of a case as a JSON object\<close>

definition jtext :: "string \<Rightarrow> json" where
  "jtext s = JStr (ustr s)"

definition jfield :: "string \<Rightarrow> json \<Rightarrow> ustring \<times> json" where
  "jfield name v = (ustr name, v)"

definition url_record_json :: "url_record \<Rightarrow> json" where
  "url_record_json r = JObj [jfield ''url'' (JStr (ur_url r)), jfield ''kind'' (jtext (ur_kind r)),
     jfield ''sources'' (JArr (map jtext (ur_sources r)))]"

definition url_shape_json :: "url_shape \<Rightarrow> json" where
  "url_shape_json s = JObj [jfield ''has_fragment'' (JBool (has_fragment s)),
     jfield ''has_non_root_path'' (JBool (has_non_root_path s)), jfield ''has_query'' (JBool (has_query s)),
     jfield ''max_path_depth'' (JInt (int (max_path_depth s))),
     jfield ''uses_plain_http'' (JBool (uses_plain_http s))]"

definition signal_json :: "evidence_signal \<Rightarrow> json" where
  "signal_json s = JObj [jfield ''code'' (jtext (sig_code s)), jfield ''source'' (jtext (source_name (sig_source s))),
     jfield ''weight'' (JInt (sig_weight s)), jfield ''explanation'' (jtext (sig_explanation s))]"

definition case_features_json :: "case_features \<Rightarrow> json" where
  "case_features_json f = JObj
     [jfield ''button_text_count'' (JInt (int (cf_button_text_count f))),
      jfield ''domain_count'' (JInt (int (cf_domain_count f))), jfield ''forwarded'' (JBool (cf_forwarded f)),
      jfield ''has_any_button'' (JBool (cf_has_any_button f)), jfield ''has_link'' (JBool (cf_has_link f)),
      jfield ''has_link_button'' (JBool (cf_has_link_button f)),
      jfield ''has_preview_text'' (JBool (cf_has_preview_text f)), jfield ''has_quote'' (JBool (cf_has_quote f)),
      jfield ''link_button_count'' (JInt (int (cf_link_button_count f))),
      jfield ''quote_url_count'' (JInt (int (cf_quote_url_count f))),
      jfield ''url_count'' (JInt (int (cf_url_count f))), jfield ''via_bot'' (JBool (cf_via_bot f))]"

definition case_json :: "active_case \<Rightarrow> json" where
  "case_json c = JObj
     [jfield ''schema_version'' (JInt (ac_schema_version c)), jfield ''text'' (JStr (ac_text c)),
      jfield ''quote_text'' (JStr (ac_quote_text c)), jfield ''preview_text'' (JStr (ac_preview_text c)),
      jfield ''button_texts'' (JArr (map JStr (ac_button_texts c))),
      jfield ''urls'' (JArr (map url_record_json (ac_urls c))),
      jfield ''quote_urls'' (JArr (map url_record_json (ac_quote_urls c))),
      jfield ''domains'' (JArr (map JStr (ac_domains c))),
      jfield ''quote_domains'' (JArr (map JStr (ac_quote_domains c))),
      jfield ''url_shape'' (url_shape_json (ac_url_shape c)),
      jfield ''quote_url_shape'' (url_shape_json (ac_quote_url_shape c)),
      jfield ''features'' (case_features_json (ac_features c)),
      jfield ''signals'' (JArr (map signal_json (ac_signals c))),
      jfield ''risk_score'' (JInt (ac_risk_score c)),
      jfield ''challenge_profile'' (case ac_challenge_profile c of
          None \<Rightarrow> JNull | Some p \<Rightarrow> jtext (profile_name p)),
      jfield ''planned_action'' (jtext (action_name (ac_planned_action c))),
      jfield ''decision_basis'' (jtext (ac_decision_basis c)),
      jfield ''policy_version'' (jtext (ac_policy_version c))]"

subsection \<open>The protector of the service\<close>

text \<open>
  What \<open>service.py\<close> and the adapter use of the two protectors. \<open>tokens n l\<close> are the \<open>l\<close> random bytes
  of draw \<open>n\<close>. Digests of decimal texts and of hexadecimal keys cannot fail, see \<open>digest_ascii\<close>.
\<close>

definition digest_value :: "exn + string \<Rightarrow> string" where
  "digest_value d = (case d of Inr s \<Rightarrow> s | Inl _ \<Rightarrow> [])"

definition keyed_protector :: "ciphers \<Rightarrow> blob \<Rightarrow> (nat \<Rightarrow> nat \<Rightarrow> blob) \<Rightarrow> protector" where
  "keyed_protector C key tokens =
     \<lparr>prot_sender_key = (\<lambda>i. digest_value (sender_key_of C key i)),
      prot_answer_digest = (\<lambda>k c a. digest_value (answer_digest_of C key k c a)),
      prot_campaign_fingerprint = campaign_fingerprint C key,
      prot_open_review = (\<lambda>b. case open_review_reference C key b of Inl _ \<Rightarrow> None | Inr v \<Rightarrow> Some v),
      prot_open_restriction = (\<lambda>b. case open_restriction_reference C key b of Inl _ \<Rightarrow> None | Inr v \<Rightarrow> Some v),
      prot_seal_review = (\<lambda>n. seal_review_reference C key (tokens n 16)),
      prot_seal_restriction = (\<lambda>n. seal_restriction_reference C key (tokens n 16))\<rparr>"

definition case_sealer :: "ciphers \<Rightarrow> blob \<Rightarrow> (nat \<Rightarrow> nat \<Rightarrow> blob) \<Rightarrow> nat \<Rightarrow> active_case \<Rightarrow> exn + blob" where
  "case_sealer C key tokens n c = seal_case C key (tokens n 12) (case_json c)"


subsection \<open>Opening undoes sealing\<close>

lemma length_show_nat: "n < 10 ^ Suc d \<Longrightarrow> length (show_nat n) \<le> Suc d"
proof (induction d arbitrary: n)
  case 0
  then show ?case by (simp add: show_nat.simps [of n])
next
  case (Suc d)
  show ?case
  proof (cases "n < 10")
    case True
    then show ?thesis by (simp add: show_nat.simps [of n])
  next
    case False
    from Suc.prems have "n div 10 < 10 ^ Suc d"
      by (simp add: less_mult_imp_div_less mult.commute)
    with Suc.IH False show ?thesis by (simp add: show_nat.simps [of n])
  qed
qed

text \<open>A signed 64-bit integer, as Telegram's ids and access hashes are.\<close>

definition int64 :: "int \<Rightarrow> bool" where
  "int64 i \<longleftrightarrow> - (2 ^ 63) \<le> i \<and> i < 2 ^ 63"

lemma int64_json_ok: "int64 i \<Longrightarrow> json_ok (JInt i)"
proof -
  assume "int64 i"
  then have "nat \<bar>i\<bar> < 10 ^ Suc 19" by (auto simp: int64_def)
  from length_show_nat [OF this] show ?thesis by (simp add: MAX_INT_DIGITS_def)
qed

lemma all_ints_JInt [simp]: "all_ints (map JInt is) = Some is"
  by (induction "is") simp_all

lemma dumps_list_length: "2 \<le> length (dumps True (JArr vs))"
  by simp

lemma envelope_frame:
  assumes "length nonce = 16" and "length t = 32"
  shows "take (length (([1] @ nonce @ c) @ t) - 32) (([1] @ nonce @ c) @ t) = [1] @ nonce @ c"
    and "drop (length (([1] @ nonce @ c) @ t) - 32) (([1] @ nonce @ c) @ t) = t"
    and "take 16 (drop 1 ([1] @ nonce @ c)) = nonce" and "drop 17 ([1] @ nonce @ c) = c"
proof -
  have n: "length (([1] @ nonce @ c) @ t) - 32 = length ([1] @ nonce @ c)" using assms(2) by simp
  show "take (length (([1] @ nonce @ c) @ t) - 32) (([1] @ nonce @ c) @ t) = [1] @ nonce @ c"
    unfolding n by (simp only: take_append) simp
  show "drop (length (([1] @ nonce @ c) @ t) - 32) (([1] @ nonce @ c) @ t) = t"
    unfolding n by (simp only: drop_append) simp
qed (use assms in simp_all)

lemma open_seal:
  assumes "good_ciphers C" and "length nonce = 16" and "list_all int64 values"
  shows "open_reference C key (seal_reference C key nonce values purpose) purpose (length values) = Inr values"
proof -
  let ?plain = "dumps True (JArr (map JInt values))"
  let ?c = "ctr_encrypt C (encryption_key C key purpose) (big_endian nonce) (bytes_of ?plain)"
  let ?t = "hmac_sha256 C (authentication_key C key purpose) ([1] @ nonce @ ?c)"
  have ok: "json_ok (JArr (map JInt values))"
    using assms(3) int64_json_ok by (auto simp: list_all_iff)
  then have "list_all (\<lambda>c. c < 128) ?plain"
    using dumps_printable [of "JArr (map JInt values)"] by (auto simp: list_all_iff printable_def)
  then have plain: "ascii_decode (bytes_of ?plain) = Some ?plain" by (rule ascii_round_trip)
  have json: "loads (float_text C) ?plain = Inr (JArr (map JInt values))" using ok by (rule loads_dumps)
  have dec: "ctr_decrypt C (encryption_key C key purpose) (big_endian nonce) ?c = bytes_of ?plain"
    and tag: "length ?t = 32" and "length ?c = length ?plain"
    using assms(1) by (simp_all add: good_ciphers_def)
  then have long: "\<not> (length (([1] @ nonce @ ?c) @ ?t) < 50 \<or> hd (([1] @ nonce @ ?c) @ ?t) \<noteq> 1)"
    using assms(2) by simp
  show ?thesis
    unfolding seal_reference_def Let_def open_reference_def if_not_P [OF long] envelope_frame [OF assms(2) tag]
    using plain json dec by (simp del: dumps.simps)
qed

lemma open_tagged:
  assumes "open_reference C key envelope purpose n = Inr vs"
  shows "length vs = n \<and> (\<exists>payload. envelope = payload @ hmac_sha256 C (authentication_key C key purpose) payload
    \<and> length envelope = length payload + 32 \<and> hd payload = 1)"
proof -
  have ints: "all_ints us = Some vs \<Longrightarrow> length vs = length us" for us
    by (induction us arbitrary: vs) (auto split: option.splits)
  let ?p = "take (length envelope - 32) envelope"
  from assms have long: "50 \<le> length envelope" and "hd envelope = 1"
    by (auto simp: open_reference_def not_less split: if_splits)
  moreover from assms have tag: "drop (length envelope - 32) envelope = hmac_sha256 C (authentication_key C key purpose) ?p"
    unfolding open_reference_def Let_def by (metis Inl_Inr_False)
  from assms ints have "length vs = n"
    by (auto simp: open_reference_def Let_def split: if_splits option.splits sum.splits json.splits)
  moreover have "envelope = ?p @ hmac_sha256 C (authentication_key C key purpose) ?p"
    using tag by (metis append_take_drop_id)
  moreover have "length envelope = length ?p + 32" using long by simp
  moreover have "hd ?p = 1" using long \<open>hd envelope = 1\<close> by (cases envelope) auto
  ultimately show ?thesis by blast
qed

lemma utf8_char_ascii: "c < 128 \<Longrightarrow> utf8_char c = [c]"
  by (simp add: utf8_char_def)

text \<open>A text of printable ASCII characters always has a digest.\<close>

lemma digest_ascii: "list_all printable value \<Longrightarrow> list_all printable (ustr purpose) \<Longrightarrow>
    \<exists>d. digest C key purpose value = Inr d"
  by (auto simp: digest_def utf8_encode_def list_all_iff surrogate_def printable_def ustr_def)

subsection \<open>Case contents\<close>

lemma insert_item_fst: "set (map fst (insert_item x xs)) = insert (fst x) (set (map fst xs))"
  by (induction x xs rule: insert_item.induct) auto

lemma insert_item_set: "set (insert_item x xs) = insert x (set xs)"
  by (induction x xs rule: insert_item.induct) auto

lemma sort_items_set [simp]: "set (sort_items xs) = set xs"
  by (induction xs) (simp_all add: sort_items_def insert_item_set)

lemma distinct_insert_item:
  "distinct (map fst (insert_item x xs)) \<longleftrightarrow> fst x \<notin> set (map fst xs) \<and> distinct (map fst xs)"
  by (induction x xs rule: insert_item.induct) (auto simp: insert_item_set)

lemma distinct_sort_items: "distinct (map fst (sort_items xs)) \<longleftrightarrow> distinct (map fst xs)"
proof (induction xs)
  case (Cons x xs)
  have "fst ` set (sort_items xs) = fst ` set xs" by simp
  with Cons show ?case
    by (simp add: sort_items_def distinct_insert_item)
qed (simp add: sort_items_def)

lemma length_sort_items: "length (sort_items xs) = length xs"
proof -
  have "length (insert_item x ys) = Suc (length ys)" for x :: "ustring \<times> 'a" and ys
    by (induction x ys rule: insert_item.induct) auto
  then show ?thesis by (induction xs) (simp_all add: sort_items_def)
qed

lemma map_of_sort_items: "distinct (map fst xs) \<Longrightarrow> map_of (sort_items xs) = map_of xs"
  by (rule map_of_inject_set [THEN iffD2]) (simp_all add: distinct_sort_items)

lemma json_ok_sort_keys: "json_ok v \<Longrightarrow> json_ok (sort_keys v)"
proof (induction v)
  case (JObj kvs)
  have fst: "map fst (map (\<lambda>(k, v). (k, sort_keys v)) kvs) = map fst kvs" by auto
  moreover have "list_all (\<lambda>(k, v). list_all scalar k \<and> json_ok v) (map (\<lambda>(k, v). (k, sort_keys v)) kvs)"
    using JObj by (fastforce simp: list_all_iff)
  ultimately show ?case
    using JObj.prems unfolding sort_keys.simps json_ok.simps distinct_sort_items fst
    by (simp add: list_all_iff)
qed (auto simp: list_all_iff)

lemma open_seal_case:
  assumes "good_ciphers C" and "length nonce = 12" and "json_ok (JObj kvs)"
  obtains b where "seal_case C key nonce (JObj kvs) = Inr b"
    and "open_case C key b = Inr (sort_items (map (\<lambda>(k, v). (k, sort_keys v)) kvs))"
proof -
  let ?v = "sort_keys (JObj kvs)"
  have ok: "json_ok ?v" using assms(3) by (rule json_ok_sort_keys)
  define t where t: "t = dumps False ?v"
  have "t \<noteq> []" unfolding t by (metis dumps_first [OF ok] list.distinct(1))
  have loaded: "loads (float_text C) t = Inr ?v" unfolding t by (rule loads_dumps [OF ok])
  obtain p where p: "utf8_encode False t = Some p" "utf8_decode False p = Some t"
    using utf8_round_trip [OF dumps_scalar [OF ok]] unfolding t by blast
  let ?b = "[1] @ nonce @ gcm_encrypt C key nonce p CASE_DOMAIN"
  have gcm: "gcm_decrypt C key nonce (gcm_encrypt C key nonce p CASE_DOMAIN) CASE_DOMAIN = Some p"
    and len: "length (gcm_encrypt C key nonce p CASE_DOMAIN) = length p + 16"
    using assms(1) by (simp_all add: good_ciphers_def)
  have "p \<noteq> []" using p(2) \<open>t \<noteq> []\<close> by (auto simp: utf8_decode_def)
  then have "\<not> (length ?b < 30 \<or> hd ?b \<noteq> 1)" using assms(2) len by (cases p) simp_all
  then have "open_case C key ?b = Inr (sort_items (map (\<lambda>(k, v). (k, sort_keys v)) kvs))"
    unfolding open_case_def using assms(2) gcm p loaded by simp
  moreover have "seal_case C key nonce (JObj kvs) = Inr ?b"
    unfolding seal_case_def t [symmetric] using p(1) by simp
  ultimately show thesis by (intro that)
qed

subsection \<open>Properties\<close>

text \<open>A cipher suite for examples: the tag is the padded message, the ciphers add nothing.\<close>

definition demo_ciphers :: ciphers where
  "demo_ciphers = \<lparr>hmac_sha256 = (\<lambda>k m. take 32 (m @ replicate 32 0)), ctr_encrypt = (\<lambda>k n p. p),
     ctr_decrypt = (\<lambda>k n p. p), hkdf_sha256 = (\<lambda>info k. k),
     gcm_encrypt = (\<lambda>k n p a. p @ replicate 16 0),
     gcm_decrypt = (\<lambda>k n c a. Some (take (length c - 16) c)), float_text = (\<lambda>s. s)\<rparr>"

lemma demo_ciphers_good: "good_ciphers demo_ciphers"
  by (auto simp: good_ciphers_def demo_ciphers_def)

text \<open>C30. A sealed reference opens to the numbers it was made of, for every 64-bit user id, access
  hash and message id, under the same key and purpose.\<close>

theorem reference_round_trip:
  assumes "good_ciphers C" and "length nonce = 16" and "int64 i" and "int64 h" and "int64 m"
  shows "open_review_reference C key (seal_review_reference C key nonce i h m) = Inr (i, h, m)
    \<and> open_restriction_reference C key (seal_restriction_reference C key nonce i h) = Inr (i, h)"
  using open_seal [OF assms(1,2), of "[i, h, m]" key "''review''"]
    open_seal [OF assms(1,2), of "[i, h]" key "''restriction''"] assms(3-5)
  by (simp add: open_review_reference_def seal_review_reference_def open_restriction_reference_def
      seal_restriction_reference_def numeral_3_eq_3 numeral_2_eq_2)

lemma reference_round_trip_witness:
  "open_review_reference demo_ciphers (replicate 32 7)
     (seal_review_reference demo_ciphers (replicate 32 7) (replicate 16 9) 123456789 (- 42) 7)
   = Inr (123456789, - 42, 7)"
  using reference_round_trip [OF demo_ciphers_good, of "replicate 16 9" 123456789 "- 42" 7 "replicate 32 7"]
  by (simp add: int64_def)

text \<open>C31. Opening a reference fails with a \<open>ValueError\<close> and nothing else; it succeeds only for an
  envelope of version 1 that ends with the tag of everything before it, under the key of that
  purpose, and it returns as many numbers as the purpose has.\<close>

theorem reference_authenticated:
  "case open_reference C key envelope purpose n of
     Inl e \<Rightarrow> e = ''ValueError''
   | Inr vs \<Rightarrow> length vs = n \<and> (\<exists>payload. hd payload = 1
       \<and> envelope = payload @ hmac_sha256 C (authentication_key C key purpose) payload)"
proof (cases "open_reference C key envelope purpose n")
  case (Inl e)
  then have "e = ''ValueError''"
    using loads_error by (fastforce simp: open_reference_def Let_def
        split: if_splits option.splits sum.splits json.splits)
  with Inl show ?thesis by simp
next
  case (Inr vs)
  with open_tagged [OF Inr] show ?thesis by auto
qed

text \<open>The payload as it comes back: its 18 fields in the order of their names. The dicts inside (the
  records of the links, the shapes, the features, the signals) have their keys sorted likewise.\<close>

definition opened_case :: "active_case \<Rightarrow> (ustring \<times> json) list" where
  "opened_case c =
     [jfield ''button_texts'' (JArr (map JStr (ac_button_texts c))),
      jfield ''challenge_profile'' (case ac_challenge_profile c of
          None \<Rightarrow> JNull | Some p \<Rightarrow> jtext (profile_name p)),
      jfield ''decision_basis'' (jtext (ac_decision_basis c)),
      jfield ''domains'' (JArr (map JStr (ac_domains c))),
      jfield ''features'' (sort_keys (case_features_json (ac_features c))),
      jfield ''planned_action'' (jtext (action_name (ac_planned_action c))),
      jfield ''policy_version'' (jtext (ac_policy_version c)),
      jfield ''preview_text'' (JStr (ac_preview_text c)),
      jfield ''quote_domains'' (JArr (map JStr (ac_quote_domains c))),
      jfield ''quote_text'' (JStr (ac_quote_text c)),
      jfield ''quote_url_shape'' (sort_keys (url_shape_json (ac_quote_url_shape c))),
      jfield ''quote_urls'' (JArr (map (sort_keys \<circ> url_record_json) (ac_quote_urls c))),
      jfield ''risk_score'' (JInt (ac_risk_score c)),
      jfield ''schema_version'' (JInt (ac_schema_version c)),
      jfield ''signals'' (JArr (map (sort_keys \<circ> signal_json) (ac_signals c))),
      jfield ''text'' (JStr (ac_text c)),
      jfield ''url_shape'' (sort_keys (url_shape_json (ac_url_shape c))),
      jfield ''urls'' (JArr (map (sort_keys \<circ> url_record_json) (ac_urls c)))]"

lemma sort_keys_texts: "map (sort_keys \<circ> JStr) xs = map JStr xs"
  by (simp add: o_def)

lemma sort_keys_case: "sort_keys (case_json c) = JObj (opened_case c)"
  by (simp add: case_json_def opened_case_def jfield_def ustr_def jtext_def sort_items_def sort_keys_texts
      split: option.split)

text \<open>C32. A case that is sealed for storage opens to its whole payload: each of the 18 fields with its
  value, in the order of the field names.\<close>

theorem case_round_trip:
  assumes "good_ciphers C" and "length (tokens n 12) = 12" and "json_ok (case_json c)"
  shows "case case_sealer C key tokens n c of
      Inl e \<Rightarrow> False
    | Inr envelope \<Rightarrow> open_case C key envelope = Inr (opened_case c)"
proof -
  obtain fields where f: "case_json c = JObj fields" by (simp add: case_json_def)
  obtain b where "case_sealer C key tokens n c = Inr b"
    and "open_case C key b = Inr (sort_items (map (\<lambda>(k, v). (k, sort_keys v)) fields))"
    using open_seal_case [OF assms(1,2)] assms(3) f unfolding case_sealer_def by metis
  with sort_keys_case [of c] f show ?thesis by simp
qed

text \<open>A case as the service builds it for a short message without links.\<close>

definition demo_case :: active_case where
  "demo_case =
     (let shape = \<lparr>has_fragment = False, has_non_root_path = False, has_query = False,
        max_path_depth = 0, uses_plain_http = False\<rparr> in
      \<lparr>ac_schema_version = 5, ac_text = [104, 105, 128512], ac_quote_text = [], ac_preview_text = [],
       ac_button_texts = [], ac_urls = [], ac_quote_urls = [], ac_domains = [], ac_quote_domains = [],
       ac_url_shape = shape, ac_quote_url_shape = shape,
       ac_features = \<lparr>cf_button_text_count = 0, cf_domain_count = 0, cf_forwarded = False,
         cf_has_any_button = False, cf_has_link = False, cf_has_link_button = False,
         cf_has_preview_text = False, cf_has_quote = False, cf_link_button_count = 0,
         cf_quote_url_count = 0, cf_url_count = 0, cf_via_bot = False\<rparr>,
       ac_signals = [], ac_risk_score = 0, ac_challenge_profile = None,
       ac_planned_action = StandardChallenge, ac_decision_basis = ''standard_challenge'',
       ac_policy_version = ''adaptive-v2''\<rparr>)"

lemma demo_case_ok: "json_ok (case_json demo_case)"
  by (simp add: demo_case_def [unfolded Let_def] case_json_def jfield_def jtext_def ustr_def scalar_def surrogate_def url_shape_json_def
      case_features_json_def int64_json_ok int64_def del: json_ok.simps(1))

lemma case_round_trip_witness:
  "case case_sealer demo_ciphers (replicate 32 1) (\<lambda>n l. replicate l 5) 0 demo_case of
      Inl e \<Rightarrow> False
    | Inr envelope \<Rightarrow> open_case demo_ciphers (replicate 32 1) envelope = Inr (opened_case demo_case)"
  by (rule case_round_trip [OF demo_ciphers_good _ demo_case_ok]) simp

end
