(* ===== verification/Readable_Messages.thy ===== *)
theory Readable_Messages
  imports Service_Rows Service_Security Signal_Codes Crypto
begin

text \<open>
  Which messages the campaign fingerprint can be computed for. The digests of \<open>crypto.py\<close> encode their
  input as UTF-8, which raises on a lone surrogate; every message whose texts have none is readable
  for the core's own protector (\<open>keyed_readable\<close>). The theory ends with a gatekeeper that uses this
  protector, for the witnesses.
\<close>

text \<open>A message is readable when every campaign text that the detector may take from it has a
  fingerprint. The messages of the test sender are not fingerprinted.\<close>

definition campaign_readable :: "gatekeeper \<Rightarrow> sender_key \<Rightarrow> incoming_message \<Rightarrow> bool" where
  "campaign_readable g k m \<longleftrightarrow> is_test_key g k \<or> (\<forall>links candidate.
     campaign_candidate (gk_unicode g) (m_facts m)
       (detect_evidence_signals (gk_unicode g) (m_facts m) links (gk_denylist g)) = Some candidate
     \<longrightarrow> (\<exists>x. prot_campaign_fingerprint (gk_protector g) candidate = Inr x))"

subsection \<open>The keyed protector reads every message without lone surrogates\<close>

definition no_surrogates :: "ustring \<Rightarrow> bool" where
  "no_surrogates t \<longleftrightarrow> list_all (\<lambda>c. \<not> surrogate c) t"

lemma latin_whole [simp]: "no_surrogates (ustr a)"
proof -
  have "\<not> surrogate (of_char c)" for c :: char
    using nat_of_char_less_256 [of c] unfolding surrogate_def by linarith
  then show ?thesis by (simp add: no_surrogates_def list_all_iff ustr_def)
qed

lemma no_surrogates_simps [simp]:
  "no_surrogates []"
  "no_surrogates (c # t) \<longleftrightarrow> \<not> surrogate c \<and> no_surrogates t"
  "no_surrogates (s @ t) \<longleftrightarrow> no_surrogates s \<and> no_surrogates t"
  "no_surrogates (rev t) \<longleftrightarrow> no_surrogates t"
  by (auto simp: no_surrogates_def list_all_iff ustr_def surrogate_def)

text \<open>The texts a campaign is read from, and the two Unicode tables that keep their characters whole.\<close>

definition whole_texts :: "message_facts \<Rightarrow> bool" where
  "whole_texts f \<longleftrightarrow> no_surrogates (f_text f) \<and> no_surrogates (f_preview_text f)
     \<and> no_surrogates (f_quote_text f) \<and> list_all no_surrogates (f_button_texts f)"

definition whole_tables :: "unicode \<Rightarrow> bool" where
  "whole_tables u \<longleftrightarrow> (\<forall>t. no_surrogates t \<longrightarrow> no_surrogates (nfkc u t) \<and> no_surrogates (casefold u t))"

lemma join_whole:
  "no_surrogates sep \<Longrightarrow> list_all no_surrogates ts \<Longrightarrow> no_surrogates (join sep ts)"
  by (induction sep ts rule: join.induct) simp_all

lemma split_ws_whole:
  "no_surrogates t \<Longrightarrow> no_surrogates acc \<Longrightarrow> list_all no_surrogates (split_ws t acc)"
  by (induction t acc rule: split_ws.induct) simp_all

lemma sub_urls_whole:
  "no_surrogates t \<Longrightarrow> (\<And>x. no_surrogates (f x)) \<Longrightarrow> no_surrogates (sub_urls f t)"
proof (induction f t rule: sub_urls.induct)
  case (1 f t)
  have "no_surrogates (take n t)" "no_surrogates (drop n t)" for n
    using "1.prems"(1) by (auto simp: no_surrogates_def list_all_iff dest: in_set_takeD in_set_dropD)
  with 1 show ?case by (simp add: sub_urls.simps [of f t])
qed

lemma template_whole:
  assumes "whole_tables u" and "no_surrogates t"
  shows "no_surrogates (campaign_template_text u t)"
  unfolding campaign_template_text_def Let_def
  by (intro join_whole split_ws_whole sub_urls_whole)
    (use assms in \<open>auto simp: whole_tables_def surrogate_def\<close>)

lemma kinds_whole: "list_all no_surrogates (campaign_link_kinds u urls)"
proof -
  have "list_all no_surrogates (map snd (foldl (\<lambda>kinds url. case normalized_url_key u url of
        None \<Rightarrow> kinds
      | Some key \<Rightarrow> insert_ignore key (ustr (campaign_link_kind u url)) kinds) kinds urls))"
    if "list_all no_surrogates (map snd kinds)" for kinds
    using that
    by (induction urls arbitrary: kinds) (simp_all add: insert_ignore_def split: option.split)
  from this [of "[]"] show ?thesis by (simp add: campaign_link_kinds_def list_all_iff)
qed

lemma candidate_whole:
  assumes "whole_tables u" and "whole_texts f" and "campaign_candidate u f signals = Some c"
  shows "no_surrogates c"
proof -
  have outer: "no_surrogates (join [10] (f_text f # f_preview_text f # f_button_texts f))"
    by (rule join_whole) (use assms(2) in \<open>simp_all add: whole_texts_def surrogate_def\<close>)
  have "no_surrogates (f_quote_text f)" using assms(2) by (simp add: whole_texts_def)
  with outer template_whole [OF assms(1)] join_whole [OF _ kinds_whole, of "[124]" u] assms(3)
  show ?thesis
    by (auto simp: campaign_candidate_def Let_def surrogate_def split: if_splits)
qed

text \<open>A digest fails on lone surrogates only, so the core's protector fingerprints every candidate that
  comes from whole texts.\<close>

lemma digest_whole: "no_surrogates value \<Longrightarrow> \<exists>d. digest C key purpose value = Inr d"
  using latin_whole [of purpose] latin_whole [of "''v1:''"]
  by (auto simp: digest_def utf8_encode_def no_surrogates_def surrogate_def)

lemma keyed_readable:
  assumes "gk_protector g = keyed_protector C key tokens" and "whole_tables (gk_unicode g)"
    and "whole_texts (m_facts m)"
  shows "campaign_readable g k m"
  using candidate_whole [OF assms(2,3)] digest_whole
  by (fastforce simp: campaign_readable_def assms(1) keyed_protector_def campaign_fingerprint_def)
subsection \<open>A gatekeeper with keyed digests\<close>

text \<open>The digest shows whether its input ends in 5, so that right and wrong answers differ.\<close>

definition shown_ciphers :: ciphers where
  "shown_ciphers = demo_ciphers\<lparr>hmac_sha256 := \<lambda>k m. replicate 32 (if m \<noteq> [] \<and> last m = 53 then 1 else 0)\<rparr>"

lemma shown_ciphers_good: "good_ciphers shown_ciphers"
  by (auto simp: good_ciphers_def demo_ciphers_def shown_ciphers_def)

definition keyed_gatekeeper :: gatekeeper where
  "keyed_gatekeeper = demo_gatekeeper\<lparr>gk_protector :=
     keyed_protector shown_ciphers (replicate 32 1) (\<lambda>n l. replicate l 5)\<rparr>"

definition keyed_row :: sender_row where
  "keyed_row = (demo_row CHALLENGED)\<lparr>answer_digest :=
     Some (digest_value (answer_digest_of shown_ciphers (replicate 32 1) ''other'' ''c1'' (ustr ''15'')))\<rparr>"

abbreviation keyed_world :: world where
  "keyed_world \<equiv> demo_world (demo_store Protect [(''other'', keyed_row)])"

lemma shown_answer:
  assumes "no_surrogates a" and "c < 128"
  shows "digest_value (answer_digest_of shown_ciphers key k i (a @ [c]))
    = hex_string (replicate 32 (if (of_nat c :: 8 word) = 53 then 1 else 0))"
proof -
  have "list_all (\<lambda>c. \<not> surrogate c) (ustr ''v1:'' @ ustr ''answer'' @ [58] @ ustr k @ [58] @ ustr i @ [58] @ a @ [c])"
    using assms by (simp only: no_surrogates_def [symmetric]) (simp add: surrogate_def)
  moreover have "utf8_char c = [c]" using assms(2) by (simp add: utf8_char_def)
  ultimately show ?thesis
    by (simp add: answer_digest_of_def digest_def utf8_encode_def digest_value_def shown_ciphers_def
        bytes_of_def)
qed

lemma keyed_gatekeeper_simps [simp]:
  "gk_unicode keyed_gatekeeper = demo_unicode" "gk_denylist keyed_gatekeeper = gk_denylist demo_gatekeeper"
  "is_test_key keyed_gatekeeper k = is_test_key demo_gatekeeper k"
  "quota_ok keyed_gatekeeper k = quota_ok demo_gatekeeper k"
  by (simp_all add: keyed_gatekeeper_def demo_gatekeeper_def is_test_key_def quota_ok_def)

lemma keyed_message_readable: "whole_texts (m_facts m) \<Longrightarrow> campaign_readable keyed_gatekeeper k m"
  by (rule keyed_readable [of _ shown_ciphers "replicate 32 1" "\<lambda>n l. replicate l 5"])
    (simp_all add: keyed_gatekeeper_def demo_gatekeeper_def whole_tables_def demo_unicode_def)

lemma keyed_digest:
  "prot_answer_digest (gk_protector keyed_gatekeeper) k i a
     = digest_value (answer_digest_of shown_ciphers (replicate 32 1) k i a)"
  by (simp add: keyed_gatekeeper_def keyed_protector_def)

lemma keyed_row_digest:
  "answer_digest keyed_row = Some (prot_answer_digest (gk_protector keyed_gatekeeper) ''other'' ''c1'' (ustr ''15''))"
  "challenge_id keyed_row = Some ''c1''"
  unfolding keyed_digest by (simp_all add: keyed_row_def demo_row_def set_state_row_def)

lemma hex_string_two: "hex_string (w # ws) = [char_of (hex_digit (unat w div 16)), char_of (hex_digit (unat w mod 16))] @ hex_string ws"
  by (simp add: hex_string_def)

lemma keyed_digests:
  "prot_answer_digest (gk_protector keyed_gatekeeper) k i (ustr ''15'') = hex_string (replicate 32 1)"
  "prot_answer_digest (gk_protector keyed_gatekeeper) k i (ustr ''16'') = hex_string (replicate 32 0)"
proof -
  have digits: "ustr ''15'' = [49] @ [53]" "ustr ''16'' = [49] @ [54]" by code_simp+
  have "no_surrogates [49]" by (simp add: surrogate_def)
  then show "prot_answer_digest (gk_protector keyed_gatekeeper) k i (ustr ''15'') = hex_string (replicate 32 1)"
    "prot_answer_digest (gk_protector keyed_gatekeeper) k i (ustr ''16'') = hex_string (replicate 32 0)"
    unfolding digits keyed_digest by (simp_all only: shown_answer) simp_all
qed

lemma keyed_answers:
  "answer_matches keyed_gatekeeper ''other'' (sender_state.truncate keyed_row) (ustr ''15'')"
  "\<not> answer_matches keyed_gatekeeper ''other'' (sender_state.truncate keyed_row) (ustr ''16'')"
proof -
  have split: "replicate 32 w = w # replicate 31 w" for w :: "8 word"
    using replicate_Suc [of 31 w] by (simp del: replicate_Suc)
  have "hex_digit (unat (1 :: 8 word) mod 16) = 49" "hex_digit (unat (0 :: 8 word) mod 16) = 48"
    by (simp_all add: hex_digit_def)
  then have "hex_string (replicate 32 1) \<noteq> hex_string (replicate 32 0)" "hex_string (replicate 32 1) \<noteq> []"
    unfolding split hex_string_two by simp_all
  then show "answer_matches keyed_gatekeeper ''other'' (sender_state.truncate keyed_row) (ustr ''15'')"
    "\<not> answer_matches keyed_gatekeeper ''other'' (sender_state.truncate keyed_row) (ustr ''16'')"
    by (simp_all add: answer_matches_def keyed_row_digest keyed_digests sender_state.truncate_def)
qed

lemma demo_message_whole: "whole_texts (m_facts (demo_message t))"
  by (simp add: whole_texts_def demo_message_def no_facts_def)

end
