(* ===== verification/Service_Replies.thy ===== *)
theory Service_Replies
  imports Service_Rows Readable_Messages
begin

text \<open>
  What the handler does with a message of a challenged sender, and with one of a new sender.
\<close>

subsection \<open>The handler\<close>

lemma settled_challenged:
  assumes "status r = CHALLENGED" and "is_test \<or> \<not> (m_is_service m \<or> m_is_bot m \<or> m_is_contact m)"
  shows "row_triple k (Some r) (settle_before_screening A k m is_test now)
    (\<lambda>x ro. x = (sender_state.truncate r, None) \<and> ro = Some r)"
  unfolding settle_before_screening_def
  by (rule triple_sender)
    (use assms in \<open>auto simp: revoke_test_sender_def settle_restricted_def settle_trusted_def
       status_sets intro!: triple_ret\<close>)

lemma settled_unknown:
  assumes "case r of None \<Rightarrow> True | Some x \<Rightarrow> status x = UNKNOWN"
    and "is_test \<or> \<not> trusted_message m"
  shows "row_triple k r (settle_before_screening A k m is_test now)
    (\<lambda>x ro. (\<exists>st. x = (st, None) \<and> status st = UNKNOWN) \<and> ro = r)"
  unfolding settle_before_screening_def
  by (rule triple_sender)
    (use assms in \<open>auto simp: revoke_test_sender_def settle_restricted_def settle_trusted_def
       trusted_message_def status_sets unknown_sender_def intro!: triple_ret split: option.splits\<close>)

lemma evidence_harmless:
  assumes "campaign_readable g k m"
  shows "harmless (evidence_signals g k m (is_test_key g k) now)"
proof -
  have campaign: "harmless (if is_test_key g k then ret signals
       else (case campaign_candidate (gk_unicode g) (m_facts m) signals of
           None \<Rightarrow> ret signals
         | Some candidate \<Rightarrow>
             bind_prog (need_sum (prot_campaign_fingerprint (gk_protector g) candidate)) (\<lambda>fingerprint.
             bind_prog (transact (observe_campaign fingerprint k CAMPAIGN_WINDOW_SECONDS now)) (\<lambda>senders.
             ret (if senders \<ge> 2 then signals @ [repeated_campaign_signal] else signals)))))"
    if signals: "signals = detect_evidence_signals (gk_unicode g) (m_facts m) links (gk_denylist g)"
    for signals links
  proof (cases "campaign_candidate (gk_unicode g) (m_facts m) signals")
    case (Some candidate)
    show ?thesis
    proof (cases "is_test_key g k")
      case False
      with assms Some signals obtain x where "prot_campaign_fingerprint (gk_protector g) candidate = Inr x"
        unfolding campaign_readable_def by blast
      with False Some show ?thesis
        by (simp add: need_sum_def)
          (intro harmless_intros harmless_transact, simp_all add: observe_campaign_def Let_def)
    qed (simp add: harmless_ret)
  qed (simp add: harmless_ret)
  show ?thesis
    unfolding evidence_signals_def Let_def
    by (intro harmless_intros harmless_change campaign [OF refl]) (simp_all add: record_link_message_def)
qed

text \<open>Screening the evidence touches no sender's row, whether it succeeds or raises.\<close>

interpretation rows: prog_relation "\<lambda>w w'. sender_table (db w') = sender_table (db w)"
  by unfold_locales simp_all

lemma evidence_rows:
  "preserves (\<lambda>w w'. sender_table (db w') = sender_table (db w)) (evidence_signals g k m is_test now)"
  unfolding evidence_signals_def Let_def
  by (intro rows.pres_control)
    (simp_all add: preserves_def prog_defs need_sum_def observe_campaign_def record_link_message_def Let_def
      split: sum.split)

lemma evidence_cases:
  assumes "\<not> gate_open g m" and "row_at k w = r"
  obtains (evident) sig w' where "evidence_signals g k m (is_test_key g k) now w = (Inr sig, w')"
      "row_at k w' = r" "dec_planned_action (decide sig) \<noteq> PermanentSuppression"
  | (unreadable) e w' where "evidence_signals g k m (is_test_key g k) now w = (Inl e, w')"
      "row_at k w' = r" "\<not> campaign_readable g k m"
proof -
  obtain y w' where ev: "evidence_signals g k m (is_test_key g k) now w = (y, w')" by fastforce
  have row: "row_at k w' = r"
    using preservesD [OF evidence_rows, of g k m "is_test_key g k" now w] assms(2) by (simp add: ev row_at_def)
  show thesis
  proof (cases y)
    case (Inl e)
    have "\<not> campaign_readable g k m"
      using harmless_row [OF evidence_harmless] ev Inl by (metis Pair_inject sum.distinct(1))
    with ev Inl row show thesis by (intro unreadable) simp_all
  next
    case (Inr sig)
    obtain links extra where "extra = [] \<or> extra = [repeated_campaign_signal]"
      and "sig = detect_evidence_signals (gk_unicode g) (m_facts m) links (gk_denylist g) @ extra"
      by (rule evidence_value [OF ev [unfolded Inr]])
    then have "dec_planned_action (decide sig) \<noteq> PermanentSuppression"
      using assms(1) unfolding gate_open_def by blast
    with ev Inr row show thesis by (intro evident) simp_all
  qed
qed

subsection \<open>Reaching the decision\<close>

interpretation server: prog_relation "\<lambda>w w'. replies w' = replies w"
  by unfold_locales simp_all

lemma server_basic:
  "preserves (\<lambda>w w'. replies w' = replies w) (change f)"
  "preserves (\<lambda>w w'. replies w' = replies w) (transact h)"
  "preserves (\<lambda>w w'. replies w' = replies w) read_clock"
  "preserves (\<lambda>w w'. replies w' = replies w) (schedule j)"
  "preserves (\<lambda>w w'. replies w' = replies w) (need_sum x)"
  by (simp_all add: preserves_def prog_defs need_sum_def split: sum.split)

lemma evidence_server: "preserves (\<lambda>w w'. replies w' = replies w) (evidence_signals g k m is_test now)"
  unfolding evidence_signals_def Let_def
  by (intro server.pres_control server_basic)

lemma settle_server:
  "preserves (\<lambda>w w'. replies w' = replies w)
     (settle_before_screening (telegram_actions days peer k) k m is_test now)"
  unfolding settle_before_screening_def revoke_test_sender_def settle_restricted_def
    settle_trusted_def schedule_suppressed_delete_def
  by (simp only: telegram_actions_def actions.simps, intro server.pres_control server_basic)

text \<open>What runs once the evidence is known and is not the permanent one.\<close>

definition mild_outcome ::
  "gatekeeper \<Rightarrow> actions \<Rightarrow> sender_key \<Rightarrow> incoming_message \<Rightarrow> sender_state \<Rightarrow> evidence_signal list
   \<Rightarrow> int \<Rightarrow> string prog" where
  "mild_outcome g A k m st signals now =
    (if status st = PROVISIONAL \<and> signals = [] then ret ''provisional''
     else if status st = CHALLENGED then handle_challenge g A k st m now
     else challenge_sender g A k m (decide (if is_test_key g k then [] else signals)) now)"

definition fresh_message :: "gatekeeper \<Rightarrow> sender_key \<Rightarrow> incoming_message \<Rightarrow> world \<Rightarrow> bool" where
  "fresh_message g k m w \<longleftrightarrow> quota_ok g k
     \<and> map_of (processed_messages (db w)) (k, m_message_id m) = None"

text \<open>A message that settles nothing reaches the decision, or its campaign text has no fingerprint: then
  the outcome is \<open>fail_safe\<close> and the row is as before.\<close>

lemma decision_reached:
  assumes "fresh_message g k m w" and "\<not> gate_open g m" and "row_at k w = r"
    and "row_triple k r (settle_before_screening (telegram_actions days peer k) k m (is_test_key g k)
      (clock w (ticks w))) (\<lambda>x ro. (\<exists>st. x = (st, None) \<and> P st) \<and> ro = r)"
  obtains (decided) w2 st sig where "P st" "row_at k w2 = r" "get_mode (db w2) = get_mode (db w)"
    "replies w2 = replies w"
    "\<And>x w3. mild_outcome g (telegram_actions days peer k) k m st sig (clock w (ticks w)) w2 = (Inr x, w3)
       \<Longrightarrow> handle_locked g (telegram_actions days peer k) k m w
         = (Inr x, w3\<lparr>db := finish_message k (m_message_id m) x (db w3)\<rparr>)"
  | (failed) w2 where "\<not> campaign_readable g k m"
    "handle_locked g (telegram_actions days peer k) k m w = (Inr ''fail_safe'', w2)" "row_at k w2 = r"
proof -
  let ?A = "telegram_actions days peer k" and ?now = "clock w (ticks w)"
  let ?w = "w\<lparr>ticks := Suc (ticks w), db := snd (claim_message k (m_message_id m) ?now (db w))\<rparr>"
  have row: "row_at k ?w = r" and mode: "get_mode (db ?w) = get_mode (db w)"
    using assms(3) by (simp_all add: row_at_def claim_message_def get_mode_def)
  obtain y w1 where settle: "settle_before_screening ?A k m (is_test_key g k) ?now ?w = (Inr y, w1)"
    and y: "\<exists>st. y = (st, None) \<and> P st" "row_at k w1 = r"
    by (rule row_tripleE [OF assms(4) row]) auto
  then obtain st where st: "y = (st, None)" "P st" by auto
  show thesis
  proof (cases rule: evidence_cases [OF assms(2) y(2), of ?now, case_names evident unreadable])
    case (evident sig w2)
    have "get_mode (db w1) = get_mode (db ?w)"
      by (rule keeps_mode [OF tg.settle_keeps settle, where C = UNIV]) simp_all
    moreover have "get_mode (db w2) = get_mode (db w1)"
      by (rule keeps_mode [OF tg.evidence_keeps evident(1)])
    ultimately have mode2: "get_mode (db w2) = get_mode (db w)" using mode by simp
    have "replies (snd (settle_before_screening ?A k m (is_test_key g k) ?now ?w)) = replies ?w"
      by (rule preservesD [OF settle_server])
    moreover have "replies (snd (evidence_signals g k m (is_test_key g k) ?now w1)) = replies w1"
      by (rule preservesD [OF evidence_server])
    ultimately have replies2: "replies w2 = replies w" by (simp add: settle evident(1))
    have mild: "dec_planned_action (decide (if is_test_key g k then [] else sig)) \<noteq> PermanentSuppression"
      using evident(3) by (simp add: decide_Nil)
    have "process_message g ?A k m ?now ?w = mild_outcome g ?A k m st sig ?now w2"
      using mild by (simp add: process_message_def bind_prog_def settle st(1) screen_message_def
          evident(1) mild_outcome_def Let_def)
    then have "handle_locked g ?A k m w = (Inr x, w3\<lparr>db := finish_message k (m_message_id m) x (db w3)\<rparr>)"
      if "mild_outcome g ?A k m st sig ?now w2 = (Inr x, w3)" for x w3
      using assms(1) that
      by (simp add: handle_locked_def then_prog_def prog_defs claim_message_def fresh_message_def)
    with st(2) evident(2) mode2 replies2 show thesis by (rule decided)
  next
    case (unreadable e w2)
    have "process_message g ?A k m ?now ?w = (Inl e, w2)"
      by (simp add: process_message_def bind_prog_def settle st(1) screen_message_def unreadable(1))
    then have "handle_locked g ?A k m w = (Inr ''fail_safe'', w2\<lparr>db := finish_message k (m_message_id m)
        ''fail_safe'' (audit k ''FAIL_SAFE'' ''no_action'' ?now (db w2))\<rparr>)"
      using assms(1)
      by (simp add: handle_locked_def then_prog_def prog_defs claim_message_def fresh_message_def)
    with unreadable(3) show thesis
      by (rule failed) (use unreadable(2) in \<open>simp add: row_at_def finish_message_def audit_def Let_def\<close>)
  qed
qed

text \<open>A sender in mid-challenge, with a message that neither carries trust nor opens the gate.\<close>

definition in_challenge ::
  "gatekeeper \<Rightarrow> sender_key \<Rightarrow> incoming_message \<Rightarrow> sender_row \<Rightarrow> world \<Rightarrow> bool" where
  "in_challenge g k m r w \<longleftrightarrow> fresh_message g k m w \<and> row_at k w = Some r \<and> status r = CHALLENGED
     \<and> (is_test_key g k \<or> \<not> (m_is_service m \<or> m_is_bot m \<or> m_is_contact m)) \<and> \<not> gate_open g m"

lemma in_challengeD:
  assumes "in_challenge g k m r w"
  shows "quota_ok g k" "status r = CHALLENGED" "row_at k w = Some r"
  using assms by (simp_all add: in_challenge_def fresh_message_def)

lemma challenge_reached:
  assumes "in_challenge g k m r w"
  obtains (reached) w2 where "row_at k w2 = Some r" "replies w2 = replies w"
    "\<And>x w3. handle_challenge g (telegram_actions days peer k) k (sender_state.truncate r) m
         (clock w (ticks w)) w2 = (Inr x, w3)
       \<Longrightarrow> handle_locked g (telegram_actions days peer k) k m w
         = (Inr x, w3\<lparr>db := finish_message k (m_message_id m) x (db w3)\<rparr>)"
  | (failed) w2 where "\<not> campaign_readable g k m"
    "handle_locked g (telegram_actions days peer k) k m w = (Inr ''fail_safe'', w2)" "row_at k w2 = Some r"
proof -
  let ?A = "telegram_actions days peer k"
  from assms have fresh: "fresh_message g k m w" "\<not> gate_open g m" "row_at k w = Some r"
    by (auto simp: in_challenge_def)
  have settled: "row_triple k (Some r) (settle_before_screening ?A k m (is_test_key g k) (clock w (ticks w)))
      (\<lambda>x ro. (\<exists>st. x = (st, None) \<and> st = sender_state.truncate r) \<and> ro = Some r)"
    by (rule triple_weaken [OF settled_challenged]) (use assms in \<open>auto simp: in_challenge_def\<close>)
  show thesis
  proof (cases rule: decision_reached [OF fresh settled, case_names decided failed])
    case (decided w2 st sig)
    have "mild_outcome g ?A k m st sig (clock w (ticks w))
        = handle_challenge g ?A k (sender_state.truncate r) m (clock w (ticks w))"
      using assms by (simp add: mild_outcome_def decided(1) in_challenge_def)
    with decided(5) have "\<And>x w3. handle_challenge g ?A k (sender_state.truncate r) m (clock w (ticks w)) w2
        = (Inr x, w3) \<Longrightarrow> handle_locked g ?A k m w
           = (Inr x, w3\<lparr>db := finish_message k (m_message_id m) x (db w3)\<rparr>)"
      by simp
    with decided(2,4) show thesis by (rule reached)
  next
    case (failed w2)
    then show thesis by (rule that(2))
  qed
qed

lemma finish_row: "row_at k (w\<lparr>db := finish_message k i x (db w)\<rparr>) = row_at k w"
  by (simp add: row_at_def finish_message_def)

lemma challenged_message:
  assumes "in_challenge g k m r w"
    and "row_triple k (Some r) (handle_challenge g (telegram_actions days peer k) k
      (sender_state.truncate r) m (clock w (ticks w))) Q"
  shows "\<exists>x w'. handle_locked g (telegram_actions days peer k) k m w = (Inr x, w')
    \<and> (Q x (row_at k w') \<or> \<not> campaign_readable g k m \<and> x = ''fail_safe'' \<and> row_at k w' = Some r)"
proof (cases rule: challenge_reached [OF assms(1), of days peer, case_names reached failed])
  case (reached w2)
  obtain x w3 where "handle_challenge g (telegram_actions days peer k) k (sender_state.truncate r) m
      (clock w (ticks w)) w2 = (Inr x, w3)" "Q x (row_at k w3)"
    by (rule row_tripleE [OF assms(2) reached(1)])
  with reached(3) [of x w3] show ?thesis by (simp add: finish_row)
qed auto

lemma readable_message:
  assumes "campaign_readable g k m" and "in_challenge g k m r w"
    and "row_triple k (Some r) (handle_challenge g (telegram_actions days peer k) k
      (sender_state.truncate r) m (clock w (ticks w))) Q"
  shows "\<exists>x w'. handle_locked g (telegram_actions days peer k) k m w = (Inr x, w') \<and> Q x (row_at k w')"
  using challenged_message [OF assms(2,3)] assms(1) by blast

lemma gate_needs_denied_or_links:
  assumes "gate_open g m"
  shows "any_denied (gk_denylist g) (f_domains (m_facts m))
    \<or> length (url_keys (gk_unicode g) (f_urls (m_facts m))) \<ge> 2
    \<or> length (remdups (f_domains (m_facts m))) \<ge> 2
    \<or> length (url_keys (gk_unicode g) (f_quote_urls (m_facts m))) \<ge> 2
    \<or> length (remdups (f_quote_domains (m_facts m))) \<ge> 2"
proof -
  from assms obtain links extra where extra: "extra = [] \<or> extra = [repeated_campaign_signal]"
    and perm: "dec_planned_action (decide (detect_evidence_signals (gk_unicode g) (m_facts m) links
       (gk_denylist g) @ extra)) = PermanentSuppression"
    unfolding gate_open_def by blast
  let ?d = "detect_evidence_signals (gk_unicode g) (m_facts m) links (gk_denylist g)"
  have codes: "c \<in> sig_code ` set (?d @ extra) \<longleftrightarrow> c \<in> sig_code ` set ?d"
    if "c \<noteq> ''REPEATED_CAMPAIGN''" for c
    using extra that by (auto simp: repeated_campaign_signal_def signal_def)
  from perm have "destructive_gate_basis (?d @ extra) \<noteq> None" by (simp add: decide_permanent_iff)
  from gate_codes [OF this]
  have "(\<exists>c \<in> denied_codes. c \<in> sig_code ` set ?d) \<or> ''MULTIPLE_LINKS'' \<in> sig_code ` set ?d
      \<or> ''QUOTED_MULTIPLE_LINKS'' \<in> sig_code ` set ?d"
    using codes by (auto simp: denied_codes_def)
  then show ?thesis
    using denied_code_emitted authored_denied_code_Some
    unfolding multiple_links_code quoted_multiple_links_code by blast
qed

lemma keyed_gate_closed: "\<not> gate_open keyed_gatekeeper (demo_message t)"
  using gate_needs_denied_or_links [of keyed_gatekeeper "demo_message t"]
  by (auto simp: demo_message_def no_facts_def any_denied_def url_keys_def List.map_filter_def)

lemma demo_quota: "k \<noteq> [] \<Longrightarrow> quota_ok demo_gatekeeper k"
  by (simp add: quota_ok_def demo_gatekeeper_def)

lemma keyed_in_challenge: "in_challenge keyed_gatekeeper ''other'' (demo_message t) keyed_row keyed_world"
  by (simp add: in_challenge_def keyed_gate_closed)
    (simp add: fresh_message_def demo_world_def keyed_row_def demo_quota demo_store_def empty_store_def
      row_at_def demo_row_def set_state_row_def demo_message_def)

lemmas keyed_readable_message = keyed_message_readable [OF demo_message_whole]

subsection \<open>Replies to a challenge\<close>

text \<open>The messages are readable in the sense of \<open>Readable_Messages\<close>: with the core's keyed protector,
  every message without lone surrogates is. The witnesses use that protector.\<close>

text \<open>C8. A wrong answer in a readable message uses up one attempt: with attempts left the sender stays challenged and is
  told so, and the answer that reaches the limit leaves the sender quarantined or suppressed.\<close>

theorem wrong_answer_outcome:
  assumes "in_challenge g k m r w" and "campaign_readable g k m"
    and "answers g (sender_state.truncate r) m a"
    and "\<not> answer_matches g k (sender_state.truncate r) a"
  shows "\<exists>x w'. handle_locked g (telegram_actions days peer k) k m w = (Inr x, w')
    \<and> (if attempts r + 1 \<ge> challenge_limit g (challenge_profile r)
       then x \<in> {''quarantined'', ''suppressed''} \<and> restricted_at (row_at k w')
       else x = ''challenge_incorrect'' \<and> row_at k w' =
         Some (r\<lparr>attempts := attempts r + 1, updated_at := clock w (ticks w)\<rparr>))"
  by (rule readable_message [OF assms(2,1) tg_safe.wrong_triple [OF in_challengeD(1) [OF assms(1)] assms(3,4)]])

lemma wrong_answer_outcome_witness:
  "\<exists>x w'. handle_locked keyed_gatekeeper demo_actions ''other'' (demo_message ''16'') keyed_world = (Inr x, w')
    \<and> x = ''challenge_incorrect''
    \<and> row_at ''other'' w' = Some (keyed_row\<lparr>attempts := 1, updated_at := 1000\<rparr>)"
proof -
  have "answers keyed_gatekeeper (sender_state.truncate keyed_row) (demo_message ''16'') (ustr ''16'')"
    by code_simp
  moreover have "\<not> challenge_limit keyed_gatekeeper (challenge_profile keyed_row) \<le> 1"
    "attempts keyed_row = 0" "clock keyed_world (ticks keyed_world) = 1000"
    by (simp_all add: challenge_limit_def keyed_gatekeeper_def demo_gatekeeper_def keyed_row_def demo_row_def
        set_state_row_def demo_world_def)
  ultimately show ?thesis
    using wrong_answer_outcome [OF keyed_in_challenge [of "''16''"] keyed_readable_message _ keyed_answers(2)]
    by simp
qed

text \<open>C10. The right answer makes the sender provisional and forgets the challenge and its digest;
  when the dialog cannot be restored, or the campaign text of the message has no fingerprint, the
  outcome is \<open>fail_safe\<close> and the row is unchanged.\<close>

theorem correct_answer_outcome:
  assumes "in_challenge g k m r w" and "answers g (sender_state.truncate r) m a"
    and "answer_matches g k (sender_state.truncate r) a"
  shows "\<exists>x w'. handle_locked g (telegram_actions days peer k) k m w = (Inr x, w')
    \<and> (verified r x (row_at k w') \<or> x = ''fail_safe'' \<and> row_at k w' = Some r)"
  using challenged_message [OF assms(1) tg_safe.correct_triple [OF in_challengeD(1) [OF assms(1)] assms(2,3)]]
  by blast

lemma correct_answer_outcome_witness:
  "\<exists>x w'. handle_locked keyed_gatekeeper demo_actions ''other'' (demo_message ''15'') keyed_world = (Inr x, w')
    \<and> (verified keyed_row x (row_at ''other'' w') \<or> x = ''fail_safe'' \<and> row_at ''other'' w' = Some keyed_row)"
proof (rule correct_answer_outcome [OF keyed_in_challenge _ keyed_answers(1)])
  show "answers keyed_gatekeeper (sender_state.truncate keyed_row) (demo_message ''15'') (ustr ''15'')"
    by code_simp
qed

text \<open>C11. A readable reply that was sent after the expiry leaves the sender quarantined or suppressed,
  whatever it says.\<close>

theorem late_reply_outcome:
  assumes "in_challenge g k m r w" and "campaign_readable g k m"
    and "challenge_expires_at r = Some e"
    and "late_reply (sender_state.truncate r) m"
  shows "\<exists>w'. handle_locked g (telegram_actions days peer k) k m w = (Inr ''suppressed'', w')
    \<and> restricted_at (row_at k w')"
  using readable_message [OF assms(2,1) tg_safe.late_triple
      [OF in_challengeD(1,2) [OF assms(1)] assms(3,4)]] by blast

lemma late_reply_outcome_witness:
  "\<exists>w'. handle_locked keyed_gatekeeper demo_actions ''other''
      ((demo_message ''15'')\<lparr>m_sent_at := 1201\<rparr>) keyed_world = (Inr ''suppressed'', w')
    \<and> restricted_at (row_at ''other'' w')"
proof (rule late_reply_outcome)
  have "\<not> gate_open keyed_gatekeeper ((demo_message ''15'')\<lparr>m_sent_at := 1201\<rparr>)"
    using keyed_gate_closed [of "''15''"] by (simp add: gate_open_def)
  with keyed_in_challenge [of "''15''"]
  show "in_challenge keyed_gatekeeper ''other'' ((demo_message ''15'')\<lparr>m_sent_at := 1201\<rparr>)
      keyed_row keyed_world"
    by (simp add: in_challenge_def fresh_message_def)
  show "campaign_readable keyed_gatekeeper ''other'' ((demo_message ''15'')\<lparr>m_sent_at := 1201\<rparr>)"
    by (rule keyed_message_readable) (simp add: demo_message_whole)
qed (simp_all add: keyed_row_def demo_row_def set_state_row_def late_reply_def int_or_def)



subsection \<open>With a working server\<close>

lemma restore_works:
  assumes "\<forall>n. replies w n \<noteq> ReplyError"
  shows "\<exists>w'. restore_with_retry (telegram_actions days (Some p) k) w = (Inr True, w')
    \<and> row_at k w' = row_at k w"
proof -
  obtain folder silent until where
    settings: "restore_settings (dialog_snapshot_of k (db w)) (clock w (ticks w)) = (folder, silent, until)"
    using prod_cases3 by blast
  have "\<exists>w'. restore_dialog (Some p) k w = (Inr True, w') \<and> row_at k w' = row_at k w"
    using assms
    by (simp add: restore_dialog_def prog_defs then_prog_def telegram_peer_def telegram_def Let_def
        settings row_at_def clear_dialog_snapshot_def)
  then show ?thesis
    by (auto simp: restore_with_retry_def RESTORE_ATTEMPTS_def numeral_3_eq_3 telegram_actions_def
        tg_restore_from_pending_def bind_prog_def try_except_def ret_def)
qed

text \<open>C9. With a Telegram server that fails no request, the right answer in a readable message always succeeds.\<close>

theorem correct_answer_passes:
  assumes "in_challenge g k m r w" and "campaign_readable g k m"
    and "answers g (sender_state.truncate r) m a"
    and "answer_matches g k (sender_state.truncate r) a" and "\<forall>n. replies w n \<noteq> ReplyError"
  shows "\<exists>w'. handle_locked g (telegram_actions days (Some p) k) k m w = (Inr ''provisional'', w')
    \<and> verified r ''provisional'' (row_at k w')"
proof -
  let ?A = "telegram_actions days (Some p) k" and ?now = "clock w (ticks w)"
  let ?s = "sender_state.truncate r"
  obtain w2 where w2: "row_at k w2 = Some r" "replies w2 = replies w"
    and run: "\<And>x w3. handle_challenge g ?A k ?s m ?now w2 = (Inr x, w3)
       \<Longrightarrow> handle_locked g ?A k m w = (Inr x, w3\<lparr>db := finish_message k (m_message_id m) x (db w3)\<rparr>)"
    by (rule challenge_reached [OF assms(1)]) (use assms(2) in blast)+
  obtain w3 where restore: "restore_with_retry ?A w2 = (Inr True, w3)" and row3: "row_at k w3 = Some r"
    using restore_works [of w2 days p k] assms(5) w2 by auto
  have "handle_challenge g ?A k ?s m ?now = accept_correct_answer g ?A k ?s m ?now"
    using assms(3,4) by (simp add: handle_challenge_def answers_def need_sum_def)
  then have *: "handle_challenge g ?A k ?s m ?now w2 = accept_correct_answer g ?A k ?s m ?now w2" by simp
  obtain x w4 where acc: "accept_correct_answer g ?A k ?s m ?now w2 = (Inr x, w4)"
    and out: "verified r x (row_at k w4)"
    by (rule row_tripleE [OF tg_safe.accepted_triple [OF in_challengeD(1) [OF assms(1)]] row3])
      (simp add: accept_correct_answer_def bind_prog_def [of "restore_with_retry _"] restore)
  from out have "x = ''provisional''" by (simp add: verified_def)
  with run [OF * [THEN trans, OF acc]] out show ?thesis by (simp add: finish_row)
qed

lemma correct_answer_passes_witness:
  "\<exists>w'. handle_locked keyed_gatekeeper demo_actions ''other'' (demo_message ''15'') keyed_world
      = (Inr ''provisional'', w')
    \<and> verified keyed_row ''provisional'' (row_at ''other'' w')"
proof (rule correct_answer_passes [OF keyed_in_challenge keyed_readable_message])
  show "answers keyed_gatekeeper (sender_state.truncate keyed_row) (demo_message ''15'') (ustr ''15'')"
    by code_simp
  show "answer_matches keyed_gatekeeper ''other'' (sender_state.truncate keyed_row) (ustr ''15'')"
    by (rule keyed_answers)
qed (simp add: demo_world_def)

end
