(* ===== verification/Service_Arrivals.thy ===== *)
theory Service_Arrivals
  imports Service_Replies
begin

text \<open>
  What the handler does with a message of a sender without a standing, in protect mode and in
  monitor mode, and with a message it has already claimed.
\<close>

subsection \<open>Protect mode\<close>







subsection \<open>Monitor mode\<close>

text \<open>In monitor mode: nothing is sent, nothing is scheduled, and the mode stays.\<close>

interpretation watch: prog_relation
  "\<lambda>w w'. get_mode (db w) = Monitor \<longrightarrow> trace w' = trace w \<and> get_mode (db w') = Monitor"
  by unfold_locales auto

definition watching :: "'a prog \<Rightarrow> bool" where
  "watching p \<longleftrightarrow> preserves
     (\<lambda>w w'. get_mode (db w) = Monitor \<longrightarrow> trace w' = trace w \<and> get_mode (db w') = Monitor) p"

lemmas watch_control = watch.pres_control [folded watching_def]

lemma watchingD:
  "watching p \<Longrightarrow> get_mode (db w) = Monitor \<Longrightarrow> trace (snd (p w)) = trace w \<and> get_mode (db (snd (p w))) = Monitor"
  by (simp add: watching_def preserves_def)

lemma watching_quiet:
  assumes "keeps (sender_step UNIV k)\<^sup>*\<^sup>* p" and "quiet p"
  shows "watching p"
  unfolding watching_def preserves_def
proof (intro allI impI conjI)
  fix w :: world assume "get_mode (db w) = Monitor"
  then show "get_mode (db (snd (p w))) = Monitor"
    using sender_steps_mode [OF keepsD [OF assms(1), of w]] by simp
qed (rule quietD [OF assms(2)])

lemma watching_change:
  "(\<And>s. get_mode (f s) = get_mode s) \<Longrightarrow> watching (change f)"
  by (simp add: watching_def preserves_def change_def)

lemma watching_transact:
  "(\<And>s. get_mode (snd (f s)) = get_mode s) \<Longrightarrow> watching (transact f)"
  by (simp add: watching_def preserves_def transact_def)

lemma watching_mode:
  "watching p \<Longrightarrow> watching (bind_prog (query get_mode) (\<lambda>mode. if mode = Monitor then p else q mode))"
  by (auto simp: watching_def preserves_def bind_prog_def query_def)

lemma quiet_need_sum: "quiet (need_sum x)"
  by (simp add: quiet_def preserves_def need_sum_def prog_defs split: sum.split)

lemmas quiet_rules = quiet_control quiet_need_sum

lemma evidence_quiet: "quiet (evidence_signals g k m is_test now)"
  unfolding evidence_signals_def Let_def by (intro quiet_rules)

lemma queue_review_quiet: "quiet (queue_review g k m c s now)"
  unfolding queue_review_def by (intro quiet_rules)

lemma record_screening_quiet: "quiet (record_screening k d actual now)"
  unfolding record_screening_def by (intro quiet_rules)

lemma settle_watching: "watching (settle_before_screening (telegram_actions days peer k) k m is_test now)"
proof -
  have leaf: "watching (change (revoke k now))" "watching (change (allow k now))"
    "\<And>c o'. watching (change (audit k c o' now))"
    "watching (transact (release_expired_suppression k now))"
    "\<And>at. watching (transact (reset_test_sender_row k at now))"
    by (rule watching_change watching_transact,
        simp add: store_defs get_mode_def Let_def split_beta)+
  show ?thesis
    unfolding settle_before_screening_def revoke_test_sender_def settle_restricted_def
      settle_trusted_def
    by (rule watching_mode leaf | rule watch_control)+
qed

lemma audit_signals_mode: "get_mode (audit_signals k xs now s) = get_mode s"
  by (induction xs arbitrary: s) (simp_all add: audit_def Let_def get_mode_def)

lemma audit_watching: "watching (change (audit k c x now))"
  by (rule watching_change) (simp add: audit_def Let_def get_mode_def)

lemma suppress_permanently_watching: "watching (suppress_permanently g A k m d now)"
proof -
  have "watching (queue_review g k m c s now)" "watching (record_screening k d x now)" for c s x
    by (rule watching_quiet, rule tg.queue_review_keeps tg.record_screening_keeps,
        rule queue_review_quiet record_screening_quiet)+
  moreover have "watching (change (audit_signals k (dec_signals d) now))"
    by (rule watching_change) (rule audit_signals_mode)
  moreover have "suppress_permanently g A k m d now =
      then_prog (change (audit_signals k (dec_signals d) now))
      (bind_prog (query get_mode) (\<lambda>mode. if mode = Monitor
        then bind_prog (then_prog (queue_review g k m ''would_delete'' (dec_signals d) now)
               (ret ''would_delete'')) (\<lambda>outcome. then_prog (record_screening k d outcome now) (ret outcome))
        else bind_prog (then_prog (capture_enforcement_review g k m ''permanent_suppression'' d now)
               (schedule_permanent_suppression g A k m now))
               (\<lambda>outcome. then_prog (record_screening k d outcome now) (ret outcome))))"
    unfolding suppress_permanently_def by (simp add: if_distrib [of "\<lambda>p. bind_prog p _"] cong: if_cong)
  ultimately show ?thesis
    by (simp only:) (rule watching_mode | rule watch_control | assumption)+
qed

lemma challenge_sender_watching:
  "\<not> is_test_key g k \<Longrightarrow> watching (challenge_sender g A k m d now)"
proof -
  assume "\<not> is_test_key g k"
  moreover have "watching (queue_review g k m c s now)" "watching (record_screening k d x now)" for c s x
    by (rule watching_quiet, rule tg.queue_review_keeps tg.record_screening_keeps,
        rule queue_review_quiet record_screening_quiet)+
  ultimately show ?thesis
    unfolding challenge_sender_def
    by simp (rule watching_mode | rule watch_control | rule audit_watching | assumption)+
qed

lemma screen_watching:
  assumes "\<not> is_test_key g k" and "status st \<noteq> CHALLENGED"
  shows "watching (screen_message g A k m st now)"
proof -
  have "watching (evidence_signals g k m is_test now)" for is_test
    by (rule watching_quiet [OF tg.evidence_keeps evidence_quiet])
  with assms show ?thesis
    unfolding screen_message_def Let_def
    by (simp, intro watch_control suppress_permanently_watching challenge_sender_watching) simp_all
qed

lemma process_watched:
  assumes "\<not> is_test_key g k" and "status (sender k (db w)) \<noteq> CHALLENGED" and "get_mode (db w) = Monitor"
  shows "trace (snd (process_message g (telegram_actions days peer k) k m now w)) = trace w"
proof -
  let ?A = "telegram_actions days peer k"
  let ?rest = "\<lambda>(state, settled). case settled of
      Some outcome \<Rightarrow> ret outcome | None \<Rightarrow> screen_message g ?A k m state now"
  have "get_mode (db w) = Monitor \<longrightarrow>
      trace (snd (bind_prog (settle_before_screening ?A k m (is_test_key g k) now) ?rest w)) = trace w
      \<and> get_mode (db (snd (bind_prog (settle_before_screening ?A k m (is_test_key g k) now) ?rest w))) = Monitor"
  proof (rule watch.bind_at)
    show "get_mode (db w) = Monitor \<longrightarrow>
        trace (snd (settle_before_screening ?A k m (is_test_key g k) now w)) = trace w
        \<and> get_mode (db (snd (settle_before_screening ?A k m (is_test_key g k) now w))) = Monitor"
      using watchingD [OF settle_watching] by blast
  next
    fix x w' assume settle: "settle_before_screening ?A k m (is_test_key g k) now w = (Inr x, w')"
    obtain st settled where x: "x = (st, settled)" by fastforce
    show "get_mode (db w') = Monitor \<longrightarrow> trace (snd (?rest x w')) = trace w'
        \<and> get_mode (db (snd (?rest x w'))) = Monitor"
    proof (cases settled)
      case None
      with settle_state [of ?A k m _ now w st w'] settle x assms(2) have "status st \<noteq> CHALLENGED" by auto
      from watchingD [OF screen_watching [OF assms(1) this]] show ?thesis by (simp add: x None)
    qed (simp add: x ret_def)
  qed
  with assms(3) show ?thesis by (simp add: process_message_def)
qed

subsection \<open>The handler's frame\<close>

lemma handle_duplicate:
  assumes "map_of (processed_messages (db w)) (k, m_message_id m) \<noteq> None"
  shows "handle_locked g A k m w = (Inr ''duplicate'', w\<lparr>ticks := Suc (ticks w)\<rparr>)"
  using assms
  by (auto simp: handle_locked_def prog_defs claim_message_def insert_ignore_def split: option.splits)

lemma handle_claimed:
  assumes "map_of (processed_messages (db w)) (k, m_message_id m) = None"
  shows "trace (snd (handle_locked g A k m w)) = trace (snd (process_message g A k m (clock w (ticks w))
    (w\<lparr>ticks := Suc (ticks w), db := snd (claim_message k (m_message_id m) (clock w (ticks w)) (db w))\<rparr>)))"
  using assms
  by (simp add: handle_locked_def then_prog_def prog_defs claim_message_def split: prod.split sum.split)

text \<open>C25. In monitor mode the handler sends nothing to Telegram and schedules nothing, whatever the
  message is, unless the sender is the test sender or was challenged before.\<close>

theorem monitor_only_observes:
  assumes "get_mode (db w) = Monitor" and "\<not> is_test_key g k"
    and "status (sender k (db w)) \<noteq> CHALLENGED"
  shows "trace (snd (handle_locked g (telegram_actions days peer k) k m w)) = trace w"
proof (cases "map_of (processed_messages (db w)) (k, m_message_id m)")
  case None
  have "status (sender k (snd (claim_message k (m_message_id m) t (db w)))) \<noteq> CHALLENGED" for t
    using assms(3) by (simp add: claim_sender)
  moreover have "get_mode (snd (claim_message k (m_message_id m) t (db w))) = Monitor" for t
    using assms(1) by (simp add: claim_message_def get_mode_def)
  ultimately show ?thesis
    unfolding handle_claimed [OF None] by (subst process_watched) (simp_all add: assms(2))
next
  case (Some v)
  then show ?thesis by (simp add: handle_duplicate)
qed

lemma monitor_only_observes_witness:
  "trace (snd (handle_locked demo_gatekeeper demo_actions ''other'' denied_message
     (demo_world (demo_store Monitor [])))) = []"
proof -
  have "trace (snd (handle_locked demo_gatekeeper demo_actions ''other'' denied_message
      (demo_world (demo_store Monitor [])))) = trace (demo_world (demo_store Monitor []))"
    by (rule monitor_only_observes) code_simp+
  then show ?thesis by (simp add: demo_world_def)
qed

lemma steps_claimed:
  "(sender_step C k)\<^sup>*\<^sup>* s s' \<Longrightarrow> map_of (processed_messages s) x \<noteq> None
   \<Longrightarrow> map_of (processed_messages s') x \<noteq> None"
proof (induction rule: rtranclp_induct)
  case (step s1 s2)
  from step.hyps(2) step.IH [OF step.prems] show ?case
    by (induction rule: sender_step.induct)
      (auto simp: store_defs table_simps Let_def split_beta split: option.splits if_splits)
qed

lemma handled_claimed:
  "map_of (processed_messages (db (snd (handle_locked g (telegram_actions days peer k) k m w))))
     (k, m_message_id m) \<noteq> None"
proof (cases "map_of (processed_messages (db w)) (k, m_message_id m)")
  case None
  let ?A = "telegram_actions days peer k" and ?now = "clock w (ticks w)"
  let ?s = "snd (claim_message k (m_message_id m) ?now (db w))"
  let ?w = "w\<lparr>ticks := Suc (ticks w), db := ?s\<rparr>"
  let ?body = "bind_prog (try_except (process_message g ?A k m ?now)
      (then_prog (change (audit k ''FAIL_SAFE'' ''no_action'' ?now)) (ret ''fail_safe'')))
      (\<lambda>outcome. then_prog (change (finish_message k (m_message_id m) outcome)) (ret outcome))"
  have "handle_locked g ?A k m w = ?body ?w"
    using None by (simp add: handle_locked_def bind_prog_def [of read_clock] read_clock_def
        bind_prog_def [of "transact _"] transact_def claim_message_def)
  moreover have "keeps (sender_step UNIV k)\<^sup>*\<^sup>* ?body"
    by (intro tg.keeps_rules tg.process_keeps) simp_all
  then have "(sender_step UNIV k)\<^sup>*\<^sup>* (db ?w) (db (snd (?body ?w)))" by (rule keepsD)
  moreover have "map_of (processed_messages (db ?w)) (k, m_message_id m) \<noteq> None"
    using None by (simp add: claim_message_def table_simps)
  ultimately show ?thesis using steps_claimed by metis
qed (simp add: handle_duplicate)

text \<open>A message that is delivered again has no effect: the handler reports a duplicate and the
  world is the one the first delivery left, apart from the clock having been read.\<close>

theorem redelivery_is_duplicate:
  "let w' = snd (handle_locked g (telegram_actions days peer k) k m w)
   in handle_locked g (telegram_actions days peer k) k m w'
        = (Inr ''duplicate'', w'\<lparr>ticks := Suc (ticks w')\<rparr>)"
  unfolding Let_def by (rule handle_duplicate) (rule handled_claimed)

end
