(* ===== verification/Store_Properties.thy ===== *)
theory Store_Properties
  imports Store_Invariants Scenarios
begin

text \<open>
  What the store's operations guarantee on their own: the outbound quota, the switch to monitor
  mode, the two partitions of the restrictions, erasure, retention, the operator cleanup queue and
  the migrations.
\<close>

subsection \<open>The hourly quota\<close>

text \<open>What is claimed of the quota over the life of a database: the answers that
  \<open>claim_outbound_slot\<close> gave, oldest first.\<close>

record slot_claim =
  cl_sender :: sender_key
  cl_category :: slot_category
  cl_time :: int
  cl_granted :: bool

text \<open>The rule for a claim at the time \<open>t\<close>, read off the earlier answers alone: of the claims granted in the past
  hour there are fewer than \<open>limit\<close>; for a challenge, fewer than \<open>limit - reserve\<close>; for a
  notice, fewer than \<open>n\<close> notices to this sender.\<close>

definition granted_since :: "int \<Rightarrow> slot_claim list \<Rightarrow> slot_claim list" where
  "granted_since t log = filter (\<lambda>e. cl_granted e \<and> t \<le> cl_time e) log"

definition notices_to :: "sender_key \<Rightarrow> slot_claim list \<Rightarrow> slot_claim list" where
  "notices_to k log = filter (\<lambda>e. cl_sender e = k \<and> cl_category e = NoticeSlot) log"

definition challenges_in :: "slot_claim list \<Rightarrow> slot_claim list" where
  "challenges_in log = filter (\<lambda>e. cl_category e = ChallengeSlot) log"

definition slot_free ::
  "int \<Rightarrow> int \<Rightarrow> int \<Rightarrow> slot_claim list \<Rightarrow> sender_key \<Rightarrow> slot_category \<Rightarrow> int \<Rightarrow> bool" where
  "slot_free limit reserve n log k c t \<longleftrightarrow>
     int (length (granted_since (t - 3600) log)) < limit
     \<and> (case c of
          ChallengeSlot \<Rightarrow> int (length (granted_since (t - 3600) log)) < limit - reserve
        | NoticeSlot \<Rightarrow> int (length (notices_to k (granted_since (t - 3600) log))) < n)"

text \<open>A life of the database: claims, and between them any other operation that leaves the events of
  the past hour alone, at times that do not go back. The daily pruning is such an operation
  (\<open>pruning_keeps_the_hour\<close>); erasing a sender who was written to in the past hour is
  not.\<close>

inductive quota_run ::
  "int \<Rightarrow> int \<Rightarrow> int \<Rightarrow> store \<Rightarrow> slot_claim list \<Rightarrow> int \<Rightarrow> store \<Rightarrow> bool"
  for limit reserve n :: int and s0 :: store where
  quota_start: "quota_run limit reserve n s0 [] t s0"
| quota_claim: "quota_run limit reserve n s0 log t s \<Longrightarrow> t \<le> ts
    \<Longrightarrow> claim_outbound_slot limit reserve n k c ts s = (Inr granted, s')
    \<Longrightarrow> quota_run limit reserve n s0
          (log @ [\<lparr>cl_sender = k, cl_category = c, cl_time = ts, cl_granted = granted\<rparr>]) ts s'"
| quota_other: "quota_run limit reserve n s0 log t s \<Longrightarrow> t \<le> ts
    \<Longrightarrow> filter (\<lambda>e. ts - 3600 \<le> ob_created_at e) (outbound_events s')
        = filter (\<lambda>e. ts - 3600 \<le> ob_created_at e) (outbound_events s)
    \<Longrightarrow> quota_run limit reserve n s0 log ts s'"

lemma pruning_keeps_the_hour:
  "filter (\<lambda>e. ts - 3600 \<le> ob_created_at e) (outbound_events (prune_rows cutoff ts s))
     = filter (\<lambda>e. ts - 3600 \<le> ob_created_at e) (outbound_events s)"
  by (auto simp: prune_rows_def delete_where_def intro: filter_cong)

text \<open>The rows the claims leave behind: the granted ones are exactly the rows that count.\<close>

definition slot_row :: "slot_claim \<Rightarrow> outbound_event" where
  "slot_row e = \<lparr>ob_sender = Some (cl_sender e), ob_category = accepted_category (cl_category e),
     ob_created_at = cl_time e\<rparr>"

lemma slot_row_simps [simp]:
  "ob_sender (slot_row e) = Some (cl_sender e)"
  "ob_category (slot_row e) = accepted_category (cl_category e)"
  "ob_created_at (slot_row e) = cl_time e"
  by (simp_all add: slot_row_def)

lemma accepted_category_simps [simp]:
  "accepted_category c = ObNotice \<longleftrightarrow> c = NoticeSlot"
  "accepted_category c = ObChallenge \<longleftrightarrow> c = ChallengeSlot"
  "accepted_category c \<in> {ObLegacy, ObChallenge, ObNotice}"
  "rejected_category c \<notin> {ObLegacy, ObChallenge, ObNotice}"
  by (cases c; simp)+

definition rows_tell :: "slot_claim list \<Rightarrow> int \<Rightarrow> store \<Rightarrow> bool" where
  "rows_tell log t s \<longleftrightarrow>
     filter (counted_event (t - 3600)) (outbound_events s) = map slot_row (granted_since (t - 3600) log)"

lemma granted_since_later:
  "t \<le> t' \<Longrightarrow> granted_since t' log = filter (\<lambda>e. t' \<le> cl_time e) (granted_since t log)"
  by (auto simp: granted_since_def intro: filter_cong)

lemma rows_tell_later:
  assumes "rows_tell log t s" and "t \<le> ts"
  shows "rows_tell log ts s"
proof -
  have "filter (counted_event (ts - 3600)) (outbound_events s)
      = filter (\<lambda>e. ts - 3600 \<le> ob_created_at e) (filter (counted_event (t - 3600)) (outbound_events s))"
    using assms(2) by (auto simp: counted_event_def intro: filter_cong)
  also have "\<dots> = filter (\<lambda>e. ts - 3600 \<le> ob_created_at e) (map slot_row (granted_since (t - 3600) log))"
    using assms(1) by (simp only: rows_tell_def)
  also have "\<dots> = map slot_row (granted_since (ts - 3600) log)"
    using assms(2) granted_since_later [of "t - 3600" "ts - 3600" log] by (simp add: filter_map o_def)
  finally show ?thesis by (simp only: rows_tell_def)
qed

lemma rows_tell_other:
  assumes "rows_tell log ts s"
    and "filter (\<lambda>e. ts - 3600 \<le> ob_created_at e) (outbound_events s')
        = filter (\<lambda>e. ts - 3600 \<le> ob_created_at e) (outbound_events s)"
  shows "rows_tell log ts s'"
proof -
  have "filter (counted_event (ts - 3600)) (outbound_events x)
      = filter (\<lambda>e. ob_category e \<in> {ObLegacy, ObChallenge, ObNotice})
          (filter (\<lambda>e. ts - 3600 \<le> ob_created_at e) (outbound_events x))" for x
    by (auto simp: counted_event_def intro: filter_cong)
  with assms show ?thesis unfolding rows_tell_def by metis
qed

text \<open>A claim answers by the rule, and its row keeps the correspondence.\<close>

lemma claim_by_the_rule:
  assumes "0 \<le> reserve" "reserve < limit" "1 \<le> n" "k \<noteq> []" and told: "rows_tell log ts s"
  shows "fst (claim_outbound_slot limit reserve n k c ts s) = Inr (slot_free limit reserve n log k c ts)"
    (is ?answer)
    and "rows_tell
      (log @ [\<lparr>cl_sender = k, cl_category = c, cl_time = ts, cl_granted = slot_free limit reserve n log k c ts\<rparr>])
      ts (snd (claim_outbound_slot limit reserve n k c ts s))" (is ?rows)
proof -
  let ?events = "delete_where (\<lambda>e. ob_created_at e < ts - 3600) (outbound_events s)"
  have "filter (counted_event (ts - 3600)) ?events = filter (counted_event (ts - 3600)) (outbound_events s)"
    by (auto simp: delete_where_def counted_event_def intro: filter_cong)
  with told have rows: "filter (counted_event (ts - 3600)) ?events
      = map slot_row (granted_since (ts - 3600) log)"
    by (simp only: rows_tell_def)
  then have total: "count_where (counted_event (ts - 3600)) ?events = int (length (granted_since (ts - 3600) log))"
    by (simp add: count_where_def)
  have "filter (\<lambda>e. ts - 3600 \<le> ob_created_at e \<and> ob_sender e = Some k \<and> ob_category e = ObNotice) ?events
      = filter (\<lambda>e. ob_sender e = Some k \<and> ob_category e = ObNotice) (filter (counted_event (ts - 3600)) ?events)"
    by (auto simp: counted_event_def intro: filter_cong)
  then have notices: "count_where
      (\<lambda>e. ts - 3600 \<le> ob_created_at e \<and> ob_sender e = Some k \<and> ob_category e = ObNotice) ?events
      = int (length (notices_to k (granted_since (ts - 3600) log)))"
    unfolding count_where_def rows by (simp add: filter_map o_def notices_to_def)
  show ?answer
    using assms(1-4) by (cases c) (simp_all add: claim_outbound_slot_def Let_def total notices slot_free_def)
  show ?rows
    using assms(1-4) rows
    by (cases c) (simp_all add: claim_outbound_slot_def Let_def total notices slot_free_def rows_tell_def
        granted_since_def counted_event_def slot_row_def)
qed

text \<open>The granted claims of the hour that ends at \<open>u\<close>.\<close>

definition granted_in_hour :: "int \<Rightarrow> slot_claim list \<Rightarrow> slot_claim list" where
  "granted_in_hour u log = filter (\<lambda>e. cl_time e \<le> u) (granted_since (u - 3600) log)"

definition hour_bounded :: "int \<Rightarrow> int \<Rightarrow> int \<Rightarrow> sender_key \<Rightarrow> int \<Rightarrow> slot_claim list \<Rightarrow> bool" where
  "hour_bounded limit reserve n k u log \<longleftrightarrow>
     int (length (granted_in_hour u log)) \<le> limit
     \<and> int (length (challenges_in (granted_in_hour u log))) \<le> limit - reserve
     \<and> int (length (notices_to k (granted_in_hour u log))) \<le> n"

lemmas quota_counts = granted_in_hour_def granted_since_def challenges_in_def notices_to_def

lemma challenges_in_append:
  "challenges_in (log @ [e]) = challenges_in log @ (if cl_category e = ChallengeSlot then [e] else [])"
  by (simp add: challenges_in_def)

lemma notices_to_append:
  "notices_to k (log @ [e])
     = notices_to k log @ (if cl_sender e = k \<and> cl_category e = NoticeSlot then [e] else [])"
  by (simp add: notices_to_def)

text \<open>A claim inside the hour is granted over at least the claims of that hour.\<close>

lemma hour_in_window:
  assumes "t \<le> u" and "\<forall>e \<in> set log. cl_time e \<le> t"
  shows "length (granted_in_hour u log) \<le> length (granted_since (t - 3600) log)"
    and "length (notices_to k (granted_in_hour u log)) \<le> length (notices_to k (granted_since (t - 3600) log))"
proof -
  have "granted_in_hour u log = filter (\<lambda>e. u - 3600 \<le> cl_time e) (granted_since (t - 3600) log)"
    unfolding granted_in_hour_def granted_since_def filter_filter
    by (rule filter_cong) (use assms in fastforce)+
  moreover have "notices_to k (filter P xs) = filter P (notices_to k xs)" for P xs
    by (simp add: notices_to_def conj_commute)
  ultimately show "length (granted_in_hour u log) \<le> length (granted_since (t - 3600) log)"
    "length (notices_to k (granted_in_hour u log)) \<le> length (notices_to k (granted_since (t - 3600) log))"
    by simp_all
qed

lemma hour_bounded_claim:
  assumes "hour_bounded limit reserve n k u log" and "\<forall>e \<in> set log. cl_time e \<le> t"
    and "cl_time e = t" and "cl_granted e \<Longrightarrow> slot_free limit reserve n log (cl_sender e) (cl_category e) t"
  shows "hour_bounded limit reserve n k u (log @ [e])"
proof (cases "cl_granted e \<and> u - 3600 \<le> t \<and> t \<le> u")
  case False
  then have "granted_in_hour u (log @ [e]) = granted_in_hour u log"
    using assms(3) by (auto simp: quota_counts)
  with assms(1) show ?thesis by (simp add: hour_bounded_def)
next
  case True
  then have "granted_in_hour u (log @ [e]) = granted_in_hour u log @ [e]"
    using assms(3) by (simp add: granted_in_hour_def granted_since_def)
  moreover have "t \<le> u" "slot_free limit reserve n log (cl_sender e) (cl_category e) t"
    using True assms(4) by auto
  moreover have "length (challenges_in (granted_in_hour u log)) \<le> length (granted_in_hour u log)"
    by (simp add: challenges_in_def)
  ultimately show ?thesis
    using assms(1) hour_in_window(1) [OF \<open>t \<le> u\<close> assms(2)] hour_in_window(2) [OF \<open>t \<le> u\<close> assms(2), where k = k]
    by (cases "cl_category e") (auto simp: hour_bounded_def slot_free_def challenges_in_append notices_to_append)
qed

lemma quota_run_told:
  assumes "quota_run limit reserve n (empty_store days) log t s"
    and q: "0 \<le> reserve" "reserve < limit" "1 \<le> n"
  shows "rows_tell log t s \<and> (\<forall>e \<in> set log. cl_time e \<le> t) \<and> hour_bounded limit reserve n k u log"
  using assms(1)
proof (induction rule: quota_run.induct)
  case (quota_start t)
  then show ?case using q
    by (simp add: rows_tell_def empty_store_def hour_bounded_def quota_counts)
next
  case (quota_claim log t s ts j c granted s')
  have told: "rows_tell log ts s" using quota_claim rows_tell_later by blast
  have "j \<noteq> []" using quota_claim.hyps(3) q by (auto simp: claim_outbound_slot_def split: if_splits)
  note rule = claim_by_the_rule [OF q \<open>j \<noteq> []\<close> told, of c]
  have g: "granted = slot_free limit reserve n log j c ts" using rule(1) quota_claim.hyps(3) by simp
  have late: "\<forall>e \<in> set log. cl_time e \<le> ts" using quota_claim by fastforce
  have "hour_bounded limit reserve n k u
      (log @ [\<lparr>cl_sender = j, cl_category = c, cl_time = ts, cl_granted = granted\<rparr>])"
    using quota_claim.IH by (intro hour_bounded_claim [of _ _ _ _ _ _ ts]) (auto simp: late g)
  with rule(2) late g quota_claim.hyps(3) show ?case by auto
next
  case (quota_other log t s ts s')
  then have "rows_tell log ts s'" using rows_tell_later rows_tell_other by blast
  with quota_other show ?case by fastforce
qed

text \<open>C27. Over the life of a database, at times that do not go back: a claim of an outbound slot is granted
  exactly when the earlier answers leave one free (fewer than \<open>limit\<close> granted in the past hour;
  for a challenge fewer than \<open>limit - reserve\<close>; for a notice fewer than \<open>n\<close> notices to
  that sender). So in every hour at most \<open>limit\<close> claims are granted, at most \<open>limit -
  reserve\<close> of them for challenges and at most \<open>n\<close> for notices to one sender.\<close>

theorem hourly_quota:
  assumes "0 \<le> reserve" and "reserve < limit" and "1 \<le> n"
    and "quota_run limit reserve n (empty_store days) log t s" and "t \<le> now" and "k \<noteq> []"
  shows "fst (claim_outbound_slot limit reserve n k c now s) = Inr (slot_free limit reserve n log k c now)
    \<and> int (length (granted_in_hour u log)) \<le> limit
    \<and> int (length (challenges_in (granted_in_hour u log))) \<le> limit - reserve
    \<and> int (length (notices_to k (granted_in_hour u log))) \<le> n"
proof -
  note told = quota_run_told [OF assms(4,1-3), of k u]
  then have "rows_tell log now s" using assms(5) rows_tell_later by blast
  then have "fst (claim_outbound_slot limit reserve n k c now s) = Inr (slot_free limit reserve n log k c now)"
    by (rule claim_by_the_rule(1) [OF assms(1-3,6)])
  with told show ?thesis by (simp add: hour_bounded_def)
qed

text \<open>A challenge is granted, a second one in the hour is not, a notice is: the third claim uses the
  reserve.\<close>

definition demo_claims :: "slot_claim list" where
  "demo_claims =
    [\<lparr>cl_sender = ''a'', cl_category = ChallengeSlot, cl_time = 10, cl_granted = True\<rparr>,
     \<lparr>cl_sender = ''b'', cl_category = ChallengeSlot, cl_time = 20, cl_granted = False\<rparr>,
     \<lparr>cl_sender = ''a'', cl_category = NoticeSlot, cl_time = 30, cl_granted = True\<rparr>]"

definition demo_claimed_store :: store where
  "demo_claimed_store = snd (claim_outbound_slot 2 1 1 ''a'' NoticeSlot 30
     (snd (claim_outbound_slot 2 1 1 ''b'' ChallengeSlot 20
       (snd (claim_outbound_slot 2 1 1 ''a'' ChallengeSlot 10 (empty_store 7))))))"

lemma demo_quota_run: "quota_run 2 1 1 (empty_store 7) demo_claims 30 demo_claimed_store"
proof -
  let ?s1 = "snd (claim_outbound_slot 2 1 1 ''a'' ChallengeSlot 10 (empty_store 7))"
  let ?s2 = "snd (claim_outbound_slot 2 1 1 ''b'' ChallengeSlot 20 ?s1)"
  have "claim_outbound_slot 2 1 1 ''a'' ChallengeSlot 10 (empty_store 7) = (Inr True, ?s1)"
    "claim_outbound_slot 2 1 1 ''b'' ChallengeSlot 20 ?s1 = (Inr False, ?s2)"
    "claim_outbound_slot 2 1 1 ''a'' NoticeSlot 30 ?s2 = (Inr True, demo_claimed_store)"
    by (simp_all add: claim_outbound_slot_def Let_def empty_store_def delete_where_def counted_event_def
        demo_claimed_store_def)
  from quota_claim [OF quota_claim [OF quota_claim [OF quota_start [of 2 1 1 _ 10] _ this(1)] _ this(2)] _ this(3)]
  show ?thesis by (simp add: demo_claims_def)
qed

lemma hourly_quota_witness:
  "fst (claim_outbound_slot 2 1 1 ''b'' NoticeSlot 40 demo_claimed_store)
     = Inr (slot_free 2 1 1 demo_claims ''b'' NoticeSlot 40)
   \<and> int (length (granted_in_hour 40 demo_claims)) \<le> 2
   \<and> int (length (challenges_in (granted_in_hour 40 demo_claims))) \<le> 2 - 1
   \<and> int (length (notices_to ''b'' (granted_in_hour 40 demo_claims))) \<le> 1"
  by (rule hourly_quota [OF _ _ _ demo_quota_run]) simp_all

subsection \<open>Switching to monitor mode\<close>

lemma insert_pending:
  "has_pending_review k (snd (insert_review j reference c sg f e ts s))
     \<longleftrightarrow> k = j \<or> has_pending_review k s"
  by (auto simp: has_pending_review_def insert_review_def Let_def)

lemma queue_cancelled_pending:
  "has_pending_review k s \<or> (\<exists>a \<in> set items. act_sender a = k)
   \<Longrightarrow> has_pending_review k (queue_cancelled ts items s)"
  by (induction items arbitrary: s) (auto simp: insert_pending)

lemma queue_cancelled_mode: "mode_setting (queue_cancelled ts items s) = mode_setting s"
  by (induction items arbitrary: s) (simp_all add: insert_review_def Let_def)

text \<open>C28. Switching to monitor mode leaves no open deletion job that depends on the mode, so none can be
  claimed, and every sender who lost one has a pending review instead.\<close>

theorem monitor_cancels_jobs:
  "list_all (\<lambda>a. \<not> mode_bound_pending a) (pending_actions_table (set_mode Monitor ts s))
   \<and> list_all (\<lambda>a. has_pending_review (act_sender a) (set_mode Monitor ts s))
       (filter mode_bound_pending (pending_actions_table s))
   \<and> get_mode (set_mode Monitor ts s) = Monitor"
proof -
  let ?s = "s\<lparr>mode_setting := map_option (\<lambda>_. Monitor) (mode_setting s),
    pending_actions_table := update_where mode_bound_pending (cancel_action ts) (pending_actions_table s)\<rparr>"
  have set_mode: "set_mode Monitor ts s =
      queue_cancelled ts (filter mode_bound_pending (pending_actions_table s)) ?s"
    by (simp add: set_mode_def Let_def)
  have "list_all (\<lambda>a. \<not> mode_bound_pending a) (pending_actions_table (set_mode Monitor ts s))"
    by (simp add: set_mode queue_cancelled_same(2))
      (auto simp: list_all_iff set_update_where mode_bound_pending_def cancel_action_def)
  moreover have "list_all (\<lambda>a. has_pending_review (act_sender a) (set_mode Monitor ts s))
      (filter mode_bound_pending (pending_actions_table s))"
    unfolding set_mode by (auto simp: list_all_iff intro!: queue_cancelled_pending)
  moreover have "get_mode (set_mode Monitor ts s) = Monitor"
    by (simp add: set_mode get_mode_def queue_cancelled_mode split: option.split)
  ultimately show ?thesis by simp
qed

subsection \<open>The two partitions of the restrictions\<close>

lemma partition_exclusive:
  "restriction_partition None s row \<longleftrightarrow>
     restriction_partition (Some True) s row \<noteq> restriction_partition (Some False) s row"
  "restriction_partition (Some True) s row \<Longrightarrow> \<not> restriction_partition (Some False) s row"
  by (auto simp: restriction_partition_def restricted_row_def split: prod.splits)

text \<open>Every restriction is in exactly one of the working queue and the archive: with the same filters
  the two counts add up to the count of all restrictions.\<close>

theorem restriction_counts_add_up:
  "active_restriction_count None reason before ts s =
     active_restriction_count (Some True) reason before ts s
     + active_restriction_count (Some False) reason before ts s"
proof -
  have split: "count_where P rs = count_where Q rs + count_where R rs"
    if "\<And>r. P r \<longleftrightarrow> Q r \<noteq> R r" and "\<And>r. \<not> (Q r \<and> R r)"
    for P Q R and rs :: "(sender_key \<times> sender_row) list"
    using that by (induction rs) auto
  show ?thesis
    unfolding active_restriction_count_def
    by (rule split) (auto simp: restriction_filter_def partition_exclusive(1) dest: partition_exclusive(2)
        split: prod.splits)
qed

subsection \<open>Erasure\<close>

text \<open>Nothing in the store names the sender.\<close>

definition no_trace_of :: "sender_key \<Rightarrow> store \<Rightarrow> bool" where
  "no_trace_of k s \<longleftrightarrow>
     list_all (\<lambda>((j, _), _). j \<noteq> k) (processed_messages s)
   \<and> list_all (\<lambda>a. au_sender a \<noteq> k) (audit_log s)
   \<and> list_all (\<lambda>(j, _). j \<noteq> k) (link_events s)
   \<and> list_all (\<lambda>e. ob_sender e \<noteq> Some k) (outbound_events s)
   \<and> list_all (\<lambda>((j, _), _). j \<noteq> k) (automated_messages s)
   \<and> list_all (\<lambda>r. rv_sender r \<noteq> k) (review_queue s)
   \<and> list_all (\<lambda>a. act_sender a \<noteq> k) (pending_actions_table s)
   \<and> list_all (\<lambda>d. de_sender d \<noteq> k) (decision_events s)
   \<and> list_all (\<lambda>((_, j), _). j \<noteq> k) (campaign_events s)
   \<and> map_of (dialog_snapshots s) k = None \<and> map_of (enforcement_reviews_table s) k = None
   \<and> map_of (sender_table s) k = None"

lemma erased: "no_trace_of k (erase_sender_rows k s)"
  by (auto simp: no_trace_of_def erase_sender_rows_def list_all_iff table_simps)

text \<open>C29. Forgetting a restriction erases every row that names the sender, in every table, and does so
  only for an archived permanent suppression without open work; otherwise nothing changes.\<close>

theorem forget_erases_everything:
  "if fst (forget_restriction k before s)
   then no_trace_of k (snd (forget_restriction k before s))
     \<and> (\<exists>r. map_of (sender_table s) k = Some r \<and> archived_permanent r) \<and> \<not> open_action s k
   else snd (forget_restriction k before s) = s"
  by (auto simp: forget_restriction_def forgettable_def erased split: option.splits)

subsection \<open>Archiving\<close>

text \<open>Archiving and unarchiving a permanent suppression that was not archived gives back the row; a
  row that is not a permanent suppression is not touched by either.\<close>

theorem archive_round_trip:
  "map_of (sender_table (snd (unarchive_restriction k (snd (archive_restriction k ts s))))) k
   = (case map_of (sender_table s) k of
        None \<Rightarrow> None
      | Some r \<Rightarrow> Some (if status r = SUPPRESSED \<and> suppressed_until r = None
                      then r\<lparr>archived_at := None\<rparr> else r))"
  by (auto simp: archive_restriction_def unarchive_restriction_def update_sender_def table_simps
      split: option.splits)

subsection \<open>Retention\<close>

lemma release_all_row:
  assumes "\<And>r. map_of (sender_table s) k = Some r \<Longrightarrow> \<not> expired_suppression ts r"
  shows "map_of (sender_table (snd (release_all ks ts s))) k = map_of (sender_table s) k"
  using assms
proof (induction ks arbitrary: s)
  case (Cons j ks)
  let ?s = "snd (release_expired_suppression_row j ts s)"
  have same: "map_of (sender_table ?s) k = map_of (sender_table s) k"
    using Cons.prems by (auto simp: release_expired_suppression_row_def split_beta table_simps
        split: option.splits)
  have "map_of (sender_table (snd (release_all ks ts ?s))) k = map_of (sender_table ?s) k"
    by (rule Cons.IH) (use Cons.prems same in auto)
  with same show ?case by (simp add: Let_def split_beta)
qed simp

lemma release_all_keys:
  "distinct (keys_of (sender_table s)) \<Longrightarrow> distinct (keys_of (sender_table (snd (release_all ks ts s))))"
proof (induction ks arbitrary: s)
  case (Cons j ks)
  have "distinct (keys_of (sender_table (snd (release_expired_suppression_row j ts s))))"
    using Cons.prems by (simp add: release_expired_suppression_row_def split_beta distinct_update_row)
  from Cons.IH [OF this] show ?case by (simp add: Let_def split_beta)
qed simp

lemma erase_all_row:
  "k \<notin> set ks \<Longrightarrow> map_of (sender_table (erase_all ks s)) k = map_of (sender_table s) k"
  by (induction ks arbitrary: s) (simp_all add: erase_sender_rows_def table_simps)

definition old_archived :: "int \<Rightarrow> sender_key list option \<Rightarrow> store \<Rightarrow> sender_key list" where
  "old_archived cutoff lifecycle s = filter (permitted_by lifecycle) (map fst (filter
      (\<lambda>row. (case row of (k, r) \<Rightarrow> archived_permanent r \<and> archived_by cutoff r)
         \<and> \<not> open_action s (fst row)) (sender_table s)))"

lemma prune_senders:
  "sender_table (snd (prune days ts archived lifecycle s)) =
    (let t = prune_rows (ts - days * 86400) ts (snd (release_all (filter (permitted_by lifecycle)
               (map fst (filter (\<lambda>(k, r). expired_suppression ts r) (sender_table s)))) ts s))
     in case archived of None \<Rightarrow> sender_table t
        | Some n \<Rightarrow> sender_table (erase_all (old_archived (ts - n * 86400) lifecycle t) t))"
  by (cases archived) (simp_all add: prune_def Let_def split_beta old_archived_def)

lemma old_archived_row:
  assumes "k \<in> set (old_archived cutoff lifecycle s)" and "distinct (keys_of (sender_table s))"
    and "map_of (sender_table s) k = Some r"
  shows "archived_permanent r \<and> archived_by cutoff r \<and> permitted_by lifecycle k \<and> \<not> open_action s k"
proof -
  from assms(1) obtain x where "(k, x) \<in> set (sender_table s)"
    and x: "archived_permanent x" "archived_by cutoff x" "permitted_by lifecycle k" "\<not> open_action s k"
    by (auto simp: old_archived_def)
  with assms(2,3) have "x = r" by (metis keys_of_def map_of_is_SomeI option.inject)
  with x show ?thesis by simp
qed

text \<open>Maintenance only touches a sender's row when its temporary suppression is over, or when it is
  a permanent suppression that was archived before the retention period, has no open work and
  the operator chose a period; a sender outside the locked set is never touched.\<close>

theorem prune_keeps_rows:
  assumes "map_of (sender_table s) k = Some r" and "distinct (map fst (sender_table s))"
    and "\<not> expired_suppression ts r"
    and "\<And>n. archived = Some n \<Longrightarrow> \<not> archived_permanent r \<or> \<not> archived_by (ts - n * 86400) r
           \<or> \<not> permitted_by lifecycle k"
  shows "map_of (sender_table (snd (prune days ts archived lifecycle s))) k = Some r"
proof -
  let ?expired = "filter (permitted_by lifecycle)
    (map fst (filter (\<lambda>(k, r). expired_suppression ts r) (sender_table s)))"
  let ?s = "prune_rows (ts - days * 86400) ts (snd (release_all ?expired ts s))"
  have row: "map_of (sender_table ?s) k = Some r"
    using release_all_row [of s k ts ?expired] assms(1,3) by (simp add: prune_rows_def)
  show ?thesis
  proof (cases archived)
    case None
    with row show ?thesis by (simp add: prune_senders Let_def)
  next
    case (Some n)
    have "distinct (keys_of (sender_table ?s))"
      using assms(2) release_all_keys [of s ?expired ts] by (simp add: prune_rows_def keys_of_def)
    then have "k \<notin> set (old_archived (ts - n * 86400) lifecycle ?s)"
      using old_archived_row [OF _ _ row] assms(4) [OF Some] by blast
    from erase_all_row [OF this] row Some show ?thesis by (simp add: prune_senders Let_def)
  qed
qed

definition demo_banned :: sender_row where
  "demo_banned = (set_state_row SUPPRESSED None None None 0 None 1 100)
     \<lparr>suppression_reason := Some ''spam''\<rparr>"

lemma prune_keeps_rows_witness:
  "map_of (sender_table (snd (prune 30 (10 ^ 9) (Some 30) None
     (demo_store Protect [(''a'', demo_banned), (''b'', demo_row CHALLENGED)])))) ''a'' = Some demo_banned"
  by (rule prune_keeps_rows)
    (simp_all add: demo_store_def demo_banned_def set_state_row_def expired_suppression_def
      archived_permanent_def)

subsection \<open>The operator's cleanup queue\<close>

lemma foldl_artifacts:
  "distinct ms \<Longrightarrow> map_of (foldl (\<lambda>t m. upsert_row m (at, 0) (\<lambda>(old, n). (min old at, n)) t) t ms) m
    = (if m \<in> set ms then Some (case map_of t m of None \<Rightarrow> (at, 0) | Some (old, n) \<Rightarrow> (min old at, n))
       else map_of t m)"
  by (induction ms arbitrary: t) (auto simp: table_simps split: option.splits)

text \<open>Scheduling messages for deletion records each of them, never moves a deadline back, keeps the
  count of retries, and leaves the other messages alone; an invalid request changes nothing.\<close>

theorem artifacts_keep_earliest:
  "case schedule_operator_artifacts ids at s of
     (Inl e, s') \<Rightarrow> s' = s \<and> (at < 0 \<or> (\<exists>m \<in> set ids. m \<le> 0))
   | (Inr _, s') \<Rightarrow> map_of (operator_artifacts s') m =
       (if m \<in> set ids then Some (case map_of (operator_artifacts s) m of
            None \<Rightarrow> (at, 0) | Some (old, n) \<Rightarrow> (min old at, n))
        else map_of (operator_artifacts s) m)"
  using foldl_artifacts [of "rev (remdups (rev ids))" at "operator_artifacts s" m]
  by (auto simp: schedule_operator_artifacts_def Let_def list_ex_iff split: if_splits)

subsection \<open>Opening the database\<close>

text \<open>The store opens exactly a missing file or a database of version 6, 7 or 8, with a retention
  between one and seven days; what was opened opens again, unchanged, at the current version.\<close>

theorem open_store_stable:
  "case open_store days f of
     Inl e \<Rightarrow> days < 1 \<or> 7 < days \<or> (\<exists>d. f = Some d \<and> db_version d \<notin> {6, 7, 8})
   | Inr s \<Rightarrow> 1 \<le> days \<and> days \<le> 7 \<and> mode_setting s \<noteq> None
       \<and> (case f of None \<Rightarrow> get_mode s = Monitor | Some d \<Rightarrow> db_version d \<in> {6, 7, 8}
            \<and> keys_of (sender_table s) = keys_of (sender_table (db_rows d)))
       \<and> open_store days (Some \<lparr>db_version = SCHEMA_VERSION, db_has_artifacts = True,
            db_has_archived_at = True, db_rows = s\<rparr>) = Inr s"
  by (auto simp: open_store_def initialize_schema_def migrate_v6_to_v7_def migrate_v7_to_v8_def
      SCHEMA_VERSION_def empty_store_def empty_maintenance_def get_mode_def keys_of_def Let_def
      split: option.splits if_splits)

end
