(* ===== verification/Session.thy ===== *)
theory Session
  imports Py_Codec
begin

text \<open>
  \<open>dashboard_session.py\<close>: the one-time login token, the capability in every path, the browser
  session and the CSRF token. Random tokens are the successive values of \<open>tok\<close>, the monotonic clock
  is in nanoseconds, and the token file holds \<open>published_token\<close>. \<open>cookies\<close> stands for the parser of
  \<open>http.cookies\<close> (None: a \<open>CookieError\<close>).
\<close>

definition SECOND :: int where
  "SECOND = 1000000000"

definition DASHBOARD_SESSION_IDLE_SECONDS :: int where
  "DASHBOARD_SESSION_IDLE_SECONDS = 30 * 60"

definition DASHBOARD_SESSION_ABSOLUTE_SECONDS :: int where
  "DASHBOARD_SESSION_ABSOLUTE_SECONDS = 8 * 60 * 60"

definition DASHBOARD_SESSION_COOKIE :: ustring where
  "DASHBOARD_SESSION_COOKIE = ustr ''tg_pm_gatekeeper_session''"

record credentials =
  csrf_token :: ustring
  access_token :: ustring
  capability_token :: ustring
  session_token :: "ustring option"
  session_started_at :: "int option"
  session_last_seen_at :: "int option"
  token_draws :: nat
  published_token :: "ustring option"

definition new_credentials :: "(nat \<Rightarrow> ustring) \<Rightarrow> credentials" where
  "new_credentials tok = \<lparr>csrf_token = tok 0, access_token = tok 1, capability_token = tok 2,
     session_token = None, session_started_at = None, session_last_seen_at = None, token_draws = 3,
     published_token = None\<rparr>"

text \<open>\<open>secrets.compare_digest\<close> of two texts refuses anything but ASCII.\<close>

definition compare_digest :: "ustring \<Rightarrow> ustring \<Rightarrow> string + bool" where
  "compare_digest a b =
    (if list_all (\<lambda>c. c < 128) a \<and> list_all (\<lambda>c. c < 128) b then Inr (a = b) else Inl ''TypeError'')"

definition accepts_login :: "ustring \<Rightarrow> credentials \<Rightarrow> string + bool" where
  "accepts_login token c = compare_digest token (access_token c)"

definition accepts_csrf :: "ustring \<Rightarrow> credentials \<Rightarrow> string + bool" where
  "accepts_csrf token c = compare_digest token (csrf_token c)"

definition activate_session :: "(nat \<Rightarrow> ustring) \<Rightarrow> int \<Rightarrow> credentials \<Rightarrow> credentials" where
  "activate_session tok now c = c\<lparr>session_token := Some (tok (token_draws c)),
     session_started_at := Some now, session_last_seen_at := Some now,
     token_draws := Suc (token_draws c)\<rparr>"

definition start_session :: "(nat \<Rightarrow> ustring) \<Rightarrow> int \<Rightarrow> credentials \<Rightarrow> credentials" where
  "start_session tok now c =
     activate_session tok now (c\<lparr>access_token := tok (token_draws c),
       capability_token := tok (Suc (token_draws c)), token_draws := Suc (Suc (token_draws c))\<rparr>)"

text \<open>The token file is replaced as a whole; when writing fails it keeps what it held.\<close>

definition write_access_token :: "bool \<Rightarrow> credentials \<Rightarrow> (string + unit) \<times> credentials" where
  "write_access_token written c =
    (if written then (Inr (), c\<lparr>published_token := Some (access_token c)\<rparr>) else (Inl ''OSError'', c))"

definition invalidate_session :: "(nat \<Rightarrow> ustring) \<Rightarrow> bool \<Rightarrow> credentials \<Rightarrow> (string + unit) \<times> credentials" where
  "invalidate_session tok written c =
     write_access_token written (c\<lparr>session_token := None, session_started_at := None,
       session_last_seen_at := None, access_token := tok (token_draws c),
       capability_token := tok (Suc (token_draws c)), token_draws := Suc (Suc (token_draws c))\<rparr>)"

definition record_activity :: "int \<Rightarrow> credentials \<Rightarrow> credentials" where
  "record_activity now c = c\<lparr>session_last_seen_at := Some now\<rparr>"

definition session_cookie_value ::
  "(ustring \<Rightarrow> (ustring \<times> ustring) list option) \<Rightarrow> ustring \<Rightarrow> ustring option" where
  "session_cookie_value cookies raw_cookie = (case cookies raw_cookie of
      None \<Rightarrow> None | Some jar \<Rightarrow> map_of jar DASHBOARD_SESSION_COOKIE)"

text \<open>\<open>has_valid_session\<close> on the value of the \<open>Cookie\<close> header, at the time \<open>now\<close>.\<close>

definition has_valid_session ::
  "(ustring \<Rightarrow> (ustring \<times> ustring) list option) \<Rightarrow> ustring \<Rightarrow> int \<Rightarrow> credentials \<Rightarrow> string + bool" where
  "has_valid_session cookies raw_cookie now c =
    (case (session_cookie_value cookies raw_cookie, session_token c, session_started_at c, session_last_seen_at c) of
       (Some token, Some current, Some started, Some seen) \<Rightarrow>
         (case compare_digest token current of
            Inl e \<Rightarrow> Inl e
          | Inr False \<Rightarrow> Inr False
          | Inr True \<Rightarrow>
              Inr (\<not> (now - seen \<ge> DASHBOARD_SESSION_IDLE_SECONDS * SECOND
                  \<or> now - started \<ge> DASHBOARD_SESSION_ABSOLUTE_SECONDS * SECOND)))
     | _ \<Rightarrow> Inr False)"

subsection \<open>Paths and headers\<close>

text \<open>\<open>path.split("/", 2)\<close>: at most three parts.\<close>

definition split_slash_twice :: "ustring \<Rightarrow> ustring list" where
  "split_slash_twice path =
    (if 47 \<notin> set path then [path]
     else let r = after_first 47 path in
       if 47 \<notin> set r then [before_first 47 path, r]
       else [before_first 47 path, before_first 47 r, after_first 47 r])"

definition logical_path :: "ustring \<Rightarrow> credentials \<Rightarrow> string + ustring option" where
  "logical_path path c =
    (let parts = split_slash_twice path;
         candidate = (if 1 < length parts then parts ! 1 else []) in
     case compare_digest candidate (capability_token c) of
       Inl e \<Rightarrow> Inl e
     | Inr False \<Rightarrow> Inr None
     | Inr True \<Rightarrow> Inr (Some (if length parts = 3 then 47 # parts ! 2 else [47])))"

definition session_cookie_header :: "credentials \<Rightarrow> ustring" where
  "session_cookie_header c =
     DASHBOARD_SESSION_COOKIE @ [61] @ (case session_token c of None \<Rightarrow> ustr ''None'' | Some t \<Rightarrow> t)
     @ ustr ''; Path=/'' @ capability_token c @ ustr ''/; Max-Age=''
     @ show_int DASHBOARD_SESSION_ABSOLUTE_SECONDS @ ustr ''; HttpOnly; SameSite=Strict''"

definition expired_session_cookie_header :: "credentials \<Rightarrow> ustring" where
  "expired_session_cookie_header c =
     DASHBOARD_SESSION_COOKIE @ ustr ''=; Path=/'' @ capability_token c
     @ ustr ''/; Max-Age=0; HttpOnly; SameSite=Strict''"

type_synonym headers = "(string \<times> ustring) list"

definition capability_headers :: "headers \<Rightarrow> credentials \<Rightarrow> headers" where
  "capability_headers hs c = (case map_of hs ''Location'' of
      None \<Rightarrow> hs
    | Some location \<Rightarrow>
        if starts_with location [47] then AList.update ''Location'' (47 # capability_token c @ location) hs
        else hs)"

text \<open>\<open>bytes.replace\<close>: every occurrence from the left, none overlapping.\<close>

function replace_all :: "'a list \<Rightarrow> 'a list \<Rightarrow> 'a list \<Rightarrow> 'a list" where
  "replace_all old new [] = []"
| "replace_all old new (c # cs) =
    (if old \<noteq> [] \<and> starts_with (c # cs) old then new @ replace_all old new (drop (length old) (c # cs))
     else c # replace_all old new cs)"
  by pat_completeness auto
termination
  by (relation "measure (\<lambda>(_, _, s). length s)") (auto simp: neq_Nil_conv)

definition capability_html :: "ustring \<Rightarrow> headers \<Rightarrow> credentials \<Rightarrow> ustring" where
  "capability_html response hs c =
    (let content_type = (case map_of hs ''Content-Type'' of None \<Rightarrow> ustr ''text/html'' | Some t \<Rightarrow> t) in
     if \<not> starts_with content_type (ustr ''text/html'') then response
     else
       let prefix = 47 # capability_token c @ [47] in
       fold (\<lambda>attribute html.
           let html = replace_all (attribute @ [61, 39, 47]) (attribute @ [61, 39] @ prefix) html
           in replace_all (attribute @ [61, 34, 47]) (attribute @ [61, 34] @ prefix) html)
         [ustr ''href'', ustr ''action'', ustr ''src''] response)"

subsection \<open>The life of a session\<close>

text \<open>What happens to the credentials of one server: a login, a logout, an answered request.\<close>

datatype session_event = SignIn int bool | SignOut bool | Activity int

fun session_step :: "(nat \<Rightarrow> ustring) \<Rightarrow> session_event \<Rightarrow> credentials \<Rightarrow> credentials" where
  "session_step tok (SignIn now written) c = snd (write_access_token written (start_session tok now c))"
| "session_step tok (SignOut written) c = snd (invalidate_session tok written c)"
| "session_step tok (Activity now) c = record_activity now c"

definition run_session :: "(nat \<Rightarrow> ustring) \<Rightarrow> session_event list \<Rightarrow> credentials" where
  "run_session tok evs = fold (session_step tok) evs (new_credentials tok)"

lemma write_access_token_fields [simp]:
  "access_token (snd (write_access_token w c)) = access_token c"
  "capability_token (snd (write_access_token w c)) = capability_token c"
  "session_token (snd (write_access_token w c)) = session_token c"
  "session_started_at (snd (write_access_token w c)) = session_started_at c"
  "session_last_seen_at (snd (write_access_token w c)) = session_last_seen_at c"
  "token_draws (snd (write_access_token w c)) = token_draws c"
  by (simp_all add: write_access_token_def)

lemmas session_defs = start_session_def activate_session_def invalidate_session_def record_activity_def

lemma run_session_snoc: "run_session tok (evs @ [e]) = session_step tok e (run_session tok evs)"
  by (simp add: run_session_def)

fun activity :: "session_event \<Rightarrow> bool" where
  "activity (Activity _) = True"
| "activity _ = False"

fun last_seen :: "int \<Rightarrow> session_event list \<Rightarrow> int" where
  "last_seen t [] = t"
| "last_seen t (Activity s # es) = last_seen s es"
| "last_seen t (_ # es) = last_seen t es"

lemma last_seen_snoc: "last_seen t (es @ [Activity s]) = s"
  by (induction t es rule: last_seen.induct) auto

text \<open>The session that is open came from a login, after which there were only requests.\<close>

lemma session_origin:
  assumes "session_token (run_session tok evs) = Some token"
  shows "\<exists>pre t w post. evs = pre @ SignIn t w # post \<and> list_all activity post
    \<and> session_started_at (run_session tok evs) = Some t
    \<and> session_last_seen_at (run_session tok evs) = Some (last_seen t post)
    \<and> token = tok (token_draws (run_session tok pre) + 2)"
  using assms
proof (induction evs rule: rev_induct)
  case Nil
  then show ?case by (simp add: run_session_def new_credentials_def)
next
  case (snoc e evs)
  show ?case
  proof (cases e)
    case (SignIn t w)
    with snoc.prems show ?thesis
      by (intro exI [of _ evs] exI [of _ t] exI [of _ w] exI [of _ "[]"])
        (auto simp: run_session_snoc session_defs)
  next
    case (SignOut w)
    with snoc.prems show ?thesis by (auto simp: run_session_snoc session_defs split: if_splits)
  next
    case (Activity s)
    with snoc.prems have "session_token (run_session tok evs) = Some token"
      by (simp add: run_session_snoc session_defs)
    from snoc.IH [OF this] obtain pre t w post where p: "evs = pre @ SignIn t w # post" "list_all activity post"
      "session_started_at (run_session tok evs) = Some t" "token = tok (token_draws (run_session tok pre) + 2)"
      by blast
    moreover have "session_started_at (run_session tok (evs @ [e])) = session_started_at (run_session tok evs)"
      and "session_last_seen_at (run_session tok (evs @ [e])) = Some (last_seen t (post @ [e]))"
      using Activity by (simp_all add: run_session_snoc session_defs last_seen_snoc)
    moreover have "evs @ [e] = pre @ SignIn t w # (post @ [e])" and "list_all activity (post @ [e])"
      using p(1,2) Activity by simp_all
    ultimately show ?thesis by metis
  qed
qed

text \<open>A request is authenticated only by the token of the latest login, if nobody signed out
  since, within thirty minutes of the latest answered request and within eight hours of that login.\<close>

theorem session_bounded:
  "case has_valid_session cookies raw_cookie now (run_session tok evs) of
     Inl e \<Rightarrow> e = ''TypeError''
   | Inr False \<Rightarrow> True
   | Inr True \<Rightarrow> (\<exists>pre t w post. evs = pre @ SignIn t w # post \<and> list_all activity post
        \<and> session_cookie_value cookies raw_cookie = Some (tok (token_draws (run_session tok pre) + 2))
        \<and> now - last_seen t post < 1800 * SECOND \<and> now - t < 28800 * SECOND)"
proof (cases "has_valid_session cookies raw_cookie now (run_session tok evs)")
  case (Inl e)
  then show ?thesis
    by (auto simp: has_valid_session_def compare_digest_def split: option.splits if_splits bool.splits)
next
  case (Inr b)
  show ?thesis
  proof (cases b)
    case True
    with Inr obtain token where "session_token (run_session tok evs) = Some token"
      and "session_cookie_value cookies raw_cookie = Some token"
      by (auto simp: has_valid_session_def compare_digest_def split: option.splits if_splits bool.splits)
    moreover obtain pre t w post where p: "evs = pre @ SignIn t w # post" "list_all activity post"
      "session_started_at (run_session tok evs) = Some t"
      "session_last_seen_at (run_session tok evs) = Some (last_seen t post)"
      "token = tok (token_draws (run_session tok pre) + 2)"
      using session_origin [OF calculation(1)] by blast
    ultimately have "now - last_seen t post < 1800 * SECOND" and "now - t < 28800 * SECOND"
      using Inr True by (auto simp: has_valid_session_def compare_digest_def
          DASHBOARD_SESSION_IDLE_SECONDS_def DASHBOARD_SESSION_ABSOLUTE_SECONDS_def split: if_splits)
    with p \<open>session_cookie_value cookies raw_cookie = Some token\<close> Inr True show ?thesis by auto
  qed (use Inr in simp)
qed

lemma draws_mono: "token_draws c \<le> token_draws (session_step tok e c)"
  by (cases e) (auto simp: session_defs)

lemma draws_run_mono: "token_draws (fold (session_step tok) es c) \<ge> token_draws c"
  by (induction es arbitrary: c) (auto intro: order_trans [OF draws_mono])

text \<open>The tokens that open something: the access token, the capability and the session token, if there
  is a session. They were drawn, and a login or a logout replaces all of them by later draws.\<close>

definition in_force :: "credentials \<Rightarrow> ustring set" where
  "in_force c = {access_token c, capability_token c} \<union> set_option (session_token c)"

lemma in_force_step:
  "in_force (session_step tok e c) \<subseteq> in_force c \<union> tok ` {token_draws c ..< token_draws (session_step tok e c)}"
  by (cases e) (auto simp: in_force_def session_defs)

lemma in_force_replaced:
  "\<not> activity e \<Longrightarrow> in_force (session_step tok e c) \<subseteq> tok ` {token_draws c ..}"
  by (cases e) (auto simp: in_force_def session_defs)

lemma in_force_drawn: "in_force (run_session tok evs) \<subseteq> tok ` {..< token_draws (run_session tok evs)}"
proof (induction evs rule: rev_induct)
  case Nil
  show ?case by (auto simp: run_session_def new_credentials_def in_force_def)
next
  case (snoc e evs)
  let ?c = "run_session tok evs"
  have "tok ` {..< token_draws ?c} \<union> tok ` {token_draws ?c ..< token_draws (session_step tok e ?c)}
      \<subseteq> tok ` {..< token_draws (session_step tok e ?c)}"
    using draws_mono [of ?c tok e] by auto
  with snoc.IH in_force_step [of tok e ?c] show ?case by (simp only: run_session_snoc) blast
qed

lemma in_force_later:
  assumes "in_force c \<subseteq> tok ` {n ..}" and "n \<le> token_draws c"
  shows "in_force (fold (session_step tok) es c) \<subseteq> tok ` {n ..}"
  using assms
proof (induction es arbitrary: c)
  case (Cons e es)
  have "tok ` {token_draws c ..< token_draws (session_step tok e c)} \<subseteq> tok ` {n ..}"
    using Cons.prems(2) by auto
  with in_force_step [of tok e c] Cons.prems(1) have "in_force (session_step tok e c) \<subseteq> tok ` {n ..}" by blast
  with Cons.prems(2) draws_mono [of c tok e] show ?case using Cons.IH [of "session_step tok e c"] by simp
qed simp

lemma replaced_tokens:
  assumes "inj tok" and "\<not> activity e"
  shows "in_force (run_session tok evs) \<inter> in_force (run_session tok (evs @ e # rest)) = {}"
proof -
  let ?c = "run_session tok evs" and ?n = "token_draws (run_session tok evs)"
  have run: "run_session tok (evs @ e # rest) = fold (session_step tok) rest (session_step tok e ?c)"
    by (simp add: run_session_def)
  have "in_force (fold (session_step tok) rest (session_step tok e ?c)) \<subseteq> tok ` {?n ..}"
    by (intro in_force_later in_force_replaced [OF assms(2)] draws_mono)
  moreover have "tok ` {..< ?n} \<inter> tok ` {?n ..} = {}"
    using assms(1) by (auto simp: inj_eq)
  ultimately show ?thesis
    unfolding run using Int_mono [OF in_force_drawn [of tok evs]] by (metis subset_empty)
qed

text \<open>The random tokens are drawn with \<open>secrets.token_urlsafe\<close>: ASCII without a slash.\<close>

definition url_safe :: "ustring \<Rightarrow> bool" where
  "url_safe t \<longleftrightarrow> list_all (\<lambda>c. c < 128 \<and> c \<noteq> 47) t"

lemma compare_url_safe: "url_safe a \<Longrightarrow> url_safe b \<Longrightarrow> compare_digest a b = Inr (a = b)"
  by (auto simp: compare_digest_def url_safe_def list_all_iff)

lemma in_force_url_safe:
  assumes "\<forall>n. url_safe (tok n)" and "t \<in> in_force (run_session tok evs)"
  shows "url_safe t"
  using in_force_drawn [of tok evs] assms by auto

lemma tokens_in_force [intro]:
  "access_token c \<in> in_force c" "capability_token c \<in> in_force c"
  "session_token c = Some t \<Longrightarrow> t \<in> in_force c"
  by (simp_all add: in_force_def)

lemma split_capability:
  "47 \<notin> set t \<Longrightarrow> split_slash_twice (47 # t @ 47 # path) = [[], t, path]"
  by (simp add: split_slash_twice_def before_first_def after_first_def takeWhile_append dropWhile_append)

text \<open>C36. A login and a logout, whether or not the token file can be written, put an end to every
  token of before: whatever happens afterwards, the old access token does not log in, the old capability
  leads to no path, and the old session cookie is not a valid session. The random tokens are taken to
  differ.\<close>

theorem tokens_never_return:
  assumes "inj tok" and "\<forall>n. url_safe (tok n)" and "\<not> activity e"
  shows "accepts_login (access_token (run_session tok evs)) (run_session tok (evs @ e # rest)) = Inr False
    \<and> logical_path (47 # capability_token (run_session tok evs) @ 47 # path)
        (run_session tok (evs @ e # rest)) = Inr None
    \<and> (session_cookie_value cookies raw_cookie = session_token (run_session tok evs)
        \<longrightarrow> has_valid_session cookies raw_cookie now (run_session tok (evs @ e # rest)) = Inr False)"
proof -
  let ?old = "run_session tok evs" and ?new = "run_session tok (evs @ e # rest)"
  note safe = in_force_url_safe [OF assms(2)] and gone = replaced_tokens [OF assms(1,3), of evs rest]
  have differ: "compare_digest a b = Inr False" if "a \<in> in_force ?old" "b \<in> in_force ?new" for a b
    using compare_url_safe [OF safe [OF that(1)] safe [OF that(2)]] gone that by auto
  have "47 \<notin> set (capability_token ?old)"
    using safe [of "capability_token ?old" evs] by (auto simp: url_safe_def list_all_iff)
  then have "logical_path (47 # capability_token ?old @ 47 # path) ?new = Inr None"
    by (simp add: logical_path_def split_capability differ tokens_in_force)
  moreover have "accepts_login (access_token ?old) ?new = Inr False"
    by (simp add: accepts_login_def differ tokens_in_force)
  moreover have "has_valid_session cookies raw_cookie now ?new = Inr False"
    if cookie: "session_cookie_value cookies raw_cookie = session_token ?old"
  proof (cases "session_token ?old = None \<or> session_token ?new = None")
    case False
    then obtain t u where "session_token ?old = Some t" "session_token ?new = Some u" by auto
    moreover from this have "compare_digest t u = Inr False" by (intro differ tokens_in_force)
    ultimately show ?thesis by (simp add: has_valid_session_def cookie split: option.split)
  qed (auto simp: has_valid_session_def cookie split: option.split)
  ultimately show ?thesis by blast
qed

lemma tokens_never_return_witness:
  "accepts_login (access_token (run_session (\<lambda>n. replicate n 65) [SignIn 7 True]))
       (run_session (\<lambda>n. replicate n 65) ([SignIn 7 True] @ SignOut False # [SignIn 8 True, Activity 9])) = Inr False
   \<and> logical_path (47 # capability_token (run_session (\<lambda>n. replicate n 65) [SignIn 7 True]) @ 47 # [99])
       (run_session (\<lambda>n. replicate n 65) ([SignIn 7 True] @ SignOut False # [SignIn 8 True, Activity 9])) = Inr None
   \<and> has_valid_session (\<lambda>_. Some [(DASHBOARD_SESSION_COOKIE, replicate 5 65)]) [] 10
       (run_session (\<lambda>n. replicate n 65) ([SignIn 7 True] @ SignOut False # [SignIn 8 True, Activity 9])) = Inr False"
proof -
  have "inj (\<lambda>n. replicate n (65::nat))" by (rule injI) (metis length_replicate)
  moreover have "\<forall>n. url_safe (replicate n 65)" by (simp add: url_safe_def list_all_iff)
  moreover have "\<not> activity (SignOut False)" by simp
  moreover have "session_cookie_value (\<lambda>_. Some [(DASHBOARD_SESSION_COOKIE, replicate 5 65)]) []
      = session_token (run_session (\<lambda>n. replicate n 65) [SignIn 7 True])"
    by (simp add: run_session_def session_defs new_credentials_def session_cookie_value_def)
  ultimately show ?thesis using tokens_never_return by blast
qed

text \<open>A link that the server prefixed with the capability leads back to the path it stood for.\<close>

theorem capability_round_trip:
  assumes "list_all (\<lambda>c. c < 128) (capability_token c)" and "47 \<notin> set (capability_token c)"
    and "map_of hs ''Location'' = Some (47 # path)"
  shows "case map_of (capability_headers hs c) ''Location'' of
      None \<Rightarrow> False | Some location \<Rightarrow> logical_path location c = Inr (Some (47 # path))"
proof -
  let ?cap = "capability_token c"
  have tw: "before_first 47 (?cap @ 47 # path) = ?cap" and dw: "after_first 47 (?cap @ 47 # path) = path"
    using assms(2) by (auto simp: before_first_def after_first_def takeWhile_append dropWhile_append)
  have "split_slash_twice (47 # ?cap @ 47 # path) = [[], ?cap, path]"
    using tw dw by (simp add: split_slash_twice_def before_first_def [of 47 "47 # _"] after_first_def [of 47 "47 # _"])
  then show ?thesis
    using assms by (simp add: capability_headers_def starts_with_def logical_path_def compare_digest_def update_conv')
qed

lemma capability_round_trip_witness:
  "case map_of (capability_headers [(''Location'', [47, 99])] (new_credentials (\<lambda>n. [65, 66]))) ''Location'' of
      None \<Rightarrow> False
    | Some location \<Rightarrow> logical_path location (new_credentials (\<lambda>n. [65, 66])) = Inr (Some [47, 99])"
  by (rule capability_round_trip) (simp_all add: new_credentials_def)

text \<open>A token with a character outside ASCII is not refused: the comparison raises, for the
  login, the CSRF check and the capability in the path alike.\<close>

theorem non_ascii_token_raises:
  assumes "c \<in> set token" and "128 \<le> c" and "47 \<notin> set token"
  shows "accepts_login token creds = Inl ''TypeError'' \<and> accepts_csrf token creds = Inl ''TypeError''
    \<and> logical_path (47 # token) creds = Inl ''TypeError''"
proof -
  have bad: "\<not> list_all (\<lambda>c. c < 128) token" using assms(1,2) by (auto simp: list_all_iff intro!: bexI [of _ c])
  have "split_slash_twice (47 # token) = [[], token]"
    using assms(3) by (simp add: split_slash_twice_def before_first_def after_first_def)
  with bad show ?thesis by (simp add: accepts_login_def accepts_csrf_def logical_path_def compare_digest_def)
qed

lemma non_ascii_token_raises_witness:
  "accepts_login [233] (new_credentials (\<lambda>n. [65])) = Inl ''TypeError''"
  using non_ascii_token_raises [of 233 "[233]"] by simp

end
