(* ===== verification/Runs.thy ===== *)
theory Runs
  imports Service_Core
begin

text \<open>
  Programs over any state, and relations that their runs keep: \<open>stays R m\<close> holds when the states
  before and after \<open>m\<close> are related by \<open>R\<close> whatever \<open>m\<close> returns or raises. The locale states the rules of
  the combinators for a preorder \<open>R\<close>; the core process and the dashboard's HTTP server use them.
\<close>

definition get_run :: "('w \<Rightarrow> 'a) \<Rightarrow> ('a, 'w) prog_on" where
  "get_run f c = (Inr (f c), c)"

definition put_run :: "('w \<Rightarrow> 'w) \<Rightarrow> (unit, 'w) prog_on" where
  "put_run f c = (Inr (), f c)"

definition stays :: "('w \<Rightarrow> 'w \<Rightarrow> bool) \<Rightarrow> ('a, 'w) prog_on \<Rightarrow> bool" where
  "stays R m \<longleftrightarrow> (\<forall>c. R c (snd (m c)))"

lemma staysD: "stays R m \<Longrightarrow> R c (snd (m c))"
  by (simp add: stays_def)

locale run_relation =
  fixes R :: "'w \<Rightarrow> 'w \<Rightarrow> bool"
  assumes R_refl: "R c c"
    and R_trans: "R a b \<Longrightarrow> R b c \<Longrightarrow> R a c"
begin

lemma run_ret: "stays R (ret x)"
  by (simp add: stays_def ret_def R_refl)

lemma run_raise: "stays R (raise_exn e)"
  by (simp add: stays_def raise_exn_def R_refl)

lemma get_run: "stays R (get_run f)"
  by (simp add: stays_def get_run_def R_refl)

lemma run_bind:
  assumes "stays R m" and "\<And>x. stays R (f x)"
  shows "stays R (bind_prog m f)"
  unfolding stays_def
proof
  fix c
  obtain r c' where m: "m c = (r, c')" by fastforce
  with assms(1) have "R c c'" using staysD [of R m c] by simp
  with assms(2) m show "R c (snd (bind_prog m f c))"
    by (cases r) (auto simp: bind_prog_def intro: R_trans staysD)
qed

lemma run_then: "stays R m \<Longrightarrow> stays R n \<Longrightarrow> stays R (then_prog m n)"
  unfolding then_prog_def by (rule run_bind)

lemma run_try:
  assumes "stays R m" and "stays R h"
  shows "stays R (try_except m h)"
  unfolding stays_def
proof
  fix c
  obtain r c' where m: "m c = (r, c')" by fastforce
  with assms(1) have "R c c'" using staysD [of R m c] by simp
  with assms(2) m show "R c (snd (try_except m h c))"
    by (cases r) (auto simp: try_except_def intro: R_trans staysD)
qed

lemma run_need: "stays R (need e x)" "stays R (need_sum y)"
  by (simp_all add: need_def need_sum_def run_ret run_raise split: option.split sum.split)

lemma run_if:
  "(b \<Longrightarrow> stays R m) \<Longrightarrow> (\<not> b \<Longrightarrow> stays R n) \<Longrightarrow> stays R (if b then m else n)"
  by simp

lemma run_case_option:
  "(x = None \<Longrightarrow> stays R m) \<Longrightarrow> (\<And>y. x = Some y \<Longrightarrow> stays R (f y))
   \<Longrightarrow> stays R (case x of None \<Rightarrow> m | Some y \<Rightarrow> f y)"
  by (cases x) auto

lemma run_case_sum:
  "(\<And>a. x = Inl a \<Longrightarrow> stays R (f a)) \<Longrightarrow> (\<And>b. x = Inr b \<Longrightarrow> stays R (g b))
   \<Longrightarrow> stays R (case x of Inl a \<Rightarrow> f a | Inr b \<Rightarrow> g b)"
  by (cases x) auto

lemma run_attempt: "stays R m \<Longrightarrow> stays R (attempt m)"
  by (simp add: stays_def attempt_def)

lemma run_case_prod:
  "(\<And>a b. x = (a, b) \<Longrightarrow> stays R (f a b)) \<Longrightarrow> stays R (case x of (a, b) \<Rightarrow> f a b)"
  by (cases x) auto

lemma run_Let: "stays R (f x) \<Longrightarrow> stays R (let y = x in f y)"
  by simp

lemmas run_control = run_ret run_raise get_run run_bind run_then run_try run_need run_if
  run_case_option run_case_sum run_case_prod run_Let run_attempt

end

end
