(* ===== verification/Core.thy ===== *)
theory Core
  imports Adapter Session Runs
begin

text \<open>
  The state of the running core process that the dashboard backend and the operator controls share:
  the world of the service, the backend's identity cache (\<open>OrderedDict\<close>, oldest first), the
  operator's case controls and handled commands, and the monotonic clock, in nanoseconds. Requests
  and commands run one after another; what other tasks do to the database while a handler waits
  for a sender's lock is the next of \<open>co_meanwhile\<close>.
\<close>

record identity =
  id_user_id :: int
  id_name :: "ustring option"
  id_username :: "ustring option"

record core =
  co_world :: world
  co_identities :: "(sender_key \<times> int \<times> identity) list"
  co_controls :: "(int \<times> sender_key \<times> int) list"
  co_handled :: "(int \<times> int) list"
  co_artifacts :: "int list"
  co_wakeup :: bool
  co_monotonic :: "nat \<Rightarrow> int"
  co_readings :: nat
  co_meanwhile :: "nat \<Rightarrow> store \<Rightarrow> store"
  co_waits :: nat

type_synonym 'a core_prog = "('a, core) prog_on"

definition on_world :: "'a prog \<Rightarrow> 'a core_prog" where
  "on_world m c = (fst (m (co_world c)), c\<lparr>co_world := snd (m (co_world c))\<rparr>)"

text \<open>\<open>time.monotonic()\<close>.\<close>

definition monotonic :: "int core_prog" where
  "monotonic c = (Inr (co_monotonic c (co_readings c)), c\<lparr>co_readings := Suc (co_readings c)\<rparr>)"

text \<open>\<open>async with sender_lock(key)\<close>: the others run until the lock is free.\<close>

definition await_lock :: "unit core_prog" where
  "await_lock c = (Inr (), c\<lparr>co_world := (co_world c)\<lparr>db := co_meanwhile c (co_waits c) (db (co_world c))\<rparr>,
     co_waits := Suc (co_waits c)\<rparr>)"

abbreviation core_db :: "core \<Rightarrow> store" where
  "core_db c \<equiv> db (co_world c)"

text \<open>A method of the store, and one that reads the clock because no \<open>now\<close> is passed.\<close>

definition ask :: "(store \<Rightarrow> 'a) \<Rightarrow> 'a core_prog" where
  "ask f = on_world (query f)"

definition ask_now :: "(int \<Rightarrow> store \<Rightarrow> 'a) \<Rightarrow> 'a core_prog" where
  "ask_now f = on_world (bind_prog read_clock (\<lambda>now. query (f now)))"

definition time_now :: "int core_prog" where
  "time_now = on_world read_clock"

definition update_now :: "(int \<Rightarrow> store \<Rightarrow> store) \<Rightarrow> unit core_prog" where
  "update_now f = on_world (bind_prog read_clock (\<lambda>now. change (f now)))"

definition transact_now :: "(int \<Rightarrow> store \<Rightarrow> 'a \<times> store) \<Rightarrow> 'a core_prog" where
  "transact_now f = on_world (bind_prog read_clock (\<lambda>now. transact (f now)))"

text \<open>\<open>RestrictionActions.allow\<close>, which takes the lock itself.\<close>

definition allow_locked :: "gatekeeper \<Rightarrow> sender_key \<Rightarrow> release_result core_prog" where
  "allow_locked g k = then_prog await_lock (on_world (allow_restricted g k))"

lemmas core_defs = on_world_def get_run_def put_run_def monotonic_def await_lock_def ask_def
  ask_now_def time_now_def update_now_def transact_now_def

end
