(* ===== verification/Py_Form.thy ===== *)
theory Py_Form
  imports Py_Codec Py_Url
begin

text \<open>
  \<open>int\<close> of a text, and the rest of \<open>urllib.parse\<close> the dashboard uses: percent-decoding with the
  replacement character for bytes that are not UTF-8, \<open>parse_qs\<close>, and \<open>urlunsplit\<close>. \<open>nd\<close> is the
  decimal value of a digit outside ASCII, a Unicode table.
\<close>

subsection \<open>\<open>int\<close> of a text\<close>

definition decimal_digit :: "(nat \<Rightarrow> nat option) \<Rightarrow> nat \<Rightarrow> nat option" where
  "decimal_digit nd c = (if is_digit c then Some (c - 48) else if c < 128 then None else nd c)"

definition int_body :: "(nat \<Rightarrow> nat option) \<Rightarrow> ustring \<Rightarrow> nat option" where
  "int_body nd body =
    (let groups = split_on 95 body [] in
     if list_all (\<lambda>g. g \<noteq> [] \<and> list_all (\<lambda>c. decimal_digit nd c \<noteq> None) g) groups
        \<and> length (concat groups) \<le> MAX_INT_DIGITS
     then Some (foldl (\<lambda>n c. 10 * n + (case decimal_digit nd c of Some d \<Rightarrow> d | None \<Rightarrow> 0)) 0 (concat groups))
     else None)"

definition py_int :: "(nat \<Rightarrow> nat option) \<Rightarrow> ustring \<Rightarrow> int option" where
  "py_int nd raw = (case strip raw of
      [] \<Rightarrow> None
    | c # r \<Rightarrow>
        if c = 45 then map_option (\<lambda>n. - int n) (int_body nd r)
        else if c = 43 then map_option int (int_body nd r)
        else map_option int (int_body nd (c # r)))"

subsection \<open>Percent-decoding\<close>

fun unquote_to_bytes :: "ustring \<Rightarrow> nat list" where
  "unquote_to_bytes [] = []"
| "unquote_to_bytes (c # cs) =
    (case cs of
       a # b # r \<Rightarrow> (case (c = 37, hex_val a, hex_val b) of
           (True, Some x, Some y) \<Rightarrow> (16 * x + y) # unquote_to_bytes r
         | _ \<Rightarrow> c # unquote_to_bytes cs)
     | _ \<Rightarrow> c # unquote_to_bytes cs)"

text \<open>
  How many continuation bytes a lead byte wants, and the range of the first of them. Decoding with
  \<open>errors="replace"\<close> writes U+FFFD for each maximal prefix of a well-formed sequence that breaks off.
\<close>

definition lead_byte :: "nat \<Rightarrow> (nat \<times> nat \<times> nat) option" where
  "lead_byte b =
    (if 194 \<le> b \<and> b \<le> 223 then Some (1, 128, 191)
     else if b = 224 then Some (2, 160, 191)
     else if b = 237 then Some (2, 128, 159)
     else if 225 \<le> b \<and> b \<le> 239 then Some (2, 128, 191)
     else if b = 240 then Some (3, 144, 191)
     else if b = 244 then Some (3, 128, 143)
     else if 241 \<le> b \<and> b \<le> 243 then Some (3, 128, 191)
     else None)"

definition good_prefix :: "nat \<Rightarrow> nat \<Rightarrow> nat \<Rightarrow> nat list \<Rightarrow> nat" where
  "good_prefix n lo hi r = (case r of
      [] \<Rightarrow> 0
    | c # cs \<Rightarrow> if lo \<le> c \<and> c \<le> hi then Suc (length (takeWhile is_cont (take (n - 1) cs))) else 0)"

function utf8_replace :: "nat list \<Rightarrow> ustring" where
  "utf8_replace [] = []"
| "utf8_replace (b # r) =
    (if b < 128 then b # utf8_replace r
     else case lead_byte b of
       None \<Rightarrow> 65533 # utf8_replace r
     | Some (n, lo, hi) \<Rightarrow>
         (let k = good_prefix n lo hi r in
          if k = n
          then (case utf8_units False (b # take n r) of Some s \<Rightarrow> s | None \<Rightarrow> [65533]) @ utf8_replace (drop n r)
          else 65533 # utf8_replace (drop k r)))"
  by pat_completeness auto
termination
  by (relation "measure length") auto

text \<open>\<open>unquote\<close>: every maximal run of ASCII characters on its own.\<close>

function unquote :: "ustring \<Rightarrow> ustring" where
  "unquote [] = []"
| "unquote (c # cs) =
    (if c < 128
     then utf8_replace (unquote_to_bytes (takeWhile (\<lambda>x. x < 128) (c # cs)))
          @ unquote (dropWhile (\<lambda>x. x < 128) (c # cs))
     else c # unquote cs)"
  by pat_completeness auto
termination
  by (relation "measure length") (auto simp: less_Suc_eq_le length_dropWhile_le)

definition unquote_plus :: "ustring \<Rightarrow> ustring" where
  "unquote_plus s = unquote (map (\<lambda>c. if c = 43 then 32 else c) s)"

subsection \<open>Query strings\<close>

text \<open>\<open>parse_qs(qs, strict_parsing=strict)\<close>; None is the \<open>ValueError\<close> of a field without \<open>=\<close>.\<close>

fun query_fields :: "bool \<Rightarrow> ustring list \<Rightarrow> (ustring \<times> ustring) list option" where
  "query_fields strict [] = Some []"
| "query_fields strict (f # fs) =
    (if strict \<and> 61 \<notin> set f then None
     else map_option
       (\<lambda>rest. (if after_first 61 f \<noteq> []
                then [(unquote_plus (before_first 61 f), unquote_plus (after_first 61 f))] else []) @ rest)
       (query_fields strict fs))"

definition parse_qs :: "bool \<Rightarrow> ustring \<Rightarrow> (ustring \<times> ustring) list option" where
  "parse_qs strict qs = (if qs = [] then Some [] else query_fields strict (split_on 38 qs []))"

text \<open>\<open>values.get(name, [default])[0]\<close>: the first value.\<close>

definition first_value :: "string \<Rightarrow> (ustring \<times> ustring) list \<Rightarrow> ustring option" where
  "first_value name pairs = map_of pairs (ustr name)"

text \<open>\<open>urlunsplit\<close>; only the schemes in \<open>with_netloc\<close> get slashes for an absent network location.\<close>

definition urlunsplit :: "(ustring \<Rightarrow> bool) \<Rightarrow> split_url \<Rightarrow> ustring" where
  "urlunsplit with_netloc p =
    (let url = url_path p;
         url = (if url_netloc p \<noteq> [] then [47, 47] @ url_netloc p @ (if url \<noteq> [] \<and> take 1 url \<noteq> [47] then 47 # url else url)
                else if take 2 url = [47, 47] then [47, 47] @ url
                else if url_scheme p \<noteq> [] \<and> with_netloc (url_scheme p) \<and> (url = [] \<or> take 1 url = [47]) then [47, 47] @ url
                else url);
         url = (if url_scheme p \<noteq> [] then url_scheme p @ [58] @ url else url);
         url = (if url_query p \<noteq> [] then url @ [63] @ url_query p else url)
     in if url_fragment p \<noteq> [] then url @ [35] @ url_fragment p else url)"

end
