(* ===== verification/Config.thy ===== *)
theory Config
  imports Crypto Adapter Py_Form
begin

text \<open>
  \<open>config.py\<close> and the start-up of \<open>main.py\<close>: the environment as a map from names to texts, private
  files with their kind and mode, the bounded integers, and the settings. Paths are compared as \<open>pathlib\<close> compares them.
\<close>

type_synonym environment = "string \<Rightarrow> ustring option"

definition env_get :: "environment \<Rightarrow> string \<Rightarrow> ustring \<Rightarrow> ustring" where
  "env_get env name dflt = (case env name of None \<Rightarrow> dflt | Some v \<Rightarrow> v)"

subsection \<open>Settings of the environment\<close>

definition required :: "environment \<Rightarrow> string \<Rightarrow> exn + ustring" where
  "required env name =
    (let v = strip (env_get env name []) in
     if v = [] \<or> starts_with v (ustr ''REPLACE_WITH_'') then Inl ''ConfigurationError'' else Inr v)"

definition integer_setting :: "(nat \<Rightarrow> nat option) \<Rightarrow> ustring \<Rightarrow> exn + int" where
  "integer_setting nd raw = (case py_int nd raw of None \<Rightarrow> Inl ''ConfigurationError'' | Some i \<Rightarrow> Inr i)"

definition check_setting :: "(int \<Rightarrow> bool) \<Rightarrow> exn + int \<Rightarrow> exn + int" where
  "check_setting ok r = (case r of
      Inl e \<Rightarrow> Inl e | Inr i \<Rightarrow> if ok i then Inr i else Inl ''ConfigurationError'')"

definition positive_int :: "(nat \<Rightarrow> nat option) \<Rightarrow> environment \<Rightarrow> string \<Rightarrow> int \<Rightarrow> exn + int" where
  "positive_int nd env name dflt =
     check_setting (\<lambda>i. 0 < i) (integer_setting nd (env_get env name (show_int dflt)))"

definition bounded_int :: "(nat \<Rightarrow> nat option) \<Rightarrow> environment \<Rightarrow> string \<Rightarrow> int \<Rightarrow> int \<Rightarrow> int \<Rightarrow> exn + int" where
  "bounded_int nd env name dflt lo hi =
     check_setting (\<lambda>i. lo \<le> i \<and> i \<le> hi) (positive_int nd env name dflt)"

definition bounded_nonnegative_int ::
  "(nat \<Rightarrow> nat option) \<Rightarrow> environment \<Rightarrow> string \<Rightarrow> int \<Rightarrow> int \<Rightarrow> int \<Rightarrow> exn + int" where
  "bounded_nonnegative_int nd env name dflt lo hi =
     check_setting (\<lambda>i. lo \<le> i \<and> i \<le> hi) (integer_setting nd (env_get env name (show_int dflt)))"

definition optional_positive_int :: "(nat \<Rightarrow> nat option) \<Rightarrow> environment \<Rightarrow> string \<Rightarrow> exn + int option" where
  "optional_positive_int nd env name =
    (let raw = strip (env_get env name []) in
     if raw = [] then Inr None
     else (case check_setting (\<lambda>i. 0 < i) (integer_setting nd raw) of Inl e \<Rightarrow> Inl e | Inr i \<Rightarrow> Inr (Some i)))"

definition optional_bounded_int ::
  "(nat \<Rightarrow> nat option) \<Rightarrow> environment \<Rightarrow> string \<Rightarrow> int \<Rightarrow> int \<Rightarrow> exn + int option" where
  "optional_bounded_int nd env name lo hi = (case optional_positive_int nd env name of
      Inl e \<Rightarrow> Inl e
    | Inr None \<Rightarrow> Inr None
    | Inr (Some i) \<Rightarrow> if lo \<le> i \<and> i \<le> hi then Inr (Some i) else Inl ''ConfigurationError'')"

definition boolean :: "unicode \<Rightarrow> environment \<Rightarrow> string \<Rightarrow> bool \<Rightarrow> exn + bool" where
  "boolean u env name dflt =
    (let raw = casefold u (strip (env_get env name (if dflt then ustr ''true'' else ustr ''false''))) in
     if raw = ustr ''true'' then Inr True
     else if raw = ustr ''false'' then Inr False
     else Inl ''ConfigurationError'')"

subsection \<open>Private files\<close>

datatype file_kind = RegularFile | SymbolicLink | OtherFile

record private_file =
  pf_kind :: file_kind
  pf_mode :: nat
  pf_bytes :: "blob option"

text \<open>A missing entry is a failing \<open>lstat\<close>, missing bytes a failing read. \<open>mode & 0o077\<close> is the
  remainder by 64.\<close>

type_synonym file_system = "ustring \<Rightarrow> private_file option"

definition byte_space :: "8 word \<Rightarrow> bool" where
  "byte_space b \<longleftrightarrow> b = 32 \<or> (9 \<le> b \<and> b \<le> 13)"

definition strip_bytes :: "blob \<Rightarrow> blob" where
  "strip_bytes b = rev (dropWhile byte_space (rev (dropWhile byte_space b)))"

definition read_private_file :: "file_system \<Rightarrow> ustring \<Rightarrow> nat \<Rightarrow> bool \<Rightarrow> exn + blob" where
  "read_private_file fs path minimum_bytes strip_it = (case fs path of
      None \<Rightarrow> Inl ''PrivateFileError''
    | Some f \<Rightarrow>
        if pf_kind f \<noteq> RegularFile then Inl ''PrivateFileError''
        else if pf_mode f mod 64 \<noteq> 0 then Inl ''PrivateFileError''
        else (case pf_bytes f of
            None \<Rightarrow> Inl ''PrivateFileError''
          | Some raw \<Rightarrow>
              (let value = (if strip_it then strip_bytes raw else raw) in
               if length value < minimum_bytes then Inl ''PrivateFileError'' else Inr value)))"

definition read_api_hash :: "file_system \<Rightarrow> ustring \<Rightarrow> exn + ustring" where
  "read_api_hash fs path = (case read_private_file fs path 1 True of
      Inl e \<Rightarrow> Inl e
    | Inr value \<Rightarrow> (case ascii_decode value of
          None \<Rightarrow> Inl ''PrivateFileError''
        | Some api_hash \<Rightarrow>
            if length api_hash = 32 \<and> list_all (\<lambda>c. hex_val c \<noteq> None) api_hash then Inr api_hash
            else Inl ''PrivateFileError''))"

subsection \<open>Settings\<close>

text \<open>\<open>Path(text)\<close> up to equality: the root (two slashes are a root of their own) and the parts.\<close>

definition pure_path :: "ustring \<Rightarrow> ustring \<times> ustring list" where
  "pure_path s =
    ((if starts_with s [47, 47] \<and> \<not> starts_with s [47, 47, 47] then [47, 47]
      else if starts_with s [47] then [47] else []),
     filter (\<lambda>p. p \<noteq> [] \<and> p \<noteq> [46]) (split_on 47 s []))"

record settings =
  api_id :: int
  api_hash_file :: ustring
  database_path :: ustring
  session_file :: ustring
  hmac_key_file :: ustring
  denylist_file :: "ustring option"
  challenge_ttl_seconds :: int
  challenge_max_attempts :: int
  audit_retention_days :: int
  set_pending_review_retention_days :: int
  active_case_retention_days :: int
  archived_restriction_retention_days :: "int option"
  dashboard_rpc_socket_path :: ustring
  mute_days :: int
  outbound_limit_per_hour :: int
  outbound_notice_reserve_per_hour :: int
  outbound_notice_limit_per_sender_per_hour :: int
  telegram_operator_controls_enabled :: bool
  set_test_sender_id :: "int option"
  review_key_file :: ustring

definition from_environment ::
  "(nat \<Rightarrow> nat option) \<Rightarrow> unicode \<Rightarrow> environment \<Rightarrow> bool \<Rightarrow> exn + settings" where
  "from_environment nd u env require_telegram =
    (if env ''TG_API_HASH'' \<noteq> None then Inl ''ConfigurationError''
     else
       then_sum (if require_telegram then required env ''TG_API_ID''
                 else Inr (env_get env ''TG_API_ID'' (ustr ''1''))) (\<lambda>raw_api_id.
       then_sum (integer_setting nd raw_api_id) (\<lambda>api.
       let denylist = strip (env_get env ''TG_DENYLIST_FILE'' []) in
       then_sum (bounded_int nd env ''TG_OUTBOUND_LIMIT_PER_HOUR'' 10 1 100) (\<lambda>outbound_limit.
       then_sum (bounded_int nd env ''TG_CHALLENGE_TTL_SECONDS'' 60 30 600) (\<lambda>ttl.
       then_sum (bounded_int nd env ''TG_CHALLENGE_MAX_ATTEMPTS'' 2 1 5) (\<lambda>max_attempts.
       then_sum (positive_int nd env ''TG_AUDIT_RETENTION_DAYS'' 30) (\<lambda>audit_days.
       then_sum (bounded_int nd env ''TG_PENDING_REVIEW_RETENTION_DAYS'' 7 1 7) (\<lambda>review_days.
       then_sum (bounded_int nd env ''TG_ACTIVE_CASE_RETENTION_DAYS'' 30 1 30) (\<lambda>case_days.
       then_sum (optional_bounded_int nd env ''TG_ARCHIVED_RESTRICTION_RETENTION_DAYS'' 30 3650) (\<lambda>archived.
       then_sum (positive_int nd env ''TG_MUTE_DAYS'' 3650) (\<lambda>mute.
       then_sum (bounded_nonnegative_int nd env ''TG_OUTBOUND_NOTICE_RESERVE_PER_HOUR''
           (min 3 (outbound_limit - 1)) 0 (outbound_limit - 1)) (\<lambda>reserve.
       then_sum (bounded_int nd env ''TG_OUTBOUND_NOTICE_LIMIT_PER_SENDER_PER_HOUR'' 3 1 100) (\<lambda>per_sender.
       then_sum (boolean u env ''TG_TELEGRAM_OPERATOR_CONTROLS_ENABLED'' False) (\<lambda>controls.
       then_sum (optional_positive_int nd env ''TG_TEST_SENDER_ID'') (\<lambda>test_id.
       let s = \<lparr>api_id = api,
           api_hash_file = env_get env ''TG_API_HASH_FILE'' (ustr ''/run/secrets/telegram_api_hash''),
           database_path = env_get env ''TG_DB_PATH'' (ustr ''/var/lib/tg-pm-gatekeeper/state.sqlite3''),
           session_file = env_get env ''TG_SESSION_FILE'' (ustr ''/run/secrets/telegram_session''),
           hmac_key_file = env_get env ''TG_HMAC_KEY_FILE'' (ustr ''/run/secrets/hmac_key''),
           denylist_file = (if denylist \<noteq> [] then Some denylist else None),
           challenge_ttl_seconds = ttl, challenge_max_attempts = max_attempts,
           audit_retention_days = audit_days, set_pending_review_retention_days = review_days,
           active_case_retention_days = case_days, archived_restriction_retention_days = archived,
           dashboard_rpc_socket_path =
             env_get env ''TG_DASHBOARD_RPC_SOCKET_PATH'' (ustr ''/run/tg-pm-gatekeeper/core.sock''),
           mute_days = mute, outbound_limit_per_hour = outbound_limit,
           outbound_notice_reserve_per_hour = reserve,
           outbound_notice_limit_per_sender_per_hour = per_sender,
           telegram_operator_controls_enabled = controls, set_test_sender_id = test_id,
           review_key_file = env_get env ''TG_REVIEW_KEY_FILE'' (ustr ''/run/secrets/review_key'')\<rparr> in
       if length (remdups (map pure_path
            [api_hash_file s, session_file s, hmac_key_file s, review_key_file s])) \<noteq> 4
       then Inl ''ConfigurationError''
       else Inr s)))))))))))))))"

subsection \<open>Start-up\<close>

text \<open>
  \<open>async_main\<close> up to the adapter: the settings, the state key, the database, the review key, the
  denylist and the service. \<open>texts\<close> reads the denylist file: None when it is no regular file,
  \<open>Some None\<close> when it is not UTF-8. \<open>dbfile\<close> is what the database file holds.
\<close>

definition read_denylist :: "unicode \<Rightarrow> (ustring \<Rightarrow> ustring option option) \<Rightarrow> ustring option \<Rightarrow> exn + ustring list" where
  "read_denylist u texts path = (case path of
      None \<Rightarrow> load_denylist u None
    | Some p \<Rightarrow> (case texts p of
          None \<Rightarrow> Inl ''ConfigurationError''
        | Some None \<Rightarrow> Inl ''UnicodeDecodeError''
        | Some (Some t) \<Rightarrow> load_denylist u (Some t)))"

definition start_core ::
  "ciphers \<Rightarrow> (nat \<Rightarrow> nat \<Rightarrow> blob) \<Rightarrow> (nat \<Rightarrow> nat option) \<Rightarrow> unicode \<Rightarrow> environment \<Rightarrow> file_system
   \<Rightarrow> (ustring \<Rightarrow> ustring option option) \<Rightarrow> database option \<Rightarrow> (nat \<Rightarrow> challenge)
   \<Rightarrow> exn + settings \<times> store \<times> gatekeeper" where
  "start_core C tokens nd u env fs texts dbfile factory =
    then_sum (from_environment nd u env True) (\<lambda>settings.
    then_sum (read_private_file fs (hmac_key_file settings) 32 False) (\<lambda>hmac_bytes.
    then_sum (identifier_protector hmac_bytes) (\<lambda>key.
    then_sum (open_store (set_pending_review_retention_days settings) dbfile) (\<lambda>store.
    then_sum (read_private_file fs (review_key_file settings) 32 False) (\<lambda>review_bytes.
    then_sum (active_case_protector C review_bytes) (\<lambda>case_key.
    then_sum (read_denylist u texts (denylist_file settings)) (\<lambda>denylist.
    then_sum (new_gatekeeper (keyed_protector C key tokens) (challenge_ttl_seconds settings)
        (challenge_max_attempts settings) (outbound_limit_per_hour settings)
        (Some (outbound_notice_reserve_per_hour settings))
        (outbound_notice_limit_per_sender_per_hour settings)
        (set_pending_review_retention_days settings) (active_case_retention_days settings)
        denylist (set_test_sender_id settings)
        (Some (case_sealer C case_key tokens)) factory u) (\<lambda>service.
    Inr (settings, store, service)))))))))"

text \<open>The message \<open>main\<close> logs before it exits with status 1; None when it catches nothing.\<close>

definition startup_event :: "exn \<Rightarrow> string option" where
  "startup_event e =
    (if e = ''PrivateFileError'' then Some ''startup_private_file_failed''
     else if e = ''ConfigurationError'' then Some ''startup_configuration_failed''
     else if e = ''StoreMigrationError'' then Some ''startup_database_migration_failed''
     else if e = ''TelegramAuthorizationError'' then Some ''startup_telegram_session_failed''
     else if e \<in> {''RuntimeError'', ''OSError'', ''UnicodeDecodeError'', ''UnicodeEncodeError''}
       then Some ''startup_runtime_failed''
     else None)"


subsection \<open>Bounds\<close>

lemma check_setting_Inr [return_iff]: "check_setting ok r = Inr i \<longleftrightarrow> r = Inr i \<and> ok i"
  by (auto simp: check_setting_def split: sum.splits)

lemma bounded_int_Inr [return_iff]:
  "bounded_int nd env name dflt lo hi = Inr i \<longleftrightarrow>
     positive_int nd env name dflt = Inr i \<and> lo \<le> i \<and> i \<le> hi"
  by (simp add: bounded_int_def return_iff)

lemma bounded_nonnegative_int_Inr [return_iff]:
  "bounded_nonnegative_int nd env name dflt lo hi = Inr i \<longleftrightarrow>
     integer_setting nd (env_get env name (show_int dflt)) = Inr i \<and> lo \<le> i \<and> i \<le> hi"
  by (simp add: bounded_nonnegative_int_def return_iff)

lemma positive_int_pos: "positive_int nd env name dflt = Inr i \<Longrightarrow> 0 < i"
  by (simp add: positive_int_def return_iff)

lemma optional_bounded_int_Inr:
  "optional_bounded_int nd env name lo hi = Inr x \<Longrightarrow>
     (case x of None \<Rightarrow> True | Some i \<Rightarrow> lo \<le> i \<and> i \<le> hi)"
  by (auto simp: optional_bounded_int_def split: sum.splits option.splits if_splits)

lemma if_Inl_Inr [return_iff]: "(if b then Inl e else r) = Inr y \<longleftrightarrow> \<not> b \<and> r = Inr y"
  by simp

text \<open>\<open>settings_ok\<close>: the bounds that the store, the service and the maintenance rely on.\<close>

definition settings_ok :: "settings \<Rightarrow> bool" where
  "settings_ok s \<longleftrightarrow> 30 \<le> challenge_ttl_seconds s \<and> challenge_ttl_seconds s \<le> 600
     \<and> 1 \<le> challenge_max_attempts s \<and> challenge_max_attempts s \<le> 5
     \<and> 0 < audit_retention_days s \<and> 0 < mute_days s
     \<and> 1 \<le> set_pending_review_retention_days s \<and> set_pending_review_retention_days s \<le> 7
     \<and> 1 \<le> active_case_retention_days s \<and> active_case_retention_days s \<le> 30
     \<and> (case archived_restriction_retention_days s of None \<Rightarrow> True | Some n \<Rightarrow> 30 \<le> n \<and> n \<le> 3650)
     \<and> 1 \<le> outbound_limit_per_hour s \<and> outbound_limit_per_hour s \<le> 100
     \<and> 0 \<le> outbound_notice_reserve_per_hour s
     \<and> outbound_notice_reserve_per_hour s < outbound_limit_per_hour s
     \<and> 1 \<le> outbound_notice_limit_per_sender_per_hour s
     \<and> outbound_notice_limit_per_sender_per_hour s \<le> 100
     \<and> distinct (map pure_path [api_hash_file s, session_file s, hmac_key_file s, review_key_file s])"

lemma four_distinct: "length (remdups [a, b, c, d]) \<noteq> 4 \<longleftrightarrow> \<not> distinct [a, b, c, d]"
proof -
  have "length (remdups [a, b, c, d]) = length [a, b, c, d] \<longleftrightarrow> distinct [a, b, c, d]"
    by (metis length_remdups_card_conv card_distinct distinct_card)
  then show ?thesis by (simp only: list.size) simp
qed

lemma from_environment_ok: "from_environment nd u env req = Inr s \<Longrightarrow> settings_ok s"
  unfolding from_environment_def Let_def return_iff list.map four_distinct not_not
  apply (elim exE conjE)
  apply (drule sum.inject(2) [THEN iffD1])
  apply hypsubst_thin
  unfolding settings_ok_def list.map
  apply (simp add: positive_int_pos optional_bounded_int_Inr del: distinct.simps)
  done

text \<open>Every failing check of the environment raises \<open>ConfigurationError\<close>.\<close>

named_theorems fails_with \<open>checks whose only error is \<open>ConfigurationError\<close>\<close>

definition only_fails_with :: "exn \<Rightarrow> exn + 'a \<Rightarrow> bool" where
  "only_fails_with e r \<longleftrightarrow> (\<forall>e'. r = Inl e' \<longrightarrow> e' = e)"

lemma only_fails_Inl [fails_with]: "only_fails_with e (Inl e)"
  by (simp add: only_fails_with_def)

lemma only_fails_Inr [fails_with]: "only_fails_with e (Inr x)"
  by (simp add: only_fails_with_def)

lemma only_fails_then [fails_with]:
  "only_fails_with e r \<Longrightarrow> (\<And>x. only_fails_with e (f x)) \<Longrightarrow> only_fails_with e (then_sum r f)"
  by (auto simp: only_fails_with_def then_sum_def split: sum.splits)

lemma only_fails_if [fails_with]:
  "only_fails_with e r \<Longrightarrow> only_fails_with e q \<Longrightarrow> only_fails_with e (if b then r else q)"
  by simp

lemma only_fails_check [fails_with]:
  "only_fails_with ''ConfigurationError'' r \<Longrightarrow> only_fails_with ''ConfigurationError'' (check_setting ok r)"
  by (auto simp: only_fails_with_def check_setting_def split: sum.splits)

lemma only_fails_integer [fails_with]: "only_fails_with ''ConfigurationError'' (integer_setting nd raw)"
  by (auto simp: only_fails_with_def integer_setting_def split: option.splits)

lemma only_fails_required [fails_with]: "only_fails_with ''ConfigurationError'' (required env name)"
  by (simp add: required_def Let_def fails_with)

lemma only_fails_positive [fails_with]: "only_fails_with ''ConfigurationError'' (positive_int nd env name d)"
  by (simp add: positive_int_def fails_with)

lemma only_fails_bounded [fails_with]:
  "only_fails_with ''ConfigurationError'' (bounded_int nd env name d lo hi)"
  "only_fails_with ''ConfigurationError'' (bounded_nonnegative_int nd env name d lo hi)"
  by (simp_all add: bounded_int_def bounded_nonnegative_int_def fails_with)

lemma only_fails_optional [fails_with]:
  "only_fails_with ''ConfigurationError'' (optional_positive_int nd env name)"
  "only_fails_with ''ConfigurationError'' (optional_bounded_int nd env name lo hi)"
  using only_fails_check [OF only_fails_integer, of "\<lambda>i. 0 < i" nd]
  by (auto simp: only_fails_with_def optional_bounded_int_def optional_positive_int_def Let_def
      split: option.splits sum.splits if_splits)

lemma only_fails_boolean [fails_with]: "only_fails_with ''ConfigurationError'' (boolean u env name d)"
  by (simp add: boolean_def Let_def fails_with)

lemma from_environment_error: "only_fails_with ''ConfigurationError'' (from_environment nd u env req)"
  unfolding from_environment_def Let_def by (intro fails_with)

text \<open>C33. The environment either gives settings within all their bounds, with four separate private
  files and a notice reserve below the hourly limit, or a \<open>ConfigurationError\<close>.\<close>

theorem settings_within_bounds:
  "case from_environment nd u env require_telegram of
     Inl e \<Rightarrow> e = ''ConfigurationError'' | Inr s \<Rightarrow> settings_ok s"
  using from_environment_error [of nd u env require_telegram] from_environment_ok
  by (auto simp: only_fails_with_def split: sum.splits)

lemma read_private_file_error: "read_private_file fs path n b = Inl e \<Longrightarrow> e = ''PrivateFileError''"
  by (auto simp: read_private_file_def Let_def split: option.splits if_splits)

lemma read_private_file_length: "read_private_file fs path n b = Inr v \<Longrightarrow> n \<le> length v"
  by (auto simp: read_private_file_def Let_def split: option.splits if_splits)

lemma denylist_domains_error: "denylist_domains u ls = Inl e \<Longrightarrow> e = ''ConfigurationError''"
  by (induction ls) (auto simp: Let_def split: if_splits option.splits sum.splits)

lemma read_denylist_error: "read_denylist u texts p = Inl e \<Longrightarrow> e \<in> {''ConfigurationError'', ''UnicodeDecodeError''}"
  by (auto simp: read_denylist_def load_denylist_def dest: denylist_domains_error split: option.splits)

lemma open_store_error: "open_store days dbfile = Inl e \<Longrightarrow> 1 \<le> days \<Longrightarrow> days \<le> 7 \<Longrightarrow> e = ''StoreMigrationError''"
  by (auto simp: open_store_def initialize_schema_def Let_def split: if_splits sum.splits option.splits)

text \<open>What holds of the error and of the value of a chain.\<close>

definition sum_post :: "('e \<Rightarrow> bool) \<Rightarrow> ('a \<Rightarrow> bool) \<Rightarrow> 'e + 'a \<Rightarrow> bool" where
  "sum_post P Q r \<longleftrightarrow> (case r of Inl e \<Rightarrow> P e | Inr x \<Rightarrow> Q x)"

lemma sum_post_then:
  "sum_post P R r \<Longrightarrow> (\<And>x. R x \<Longrightarrow> sum_post P Q (f x)) \<Longrightarrow> sum_post P Q (then_sum r f)"
  by (cases r) (simp_all add: sum_post_def then_sum_def)

lemma sum_postI: "(\<And>e. r = Inl e \<Longrightarrow> P e) \<Longrightarrow> (\<And>x. r = Inr x \<Longrightarrow> Q x) \<Longrightarrow> sum_post P Q r"
  by (cases r) (simp_all add: sum_post_def)

definition reported :: "exn \<Rightarrow> bool" where
  "reported e \<longleftrightarrow> startup_event e \<noteq> None"

lemma reported_errors [simp]: "reported ''ConfigurationError''" "reported ''PrivateFileError''"
  "reported ''StoreMigrationError''" "reported ''UnicodeDecodeError''"
  by (simp_all add: reported_def startup_event_def)

lemma environment_post: "sum_post reported settings_ok (from_environment nd u env b)"
  using from_environment_error [of nd u env b] from_environment_ok
  by (intro sum_postI) (auto simp: only_fails_with_def)

lemma private_file_post: "sum_post reported (\<lambda>b. n \<le> length b) (read_private_file fs p n strip_it)"
  by (rule sum_postI) (auto dest: read_private_file_error read_private_file_length)

lemma identifier_post: "32 \<le> length b \<Longrightarrow> sum_post reported (\<lambda>_. True) (identifier_protector b)"
  by (rule sum_postI) (auto simp: identifier_protector_def)

lemma case_key_post: "32 \<le> length b \<Longrightarrow> sum_post reported (\<lambda>_. True) (active_case_protector C b)"
  by (rule sum_postI) (auto simp: active_case_protector_def)

lemma open_store_post:
  "settings_ok s \<Longrightarrow> sum_post reported (\<lambda>st. mode_setting st \<noteq> None)
     (open_store (set_pending_review_retention_days s) dbfile)"
  using open_store_error [of "set_pending_review_retention_days s" dbfile]
  by (intro sum_postI) (auto simp: settings_ok_def open_store_def Let_def
      split: if_splits sum.splits option.splits)

lemma denylist_post: "sum_post reported (\<lambda>_. True) (read_denylist u texts p)"
  by (rule sum_postI) (auto dest: read_denylist_error)

text \<open>The quota of a started service leaves room for challenges.\<close>

definition room_for_challenges :: "gatekeeper \<Rightarrow> bool" where
  "room_for_challenges g \<longleftrightarrow> 0 \<le> gk_notice_reserve g \<and> gk_notice_reserve g < gk_outbound_limit g
     \<and> 1 \<le> gk_max_attempts g \<and> 30 \<le> gk_ttl_seconds g"

lemma gatekeeper_post:
  "settings_ok s \<Longrightarrow> sum_post reported room_for_challenges
     (new_gatekeeper p (challenge_ttl_seconds s) (challenge_max_attempts s)
      (outbound_limit_per_hour s) (Some (outbound_notice_reserve_per_hour s))
      (outbound_notice_limit_per_sender_per_hour s) review_days case_days denylist test_id seal factory u)"
  by (simp add: settings_ok_def new_gatekeeper_def sum_post_def room_for_challenges_def)

text \<open>The start-up composes: settings that pass the environment's checks satisfy the checks of
  the protectors, the store and the service, so no start-up ends in an exception that \<open>main\<close> does
  not report; and a service that starts has a quota that leaves room for challenges.\<close>

theorem startup_failures_reported:
  "case start_core C tokens nd u env fs texts dbfile factory of
     Inl e \<Rightarrow> startup_event e \<noteq> None
   | Inr (s, st, g) \<Rightarrow> settings_ok s \<and> mode_setting st \<noteq> None \<and> room_for_challenges g"
proof -
  have "sum_post reported (\<lambda>(s, st, g). settings_ok s \<and> mode_setting st \<noteq> None \<and> room_for_challenges g)
      (start_core C tokens nd u env fs texts dbfile factory)"
    unfolding start_core_def
    by (rule sum_post_then [OF environment_post], rule sum_post_then [OF private_file_post],
        rule sum_post_then, erule identifier_post, rule sum_post_then, erule open_store_post,
        rule sum_post_then [OF private_file_post], rule sum_post_then, erule case_key_post,
        rule sum_post_then [OF denylist_post], rule sum_post_then, erule gatekeeper_post)
      (simp add: sum_post_def)
  then show ?thesis unfolding sum_post_def reported_def .
qed

end
