(* ===== verification/Cli.thy ===== *)
theory Cli
  imports Config Store_Maintenance
begin

text \<open>
  \<open>cli.py\<close>: the owner's commands on the database, after argument parsing. A command returns its
  exit status and the line it prints, or raises; the store is what it leaves in the database.
\<close>

datatype mode_argument = ShowMode | SetMode mode

datatype cli_command = CliStatus | CliMode mode_argument | CliHealthcheck | CliAllow int | CliRevoke int

definition DASHBOARD_ONLY_STATUSES :: "sender_status set" where
  "DASHBOARD_ONLY_STATUSES = CHALLENGE_STARTING_STATUSES \<union> GATEKEEPER_ARCHIVED_STATUSES"

fun mode_text :: "mode \<Rightarrow> string" where
  "mode_text Monitor = ''monitor''"
| "mode_text Protect = ''protect''"

fun stat_json :: "stat_value \<Rightarrow> json" where
  "stat_json (StatInt i) = JInt i"
| "stat_json (StatMode m) = jtext (mode_text m)"
| "stat_json StatNone = JNull"

definition statistics_line :: "(string \<times> stat_value) list \<Rightarrow> ustring" where
  "statistics_line st = dumps True (sort_keys (JObj (map (\<lambda>(k, v). (ustr k, stat_json v)) st)))"

text \<open>Allowing and revoking: refused for a sender whose dialog must be restored in the dashboard.\<close>

definition change_sender ::
  "ciphers \<Rightarrow> file_system \<Rightarrow> settings \<Rightarrow> (sender_key \<Rightarrow> int \<Rightarrow> store \<Rightarrow> store) \<Rightarrow> string \<Rightarrow> int \<Rightarrow> int
   \<Rightarrow> store \<Rightarrow> (exn + nat \<times> ustring) \<times> store" where
  "change_sender C fs s op line user_id now store =
    (case then_sum (read_private_file fs (hmac_key_file s) 32 False) (\<lambda>hmac_bytes.
          then_sum (identifier_protector hmac_bytes) (\<lambda>key. sender_key_of C key user_id)) of
       Inl e \<Rightarrow> (Inl e, store)
     | Inr k \<Rightarrow>
         if status (sender k store) \<in> DASHBOARD_ONLY_STATUSES then (Inl ''ValueError'', store)
         else (Inr (0, ustr line), op k now store))"

text \<open>The body of \<open>run\<close>; \<open>integrity_ok\<close> is the verdict of the integrity pragma, \<open>stats\<close> the sizes the
  database file reports, \<open>now\<close> the clock.\<close>

definition run_command ::
  "ciphers \<Rightarrow> file_system \<Rightarrow> settings \<Rightarrow> bool \<Rightarrow> database_stats \<Rightarrow> int \<Rightarrow> cli_command \<Rightarrow> store
   \<Rightarrow> (exn + nat \<times> ustring) \<times> store" where
  "run_command C fs s integrity_ok stats now command store =
    (case command of
       CliHealthcheck \<Rightarrow> (Inr (if healthy 120 5 now store then 0 else 1, []), store)
     | CliStatus \<Rightarrow> (Inr (0, statistics_line (statistics now stats store)), store)
     | CliMode ShowMode \<Rightarrow> (Inr (0, ustr ''mode='' @ ustr (mode_text (get_mode store))), store)
     | CliMode (SetMode m) \<Rightarrow>
         (let failures = (if m = Protect then protect_preflight 120 integrity_ok now store else []);
              checked = (if m = Protect then then_sum (read_private_file fs (review_key_file s) 32 False) (\<lambda>_. Inr ())
                         else Inr ()) in
          case checked of
            Inl e \<Rightarrow> (Inl e, store)
          | Inr _ \<Rightarrow>
              if failures \<noteq> [] then (Inl ''ValueError'', store)
              else (Inr (0, ustr ''mode='' @ ustr (mode_text m)), set_mode m now store))
     | CliAllow user_id \<Rightarrow> change_sender C fs s allow ''sender=allowed'' user_id now store
     | CliRevoke user_id \<Rightarrow> change_sender C fs s revoke ''sender=revoked'' user_id now store)"

text \<open>\<open>run\<close>: the settings, the database, the command. \<open>main\<close> prints these exceptions and exits with 2.\<close>

definition run_cli ::
  "ciphers \<Rightarrow> (nat \<Rightarrow> nat option) \<Rightarrow> unicode \<Rightarrow> environment \<Rightarrow> file_system \<Rightarrow> bool \<Rightarrow> database_stats
   \<Rightarrow> int \<Rightarrow> cli_command \<Rightarrow> database option \<Rightarrow> (exn + nat \<times> ustring) \<times> store option" where
  "run_cli C nd u env fs integrity_ok stats now command dbfile =
    (case then_sum (from_environment nd u env False) (\<lambda>s.
          then_sum (open_store (set_pending_review_retention_days s) dbfile) (\<lambda>store. Inr (s, store))) of
       Inl e \<Rightarrow> (Inl e, None)
     | Inr (s, store) \<Rightarrow>
         (let (r, store') = run_command C fs s integrity_ok stats now command store in (r, Some store')))"

definition cli_exit_status :: "(exn + nat \<times> ustring) \<Rightarrow> nat option" where
  "cli_exit_status r = (case r of
      Inr (n, _) \<Rightarrow> Some n
    | Inl e \<Rightarrow>
        if e \<in> {''ConfigurationError'', ''PrivateFileError'', ''OSError'', ''StoreMigrationError'',
              ''ValueError'', ''UnicodeEncodeError''}
        then Some 2 else None)"

subsection \<open>Properties\<close>

lemma show_int_digest: "\<exists>d. sender_key_of C key i = Inr d"
proof -
  have "list_all printable (ustr ''sender'')" by (simp add: ustr_def printable_def)
  then show ?thesis unfolding sender_key_of_def by (intro digest_ascii show_int_printable)
qed

text \<open>C34. No command changes the database when it raises; protect mode is entered only with a fresh
  heartbeat, an intact database, no active challenge, no failed or unsafe action and a readable
  review key; a sender who must be restored in the dashboard is neither allowed nor revoked.\<close>

theorem commands_are_guarded:
  "case run_command C fs s integrity_ok stats now command store of
     (Inl e, store') \<Rightarrow> store' = store \<and> e \<in> {''ValueError'', ''PrivateFileError''}
   | (Inr _, store') \<Rightarrow> (case command of
        CliMode (SetMode Protect) \<Rightarrow>
          protect_preflight 120 integrity_ok now store = [] \<and> store' = set_mode Protect now store
          \<and> (\<exists>b. read_private_file fs (review_key_file s) 32 False = Inr b)
      | CliMode (SetMode Monitor) \<Rightarrow> store' = set_mode Monitor now store
      | CliAllow i \<Rightarrow> (\<exists>k. status (sender k store) \<notin> DASHBOARD_ONLY_STATUSES \<and> store' = allow k now store)
      | CliRevoke i \<Rightarrow> (\<exists>k. status (sender k store) \<notin> DASHBOARD_ONLY_STATUSES \<and> store' = revoke k now store)
      | _ \<Rightarrow> store' = store)"
proof -
  have change: "case change_sender C fs s op line i now store of
      (Inl e, store') \<Rightarrow> store' = store \<and> e \<in> {''ValueError'', ''PrivateFileError''}
    | (Inr _, store') \<Rightarrow> \<exists>k. status (sender k store) \<notin> DASHBOARD_ONLY_STATUSES \<and> store' = op k now store"
    for op line i
    using show_int_digest [of C _ i]
    by (auto simp: change_sender_def then_sum_def identifier_protector_def
        dest: read_private_file_error split: sum.splits if_splits)
      (metis Inl_Inr_False)+
  show ?thesis
  proof (cases command)
    case (CliMode m)
    then show ?thesis
      by (cases m) (auto simp: run_command_def Let_def then_sum_def
          dest: read_private_file_error split: sum.splits mode.splits option.splits)
  next
    case (CliAllow i)
    then show ?thesis
      using change [of allow "''sender=allowed''" i]
      by (auto simp: run_command_def split: prod.splits sum.splits)
  next
    case (CliRevoke i)
    then show ?thesis
      using change [of revoke "''sender=revoked''" i]
      by (auto simp: run_command_def split: prod.splits sum.splits)
  qed (auto simp: run_command_def)
qed

end
