(* ===== verification/Rpc.thy ===== *)
theory Rpc
  imports Py_Codec
begin

text \<open>
  \<open>dashboard_rpc.py\<close>: the line protocol between the dashboard and the core. The server turns the
  bytes of a connection into at most one call of the backend and one line of JSON; the client sends
  a request, retries a read once, and decodes the line. A backend, and a connection, is a function
  on a state of its own; \<open>ft\<close> is how Python writes a float.
\<close>

definition PROTOCOL_VERSION :: int where
  "PROTOCOL_VERSION = 1"

definition MAX_REQUEST_BYTES :: nat where
  "MAX_REQUEST_BYTES = 64 * 1024"

definition MAX_RESPONSE_BYTES :: nat where
  "MAX_RESPONSE_BYTES = 1024 * 1024"

definition READ_ONLY_METHODS :: "ustring set" where
  "READ_ONLY_METHODS = {ustr ''overview'', ustr ''page_version'', ustr ''reviews.list'',
     ustr ''reviews.detail'', ustr ''cases.list'', ustr ''cases.detail'', ustr ''cases.forget_preview''}"

definition WRITE_METHODS :: "ustring set" where
  "WRITE_METHODS = {ustr ''reviews.decide'', ustr ''cases.decide'', ustr ''cases.release_legacy'',
     ustr ''cases.forget_bulk''}"

definition ALLOWED_METHODS :: "ustring set" where
  "ALLOWED_METHODS = READ_ONLY_METHODS \<union> WRITE_METHODS"

type_synonym json_object = "(ustring \<times> json) list"

text \<open>What a call of a backend or of the client raises: a \<open>DashboardBackendError\<close> with its code, a
  \<open>ValueError\<close>, a failure of the connection, or another exception.\<close>

datatype failure = Coded ustring | BadValue | Unreachable | Crashed

type_synonym 's backend = "ustring \<Rightarrow> json_object \<Rightarrow> 's \<Rightarrow> (failure + json_object) \<times> 's"

subsection \<open>Streams\<close>

text \<open>\<open>readuntil(b"\n")\<close> on everything the peer sends before it closes.\<close>

datatype line_read = Line blob | Incomplete | Overrun

definition read_line :: "nat \<Rightarrow> blob \<Rightarrow> line_read" where
  "read_line limit bytes =
    (let before = takeWhile (\<lambda>b. b \<noteq> 10) bytes in
     if length before = length bytes then (if limit < length bytes then Overrun else Incomplete)
     else if limit < length before then Overrun
     else Line (before @ [10]))"

subsection \<open>The server\<close>

text \<open>\<open>value != 1\<close> on a decoded JSON value: \<open>True\<close> and \<open>1.0\<close> equal 1.\<close>

definition equals_one :: "json option \<Rightarrow> bool" where
  "equals_one v \<longleftrightarrow> v \<in> {Some (JInt PROTOCOL_VERSION), Some (JBool True), Some (JFloat (ustr ''1.0''))}"

definition error_response :: "json \<Rightarrow> ustring \<Rightarrow> json" where
  "error_response request_id code = JObj [(ustr ''version'', JInt PROTOCOL_VERSION), (ustr ''id'', request_id),
     (ustr ''ok'', JBool False), (ustr ''error'', JObj [(ustr ''code'', JStr code)])]"

definition ok_response :: "json \<Rightarrow> json_object \<Rightarrow> json" where
  "ok_response request_id result = JObj [(ustr ''version'', JInt PROTOCOL_VERSION), (ustr ''id'', request_id),
     (ustr ''ok'', JBool True), (ustr ''result'', JObj result)]"

text \<open>The checks of a request's fields: its version, id, method and parameters.\<close>

fun request_call :: "json option \<Rightarrow> json \<Rightarrow> json option \<Rightarrow> json option \<Rightarrow> ustring + ustring \<times> json_object" where
  "request_call version (JStr i) (Some (JStr meth)) (Some (JObj params)) =
     (if \<not> equals_one version \<or> 64 < length i \<or> 64 < length meth then Inl (ustr ''invalid_request'')
      else if meth \<notin> ALLOWED_METHODS then Inl (ustr ''unknown_method'')
      else Inr (meth, params))"
| "request_call version _ _ _ = Inl (ustr ''invalid_request'')"

text \<open>The id as far as it was read, and the call or the error code.\<close>

definition check_request :: "(ustring \<Rightarrow> ustring) \<Rightarrow> line_read \<Rightarrow> json \<times> (ustring + ustring \<times> json_object)" where
  "check_request ft raw = (case raw of
      Line bytes \<Rightarrow>
        if MAX_REQUEST_BYTES < length bytes then (JStr [], Inl (ustr ''invalid_request''))
        else (case loads_bytes ft bytes of
            Inr (JObj request) \<Rightarrow>
              (let request_id = (case map_of request (ustr ''id'') of None \<Rightarrow> JStr [] | Some v \<Rightarrow> v) in
               (request_id, request_call (map_of request (ustr ''version'')) request_id
                  (map_of request (ustr ''method'')) (map_of request (ustr ''params''))))
          | _ \<Rightarrow> (JStr [], Inl (ustr ''invalid_request'')))
    | _ \<Rightarrow> (JStr [], Inl (ustr ''invalid_request'')))"

fun failure_code :: "failure \<Rightarrow> ustring" where
  "failure_code (Coded code) = code"
| "failure_code BadValue = ustr ''invalid_request''"
| "failure_code _ = ustr ''request_failed''"

definition encode_line :: "json \<Rightarrow> blob" where
  "encode_line v = bytes_of (dumps True v @ [10])"

definition encode_response :: "json \<Rightarrow> json \<Rightarrow> blob" where
  "encode_response request_id response =
    (if MAX_RESPONSE_BYTES < length (encode_line response)
     then encode_line (error_response request_id (ustr ''response_too_large'')) else encode_line response)"

definition handle_connection :: "(ustring \<Rightarrow> ustring) \<Rightarrow> 's backend \<Rightarrow> blob \<Rightarrow> 's \<Rightarrow> blob \<times> 's" where
  "handle_connection ft backend bytes s =
    (case check_request ft (read_line (MAX_REQUEST_BYTES + 1) bytes) of
       (request_id, Inl code) \<Rightarrow> (encode_response request_id (error_response request_id code), s)
     | (request_id, Inr (meth, params)) \<Rightarrow>
         (case backend meth params s of
            (Inl f, s') \<Rightarrow> (encode_response request_id (error_response request_id (failure_code f)), s')
          | (Inr result, s') \<Rightarrow> (encode_response request_id (ok_response request_id result), s')))"

subsection \<open>The client\<close>

text \<open>A connection takes the request and either fails or gives the bytes received before its end.\<close>

type_synonym 's connection = "blob \<Rightarrow> 's \<Rightarrow> blob option \<times> 's"

definition request_line :: "ustring \<Rightarrow> ustring \<Rightarrow> json_object \<Rightarrow> blob" where
  "request_line request_id meth params = encode_line (JObj [(ustr ''version'', JInt PROTOCOL_VERSION),
     (ustr ''id'', JStr request_id), (ustr ''method'', JStr meth), (ustr ''params'', JObj params)])"

definition check_response :: "(ustring \<Rightarrow> ustring) \<Rightarrow> ustring \<Rightarrow> line_read \<Rightarrow> failure + json_object" where
  "check_response ft request_id raw = (case raw of
      Incomplete \<Rightarrow> Inl Unreachable
    | Overrun \<Rightarrow> Inl (Coded (ustr ''invalid_response''))
    | Line bytes \<Rightarrow>
        if MAX_RESPONSE_BYTES < length bytes then Inl (Coded (ustr ''response_too_large''))
        else (case loads_bytes ft bytes of
            Inl e \<Rightarrow> Inl (if e = ''ValueError'' then BadValue else Coded (ustr ''invalid_response''))
          | Inr v \<Rightarrow> (case v of
              JObj response \<Rightarrow>
                if \<not> equals_one (map_of response (ustr ''version''))
                   \<or> map_of response (ustr ''id'') \<noteq> Some (JStr request_id)
                then Inl (Coded (ustr ''invalid_response''))
                else if map_of response (ustr ''ok'') \<noteq> Some (JBool True) then
                  Inl (Coded (case map_of response (ustr ''error'') of
                      Some (JObj err) \<Rightarrow> (case map_of err (ustr ''code'') of
                          Some (JStr code) \<Rightarrow> code | _ \<Rightarrow> ustr ''request_failed'')
                    | _ \<Rightarrow> ustr ''request_failed''))
                else (case map_of response (ustr ''result'') of
                    Some (JObj result) \<Rightarrow> Inr result
                  | _ \<Rightarrow> Inl (Coded (ustr ''invalid_response'')))
            | _ \<Rightarrow> Inl (Coded (ustr ''invalid_response'')))))"

definition request_once ::
  "(ustring \<Rightarrow> ustring) \<Rightarrow> 's connection \<Rightarrow> ustring \<Rightarrow> ustring \<Rightarrow> json_object \<Rightarrow> 's \<Rightarrow> (failure + json_object) \<times> 's" where
  "request_once ft connect request_id meth params s =
    (let encoded = request_line request_id meth params in
     if MAX_REQUEST_BYTES < length encoded then (Inl (Coded (ustr ''request_too_large'')), s)
     else (case connect encoded s of
         (None, s') \<Rightarrow> (Inl Unreachable, s')
       | (Some received, s') \<Rightarrow>
           (check_response ft request_id (read_line (MAX_RESPONSE_BYTES + 1) received), s')))"

text \<open>The attempts left; \<open>rid n\<close> is the id drawn for attempt \<open>n\<close>.\<close>

fun request_attempts ::
  "(ustring \<Rightarrow> ustring) \<Rightarrow> 's connection \<Rightarrow> (nat \<Rightarrow> ustring) \<Rightarrow> ustring \<Rightarrow> json_object \<Rightarrow> nat \<Rightarrow> nat \<Rightarrow> 's
   \<Rightarrow> (failure + json_object) \<times> 's" where
  "request_attempts ft connect rid meth params attempt 0 s = (Inl (Coded (ustr ''core_unavailable'')), s)"
| "request_attempts ft connect rid meth params attempt (Suc left) s =
    (case request_once ft connect (rid attempt) meth params s of
       (Inl Unreachable, s') \<Rightarrow>
         if left = 0 then (Inl (Coded (ustr ''core_unavailable'')), s')
         else request_attempts ft connect rid meth params (Suc attempt) left s'
     | r \<Rightarrow> r)"

definition client_request ::
  "(ustring \<Rightarrow> ustring) \<Rightarrow> 's connection \<Rightarrow> (nat \<Rightarrow> ustring) \<Rightarrow> 's backend" where
  "client_request ft connect rid meth params s =
     request_attempts ft connect rid meth params 0 (if meth \<in> READ_ONLY_METHODS then 2 else 1) s"

subsection \<open>Facts\<close>

lemma read_line_line:
  "list_all printable t \<Longrightarrow> length t \<le> limit \<Longrightarrow> read_line limit (bytes_of (t @ [10])) = Line (bytes_of (t @ [10]))"
proof -
  assume t: "list_all printable t" "length t \<le> limit"
  have "w \<noteq> 10" if "w \<in> set (bytes_of t)" for w
  proof -
    from that obtain c where "c \<in> set t" and w: "w = word_of_nat c" by (auto simp: bytes_of_def)
    with t(1) have "32 \<le> c" "c \<le> 126" by (auto simp: list_all_iff printable_def)
    then have "unat w = c" by (simp add: w unat_of_nat)
    with \<open>32 \<le> c\<close> show ?thesis by auto
  qed
  moreover have "bytes_of (t @ [10]) = bytes_of t @ [10]" by (simp add: bytes_of_def)
  ultimately have "takeWhile (\<lambda>b. b \<noteq> 10) (bytes_of (t @ [10])) = bytes_of t" by simp
  then show ?thesis using t(2) \<open>bytes_of (t @ [10]) = _\<close> by (simp add: read_line_def)
qed

lemma read_encode_line:
  "json_ok v \<Longrightarrow> length (encode_line v) \<le> limit \<Longrightarrow> read_line limit (encode_line v) = Line (encode_line v)"
  unfolding encode_line_def by (rule read_line_line [OF dumps_printable]) simp_all

lemma loads_encode_line: "json_ok v \<Longrightarrow> loads_bytes ft (encode_line v) = Inr v"
  unfolding encode_line_def by (rule loads_ascii_line)

text \<open>A backend that keeps to JSON: its results and its error codes can be written and read back.\<close>

definition good_result :: "failure + json_object \<Rightarrow> bool" where
  "good_result r = (case r of Inr result \<Rightarrow> json_ok (JObj result) | Inl f \<Rightarrow> list_all scalar (failure_code f) \<and> length (failure_code f) \<le> 64)"

text \<open>What the client makes of an answer of the backend: the codes and the results themselves.\<close>

definition seen_by_client :: "ustring \<Rightarrow> failure + json_object \<Rightarrow> failure + json_object" where
  "seen_by_client request_id r = (case r of
      Inl f \<Rightarrow> Inl (Coded (failure_code f))
    | Inr result \<Rightarrow>
        if MAX_RESPONSE_BYTES < length (encode_line (ok_response (JStr request_id) result))
        then Inl (Coded (ustr ''response_too_large'')) else Inr result)"


lemma json_ok_one [simp]: "length (show_nat (nat \<bar>PROTOCOL_VERSION\<bar>)) \<le> MAX_INT_DIGITS"
  by (simp add: PROTOCOL_VERSION_def MAX_INT_DIGITS_def show_nat.simps)

lemma field_names [simp]:
  "ustr ''version'' \<noteq> ustr ''id''" "ustr ''version'' \<noteq> ustr ''ok''" "ustr ''version'' \<noteq> ustr ''result''"
  "ustr ''version'' \<noteq> ustr ''error''" "ustr ''id'' \<noteq> ustr ''ok''" "ustr ''id'' \<noteq> ustr ''result''"
  "ustr ''id'' \<noteq> ustr ''error''" "ustr ''ok'' \<noteq> ustr ''result''" "ustr ''ok'' \<noteq> ustr ''error''"
  "ustr ''version'' \<noteq> ustr ''method''" "ustr ''version'' \<noteq> ustr ''params''" "ustr ''id'' \<noteq> ustr ''method''"
  "ustr ''id'' \<noteq> ustr ''params''" "ustr ''method'' \<noteq> ustr ''params''"
  by (simp_all add: ustr_def)

lemmas field_names_sym [simp] = field_names [symmetric]

lemma scalar_names [simp]:
  "list_all scalar (ustr ''version'')" "list_all scalar (ustr ''id'')" "list_all scalar (ustr ''ok'')"
  "list_all scalar (ustr ''result'')" "list_all scalar (ustr ''error'')" "list_all scalar (ustr ''method'')"
  "list_all scalar (ustr ''params'')" "list_all scalar (ustr ''code'')"
  "list_all scalar (ustr ''response_too_large'')"
  by (simp_all add: ustr_def scalar_def surrogate_def)

lemma error_response_ok:
  "list_all scalar i \<Longrightarrow> list_all scalar code \<Longrightarrow> json_ok (error_response (JStr i) code)"
  by (simp add: error_response_def)

lemma ok_response_ok:
  "list_all scalar i \<Longrightarrow> json_ok (JObj result) \<Longrightarrow> json_ok (ok_response (JStr i) result)"
  by (simp add: ok_response_def)

lemma length_escape: "length (escape_char True c) \<le> 12"
  by (auto simp: escape_char_def u_escape_def)

lemma length_quote: "length (quote True s) \<le> 2 + 12 * length s"
proof -
  have "length (concat (map (escape_char True) s)) \<le> 12 * length s"
    by (induction s) (use length_escape in \<open>auto intro: add_mono\<close>)
  then show ?thesis by (simp add: quote_def)
qed

lemma short_quote: "length s \<le> 64 \<Longrightarrow> length (quote True s) \<le> 770"
  using length_quote [of s] by simp

lemma dumps_version [simp]: "show_int PROTOCOL_VERSION = [49]"
  by (simp add: PROTOCOL_VERSION_def show_int_def show_nat.simps)

lemma error_line_short:
  assumes "length i \<le> 64" and "length code \<le> 64"
  shows "length (encode_line (error_response (JStr i) code)) \<le> MAX_RESPONSE_BYTES"
proof -
  have names: "length (quote True (ustr ''version'')) \<le> 770" "length (quote True (ustr ''id'')) \<le> 770"
    "length (quote True (ustr ''ok'')) \<le> 770" "length (quote True (ustr ''error'')) \<le> 770"
    "length (quote True (ustr ''code'')) \<le> 770"
    by (rule short_quote, simp)+
  have "length (encode_line (error_response (JStr i) code)) =
      length (quote True (ustr ''version'')) + length (quote True (ustr ''id'')) + length (quote True i)
      + length (quote True (ustr ''ok'')) + length (quote True (ustr ''error'')) + length (quote True (ustr ''code''))
      + length (quote True code) + 19"
    by (simp add: encode_line_def error_response_def)
  then show ?thesis
    using names short_quote [OF assms(1)] short_quote [OF assms(2)] by (simp add: MAX_RESPONSE_BYTES_def)
qed

lemma check_request_line:
  assumes "meth \<in> ALLOWED_METHODS" and "length meth \<le> 64" and "list_all scalar i" and "length i \<le> 64"
    and "json_ok (JObj params)" and "list_all scalar meth"
    and "length (request_line i meth params) \<le> MAX_REQUEST_BYTES"
  shows "check_request ft (read_line (MAX_REQUEST_BYTES + 1) (request_line i meth params))
    = (JStr i, Inr (meth, params))"
proof -
  let ?v = "JObj [(ustr ''version'', JInt PROTOCOL_VERSION), (ustr ''id'', JStr i), (ustr ''method'', JStr meth),
    (ustr ''params'', JObj params)]"
  have ok: "json_ok ?v" using assms by simp
  have "read_line (MAX_REQUEST_BYTES + 1) (encode_line ?v) = Line (encode_line ?v)"
    using assms(7) by (intro read_encode_line [OF ok]) (simp add: request_line_def)
  then show ?thesis
    using assms loads_encode_line [OF ok, of ft]
    by (simp add: request_line_def check_request_def equals_one_def del: json_ok.simps)
qed

lemma check_response_line:
  assumes "json_ok v" and "length (encode_line v) \<le> MAX_RESPONSE_BYTES"
  shows "check_response ft i (read_line (MAX_RESPONSE_BYTES + 1) (encode_line v)) =
    check_response ft i (Line (encode_line v))"
  using read_encode_line [OF assms(1), of "MAX_RESPONSE_BYTES + 1"] assms(2) by simp

lemma check_error_response:
  assumes "list_all scalar i" and "list_all scalar code" and "length i \<le> 64" and "length code \<le> 64"
  shows "check_response ft i (read_line (MAX_RESPONSE_BYTES + 1)
      (encode_line (error_response (JStr i) code))) = Inl (Coded code)"
  unfolding check_response_line [OF error_response_ok [OF assms(1,2)] error_line_short [OF assms(3,4)]]
  using error_line_short [OF assms(3,4)] loads_encode_line [OF error_response_ok [OF assms(1,2)], of ft]
  by (simp add: check_response_def not_less error_response_def equals_one_def)

lemma check_ok_response:
  assumes "list_all scalar i" and "json_ok (JObj result)" and "length i \<le> 64"
    and "length (encode_line (ok_response (JStr i) result)) \<le> MAX_RESPONSE_BYTES"
  shows "check_response ft i (read_line (MAX_RESPONSE_BYTES + 1)
      (encode_line (ok_response (JStr i) result))) = Inr result"
  unfolding check_response_line [OF ok_response_ok [OF assms(1,2)] assms(4)]
  using assms(4) loads_encode_line [OF ok_response_ok [OF assms(1,2)], of ft]
  by (simp add: check_response_def not_less ok_response_def equals_one_def)

lemma allowed_method_ok: "meth \<in> ALLOWED_METHODS \<Longrightarrow> length meth \<le> 64 \<and> list_all scalar meth"
  by (auto simp: ALLOWED_METHODS_def READ_ONLY_METHODS_def WRITE_METHODS_def ustr_def scalar_def surrogate_def)

text \<open>The connection to a server that runs a backend.\<close>

definition served :: "(ustring \<Rightarrow> ustring) \<Rightarrow> 's backend \<Rightarrow> 's connection" where
  "served ft backend bytes s =
     (Some (fst (handle_connection ft backend bytes s)), snd (handle_connection ft backend bytes s))"

text \<open>C38. The socket is transparent: a client whose requests go to a server running a backend gets, for
  every allowed method, the result or the error code that the backend itself gives, with the same
  effect on its state; only a request or a result that is too long becomes an error.\<close>

theorem rpc_transparent:
  assumes "meth \<in> ALLOWED_METHODS" and "json_ok (JObj params)"
    and "list_all scalar i" and "length i \<le> 64" and "good_result (fst (backend meth params s))"
  shows "request_once ft (served ft backend) i meth params s =
    (if MAX_REQUEST_BYTES < length (request_line i meth params)
     then (Inl (Coded (ustr ''request_too_large'')), s)
     else (seen_by_client i (fst (backend meth params s)), snd (backend meth params s)))"
proof (cases "MAX_REQUEST_BYTES < length (request_line i meth params)")
  case True
  then show ?thesis by (simp add: request_once_def)
next
  case False
  then have req: "check_request ft (read_line (MAX_REQUEST_BYTES + 1) (request_line i meth params))
      = (JStr i, Inr (meth, params))"
    using assms(1-4) allowed_method_ok [OF assms(1)] by (intro check_request_line) auto
  obtain r s' where b: "backend meth params s = (r, s')" by (cases "backend meth params s")
  have large: "length (ustr ''response_too_large'') \<le> 64" by simp
  show ?thesis
  proof (cases r)
    case (Inl f)
    with assms(5) b have code: "list_all scalar (failure_code f)" "length (failure_code f) \<le> 64"
      by (simp_all add: good_result_def)
    with False b Inl req show ?thesis
      using check_error_response [OF assms(3) code(1) assms(4) code(2), of ft]
        error_line_short [OF assms(4) code(2)]
      by (simp add: request_once_def Let_def served_def handle_connection_def encode_response_def
          seen_by_client_def del: failure_code.simps)
  next
    case (Inr result)
    with assms(5) b have result: "json_ok (JObj result)" by (simp add: good_result_def)
    show ?thesis
    proof (cases "MAX_RESPONSE_BYTES < length (encode_line (ok_response (JStr i) result))")
      case True
      then show ?thesis
        using False b Inr req check_error_response [OF assms(3) scalar_names(9) assms(4) large, of ft]
        by (simp add: request_once_def Let_def served_def handle_connection_def encode_response_def
            seen_by_client_def)
    next
      case small: False
      then show ?thesis
        using False b Inr req check_ok_response [OF assms(3) result assms(4), of ft]
        by (simp add: request_once_def Let_def served_def handle_connection_def encode_response_def
            seen_by_client_def)
    qed
  qed
qed


text \<open>An example: a backend without state that answers every request with its parameters.\<close>

definition echo_backend :: "unit backend" where
  "echo_backend meth params s = (if meth = ustr ''overview'' then Inr params else Inl (Coded (ustr ''unknown_action'')), s)"

lemma rpc_transparent_witness:
  "request_once (\<lambda>t. t) (served (\<lambda>t. t) echo_backend) [97, 98] (ustr ''overview'') [] () = (Inr [], ())"
proof -
  have "length (request_line [97, 98] (ustr ''overview'') []) \<le> MAX_REQUEST_BYTES"
    and "length (encode_line (ok_response (JStr [97, 98]) [])) \<le> MAX_RESPONSE_BYTES"
    by (simp_all add: request_line_def ok_response_def encode_line_def quote_def escape_char_def ustr_def
        MAX_REQUEST_BYTES_def MAX_RESPONSE_BYTES_def)
  then show ?thesis
    using rpc_transparent [of "ustr ''overview''" "[]" "[97, 98]" echo_backend "()" "\<lambda>t. t"]
    by (simp add: echo_backend_def ALLOWED_METHODS_def READ_ONLY_METHODS_def scalar_def surrogate_def
        good_result_def seen_by_client_def)
qed

text \<open>C39. Whatever bytes arrive, the server calls the backend at most once, and only for an allowed
  method with an object of parameters; everything else leaves the backend's state alone.\<close>

theorem server_calls_allowed_methods:
  "snd (handle_connection ft backend bytes s) = s
   \<or> (\<exists>meth \<in> ALLOWED_METHODS. \<exists>params.
        snd (handle_connection ft backend bytes s) = snd (backend meth params s))"
proof -
  have "request_call v i m p = Inr (meth, params) \<Longrightarrow> meth \<in> ALLOWED_METHODS" for v i m p meth params
    by (induction v i m p rule: request_call.induct) (auto split: if_splits)
  then have ok: "meth \<in> ALLOWED_METHODS" if "check_request ft raw = (i, Inr (meth, params))" for raw i meth params
    using that by (auto simp: check_request_def Let_def split: line_read.splits if_splits sum.splits json.splits)
  obtain i call where c: "check_request ft (read_line (MAX_REQUEST_BYTES + 1) bytes) = (i, call)"
    by (cases "check_request ft (read_line (MAX_REQUEST_BYTES + 1) bytes)")
  show ?thesis
  proof (cases call)
    case (Inl code)
    with c show ?thesis by (simp add: handle_connection_def)
  next
    case (Inr mp)
    obtain meth params where mp: "mp = (meth, params)" by (cases mp)
    have "snd (handle_connection ft backend bytes s) = snd (backend meth params s)"
      using c Inr mp by (simp add: handle_connection_def split: prod.split sum.split)
    with ok c Inr mp show ?thesis by blast
  qed
qed

text \<open>A connection that keeps what was sent and what came back, and the line read from the latter.\<close>

type_synonym exchange = "blob \<times> blob option"

definition logged :: "'s connection \<Rightarrow> (exchange list \<times> 's) connection" where
  "logged connect bytes =
     (\<lambda>(log, s). (fst (connect bytes s), log @ [(bytes, fst (connect bytes s))], snd (connect bytes s)))"

definition answer_line :: "blob option \<Rightarrow> line_read" where
  "answer_line answer =
     (case answer of None \<Rightarrow> Incomplete | Some received \<Rightarrow> read_line (MAX_RESPONSE_BYTES + 1) received)"

definition unanswered :: "exchange \<Rightarrow> bool" where
  "unanswered x \<longleftrightarrow> answer_line (snd x) = Incomplete"

text \<open>What the exchanges \<open>log\<close>, the first of them the attempt \<open>a\<close>, may make of a call with \<open>left\<close>
  attempts: the result is read off the last answer; an error code is that of the last answer, or
  says that no attempt was answered, or that the request is too large to send; the
  \<open>ValueError\<close> comes from \<open>json.loads\<close> of the last answer.\<close>

definition call_outcome ::
  "(ustring \<Rightarrow> ustring) \<Rightarrow> (nat \<Rightarrow> ustring) \<Rightarrow> nat \<Rightarrow> nat \<Rightarrow> exchange list \<Rightarrow> failure + json_object \<Rightarrow> bool" where
  "call_outcome ft rid a left log r \<longleftrightarrow>
    (let response = check_response ft (rid (a + length log - 1)) (answer_line (snd (last log))) in
     case r of
       Inr result \<Rightarrow> log \<noteq> [] \<and> response = Inr result
     | Inl (Coded code) \<Rightarrow> log \<noteq> [] \<and> response = Inl (Coded code)
         \<or> code = ustr ''core_unavailable'' \<and> list_all unanswered log \<and> length log = left
         \<or> code = ustr ''request_too_large'' \<and> list_all unanswered log
     | Inl BadValue \<Rightarrow> log \<noteq> [] \<and> response = Inl BadValue
         \<and> (\<exists>line. answer_line (snd (last log)) = Line line \<and> loads_bytes ft line = Inl ''ValueError'')
     | Inl Unreachable \<Rightarrow> False
     | Inl Crashed \<Rightarrow> False)"

lemma check_response_cases:
  "check_response ft i l = Inl Unreachable \<longleftrightarrow> l = Incomplete"
  "check_response ft i l \<noteq> Inl Crashed"
  "check_response ft i l = Inl BadValue
     \<Longrightarrow> \<exists>line. l = Line line \<and> loads_bytes ft line = Inl ''ValueError''"
  by (auto simp: check_response_def Let_def split: line_read.splits sum.splits json.splits if_splits
      option.splits)

lemma request_once_logged:
  "request_once ft (logged connect) i meth params (log, s)
     = (if MAX_REQUEST_BYTES < length (request_line i meth params)
        then (Inl (Coded (ustr ''request_too_large'')), log, s)
        else let (answer, s') = connect (request_line i meth params) s in
          (check_response ft i (answer_line answer), log @ [(request_line i meth params, answer)], s'))"
  by (auto simp: request_once_def logged_def answer_line_def check_response_def Let_def
      split: prod.splits option.splits)

lemma call_outcome_once:
  "check_response ft (rid a) (answer_line answer) = r \<Longrightarrow> r \<noteq> Inl Unreachable
   \<Longrightarrow> call_outcome ft rid a left [(sent, answer)] r"
  using check_response_cases(2,3) [of ft "rid a" "answer_line answer"]
  by (auto simp: call_outcome_def split: sum.splits failure.splits)

lemma call_outcome_again:
  assumes "call_outcome ft rid (Suc a) left log r" and "unanswered x" and "0 < left"
  shows "call_outcome ft rid a (Suc left) (x # log) r"
  using assms by (cases "log = []") (auto simp: call_outcome_def Let_def split: sum.splits failure.splits)

lemma request_attempts_logged:
  "0 < left \<Longrightarrow> \<exists>r ex s'. request_attempts ft (logged connect) rid meth params a left (log, s) = (r, log @ ex, s')
     \<and> length ex \<le> left \<and> map fst ex = map (\<lambda>i. request_line (rid i) meth params) [a ..< a + length ex]
     \<and> list_all unanswered (butlast ex) \<and> call_outcome ft rid a left ex r"
proof (induction left arbitrary: a log s)
  case (Suc left)
  let ?line = "request_line (rid a) meth params"
  show ?case
  proof (cases "MAX_REQUEST_BYTES < length ?line")
    case True
    then show ?thesis by (simp add: request_once_logged call_outcome_def)
  next
    case False
    obtain answer s' where conn: "connect ?line s = (answer, s')" by fastforce
    let ?r = "check_response ft (rid a) (answer_line answer)"
    have once: "request_once ft (logged connect) (rid a) meth params (log, s) = (?r, log @ [(?line, answer)], s')"
      using False by (simp add: request_once_logged conn)
    show ?thesis
    proof (cases "?r = Inl Unreachable")
      case lost: True
      then have un: "unanswered (?line, answer)"
        by (simp add: unanswered_def check_response_cases(1))
      show ?thesis
      proof (cases left)
        case 0
        then show ?thesis using lost un once by (simp add: call_outcome_def)
      next
        case (Suc n)
        then have "0 < left" by simp
        from Suc.IH [OF this, of "Suc a" "log @ [(?line, answer)]" s'] obtain r ex s2 where
          rest: "request_attempts ft (logged connect) rid meth params (Suc a) left (log @ [(?line, answer)], s')
              = (r, log @ (?line, answer) # ex, s2)"
            "length ex \<le> left" "map fst ex = map (\<lambda>i. request_line (rid i) meth params) [Suc a ..< Suc a + length ex]"
            "list_all unanswered (butlast ex)" "call_outcome ft rid (Suc a) left ex r"
          by auto
        then show ?thesis
          using lost once un Suc call_outcome_again [OF rest(5) un \<open>0 < left\<close>]
          by (intro exI [of _ r] exI [of _ "(?line, answer) # ex"] exI [of _ s2])
            (simp add: upt_conv_Cons del: upt_Suc)
      qed
    next
      case False
      with once call_outcome_once [where rid = rid and a = a and answer = answer, OF refl False, of "Suc left" ?line]
      show ?thesis
        by (intro exI [of _ ?r] exI [of _ "[(?line, answer)]"] exI [of _ s'])
          (auto split: sum.splits failure.splits)
    qed
  qed
qed simp

text \<open>C40. A request that changes something is sent at most once, a reading one at most twice, each time
  as the request line with the id of the attempt and again only when the first attempt got no
  complete answer. The caller gets the result or the error code that the last answer holds, or an error
  code saying that nothing was answered or that the request is too large; the one other way out is the
  raw \<open>ValueError\<close> of \<open>json.loads\<close> for an answer with an over-long integer, which the client
  does not catch.\<close>

theorem writes_sent_once:
  "case client_request ft (logged connect) rid meth params ([], s) of (r, log, s') \<Rightarrow>
     length log \<le> (if meth \<in> WRITE_METHODS then 1 else 2)
     \<and> map fst log = map (\<lambda>a. request_line (rid a) meth params) [0 ..< length log]
     \<and> list_all unanswered (butlast log)
     \<and> call_outcome ft rid 0 (if meth \<in> READ_ONLY_METHODS then 2 else 1) log r"
proof -
  have "meth \<notin> READ_ONLY_METHODS" if "meth \<in> WRITE_METHODS"
    using that by (auto simp: WRITE_METHODS_def READ_ONLY_METHODS_def ustr_def)
  then show ?thesis
    using request_attempts_logged [of "if meth \<in> READ_ONLY_METHODS then 2 else 1" ft connect rid meth params 0 "[]" s]
    unfolding client_request_def by (cases "meth \<in> READ_ONLY_METHODS") auto
qed

end
