(* ===== verification/Backend.thy ===== *)
theory Backend
  imports Core Cli Rpc
begin

text \<open>
  \<open>dashboard_backend.py\<close>: what the running core does for the dashboard. A handler takes the decoded
  parameters of a request and runs on the \<open>core\<close>. A \<open>DashboardBackendError\<close> is the exception
  \<open>backend:<code>\<close>. The parameters of the model are the cipher of the evidence, SHA-256, the
  sizes the database file reports, the Unicode tables and how Python writes a float.
\<close>

definition PAGE_SIZE :: int where "PAGE_SIZE = 50"
definition IDENTITY_CACHE_LIMIT :: nat where "IDENTITY_CACHE_LIMIT = 256"
definition IDENTITY_CACHE_SECONDS :: int where "IDENTITY_CACHE_SECONDS = 5 * 60"
definition IDENTITY_FAILURE_CACHE_SECONDS :: int where "IDENTITY_FAILURE_CACHE_SECONDS = 30"
definition IDENTITY_BATCH_SIZE :: nat where "IDENTITY_BATCH_SIZE = 100"

record case_protector =
  cp_open :: "blob \<Rightarrow> exn + json_object"
  cp_seal :: "nat \<Rightarrow> json \<Rightarrow> exn + blob"

record backend =
  bk_gatekeeper :: gatekeeper
  bk_mute_days :: int
  bk_case_protector :: "case_protector option"
  bk_sha256 :: "blob \<Rightarrow> blob"
  bk_database_stats :: "store \<Rightarrow> database_stats"
  bk_decimals :: "nat \<Rightarrow> nat option"
  bk_float_text :: "ustring \<Rightarrow> ustring"

definition backend_error :: "string \<Rightarrow> ('a, 'w) prog_on" where
  "backend_error code = raise_exn (''backend:'' @ code)"

definition failure_of :: "exn \<Rightarrow> failure" where
  "failure_of e =
    (if take 8 e = ''backend:'' then Coded (ustr (drop 8 e))
     else if e \<in> {''ValueError'', ''UnicodeEncodeError'', ''UnicodeDecodeError'', ''JSONDecodeError''} then BadValue
     else Crashed)"

subsection \<open>Parameters\<close>

text \<open>\<open>params.get(name)\<close>: an absent parameter and \<open>null\<close> are both \<open>None\<close>.\<close>

definition param :: "json_object \<Rightarrow> string \<Rightarrow> json" where
  "param params name = (case map_of params (ustr name) of None \<Rightarrow> JNull | Some v \<Rightarrow> v)"

definition invalid :: exn where
  "invalid = ''backend:invalid_request''"

definition positive_int :: "json_object \<Rightarrow> string \<Rightarrow> int \<Rightarrow> exn + int" where
  "positive_int params name maximum = (case param params name of
      JInt i \<Rightarrow> if i < 1 \<or> i > maximum then Inl invalid else Inr i
    | _ \<Rightarrow> Inl invalid)"

definition page_param :: "json_object \<Rightarrow> exn + int" where
  "page_param params = positive_int params ''page'' 100000"

definition forget_days :: "json_object \<Rightarrow> exn + int" where
  "forget_days params = (case positive_int params ''days'' 365 of
      Inl e \<Rightarrow> Inl e | Inr days \<Rightarrow> if days \<notin> {30, 90, 180, 365} then Inl invalid else Inr days)"

definition reason_char :: "nat \<Rightarrow> bool" where
  "reason_char c \<longleftrightarrow> (97 \<le> c \<and> c \<le> 122) \<or> is_digit c \<or> c = 95"

definition ascii_string :: "ustring \<Rightarrow> string" where
  "ascii_string t = map char_of t"

definition archive_filters :: "json_object \<Rightarrow> exn + string option \<times> int option" where
  "archive_filters params =
    (case (case param params ''reason'' of
        JNull \<Rightarrow> Inr None
      | JStr r \<Rightarrow> if r = [] \<or> 64 < length r \<or> \<not> list_all reason_char r then Inl invalid
                 else Inr (Some (ascii_string r))
      | _ \<Rightarrow> Inl invalid) of
      Inl e \<Rightarrow> Inl e
    | Inr reason \<Rightarrow> (case param params ''older_days'' of
        JNull \<Rightarrow> Inr (reason, None)
      | JInt d \<Rightarrow> if d \<notin> {30, 90, 180, 365} then Inl invalid else Inr (reason, Some d)
      | _ \<Rightarrow> Inl invalid))"

definition hex_key_char :: "nat \<Rightarrow> bool" where
  "hex_key_char c \<longleftrightarrow> is_digit c \<or> (97 \<le> c \<and> c \<le> 102)"

definition sender_key_param :: "json_object \<Rightarrow> exn + sender_key" where
  "sender_key_param params = (case param params ''sender_key'' of
      JStr k \<Rightarrow> if length k \<noteq> 64 \<or> \<not> list_all hex_key_char k then Inl invalid else Inr (ascii_string k)
    | _ \<Rightarrow> Inl invalid)"

definition page_exists :: "int \<Rightarrow> int \<Rightarrow> bool" where
  "page_exists page count \<longleftrightarrow> page = 1 \<or> (page - 1) * PAGE_SIZE < count"

definition require_page :: "int \<Rightarrow> int \<Rightarrow> ('w \<Rightarrow> (exn + unit) \<times> 'w)" where
  "require_page page count = (if page_exists page count then ret () else backend_error ''page_not_found'')"

text \<open>\<open>None\<close> is no such page; the \<open>ValueError\<close> is that of \<open>int\<close> on too many digits.\<close>

definition query_page :: "(nat \<Rightarrow> nat option) \<Rightarrow> ustring \<Rightarrow> exn + int option" where
  "query_page nd raw_query =
    (let raw = (case Option.bind (parse_qs False raw_query) (first_value ''page'') of
          None \<Rightarrow> [49] | Some v \<Rightarrow> v) in
     if raw = [] \<or> \<not> list_all is_digit raw then Inr None
     else (case py_int nd raw of
         None \<Rightarrow> Inl ''ValueError''
       | Some page \<Rightarrow> Inr (if 1 \<le> page \<and> page \<le> 100000 then Some page else None)))"

subsection \<open>Identities\<close>

definition UNNAMED :: ustring where
  "UNNAMED = ustr ''Unnamed sender''"

definition named_parts :: "ustring option list \<Rightarrow> ustring list" where
  "named_parts xs = List.map_filter (\<lambda>x. case x of Some (c # cs) \<Rightarrow> Some (c # cs) | _ \<Rightarrow> None) xs"

definition identity_value :: "int \<Rightarrow> tg_profile \<Rightarrow> identity" where
  "identity_value user_id p =
    (let name = strip (join [32] (named_parts [up_first_name p, up_last_name p])) in
     \<lparr>id_user_id = user_id, id_name = Some (take 120 (if name = [] then UNNAMED else name)),
      id_username = (case up_username p of Some (c # cs) \<Rightarrow> Some (take 64 (c # cs)) | _ \<Rightarrow> None)\<rparr>)"

definition evict_identity :: "sender_key \<Rightarrow> core \<Rightarrow> core" where
  "evict_identity k c = c\<lparr>co_identities := filter (\<lambda>(j, _). j \<noteq> k) (co_identities c)\<rparr>"

text \<open>The entry becomes the last one, and the oldest ones go.\<close>

definition insert_identity :: "sender_key \<Rightarrow> int \<times> identity \<Rightarrow> core \<Rightarrow> core" where
  "insert_identity k entry c =
    (let es = filter (\<lambda>(j, _). j \<noteq> k) (co_identities c) @ [(k, entry)] in
     c\<lparr>co_identities := drop (length es - IDENTITY_CACHE_LIMIT) es\<rparr>)"

definition cache_identity :: "sender_key \<Rightarrow> identity \<Rightarrow> int \<Rightarrow> unit core_prog" where
  "cache_identity k v ttl =
    bind_prog monotonic (\<lambda>now. put_run (insert_identity k (now + ttl * SECOND, v)))"

definition expire_identities :: "int \<Rightarrow> core \<Rightarrow> core" where
  "expire_identities now c = c\<lparr>co_identities := filter (\<lambda>(_, expires_at, _). expires_at > now) (co_identities c)\<rparr>"

type_synonym identities = "sender_key \<rightharpoonup> identity"

text \<open>The loop over a page: identities the cache knows, and the senders to look up.\<close>

fun cached_identities ::
  "(blob \<Rightarrow> (int \<times> int) option) \<Rightarrow> int \<Rightarrow> (sender_key \<rightharpoonup> int \<times> identity) \<Rightarrow> (sender_key \<times> blob option) list
   \<Rightarrow> identities \<Rightarrow> identities \<times> (sender_key \<times> peer_key) list" where
  "cached_identities opener now cache [] found = (found, [])"
| "cached_identities opener now cache ((k, None) # items) found = cached_identities opener now cache items found"
| "cached_identities opener now cache ((k, Some reference) # items) found =
    (case opener reference of
       None \<Rightarrow> cached_identities opener now cache items found
     | Some (user_id, access_hash) \<Rightarrow>
         (case cache k of
            Some (expires_at, v) \<Rightarrow>
              if expires_at > now then cached_identities opener now cache items (found(k \<mapsto> v))
              else (let (f, ps) = cached_identities opener now cache items found
                    in (f, (k, PeerUser user_id access_hash) # ps))
          | None \<Rightarrow> (let (f, ps) = cached_identities opener now cache items found
                    in (f, (k, PeerUser user_id access_hash) # ps))))"

fun peer_user_id :: "peer_key \<Rightarrow> int" where
  "peer_user_id (PeerUser user_id _) = user_id"

text \<open>\<open>identities[key] = value\<close> and the cache, for one batch.\<close>

fun remember :: "int \<Rightarrow> (sender_key \<times> identity) list \<Rightarrow> identities \<Rightarrow> identities core_prog" where
  "remember ttl [] found = ret found"
| "remember ttl ((k, v) # rest) found = then_prog (cache_identity k v ttl) (remember ttl rest (found(k \<mapsto> v)))"

definition fetch_profiles :: "peer_key list \<Rightarrow> tg_profile list core_prog" where
  "fetch_profiles peers = try_except
     (bind_prog (on_world (telegram (GetEntities peers))) (\<lambda>r.
        case r of ReplyUsers ps \<Rightarrow> ret ps | _ \<Rightarrow> raise_exn ''TypeError''))
     (ret [])"

definition resolve_batch :: "(sender_key \<times> peer_key) list \<Rightarrow> identities \<Rightarrow> identities core_prog" where
  "resolve_batch batch found =
    bind_prog (fetch_profiles (map snd batch)) (\<lambda>senders.
    bind_prog (remember IDENTITY_CACHE_SECONDS
        (map (\<lambda>((k, p), sender). (k, identity_value (peer_user_id p) sender)) (zip batch senders)) found) (\<lambda>found.
      remember IDENTITY_FAILURE_CACHE_SECONDS
        (map (\<lambda>(k, p). (k, \<lparr>id_user_id = peer_user_id p, id_name = None, id_username = None\<rparr>))
          (drop (length senders) batch)) found))"

function resolve_identities :: "(sender_key \<times> peer_key) list \<Rightarrow> identities \<Rightarrow> identities core_prog" where
  "resolve_identities [] found = ret found"
| "resolve_identities (p # ps) found =
    bind_prog (resolve_batch (take IDENTITY_BATCH_SIZE (p # ps)) found)
      (resolve_identities (drop IDENTITY_BATCH_SIZE (p # ps)))"
  by pat_completeness auto
termination
  by (relation "measure (\<lambda>(ps, _). length ps)") (auto simp: IDENTITY_BATCH_SIZE_def)

definition page_identities ::
  "(blob \<Rightarrow> (int \<times> int) option) \<Rightarrow> (sender_key \<times> blob option) list \<Rightarrow> identities core_prog" where
  "page_identities opener items =
    bind_prog monotonic (\<lambda>now.
    then_prog (put_run (expire_identities now))
    (bind_prog (get_run co_identities) (\<lambda>cache.
       let (found, pending) = cached_identities opener now (map_of cache) items Map.empty
       in resolve_identities pending found)))"

definition review_peer :: "backend \<Rightarrow> blob \<Rightarrow> (int \<times> int) option" where
  "review_peer bk reference =
    map_option (\<lambda>(user_id, access_hash, _). (user_id, access_hash)) (prot_open_review (gk_protector (bk_gatekeeper bk)) reference)"

definition review_identities :: "backend \<Rightarrow> review_item list \<Rightarrow> identities core_prog" where
  "review_identities bk items = page_identities (review_peer bk) (map (\<lambda>i. (rv_sender i, rv_reference i)) items)"

definition case_identities :: "backend \<Rightarrow> active_restriction list \<Rightarrow> identities core_prog" where
  "case_identities bk items =
    page_identities (prot_open_restriction (gk_protector (bk_gatekeeper bk))) (map (\<lambda>i. (ar_sender i, ar_reference i)) items)"

end
