(* ===== verification/Backend_Requests.thy ===== *)
theory Backend_Requests
  imports Backend
begin

text \<open>
  \<open>dashboard_backend.py\<close>, second part: the handlers of \<open>InProcessDashboardBackend.request\<close>, their
  JSON answers and the versions of the pages.
\<close>

subsection \<open>JSON values\<close>

definition jopt :: "('a \<Rightarrow> json) \<Rightarrow> 'a option \<Rightarrow> json" where
  "jopt f x = (case x of None \<Rightarrow> JNull | Some v \<Rightarrow> f v)"

fun status_text :: "sender_status \<Rightarrow> string" where
  "status_text UNKNOWN = ''unknown''"
| "status_text CHALLENGE_ISSUING = ''challenge_issuing''"
| "status_text CHALLENGE_ARCHIVING = ''challenge_archiving''"
| "status_text CHALLENGED = ''challenged''"
| "status_text PROVISIONAL = ''provisional''"
| "status_text ALLOWED = ''allowed''"
| "status_text QUARANTINED = ''quarantined''"
| "status_text SUPPRESSED = ''suppressed''"

fun review_status_text :: "review_status \<Rightarrow> string" where
  "review_status_text RevPending = ''pending''"
| "review_status_text RevLegitimate = ''legitimate''"
| "review_status_text RevSpam = ''spam''"
| "review_status_text RevDismissed = ''dismissed''"

definition identity_json :: "identity \<Rightarrow> json" where
  "identity_json v = JObj [jfield ''user_id'' (JInt (id_user_id v)), jfield ''name'' (jopt JStr (id_name v)),
     jfield ''username'' (jopt JStr (id_username v))]"

text \<open>The dictionary \<open>enforcement_statistics\<close> returns.\<close>

definition stats_items :: "enforcement_stats \<Rightarrow> (string \<times> int) list" where
  "stats_items s =
     [(''quarantined'', es_quarantined s), (''suppressed'', es_suppressed s), (''reviewable'', es_reviewable s),
      (''identifiable'', es_identifiable s), (''unreviewable'', es_unreviewable s),
      (''unidentified'', es_unidentified s)]
     @ map (\<lambda>(reason, n). (''reason:'' @ reason, n)) (es_reasons s)"

definition stats_json :: "enforcement_stats \<Rightarrow> json" where
  "stats_json s = JObj (map (\<lambda>(k, n). jfield k (JInt n)) (stats_items s))"

text \<open>\<open>sorted(stats.items())\<close>, as JSON.\<close>

definition sorted_stats :: "enforcement_stats \<Rightarrow> json" where
  "sorted_stats s = JArr (map (\<lambda>(k, n). JArr [jtext k, JInt n]) (sort_key fst (stats_items s)))"

definition case_value :: "active_restriction \<Rightarrow> identity option \<Rightarrow> json_object" where
  "case_value i v =
     [jfield ''sender_key'' (jtext (ar_sender i)), jfield ''status'' (jtext (status_text (ar_status i))),
      jfield ''reason'' (jtext (ar_reason i)), jfield ''suppressed_until'' (jopt JInt (ar_suppressed_until i)),
      jfield ''updated_at'' (JInt (ar_updated_at i)), jfield ''has_evidence'' (JBool (ar_envelope i \<noteq> None)),
      jfield ''evidence_created_at'' (jopt JInt (ar_evidence_created_at i)),
      jfield ''evidence_expires_at'' (jopt JInt (ar_evidence_expires_at i)),
      jfield ''archived_at'' (jopt JInt (ar_archived_at i)),
      jfield ''has_open_actions'' (JBool (ar_has_open_actions i)),
      jfield ''has_identity'' (JBool (ar_reference i \<noteq> None)), jfield ''identity'' (jopt identity_json v)]"

definition case_version :: "active_restriction \<Rightarrow> int \<Rightarrow> json" where
  "case_version i now = JArr
     [jtext (ar_sender i), jtext (status_text (ar_status i)), jtext (ar_reason i),
      jopt JInt (ar_suppressed_until i), JInt (ar_updated_at i), JBool (ar_envelope i \<noteq> None),
      jopt JInt (ar_evidence_expires_at i), JBool (ar_reference i \<noteq> None), jopt JInt (ar_archived_at i),
      JInt (if ar_has_open_actions i then 1 else 0),
      JBool (case ar_suppressed_until i of None \<Rightarrow> False | Some until \<Rightarrow> until \<le> now)]"

subsection \<open>Overview\<close>

definition STORAGE_STATS :: "string list" where
  "STORAGE_STATS = [''attention_cases'', ''archived_restrictions'', ''database_page_count'',
     ''database_freelist_count'', ''database_page_size'', ''database_logical_bytes'',
     ''database_freelist_percent'', ''auto_forgotten'', ''auto_forget_skipped'', ''temporary_released'']"

fun picked :: "(string \<times> stat_value) list \<Rightarrow> string list \<Rightarrow> exn + json_object" where
  "picked stats [] = Inr []"
| "picked stats (k # ks) = (case map_of stats k of
     None \<Rightarrow> Inl ''KeyError''
   | Some v \<Rightarrow> (case picked stats ks of Inl e \<Rightarrow> Inl e | Inr rest \<Rightarrow> Inr (jfield k (stat_json v) # rest)))"

definition overview :: "backend \<Rightarrow> json_object core_prog" where
  "overview bk =
    bind_prog (ask_now (enforcement_statistics None)) (\<lambda>stats.
    bind_prog (ask_now (\<lambda>now s. statistics now (bk_database_stats bk s) s)) (\<lambda>runtime_stats.
    bind_prog (ask get_mode) (\<lambda>mode.
    bind_prog (ask_now pending_review_count) (\<lambda>pending.
    bind_prog (need_sum (picked runtime_stats STORAGE_STATS)) (\<lambda>storage.
    ret [jfield ''mode'' (jtext (mode_text mode)), jfield ''pending_reviews'' (JInt pending),
         jfield ''active_stats'' (stats_json stats), jfield ''storage_stats'' (JObj storage)])))))"

subsection \<open>Pages\<close>

definition review_page :: "int \<Rightarrow> int \<Rightarrow> (int \<times> review_item list) core_prog" where
  "review_page page now =
    bind_prog (ask (pending_review_count now)) (\<lambda>count.
    then_prog (require_page page count)
    (bind_prog (ask (review_items PAGE_SIZE ((page - 1) * PAGE_SIZE) now)) (\<lambda>r.
     bind_prog (need_sum r) (\<lambda>items. ret (count, items)))))"

definition case_page ::
  "int \<Rightarrow> bool \<Rightarrow> string option \<Rightarrow> int option \<Rightarrow> int \<Rightarrow> (int \<times> active_restriction list) core_prog" where
  "case_page page archived reason older_days now =
    (let archived_before = map_option (\<lambda>days. now - days * 86400) older_days in
     bind_prog (ask_now (active_restriction_count (Some archived) reason archived_before)) (\<lambda>count.
     then_prog (require_page page count)
     (bind_prog (ask (active_restrictions (Some archived) reason archived_before (Some PAGE_SIZE)
          ((page - 1) * PAGE_SIZE) now)) (\<lambda>r.
      bind_prog (need_sum r) (\<lambda>items. ret (count, items))))))"

text \<open>SQLite's integers have 64 bits, and its texts are UTF-8.\<close>

definition sqlite_int :: "int \<Rightarrow> int core_prog" where
  "sqlite_int i = (if int64 i then ret i else raise_exn ''OverflowError'')"

definition sqlite_text :: "ustring \<Rightarrow> ustring core_prog" where
  "sqlite_text t = (if list_ex surrogate t then raise_exn ''UnicodeEncodeError'' else ret t)"

definition restriction_of_text :: "ustring \<Rightarrow> int \<Rightarrow> store \<Rightarrow> active_restriction option" where
  "restriction_of_text t now s =
    (if list_all (\<lambda>c. c < 256) t then active_restriction_of (ascii_string t) now s else None)"

text \<open>The payload of a page's version: \<open>None\<close> stands for the early \<open>return None\<close>.\<close>

definition review_page_payload :: "int \<Rightarrow> int \<Rightarrow> json option core_prog" where
  "review_page_payload page now =
    bind_prog (attempt (review_page page now)) (\<lambda>r. case r of
      Inl e \<Rightarrow> if take 8 e = ''backend:'' then ret None else raise_exn e
    | Inr (_, items) \<Rightarrow> ret (Some (JArr (map (\<lambda>i. JArr [JInt (rv_id i), JInt (rv_updated_at i),
         JInt (rv_message_count i), jtext (rv_classification i), jtext (rv_signals i)]) items))))"

definition version_filters :: "backend \<Rightarrow> bool \<Rightarrow> ustring \<Rightarrow> exn + string option \<times> int option" where
  "version_filters bk archived raw_query =
    (let filters = (case parse_qs False raw_query of None \<Rightarrow> [] | Some fs \<Rightarrow> fs);
         reason = (case first_value ''reason'' filters of None \<Rightarrow> [] | Some v \<Rightarrow> [jfield ''reason'' (JStr v)]) in
     case first_value ''older_days'' filters of
       None \<Rightarrow> (if archived then archive_filters reason else Inr (None, None))
     | Some v \<Rightarrow> (case py_int (bk_decimals bk) v of
         None \<Rightarrow> Inl ''ValueError''
       | Some d \<Rightarrow> (if archived then archive_filters (reason @ [jfield ''older_days'' (JInt d)]) else Inr (None, None))))"

definition case_page_payload :: "backend \<Rightarrow> bool \<Rightarrow> ustring \<Rightarrow> int \<Rightarrow> int \<Rightarrow> json option core_prog" where
  "case_page_payload bk archived raw_query page now =
    bind_prog (attempt
      (bind_prog (need_sum (version_filters bk archived raw_query)) (\<lambda>(reason, older_days).
       case_page page archived reason older_days now))) (\<lambda>r. case r of
      Inl e \<Rightarrow> if failure_of e = Crashed then raise_exn e else ret None
    | Inr (_, items) \<Rightarrow>
        bind_prog (ask (enforcement_statistics (Some archived) now)) (\<lambda>stats.
        bind_prog (ask (enforcement_statistics None now)) (\<lambda>all.
        ret (Some (JArr [sorted_stats stats, JInt (es_unidentified all),
          JArr (map (\<lambda>i. case_version i now) items)])))))"

definition review_payload :: "backend \<Rightarrow> ustring \<Rightarrow> int \<Rightarrow> json option core_prog" where
  "review_payload bk number now = (case py_int (bk_decimals bk) number of
      None \<Rightarrow> ret None
    | Some i \<Rightarrow>
        bind_prog (sqlite_int i) (\<lambda>i.
        bind_prog (ask (review_item_by_id i)) (\<lambda>item.
        ret (Some (jopt (\<lambda>r. JArr [JInt (rv_id r), jtext (review_status_text (rv_status r)), JInt (rv_updated_at r),
          JInt (rv_message_count r), JBool (rv_reference r \<noteq> None), JBool (rv_expires_at r > now)]) item)))))"

definition case_payload :: "ustring \<Rightarrow> int \<Rightarrow> json option core_prog" where
  "case_payload key now =
    (if key = [] \<or> contains key [47] then ret None
     else
       bind_prog (sqlite_text key) (\<lambda>t.
       bind_prog (ask (restriction_of_text t now)) (\<lambda>restriction.
       ret (Some (jopt (\<lambda>i. case_version i now) restriction)))))"

definition overview_payload :: "int \<Rightarrow> json core_prog" where
  "overview_payload now =
    bind_prog (ask get_mode) (\<lambda>mode.
    bind_prog (ask (enforcement_statistics None now)) (\<lambda>stats.
    bind_prog (ask_now (active_restriction_count (Some False) None None)) (\<lambda>attention.
    bind_prog (ask_now (active_restriction_count (Some True) None None)) (\<lambda>archived.
    bind_prog (ask (pending_review_count now)) (\<lambda>pending.
    ret (JArr [jtext (mode_text mode), sorted_stats stats, JInt attention, JInt archived, JInt pending]))))))"

definition page_payload :: "backend \<Rightarrow> split_url \<Rightarrow> int \<Rightarrow> int \<Rightarrow> json option core_prog" where
  "page_payload bk parsed page now =
    (let path = url_path parsed in
     if path = ustr ''/'' then bind_prog (overview_payload now) (\<lambda>v. ret (Some v))
     else if path = ustr ''/review'' then review_page_payload page now
     else if path \<in> {ustr ''/cases'', ustr ''/cases/archive''}
       then case_page_payload bk (path = ustr ''/cases/archive'') (url_query parsed) page now
     else if starts_with path (ustr ''/review/'') then review_payload bk (drop 8 path) now
     else if starts_with path (ustr ''/cases/'') then case_payload (drop 7 path) now
     else ret None)"

definition version_text :: "backend \<Rightarrow> json \<Rightarrow> ustring" where
  "version_text bk payload = take 20 (ustr (hex_string (bk_sha256 bk (bytes_of (dumps True payload)))))"

definition page_version :: "backend \<Rightarrow> ustring \<Rightarrow> ustring option core_prog" where
  "page_version bk target =
    bind_prog (need ''ValueError'' (urlsplit (gk_unicode (bk_gatekeeper bk)) target)) (\<lambda>parsed.
    bind_prog (need_sum (query_page (bk_decimals bk) (url_query parsed))) (\<lambda>page.
    case page of
      None \<Rightarrow> ret None
    | Some page \<Rightarrow>
        bind_prog time_now (\<lambda>now.
        bind_prog (page_payload bk parsed page now) (\<lambda>payload.
        ret (map_option (version_text bk) payload)))))"

definition page_version_request :: "backend \<Rightarrow> json_object \<Rightarrow> json_object core_prog" where
  "page_version_request bk params = (case param params ''target'' of
      JStr target \<Rightarrow>
        bind_prog (page_version bk target) (\<lambda>v. ret [jfield ''version'' (jopt JStr v)])
    | _ \<Rightarrow> backend_error ''invalid_request'')"


subsection \<open>Reviews\<close>

definition review_list :: "backend \<Rightarrow> json_object \<Rightarrow> json_object core_prog" where
  "review_list bk params =
    bind_prog (need_sum (page_param params)) (\<lambda>page.
    bind_prog time_now (\<lambda>now.
    bind_prog (review_page page now) (\<lambda>(count, items).
    bind_prog (review_identities bk items) (\<lambda>found.
    ret [jfield ''page'' (JInt page), jfield ''total'' (JInt count),
      jfield ''items'' (JArr (map (\<lambda>i. JObj
        [jfield ''id'' (JInt (rv_id i)), jfield ''classification'' (jtext (rv_classification i)),
         jfield ''signals'' (jtext (rv_signals i)), jfield ''message_count'' (JInt (rv_message_count i)),
         jfield ''updated_at'' (JInt (rv_updated_at i)),
         jfield ''identity'' (jopt identity_json (found (rv_sender i)))]) items))]))))"

text \<open>One message and one profile of Telegram; an unknown user is a \<open>ValueError\<close>.\<close>

definition get_message :: "peer_key \<Rightarrow> int \<Rightarrow> (tg_message \<times> string) option core_prog" where
  "get_message peer i = bind_prog (on_world (telegram (GetMessage peer i))) (\<lambda>r.
     case r of ReplyMessage m \<Rightarrow> ret m | _ \<Rightarrow> raise_exn ''TypeError'')"

definition get_profile :: "peer_key \<Rightarrow> tg_profile core_prog" where
  "get_profile peer = bind_prog (on_world (telegram (GetEntities [peer]))) (\<lambda>r.
     case r of ReplyUsers (p # _) \<Rightarrow> ret p | _ \<Rightarrow> raise_exn ''ValueError'')"

definition message_text :: "(tg_message \<times> string) option \<Rightarrow> ustring option" where
  "message_text message = (case message of
      None \<Rightarrow> None
    | Some (m, media) \<Rightarrow> Some (if or_empty (tm_text m) \<noteq> [] then or_empty (tm_text m)
        else ustr (''[Non-text message: '' @ media @ '']'')))"

text \<open>\<open>None\<close> or an expired pending review is not found.\<close>

definition live_review_item :: "int \<Rightarrow> review_item option \<Rightarrow> review_item core_prog" where
  "live_review_item now item = (case item of
      None \<Rightarrow> backend_error ''review_not_found''
    | Some i \<Rightarrow> if rv_status i = RevPending \<and> rv_expires_at i \<le> now then backend_error ''review_not_found'' else ret i)"

definition review_detail :: "backend \<Rightarrow> json_object \<Rightarrow> json_object core_prog" where
  "review_detail bk params =
    bind_prog (need_sum (positive_int params ''review_id'' (2 ^ 31 - 1))) (\<lambda>review_id.
    bind_prog (ask (review_item_by_id review_id)) (\<lambda>found.
    bind_prog time_now (\<lambda>now.
    bind_prog (live_review_item now found) (\<lambda>item.
    case rv_reference item of
      None \<Rightarrow> backend_error ''review_not_pending''
    | Some reference \<Rightarrow>
        if rv_status item \<noteq> RevPending then backend_error ''review_not_pending''
        else
          bind_prog (need ''ValueError'' (prot_open_review (gk_protector (bk_gatekeeper bk)) reference))
            (\<lambda>(user_id, access_hash, message_id).
          bind_prog (get_message (PeerUser user_id access_hash) message_id) (\<lambda>message.
          bind_prog (get_profile (PeerUser user_id access_hash)) (\<lambda>sender.
          let v = identity_value user_id sender in
          then_prog (cache_identity (rv_sender item) v IDENTITY_CACHE_SECONDS)
            (ret [jfield ''id'' (JInt (rv_id item)), jfield ''classification'' (jtext (rv_classification item)),
               jfield ''signals'' (jtext (rv_signals item)), jfield ''features'' (jtext (rv_features item)),
               jfield ''message_count'' (JInt (rv_message_count item)),
               jfield ''updated_at'' (JInt (rv_updated_at item)), jfield ''user_id'' (JInt user_id),
               jfield ''identity'' (identity_json v), jfield ''message'' (jopt JStr (message_text message))])))))))) "

definition peer_from_review :: "backend \<Rightarrow> review_item \<Rightarrow> peer_key core_prog" where
  "peer_from_review bk item = (case rv_reference item of
      None \<Rightarrow> backend_error ''review_not_pending''
    | Some reference \<Rightarrow>
        bind_prog (need ''ValueError'' (review_peer bk reference)) (\<lambda>(user_id, access_hash).
        ret (PeerUser user_id access_hash)))"

text \<open>The evidence of a manual decision.\<close>

definition manual_payload :: "unicode \<Rightarrow> message_facts \<Rightarrow> json \<Rightarrow> json \<Rightarrow> json" where
  "manual_payload u f signals features = JObj
     [jfield ''schema_version'' (JInt 5), jfield ''text'' (JStr (f_text f)),
      jfield ''quote_text'' (JStr (f_quote_text f)), jfield ''preview_text'' (JStr (f_preview_text f)),
      jfield ''button_texts'' (JArr (map JStr (take 10 (f_button_texts f)))),
      jfield ''urls'' (JArr (map url_record_json (url_evidence u (f_urls f) (f_button_urls f) (f_preview_urls f)))),
      jfield ''quote_urls'' (JArr (map url_record_json (url_evidence u (f_quote_urls f) [] []))),
      jfield ''domains'' (JArr (map JStr (take 3 (f_domains f)))),
      jfield ''quote_domains'' (JArr (map JStr (take 3 (f_quote_domains f)))),
      jfield ''url_shape'' (url_shape_json (url_shape_of u (f_urls f))),
      jfield ''quote_url_shape'' (url_shape_json (url_shape_of u (f_quote_urls f))),
      jfield ''signals'' signals, jfield ''risk_score'' (jtext ''Manual decision''),
      jfield ''challenge_profile'' JNull, jfield ''planned_action'' (jtext ''manual_permanent_suppression''),
      jfield ''decision_basis'' (jtext ''manual_operator_decision''),
      jfield ''policy_version'' (jtext ''manual-review-v1''), jfield ''features'' features]"

definition capture_manual_enforcement :: "backend \<Rightarrow> review_item \<Rightarrow> peer_key \<Rightarrow> unit core_prog" where
  "capture_manual_enforcement bk item peer = (case (bk_case_protector bk, rv_reference item) of
      (Some cp, Some reference) \<Rightarrow>
        (let g = bk_gatekeeper bk; parsed = (\<lambda>t. loads (bk_float_text bk) (ustr t)) in
         try_except
           (bind_prog (need ''ValueError'' (prot_open_review (gk_protector g) reference)) (\<lambda>(_, _, message_id).
            bind_prog (get_message peer message_id) (\<lambda>message.
            case message of
              None \<Rightarrow> ret ()
            | Some (m, _) \<Rightarrow>
                bind_prog (need ''UnicodeEncodeError'' (facts_from_message (gk_unicode g) m)) (\<lambda>facts.
                bind_prog (need_sum (parsed (rv_signals item))) (\<lambda>signals.
                bind_prog (need_sum (parsed (rv_features item))) (\<lambda>features.
                bind_prog time_now (\<lambda>now.
                bind_prog (on_world (draw (\<lambda>n. cp_seal cp n (manual_payload (gk_unicode g) facts signals features)))) (\<lambda>sealed.
                bind_prog (need_sum sealed) (\<lambda>envelope.
                on_world (change (save_enforcement_review (rv_sender item) (Some reference) envelope ''manual_spam''
                  (now + gk_case_days g * 86400) now)))))))))))
           (ret ()))
    | _ \<Rightarrow> ret ())"

text \<open>\<open>_archive_and_mute\<close> has the body of \<open>TelegramActions.archive_and_mute\<close>.\<close>

definition backend_archive_and_mute :: "backend \<Rightarrow> peer_key \<Rightarrow> sender_key \<Rightarrow> bool core_prog" where
  "backend_archive_and_mute bk peer k = on_world (tg_archive_and_mute (bk_mute_days bk) (Some peer) k)"

definition decide_legitimate :: "backend \<Rightarrow> review_item \<Rightarrow> sender_state \<Rightarrow> unit core_prog" where
  "decide_legitimate bk item state =
    (let k = rv_sender item in
     then_prog
       (if status state \<in> GATEKEEPER_ARCHIVED_STATUSES then
          bind_prog (peer_from_review bk item) (\<lambda>peer.
          bind_prog (on_world (restore_dialog (Some peer) k)) (\<lambda>restored.
          if restored then ret () else backend_error ''telegram_action_failed''))
        else ret ())
     (then_prog (update_now (allow k))
     (then_prog (on_world (schedule (CancelTimeoutJob k)))
     (bind_prog (transact_now (decide_sender_reviews k RevLegitimate)) (\<lambda>r.
      bind_prog (need_sum r) (\<lambda>_. ret ()))))))"

text \<open>What a spam decision writes once the dialog is archived and muted.\<close>

definition suppress_manually :: "backend \<Rightarrow> review_item \<Rightarrow> blob \<Rightarrow> unit core_prog" where
  "suppress_manually bk item reference =
    (let k = rv_sender item; g = bk_gatekeeper bk in
     bind_prog (transact_now (decide_sender_reviews k RevSpam)) (\<lambda>r.
     bind_prog (need_sum r) (\<lambda>_.
     bind_prog time_now (\<lambda>now.
     bind_prog (on_world (restriction_reference_for g (Some reference))) (\<lambda>restriction.
     bind_prog (transact_now (suppress k ''manual_permanent_suppression'' None (Some reference) restriction)) (\<lambda>suppressed.
     bind_prog (transact_now (activate_enforcement_review k ''manual_permanent_suppression''
         (now + gk_case_days g * 86400) None)) (\<lambda>_.
     bind_prog (on_world (transact (schedule_action k ''manual_permanent_suppression'' reference now
         (revision suppressed) True now))) (\<lambda>action_id.
     bind_prog (on_world (transact (archive_restriction k now))) (\<lambda>_.
     then_prog (on_world (schedule (DialogDeletionJob action_id now)))
       (on_world (schedule (CancelTimeoutJob k))))))))))))"

definition decide_spam :: "backend \<Rightarrow> review_item \<Rightarrow> blob \<Rightarrow> sender_state \<Rightarrow> unit core_prog" where
  "decide_spam bk item reference state =
    (let k = rv_sender item in
     bind_prog (peer_from_review bk item) (\<lambda>peer.
     then_prog (if status state \<noteq> SUPPRESSED then capture_manual_enforcement bk item peer else ret ())
     (then_prog
       (if status state \<notin> GATEKEEPER_ARCHIVED_STATUSES then
          bind_prog (backend_archive_and_mute bk peer k) (\<lambda>muted.
          if muted then ret ()
          else bind_prog (on_world (transact (delete_enforcement_review k))) (\<lambda>_.
            backend_error ''telegram_action_failed''))
        else ret ())
       (suppress_manually bk item reference))))"

definition review_action :: "json \<Rightarrow> exn + string" where
  "review_action v = (case v of
      JStr t \<Rightarrow> if t \<in> {ustr ''legitimate'', ustr ''spam'', ustr ''dismiss''} then Inr (ascii_string t)
                else Inl ''backend:unknown_action''
    | JArr _ \<Rightarrow> Inl ''TypeError''
    | JObj _ \<Rightarrow> Inl ''TypeError''
    | _ \<Rightarrow> Inl ''backend:unknown_action'')"

definition review_decide :: "backend \<Rightarrow> json_object \<Rightarrow> json_object core_prog" where
  "review_decide bk params =
    bind_prog (need_sum (positive_int params ''review_id'' (2 ^ 31 - 1))) (\<lambda>review_id.
    bind_prog (ask (review_item_by_id review_id)) (\<lambda>found.
    bind_prog time_now (\<lambda>now.
    bind_prog (live_review_item now found) (\<lambda>first.
    then_prog await_lock
    (bind_prog (ask (review_item_by_id review_id)) (\<lambda>again.
    case again of
      None \<Rightarrow> backend_error ''review_already_decided''
    | Some item \<Rightarrow> (case rv_reference item of
        None \<Rightarrow> backend_error ''review_already_decided''
      | Some reference \<Rightarrow>
          if rv_status item \<noteq> RevPending then backend_error ''review_already_decided''
          else
            bind_prog time_now (\<lambda>now.
            if rv_expires_at item \<le> now then backend_error ''review_not_found''
            else
              bind_prog (need_sum (review_action (param params ''action''))) (\<lambda>action.
              bind_prog (ask (sender (rv_sender item))) (\<lambda>state.
              then_prog
                (if action = ''legitimate'' then decide_legitimate bk item state
                 else if action = ''spam'' then decide_spam bk item reference state
                 else bind_prog (transact_now (decide_sender_reviews (rv_sender item) RevDismissed)) (\<lambda>r.
                   bind_prog (need_sum r) (\<lambda>_. ret ())))
              (then_prog (put_run (evict_identity (rv_sender item)))
                (ret [jfield ''outcome'' (jtext ''completed'')]))))))))))))"

subsection \<open>Cases\<close>

definition case_list :: "backend \<Rightarrow> json_object \<Rightarrow> json_object core_prog" where
  "case_list bk params =
    bind_prog (need_sum (page_param params)) (\<lambda>page.
    bind_prog (case map_of params (ustr ''archived'') of
        None \<Rightarrow> ret False | Some (JBool b) \<Rightarrow> ret b | _ \<Rightarrow> backend_error ''invalid_request'') (\<lambda>archived.
    bind_prog (need_sum (if archived then archive_filters params else Inr (None, None))) (\<lambda>(reason, older_days).
    bind_prog time_now (\<lambda>now.
    bind_prog (case_page page archived reason older_days now) (\<lambda>(count, items).
    bind_prog (if archived then ret Map.empty else case_identities bk items) (\<lambda>found.
    bind_prog (ask_now (enforcement_statistics (Some archived))) (\<lambda>stats.
    bind_prog (ask_now (enforcement_statistics None)) (\<lambda>all.
    ret [jfield ''page'' (JInt page), jfield ''total'' (JInt count), jfield ''stats'' (stats_json stats),
      jfield ''unidentified_total'' (JInt (es_unidentified all)),
      jfield ''reason_filter'' (jopt jtext reason), jfield ''older_days'' (jopt JInt older_days),
      jfield ''items'' (JArr (map (\<lambda>i. JObj (case_value i (found (ar_sender i)))) items))]))))))))"

text \<open>The evidence of a case: its payload, or why there is none.\<close>

definition case_evidence :: "backend \<Rightarrow> active_restriction \<Rightarrow> (json_object \<times> bool \<times> string) core_prog" where
  "case_evidence bk item = (case (ar_envelope item, bk_case_protector bk) of
      (Some envelope, Some cp) \<Rightarrow> (case cp_open cp envelope of
          Inr payload \<Rightarrow> ret (payload, True, [])
        | Inl e \<Rightarrow> if failure_of e = BadValue then ret ([], False, ''authentication_failed'') else raise_exn e)
    | _ \<Rightarrow> ret ([], False, ''missing''))"

definition case_identity :: "backend \<Rightarrow> active_restriction \<Rightarrow> identity option core_prog" where
  "case_identity bk item = (case ar_reference item of
      None \<Rightarrow> ret None
    | Some reference \<Rightarrow> try_except
        (bind_prog (need ''ValueError'' (prot_open_restriction (gk_protector (bk_gatekeeper bk)) reference))
           (\<lambda>(user_id, access_hash).
         bind_prog (get_profile (PeerUser user_id access_hash)) (\<lambda>sender.
         let v = identity_value user_id sender in
         then_prog (cache_identity (ar_sender item) v IDENTITY_CACHE_SECONDS) (ret (Some v)))))
        (ret None))"

definition case_detail :: "backend \<Rightarrow> json_object \<Rightarrow> json_object core_prog" where
  "case_detail bk params =
    bind_prog (need_sum (sender_key_param params)) (\<lambda>k.
    bind_prog (ask_now (active_restriction_of k)) (\<lambda>found.
    case found of
      None \<Rightarrow> backend_error ''case_not_found''
    | Some item \<Rightarrow>
        bind_prog (case_evidence bk item) (\<lambda>(payload, available, unavailable_reason).
        bind_prog (case_identity bk item) (\<lambda>v.
        bind_prog (ask (dialog_snapshot_of k)) (\<lambda>snapshot.
        ret (case_value item v @
          [jfield ''payload'' (JObj payload), jfield ''evidence_available'' (JBool available),
           jfield ''evidence_unavailable_reason'' (jtext unavailable_reason),
           jfield ''has_dialog_snapshot'' (JBool (snapshot \<noteq> None))]))))))"

definition outcome :: "string \<Rightarrow> json_object core_prog" where
  "outcome text = ret [jfield ''outcome'' (jtext text)]"

definition keep_case :: "sender_key \<Rightarrow> json_object core_prog" where
  "keep_case k =
    then_prog await_lock
    (bind_prog (ask_now (active_restriction_of k)) (\<lambda>found.
     if (case found of None \<Rightarrow> True | Some item \<Rightarrow> ar_status item \<noteq> SUPPRESSED
           \<or> ar_suppressed_until item \<noteq> None \<or> ar_archived_at item \<noteq> None)
     then backend_error ''case_not_found''
     else
       bind_prog (transact_now (archive_restriction k)) (\<lambda>_.
       then_prog (update_now (audit k ''OPERATOR_KEEP'' ''kept'')) (outcome ''archived''))))"

definition unarchive_case :: "sender_key \<Rightarrow> json_object core_prog" where
  "unarchive_case k =
    then_prog await_lock
    (bind_prog (on_world (transact (unarchive_restriction k))) (\<lambda>done.
     if \<not> done then backend_error ''case_not_archived''
     else then_prog (update_now (audit k ''OPERATOR_UNARCHIVE'' ''unarchived'')) (outcome ''unarchived'')))"

text \<open>\<open>OperatorControls.forget_sender\<close>, and the callback \<open>on_sender_forgotten\<close>, which also cancels
  the sender's cleanup tasks.\<close>

definition forget_sender :: "sender_key \<Rightarrow> core \<Rightarrow> core" where
  "forget_sender k c = c\<lparr>co_controls := filter (\<lambda>(_, j, _). j \<noteq> k) (co_controls c)\<rparr>"

definition on_sender_forgotten :: "sender_key \<Rightarrow> unit core_prog" where
  "on_sender_forgotten k =
    then_prog (on_world (schedule (CancelCleanupJob k))) (put_run (forget_sender k))"

definition forget_one :: "sender_key \<Rightarrow> int option \<Rightarrow> bool core_prog" where
  "forget_one k archived_before =
    then_prog await_lock
    (bind_prog (on_world (transact (forget_restriction k archived_before))) (\<lambda>done.
     if \<not> done then ret False
     else
       then_prog (on_world (schedule (CancelTimeoutJob k)))
       (then_prog (put_run (evict_identity k))
       (then_prog (on_sender_forgotten k) (ret True)))))"

definition forget_case :: "sender_key \<Rightarrow> json_object core_prog" where
  "forget_case k = bind_prog (forget_one k None) (\<lambda>done.
     if done then outcome ''forgotten'' else backend_error ''case_not_forgettable'')"

fun release_error :: "release_result \<Rightarrow> string option" where
  "release_error NotActive = Some ''case_not_active''"
| "release_error IdentityUnavailable = Some ''identity_unavailable''"
| "release_error TelegramActionFailed = Some ''telegram_action_failed''"
| "release_error Released = None"

definition allow_case :: "backend \<Rightarrow> sender_key \<Rightarrow> json_object core_prog" where
  "allow_case bk k = bind_prog (allow_locked (bk_gatekeeper bk) k) (\<lambda>result.
     case release_error result of
       Some code \<Rightarrow> backend_error code
     | None \<Rightarrow> then_prog (put_run (evict_identity k)) (outcome ''allowed''))"

definition case_decide :: "backend \<Rightarrow> json_object \<Rightarrow> json_object core_prog" where
  "case_decide bk params =
    bind_prog (need_sum (sender_key_param params)) (\<lambda>k.
    bind_prog (ask_now (active_restriction_of k)) (\<lambda>found.
    if found = None then backend_error ''case_not_found''
    else
      (let action = param params ''action'' in
       if action = jtext ''keep'' then keep_case k
       else if action = jtext ''unarchive'' then unarchive_case k
       else if action = jtext ''forget'' then forget_case k
       else if action \<noteq> jtext ''allow'' then backend_error ''unknown_action''
       else allow_case bk k)))"

definition case_forget_preview :: "json_object \<Rightarrow> json_object core_prog" where
  "case_forget_preview params =
    bind_prog (need_sum (forget_days params)) (\<lambda>days.
    bind_prog time_now (\<lambda>now.
    bind_prog (ask (archived_before_count (now - days * 86400))) (\<lambda>count.
    ret [jfield ''days'' (JInt days), jfield ''count'' (JInt count)])))"

fun forget_all :: "int \<Rightarrow> sender_key list \<Rightarrow> int \<Rightarrow> int core_prog" where
  "forget_all cutoff [] count = ret count"
| "forget_all cutoff (k # ks) count =
    bind_prog (forget_one k (Some cutoff)) (\<lambda>done. forget_all cutoff ks (if done then count + 1 else count))"

definition case_forget_bulk :: "json_object \<Rightarrow> json_object core_prog" where
  "case_forget_bulk params =
    bind_prog (need_sum (forget_days params)) (\<lambda>days.
    bind_prog time_now (\<lambda>now.
    let cutoff = now - days * 86400 in
    bind_prog (ask (archived_before_keys cutoff)) (\<lambda>keys.
    bind_prog (forget_all cutoff keys 0) (\<lambda>count.
    ret [jfield ''outcome'' (jtext ''forgotten''), jfield ''count'' (JInt count)]))))"

definition release_legacy :: "backend \<Rightarrow> json_object \<Rightarrow> json_object core_prog" where
  "release_legacy bk params =
    bind_prog (need_sum (positive_int params ''user_id'' (2 ^ 63 - 1))) (\<lambda>user_id.
    let k = prot_sender_key (gk_protector (bk_gatekeeper bk)) user_id in
    then_prog await_lock
    (bind_prog (ask (sender k)) (\<lambda>state.
     if status state \<notin> RESTRICTED_STATUSES then backend_error ''restricted_sender_not_found''
     else if restriction_reference state \<noteq> None then backend_error ''use_active_case''
     else
       then_prog (update_now (allow k))
       (then_prog (on_world (change (clear_dialog_snapshot k)))
       (then_prog (on_world (schedule (CancelTimeoutJob k)))
       (then_prog (put_run (evict_identity k))
       (then_prog (update_now (audit k ''OPERATOR_ALLOW_WITHOUT_RESTORE'' ''allowed''))
         (outcome ''allowed''))))))))"

subsection \<open>Requests\<close>

definition handlers :: "backend \<Rightarrow> (string \<times> (json_object \<Rightarrow> json_object core_prog)) list" where
  "handlers bk =
     [(''overview'', \<lambda>_. overview bk), (''page_version'', page_version_request bk),
      (''reviews.list'', review_list bk), (''reviews.detail'', review_detail bk),
      (''reviews.decide'', review_decide bk), (''cases.list'', case_list bk),
      (''cases.detail'', case_detail bk), (''cases.decide'', case_decide bk),
      (''cases.forget_preview'', case_forget_preview), (''cases.forget_bulk'', case_forget_bulk),
      (''cases.release_legacy'', release_legacy bk)]"

definition backend_request :: "backend \<Rightarrow> ustring \<Rightarrow> json_object \<Rightarrow> json_object core_prog" where
  "backend_request bk meth params =
    (case map_of (map (\<lambda>(name, h). (ustr name, h)) (handlers bk)) meth of
       None \<Rightarrow> backend_error ''unknown_method''
     | Some handler \<Rightarrow> handler params)"

text \<open>The backend as the RPC server calls it.\<close>

definition dashboard_service :: "backend \<Rightarrow> core Rpc.backend" where
  "dashboard_service bk meth params c = (case backend_request bk meth params c of
      (Inl e, c') \<Rightarrow> (Inl (failure_of e), c') | (Inr result, c') \<Rightarrow> (Inr result, c'))"

end
