(* ===== verification/Backend_Reads.thy ===== *)
theory Backend_Reads
  imports Backend_Requests
begin

text \<open>
  What the reading requests of the dashboard may do: ask the database and the clocks, ask Telegram
  for messages and profiles, and keep identities in the cache. \<open>core_reading\<close> lists these as laws of
  a relation on cores, and shows that every reading handler stays within any such relation.
\<close>

fun reading_request :: "request \<Rightarrow> bool" where
  "reading_request (GetMessage _ _) = True"
| "reading_request (GetEntities _) = True"
| "reading_request _ = False"

locale core_reading = run_relation R for R :: "core \<Rightarrow> core \<Rightarrow> bool" +
  assumes read_world: "db w = core_db c \<Longrightarrow> trace w = trace (co_world c) @ map Telegram qs \<Longrightarrow>
      list_all reading_request qs \<Longrightarrow> R c (c\<lparr>co_world := w\<rparr>)"
    and read_monotonic: "R c (c\<lparr>co_readings := n\<rparr>)"
    and cache_insert: "R c (insert_identity j e c)"
    and cache_filter: "R c (c\<lparr>co_identities := filter P (co_identities c)\<rparr>)"
begin

lemma rel_monotonic: "stays R monotonic"
  by (simp add: stays_def monotonic_def read_monotonic)

lemma rel_ask: "stays R (ask f)" "stays R (ask_now g)" "stays R time_now"
  using read_world [where qs = "[]"]
  by (simp_all add: stays_def ask_def ask_now_def time_now_def on_world_def query_def read_clock_def
      bind_prog_def R_refl)

lemma rel_read_telegram: "reading_request q \<Longrightarrow> stays R (on_world (telegram q))"
  by (auto simp: stays_def on_world_def telegram_def Let_def intro!: read_world [where qs = "[q]"])

lemma rel_error: "stays R (backend_error code)"
  unfolding backend_error_def by (rule run_raise)

lemma rel_page: "stays R (require_page page count)"
  unfolding require_page_def by (intro run_control rel_error)

lemma rel_evict: "stays R (put_run (evict_identity j))"
  "stays R (put_run (expire_identities now))"
  by (simp_all add: stays_def put_run_def evict_identity_def expire_identities_def cache_filter)

lemma rel_insert: "stays R (put_run (insert_identity j e))"
  by (simp add: stays_def put_run_def cache_insert)

lemma rel_cache: "stays R (cache_identity j v ttl)"
  unfolding cache_identity_def by (intro run_control rel_monotonic rel_insert)

lemmas rel_read = run_control rel_monotonic rel_ask rel_error rel_page rel_evict rel_insert rel_cache

subsection \<open>Reading requests\<close>

lemma rel_message: "stays R (get_message peer i)" "stays R (get_profile peer)"
  unfolding get_message_def get_profile_def by (auto intro!: rel_read rel_read_telegram split: reply.splits list.splits)

lemma rel_remember: "stays R (remember ttl kvs found)"
  by (induction kvs arbitrary: found) (auto intro!: rel_read)

lemma rel_fetch: "stays R (fetch_profiles peers)"
  unfolding fetch_profiles_def by (auto intro!: rel_read rel_read_telegram split: reply.splits)

lemma rel_resolve: "stays R (resolve_identities ps found)"
proof (induction ps found rule: resolve_identities.induct)
  case (2 p ps found)
  then show ?case
    unfolding resolve_identities.simps resolve_batch_def by (intro rel_read rel_fetch rel_remember)
qed (simp add: run_ret)

lemma rel_identities: "stays R (review_identities bk is)" "stays R (case_identities bk js)"
  unfolding review_identities_def case_identities_def page_identities_def
  by (auto intro!: rel_read rel_resolve)

lemma rel_pages: "stays R (review_page page now)"
  "stays R (case_page page archived reason days now)"
  unfolding review_page_def case_page_def Let_def by (intro rel_read)+

lemma rel_sqlite: "stays R (sqlite_int i)" "stays R (sqlite_text t)"
  unfolding sqlite_int_def sqlite_text_def by (intro rel_read)+

lemma rel_payloads:
  "stays R (review_page_payload page now)"
  "stays R (case_page_payload bk archived q page now)"
  "stays R (review_payload bk n now)"
  "stays R (case_payload key now)"
  "stays R (overview_payload now)"
  unfolding review_page_payload_def case_page_payload_def review_payload_def case_payload_def overview_payload_def
  by (intro rel_read rel_pages rel_sqlite)+

lemma rel_page_version: "stays R (page_version_request bk params)"
  unfolding page_version_request_def page_version_def page_payload_def Let_def
  by (auto intro!: rel_read rel_payloads split: json.splits)

lemma rel_readers:
  "stays R (overview bk)" "stays R (review_list bk params)"
  "stays R (case_forget_preview params)"
  unfolding overview_def review_list_def case_forget_preview_def
  by (intro rel_read rel_pages rel_identities)+

lemma rel_live_item: "stays R (live_review_item now item)"
  unfolding live_review_item_def by (intro rel_read)

lemma rel_archived: "stays R (case v of JBool b \<Rightarrow> ret b | _ \<Rightarrow> backend_error code)"
  by (cases v) (simp_all add: run_ret rel_error)

lemma rel_case_list: "stays R (case_list bk params)"
  unfolding case_list_def by (intro rel_read rel_archived rel_pages rel_identities)

lemma rel_details: "stays R (review_detail bk params)" "stays R (case_detail bk params)"
  unfolding review_detail_def case_detail_def case_evidence_def case_identity_def Let_def
  by (intro rel_read rel_live_item rel_message)+

lemmas rel_reading = rel_read rel_message rel_identities rel_pages rel_live_item

lemma rel_reading_handlers:
  assumes "(name, h) \<in> set (handlers bk)" and "ustr name \<in> READ_ONLY_METHODS"
  shows "stays R (h params)"
  using assms unfolding handlers_def READ_ONLY_METHODS_def
  by (auto simp: ustr_def intro: rel_readers rel_page_version rel_details rel_case_list)

lemma rel_reading_request: "meth \<in> READ_ONLY_METHODS \<Longrightarrow> stays R (backend_request bk meth params)"
  unfolding backend_request_def
  by (auto intro!: rel_error split: option.splits dest!: map_of_SomeD dest: rel_reading_handlers)

end

subsection \<open>Reading requests read\<close>

definition only_read :: "core \<Rightarrow> core \<Rightarrow> bool" where
  "only_read c c' \<longleftrightarrow> core_db c' = core_db c \<and> co_controls c' = co_controls c \<and> co_handled c' = co_handled c
     \<and> co_waits c' = co_waits c
     \<and> (\<exists>qs. trace (co_world c') = trace (co_world c) @ map Telegram qs \<and> list_all reading_request qs)"

interpretation reads: core_reading only_read
proof
  show "only_read c c" for c by (auto simp: only_read_def intro: exI [of _ "[]"])
  show "only_read a c" if "only_read a b" "only_read b c" for a b c
  proof -
    from that obtain qs qs' where "trace (co_world b) = trace (co_world a) @ map Telegram qs" "list_all reading_request qs"
      "trace (co_world c) = trace (co_world b) @ map Telegram qs'" "list_all reading_request qs'"
      by (auto simp: only_read_def)
    then have "trace (co_world c) = trace (co_world a) @ map Telegram (qs @ qs') \<and> list_all reading_request (qs @ qs')"
      by simp
    with that show ?thesis unfolding only_read_def by metis
  qed
  show "only_read c (c\<lparr>co_world := w\<rparr>)"
    if "db w = core_db c" "trace w = trace (co_world c) @ map Telegram qs" "list_all reading_request qs" for c w qs
    using that by (auto simp: only_read_def)
qed (auto simp: only_read_def insert_identity_def Let_def intro: exI [of _ "[]"])

text \<open>C24. A reading request of the dashboard leaves the database, the operator's controls and the
  sender locks alone, schedules nothing, and asks Telegram for nothing but messages and profiles,
  whatever its parameters are and however it ends.\<close>

theorem reading_requests_only_read:
  assumes "meth \<in> READ_ONLY_METHODS"
  shows "only_read c (snd (dashboard_service bk meth params c))"
proof -
  have "snd (dashboard_service bk meth params c) = snd (backend_request bk meth params c)"
    by (simp add: dashboard_service_def split: prod.split sum.split)
  with staysD [OF reads.rel_reading_request [OF assms]] show ?thesis by metis
qed

end
