(* ===== verification/Operator.thy ===== *)
theory Operator
  imports Backend_Requests
begin

text \<open>
  \<open>operator_controls.py\<close>: the owner's commands in Saved Messages, the single-use controls of the
  listed cases, and the queue that deletes the messages of the conversation. The identifiers of the
  messages of the running command (\<open>artifact_ids\<close> in the source) are a field of the state, because
  they are collected on every path, also when a later request fails.
\<close>

definition OPERATOR_CASE_LIMIT :: int where "OPERATOR_CASE_LIMIT = 5"
definition OPERATOR_CONTROL_TTL_SECONDS :: int where "OPERATOR_CONTROL_TTL_SECONDS = 15 * 60"
definition OPERATOR_CLEANUP_BATCH_LIMIT :: int where "OPERATOR_CLEANUP_BATCH_LIMIT = 100"
definition OPERATOR_CLEANUP_RETRY_BASE_SECONDS :: int where "OPERATOR_CLEANUP_RETRY_BASE_SECONDS = 30"
definition OPERATOR_CLEANUP_RETRY_MAX_SECONDS :: int where "OPERATOR_CLEANUP_RETRY_MAX_SECONDS = 60 * 60"
definition OPERATOR_CLEANUP_POLL_SECONDS :: int where "OPERATOR_CLEANUP_POLL_SECONDS = 60"
definition OPERATOR_ORPHAN_LOOKBACK_SECONDS :: int where "OPERATOR_ORPHAN_LOOKBACK_SECONDS = 7 * 24 * 60 * 60"
definition OPERATOR_ORPHAN_SEARCH_LIMIT :: int where "OPERATOR_ORPHAN_SEARCH_LIMIT = 200"

definition OPERATOR_ORPHAN_SEARCH_QUERIES :: "ustring list" where
  "OPERATOR_ORPHAN_SEARCH_QUERIES = [ustr ''/gatekeeper'', ustr ''Gatekeeper'', ustr ''restriction'']"

text \<open>The constructor's arguments, the owner's own id, and the Unicode categories Cc and Cf.\<close>

record operator =
  op_gatekeeper :: gatekeeper
  op_enabled :: bool
  op_self_user_id :: "int option"
  op_control_char :: "nat \<Rightarrow> bool"
  op_format_char :: "nat \<Rightarrow> bool"

record operator_event =
  oe_id :: "int option"
  oe_private :: bool
  oe_out :: bool
  oe_chat_id :: int
  oe_forwarded :: bool
  oe_text :: "ustring option"
  oe_reply_to :: "int option"

subsection \<open>Texts\<close>

definition lines_of :: "ustring list \<Rightarrow> ustring" where
  "lines_of ls = join [10] ls"

definition help_text :: ustring where
  "help_text = lines_of
     [ustr ''Gatekeeper operator controls work only in Saved Messages.'', [],
      ustr ''/gatekeeper ping '' @ [8212] @ ustr '' check the control channel'',
      ustr ''/gatekeeper cases '' @ [8212] @ ustr '' list up to 5 active restrictions'',
      ustr ''Reply to a case with /gatekeeper allow '' @ [8212] @ ustr '' restore and allow the sender'']"

definition ONLINE_TEXT :: ustring where
  "ONLINE_TEXT = 9989 # ustr '' Gatekeeper operator controls are online.''"

definition UNKNOWN_TEXT :: ustring where
  "UNKNOWN_TEXT = ustr ''Unknown Gatekeeper command. Send /gatekeeper help.''"

definition FAILED_TEXT :: ustring where
  "FAILED_TEXT = 10060 # ustr '' Gatekeeper could not process that operator command.''"

definition NO_CASES_TEXT :: ustring where
  "NO_CASES_TEXT = 9989 # ustr '' Gatekeeper has no active restrictions.''"

definition NOT_CURRENT_TEXT :: ustring where
  "NOT_CURRENT_TEXT = ustr ''Reply to a current case from /gatekeeper cases. Case controls expire after 15 minutes.''"

fun release_text :: "release_result \<Rightarrow> ustring" where
  "release_text Released = 9989 # ustr '' Restriction removed. The sender is now allowed and pending Gatekeeper deletion jobs were cancelled.''"
| "release_text NotActive = [8505, 65039] @ ustr '' This restriction was already resolved. No action was taken.''"
| "release_text IdentityUnavailable = [9888, 65039] @ ustr '' Telegram identity is unavailable. Use Advanced Recovery in the Dashboard.''"
| "release_text TelegramActionFailed = 10060 # ustr '' Telegram restore failed. The restriction was left unchanged.''"

definition CASES_PREFIX :: ustring where
  "CASES_PREFIX = ustr ''Gatekeeper Active Cases '' @ [183] @ ustr '' showing ''"

definition OF_TEXT :: ustring where
  "OF_TEXT = ustr '' of ''"

definition cases_text :: "int \<Rightarrow> int \<Rightarrow> ustring" where
  "cases_text shown count = CASES_PREFIX @ show_int shown @ OF_TEXT @ show_int count"

definition CASE_TITLE :: ustring where
  "CASE_TITLE = ustr ''Gatekeeper Active Case''"

definition ACTIONABLE_LINES :: "ustring list" where
  "ACTIONABLE_LINES = [ustr ''Reply to this message with /gatekeeper allow'',
     ustr ''This control is single-use and expires in 15 minutes.'']"

definition UNAVAILABLE_LINE :: ustring where
  "UNAVAILABLE_LINE = ustr ''Telegram identity is unavailable. Use Advanced Recovery in the Dashboard.''"

definition case_text :: "ustring \<Rightarrow> ustring \<Rightarrow> ustring \<Rightarrow> ustring \<Rightarrow> bool \<Rightarrow> ustring" where
  "case_text who state reason age actionable = lines_of
     ([CASE_TITLE, [], ustr ''Sender: '' @ who, ustr ''State: '' @ state, ustr ''Reason: '' @ reason,
       ustr ''Updated: '' @ age, []] @ (if actionable then ACTIONABLE_LINES else [UNAVAILABLE_LINE]))"

text \<open>\<open>value.isdecimal()\<close>: \<open>nd\<close> is the decimal value of a digit outside ASCII.\<close>

definition is_decimal :: "(nat \<Rightarrow> nat option) \<Rightarrow> ustring \<Rightarrow> bool" where
  "is_decimal nd t \<longleftrightarrow> t \<noteq> [] \<and> list_all (\<lambda>c. decimal_digit nd c \<noteq> None) t"

text \<open>\<open>split(" of ", 1)\<close>.\<close>

fun split_once :: "'a list \<Rightarrow> 'a list \<Rightarrow> 'a list list" where
  "split_once sep [] = (if sep = [] then [[], []] else [[]])"
| "split_once sep (c # cs) =
    (if starts_with (c # cs) sep then [[], drop (length sep) (c # cs)]
     else (case split_once sep cs of [] \<Rightarrow> [[c]] | x # xs \<Rightarrow> (c # x) # xs))"

definition counts_ok :: "(nat \<Rightarrow> nat option) \<Rightarrow> ustring \<Rightarrow> bool" where
  "counts_ok nd rest = (let counts = split_once OF_TEXT rest in length counts = 2 \<and> list_all (is_decimal nd) counts)"

definition FIXED_TEXTS :: "ustring list" where
  "FIXED_TEXTS = [help_text, ONLINE_TEXT, UNKNOWN_TEXT, FAILED_TEXT, NO_CASES_TEXT, NOT_CURRENT_TEXT,
     release_text Released, release_text NotActive, release_text IdentityUnavailable,
     release_text TelegramActionFailed]"

definition case_lines :: "ustring list \<Rightarrow> bool" where
  "case_lines ls \<longleftrightarrow> 8 \<le> length ls \<and> ls ! 0 = CASE_TITLE \<and> ls ! 1 = []
     \<and> starts_with (ls ! 2) (ustr ''Sender: '') \<and> starts_with (ls ! 3) (ustr ''State: '')
     \<and> starts_with (ls ! 4) (ustr ''Reason: '') \<and> starts_with (ls ! 5) (ustr ''Updated: '') \<and> ls ! 6 = []
     \<and> lines_of (drop 7 ls) \<in> {lines_of ACTIONABLE_LINES, UNAVAILABLE_LINE}"

definition COMMAND :: ustring where
  "COMMAND = ustr ''/gatekeeper''"

definition is_command :: "ustring \<Rightarrow> bool" where
  "is_command t \<longleftrightarrow> t = COMMAND \<or> starts_with t (COMMAND @ [32])"

definition is_artifact_text :: "(nat \<Rightarrow> nat option) \<Rightarrow> ustring \<Rightarrow> bool" where
  "is_artifact_text nd raw =
    (let t = strip raw in
     if is_command t then True
     else if t \<in> set FIXED_TEXTS then True
     else if starts_with t CASES_PREFIX then counts_ok nd (drop (length CASES_PREFIX) t)
     else case_lines (splitlines t []))"

definition clean_text :: "operator \<Rightarrow> ustring \<Rightarrow> ustring" where
  "clean_text op t = join [32] (split_ws
     (map (\<lambda>c. if op_control_char op c then 32 else c) (filter (\<lambda>c. \<not> op_format_char op c) t)) [])"

text \<open>\<open>str.title()\<close> of an ASCII text.\<close>

definition ascii_letter :: "char \<Rightarrow> bool" where
  "ascii_letter c \<longleftrightarrow> is_ascii_alpha (of_char c)"

definition ascii_lower_char :: "char \<Rightarrow> char" where
  "ascii_lower_char c = char_of (ascii_lower (of_char c))"

fun title_from :: "bool \<Rightarrow> string \<Rightarrow> string" where
  "title_from inside [] = []"
| "title_from inside (c # cs) =
    (if inside then ascii_lower_char c else ascii_upper c) # title_from (ascii_letter c) cs"

definition title :: "string \<Rightarrow> string" where
  "title s = title_from False s"

definition reason_label :: "string \<Rightarrow> string" where
  "reason_label reason = (if reason = ''critical_rule'' then ''Legacy Critical Rule Match''
     else title (map (\<lambda>c. if c = CHR ''_'' then CHR '' '' else c) reason))"

definition age_label :: "int \<Rightarrow> int \<Rightarrow> ustring" where
  "age_label now updated =
    (let age = max 0 (now - updated) in
     if age < 60 then ustr ''just now''
     else if age < 3600 then show_int (age div 60) @ ustr '' minutes ago''
     else if age < 86400 then show_int (age div 3600) @ ustr '' hours ago''
     else show_int (age div 86400) @ ustr '' days ago'')"

definition identity_label :: "operator \<Rightarrow> tg_profile \<Rightarrow> ustring" where
  "identity_label op p =
    (let name = strip (join [32] (map (clean_text op) (named_parts [up_first_name p, up_last_name p])));
         name = take 120 (if name = [] then UNNAMED else name);
         username = (case up_username p of Some (c # cs) \<Rightarrow> take 64 (clean_text op (c # cs)) | _ \<Rightarrow> [])
     in if username = [] then name else name @ ustr '' (@'' @ username @ ustr '')'')"

subsection \<open>Commands\<close>

text \<open>A sent message's id, if Telegram returned one, is collected.\<close>

definition collect :: "int \<Rightarrow> core \<Rightarrow> core" where
  "collect i c = c\<lparr>co_artifacts := co_artifacts c @ [i]\<rparr>"

definition respond :: "ustring \<Rightarrow> int option core_prog" where
  "respond t = bind_prog (on_world (telegram (RespondSaved t))) (\<lambda>r.
     case r of ReplyId i \<Rightarrow> then_prog (put_run (collect i)) (ret (Some i)) | _ \<Rightarrow> ret None)"

definition say :: "ustring \<Rightarrow> unit core_prog" where
  "say t = bind_prog (respond t) (\<lambda>_. ret ())"

definition identity_text :: "operator \<Rightarrow> blob option \<Rightarrow> ustring core_prog" where
  "identity_text op reference = (case reference of
      None \<Rightarrow> ret (ustr ''Identity unavailable'')
    | Some blob \<Rightarrow> try_except
        (bind_prog (need ''ValueError'' (prot_open_restriction (gk_protector (op_gatekeeper op)) blob))
           (\<lambda>(user_id, access_hash).
         bind_prog (get_profile (PeerUser user_id access_hash)) (\<lambda>p. ret (identity_label op p))))
        (ret (ustr ''Name unavailable'')))"

definition add_control :: "int \<Rightarrow> sender_key \<Rightarrow> int \<Rightarrow> core \<Rightarrow> core" where
  "add_control i k expires_at c = c\<lparr>co_controls := filter (\<lambda>(j, _). j \<noteq> i) (co_controls c) @ [(i, k, expires_at)]\<rparr>"

definition send_case :: "operator \<Rightarrow> int \<Rightarrow> active_restriction \<Rightarrow> unit core_prog" where
  "send_case op expires_at item =
    (let actionable = (ar_reference item \<noteq> None) in
     bind_prog (identity_text op (ar_reference item)) (\<lambda>who.
     bind_prog time_now (\<lambda>now.
     bind_prog (respond (case_text who (ustr (title (status_text (ar_status item))))
        (ustr (reason_label (ar_reason item))) (age_label now (ar_updated_at item)) actionable)) (\<lambda>sent.
     if actionable then
       bind_prog (need ''TypeError'' sent) (\<lambda>i. put_run (add_control i (ar_sender item) expires_at))
     else ret ()))))"

fun send_each :: "operator \<Rightarrow> int \<Rightarrow> active_restriction list \<Rightarrow> unit core_prog" where
  "send_each op expires_at [] = ret ()"
| "send_each op expires_at (item # items) =
     then_prog (send_case op expires_at item) (send_each op expires_at items)"

definition send_cases :: "operator \<Rightarrow> unit core_prog" where
  "send_cases op =
    then_prog (put_run (\<lambda>c. c\<lparr>co_controls := []\<rparr>))
    (bind_prog (ask_now (active_restriction_count None None None)) (\<lambda>count.
     bind_prog (ask_now (active_restrictions None None None (Some OPERATOR_CASE_LIMIT) 0)) (\<lambda>r.
     bind_prog (need_sum r) (\<lambda>items.
     if items = [] then say NO_CASES_TEXT
     else
       then_prog (say (cases_text (int (length items)) count))
       (bind_prog monotonic (\<lambda>now. send_each op (now + OPERATOR_CONTROL_TTL_SECONDS * SECOND) items))))))"

definition live_controls :: "int \<Rightarrow> core \<Rightarrow> core" where
  "live_controls now c = c\<lparr>co_controls := filter (\<lambda>(_, _, expires_at). expires_at > now) (co_controls c)\<rparr>"

definition drop_control :: "int \<Rightarrow> core \<Rightarrow> core" where
  "drop_control i c = c\<lparr>co_controls := filter (\<lambda>(j, _). j \<noteq> i) (co_controls c)\<rparr>"

text \<open>\<open>pop(reply_id, None)\<close>.\<close>

definition take_control :: "int option \<Rightarrow> sender_key option core_prog" where
  "take_control reply_id = (case reply_id of
      None \<Rightarrow> ret None
    | Some i \<Rightarrow>
        bind_prog (get_run (\<lambda>c. map_option fst (map_of (co_controls c) i))) (\<lambda>k.
        then_prog (put_run (drop_control i)) (ret k)))"

definition operator_allow_case :: "operator \<Rightarrow> int option \<Rightarrow> unit core_prog" where
  "operator_allow_case op reply_id =
    bind_prog monotonic (\<lambda>now.
    then_prog (put_run (live_controls now))
    (bind_prog (take_control reply_id) (\<lambda>control.
     case control of
       None \<Rightarrow> say NOT_CURRENT_TEXT
     | Some k \<Rightarrow> bind_prog (allow_locked (op_gatekeeper op) k) (\<lambda>result. say (release_text result)))))"

text \<open>The messages already handled; \<open>None\<close>: a duplicate.\<close>

definition handled_before :: "int \<Rightarrow> core \<Rightarrow> core" where
  "handled_before now c = c\<lparr>co_handled := filter (\<lambda>(_, expires_at). expires_at > now) (co_handled c)\<rparr>"

definition mark_handled :: "int \<Rightarrow> int \<Rightarrow> core \<Rightarrow> core" where
  "mark_handled i now c = collect i (c\<lparr>co_handled := co_handled c @ [(i, now + OPERATOR_CONTROL_TTL_SECONDS * SECOND)]\<rparr>)"

definition run_operator_command :: "operator \<Rightarrow> operator_event \<Rightarrow> ustring \<Rightarrow> unit core_prog" where
  "run_operator_command op e t =
    (if t = COMMAND \<or> t = COMMAND @ ustr '' help'' then say help_text
     else if t = COMMAND @ ustr '' ping'' then say ONLINE_TEXT
     else if t = COMMAND @ ustr '' cases'' then send_cases op
     else if t = COMMAND @ ustr '' allow'' then operator_allow_case op (oe_reply_to e)
     else say UNKNOWN_TEXT)"

definition handle_command :: "operator \<Rightarrow> operator_event \<Rightarrow> ustring \<Rightarrow> unit core_prog" where
  "handle_command op e t =
    bind_prog monotonic (\<lambda>now.
    then_prog (put_run (handled_before now))
    (bind_prog (get_run co_handled) (\<lambda>handled.
     case oe_id e of
       None \<Rightarrow> run_operator_command op e t
     | Some i \<Rightarrow>
         if i \<in> fst ` set handled then ret ()
         else then_prog (put_run (mark_handled i now)) (run_operator_command op e t))))"

definition schedule_artifact_deletion :: "int list \<Rightarrow> unit core_prog" where
  "schedule_artifact_deletion ids =
    bind_prog time_now (\<lambda>now.
    bind_prog (on_world (transact_exn (schedule_operator_artifacts ids (now + OPERATOR_CONTROL_TTL_SECONDS)))) (\<lambda>_.
    put_run (\<lambda>c. c\<lparr>co_wakeup := True\<rparr>)))"

definition for_operator :: "operator \<Rightarrow> operator_event \<Rightarrow> bool" where
  "for_operator op e \<longleftrightarrow> op_enabled op \<and> op_self_user_id op \<noteq> None \<and> oe_private e \<and> oe_out e
     \<and> op_self_user_id op = Some (oe_chat_id e) \<and> \<not> oe_forwarded e
     \<and> is_command (strip (or_empty (oe_text e)))"

definition operator_message :: "operator \<Rightarrow> operator_event \<Rightarrow> unit core_prog" where
  "operator_message op e =
    (if \<not> for_operator op e then ret ()
     else
       then_prog (put_run (\<lambda>c. c\<lparr>co_artifacts := []\<rparr>))
       (then_prog
         (try_except (handle_command op e (strip (or_empty (oe_text e))))
           (try_except (say FAILED_TEXT) (ret ())))
         (bind_prog (get_run co_artifacts) (\<lambda>ids.
          if ids = [] then ret () else schedule_artifact_deletion ids))))"

subsection \<open>Cleanup\<close>

definition orphan :: "(nat \<Rightarrow> nat option) \<Rightarrow> int \<Rightarrow> saved_message \<Rightarrow> (int \<times> int) option" where
  "orphan nd now m = (case (sv_id m, sv_date m) of
      (Some i, Some at) \<Rightarrow>
        if at < now - OPERATOR_ORPHAN_LOOKBACK_SECONDS \<or> \<not> sv_out m \<or> sv_forwarded m
           \<or> \<not> is_artifact_text nd (sv_text m) then None
        else Some (i, max now (at + OPERATOR_CONTROL_TTL_SECONDS))
    | _ \<Rightarrow> None)"

fun search_orphans :: "(nat \<Rightarrow> nat option) \<Rightarrow> int \<Rightarrow> ustring list \<Rightarrow> (int \<times> int) list \<Rightarrow> (int \<times> int) list core_prog" where
  "search_orphans nd now [] found = ret found"
| "search_orphans nd now (q # qs) found =
    bind_prog (on_world (telegram (SearchSaved q OPERATOR_ORPHAN_SEARCH_LIMIT))) (\<lambda>r.
    case r of
      ReplySaved ms \<Rightarrow> search_orphans nd now qs
        (foldl (\<lambda>t (i, at). AList.update i at t) found (List.map_filter (orphan nd now) ms))
    | _ \<Rightarrow> raise_exn ''TypeError'')"

fun schedule_orphans :: "(int \<times> int) list \<Rightarrow> unit core_prog" where
  "schedule_orphans [] = ret ()"
| "schedule_orphans ((i, at) # rest) =
    then_prog (on_world (transact_exn (schedule_operator_artifacts [i] at))) (schedule_orphans rest)"

definition reconcile_artifacts :: "(nat \<Rightarrow> nat option) \<Rightarrow> unit core_prog" where
  "reconcile_artifacts nd =
    bind_prog time_now (\<lambda>now.
    bind_prog (try_except (search_orphans nd now OPERATOR_ORPHAN_SEARCH_QUERIES []) (ret [])) (\<lambda>found.
    if found = [] then ret ()
    else then_prog (schedule_orphans found) (put_run (\<lambda>c. c\<lparr>co_wakeup := True\<rparr>))))"

definition retry_delay :: "int list \<Rightarrow> int" where
  "retry_delay counts =
    (let retry_count = foldl max 0 counts + 1 in
     min OPERATOR_CLEANUP_RETRY_MAX_SECONDS
       (OPERATOR_CLEANUP_RETRY_BASE_SECONDS * 2 ^ nat (min (retry_count - 1) 7)))"

definition delete_due_artifacts :: "int \<Rightarrow> bool core_prog" where
  "delete_due_artifacts now =
    bind_prog (ask (due_operator_artifacts now OPERATOR_CLEANUP_BATCH_LIMIT)) (\<lambda>r.
    bind_prog (need_sum r) (\<lambda>due.
    if due = [] then ret False
    else
      (let ids = map fst due in
       bind_prog (attempt (on_world (telegram (DeleteSaved ids)))) (\<lambda>deleted.
       case deleted of
         Inl _ \<Rightarrow> then_prog (on_world (change (retry_operator_artifacts ids (now + retry_delay (map snd due))))) (ret True)
       | Inr _ \<Rightarrow> then_prog (on_world (change (complete_operator_artifacts ids))) (ret True)))))"

text \<open>One turn of \<open>artifact_cleanup_loop\<close>: \<open>None\<close> goes on at once, otherwise the longest wait.\<close>

definition cleanup_turn :: "int option core_prog" where
  "cleanup_turn =
    bind_prog time_now (\<lambda>now.
    bind_prog (delete_due_artifacts now) (\<lambda>again.
    if again then ret None
    else
      bind_prog (ask next_operator_artifact_delete_at) (\<lambda>next_delete_at.
      let delay = (case next_delete_at of
          None \<Rightarrow> OPERATOR_CLEANUP_POLL_SECONDS
        | Some at \<Rightarrow> max 0 (min OPERATOR_CLEANUP_POLL_SECONDS (at - now)))
      in then_prog (put_run (\<lambda>c. c\<lparr>co_wakeup := False\<rparr>)) (ret (Some delay)))))"

end
