(* ===== verification/Backend_Contract.thy ===== *)
theory Backend_Contract
  imports Backend_Reads Operator System
begin

text \<open>
  What the requests of the dashboard and the owner's commands do to the core. \<open>core_contract\<close> is the
  contract between the handlers and the state database: every handler stays within a relation \<open>S\<close>
  that contains the operations on its sender, as long as the tasks it waits for do, and keeps the
  identity cache within its bound. It is interpreted for the runs of the database and for the
  relation that leaves all other senders alone.
\<close>

definition identities_ok :: "core \<Rightarrow> bool" where
  "identities_ok c \<longleftrightarrow> length (co_identities c) \<le> IDENTITY_CACHE_LIMIT \<and> distinct (map fst (co_identities c))"

definition core_rel :: "(store \<Rightarrow> store \<Rightarrow> bool) \<Rightarrow> core \<Rightarrow> core \<Rightarrow> bool" where
  "core_rel S c c' \<longleftrightarrow> co_meanwhile c' = co_meanwhile c
     \<and> ((\<forall>n s. S s (co_meanwhile c n s)) \<longrightarrow> S (core_db c) (core_db c'))
     \<and> (identities_ok c \<longrightarrow> identities_ok c')"

lemma distinct_filter_fst: "distinct (map fst es) \<Longrightarrow> distinct (map fst (filter P es))"
  by (induction es) auto

lemma distinct_drop_fst: "distinct (map fst es) \<Longrightarrow> distinct (map fst (drop n es))"
  by (simp add: drop_map [symmetric])

lemma insert_identity_ok: "identities_ok c \<Longrightarrow> identities_ok (insert_identity k e c)"
proof -
  let ?es = "filter (\<lambda>(j, _). j \<noteq> k) (co_identities c) @ [(k, e)]"
  assume "identities_ok c"
  then have "distinct (map fst ?es)" by (auto simp: identities_ok_def distinct_filter_fst)
  then have "distinct (map fst (drop (length ?es - IDENTITY_CACHE_LIMIT) ?es))" by (rule distinct_drop_fst)
  then show ?thesis unfolding identities_ok_def insert_identity_def Let_def by simp
qed

lemma filter_identities_ok: "identities_ok c \<Longrightarrow> identities_ok (c\<lparr>co_identities := filter P (co_identities c)\<rparr>)"
  by (auto simp: identities_ok_def distinct_filter_fst intro: order_trans [OF length_filter_le])

lemma identities_ok_simps [simp]:
  "identities_ok (c\<lparr>co_world := w\<rparr>) = identities_ok c" "identities_ok (c\<lparr>co_readings := n\<rparr>) = identities_ok c"
  "identities_ok (c\<lparr>co_waits := m\<rparr>) = identities_ok c" "identities_ok (c\<lparr>co_controls := cs\<rparr>) = identities_ok c"
  "identities_ok (c\<lparr>co_handled := hs\<rparr>) = identities_ok c" "identities_ok (c\<lparr>co_artifacts := is\<rparr>) = identities_ok c"
  "identities_ok (c\<lparr>co_wakeup := b\<rparr>) = identities_ok c"
  by (simp_all add: identities_ok_def)

sublocale store_relation \<subseteq> cores: core_reading "core_rel R"
proof
  show "core_rel R c c" for c by (simp add: core_rel_def R_refl)
  show "core_rel R a b \<Longrightarrow> core_rel R b c \<Longrightarrow> core_rel R a c" for a b c
    unfolding core_rel_def by (auto intro: R_trans)
  show "core_rel R c (insert_identity j e c)" for c j e
    by (simp add: core_rel_def insert_identity_ok) (simp add: insert_identity_def Let_def R_refl)
  show "core_rel R c (c\<lparr>co_identities := filter P (co_identities c)\<rparr>)" for c P
    by (simp add: core_rel_def filter_identities_ok R_refl)
qed (simp_all add: core_rel_def R_refl)

context store_relation
begin

lemma rel_world: "keeps R m \<Longrightarrow> stays (core_rel R) (on_world m)"
  by (simp add: stays_def core_rel_def on_world_def keeps_iff)

lemma rel_set:
  assumes "\<And>c. core_db (f c) = core_db c" and "\<And>c. co_meanwhile (f c) = co_meanwhile c"
    and "\<And>c. identities_ok c \<Longrightarrow> identities_ok (f c)"
  shows "stays (core_rel R) (put_run f)"
  using assms by (simp add: stays_def core_rel_def put_run_def R_refl)

lemma rel_lock: "stays (core_rel R) await_lock"
  by (simp add: stays_def core_rel_def await_lock_def)

lemma rel_telegram: "stays (core_rel R) (on_world (telegram q))"
  "stays (core_rel R) (on_world (schedule j))" "stays (core_rel R) (on_world (draw f))"
  by (intro rel_world keeps_control)+

lemmas rel_rules = cores.rel_reading rel_lock rel_telegram

lemma rel_outcome: "stays (core_rel R) (outcome t)"
  unfolding outcome_def by (rule cores.run_ret)

lemma rel_forget_sender: "stays (core_rel R) (on_sender_forgotten j)"
  unfolding on_sender_forgotten_def by (intro rel_rules rel_set) (simp_all add: forget_sender_def)

lemma rel_peer: "stays (core_rel R) (peer_from_review bk item)"
  unfolding peer_from_review_def by (intro rel_rules)

lemma rel_reference: "stays (core_rel R) (on_world (restriction_reference_for g reference))"
  unfolding restriction_reference_for_def
  by (intro rel_world) (auto intro!: keeps_control split: option.splits)

lemmas rel_parts = rel_rules rel_outcome rel_forget_sender rel_peer rel_reference

end

locale core_contract = store_relation S for S :: "store \<Rightarrow> store \<Rightarrow> bool" +
  fixes k :: sender_key
  assumes step: "sender_step UNIV k s s' \<Longrightarrow> S s s'"
    and forget: "S s (snd (forget_restriction k before s))"

context core_contract
begin

lemma steps: "(sender_step UNIV k)\<^sup>*\<^sup>* s s' \<Longrightarrow> S s s'"
  by (induction rule: rtranclp_induct) (auto intro: R_refl R_trans step)

lemma keeps_steps: "keeps (sender_step UNIV k)\<^sup>*\<^sup>* m \<Longrightarrow> keeps S m"
  by (simp add: keeps_iff steps)

lemma rel_change: "(\<And>s. sender_step UNIV k s (f s)) \<Longrightarrow> stays (core_rel S) (on_world (change f))"
  by (intro rel_world keeps_change) (rule step)

lemma rel_transact: "(\<And>s. S s (snd (g s))) \<Longrightarrow> stays (core_rel S) (on_world (transact g))"
  by (intro rel_world keeps_transact)

lemma rel_update_now: "(\<And>now s. sender_step UNIV k s (f now s)) \<Longrightarrow> stays (core_rel S) (update_now f)"
  unfolding update_now_def by (intro rel_world keeps_control keeps_change) (rule step)

lemma rel_transact_now: "(\<And>now s. sender_step UNIV k s (snd (g now s))) \<Longrightarrow> stays (core_rel S) (transact_now g)"
  unfolding transact_now_def by (intro rel_world keeps_control keeps_transact) (rule step)

lemma rel_allow_locked: "stays (core_rel S) (allow_locked g k)"
proof -
  have "keeps (sender_step UNIV k)\<^sup>*\<^sup>* (allow_restricted g k)"
    unfolding allow_restricted_def
    by (auto intro!: steps.keeps_control restore_dialog_keeps steps.keeps_change allow_step split: option.splits)
  then show ?thesis unfolding allow_locked_def by (intro rel_rules rel_world keeps_steps)
qed

subsection \<open>Decisions\<close>

lemma rel_capture: "rv_sender item = k \<Longrightarrow> stays (core_rel S) (capture_manual_enforcement bk item peer)"
  unfolding capture_manual_enforcement_def Let_def
  by (auto intro!: rel_parts rel_change save_review_step split: option.splits)

lemma rel_restore: "stays (core_rel S) (on_world (restore_dialog peer k))"
  by (intro rel_world keeps_steps restore_dialog_keeps)

lemma rel_mute: "stays (core_rel S) (backend_archive_and_mute bk peer k)"
  unfolding backend_archive_and_mute_def by (intro rel_world keeps_steps tg_archive_keeps)

lemma rel_legitimate:
  assumes "rv_sender item = k"
  shows "stays (core_rel S) (decide_legitimate bk item state)"
  unfolding decide_legitimate_def Let_def assms
  by (intro rel_parts rel_restore rel_update_now rel_transact_now allow_step decide_sender_step) simp

lemma rel_suppress:
  assumes "rv_sender item = k"
  shows "stays (core_rel S) (suppress_manually bk item reference)"
  unfolding suppress_manually_def Let_def assms
  by (intro rel_parts rel_transact_now rel_transact decide_sender_step suppress_step
      activate_review_step step [OF schedule_action_step] step [OF archive_step]) simp_all

lemma rel_spam:
  assumes "rv_sender item = k"
  shows "stays (core_rel S) (decide_spam bk item reference state)"
  unfolding decide_spam_def Let_def assms
  by (intro rel_parts rel_capture [OF assms] rel_mute rel_suppress [OF assms] rel_transact
      step [OF delete_enforcement_review_step])

lemma rel_dismiss: "stays (core_rel S) (transact_now (decide_sender_reviews k st))"
  by (intro rel_transact_now decide_sender_step)

lemma rel_case_actions:
  "stays (core_rel S) (keep_case k)" "stays (core_rel S) (unarchive_case k)"
  "stays (core_rel S) (forget_one k before)" "stays (core_rel S) (forget_case k)"
  "stays (core_rel S) (allow_case bk k)"
proof -
  show one: "stays (core_rel S) (forget_one k b)" for b
    unfolding forget_one_def by (intro rel_parts rel_transact forget)
  show "stays (core_rel S) (forget_case k)"
    unfolding forget_case_def by (intro rel_parts one)
  show "stays (core_rel S) (keep_case k)" "stays (core_rel S) (unarchive_case k)"
    "stays (core_rel S) (allow_case bk k)"
    unfolding keep_case_def unarchive_case_def allow_case_def
    by (intro rel_parts rel_allow_locked rel_transact_now rel_transact rel_update_now audit_step archive_step
       step [OF unarchive_step])+
qed

lemma rel_case_decide:
  assumes "sender_key_param params = Inr k"
  shows "stays (core_rel S) (case_decide bk params)"
proof -
  have k: "need_sum (sender_key_param params) = ret k" using assms by (simp add: need_sum_def)
  show ?thesis unfolding case_decide_def Let_def k bind_ret by (intro rel_parts rel_case_actions)
qed

lemma rel_release_legacy:
  "(\<And>i. positive_int params ''user_id'' (2 ^ 63 - 1) = Inr i \<Longrightarrow>
      prot_sender_key (gk_protector (bk_gatekeeper bk)) i = k)
   \<Longrightarrow> stays (core_rel S) (release_legacy bk params)"
  unfolding release_legacy_def
  by (cases "positive_int params ''user_id'' (2 ^ 63 - 1)")
    (auto simp: need_sum_def Let_def intro!: rel_parts rel_update_now rel_change allow_step audit_step clear_snapshot_step)

end

subsection \<open>The database as a whole\<close>

lemma forget_store_step: "store_step\<^sup>*\<^sup>* s (snd (forget_restriction k before s))"
  using by_forget by blast

interpretation whole: core_contract "store_step\<^sup>*\<^sup>*" k for k
  by unfold_locales (auto intro: by_sender by_forget)

abbreviation runs :: "core \<Rightarrow> core \<Rightarrow> bool" where
  "runs \<equiv> core_rel store_step\<^sup>*\<^sup>*"

lemma runs_review_decide: "stays runs (review_decide bk params)"
  unfolding review_decide_def
  by (intro any.rel_parts whole.rel_legitimate [OF refl]
      whole.rel_spam [OF refl] whole.rel_dismiss)

lemma runs_case_decide: "stays runs (case_decide bk params)"
proof (cases "sender_key_param params")
  case (Inr k)
  then show ?thesis by (rule whole.rel_case_decide)
qed (simp add: case_decide_def need_sum_def any.cores.run_raise)

lemma runs_release_legacy: "stays runs (release_legacy bk params)"
  by (cases "positive_int params ''user_id'' (2 ^ 63 - 1)") (auto intro: whole.rel_release_legacy)

lemma runs_forget_all: "stays runs (forget_all cutoff ks n)"
  by (induction ks arbitrary: n) (auto intro!: any.rel_parts whole.rel_case_actions)

lemma runs_forget_bulk: "stays runs (case_forget_bulk params)"
  unfolding case_forget_bulk_def Let_def by (intro any.rel_parts runs_forget_all)

theorem runs_request: "stays runs (backend_request bk method params)"
proof -
  have "stays runs (h params)" if "(name, h) \<in> set (handlers bk)" for name h
    using that unfolding handlers_def
    by (auto intro: any.cores.rel_readers any.cores.rel_page_version any.cores.rel_details any.cores.rel_case_list
        runs_review_decide runs_case_decide runs_forget_bulk runs_release_legacy)
  then show ?thesis
    unfolding backend_request_def
    by (auto intro!: any.cores.rel_error split: option.splits dest!: map_of_SomeD)
qed

end
