(* ===== verification/Adapter_Run.thy ===== *)
theory Adapter_Run
  imports Backend_Contract
begin

text \<open>
  The life of \<open>TelegramAdapter.run\<close>: the start, which recovers before any event is heard, and the
  heartbeat loop, which samples the queue of received updates, writes the heartbeat, prunes every
  twelve hours under the locks of the senders concerned, and ends the process when the update loop
  has stalled. Times of the monotonic clock are in nanoseconds.
\<close>

subsection \<open>Start\<close>

text \<open>\<open>None\<close> is a session that is not authorized, otherwise the owner's id; \<open>nd\<close> as for
  \<open>reconcile_artifacts\<close>.\<close>

definition run_startup ::
  "adapter \<Rightarrow> operator \<Rightarrow> int option \<Rightarrow> (nat \<Rightarrow> nat option) \<Rightarrow> operator core_prog" where
  "run_startup ad op me nd = (case me of
      None \<Rightarrow> raise_exn ''TelegramAuthorizationError''
    | Some i \<Rightarrow>
        then_prog (if op_enabled op then reconcile_artifacts nd else ret ())
          (then_prog (on_world (recover ad)) (ret (op\<lparr>op_self_user_id := Some i\<rparr>))))"

subsection \<open>The heartbeat loop\<close>

definition UPDATE_LOOP_STALL :: int where "UPDATE_LOOP_STALL = 5 * 60 * 10 ^ 9"
definition PRUNE_INTERVAL_SECONDS :: int where "PRUNE_INTERVAL_SECONDS = 12 * 60 * 60"
definition RUNTIME_METRICS_INTERVAL :: int where "RUNTIME_METRICS_INTERVAL = 15 * 60 * 10 ^ 9"

text \<open>The state of the loop: the core, the two times kept, the stall detector and the heartbeat file.\<close>

record beat =
  bt_core :: core
  bt_next_prune :: int
  bt_metrics_at :: int
  bt_backlog_since :: "int option"
  bt_file :: "int option"

text \<open>What a turn meets: the size of Telethon's queue (\<open>None\<close>: it has none, or no number), and whether
  the file system takes the heartbeat.\<close>

record surroundings =
  sr_queue_size :: "int option"
  sr_disk_fails :: bool

definition queued_update_count :: "surroundings \<Rightarrow> int" where
  "queued_update_count sr = (case sr_queue_size sr of None \<Rightarrow> -1 | Some n \<Rightarrow> n)"

definition on_core :: "'a core_prog \<Rightarrow> ('a, beat) prog_on" where
  "on_core m b = (fst (m (bt_core b)), b\<lparr>bt_core := snd (m (bt_core b))\<rparr>)"

definition check_update_loop :: "surroundings \<Rightarrow> (unit, beat) prog_on" where
  "check_update_loop sr =
    bind_prog (on_core monotonic) (\<lambda>now.
    bind_prog (get_run bt_backlog_since) (\<lambda>since.
    let (stalled, since') = observe_backlog UPDATE_LOOP_STALL since (queued_update_count sr) now in
    then_prog (put_run (bt_backlog_since_update (\<lambda>_. since')))
      (case stalled of None \<Rightarrow> ret () | Some _ \<Rightarrow> raise_exn ''UpdateLoopStalledError'')))"

text \<open>A temporary file is written and renamed, so the heartbeat is the new one or the old one.\<close>

definition write_runtime_heartbeat :: "surroundings \<Rightarrow> int \<Rightarrow> (unit, beat) prog_on" where
  "write_runtime_heartbeat sr at =
    (if sr_disk_fails sr then raise_exn ''OSError'' else put_run (bt_file_update (\<lambda>_. Some at)))"

fun take_locks :: "sender_key list \<Rightarrow> unit core_prog" where
  "take_locks [] = ret ()"
| "take_locks (k # ks) = then_prog await_lock (take_locks ks)"

text \<open>The caches of a sender that is no longer restricted.\<close>

fun forget_released :: "int \<Rightarrow> sender_key list \<Rightarrow> unit core_prog" where
  "forget_released now [] = ret ()"
| "forget_released now (k # ks) =
     bind_prog (ask (active_restriction_of k now)) (\<lambda>item.
     then_prog
       (if item = None then
          then_prog (on_world (schedule (CancelTimeoutJob k)))
          (then_prog (put_run (evict_identity k)) (on_sender_forgotten k))
        else ret ())
       (forget_released now ks))"

definition maintain :: "adapter \<Rightarrow> int \<Rightarrow> unit core_prog" where
  "maintain ad now =
    bind_prog (ask (maintenance_sender_keys now (ad_archived_days ad))) (\<lambda>ks.
    then_prog (take_locks ks)
    (bind_prog (on_world (transact (prune (ad_audit_days ad) now (ad_archived_days ad) (Some ks)))) (\<lambda>_.
     forget_released now ks)))"

definition prune_when_due :: "adapter \<Rightarrow> int \<Rightarrow> (unit, beat) prog_on" where
  "prune_when_due ad now =
    bind_prog (get_run bt_next_prune) (\<lambda>next_prune.
    if now < next_prune then ret ()
    else then_prog (on_core (maintain ad now))
      (put_run (bt_next_prune_update (\<lambda>_. now + PRUNE_INTERVAL_SECONDS))))"

definition metrics_when_due :: "(unit, beat) prog_on" where
  "metrics_when_due =
    bind_prog (on_core monotonic) (\<lambda>t.
    bind_prog (get_run bt_metrics_at) (\<lambda>at.
    if t < at then ret ()
    else bind_prog (on_core monotonic) (\<lambda>t'.
      put_run (bt_metrics_at_update (\<lambda>_. t' + RUNTIME_METRICS_INTERVAL)))))"

text \<open>One turn of \<open>_heartbeat_loop\<close>, up to its sleep of 60 seconds.\<close>

definition heartbeat_turn :: "adapter \<Rightarrow> surroundings \<Rightarrow> (unit, beat) prog_on" where
  "heartbeat_turn ad sr =
    then_prog (check_update_loop sr)
    (bind_prog (on_core time_now) (\<lambda>now.
     then_prog (on_core (on_world (change (heartbeat now))))
     (then_prog (write_runtime_heartbeat sr now)
     (then_prog (prune_when_due ad now) metrics_when_due))))"

definition new_beat :: "core \<Rightarrow> beat" where
  "new_beat c = \<lparr>bt_core = c, bt_next_prune = 0, bt_metrics_at = 0, bt_backlog_since = None, bt_file = None\<rparr>"

subsection \<open>The end\<close>

text \<open>\<open>run\<close> waits for the first of two tasks, the heartbeat loop and the connection of the client, which
  may both have ended. A cancelled task raises when it is asked for its exception.\<close>

datatype task_result = Finished | Raised exn | WasCancelled

datatype first_done = HeartbeatDone task_result | OnlyDisconnected task_result

fun run_end :: "first_done \<Rightarrow> exn + unit" where
  "run_end (HeartbeatDone (Raised e)) = Inl e"
| "run_end (HeartbeatDone WasCancelled) = Inl ''CancelledError''"
| "run_end (HeartbeatDone Finished) = Inl ''RuntimeError''"
| "run_end (OnlyDisconnected (Raised e)) = Inl e"
| "run_end (OnlyDisconnected WasCancelled) = Inl ''CancelledError''"
| "run_end (OnlyDisconnected Finished) = Inr ()"

text \<open>Without an error the process ends only when the client disconnected by itself and the heartbeat was
  alive until then.\<close>

lemma run_ends_normally: "run_end d = Inr () \<longleftrightarrow> d = OnlyDisconnected Finished"
  by (cases d rule: run_end.cases) simp_all

subsection \<open>The core\<close>

text \<open>What a turn does to the core is a run of the core.\<close>

lemma runs_take_locks: "stays runs (take_locks ks)"
  by (induction ks) (auto intro!: any.rel_parts)

lemma runs_forget_released: "stays runs (forget_released now ks)"
  by (induction ks)
    (auto intro!: any.rel_parts any.rel_set simp: evict_identity_def filter_identities_ok)

lemma runs_maintain: "stays runs (maintain ad now)"
  unfolding maintain_def
  by (intro any.rel_parts runs_take_locks runs_forget_released any.rel_world keeps_transact_store [OF by_prune])

definition beats :: "beat \<Rightarrow> beat \<Rightarrow> bool" where
  "beats b b' \<longleftrightarrow> runs (bt_core b) (bt_core b')"

interpretation beat: run_relation beats
  by unfold_locales (auto simp: beats_def intro: any.cores.R_refl any.cores.R_trans)

lemma beats_core: "stays runs m \<Longrightarrow> stays beats (on_core m)"
  by (simp add: stays_def beats_def on_core_def)

lemma beats_field: "(\<And>b. bt_core (f b) = bt_core b) \<Longrightarrow> stays beats (put_run f)"
  by (simp add: stays_def beats_def put_run_def any.cores.R_refl)

lemma runs_heartbeat: "stays runs (on_world (change (heartbeat now)))"
  by (intro any.rel_world keeps_change_store by_heartbeat)

lemma beats_turn: "stays beats (heartbeat_turn ad sr)"
  unfolding heartbeat_turn_def check_update_loop_def write_runtime_heartbeat_def prune_when_due_def
    metrics_when_due_def Let_def split_beta
  by (auto intro!: beat.run_then beat.run_bind beat.run_ret beat.run_raise beat.get_run beats_core beats_field
      runs_maintain runs_heartbeat any.rel_parts split: option.split)

lemma heartbeat_turn_runs: "runs (bt_core b) (bt_core (snd (heartbeat_turn ad sr b)))"
  using staysD [OF beats_turn, of b ad sr] by (simp add: beats_def)

lemma run_startup_runs: "runs c (snd (run_startup ad op me nd c))"
  if "stays runs (reconcile_artifacts nd)"
proof -
  have "stays runs (run_startup ad op me nd)"
    unfolding run_startup_def
    by (auto intro!: any.rel_parts any.rel_world recover_all_keeps that split: option.split)
  then show ?thesis by (rule staysD)
qed

subsection \<open>The stall detector\<close>

text \<open>A sample is the number of queued updates and the time it was taken.\<close>

type_synonym sample = "int \<times> int"

definition sample_of :: "surroundings \<Rightarrow> beat \<Rightarrow> sample" where
  "sample_of sr b = (queued_update_count sr, co_monotonic (bt_core b) (co_readings (bt_core b)))"

text \<open>The reference: when the backlog that lasts to the end of the samples began, and whether the last
  sample, not being the first of it, is late enough.\<close>

definition backlog_start :: "sample list \<Rightarrow> int option" where
  "backlog_start ss = (case takeWhile (\<lambda>(n, _). n > 0) (rev ss) of [] \<Rightarrow> None | run \<Rightarrow> Some (snd (last run)))"

definition stalled :: "sample list \<Rightarrow> sample \<Rightarrow> bool" where
  "stalled ss s \<longleftrightarrow> fst s > 0 \<and> (\<exists>since. backlog_start ss = Some since \<and> snd s - since \<ge> UPDATE_LOOP_STALL)"

lemma backlog_start_snoc:
  "backlog_start (ss @ [(n, t)]) = (if n \<le> 0 then None else
     (case backlog_start ss of None \<Rightarrow> Some t | Some since \<Rightarrow> Some since))"
  by (auto simp: backlog_start_def split: list.split)

lemma observe_is_backlog:
  "observe_backlog UPDATE_LOOP_STALL (backlog_start ss) n t =
     (if stalled ss (n, t) then Some (t - the (backlog_start ss)) else None, backlog_start (ss @ [(n, t)]))"
  by (auto simp: observe_backlog_def stalled_def backlog_start_snoc split: option.split)

text \<open>Turns that all end normally, with their samples.\<close>

inductive beat_run :: "adapter \<Rightarrow> beat \<Rightarrow> sample list \<Rightarrow> beat \<Rightarrow> bool" for ad :: adapter where
  no_turn: "beat_run ad b [] b"
| turn: "beat_run ad b ss b' \<Longrightarrow> heartbeat_turn ad sr b' = (Inr (), b'')
    \<Longrightarrow> beat_run ad b (ss @ [sample_of sr b']) (b''\<lparr>bt_core := c\<rparr>)"

inductive_cases beat_runE: "beat_run ad b ss b'"

text \<open>What never raises.\<close>

definition returns :: "('a, 'w) prog_on \<Rightarrow> bool" where
  "returns m \<longleftrightarrow> (\<forall>c. \<exists>x c'. m c = (Inr x, c'))"

lemma returns_ret: "returns (ret x)"
  by (simp add: returns_def ret_def)

lemma returns_bind:
  assumes "returns m" and "\<And>x. returns (f x)"
  shows "returns (bind_prog m f)"
  unfolding returns_def
proof
  fix c
  from assms(1) obtain x c1 where "m c = (Inr x, c1)" unfolding returns_def by blast
  moreover from assms(2) obtain y c2 where "f x c1 = (Inr y, c2)" unfolding returns_def by blast
  ultimately have "bind_prog m f c = (Inr y, c2)" by (simp add: bind_prog_def)
  then show "\<exists>y c'. bind_prog m f c = (Inr y, c')" by blast
qed

lemma returns_then: "returns m \<Longrightarrow> returns n \<Longrightarrow> returns (then_prog m n)"
  unfolding then_prog_def by (rule returns_bind)

lemma returns_if: "(b \<Longrightarrow> returns m) \<Longrightarrow> (\<not> b \<Longrightarrow> returns n) \<Longrightarrow> returns (if b then m else n)"
  by simp

lemma returns_run: "returns (get_run f)" "returns (put_run g)"
  by (simp_all add: returns_def get_run_def put_run_def)

lemma returns_world: "returns m \<Longrightarrow> returns (on_world m)"
  unfolding returns_def on_world_def by (metis fst_conv)

lemma returns_core: "returns m \<Longrightarrow> returns (on_core m)"
  unfolding returns_def on_core_def by (metis fst_conv)

lemma returns_simple:
  "returns (query f)" "returns (transact g)" "returns (change h)" "returns (schedule j)" "returns read_clock"
  "returns await_lock" "returns monotonic"
  by (simp_all add: returns_def prog_defs await_lock_def monotonic_def)

lemmas returns_intros = returns_ret returns_bind returns_then returns_if returns_run returns_world
  returns_core returns_simple

lemma returns_maintain: "returns (maintain ad now)"
proof -
  have locks: "returns (take_locks ks)" for ks
    by (induction ks) (auto intro!: returns_intros)
  have forget: "returns (forget_released now ks)" for ks
    by (induction ks) (auto simp: ask_def on_sender_forgotten_def intro!: returns_intros)
  show ?thesis unfolding maintain_def ask_def by (intro returns_intros locks forget)
qed

lemma returns_due: "returns (prune_when_due ad now)" "returns metrics_when_due"
  unfolding prune_when_due_def metrics_when_due_def by (intro returns_intros returns_maintain)+

text \<open>The loop's own fields after the part of a turn that follows the check.\<close>

definition keeps_beat :: "(unit, beat) prog_on \<Rightarrow> bool" where
  "keeps_beat m \<longleftrightarrow> (\<forall>b. bt_file (snd (m b)) = bt_file b \<and> bt_backlog_since (snd (m b)) = bt_backlog_since b)"

lemma keeps_due: "keeps_beat (prune_when_due ad now)" "keeps_beat metrics_when_due"
  by (auto simp: keeps_beat_def prune_when_due_def metrics_when_due_def bind_prog_def then_prog_def get_run_def
      put_run_def on_core_def ret_def split: prod.split sum.split)

lemma check_outcome:
  assumes "bt_backlog_since b = backlog_start ss"
  shows "\<exists>c. check_update_loop sr b =
    (if stalled ss (sample_of sr b) then Inl ''UpdateLoopStalledError'' else Inr (),
     b\<lparr>bt_core := c, bt_backlog_since := backlog_start (ss @ [sample_of sr b])\<rparr>)
    \<and> co_world c = co_world (bt_core b)"
  using assms
  by (intro exI [of _ "(bt_core b)\<lparr>co_readings := Suc (co_readings (bt_core b))\<rparr>"])
    (simp add: check_update_loop_def bind_prog_def then_prog_def on_core_def monotonic_def get_run_def put_run_def
      sample_of_def observe_is_backlog ret_def raise_exn_def)

lemma due_outcome:
  "\<exists>b'. then_prog (prune_when_due ad now) metrics_when_due b = (Inr (), b')
    \<and> bt_file b' = bt_file b \<and> bt_backlog_since b' = bt_backlog_since b"
proof -
  obtain b1 where one: "prune_when_due ad now b = (Inr (), b1)"
    using returns_due(1) [of ad now] unfolding returns_def by fastforce
  obtain b2 where two: "metrics_when_due b1 = (Inr (), b2)"
    using returns_due(2) unfolding returns_def by fastforce
  have "bt_file b1 = bt_file b" "bt_backlog_since b1 = bt_backlog_since b"
      "bt_file b2 = bt_file b1" "bt_backlog_since b2 = bt_backlog_since b1"
    using keeps_due one two unfolding keeps_beat_def by (metis snd_conv)+
  with one two show ?thesis by (simp add: then_prog_def bind_prog_def)
qed

text \<open>One turn of a loop that has taken the samples \<open>ss\<close>.\<close>

definition turn_ends :: "sample list \<Rightarrow> surroundings \<Rightarrow> beat \<Rightarrow> (exn + unit) \<times> beat \<Rightarrow> bool" where
  "turn_ends ss sr b r \<longleftrightarrow> bt_backlog_since (snd r) = backlog_start (ss @ [sample_of sr b])
     \<and> (if stalled ss (sample_of sr b) then fst r = Inl ''UpdateLoopStalledError'' \<and> bt_file (snd r) = bt_file b
          \<and> co_world (bt_core (snd r)) = co_world (bt_core b)
        else if sr_disk_fails sr then fst r = Inl ''OSError'' \<and> bt_file (snd r) = bt_file b
        else fst r = Inr () \<and> bt_file (snd r) = Some (clock (co_world (bt_core b)) (ticks (co_world (bt_core b)))))"

lemma turn_outcome:
  assumes since: "bt_backlog_since b = backlog_start ss"
  shows "turn_ends ss sr b (heartbeat_turn ad sr b)"
proof -
  obtain c where check: "check_update_loop sr b =
    (if stalled ss (sample_of sr b) then Inl ''UpdateLoopStalledError'' else Inr (),
     b\<lparr>bt_core := c, bt_backlog_since := backlog_start (ss @ [sample_of sr b])\<rparr>)"
    and c: "co_world c = co_world (bt_core b)" using check_outcome [OF since, of sr] by blast
  show ?thesis
  proof (cases "stalled ss (sample_of sr b)")
    case True
    with check c show ?thesis by (simp add: turn_ends_def heartbeat_turn_def then_prog_def bind_prog_def)
  next
    case False
    define now where "now = clock (co_world (bt_core b)) (ticks (co_world (bt_core b)))"
    let ?p = "\<lambda>at. then_prog (write_runtime_heartbeat sr at) (then_prog (prune_when_due ad at) metrics_when_due)"
    have step: "bind_prog (on_core time_now) (\<lambda>at. then_prog (on_core (on_world (change (heartbeat at)))) (p at)) b1
        = p (clock (co_world (bt_core b1)) (ticks (co_world (bt_core b1)))) (b1\<lparr>bt_core := c1\<rparr>)"
      if "c1 = (bt_core b1)\<lparr>co_world := (co_world (bt_core b1))\<lparr>ticks := Suc (ticks (co_world (bt_core b1))),
        db := heartbeat (clock (co_world (bt_core b1)) (ticks (co_world (bt_core b1)))) (core_db (bt_core b1))\<rparr>\<rparr>"
      for b1 c1 and p :: "int \<Rightarrow> (unit, beat) prog_on"
      by (simp add: then_prog_def bind_prog_def on_core_def time_now_def on_world_def read_clock_def change_def that)
    have "heartbeat_turn ad sr b =
        bind_prog (on_core time_now) (\<lambda>at. then_prog (on_core (on_world (change (heartbeat at)))) (?p at))
          (b\<lparr>bt_core := c, bt_backlog_since := backlog_start (ss @ [sample_of sr b])\<rparr>)"
      using check False by (simp add: heartbeat_turn_def then_prog_def [of "check_update_loop _"] bind_prog_def [of "check_update_loop _"])
    then obtain b1 where rest: "heartbeat_turn ad sr b = ?p now b1"
      and b1: "bt_file b1 = bt_file b" "bt_backlog_since b1 = backlog_start (ss @ [sample_of sr b])"
      unfolding step [OF refl] by (simp add: now_def c)
    show ?thesis
    proof (cases "sr_disk_fails sr")
      case True
      with False show ?thesis
        unfolding rest by (simp add: turn_ends_def write_runtime_heartbeat_def then_prog_def raise_exn_def bind_prog_def b1)
    next
      case ok: False
      have "heartbeat_turn ad sr b = then_prog (prune_when_due ad now) metrics_when_due (b1\<lparr>bt_file := Some now\<rparr>)"
        unfolding rest using ok
        by (simp add: write_runtime_heartbeat_def then_prog_def [of "put_run _"] put_run_def bind_prog_def)
      with due_outcome [of ad now "b1\<lparr>bt_file := Some now\<rparr>"] False ok b1 show ?thesis
        by (auto simp: turn_ends_def now_def)
    qed
  qed
qed

lemma beat_run_since:
  "beat_run ad b ss b' \<Longrightarrow> bt_backlog_since b = None \<Longrightarrow> bt_backlog_since b' = backlog_start ss"
proof (induction rule: beat_run.induct)
  case (no_turn b)
  then show ?case by (simp add: backlog_start_def)
next
  case (turn b ss b' sr b'' c)
  from turn_outcome [OF turn.IH [OF turn.prems], of sr ad] turn.hyps(2) show ?case
    by (simp add: turn_ends_def)
qed

lemma beat_run_not_stalled:
  "beat_run ad b ss b' \<Longrightarrow> bt_backlog_since b = None \<Longrightarrow> ss = ss1 @ s # ss2 \<Longrightarrow> \<not> stalled ss1 s"
proof (induction arbitrary: ss2 rule: beat_run.induct)
  case (turn b ss b' sr b'' c)
  have last: "\<not> stalled ss (sample_of sr b')"
    using turn_outcome [OF beat_run_since [OF turn.hyps(1) turn.prems(1)], of sr ad] turn.hyps(2)
    by (auto simp: turn_ends_def split: if_splits)
  show ?case
  proof (cases ss2 rule: rev_cases)
    case Nil
    with turn.prems(2) last show ?thesis by simp
  next
    case (snoc ys y)
    with turn.prems have "ss = ss1 @ s # ys" by simp
    with turn.IH turn.prems(1) show ?thesis by blast
  qed
qed simp

text \<open>C18. A stalled update loop ends the process, and only a stalled one does. After any number of turns
  that ended normally, the next turn raises \<open>UpdateLoopStalledError\<close> exactly when the queue was found
  non-empty in every sample of at least the last five minutes; it then writes no heartbeat, to the file or to
  the database, so that the health check sees it age. Otherwise the turn writes the current time, or ends
  with the failure of the file system. No turn of the run so far met a stalled loop.\<close>

theorem stalled_loop_ends:
  assumes "beat_run ad (new_beat c) ss b"
  shows "turn_ends ss sr b (heartbeat_turn ad sr b) \<and> (\<forall>ss1 s ss2. ss = ss1 @ s # ss2 \<longrightarrow> \<not> stalled ss1 s)"
  using turn_outcome [OF beat_run_since [OF assms]] beat_run_not_stalled [OF assms]
  by (simp add: new_beat_def)

end
