(* ===== verification/Core_System.thy ===== *)
theory Core_System
  imports Adapter_Run Scenarios
begin

text \<open>
  The whole core as a transition system: the start, requests of the dashboard, commands of the owner,
  turns of the cleanup loop and of the heartbeat loop, and the events, jobs and maintenance of
  \<open>System\<close>. The invariants of the database
  and the bound of the identity cache hold in every reachable core, and a deletion job whose sender
  was released in the meantime never reaches Telegram.
\<close>

subsection \<open>Operator commands\<close>

lemma runs_store:
  "(\<And>s. store_step s (snd (f s))) \<Longrightarrow> stays runs (on_world (transact_exn f))"
  by (intro any.rel_world keeps_transact_exn_store)

lemma runs_field:
  "stays runs (put_run (\<lambda>c. c\<lparr>co_wakeup := b\<rparr>))" "stays runs (put_run (\<lambda>c. c\<lparr>co_artifacts := is\<rparr>))"
  "stays runs (put_run (\<lambda>c. c\<lparr>co_controls := cs\<rparr>))" "stays runs (put_run (collect i))"
  "stays runs (put_run (add_control i k t))" "stays runs (put_run (drop_control i))"
  "stays runs (put_run (live_controls t))" "stays runs (put_run (handled_before t))"
  "stays runs (put_run (mark_handled i t))"
  by (rule any.rel_set; simp add: collect_def add_control_def drop_control_def live_controls_def
      handled_before_def mark_handled_def)+

lemma runs_respond: "stays runs (respond t)"
  unfolding respond_def by (auto intro!: any.rel_parts runs_field split: reply.splits)

lemmas runs_parts = any.rel_parts runs_field runs_respond

lemma runs_say: "stays runs (say t)"
  unfolding say_def by (intro runs_parts)

lemma runs_send_case: "stays runs (send_case op t item)"
  unfolding send_case_def identity_text_def Let_def by (intro runs_parts)

lemma runs_send_each: "stays runs (send_each op t items)"
  by (induction items) (auto intro!: runs_parts runs_send_case)

lemma runs_send_cases: "stays runs (send_cases op)"
  unfolding send_cases_def by (intro runs_parts runs_say runs_send_each)

lemma runs_allow_case: "stays runs (operator_allow_case op i)"
  unfolding operator_allow_case_def take_control_def
  by (intro runs_parts runs_say whole.rel_allow_locked)

lemma runs_schedule_artifacts: "stays runs (schedule_artifact_deletion is)"
  unfolding schedule_artifact_deletion_def by (intro runs_parts runs_store by_schedule_artifacts)

lemma runs_operator_message: "stays runs (operator_message op e)"
  unfolding operator_message_def handle_command_def run_operator_command_def
  by (intro runs_parts runs_say runs_send_cases runs_allow_case runs_schedule_artifacts)

lemma runs_search: "stays runs (search_orphans nd now qs found)"
  by (induction qs arbitrary: found) (auto intro!: runs_parts split: reply.splits)

lemma runs_schedule: "stays runs (schedule_orphans rows)"
  by (induction rows) (auto intro!: runs_parts runs_store by_schedule_artifacts)

lemma runs_reconcile: "stays runs (reconcile_artifacts nd)"
  unfolding reconcile_artifacts_def by (intro runs_parts runs_search runs_schedule)

lemma runs_cleanup: "stays runs cleanup_turn"
  unfolding cleanup_turn_def delete_due_artifacts_def Let_def
  by (intro runs_parts any.rel_world keeps_change_store by_retry_artifacts by_complete_artifacts)

subsection \<open>Runs of the core\<close>

text \<open>The tasks a handler waits for change the database only through the store's operations.\<close>

definition patient :: "core \<Rightarrow> bool" where
  "patient c \<longleftrightarrow> (\<forall>n s. store_step\<^sup>*\<^sup>* s (co_meanwhile c n s))"

inductive core_step :: "backend \<Rightarrow> operator \<Rightarrow> adapter \<Rightarrow> core \<Rightarrow> core \<Rightarrow> bool"
  for bk :: backend and op :: operator and ad :: adapter where
  dashboard_request: "core_step bk op ad c (snd (dashboard_service bk meth params c))"
| owner_command: "core_step bk op ad c (snd (operator_message op e c))"
| artifacts_found: "core_step bk op ad c (snd (reconcile_artifacts nd c))"
| artifacts_deleted: "core_step bk op ad c (snd (cleanup_turn c))"
| service_step: "system_step ad (co_world c) w \<Longrightarrow> core_step bk op ad c (c\<lparr>co_world := w\<rparr>)"
| sender_released: "core_step bk op ad c (forget_sender k (evict_identity k c))"
| process_starts: "core_step bk op ad c (snd (run_startup ad op me nd c))"
| heart_beats: "core_step bk op ad (bt_core b) (bt_core (snd (heartbeat_turn ad sr b)))"
| time_passes: "core_step bk op ad c (c\<lparr>co_monotonic := m, co_readings := n\<rparr>)"

inductive_cases core_stepE: "core_step bk op ad c c'"

lemma service_runs: "snd (dashboard_service bk meth params c) = snd (backend_request bk meth params c)"
  by (simp add: dashboard_service_def split: prod.split sum.split)

lemma core_step_runs: "core_step bk op ad c c' \<Longrightarrow> runs c c'"
proof (induction rule: core_step.induct)
  case (dashboard_request c meth params)
  show ?case unfolding service_runs by (rule staysD) (rule runs_request)
next
  case (service_step c w)
  then show ?case by (simp add: core_rel_def system_step_store)
next
  case (sender_released c k)
  then show ?case by (simp add: core_rel_def forget_sender_def evict_identity_def filter_identities_ok)
next
  case (time_passes c m n)
  then show ?case by (simp add: core_rel_def identities_ok_def)
qed (auto intro: staysD runs_operator_message runs_reconcile runs_cleanup heartbeat_turn_runs run_startup_runs)

lemma core_run_runs: "(core_step bk op ad)\<^sup>*\<^sup>* c c' \<Longrightarrow> runs c c'"
  by (induction rule: rtranclp_induct) (auto intro: any.cores.R_refl any.cores.R_trans core_step_runs)

lemma core_run_store: "(core_step bk op ad)\<^sup>*\<^sup>* c c' \<Longrightarrow> patient c \<Longrightarrow> store_step\<^sup>*\<^sup>* (core_db c) (core_db c')"
  using core_run_runs by (fastforce simp: core_rel_def patient_def)

text \<open>C13. In every reachable core the database is well-formed (unique keys, at most one pending review
  and one open job per sender, rows whose columns fit their status) and the identity cache holds at
  most 256 entries with different keys.\<close>

theorem running_core_invariant:
  assumes "(core_step bk op ad)\<^sup>*\<^sup>* c c'" and "patient c" and "wf_store (core_db c)" and "identities_ok c"
  shows "wf_store (core_db c') \<and> identities_ok c'"
  using reachable_wf [OF core_run_store [OF assms(1,2)] assms(3)] core_run_runs [OF assms(1)] assms(4)
  by (simp add: core_rel_def)

definition demo_backend :: backend where
  "demo_backend = \<lparr>bk_gatekeeper = demo_gatekeeper, bk_mute_days = 30, bk_case_protector = None,
     bk_sha256 = (\<lambda>b. b), bk_database_stats = (\<lambda>_. database_statistics 0 0 4096), bk_decimals = (\<lambda>_. None),
     bk_float_text = (\<lambda>t. t)\<rparr>"

definition demo_operator :: operator where
  "demo_operator = \<lparr>op_gatekeeper = demo_gatekeeper, op_enabled = True, op_self_user_id = Some 1,
     op_control_char = (\<lambda>c. c < 32), op_format_char = (\<lambda>_. False)\<rparr>"

definition demo_adapter :: adapter where
  "demo_adapter = \<lparr>ad_gatekeeper = demo_gatekeeper, ad_mute_days = 30, ad_test_sender_id = None,
     ad_audit_days = 30, ad_archived_days = None\<rparr>"

definition demo_core :: "store \<Rightarrow> core" where
  "demo_core s = \<lparr>co_world = demo_world s, co_identities = [], co_controls = [], co_handled = [],
     co_artifacts = [], co_wakeup = False, co_monotonic = (\<lambda>_. 0), co_readings = 0,
     co_meanwhile = (\<lambda>_ s. s), co_waits = 0\<rparr>"

lemma demo_core_ok: "patient (demo_core s)" "identities_ok (demo_core s)" "core_db (demo_core s) = s"
  by (simp_all add: demo_core_def patient_def identities_ok_def demo_world_def)

lemma running_core_invariant_witness:
  "wf_store (core_db (snd (cleanup_turn (demo_core (empty_store 7)))))
   \<and> identities_ok (snd (cleanup_turn (demo_core (empty_store 7))))"
proof -
  have "(core_step demo_backend demo_operator demo_adapter)\<^sup>*\<^sup>* (demo_core (empty_store 7))
      (snd (cleanup_turn (demo_core (empty_store 7))))"
    by (rule r_into_rtranclp) (rule artifacts_deleted)
  from running_core_invariant [OF this demo_core_ok(1) _ demo_core_ok(2)] show ?thesis
    by (simp add: demo_core_ok empty_store_wf)
qed

lemma worker_unclaimed:
  assumes "\<And>ts. claim_action i ts (db w) = None"
  shows "trace (snd (dialog_deletion_worker ad i w)) = trace w"
  using assms by (simp add: dialog_deletion_worker_def prog_defs split: option.split)

text \<open>C14. A deletion job whose sender was released, or restricted anew, after it was scheduled never
  deletes a dialog: whenever it wakes up in a later core, it sends nothing to Telegram.\<close>

theorem released_dialog_not_deleted:
  assumes "(core_step bk op ad)\<^sup>*\<^sup>* c c'" and "patient c" and "wf_store (core_db c)"
    and "find_pending i (core_db c) = Some a" and "outdated a (core_db c)"
  shows "trace (snd (run_job ad (DialogDeletionJob i at) (co_world c'))) = trace (co_world c')"
  using outdated_never_claimed [OF core_run_store [OF assms(1,2)] assms(3-5)]
  by (simp add: worker_unclaimed)

definition stale_job :: pending_action where
  "stale_job = \<lparr>act_id = 1, act_sender = ''other'', act_reason = ''attempts_exhausted'', act_reference = [1, 2],
     act_execute_at = 900, act_expected_revision = 3, act_mode_independent = True, act_status = ActPending,
     act_created_at = 900, act_finished_at = None\<rparr>"

definition stale_store :: store where
  "stale_store = (empty_store 7)\<lparr>sender_table := [(''other'', set_state_row ALLOWED None None None 0 None 4 950)],
     pending_actions_table := [stale_job], action_seq := 1\<rparr>"

lemma stale_store_wf: "wf_store stale_store"
  by (auto simp: wf_store_def stale_store_def stale_job_def empty_store_def keys_ok_def rows_ok_def reviews_ok_def
      actions_ok_def ids_ok_def at_most_one_def keys_of_def step_simps count_where_def job_for_def)

lemma released_dialog_not_deleted_witness:
  "trace (snd (run_job demo_adapter (DialogDeletionJob 1 900) (co_world (demo_core stale_store)))) = []"
proof -
  have run: "(core_step demo_backend demo_operator demo_adapter)\<^sup>*\<^sup>* (demo_core stale_store) (demo_core stale_store)"
    by simp
  have job: "find_pending 1 stale_store = Some stale_job" "outdated stale_job stale_store"
    by (simp_all add: stale_store_def stale_job_def find_pending_def outdated_def set_state_row_def restricted_row_def)
  have "trace (co_world (demo_core stale_store)) = []" by (simp add: demo_core_def demo_world_def)
  then show ?thesis
    using released_dialog_not_deleted [OF run demo_core_ok(1), of 1 stale_job 900] job
    by (simp add: demo_core_ok stale_store_wf del: run_job.simps)
qed

lemma reading_requests_only_read_witness:
  "only_read (demo_core stale_store) (snd (dashboard_service demo_backend (ustr ''overview'') [] (demo_core stale_store)))"
  by (rule reading_requests_only_read) (simp add: READ_ONLY_METHODS_def)

definition busy :: surroundings where
  "busy = \<lparr>sr_queue_size = Some 5, sr_disk_fails = False\<rparr>"

lemma stalled_loop_ends_witness:
  "fst (heartbeat_turn demo_adapter busy ((snd (heartbeat_turn demo_adapter busy (new_beat (demo_core (empty_store 7)))))
      \<lparr>bt_core := (demo_core (empty_store 7))\<lparr>co_monotonic := (\<lambda>_. 400 * 10 ^ 9)\<rparr>\<rparr>)) = Inl ''UpdateLoopStalledError''"
proof -
  let ?b = "new_beat (demo_core (empty_store 7))"
  have one: "sample_of busy ?b = (5, 0)"
    by (simp add: sample_of_def queued_update_count_def busy_def new_beat_def demo_core_def)
  have "turn_ends [] busy ?b (heartbeat_turn demo_adapter busy ?b)"
    by (rule turn_outcome) (simp add: new_beat_def backlog_start_def)
  then have "fst (heartbeat_turn demo_adapter busy ?b) = Inr ()"
    by (simp add: turn_ends_def stalled_def backlog_start_def busy_def)
  then have "heartbeat_turn demo_adapter busy ?b = (Inr (), snd (heartbeat_turn demo_adapter busy ?b))"
    by (simp add: prod_eq_iff)
  from beat_run.turn [OF no_turn this, of "(demo_core (empty_store 7))\<lparr>co_monotonic := (\<lambda>_. 400 * 10 ^ 9)\<rparr>"]
  show ?thesis unfolding one
    by (drule_tac stalled_loop_ends [where sr = busy])
      (simp add: turn_ends_def stalled_def backlog_start_def sample_of_def queued_update_count_def busy_def
        demo_core_def UPDATE_LOOP_STALL_def)
qed

end
