(* ===== verification/Backend_Decisions.thy ===== *)
theory Backend_Decisions
  imports Core_System Service_Outcomes
begin

text \<open>
  The operator's decisions on reviews and cases: a decision is taken as a whole or not at all, and
  what it leaves in the database. \<open>decides\<close> is a triple for handlers whose exceptions leave the
  reviews, the senders and the deletion jobs as they were.
\<close>

definition undecided :: "store \<Rightarrow> store \<Rightarrow> bool" where
  "undecided s s' \<longleftrightarrow> sender_table s' = sender_table s \<and> review_queue s' = review_queue s
     \<and> pending_actions_table s' = pending_actions_table s \<and> action_seq s' = action_seq s"

interpretation undecided: store_relation undecided
  by unfold_locales (simp_all add: undecided_def)

definition idle :: "core \<Rightarrow> bool" where
  "idle c \<longleftrightarrow> co_meanwhile c = (\<lambda>_ s. s)"

definition still :: "core \<Rightarrow> core \<Rightarrow> bool" where
  "still c0 c \<longleftrightarrow> idle c \<and> undecided (core_db c0) (core_db c)"

definition decides :: "core \<Rightarrow> ('a \<Rightarrow> core \<Rightarrow> bool) \<Rightarrow> 'a core_prog \<Rightarrow> bool" where
  "decides c0 Q m \<longleftrightarrow> (\<forall>c. still c0 c \<longrightarrow>
     (case m c of (Inl e, c') \<Rightarrow> still c0 c' | (Inr x, c') \<Rightarrow> Q x c'))"

lemma still_rel: "core_rel undecided c c' \<Longrightarrow> still c0 c \<Longrightarrow> still c0 c'"
  by (auto simp: core_rel_def still_def idle_def undecided_def)

lemma decides_keep:
  assumes "stays (core_rel undecided) m" and "\<And>x. decides c0 Q (f x)"
  shows "decides c0 Q (bind_prog m f)"
  unfolding decides_def
proof (intro allI impI)
  fix c assume still: "still c0 c"
  obtain r c' where m: "m c = (r, c')" by fastforce
  with still_rel [OF staysD [OF assms(1)] still] have "still c0 c'" by simp
  with m assms(2) show "case bind_prog m f c of (Inl e, c') \<Rightarrow> still c0 c' | (Inr x, c') \<Rightarrow> Q x c'"
    by (cases r) (auto simp: bind_prog_def decides_def)
qed

lemma decides_then: "stays (core_rel undecided) m \<Longrightarrow> decides c0 Q n \<Longrightarrow> decides c0 Q (then_prog m n)"
  unfolding then_prog_def by (rule decides_keep)

lemma decides_bind:
  assumes "decides c0 P m" and "\<And>x c. P x c \<Longrightarrow> case f x c of (Inl e, c') \<Rightarrow> still c0 c' | (Inr y, c') \<Rightarrow> Q y c'"
  shows "decides c0 Q (bind_prog m f)"
  using assms unfolding decides_def bind_prog_def by (fastforce split: prod.splits sum.splits)

text \<open>Reading what is undecided gives the same as at the start.\<close>

lemma decides_ask:
  assumes "\<And>s. undecided (core_db c0) s \<Longrightarrow> f s = f (core_db c0)" and "decides c0 Q (g (f (core_db c0)))"
  shows "decides c0 Q (bind_prog (ask f) g)"
  using assms unfolding decides_def
  by (auto simp: still_def ask_def on_world_def query_def bind_prog_def)

lemma decides_raise: "decides c0 Q (raise_exn e)" "decides c0 Q (backend_error code)"
  by (simp_all add: decides_def raise_exn_def backend_error_def)

lemma decides_if: "(b \<Longrightarrow> decides c0 Q m) \<Longrightarrow> (\<not> b \<Longrightarrow> decides c0 Q n) \<Longrightarrow> decides c0 Q (if b then m else n)"
  by simp

lemma decides_option:
  "(x = None \<Longrightarrow> decides c0 Q m) \<Longrightarrow> (\<And>y. x = Some y \<Longrightarrow> decides c0 Q (f y))
   \<Longrightarrow> decides c0 Q (case x of None \<Rightarrow> m | Some y \<Rightarrow> f y)"
  by (cases x) auto

lemmas decides_rules = decides_raise decides_if decides_option

subsection \<open>What a decision leaves\<close>

text \<open>A permanent suppression that the operator ordered: archived, without a pending review, and with
  one deletion job that can be claimed at any time.\<close>

definition banned_by_owner :: "sender_key \<Rightarrow> store \<Rightarrow> bool" where
  "banned_by_owner k s \<longleftrightarrow>
     (\<exists>r. map_of (sender_table s) k = Some r \<and> status r = SUPPRESSED \<and> suppressed_until r = None
        \<and> suppression_reason r = Some ''manual_permanent_suppression'' \<and> archived_at r \<noteq> None)
     \<and> \<not> has_pending_review k s
     \<and> (\<exists>a. List.filter (job_for k) (pending_actions_table s) = [a] \<and> (\<forall>ts. claim_action (act_id a) ts s = Some a))"

definition allowed_by_owner :: "sender_key \<Rightarrow> store \<Rightarrow> bool" where
  "allowed_by_owner k s \<longleftrightarrow> status (sender k s) = ALLOWED \<and> \<not> has_pending_review k s
     \<and> (\<forall>a \<in> set (pending_actions_table s). act_sender a = k \<longrightarrow> \<not> open_status (act_status a))"

definition dismissed_by_owner :: "sender_key \<Rightarrow> store \<Rightarrow> store \<Rightarrow> bool" where
  "dismissed_by_owner k s0 s \<longleftrightarrow> sender_table s = sender_table s0 \<and> \<not> has_pending_review k s
     \<and> (\<forall>a \<in> set (pending_actions_table s). act_sender a = k \<longrightarrow> \<not> open_status (act_status a))"

definition closed_for :: "sender_key \<Rightarrow> store \<Rightarrow> bool" where
  "closed_for k s \<longleftrightarrow> \<not> has_pending_review k s
     \<and> (\<forall>a \<in> set (pending_actions_table s). act_sender a = k \<longrightarrow> \<not> open_status (act_status a))"

lemma decided_result:
  "st \<in> REVIEW_DECISIONS \<Longrightarrow> \<exists>n. fst (decide_sender_reviews k st ts s) = Inr n"
  by (simp add: decide_sender_reviews_def Let_def)

lemma decided_rows:
  "sender_table (snd (decide_sender_reviews k st ts s)) = sender_table s"
  "action_seq (snd (decide_sender_reviews k st ts s)) = action_seq s"
  by (simp_all add: decide_sender_reviews_def Let_def)

lemma cancel_closes: "\<not> open_status (act_status (cancel_action ts a))"
  by (simp add: cancel_action_def open_status_def)

lemma decided_closed:
  assumes "st \<in> REVIEW_DECISIONS"
  shows "closed_for k (snd (decide_sender_reviews k st ts s))"
proof -
  have decided: "st \<noteq> RevPending" using assms by (auto simp: REVIEW_DECISIONS_def)
  then have "filter (\<lambda>r. rv_sender r = k \<and> rv_status r = RevPending)
      (update_where (\<lambda>r. rv_sender r = k \<and> rv_status r = RevPending) (close_review st ts) (review_queue s)) = []"
    by (intro filter_update_where_None) (simp_all add: close_review_def)
  then have "\<not> has_pending_review k (snd (decide_sender_reviews k st ts s))"
    using assms by (simp add: has_pending_review_def decide_sender_reviews_def Let_def filter_empty_conv list_ex_iff
        del: set_update_where)
  moreover have "filter (\<lambda>a. act_sender a = k \<and> open_status (act_status a))
      (update_where (\<lambda>a. act_sender a = k \<and> open_status (act_status a)) (cancel_action ts) (pending_actions_table s)) = []"
    by (intro filter_update_where_None) (simp_all add: cancel_closes open_status_def)
  then have "\<forall>a \<in> set (pending_actions_table (snd (decide_sender_reviews k st ts s))).
      act_sender a = k \<longrightarrow> \<not> open_status (act_status a)"
    using assms by (simp add: decide_sender_reviews_def Let_def filter_empty_conv del: set_update_where)
  ultimately show ?thesis by (simp add: closed_for_def)
qed

lemma decided_ids:
  "ids_ok act_id (pending_actions_table s) (action_seq s)
   \<Longrightarrow> ids_ok act_id (pending_actions_table (snd (decide_sender_reviews k st ts s))) (action_seq s)"
  by (auto simp: decide_sender_reviews_def Let_def cancel_action_def intro!: ids_ok_update_where)

lemma closed_cong:
  "review_queue s' = review_queue s \<Longrightarrow> pending_actions_table s' = pending_actions_table s
   \<Longrightarrow> closed_for k s' = closed_for k s"
  by (simp add: closed_for_def has_pending_review_def)

lemma closed_jobs: "closed_for k s \<Longrightarrow> List.filter (job_for k) (pending_actions_table s) = []"
  by (auto simp: closed_for_def job_for_def open_status_def filter_empty_conv)

lemma find_appended: "(\<forall>x \<in> set xs. \<not> P x) \<Longrightarrow> P a \<Longrightarrow> List.find P (xs @ [a]) = Some a"
  by (induction xs) auto

text \<open>The job that \<open>schedule_action\<close> inserts for a sender without open jobs.\<close>

lemma scheduled_job:
  assumes "closed_for k s" and "ids_ok act_id (pending_actions_table s) (action_seq s)"
    and "status (sender k s) = SUPPRESSED" and "suppressed_until (sender k s) = None"
    and t: "t = snd (schedule_action k reason reference at (revision (sender k s)) True now s)"
  shows "\<exists>a. List.filter (job_for k) (pending_actions_table t) = [a] \<and> (\<forall>ts. claim_action (act_id a) ts t = Some a)"
proof -
  let ?a = "\<lparr>act_id = action_seq s + 1, act_sender = k, act_reason = reason, act_reference = reference,
    act_execute_at = at, act_expected_revision = revision (sender k s), act_mode_independent = True,
    act_status = ActPending, act_created_at = now, act_finished_at = None\<rparr>"
  have same: "update_where (\<lambda>a. act_sender a = k \<and> act_status a = ActPending) (cancel_action now)
      (pending_actions_table s) = pending_actions_table s"
    using closed_jobs [OF assms(1)] unfolding update_where_def
    by (intro map_idI) (auto simp: filter_empty_conv job_for_def)
  then have t: "t = s\<lparr>action_seq := action_seq s + 1, pending_actions_table := pending_actions_table s @ [?a]\<rparr>"
    by (simp add: assms(5) schedule_action_def Let_def)
  have "List.filter (job_for k) (pending_actions_table t) = [?a]"
    using closed_jobs [OF assms(1)] by (simp add: t job_for_def)
  moreover have "find_pending (act_id ?a) t = Some ?a"
    unfolding find_pending_def t using assms(2)
    by (simp add: ids_ok_def) (rule find_appended, auto)
  then have "claim_action (act_id ?a) ts t = Some ?a" for ts
    using assms(3,4) by (simp add: claim_action_def t sender_def RESTRICTED_STATUSES_def)
  ultimately show ?thesis by blast
qed

lemma archived_claim: "claim_action i ts (snd (archive_restriction k now s)) = claim_action i ts s"
proof -
  have "sender_state.truncate (r\<lparr>archived_at := x\<rparr>) = sender_state.truncate r" for r :: sender_row and x
    by (simp add: sender_state.defs)
  then have "sender j (snd (archive_restriction k now s)) = sender j s" for j
    by (simp add: sender_def archive_restriction_def update_sender_def map_of_update_row split_beta split: option.split)
  moreover have "find_pending i (snd (archive_restriction k now s)) = find_pending i s"
      "get_mode (snd (archive_restriction k now s)) = get_mode s"
    by (simp_all add: find_pending_def get_mode_def archive_restriction_def update_sender_def split_beta)
  ultimately show ?thesis by (cases "find_pending i s") (simp_all add: claim_action_def Let_def)
qed

lemma ban_rows:
  assumes "(st, s1) = suppress k reason None reference restriction t s"
  shows "st = sender k s1"
    and "status (sender k s1) = SUPPRESSED" and "suppressed_until (sender k s1) = None"
    and "suppression_reason (sender k s1) = Some reason"
    and "review_queue s1 = review_queue s" and "pending_actions_table s1 = pending_actions_table s"
    and "action_seq s1 = action_seq s" and "map_of (sender_table s1) k \<noteq> None"
  using assms by (simp_all add: suppress_def Let_def sender_def map_of_upsert_row sender_state.defs split: option.split)

lemma activated_rows:
  "sender_table (snd (activate_enforcement_review k r e b t s)) = sender_table s"
  "review_queue (snd (activate_enforcement_review k r e b t s)) = review_queue s"
  "pending_actions_table (snd (activate_enforcement_review k r e b t s)) = pending_actions_table s"
  "action_seq (snd (activate_enforcement_review k r e b t s)) = action_seq s"
  by (simp_all add: activate_enforcement_review_def Let_def)

lemma scheduled_rows:
  "sender_table (snd (schedule_action k r b at n m t s)) = sender_table s"
  "review_queue (snd (schedule_action k r b at n m t s)) = review_queue s"
  by (simp_all add: schedule_action_def Let_def)

lemma sender_cong: "sender_table s' = sender_table s \<Longrightarrow> sender k s' = sender k s"
  by (simp add: sender_def)

lemma ban_written:
  assumes closed: "closed_for k s" and ids: "ids_ok act_id (pending_actions_table s) (action_seq s)"
    and st: "(st, s1) = suppress k ''manual_permanent_suppression'' None (Some reference) restriction t1 s"
    and s2: "s2 = snd (activate_enforcement_review k ''manual_permanent_suppression'' e None t2 s1)"
    and s3: "s3 = snd (schedule_action k ''manual_permanent_suppression'' reference now (revision st) True now s2)"
  shows "banned_by_owner k (snd (archive_restriction k now s3))"
proof -
  note rows = ban_rows [OF st]
  have st1: "st = sender k s2" and s1: "status (sender k s2) = SUPPRESSED" "suppressed_until (sender k s2) = None"
      "suppression_reason (sender k s2) = Some ''manual_permanent_suppression''"
    using rows sender_cong [OF activated_rows(1)] by (simp_all add: s2)
  have closed2: "closed_for k s2" using closed rows by (simp add: closed_for_def has_pending_review_def s2 activated_rows)
  obtain a where a: "List.filter (job_for k) (pending_actions_table s3) = [a]" "\<And>ts. claim_action (act_id a) ts s3 = Some a"
    using scheduled_job [OF closed2 _ s1(1,2) s3 [unfolded st1]] ids rows by (auto simp: s2 activated_rows)
  obtain r where r: "map_of (sender_table s3) k = Some r" "sender_state.truncate r = sender k s2"
    using rows by (auto simp: s3 scheduled_rows s2 activated_rows sender_def)
  then have "status r = SUPPRESSED" "suppressed_until r = None"
      "suppression_reason r = Some ''manual_permanent_suppression''"
    using s1 by (simp_all flip: r(2) add: truncate_simps)
  moreover have "\<not> has_pending_review k s3"
    using closed2 by (simp add: closed_for_def has_pending_review_def s3 scheduled_rows)
  ultimately show ?thesis
    unfolding banned_by_owner_def archived_claim
    by (intro conjI exI [of _ a]) (use r a in \<open>simp_all add: archive_restriction_def update_sender_def map_of_update_row
      split_beta has_pending_review_def\<close>)
qed

subsection \<open>The request\<close>

lemma undecided_snapshot:
  "keeps undecided (change (save_dialog_snapshot k d))" "keeps undecided (change (clear_dialog_snapshot k))"
  by (rule undecided.keeps_change, simp add: undecided_def save_dialog_snapshot_def clear_dialog_snapshot_def)+

lemma undecided_attempt: "keeps undecided m \<Longrightarrow> keeps undecided (attempt m)"
  by (simp add: keeps_iff attempt_def)

lemma undecided_restore: "keeps undecided (restore_dialog peer k)"
  unfolding restore_dialog_def
  by (auto intro!: undecided.keeps_control undecided_snapshot simp: Let_def split_beta)

lemma undecided_mute: "keeps undecided (tg_archive_and_mute days peer k)"
  unfolding tg_archive_and_mute_def tg_restore_from_pending_def snapshot_dialog_def
  by (auto intro!: undecided.keeps_control undecided_attempt undecided_restore undecided_snapshot
      split: option.splits reply.splits sum.splits)

lemma capture_undecided: "stays (core_rel undecided) (capture_manual_enforcement bk item peer)"
  unfolding capture_manual_enforcement_def Let_def
  by (auto intro!: undecided.rel_parts undecided.rel_world undecided.keeps_change split: option.splits
      simp: undecided_def save_enforcement_review_def)

lemma mute_undecided: "stays (core_rel undecided) (backend_archive_and_mute bk peer k)"
  unfolding backend_archive_and_mute_def by (rule undecided.rel_world) (rule undecided_mute)

lemma delete_review_undecided: "stays (core_rel undecided) (on_world (transact (delete_enforcement_review k)))"
  by (intro undecided.rel_world undecided.keeps_transact)
    (simp add: undecided_def delete_enforcement_review_def Let_def split_beta)

subsection \<open>The decisions\<close>

text \<open>A straight run of writes: \<open>surely D m s\<close> when \<open>m\<close>, started with the database \<open>s\<close>, returns and
  leaves a database in \<open>D\<close>.\<close>

definition surely :: "(store \<Rightarrow> bool) \<Rightarrow> 'a core_prog \<Rightarrow> store \<Rightarrow> bool" where
  "surely D m s \<longleftrightarrow> (\<forall>c. core_db c = s \<longrightarrow> (\<exists>x. fst (m c) = Inr x) \<and> D (core_db (snd (m c))))"

lemma surely_writes:
  "(\<And>now. surely D n (f now s)) \<Longrightarrow> surely D (then_prog (update_now f) n) s"
  "(\<And>now. surely D (g (fst (h now s))) (snd (h now s))) \<Longrightarrow> surely D (bind_prog (transact_now h) g) s"
  "surely D (g (fst (u s))) (snd (u s)) \<Longrightarrow> surely D (bind_prog (on_world (transact u)) g) s"
  "(\<And>now. surely D (g' now) s) \<Longrightarrow> surely D (bind_prog time_now g') s"
  "surely D n s \<Longrightarrow> surely D (then_prog (on_world (schedule j)) n) s"
  "D s \<Longrightarrow> surely D (on_world (schedule j)) s"
  "surely D (b x) s \<Longrightarrow> surely D (bind_prog (need_sum (Inr x)) b) s"
  "D s \<Longrightarrow> surely D (ret y) s"
  by (simp_all add: surely_def update_now_def transact_now_def time_now_def on_world_def bind_prog_def then_prog_def
      read_clock_def change_def transact_def schedule_def need_sum_def ret_def split_beta)

lemma surely_reference:
  "(\<And>x. surely D (g x) s) \<Longrightarrow> surely D (bind_prog (on_world (restriction_reference_for gk (Some r))) g) s"
  by (cases "prot_open_review (gk_protector gk) r")
    (auto simp: surely_def restriction_reference_for_def on_world_def bind_prog_def ret_def draw_def)

lemma surely_decided:
  assumes "st \<in> REVIEW_DECISIONS" and "\<And>now. surely D n (snd (decide_sender_reviews k st now s))"
  shows "surely D (bind_prog (transact_now (decide_sender_reviews k st)) (\<lambda>r. bind_prog (need_sum r) (\<lambda>_. n))) s"
proof (rule surely_writes(2))
  fix now
  obtain x where "fst (decide_sender_reviews k st now s) = Inr x" using decided_result [OF assms(1)] by blast
  then show "surely D (bind_prog (need_sum (fst (decide_sender_reviews k st now s))) (\<lambda>_. n))
      (snd (decide_sender_reviews k st now s))"
    using surely_writes(7) [of D "\<lambda>_. n" x] assms(2) by simp
qed

lemma evicted_store: "core_db (evict_identity k c) = core_db c"
  by (simp add: evict_identity_def)

lemma legitimate_closed:
  "closed_for k (snd (decide_sender_reviews k RevLegitimate now (allow k t s)))"
  by (rule decided_closed) (simp add: REVIEW_DECISIONS_def)

lemma allowed_row: "status (sender k (allow k t s)) = ALLOWED"
  by (simp add: allow_def Let_def set_state_def set_state_row_def sender_def map_of_upsert_row store_defs split_beta sender_state.defs
      split: option.split)

lemma legitimate_written:
  "allowed_by_owner k (snd (decide_sender_reviews k RevLegitimate now (allow k t s)))"
  using legitimate_closed [of k now t s] allowed_row [of k t s] sender_cong [OF decided_rows(1)]
  by (simp add: allowed_by_owner_def closed_for_def)

lemma dismissed_written:
  "sender_table s = sender_table s0 \<Longrightarrow> dismissed_by_owner k s0 (snd (decide_sender_reviews k RevDismissed now s))"
  using decided_closed [of RevDismissed k now s] decided_rows(1)
  by (simp add: dismissed_by_owner_def closed_for_def REVIEW_DECISIONS_def)

lemmas ban_final = ban_written [OF _ _ prod.collapse refl refl]

lemma spam_written:
  assumes "ids_ok act_id (pending_actions_table s) (action_seq s)"
  shows "surely (banned_by_owner (rv_sender item)) (suppress_manually bk item reference) s"
proof -
  have closed: "closed_for k (snd (decide_sender_reviews k RevSpam now s))" for k now
    by (rule decided_closed) (simp add: REVIEW_DECISIONS_def)
  have ids: "ids_ok act_id (pending_actions_table (snd (decide_sender_reviews k RevSpam now s)))
      (action_seq (snd (decide_sender_reviews k RevSpam now s)))" for k now
    using decided_ids [OF assms] by (simp add: decided_rows)
  show ?thesis
    unfolding suppress_manually_def Let_def
    by (intro surely_decided surely_writes surely_reference ban_final closed ids) (simp add: REVIEW_DECISIONS_def)
qed

text \<open>The triple for a handler: an exception leaves everything undecided, and the handler's writes
  lead to \<open>D\<close>.\<close>

lemma decides_surely:
  assumes "\<And>s. undecided (core_db c0) s \<Longrightarrow> surely D m s"
  shows "decides c0 (\<lambda>_ c. D (core_db c)) m"
  using assms unfolding decides_def surely_def still_def by (fastforce split: prod.split sum.split)

lemma decides_legitimate:
  "decides c0 (\<lambda>_ c. allowed_by_owner (rv_sender item) (core_db c)) (decide_legitimate bk item state)"
  unfolding decide_legitimate_def Let_def
  by (intro decides_then decides_surely surely_writes surely_decided legitimate_written undecided.rel_parts
      undecided.rel_world undecided_restore) (simp add: REVIEW_DECISIONS_def)

lemma decides_spam:
  assumes "ids_ok act_id (pending_actions_table (core_db c0)) (action_seq (core_db c0))"
  shows "decides c0 (\<lambda>_ c. banned_by_owner (rv_sender item) (core_db c)) (decide_spam bk item reference state)"
  unfolding decide_spam_def Let_def
  by (intro decides_then decides_keep decides_surely spam_written undecided.rel_parts capture_undecided
      mute_undecided delete_review_undecided) (use assms in \<open>simp add: undecided_def\<close>)

definition decided_as :: "string \<Rightarrow> sender_key \<Rightarrow> store \<Rightarrow> store \<Rightarrow> bool" where
  "decided_as action k s0 s \<longleftrightarrow>
     (if action = ''legitimate'' then allowed_by_owner k s
      else if action = ''spam'' then banned_by_owner k s
      else dismissed_by_owner k s0 s)"

lemma decides_finish:
  assumes "decides c0 (\<lambda>_ c. D (core_db c)) m"
  shows "decides c0 (\<lambda>_ c. D (core_db c)) (then_prog m (then_prog (put_run (evict_identity k)) (ret x)))"
  unfolding then_prog_def
  by (rule decides_bind [OF assms]) (simp add: bind_prog_def put_run_def ret_def evicted_store)

lemma decides_dismiss:
  "decides c0 (\<lambda>_ c. dismissed_by_owner k (core_db c0) (core_db c))
     (bind_prog (transact_now (decide_sender_reviews k RevDismissed)) (\<lambda>r. bind_prog (need_sum r) (\<lambda>_. ret ())))"
  by (intro decides_surely surely_decided surely_writes dismissed_written)
    (simp_all add: REVIEW_DECISIONS_def undecided_def decided_rows)

lemma decides_imp: "decides c0 P m \<Longrightarrow> (\<And>x c. P x c \<Longrightarrow> Q x c) \<Longrightarrow> decides c0 Q m"
  unfolding decides_def by (fastforce split: prod.splits sum.splits)

lemma decides_action:
  assumes "wf_store (core_db c0)"
  shows "decides c0 (\<lambda>_ c. decided_as action (rv_sender item) (core_db c0) (core_db c))
    (if action = ''legitimate'' then decide_legitimate bk item state
     else if action = ''spam'' then decide_spam bk item reference state
     else bind_prog (transact_now (decide_sender_reviews (rv_sender item) RevDismissed)) (\<lambda>r.
            bind_prog (need_sum r) (\<lambda>_. ret ())))"
proof -
  have "ids_ok act_id (pending_actions_table (core_db c0)) (action_seq (core_db c0))"
    using assms by (simp add: wf_store_def actions_ok_def)
  then show ?thesis
    by (intro decides_if) (auto intro!: decides_imp [OF decides_legitimate] decides_imp [OF decides_spam]
        decides_imp [OF decides_dismiss] simp: decided_as_def)
qed

lemma decides_sum:
  "(\<And>e. x = Inl e \<Longrightarrow> decides c0 Q (raise_exn e)) \<Longrightarrow> (\<And>y. x = Inr y \<Longrightarrow> decides c0 Q (f y))
   \<Longrightarrow> decides c0 Q (bind_prog (need_sum x) f)"
  by (cases x) (simp_all add: need_sum_def bind_ret bind_raise)

definition decision_of :: "json_object \<Rightarrow> store \<Rightarrow> store \<Rightarrow> bool" where
  "decision_of params s0 s \<longleftrightarrow> (\<exists>i item action. positive_int params ''review_id'' (2 ^ 31 - 1) = Inr i
     \<and> review_item_by_id i s0 = Some item \<and> rv_status item = RevPending
     \<and> review_action (param params ''action'') = Inr action \<and> decided_as action (rv_sender item) s0 s)"

lemma decides_review:
  assumes "wf_store (core_db c0)"
  shows "decides c0 (\<lambda>_ c. decision_of params (core_db c0) (core_db c)) (review_decide bk params)"
proof -
  have same: "review_item_by_id i s = review_item_by_id i (core_db c0)" if "undecided (core_db c0) s" for i s
    using that by (simp add: review_item_by_id_def undecided_def)
  have row: "sender k s = sender k (core_db c0)" if "undecided (core_db c0) s" for k s
    using that by (simp add: sender_def undecided_def)
  show ?thesis
    unfolding review_decide_def
    by (intro decides_sum decides_raise decides_ask decides_keep decides_then decides_option decides_if
        decides_imp [OF decides_finish [OF decides_action [OF assms]]] undecided.rel_parts same row)
      (auto simp: decision_of_def)
qed

text \<open>C20. An operator decision on a review is all or nothing. When nothing else writes while the request
  waits for the sender's lock: an error leaves the senders, the reviews and the deletion jobs as they
  were. A completed request decided the pending review it names, by its action: ''legitimate'' allows
  the sender; ''spam'' leaves a permanent, archived suppression and exactly one deletion job, which can
  be claimed at any time; ''dismiss'' leaves every sender as it was. None leaves a pending review of
  the sender.\<close>

theorem review_decision_all_or_nothing:
  assumes "idle c" and "wf_store (core_db c)" and "review_decide bk params c = (result, c')"
  shows "case result of
      Inl e \<Rightarrow> undecided (core_db c) (core_db c')
    | Inr answer \<Rightarrow> decision_of params (core_db c) (core_db c')"
proof -
  have "still c c" using assms(1) by (simp add: still_def undecided.R_refl)
  with decides_review [OF assms(2), of params bk] assms(3) show ?thesis
    by (auto simp: decides_def still_def split: sum.splits)
qed

definition waiting_review :: review_item where
  "waiting_review = \<lparr>rv_id = 1, rv_sender = ''other'', rv_reference = Some [1, 2], rv_classification = ''would_delete'',
     rv_signals = ''[]'', rv_features = ''{}'', rv_status = RevPending, rv_message_count = 1, rv_created_at = 0,
     rv_updated_at = 0, rv_expires_at = 100000, rv_reviewed_at = None\<rparr>"

definition waiting_store :: store where
  "waiting_store = (empty_store 7)\<lparr>review_queue := [waiting_review], review_seq := 1\<rparr>"

definition dismissal :: json_object where
  "dismissal = [(ustr ''review_id'', JInt 1), (ustr ''action'', JStr (ustr ''dismiss''))]"

lemma waiting_store_wf: "wf_store waiting_store"
  by (auto simp: wf_store_def waiting_store_def waiting_review_def empty_store_def keys_ok_def rows_ok_def reviews_ok_def
      actions_ok_def ids_ok_def at_most_one_def keys_of_def step_simps count_where_def job_for_def)

lemma dismissal_completed: "\<exists>answer. fst (review_decide demo_backend dismissal (demo_core waiting_store)) = Inr answer"
  by (simp add: review_decide_def dismissal_def positive_int_def param_def ustr_def need_sum_def core_defs prog_defs
      review_item_by_id_def waiting_store_def waiting_review_def demo_core_def demo_world_def live_review_item_def
      review_action_def ascii_string_def decide_sender_reviews_def REVIEW_DECISIONS_def empty_store_def Let_def
      then_prog_def bind_prog_def evict_identity_def query_def read_clock_def transact_def count_where_def ret_def)

lemma review_decision_all_or_nothing_witness:
  "decision_of dismissal waiting_store (core_db (snd (review_decide demo_backend dismissal (demo_core waiting_store))))"
proof -
  obtain answer c' where run: "review_decide demo_backend dismissal (demo_core waiting_store) = (Inr answer, c')"
    using dismissal_completed by (metis prod.collapse)
  have "idle (demo_core waiting_store)" by (simp add: idle_def demo_core_def)
  from review_decision_all_or_nothing [OF this _ run] show ?thesis
    by (simp add: demo_core_ok waiting_store_wf run)
qed

end
