(* ===== verification/View_Components.thy ===== *)
theory View_Components
  imports Py_Codec
begin

text \<open>
  \<open>dashboard_views/components.py\<close>: the HTML building blocks. Pages are lists of code points until
  \<open>render_page\<close> encodes them. \<open>checked_at\<close> is the formatted time the masthead shows, and \<open>str_of\<close>
  what \<open>str\<close> makes of a decoded list or dictionary. The \<open>markup\<close> of a text is its sequence of
  characters that mean something to an HTML parser; escaped text has none, so it can neither open
  nor close a tag or an attribute.
\<close>

text \<open>Characters outside ASCII, and the apostrophe where it ends a literal.\<close>

definition APOS :: ustring where "APOS = [39]"
definition EM_DASH :: ustring where "EM_DASH = [8212]"
definition EN_DASH :: ustring where "EN_DASH = [8211]"
definition LEFT_ARROW :: ustring where "LEFT_ARROW = [8592]"
definition RIGHT_ARROW :: ustring where "RIGHT_ARROW = [8594]"
definition OUT_ARROW :: ustring where "OUT_ARROW = [8599]"
definition RELOAD :: ustring where "RELOAD = [8635]"
definition DOT :: ustring where "DOT = [183]"
definition ELLIPSIS :: ustring where "ELLIPSIS = [8230]"

definition quoted :: "ustring \<Rightarrow> ustring" where
  "quoted t = APOS @ t @ APOS"

subsection \<open>Escaping\<close>

definition html_char :: "nat \<Rightarrow> ustring" where
  "html_char c =
    (if c = 38 then ustr ''&amp;'' else if c = 60 then ustr ''&lt;'' else if c = 62 then ustr ''&gt;''
     else if c = 34 then ustr ''&quot;'' else if c = 39 then ustr ''&#x27;'' else [c])"

definition html_escape :: "ustring \<Rightarrow> ustring" where
  "html_escape t = concat (map html_char t)"

definition significant :: "nat \<Rightarrow> bool" where
  "significant c \<longleftrightarrow> c \<in> {34, 39, 60, 62}"

definition markup :: "ustring \<Rightarrow> ustring" where
  "markup t = filter significant t"

lemma markup_append [simp]: "markup (a @ b) = markup a @ markup b"
  by (simp add: markup_def)

lemma markup_Nil [simp]: "markup [] = []"
  by (simp add: markup_def)

lemma markup_Cons: "markup (c # t) = (if significant c then c # markup t else markup t)"
  by (simp add: markup_def)

lemma markup_concat: "markup (concat ts) = concat (map markup ts)"
  by (induction ts) simp_all

lemma markup_char: "markup (html_char c) = []"
  by (simp add: html_char_def markup_def ustr_def significant_def)

lemma markup_escape [simp]: "markup (html_escape t) = []"
  by (induction t) (simp_all add: html_escape_def markup_char)

lemma markup_digits [simp]: "markup (show_nat n) = []" "markup (show_int i) = []"
proof -
  have plain: "\<not> significant c" if "c \<in> set (show_nat n)" for c n
  proof -
    have "is_digit c" using that by (rule show_nat_digits)
    then show ?thesis by (auto simp: significant_def is_digit_def)
  qed
  show one: "markup (show_nat n) = []" for n
    using plain by (simp add: markup_def filter_empty_conv)
  show "markup (show_int i) = []"
    using one by (simp add: show_int_def markup_Cons significant_def)
qed

subsection \<open>Text of JSON values\<close>

text \<open>\<open>str\<close> of a decoded value; a float keeps the text of its representation.\<close>

fun py_str :: "(json \<Rightarrow> ustring) \<Rightarrow> json \<Rightarrow> ustring" where
  "py_str str_of JNull = ustr ''None''"
| "py_str str_of (JBool b) = (if b then ustr ''True'' else ustr ''False'')"
| "py_str str_of (JInt i) = show_int i"
| "py_str str_of (JFloat t) = t"
| "py_str str_of (JStr t) = t"
| "py_str str_of v = str_of v"

text \<open>\<open>json.dumps\<close> with an indentation of two and sorted keys, at nesting depth \<open>d\<close>.\<close>

definition new_line :: "nat \<Rightarrow> ustring" where
  "new_line d = 10 # replicate (2 * d) 32"

fun dumps_indented :: "bool \<Rightarrow> nat \<Rightarrow> json \<Rightarrow> ustring" where
  "dumps_indented ascii d (JArr []) = ustr ''[]''"
| "dumps_indented ascii d (JArr vs) =
     [91] @ new_line (Suc d) @ join (44 # new_line (Suc d)) (map (dumps_indented ascii (Suc d)) vs)
     @ new_line d @ [93]"
| "dumps_indented ascii d (JObj []) = ustr ''{}''"
| "dumps_indented ascii d (JObj ms) =
     [123] @ new_line (Suc d)
     @ join (44 # new_line (Suc d))
         (map (\<lambda>(k, v). quote ascii k @ ustr '': '' @ dumps_indented ascii (Suc d) v) ms)
     @ new_line d @ [125]"
| "dumps_indented ascii d v = dumps ascii v"

definition json_block :: "json \<Rightarrow> ustring" where
  "json_block v = html_escape (dumps_indented False 0 (sort_keys v))"

definition joined :: "(json \<Rightarrow> ustring) \<Rightarrow> json \<Rightarrow> ustring" where
  "joined str_of v = (case v of
      JArr vs \<Rightarrow> if vs = [] then EM_DASH else join (ustr '', '') (map (py_str str_of) vs)
    | _ \<Rightarrow> EM_DASH)"

subsection \<open>Building blocks\<close>

definition PAGE_SIZE :: int where "PAGE_SIZE = 50"
definition DASHBOARD_POLL_SECONDS :: int where "DASHBOARD_POLL_SECONDS = 15"

definition text_block :: "string \<Rightarrow> ustring \<Rightarrow> bool \<Rightarrow> ustring" where
  "text_block label t as_quote =
    (if t = [] then []
     else ustr ''<h3 class='field-label'>'' @ html_escape (ustr label) @ ustr ''</h3>''
       @ ustr ''<pre class='' @ quoted (ustr (if as_quote then ''message quote'' else ''message'')) @ ustr ''>''
       @ html_escape t @ ustr ''</pre>'')"

definition badge :: "ustring \<Rightarrow> string \<Rightarrow> ustring" where
  "badge label tone =
    ustr ''<span class='badge badge-'' @ ustr tone @ APOS @ ustr ''>'' @ html_escape label @ ustr ''</span>''"

definition page_header ::
  "ustring \<Rightarrow> ustring option \<Rightarrow> ustring \<Rightarrow> ustring \<Rightarrow> ustring \<Rightarrow> (string \<times> string) option \<Rightarrow> ustring" where
  "page_header title count lede meta aside back =
    (let back_link = (case back of None \<Rightarrow> []
           | Some (href, label) \<Rightarrow> ustr ''<a class='back-link' href='' @ quoted (ustr href) @ ustr ''>'' @ LEFT_ARROW
               @ ustr '' '' @ html_escape (ustr label) @ ustr ''</a>'');
         count_html = (case count of None \<Rightarrow> []
           | Some c \<Rightarrow> if c = [] then [] else ustr '' <span class='title-count'>'' @ html_escape c @ ustr ''</span>'');
         lede_html = (if lede = [] then [] else ustr ''<p class='lede'>'' @ lede @ ustr ''</p>'')
     in ustr ''<div class='page-header'><div class='page-heading'>'' @ back_link @ ustr ''<h1>'' @ html_escape title
        @ count_html @ ustr ''</h1>'' @ meta @ lede_html @ ustr ''</div>''
        @ (if aside = [] then [] else ustr ''<div class='page-header-aside'>'' @ aside @ ustr ''</div>'')
        @ ustr ''</div>'')"

definition key_values :: "(string \<times> ustring) list \<Rightarrow> ustring" where
  "key_values rows = ustr ''<dl class='kv'>''
     @ concat (map (\<lambda>(label, v). ustr ''<div><dt>'' @ ustr label @ ustr ''</dt><dd>'' @ v @ ustr ''</dd></div>'') rows)
     @ ustr ''</dl>''"

text \<open>\<open>isinstance(user_id, int)\<close> also holds of a Boolean, which prints as \<open>True\<close> or \<open>False\<close>.\<close>

record live_identity =
  li_user_id :: ustring
  li_name :: "ustring option"
  li_username :: "ustring option"

definition text_or_none :: "json option \<Rightarrow> ustring option" where
  "text_or_none v = (case v of Some (JStr t) \<Rightarrow> Some t | _ \<Rightarrow> None)"

definition identity_from_value :: "json \<Rightarrow> live_identity option" where
  "identity_from_value v = (case v of
      JObj ms \<Rightarrow>
        (let names = \<lparr>li_user_id = [], li_name = text_or_none (map_of ms (ustr ''name'')),
               li_username = text_or_none (map_of ms (ustr ''username''))\<rparr>
         in case map_of ms (ustr ''user_id'') of
              Some (JInt i) \<Rightarrow> Some (names\<lparr>li_user_id := show_int i\<rparr>)
            | Some (JBool b) \<Rightarrow> Some (names\<lparr>li_user_id := ustr (if b then ''True'' else ''False'')\<rparr>)
            | _ \<Rightarrow> None)
    | _ \<Rightarrow> None)"

text \<open>The account name in parentheses, unless it is absent or empty.\<close>

definition with_username :: "ustring \<Rightarrow> live_identity \<Rightarrow> ustring" where
  "with_username label i = (case li_username i of
      None \<Rightarrow> label | Some u \<Rightarrow> if u = [] then label else label @ ustr '' (@'' @ u @ ustr '')'')"

definition identity_cell :: "live_identity option \<Rightarrow> ustring option \<Rightarrow> ustring" where
  "identity_cell identity href =
    (let label = (case identity of
            None \<Rightarrow> ustr ''Identity Unavailable''
          | Some i \<Rightarrow> (case li_name i of None \<Rightarrow> ustr ''Name Unavailable'' | Some name \<Rightarrow> with_username name i));
         identity_id = (case identity of None \<Rightarrow> []
          | Some i \<Rightarrow> ustr ''<span class='identity-id'>ID '' @ li_user_id i @ ustr ''</span>'');
         name = (case href of None \<Rightarrow> html_escape label
          | Some h \<Rightarrow> ustr ''<a class='identity-link row-link' href='' @ quoted (html_escape h) @ ustr ''>''
              @ html_escape label @ ustr ''</a>'')
     in ustr ''<span class='identity-name'>'' @ name @ ustr ''</span>'' @ identity_id)"

definition identity_meta :: "ustring option \<Rightarrow> ustring option \<Rightarrow> ustring" where
  "identity_meta user_id review_id =
    (let parts = (case user_id of None \<Rightarrow> []
           | Some i \<Rightarrow> [ustr ''<span class='identity-id'>ID '' @ i @ ustr ''</span>''])
         @ (case review_id of None \<Rightarrow> []
           | Some r \<Rightarrow> [ustr ''<span class='identity-id'>Review #'' @ r @ ustr ''</span>''])
         @ (case user_id of None \<Rightarrow> []
           | Some i \<Rightarrow> [ustr ''<a class='telegram-link' href='' @ quoted (ustr ''tg://user?id='' @ i) @ ustr ''>''
               @ ustr ''Open This Conversation in Telegram '' @ OUT_ARROW @ ustr ''</a>''])
     in if parts = [] then [] else ustr ''<p class='page-meta'>'' @ concat parts @ ustr ''</p>'')"

definition page_link :: "ustring \<Rightarrow> int \<Rightarrow> ustring \<Rightarrow> ustring" where
  "page_link base p label =
    ustr ''<a href='' @ quoted (base @ (if 63 \<in> set base then ustr ''&'' else ustr ''?'') @ ustr ''page='' @ show_int p)
    @ ustr ''>'' @ label @ ustr ''</a>''"

definition pagination :: "ustring \<Rightarrow> int \<Rightarrow> int \<Rightarrow> ustring" where
  "pagination base page all =
    (let total_pages = max 1 ((all + PAGE_SIZE - 1) div PAGE_SIZE)
     in if total_pages = 1 then []
        else ustr ''<nav class='pagination' aria-label='Pagination'>''
          @ (if page > 1 then page_link base (page - 1) (LEFT_ARROW @ ustr '' Previous'') else [])
          @ ustr ''<span>Page '' @ show_int page @ ustr '' of '' @ show_int total_pages @ ustr ''</span>''
          @ (if page < total_pages then page_link base (page + 1) (ustr ''Next '' @ RIGHT_ARROW) else [])
          @ ustr ''</nav>'')"

subsection \<open>The frame of a page\<close>

definition NAVIGATION :: "(string \<times> string \<times> string) list" where
  "NAVIGATION = [(''overview'', ''/'', ''Overview''), (''reviews'', ''/review'', ''Pending Reviews''),
     (''cases'', ''/cases'', ''Needs Attention''), (''archive'', ''/cases/archive'', ''Archived'')]"

definition BRAND :: ustring where
  "BRAND = ustr ''<span class='brand-mark' aria-hidden='true'>TG</span>''
     @ ustr ''<span class='brand-name'>PM Gatekeeper</span>''"

definition nav_link :: "string option \<Rightarrow> string \<times> string \<times> string \<Rightarrow> ustring" where
  "nav_link active = (\<lambda>(key, href, label). ustr ''<a href='' @ quoted (ustr href)
     @ (if active = Some key then ustr '' aria-current='' @ quoted (ustr ''page'') else [])
     @ ustr ''>'' @ ustr label @ ustr ''</a>'')"

definition masthead :: "ustring \<Rightarrow> string option \<Rightarrow> ustring option \<Rightarrow> ustring" where
  "masthead checked_at active csrf = (case csrf of
      None \<Rightarrow> ustr ''<header class='masthead'><div class='masthead-inner'><span class='brand'>'' @ BRAND
        @ ustr ''</span></div></header>''
    | Some token \<Rightarrow>
        ustr ''<header class='masthead'><div class='masthead-inner'>''
        @ ustr ''<a class='brand' href='/'>'' @ BRAND @ ustr ''</a>''
        @ ustr ''<nav class='primary-nav' aria-label='Dashboard sections' data-section-indicator>''
        @ concat (map (nav_link active) NAVIGATION) @ ustr ''</nav>''
        @ ustr ''<div class='connection' data-connection data-state='connected'>''
        @ ustr ''<span class='live'><i aria-hidden='true'></i><span data-connection-label>Connected</span></span>''
        @ ustr ''<small data-checked-at>Checked '' @ checked_at @ ustr ''</small>''
        @ ustr ''<button class='refresh-control' type='button' data-dashboard-refresh ''
        @ ustr ''aria-label='Check Now' title='Check Now'>'' @ RELOAD @ ustr ''</button></div>''
        @ ustr ''<button class='theme-toggle' type='button' data-theme-toggle ''
        @ ustr ''aria-label='Change theme'>System</button>''
        @ ustr ''<form class='logout-form' method='post' action='/logout'>''
        @ ustr ''<input type='hidden' name='token' value='' @ quoted token @ ustr ''>''
        @ ustr ''<button type='submit'>Sign Out</button></form>''
        @ ustr ''</div>'' @ ustr ''</header>'')"

definition change_notice :: ustring where
  "change_notice = ustr ''<section class='live-change-notice' data-change-notice hidden>''
     @ ustr ''<strong>This record changed while you were viewing it.</strong> ''
     @ ustr ''Actions are paused to prevent a stale decision. Check now to load the current state.''
     @ ustr ''</section>''"

definition action_form :: "ustring \<Rightarrow> ustring \<Rightarrow> string \<Rightarrow> string \<Rightarrow> string option \<Rightarrow> string \<Rightarrow> ustring" where
  "action_form csrf review_id action label tone base =
    ustr ''<form method='post' action='' @ quoted (ustr ''/'' @ ustr base @ ustr ''/'' @ review_id) @ ustr ''>''
    @ ustr ''<input type='hidden' name='token' value='' @ quoted csrf @ ustr ''>''
    @ ustr ''<input type='hidden' name='action' value='' @ quoted (ustr action) @ ustr ''>''
    @ ustr ''<button class='' @ quoted (case tone of None \<Rightarrow> ustr ''btn'' | Some t \<Rightarrow> ustr ''btn btn-'' @ ustr t)
    @ ustr '' type='submit'>'' @ html_escape (ustr label) @ ustr ''</button></form>''"

text \<open>A page in UTF-8; a surrogate cannot be encoded.\<close>

definition encode_page :: "ustring \<Rightarrow> string + nat list" where
  "encode_page t = (if list_all scalar t then Inr (concat (map utf8_char t)) else Inl ''UnicodeEncodeError'')"

definition document ::
  "bool \<Rightarrow> ustring \<Rightarrow> ustring option \<Rightarrow> ustring option \<Rightarrow> ustring \<Rightarrow> ustring" where
  "document raw title live_refresh page_version body =
    (let live_attributes = (case (live_refresh, page_version) of
           (Some refresh, Some version) \<Rightarrow>
             if raw \<and> refresh \<noteq> [] \<and> version \<noteq> [] then
               ustr '' data-live-refresh=\"'' @ html_escape refresh @ ustr ''\"''
               @ ustr '' data-page-version=\"'' @ html_escape version @ ustr ''\"''
               @ ustr '' data-poll-seconds=\"'' @ show_int DASHBOARD_POLL_SECONDS @ ustr ''\"''
             else []
         | _ \<Rightarrow> []);
         dashboard_script = (if raw then ustr ''<script src=\"/dashboard-theme.js\"></script>''
             @ ustr ''<script src=\"/dashboard.js\" defer></script>'' else []);
         stylesheet = (if raw then ustr ''/dashboard.css'' else ustr ''/dashboard-error.css'')
     in ustr ''<!doctype html><html lang=\"en\"><head><meta charset=\"utf-8\">'' @ [10]
        @ ustr ''<meta name=\"viewport\" content=\"width=device-width,initial-scale=1\">'' @ [10]
        @ ustr ''<title>'' @ html_escape title @ ustr ''</title>'' @ [10]
        @ ustr ''<link rel=\"stylesheet\" href=\"'' @ stylesheet @ ustr ''\">'' @ [10]
        @ dashboard_script @ ustr ''</head><body'' @ (if raw then ustr '' data-dashboard-page'' else [])
        @ live_attributes @ ustr ''>'' @ body @ ustr ''</body></html>'')"

text \<open>\<open>content.partition("</header>")\<close>: the content of the page goes into a frame of its own.\<close>

definition framed :: "ustring \<Rightarrow> ustring" where
  "framed content = (case find_sub content (ustr ''</header>'') of
      None \<Rightarrow> content
    | Some i \<Rightarrow> take (i + 9) content @ ustr ''<div data-dashboard-content>'' @ drop (i + 9) content @ ustr ''</div>'')"

text \<open>\<open>render_page\<close> with \<open>raw=True\<close>, and with the title of an error page. An empty page title stands
  for the default one.\<close>

definition render_content ::
  "ustring \<Rightarrow> ustring \<Rightarrow> ustring option \<Rightarrow> ustring option \<Rightarrow> string + nat list" where
  "render_content content page_title live_refresh page_version =
    encode_page (document True (if page_title = [] then ustr ''Gatekeeper Dashboard'' else page_title)
      live_refresh page_version (framed content))"

definition guidance :: "string \<Rightarrow> string" where
  "guidance content = (case map_of
      [(''Invalid Access Token'', ''This login link is invalid or has already been used. Run '' @
          ''the tunnel helper again to generate a new one-time link.''),
       (''Not Found'', ''The requested page is unavailable. Check the address or return to the '' @ ''dashboard.''),
       (''Dashboard Access Missing'', ''This address does not contain a valid dashboard session. Run the tunnel '' @
          ''helper again and open its new one-time link in this browser.''),
       (''Dashboard Signed Out'', ''This browser session has been revoked. Run the tunnel helper again when '' @
          ''you need to reopen the dashboard.''),
       (''Confirmation Required'', ''Suppress and Delete deletes the Telegram conversation, so it must be '' @
          ''confirmed on its own page. Nothing was changed.''),
       (''Request Failed'', ''The request could not be completed. No dashboard action was confirmed.'')] content of
      Some t \<Rightarrow> t | None \<Rightarrow> ''Check the request and return to the dashboard.'')"

definition render_error :: "string \<Rightarrow> string + nat list" where
  "render_error content =
    (let return_action =
           (if content \<in> {''Invalid Access Token'', ''Dashboard Access Missing'', ''Dashboard Signed Out''} then []
            else ustr ''<a class='btn' href='/'>Return to Dashboard</a>'');
         body = masthead [] None None
           @ ustr ''<main class='error-layout'><section class='error-card'>''
           @ ustr ''<div class='error-content'>''
           @ ustr ''<p class='error-kind'>Dashboard Error</p>''
           @ ustr ''<h1>'' @ html_escape (ustr content) @ ustr ''</h1>''
           @ ustr ''<p>'' @ html_escape (ustr (guidance content)) @ ustr ''</p>''
           @ ustr ''<p class='error-command'><code>scripts/dashboard-tunnel.sh SSH_TARGET</code></p>''
           @ return_action @ ustr ''</div></section></main>''
     in encode_page (document False (ustr ''Gatekeeper '' @ DOT @ ustr '' '' @ ustr content) None None body))"

record confirmation =
  cf_nav :: string
  cf_title :: ustring
  cf_body :: ustring
  cf_action :: ustring
  cf_button :: string
  cf_tone :: string
  cf_cancel_href :: ustring
  cf_page_title :: string
  cf_hidden :: "(string \<times> ustring) list"
  cf_warning :: "string option"
  cf_disabled :: bool

definition confirmation_page :: "ustring \<Rightarrow> ustring \<Rightarrow> confirmation \<Rightarrow> string + nat list" where
  "confirmation_page checked_at csrf p =
    (let hidden_inputs = concat (map (\<lambda>(name, v). ustr ''<input type='hidden' name='' @ quoted (ustr name)
             @ ustr '' value='' @ quoted (html_escape v) @ ustr ''>'') (cf_hidden p));
         warning_badge = (case cf_warning p of None \<Rightarrow> [] | Some w \<Rightarrow> if w = [] then [] else badge (ustr w) ''block'')
     in render_content
          (masthead checked_at (Some (cf_nav p)) (Some csrf)
           @ ustr ''<main class='page confirm-page'><section class='' @ quoted (ustr ''confirm-card''
               @ (if cf_tone p = ''block'' then ustr '' confirm-danger'' else []))
           @ ustr ''>'' @ warning_badge @ ustr ''<h1>'' @ html_escape (cf_title p) @ ustr ''</h1><p>''
           @ html_escape (cf_body p) @ ustr ''</p>''
           @ ustr ''<div class='confirm-actions'>''
           @ ustr ''<form method='post' action='' @ quoted (cf_action p) @ ustr ''>''
           @ ustr ''<input type='hidden' name='token' value='' @ quoted csrf @ ustr ''>'' @ hidden_inputs
           @ ustr ''<button class='' @ quoted (ustr ''btn btn-'' @ ustr (cf_tone p)) @ ustr '' type='' @ quoted (ustr ''submit'')
           @ (if cf_disabled p then ustr '' disabled'' else []) @ ustr ''>''
           @ html_escape (ustr (cf_button p)) @ ustr ''</button></form>''
           @ ustr ''<a class='btn' href='' @ quoted (cf_cancel_href p) @ ustr ''>Cancel</a></div></section></main>'')
          (ustr (cf_page_title p)) None None)"

end
