(* ===== verification/View_Labels.thy ===== *)
theory View_Labels
  imports View_Components Session Py_Form
begin

text \<open>
  \<open>dashboard_views/labels.py\<close>: labels, tones and relative times. A \<open>view\<close> holds what the rendering
  takes from its surroundings: how Python writes lists, dictionaries and floats, its Unicode tables
  for \<open>title\<close> and \<open>lower\<close>, the calendar, and the time at which the page is rendered (one reading per
  page). An exception other than a \<open>ValueError\<close> is called \<open>TypeError\<close> here whatever its class: the
  server answers all of them alike.
\<close>

record view =
  vw_str :: "json \<Rightarrow> ustring"
  vw_general :: "json \<Rightarrow> string + ustring"
  vw_float_int :: "ustring \<Rightarrow> string + int"
  vw_digits :: "nat \<Rightarrow> nat option"
  vw_floats :: "ustring \<Rightarrow> ustring"
  vw_title :: "ustring \<Rightarrow> ustring"
  vw_lower :: "ustring \<Rightarrow> ustring"
  vw_timestamp :: "int \<Rightarrow> string + ustring"
  vw_now :: int
  vw_checked_at :: ustring

abbreviation shown :: "view \<Rightarrow> json \<Rightarrow> ustring" where
  "shown v \<equiv> py_str (vw_str v)"

subsection \<open>Fields of a decoded answer\<close>

definition as_text :: "json \<Rightarrow> string + ustring" where
  "as_text x = (case x of JStr t \<Rightarrow> Inr t | _ \<Rightarrow> Inl ''TypeError'')"

text \<open>A Boolean is an integer; a float in place of a count or a time, which no answer of the backend
  has, counts as a wrong type.\<close>

definition as_int :: "json \<Rightarrow> string + int" where
  "as_int x = (case x of JInt i \<Rightarrow> Inr i | JBool b \<Rightarrow> Inr (if b then 1 else 0) | _ \<Rightarrow> Inl ''TypeError'')"

definition member_of :: "(ustring \<times> json) list \<Rightarrow> string \<Rightarrow> string + json" where
  "member_of ms name = (case map_of ms (ustr name) of None \<Rightarrow> Inl ''KeyError'' | Some x \<Rightarrow> Inr x)"

definition get_or :: "(ustring \<times> json) list \<Rightarrow> string \<Rightarrow> json \<Rightarrow> json" where
  "get_or ms name d = (case map_of ms (ustr name) of None \<Rightarrow> d | Some x \<Rightarrow> x)"

fun truthy :: "json \<Rightarrow> bool" where
  "truthy JNull = False"
| "truthy (JBool b) = b"
| "truthy (JInt i) = (i \<noteq> 0)"
| "truthy (JFloat t) = (t \<noteq> ustr ''0.0'' \<and> t \<noteq> ustr ''-0.0'')"
| "truthy (JStr t) = (t \<noteq> [])"
| "truthy (JArr xs) = (xs \<noteq> [])"
| "truthy (JObj ms) = (ms \<noteq> [])"

text \<open>\<open>int(value)\<close>.\<close>

definition int_of :: "view \<Rightarrow> json \<Rightarrow> string + int" where
  "int_of v x = (case x of
      JInt i \<Rightarrow> Inr i
    | JBool b \<Rightarrow> Inr (if b then 1 else 0)
    | JFloat t \<Rightarrow> vw_float_int v t
    | JStr t \<Rightarrow> (case py_int (vw_digits v) t of None \<Rightarrow> Inl ''ValueError'' | Some i \<Rightarrow> Inr i)
    | _ \<Rightarrow> Inl ''TypeError'')"

text \<open>A comprehension whose elements may raise.\<close>

fun map_sum_list :: "('a \<Rightarrow> 'e + 'b) \<Rightarrow> 'a list \<Rightarrow> 'e + 'b list" where
  "map_sum_list f [] = Inr []"
| "map_sum_list f (x # xs) = then_sum (f x) (\<lambda>y. then_sum (map_sum_list f xs) (\<lambda>ys. Inr (y # ys)))"

subsection \<open>Labels\<close>

definition LABELS :: "(ustring \<times> ustring) list" where
  "LABELS = map (\<lambda>(k, t). (ustr k, t))
    [(''would_challenge'', ustr ''Simulated Challenge '' @ DOT @ ustr '' Monitor''),
     (''would_delete'', ustr ''Planned Deletion '' @ DOT @ ustr '' Monitor''),
     (''would_quarantine'', ustr ''Simulated Quarantine '' @ DOT @ ustr '' Monitor''),
     (''challenge_unavailable'', ustr ''Challenge Unavailable '' @ DOT @ ustr '' Protect''),
     (''challenge_unavailable_action_failed'', ustr ''Challenge and Archive Failed '' @ DOT @ ustr '' Protect''),
     (''restore_failed'', ustr ''Restoration Failed '' @ DOT @ ustr '' Protect''),
     (''warning_failed'', ustr ''Failure Warning Not Delivered '' @ DOT @ ustr '' Protect''),
     (''timeout_notice_failed'', ustr ''Timeout Warning Not Delivered '' @ DOT @ ustr '' Protect''),
     (''critical_rule'', ustr ''Legacy Critical Rule Match''),
     (''permanent_suppression'', ustr ''Permanent Suppression''),
     (''standard_challenge'', ustr ''Standard Challenge''),
     (''strict_challenge'', ustr ''Strict Challenge''),
     (''owner_denied_domain'', ustr ''Owner Denied Domain''),
     (''corroborated_repeated_campaign'', ustr ''Corroborated Repeated Campaign''),
     (''risk_score_requires_strict_challenge'', ustr ''Risk Score Requires Strict Challenge''),
     (''risk_score_below_strict_threshold'', ustr ''Risk Score Below Strict Threshold''),
     (''manual_operator_decision'', ustr ''Manual Operator Decision''),
     (''manual_permanent_suppression'', ustr ''Manual Permanent Suppression''),
     (''manual_spam'', ustr ''Manual Spam Review''),
     (''attempts_exhausted'', ustr ''Attempts Exhausted''),
     (''challenge_timeout'', ustr ''Challenge Timeout''),
     (''challenge_pending'', ustr ''Challenge Pending''),
     (''reference_unavailable'', ustr ''Telegram Reference Unavailable''),
     (''reason_unavailable'', ustr ''Reason Unavailable''),
     (''spam_candidate'', ustr ''Spam Candidate''),
     (''legitimate_candidate'', ustr ''Legitimate Candidate''),
     (''not recorded'', ustr ''Not Recorded'')]"

definition spaced :: "ustring \<Rightarrow> ustring" where
  "spaced t = map (\<lambda>c. if c = 95 then 32 else c) t"

definition human_label :: "view \<Rightarrow> ustring \<Rightarrow> ustring" where
  "human_label v t = (case map_of LABELS t of
      Some label \<Rightarrow> label
    | None \<Rightarrow>
        if t = ustr ''uncertain'' then ustr ''Uncertain''
        else if ends_with t (ustr ''_action_failed'') then
          vw_title v (spaced (removesuffix t (ustr ''_action_failed''))) @ ustr '' Action Failed '' @ DOT @ ustr '' Protect''
        else
          (let legacy = starts_with t (ustr ''HR-'') \<and> 95 \<in> set t;
               prefix = (if legacy then ustr ''Legacy '' @ before_first 95 t @ ustr '' '' @ DOT @ ustr '' '' else []);
               label = vw_title v (strip (spaced (if legacy then after_first 95 t else t)));
               label = replace_all (ustr ''Vpn'') (ustr ''VPN'') (replace_all (ustr ''Url'') (ustr ''URL'') label)
           in prefix @ replace_all (ustr ''Webview'') (ustr ''WebView'') label))"

definition LIST_LABELS :: "(ustring \<times> ustring) list" where
  "LIST_LABELS = map (\<lambda>(k, t). (ustr k, ustr t))
    [(''challenge_timeout'', ''Challenge timed out''), (''timeout_notice_failed'', ''Timeout warning failed''),
     (''warning_failed'', ''Failure warning failed''), (''manual_permanent_suppression'', ''Manual suppression''),
     (''attempts_exhausted'', ''Attempts exhausted'')]"

definition list_reason_label :: "view \<Rightarrow> ustring \<Rightarrow> ustring" where
  "list_reason_label v reason = (case map_of LIST_LABELS reason of Some t \<Rightarrow> t | None \<Rightarrow> human_label v reason)"

definition case_tone :: "ustring \<Rightarrow> bool \<Rightarrow> string" where
  "case_tone st archived =
    (if archived then ''neutral''
     else if st = ustr ''quarantined'' then ''hold''
     else if st = ustr ''suppressed'' then ''block'' else ''neutral'')"

definition review_tone :: "ustring \<Rightarrow> string" where
  "review_tone classification = (if starts_with classification (ustr ''would_'') then ''monitor'' else ''hold'')"

subsection \<open>Times\<close>

definition relative_age :: "view \<Rightarrow> int \<Rightarrow> ustring" where
  "relative_age v created_at =
    (let seconds = max 0 (vw_now v - created_at) in
     if seconds < 3600 then show_int (seconds div 60) @ ustr ''m''
     else if seconds < 86400 then show_int (seconds div 3600) @ ustr ''h''
     else show_int (seconds div 86400) @ ustr ''d'')"

text \<open>The two attributes of a restriction these labels read: its status and the end of a temporary
  suppression.\<close>

definition remaining :: "view \<Rightarrow> ustring \<Rightarrow> int option \<Rightarrow> ustring" where
  "remaining v st suppressed_until =
    (if st = ustr ''quarantined'' then ustr ''Manual review required''
     else case suppressed_until of
       None \<Rightarrow> ustr ''No automatic release''
     | Some until \<Rightarrow>
         (let seconds = until - vw_now v in
          if seconds \<le> 0 then ustr ''Release pending''
          else if seconds < 3600 then show_int (max 1 (seconds div 60)) @ ustr ''m remaining''
          else if seconds < 86400 then show_int (max 1 (seconds div 3600)) @ ustr ''h remaining''
          else show_int (max 1 (seconds div 86400)) @ ustr ''d remaining''))"

definition restriction_summary :: "view \<Rightarrow> ustring \<Rightarrow> int option \<Rightarrow> ustring" where
  "restriction_summary v st suppressed_until =
    (if st = ustr ''quarantined'' then ustr ''Review needed''
     else case suppressed_until of
       None \<Rightarrow> ustr ''No automatic release''
     | Some until \<Rightarrow> if until \<le> vw_now v then ustr ''Awaiting next message'' else remaining v st suppressed_until)"

end
