(* ===== verification/View_Evidence.thy ===== *)
theory View_Evidence
  imports View_Labels Service_Core
begin

text \<open>
  \<open>dashboard_views/evidence.py\<close>: the panels on evidence signals and on the policy decision. The codes
  and sources of recorded signals are arbitrary texts; the policy of \<open>Policy\<close> sees them through
  \<open>policy_code\<close> and \<open>policy_source\<close>, which keep every text the policy compares with.
\<close>

definition BR :: ustring where "BR = [10]"

definition EMPTY_VALUE :: ustring where
  "EMPTY_VALUE = ustr ''<span class='empty-value'>'' @ EM_DASH @ ustr ''</span>''"

subsection \<open>Signals\<close>

text \<open>\<open>item.get("code") if isinstance(item, dict) else item\<close>.\<close>

definition signal_code :: "json \<Rightarrow> json" where
  "signal_code item = (case item of JObj ms \<Rightarrow> get_or ms ''code'' JNull | _ \<Rightarrow> item)"

definition signal_field :: "json \<Rightarrow> string \<Rightarrow> json" where
  "signal_field item name = (case item of JObj ms \<Rightarrow> get_or ms name JNull | _ \<Rightarrow> JNull)"

definition signal_summary :: "view \<Rightarrow> json \<Rightarrow> ustring" where
  "signal_summary v x = (case x of
      JArr items \<Rightarrow>
        (case map (\<lambda>item. human_label v (shown v (signal_code item))) (filter (\<lambda>item. truthy (signal_code item)) items) of
           [] \<Rightarrow> EM_DASH
         | label # labels \<Rightarrow> label @ (if labels = [] then []
             else ustr '' '' @ DOT @ ustr '' +'' @ show_int (int (length labels)) @ ustr '' more''))
    | _ \<Rightarrow> EM_DASH)"

definition signal_item :: "view \<Rightarrow> json \<Rightarrow> string + ustring" where
  "signal_item v item =
    (let source = signal_field item ''source''; weight = signal_field item ''weight'';
         explanation = signal_field item ''explanation'';
         source_badge = (if truthy source then
             ustr ''<span class='signal-source'>'' @ html_escape (human_label v (shown v source)) @ ustr ''</span>'' else []);
         explanation_copy = (if truthy explanation then
             ustr ''<p class='signal-explanation'>'' @ html_escape (shown v explanation) @ ustr ''</p>'' else [])
     in then_sum
          (case weight of
             JInt _ \<Rightarrow> vw_general v weight | JBool _ \<Rightarrow> vw_general v weight | JFloat _ \<Rightarrow> vw_general v weight
           | _ \<Rightarrow> Inr []) (\<lambda>w.
        let score_badge = (case weight of
              JInt _ \<Rightarrow> ustr ''<span class='signal-score'>+'' @ w @ ustr ''</span>''
            | JBool _ \<Rightarrow> ustr ''<span class='signal-score'>+'' @ w @ ustr ''</span>''
            | JFloat _ \<Rightarrow> ustr ''<span class='signal-score'>+'' @ w @ ustr ''</span>''
            | _ \<Rightarrow> [])
        in Inr (ustr ''<li class='signal-item'><div class='signal-copy'><div class='signal-heading'><strong>''
             @ html_escape (human_label v (shown v (signal_code item))) @ ustr ''</strong>'' @ score_badge
             @ ustr ''</div>'' @ source_badge @ explanation_copy @ ustr ''</div></li>'')))"

definition signal_breakdown :: "view \<Rightarrow> json \<Rightarrow> string + ustring" where
  "signal_breakdown v x = (case x of
      JArr items \<Rightarrow>
        then_sum (map_sum_list (signal_item v) (filter (\<lambda>item. truthy (signal_code item)) items)) (\<lambda>parts.
        Inr (if parts = [] then EMPTY_VALUE
             else ustr ''<ol class='signal-list' aria-label='Evidence signals'>'' @ concat parts @ ustr ''</ol>''))
    | _ \<Rightarrow> Inr EMPTY_VALUE)"

subsection \<open>The policy decision\<close>

definition policy_code :: "ustring \<Rightarrow> string" where
  "policy_code t = (if list_all (\<lambda>c. c < 128) t then map char_of t else [])"

definition policy_source :: "ustring \<Rightarrow> signal_source" where
  "policy_source t = (if t = ustr ''preview'' then Preview else Behavior)"

definition policy_signal :: "ustring \<Rightarrow> ustring \<Rightarrow> int \<Rightarrow> evidence_signal" where
  "policy_signal code source weight =
    \<lparr>sig_code = policy_code code, sig_source = policy_source source, sig_weight = weight, sig_explanation = []\<rparr>"

text \<open>\<open>int(raw_score)\<close>, where a \<open>TypeError\<close> or a \<open>ValueError\<close> means that there is no score.\<close>

definition panel_score :: "view \<Rightarrow> json \<Rightarrow> string + int option" where
  "panel_score v x = (case x of
      JBool _ \<Rightarrow> Inr None
    | _ \<Rightarrow> (case int_of v x of
        Inr i \<Rightarrow> Inr (Some i)
      | Inl e \<Rightarrow> if e \<in> {''TypeError'', ''ValueError''} then Inr None else Inl e))"

definition panel_signals :: "view \<Rightarrow> json \<Rightarrow> string + evidence_signal list" where
  "panel_signals v x = (case x of
      JArr items \<Rightarrow>
        map_sum_list (\<lambda>item. case item of
            JObj ms \<Rightarrow> then_sum (int_of v (get_or ms ''weight'' (JInt 0))) (\<lambda>weight.
              Inr (policy_signal (shown v (get_or ms ''code'' JNull))
                (shown v (get_or ms ''source'' (JStr (ustr ''behavior'')))) weight))
          | _ \<Rightarrow> Inl ''TypeError'')
          (filter (\<lambda>item. case item of JObj ms \<Rightarrow> truthy (get_or ms ''code'' JNull) | _ \<Rightarrow> False) items)
    | _ \<Rightarrow> Inr [])"

definition gate_label :: "string option \<Rightarrow> ustring" where
  "gate_label basis =
    (if basis = Some ''owner_denied_domain'' then ustr ''Met '' @ DOT @ ustr '' Non-quoted owner-denied domain''
     else if basis = Some ''corroborated_repeated_campaign'' then
       ustr ''Met '' @ DOT @ ustr '' Corroborated cross-sender campaign''
     else ustr ''Not met '' @ DOT @ ustr '' No non-quoted denylist match or corroborated '' @ ustr ''cross-sender campaign'')"

definition outcome_copy :: "view \<Rightarrow> ustring \<Rightarrow> ustring \<Rightarrow> bool \<Rightarrow> bool \<Rightarrow> ustring" where
  "outcome_copy v planned_action action_label score_gate_met destructive_gate_met =
    (if planned_action = ustr ''permanent_suppression'' then
       ustr ''Both permanent-suppression conditions were met, so no challenge was sent.''
     else if score_gate_met \<and> \<not> destructive_gate_met then
       ustr ''The score reached 70, but permanent suppression also requires destructive ''
       @ ustr ''evidence. The recorded decision was '' @ vw_lower v action_label @ ustr ''.''
     else if planned_action = ustr ''strict_challenge'' then
       ustr ''The score reached the strict threshold but not both permanent-suppression '' @ ustr ''conditions.''
     else ustr ''The score remained below the strict-challenge threshold.'')"

definition action_class :: "ustring \<Rightarrow> string" where
  "action_class planned_action =
    (if planned_action = ustr ''standard_challenge'' then ''standard''
     else if planned_action = ustr ''strict_challenge'' then ''strict''
     else if planned_action = ustr ''permanent_suppression'' then ''permanent'' else ''unknown'')"

definition CHECK_MARK :: ustring where "CHECK_MARK = [10003]"
definition CROSS_MARK :: ustring where "CROSS_MARK = [215]"
definition AT_LEAST :: ustring where "AT_LEAST = [8805]"

definition gate_check :: "bool \<Rightarrow> ustring \<Rightarrow> ustring \<Rightarrow> string \<Rightarrow> ustring" where
  "gate_check met name verdict explanation =
    ustr ''          <div class=\"gate-check '' @ ustr (if met then ''met'' else ''unmet'') @ ustr ''\">'' @ BR
    @ ustr ''            <span class=\"gate-symbol\" aria-hidden=\"true\">'' @ (if met then CHECK_MARK else CROSS_MARK)
    @ ustr ''</span>'' @ BR
    @ ustr ''            <div><small>'' @ name @ ustr ''</small>'' @ BR
    @ ustr ''              <strong>'' @ verdict @ ustr ''</strong>'' @ BR
    @ ustr ''              <p>'' @ ustr explanation @ ustr ''</p></div>'' @ BR
    @ ustr ''          </div>'' @ BR"

definition decision_panel ::
  "view \<Rightarrow> int \<Rightarrow> ustring \<Rightarrow> ustring \<Rightarrow> string option \<Rightarrow> string option \<Rightarrow> ustring" where
  "decision_panel v score planned_action policy_version basis note =
    (let score_met = score \<ge> PERMANENT_SUPPRESSION_THRESHOLD; gate_met = basis \<noteq> None;
         action_label = human_label v planned_action; plotted = show_int (min (max score 0) 100);
         strict = show_int STRICT_CHALLENGE_THRESHOLD; permanent = show_int PERMANENT_SUPPRESSION_THRESHOLD
     in BR @ ustr ''        <section class=\"rail-card policy-map\" aria-label=\"Policy decision explanation\">'' @ BR
      @ ustr ''          <div class=\"policy-outcome '' @ ustr (action_class planned_action) @ ustr ''\">'' @ BR
      @ ustr ''            <small>Final Policy Decision</small><strong>'' @ html_escape action_label
      @ ustr ''</strong>'' @ BR
      @ ustr ''            <p>'' @ html_escape (outcome_copy v planned_action action_label score_met gate_met)
      @ ustr ''</p>'' @ BR
      @ ustr ''          </div>'' @ BR
      @ ustr ''          <div class=\"policy-score-head\">'' @ BR
      @ ustr ''            <div><span class=\"policy-kicker\">Risk Score</span>'' @ BR
      @ ustr ''              <strong>'' @ show_int score @ ustr ''</strong><small>Additive points '' @ DOT
      @ ustr '' not a probability</small></div>'' @ BR
      @ ustr ''            <span class=\"policy-version\">'' @ html_escape policy_version @ ustr ''</span>'' @ BR
      @ ustr ''          </div>'' @ BR
      @ ustr ''          <div class=\"risk-track\" role=\"img\" aria-label=\"Risk score '' @ show_int score
      @ ustr ''; strict challenge starts at '' @ strict @ ustr '' and permanent score condition starts at ''
      @ permanent @ ustr ''\">'' @ BR
      @ ustr ''            <meter class=\"risk-meter\" min=\"0\" max=\"100\" value=\"'' @ plotted @ ustr ''\">''
      @ plotted @ ustr ''%</meter>'' @ BR
      @ ustr ''            <span class=\"risk-mark strict-mark\"><i>'' @ strict @ ustr ''</i><b>Strict</b></span>'' @ BR
      @ ustr ''            <span class=\"risk-mark permanent-mark\"><i>'' @ permanent
      @ ustr ''</i><b>Permanent Score</b></span>'' @ BR
      @ ustr ''          </div>'' @ BR
      @ ustr ''          <p class=\"gate-formula\">Permanent suppression requires <strong>both</strong> conditions:</p>'' @ BR
      @ gate_check score_met (ustr ''1 '' @ DOT @ ustr '' Score Condition'')
          (show_int score @ ustr '' '' @ AT_LEAST @ ustr '' '' @ permanent)
          ''Risk score reaches the permanent-suppression score threshold.''
      @ gate_check gate_met (ustr ''2 '' @ DOT @ ustr '' Destructive Evidence'') (html_escape (gate_label basis))
          ''Requires a non-quoted denied domain, or a corroborated repeated campaign.''
      @ ustr ''          '' @ (case note of None \<Rightarrow> []
          | Some t \<Rightarrow> if t = [] then [] else ustr ''<p class=\"policy-note\">'' @ html_escape (ustr t) @ ustr ''</p>'') @ BR
      @ ustr ''        </section>'')"

definition policy_decision_panel :: "view \<Rightarrow> (ustring \<times> json) list \<Rightarrow> string option \<Rightarrow> string + ustring" where
  "policy_decision_panel v payload note =
    then_sum (panel_score v (get_or payload ''risk_score'' JNull)) (\<lambda>score.
    case score of
      None \<Rightarrow> Inr []
    | Some risk \<Rightarrow>
        then_sum (panel_signals v (get_or payload ''signals'' (JArr []))) (\<lambda>signals.
        Inr (decision_panel v risk
          (shown v (get_or payload ''planned_action'' (JStr (ustr ''not_recorded''))))
          (shown v (get_or payload ''policy_version'' (JStr (ustr ''adaptive-v1''))))
          (destructive_gate_basis signals) note)))"

text \<open>A signal recorded with its code, source and weight; \<open>None\<close> for any other entry.\<close>

definition recorded_signal :: "json \<Rightarrow> evidence_signal option" where
  "recorded_signal item = (case item of
      JObj ms \<Rightarrow> (case (get_or ms ''code'' JNull, get_or ms ''source'' JNull, get_or ms ''weight'' JNull) of
          (JStr code, JStr source, JInt weight) \<Rightarrow> Some (policy_signal code source weight)
        | _ \<Rightarrow> None)
    | _ \<Rightarrow> None)"

definition RECOMPUTED_NOTE :: string where
  "RECOMPUTED_NOTE = ''Recomputed from the recorded signal weights with the current policy. '' @
     ''Reviews do not store their original score.''"

definition recomputed_policy_panel :: "view \<Rightarrow> json \<Rightarrow> string + ustring" where
  "recomputed_policy_panel v recorded = (case recorded of
      JArr items \<Rightarrow>
        if items = [] \<or> list_ex (\<lambda>item. recorded_signal item = None) items then Inr []
        else
          (let d = decide (map (\<lambda>item. the (recorded_signal item)) items) in
           policy_decision_panel v
             [(ustr ''risk_score'', JInt (dec_risk_score d)), (ustr ''signals'', recorded),
              (ustr ''planned_action'', JStr (ustr (action_name (dec_planned_action d)))),
              (ustr ''policy_version'', JStr (ustr (dec_policy_version d)))]
             (Some RECOMPUTED_NOTE))
    | _ \<Rightarrow> Inr [])"

definition policy_thresholds :: ustring where
  "policy_thresholds =
    (let strict = STRICT_CHALLENGE_THRESHOLD; permanent = PERMANENT_SUPPRESSION_THRESHOLD in
     ustr ''<section class='policy-thresholds' aria-label='Scoring policy thresholds'>''
     @ ustr ''<h2>Scoring Policy <span class='policy-version'>'' @ html_escape (ustr (dec_policy_version (decide [])))
     @ ustr ''</span></h2>''
     @ ustr ''<ol class='threshold-scale'>''
     @ ustr ''<li class='tone-allow'><b>0'' @ EN_DASH @ show_int (strict - 1) @ ustr ''</b><span>Standard Challenge</span></li>''
     @ ustr ''<li class='tone-hold'><b>'' @ show_int strict @ ustr ''+</b><span>Strict Challenge</span></li>''
     @ ustr ''<li class='tone-block'><b>'' @ show_int permanent @ ustr ''+</b><span>Permanent Suppression, only with ''
     @ ustr ''a non-quoted owner-denied domain or a corroborated repeated campaign</span></li>''
     @ ustr ''</ol></section>'')"

subsection \<open>The evidence of a case\<close>

definition link_fact :: "ustring \<Rightarrow> ustring" where
  "link_fact t = (if t = EM_DASH then EMPTY_VALUE else ustr ''<span class='mono'>'' @ html_escape t @ ustr ''</span>'')"

definition details_block :: "string \<Rightarrow> json \<Rightarrow> ustring" where
  "details_block title x = ustr ''<details><summary>'' @ ustr title @ ustr ''</summary><pre>'' @ json_block x
     @ ustr ''</pre></details>''"

definition LIMITED_EVIDENCE :: ustring where
  "LIMITED_EVIDENCE = ustr ''<div class='notice'><strong>Limited Textual Evidence</strong> ''
     @ ustr ''No message text, quoted text, or webpage-preview text was retained. ''
     @ ustr ''Review any available URLs, button text, evidence signals, and structural ''
     @ ustr ''metadata before deciding whether to allow the sender or leave the ''
     @ ustr ''restriction unchanged.</div>''"

definition review_sections :: "view \<Rightarrow> (ustring \<times> json) list \<Rightarrow> ustring \<times> ustring \<times> ustring" where
  "review_sections v payload =
    (let body = shown v (get_or payload ''text'' (JStr []));
         quote_text = shown v (get_or payload ''quote_text'' (JStr []));
         preview_text = shown v (get_or payload ''preview_text'' (JStr []));
         structural_only = strip body = [] \<and> strip quote_text = [] \<and> strip preview_text = [];
         names = (\<lambda>k. link_fact (joined (vw_str v) (get_or payload k (JArr []))));
         sections = text_block ''Message Text or Caption'' body False
           @ text_block ''Quoted Context'' quote_text True
           @ text_block ''Telegram Webpage Preview'' preview_text True
           @ (if structural_only then LIMITED_EVIDENCE else [])
     in (sections,
         key_values [(''Button Text'', names ''button_texts''), (''Normalized Domains'', names ''domains''),
           (''Quoted-Context Domains'', names ''quote_domains'')],
         details_block ''Full URLs'' (get_or payload ''urls'' (JArr []))
         @ details_block ''Quoted-Context URLs'' (get_or payload ''quote_urls'' (JArr []))
         @ details_block ''Link Shape'' (get_or payload ''url_shape'' (JObj []))
         @ details_block ''Quoted-Context Link Shape'' (get_or payload ''quote_url_shape'' (JObj []))
         @ details_block ''Full Decrypted Case Payload'' (JObj payload)))"

end
