(* ===== verification/View_Pages.thy ===== *)
theory View_Pages
  imports View_Evidence
begin

text \<open>
  \<open>dashboard_views/pages.py\<close>: the pages, rendered from the answers of the backend. An answer is a
  decoded JSON object; a missing field, or one of the wrong type, raises as in the code.
\<close>

type_synonym answer = "(ustring \<times> json) list"

subsection \<open>Access to an answer\<close>

definition object_at :: "answer \<Rightarrow> string \<Rightarrow> string + answer" where
  "object_at ms name = then_sum (member_of ms name) (\<lambda>x. case x of JObj os \<Rightarrow> Inr os | _ \<Rightarrow> Inl ''TypeError'')"

definition objects_at :: "answer \<Rightarrow> string \<Rightarrow> string + answer list" where
  "objects_at ms name = then_sum (member_of ms name) (\<lambda>x. case x of
      JArr xs \<Rightarrow> map_sum_list (\<lambda>y. case y of JObj os \<Rightarrow> Inr os | _ \<Rightarrow> Inl ''TypeError'') xs
    | _ \<Rightarrow> Inl ''TypeError'')"

definition text_at :: "answer \<Rightarrow> string \<Rightarrow> string + ustring" where
  "text_at ms name = then_sum (member_of ms name) as_text"

definition int_at :: "answer \<Rightarrow> string \<Rightarrow> string + int" where
  "int_at ms name = then_sum (member_of ms name) as_int"

text \<open>\<open>None\<close> or a number.\<close>

definition int_option_at :: "answer \<Rightarrow> string \<Rightarrow> string + int option" where
  "int_option_at ms name = then_sum (member_of ms name) (\<lambda>x. case x of
      JNull \<Rightarrow> Inr None | _ \<Rightarrow> then_sum (as_int x) (\<lambda>i. Inr (Some i)))"

definition shown_at :: "view \<Rightarrow> answer \<Rightarrow> string \<Rightarrow> string + ustring" where
  "shown_at v ms name = then_sum (member_of ms name) (\<lambda>x. Inr (shown v x))"

definition int_from :: "view \<Rightarrow> answer \<Rightarrow> string \<Rightarrow> string + int" where
  "int_from v ms name = then_sum (member_of ms name) (int_of v)"

text \<open>Several fields as they are printed.\<close>

definition all_shown :: "view \<Rightarrow> answer \<Rightarrow> string list \<Rightarrow> string + (string \<Rightarrow> ustring)" where
  "all_shown v ms names =
    then_sum (map_sum_list (\<lambda>name. then_sum (shown_at v ms name) (\<lambda>t. Inr (name, t))) names) (\<lambda>texts.
    Inr (\<lambda>name. case map_of texts name of None \<Rightarrow> [] | Some t \<Rightarrow> t))"

subsection \<open>Addresses\<close>

definition unreserved :: "nat \<Rightarrow> bool" where
  "unreserved c \<longleftrightarrow> is_ascii_alpha c \<or> is_digit c \<or> c \<in> {45, 46, 95, 126}"

definition percent :: "nat \<Rightarrow> ustring" where
  "percent b = [37, (if b div 16 < 10 then 48 + b div 16 else 55 + b div 16),
     (if b mod 16 < 10 then 48 + b mod 16 else 55 + b mod 16)]"

definition quote_plus :: "ustring \<Rightarrow> string + ustring" where
  "quote_plus t =
    (if list_all scalar t
     then Inr (concat (map (\<lambda>c. if unreserved c then [c] else if c = 32 then [43]
            else concat (map percent (utf8_char c))) t))
     else Inl ''UnicodeEncodeError'')"

type_synonym filters = "(string \<times> ustring) list"

definition urlencode :: "filters \<Rightarrow> string + ustring" where
  "urlencode fs = then_sum (map_sum_list (\<lambda>(k, t). then_sum (quote_plus t) (\<lambda>q. Inr (ustr k @ [61] @ q))) fs)
     (\<lambda>parts. Inr (join [38] parts))"

text \<open>\<open>?\<close> and the filters, or nothing.\<close>

definition filter_query :: "filters \<Rightarrow> string + ustring" where
  "filter_query fs = (if fs = [] then Inr [] else then_sum (urlencode fs) (\<lambda>q. Inr ([63] @ q)))"

definition reason_filter :: "ustring option \<Rightarrow> filters" where
  "reason_filter reason = (case reason of None \<Rightarrow> [] | Some r \<Rightarrow> if r = [] then [] else [(''reason'', r)])"

definition age_filter :: "int option \<Rightarrow> filters" where
  "age_filter older_days = (case older_days of None \<Rightarrow> []
     | Some d \<Rightarrow> if d = 0 then [] else [(''older_days'', show_int d)])"

definition paged_target :: "ustring \<Rightarrow> int \<Rightarrow> ustring" where
  "paged_target base page =
    (if page = 1 then base else base @ (if 63 \<in> set base then [38] else [63]) @ ustr ''page='' @ show_int page)"

definition cases_list_base :: "bool \<Rightarrow> ustring option \<Rightarrow> int option \<Rightarrow> string + ustring" where
  "cases_list_base archived reason older_days =
    then_sum (filter_query (reason_filter reason @ age_filter older_days)) (\<lambda>q.
    Inr (ustr (if archived then ''/cases/archive'' else ''/cases'') @ q))"

subsection \<open>Overview\<close>

definition queue_card :: "string \<Rightarrow> ustring \<Rightarrow> string \<Rightarrow> int \<Rightarrow> string \<Rightarrow> ustring" where
  "queue_card href title note n tone =
    ustr ''<a class='' @ quoted (ustr ''queue-card '' @ ustr (if n \<noteq> 0 then ''tone-'' @ tone else ''is-empty''))
    @ ustr '' href='' @ quoted (ustr href) @ ustr ''>''
    @ ustr ''<span class='queue-count'>'' @ show_int n @ ustr ''</span>''
    @ ustr ''<strong>'' @ title @ ustr ''</strong><span class='queue-note'>'' @ ustr note @ ustr ''</span></a>''"

definition STORAGE_FIELDS :: "string list" where
  "STORAGE_FIELDS = [''attention_cases'', ''archived_restrictions'', ''database_logical_bytes'',
     ''database_page_count'', ''database_page_size'', ''database_freelist_count'', ''database_freelist_percent'',
     ''temporary_released'', ''auto_forgotten'', ''auto_forget_skipped'']"

definition no_storage_stats :: "int \<Rightarrow> answer" where
  "no_storage_stats restrictions =
    map (\<lambda>k. (ustr k, JInt (if k = ''attention_cases'' then restrictions else 0))) STORAGE_FIELDS"

definition storage_notes :: "(string \<Rightarrow> ustring) \<Rightarrow> ustring" where
  "storage_notes s =
    ustr ''<p>Needs attention: '' @ s ''attention_cases'' @ ustr '' '' @ DOT @ ustr '' ''
    @ ustr ''Archived: '' @ s ''archived_restrictions'' @ ustr '' '' @ DOT @ ustr '' ''
    @ ustr ''Database: '' @ s ''database_logical_bytes'' @ ustr '' bytes (''
    @ s ''database_page_count'' @ ustr '' pages '' @ CROSS_MARK @ ustr '' ''
    @ s ''database_page_size'' @ ustr '' bytes) '' @ DOT @ ustr '' ''
    @ ustr ''Free pages: '' @ s ''database_freelist_count'' @ ustr '' (''
    @ s ''database_freelist_percent'' @ ustr ''%).</p>''
    @ ustr ''<p>Last maintenance: released '' @ s ''temporary_released'' @ ustr '' temporary restrictions, ''
    @ ustr ''forgot '' @ s ''auto_forgotten'' @ ustr '' archived restrictions, ''
    @ ustr ''skipped '' @ s ''auto_forget_skipped'' @ ustr '' with unfinished work.</p>''"

definition overview_page :: "view \<Rightarrow> answer \<Rightarrow> ustring \<Rightarrow> ustring option \<Rightarrow> string + nat list" where
  "overview_page v result csrf page_version =
    then_sum (int_from v result ''pending_reviews'') (\<lambda>pending_reviews.
    then_sum (object_at result ''active_stats'') (\<lambda>active_stats.
    then_sum (int_at active_stats ''quarantined'') (\<lambda>quarantined.
    then_sum (int_at active_stats ''suppressed'') (\<lambda>suppressed.
    let restrictions = quarantined + suppressed;
        storage_stats = (case get_or result ''storage_stats'' JNull of
            JObj ms \<Rightarrow> ms | _ \<Rightarrow> no_storage_stats restrictions) in
    then_sum (shown_at v result ''mode'') (\<lambda>mode.
    then_sum (int_from v storage_stats ''attention_cases'') (\<lambda>attention.
    then_sum (int_from v storage_stats ''archived_restrictions'') (\<lambda>archived.
    then_sum (shown_at v active_stats ''reviewable'') (\<lambda>reviewable.
    then_sum (all_shown v storage_stats STORAGE_FIELDS) (\<lambda>s.
    render_content
      (masthead (vw_checked_at v) (Some ''overview'') (Some csrf)
       @ ustr ''<main class='page'><div class='live-region' data-live-region='operations'>''
       @ page_header (ustr ''Operations Dashboard'') None
           (ustr ''Review restrictions, recover false positives, and resolve pending decisions.'') []
           (badge (vw_title v mode @ ustr '' Mode'') (if mode = ustr ''monitor'' then ''monitor'' else ''allow'')) None
       @ ustr ''<nav class='queue-grid' aria-label='Review areas'>''
       @ queue_card ''/review'' (ustr ''Pending Reviews'')
           ''Resolve simulations and exception reviews.'' pending_reviews ''monitor''
       @ queue_card ''/cases'' (ustr ''Active Cases '' @ DOT @ ustr '' Needs Attention'')
           ''Review unresolved restrictions and failures.'' attention ''hold''
       @ queue_card ''/cases/archive'' (ustr ''Archived Restrictions'')
           ''Review or forget confirmed permanent restrictions.'' archived ''neutral''
       @ ustr ''</nav><dl class='stat-strip stat-strip-wide'>''
       @ ustr ''<div><dt>Active Restrictions</dt><dd class='data-value'>'' @ show_int restrictions @ ustr ''</dd></div>''
       @ ustr ''<div><dt>Reviewable Cases</dt><dd class='data-value'>'' @ reviewable @ ustr ''</dd></div>''
       @ ustr ''</dl>'' @ policy_thresholds
       @ ustr ''<details class='context-note'><summary>Storage and Maintenance</summary>''
       @ storage_notes s @ ustr ''</details></div></main>'')
      (ustr ''Operations Dashboard'') (Some (ustr ''replace'')) page_version)))))))))"

subsection \<open>Reviews\<close>

definition review_row :: "view \<Rightarrow> answer \<Rightarrow> string + ustring" where
  "review_row v item =
    then_sum (text_at item ''classification'') (\<lambda>classification.
    then_sum (member_of item ''identity'') (\<lambda>who.
    then_sum (shown_at v item ''id'') (\<lambda>review_id.
    then_sum (text_at item ''signals'') (\<lambda>raw_signals.
    then_sum (loads (vw_floats v) raw_signals) (\<lambda>signals.
    then_sum (shown_at v item ''message_count'') (\<lambda>messages.
    then_sum (int_at item ''updated_at'') (\<lambda>updated_at.
    let tone = review_tone classification in
    Inr (ustr ''<tr class='' @ quoted (ustr ''tone-'' @ ustr tone) @ ustr ''>''
      @ ustr ''<td data-label='Sender'>'' @ identity_cell (identity_from_value who) (Some (ustr ''/review/'' @ review_id))
      @ ustr ''</td>''
      @ ustr ''<td data-label='Review'>'' @ badge (human_label v classification) tone
      @ ustr ''<span class='cell-note'>Review #'' @ review_id @ ustr ''</span></td>''
      @ ustr ''<td data-label='Signals'>'' @ html_escape (signal_summary v signals) @ ustr ''</td>''
      @ ustr ''<td data-label='Messages' class='numeric'>'' @ messages @ ustr ''</td>''
      @ ustr ''<td data-label='Age' class='age'>'' @ html_escape (relative_age v updated_at) @ ustr ''</td>''
      @ ustr ''</tr>''))))))))"

definition review_queue_page ::
  "view \<Rightarrow> answer \<Rightarrow> int \<Rightarrow> ustring \<Rightarrow> ustring option \<Rightarrow> string + nat list" where
  "review_queue_page v result page csrf page_version =
    then_sum (int_from v result ''total'') (\<lambda>all.
    then_sum (objects_at result ''items'') (\<lambda>items.
    then_sum (map_sum_list (review_row v) items) (\<lambda>rows.
    render_content
      (masthead (vw_checked_at v) (Some ''reviews'') (Some csrf)
       @ ustr ''<main class='page'><div class='live-region' data-live-region='pending-reviews'>''
       @ page_header (ustr ''Pending Reviews'') (Some (show_int all))
           (ustr ''Open a sender to fetch message content and make a decision.'') [] [] None
       @ ustr ''<details class='context-note'><summary>Review and Refresh Behavior</summary>''
       @ ustr ''<p>Identity is cached briefly in memory; message content is fetched only on the detail page. ''
       @ ustr ''Deleted Telegram conversations leave their local review available for resolution. ''
       @ ustr ''The list refreshes in place only when review state changes.</p></details>''
       @ ustr ''<div class='table-shell'><table class='data-table reviews-table'><thead><tr><th>Sender</th><th>Review</th>''
       @ ustr ''<th>Signals</th><th>Messages</th>''
       @ ustr ''<th>Age</th></tr></thead><tbody>''
       @ (if rows = [] then ustr ''<tr class='empty-row'><td colspan='5'>No pending reviews.</td></tr>'' else concat rows)
       @ ustr ''</tbody></table></div>''
       @ pagination (ustr ''/review'') page all @ ustr ''</div></main>'')
      (ustr ''Pending Reviews'') (Some (ustr ''replace'')) page_version)))"

text \<open>The heading of a detail page: the name, and the account name in parentheses.\<close>

definition heading :: "live_identity option \<Rightarrow> ustring" where
  "heading who = (case who of
      None \<Rightarrow> ustr ''Identity Unavailable''
    | Some i \<Rightarrow> with_username (case li_name i of None \<Rightarrow> ustr ''Name Unavailable''
        | Some name \<Rightarrow> if name = [] then ustr ''Name Unavailable'' else name) i)"

definition MESSAGE_GONE :: ustring where
  "MESSAGE_GONE = ustr ''<section class='panel'><div class='panel-head'>''
    @ ustr ''<h2 class='panel-title'>Telegram Message Unavailable</h2></div>''
    @ ustr ''<div class='empty-state'><strong>The referenced message no longer exists.</strong>''
    @ ustr ''<p>The conversation may have been deleted in Telegram. This pending row is local ''
    @ ustr ''review state and is not removed automatically.</p></div></section>''"

definition dismiss_decision :: "ustring \<Rightarrow> ustring \<Rightarrow> ustring" where
  "dismiss_decision csrf review_id =
    ustr ''<section class='rail-card decision-card'>''
    @ ustr ''<h2 class='rail-title'>Dismiss Pending Reviews</h2>''
    @ ustr ''<p class='rail-help'>Remove this sender's pending review and cancel pending ''
    @ ustr ''Gatekeeper deletion jobs. Telegram and trust state are unchanged.</p>''
    @ ustr ''<div class='action-stack'>''
    @ action_form csrf review_id ''dismiss'' ''Dismiss & Cancel Jobs'' None ''review''
    @ ustr ''</div></section>''"

definition message_panel :: "ustring \<Rightarrow> ustring" where
  "message_panel t = ustr ''<section class='panel'><div class='panel-head'>''
    @ ustr ''<h2 class='panel-title'>Message</h2>''
    @ ustr ''<p class='panel-note'>Fetched from Telegram '' @ DOT @ ustr '' Not Stored Locally</p></div>''
    @ ustr ''<pre class='message'>'' @ html_escape t @ ustr ''</pre></section>''"

definition sender_decision :: "ustring \<Rightarrow> ustring \<Rightarrow> ustring" where
  "sender_decision csrf review_id =
    ustr ''<section class='rail-card decision-card'>''
    @ ustr ''<h2 class='rail-title'>Sender Decision</h2>''
    @ ustr ''<p class='rail-help'>This decision applies to all pending entries for this ''
    @ ustr ''sender.</p><div class='action-stack'>''
    @ action_form csrf review_id ''legitimate'' ''Allow Sender'' (Some ''allow'') ''review''
    @ ustr ''<a class='btn btn-block' href='' @ quoted (ustr ''/review/'' @ review_id @ ustr ''/spam'')
    @ ustr ''>Suppress and Delete'' @ ELLIPSIS @ ustr ''</a>''
    @ action_form csrf review_id ''dismiss'' ''Dismiss & Cancel Jobs'' None ''review''
    @ ustr ''</div></section>''"

definition structural_features :: "ustring \<Rightarrow> ustring" where
  "structural_features t = ustr ''<details><summary>Structural Features</summary><pre>'' @ html_escape t
    @ ustr ''</pre></details>''"

definition technical_details :: "ustring \<Rightarrow> ustring" where
  "technical_details t =
    ustr ''<section class='panel panel-quiet'><h2 class='panel-title'>Technical Details</h2>'' @ t @ ustr ''</section>''"

text \<open>The page below the masthead; the message is \<open>None\<close> when Telegram has it no more.\<close>

definition review_body ::
  "view \<Rightarrow> live_identity option \<Rightarrow> ustring option \<Rightarrow> ustring \<Rightarrow> ustring \<Rightarrow> ustring \<Rightarrow> ustring \<Rightarrow> ustring
   \<Rightarrow> ustring \<Rightarrow> ustring \<Rightarrow> ustring \<Rightarrow> ustring" where
  "review_body v who message review_id classification signals features policy_panel messages observed_at csrf =
    (let user_id = (case message of None \<Rightarrow> None | Some _ \<Rightarrow> map_option li_user_id who);
         facts = key_values
          ((case user_id of None \<Rightarrow> [] | Some i \<Rightarrow> [(''Telegram ID'', ustr ''<span class='mono'>'' @ i @ ustr ''</span>'')])
           @ [(''Messages Observed'', messages), (''Last Observed'', observed_at)])
     in ustr ''<main class='page detail-page'>''
       @ page_header (heading who) None [] (identity_meta user_id (Some review_id))
           (badge (human_label v classification) (review_tone classification)) (Some (''/review'', ''Pending Reviews''))
       @ ustr ''<div class='detail-grid'><div class='evidence-column'>''
       @ (case message of None \<Rightarrow> MESSAGE_GONE | Some t \<Rightarrow> message_panel t)
       @ ustr ''<section class='panel'><h2 class='panel-title'>Evidence Signals</h2>''
       @ ustr ''<div class='signal-breakdown'>'' @ signals @ ustr ''</div></section>''
       @ (case message of None \<Rightarrow> [] | Some _ \<Rightarrow> technical_details (structural_features features))
       @ ustr ''</div><aside class='decision-rail' aria-label='Decision'>''
       @ change_notice
       @ (case message of None \<Rightarrow> dismiss_decision csrf review_id | Some _ \<Rightarrow> sender_decision csrf review_id)
       @ policy_panel
       @ ustr ''<section class='rail-card'><h2 class='rail-title'>Review Details</h2>''
       @ facts @ ustr ''</section></aside></div></main>'')"

definition review_detail_page :: "view \<Rightarrow> answer \<Rightarrow> ustring \<Rightarrow> ustring option \<Rightarrow> string + nat list" where
  "review_detail_page v item csrf page_version =
    (let who = identity_from_value (get_or item ''identity'' JNull);
         message = get_or item ''message'' JNull; gone = (message = JNull) in
    then_sum (text_at item ''signals'') (\<lambda>raw_signals.
    then_sum (loads (vw_floats v) raw_signals) (\<lambda>recorded.
    then_sum (signal_breakdown v recorded) (\<lambda>signals.
    then_sum (recomputed_policy_panel v recorded) (\<lambda>policy_panel.
    then_sum (text_at item ''classification'') (\<lambda>classification.
    then_sum (text_at item ''features'') (\<lambda>raw_features.
    then_sum (loads (vw_floats v) raw_features) (\<lambda>features.
    then_sum (int_at item ''updated_at'') (\<lambda>updated_at.
    then_sum (vw_timestamp v updated_at) (\<lambda>observed_at.
    then_sum (shown_at v item ''message_count'') (\<lambda>messages.
    then_sum (shown_at v item ''id'') (\<lambda>review_id.
    render_content
      (masthead (vw_checked_at v) (Some ''reviews'') (Some csrf)
       @ review_body v who (if gone then None else Some (shown v message)) review_id classification signals
           (dumps_indented True 0 (sort_keys features)) policy_panel messages observed_at csrf)
      (ustr ''Review #'' @ review_id) (Some (ustr ''notice'')) page_version))))))))))))"

subsection \<open>Restrictions\<close>

definition case_row :: "view \<Rightarrow> bool \<Rightarrow> answer \<Rightarrow> string + ustring" where
  "case_row v archived item =
    then_sum (text_at item ''status'') (\<lambda>st.
    then_sum (shown_at v item ''sender_key'') (\<lambda>sender_key.
    then_sum (if archived then Inr JNull else member_of item ''identity'') (\<lambda>who.
    then_sum (member_of item ''has_evidence'') (\<lambda>has_evidence.
    then_sum (int_at item (if archived then ''archived_at'' else ''updated_at'')) (\<lambda>since.
    then_sum (int_option_at item ''suppressed_until'') (\<lambda>suppressed_until.
    then_sum (text_at item ''reason'') (\<lambda>reason.
    let tone = case_tone st archived; href = ustr ''/cases/'' @ sender_key;
        sender_cell = (if archived then ustr ''<a class='identity-link row-link' href='' @ quoted href
            @ ustr ''>Archived Sender</a>'' else identity_cell (identity_from_value who) (Some href));
        evidence = (if truthy has_evidence then ustr ''<span class='availability'>Ready</span>''
            else ustr ''<span class='availability availability-unavailable'>Unavailable</span>'') in
    Inr (ustr ''<tr class='' @ quoted (ustr ''tone-'' @ ustr tone) @ ustr ''>''
      @ ustr ''<td data-label='Sender'>'' @ sender_cell @ ustr ''</td>''
      @ ustr ''<td data-label='State'>'' @ badge (human_label v st) tone
      @ ustr ''<span class='cell-note'>'' @ html_escape (restriction_summary v st suppressed_until) @ ustr ''</span></td>''
      @ ustr ''<td data-label='Trigger'>'' @ html_escape (list_reason_label v reason) @ ustr ''</td>''
      @ ustr ''<td data-label='Evidence'>'' @ evidence @ ustr ''</td>''
      @ ustr ''<td data-label='Age' class='age'>'' @ html_escape (relative_age v since) @ ustr ''</td>''
      @ ustr ''</tr>''))))))))"

definition REASON_PREFIX :: ustring where "REASON_PREFIX = ustr ''reason:''"

text \<open>The reasons of the statistics with their counts, in the order of the reasons.\<close>

definition reason_counts :: "answer \<Rightarrow> answer" where
  "reason_counts stats = sort_items (map (\<lambda>(k, n). (removeprefix k REASON_PREFIX, n))
     (filter (\<lambda>(k, n). starts_with k REASON_PREFIX) stats))"

definition plural :: "int \<Rightarrow> ustring" where
  "plural n = (if n \<noteq> 1 then ustr ''s'' else [])"

definition snapshot_note :: "ustring \<Rightarrow> int \<Rightarrow> ustring" where
  "snapshot_note scope unreviewable =
    (if unreviewable \<noteq> 0 then
       show_int unreviewable @ ustr '' restriction'' @ plural unreviewable @ ustr '' ''
       @ ustr (if unreviewable \<noteq> 1 then ''have'' else ''has'') @ ustr '' no reviewable evidence; ''
       @ ustr ''the restriction remains visible and manageable.''
     else ustr ''Every '' @ scope @ ustr '' restriction currently has reviewable evidence.'')"

definition identity_note :: "ustring \<Rightarrow> int \<Rightarrow> ustring" where
  "identity_note scope unidentified =
    (if unidentified \<noteq> 0 then
       ustr '' '' @ show_int unidentified @ ustr '' restriction'' @ plural unidentified
       @ ustr '' without a control identity require'' @ (if unidentified = 1 then ustr ''s'' else [])
       @ ustr '' manual ID recovery.''
     else ustr '' Every '' @ scope @ ustr '' restriction has a retained encrypted control identity.'')"

definition recovery :: "ustring \<Rightarrow> int \<Rightarrow> ustring" where
  "recovery csrf unidentified_total =
    (if unidentified_total = 0 then []
     else
       ustr ''<details class='advanced-recovery'><summary>Advanced Recovery''
       @ ustr '' <span class='summary-note'>'' @ show_int unidentified_total @ ustr '' unidentified</span></summary>''
       @ ustr ''<div class='advanced-recovery-content'>''
       @ ustr ''<h2>Allow an Unidentified Restricted Sender by Telegram User ID</h2>''
       @ ustr ''<p>Use this only for a restriction without an encrypted control identity, such as ''
       @ ustr ''one created before control identities were retained or when Gatekeeper could ''
       @ ustr ''not keep a Telegram reference. This removes the Gatekeeper restriction and cancels ''
       @ ustr ''pending deletion jobs, but cannot restore saved Telegram folder or notification ''
       @ ustr ''state without a peer reference. The entered ID is used only to derive the ''
       @ ustr ''existing sender key and is not stored.</p>''
       @ ustr ''<form class='manual-release' method='post' action='/cases/release'>''
       @ ustr ''<input type='hidden' name='token' value='' @ quoted csrf @ ustr ''>''
       @ ustr ''<label for='release-user-id'>Telegram User ID</label>''
       @ ustr ''<input id='release-user-id' name='user_id' type='text' inputmode='numeric' ''
       @ ustr ''pattern='[0-9]+' autocomplete='off' required>''
       @ ustr ''<button class='btn btn-block' type='submit'>Allow Without Restore</button>''
       @ ustr ''</form></div></details>'')"

definition filter_link :: "ustring \<Rightarrow> filters \<Rightarrow> bool \<Rightarrow> string + ustring" where
  "filter_link label fs current =
    then_sum (filter_query fs) (\<lambda>q.
    Inr (ustr ''<a href='' @ quoted (ustr ''/cases/archive'' @ q)
      @ (if current then ustr '' aria-current='' @ quoted (ustr ''true'') else [])
      @ ustr ''>'' @ html_escape label @ ustr ''</a>''))"

definition RETENTION_AGES :: "int list" where
  "RETENTION_AGES = [30, 90, 180, 365]"

definition days_label :: "int \<Rightarrow> ustring" where
  "days_label days = show_int days @ ustr '' days''"

definition archive_tools ::
  "view \<Rightarrow> ustring option \<Rightarrow> int option \<Rightarrow> ustring list \<Rightarrow> string + ustring" where
  "archive_tools v reason older_days reasons =
    then_sum (filter_link (ustr ''All'') (age_filter older_days) (reason = None)) (\<lambda>all_reasons.
    then_sum (map_sum_list (\<lambda>r. filter_link (human_label v r) ((''reason'', r) # age_filter older_days) (reason = Some r))
        reasons) (\<lambda>reason_links.
    then_sum (filter_link (ustr ''Any age'') (reason_filter reason) (older_days = None)) (\<lambda>any_age.
    then_sum (map_sum_list (\<lambda>days. filter_link (days_label days)
          (reason_filter reason @ [(''older_days'', show_int days)]) (older_days = Some days)) RETENTION_AGES) (\<lambda>age_links.
    Inr (ustr ''<section class='archive-tools' aria-label='Archive filters and cleanup'>''
      @ ustr ''<span class='filter-label'>Reason</span>''
      @ ustr ''<nav class='segmented' aria-label='Filter by reason'>'' @ all_reasons @ concat reason_links @ ustr ''</nav>''
      @ ustr ''<span class='filter-label'>Minimum archive age</span>''
      @ ustr ''<nav class='segmented' aria-label='Minimum archive age'>'' @ any_age @ concat age_links @ ustr ''</nav>''
      @ ustr ''<hr class='tools-divider'>''
      @ ustr ''<span class='filter-label'>Preview release and forget</span>''
      @ ustr ''<nav class='segmented segmented-danger' aria-label='Preview release and forget'>''
      @ concat (map (\<lambda>days. ustr ''<a href='' @ quoted (ustr ''/cases/archive/forget?days='' @ show_int days)
          @ ustr ''>'' @ days_label days @ ustr ''</a>'') RETENTION_AGES)
      @ ustr ''</nav></section>'')))))"

definition stat_strip :: "(string \<times> ustring) list \<Rightarrow> ustring" where
  "stat_strip items = ustr ''<dl class='stat-strip'>''
    @ concat (map (\<lambda>(label, n). ustr ''<div><dt>'' @ ustr label @ ustr ''</dt><dd class='data-value'>'' @ n
        @ ustr ''</dd></div>'') items)
    @ ustr ''</dl>''"

definition cases_lede :: "bool \<Rightarrow> ustring" where
  "cases_lede archived =
    (if archived then ustr ''Permanent restrictions you chose to keep. They remain enforced by local ''
       @ ustr ''policy; review them or forget them here.''
     else ustr ''Review every current restriction. Evidence availability is tracked ''
       @ ustr ''separately; Telegram block is never used.'')"

text \<open>The statistics cover the restrictions of the list.\<close>

definition cases_stats :: "bool \<Rightarrow> (string \<Rightarrow> ustring) \<Rightarrow> ustring" where
  "cases_stats archived s = stat_strip (if archived
     then [(''Reviewable Evidence'', s ''reviewable''), (''Evidence Unavailable'', s ''unreviewable'')]
     else [(''Quarantined'', s ''quarantined''), (''Suppressed'', s ''suppressed''),
           (''Reviewable Evidence'', s ''reviewable'')])"

definition cases_content ::
  "view \<Rightarrow> bool \<Rightarrow> ustring \<Rightarrow> int \<Rightarrow> int \<Rightarrow> ustring \<Rightarrow> ustring \<Rightarrow> ustring \<Rightarrow> ustring \<Rightarrow> ustring \<Rightarrow> ustring \<Rightarrow> ustring" where
  "cases_content v archived csrf all page figures context tools rows base recovery_part =
    masthead (vw_checked_at v) (Some (if archived then ''archive'' else ''cases'')) (Some csrf)
    @ ustr ''<main class='page'>''
    @ ustr ''<div class='live-region' data-live-region=''
    @ quoted (ustr (if archived then ''archived-restrictions'' else ''active-cases'')) @ ustr ''>''
    @ page_header (ustr (if archived then ''Archived Restrictions'' else ''Needs Attention'')) (Some (show_int all))
        (cases_lede archived) [] figures None
    @ ustr ''<details class='context-note'><summary>Restriction Context</summary>''
    @ ustr ''<p><strong>State reasons:</strong> '' @ context @ ustr ''</p></details>''
    @ tools
    @ ustr ''<div class='table-shell'><table class='data-table cases-table'><thead><tr><th>Sender</th><th>State</th><th>Trigger</th><th>Evidence</th><th>Age</th></tr></thead>''
    @ ustr ''<tbody>'' @ rows @ ustr ''</tbody></table></div>''
    @ pagination base page all
    @ ustr ''</div>''
    @ ustr ''<section class='advanced-recovery-wrap' data-live-region='legacy-recovery'>''
    @ recovery_part
    @ ustr ''</section></main>''"

definition cases_page ::
  "view \<Rightarrow> answer \<Rightarrow> int \<Rightarrow> bool \<Rightarrow> ustring option \<Rightarrow> int option \<Rightarrow> ustring \<Rightarrow> ustring option
   \<Rightarrow> string + nat list" where
  "cases_page v result page archived reason older_days csrf page_version =
    (let scope = ustr (if archived then ''archived'' else ''active'') in
    then_sum (int_from v result ''total'') (\<lambda>all.
    then_sum (objects_at result ''items'') (\<lambda>items.
    then_sum (object_at result ''stats'') (\<lambda>stats.
    then_sum (map_sum_list (case_row v archived) items) (\<lambda>rows.
    then_sum (int_at stats ''unreviewable'') (\<lambda>unreviewable.
    then_sum (int_at stats ''unidentified'') (\<lambda>unidentified.
    then_sum (int_of v (get_or result ''unidentified_total'' (JInt unidentified))) (\<lambda>unidentified_total.
    then_sum (cases_list_base archived reason older_days) (\<lambda>filtered_base.
    let counted = reason_counts stats;
        reasons = (if counted = [] then ustr ''No '' @ scope @ ustr '' reasons''
          else join (ustr '' '' @ DOT @ ustr '' '')
            (map (\<lambda>(r, n). html_escape (human_label v r) @ ustr '' '' @ shown v n) counted)) in
    then_sum (if archived then archive_tools v reason older_days (map fst counted) else Inr []) (\<lambda>tools.
    then_sum (all_shown v stats (if archived then [''reviewable'', ''unreviewable'']
        else [''quarantined'', ''suppressed'', ''reviewable''])) (\<lambda>s.
    render_content
      (cases_content v archived csrf all page (cases_stats archived s)
        (reasons @ ustr ''. '' @ snapshot_note scope unreviewable @ identity_note scope unidentified) tools
        (if rows = [] then ustr ''<tr class='empty-row'><td colspan='5'>No '' @ scope @ ustr '' restrictions.</td></tr>''
         else concat rows)
        filtered_base (recovery csrf unidentified_total))
      (ustr (if archived then ''Archived Restrictions'' else ''Active Cases'')) (Some (ustr ''replace'')) page_version)))))))))))"

subsection \<open>One restriction\<close>

definition unavailable_note :: "ustring \<Rightarrow> ustring" where
  "unavailable_note reason =
    (if reason = ustr ''authentication_failed'' then
       ustr ''Encrypted evidence failed authentication and was not shown.''
     else if reason = ustr ''missing'' then ustr ''No message evidence is retained.''
     else ustr ''Encrypted evidence cannot be opened by this runtime.'')"

definition EVIDENCE_GONE :: ustring where
  "EVIDENCE_GONE = ustr ''<div class='empty-state'><strong>Evidence expired or unavailable.</strong> ''
    @ ustr ''The encrypted control identity is retained only so this restriction remains ''
    @ ustr ''visible and reversible.</div>''"

definition allow_guidance :: "bool \<Rightarrow> ustring" where
  "allow_guidance has_snapshot =
    (if has_snapshot then ustr ''Allow restores the saved folder and notification state before changing policy.''
     else ustr ''No saved dialog state is available. Allow moves the conversation to the main ''
       @ ustr ''folder and enables notifications before changing policy.'')"

definition secondary_action :: "ustring \<Rightarrow> ustring \<Rightarrow> bool \<Rightarrow> bool \<Rightarrow> bool \<Rightarrow> ustring" where
  "secondary_action csrf sender_key archived has_open_actions permanent =
    (if archived then
       action_form csrf sender_key ''unarchive'' ''Move to Needs Attention'' None ''cases''
       @ (if has_open_actions then []
          else ustr ''<a class='btn btn-block-outline' href='' @ quoted (ustr ''/cases/'' @ sender_key @ ustr ''/forget'')
            @ ustr ''>Release and Forget'' @ ELLIPSIS @ ustr ''</a>'')
     else if permanent then
       ustr ''<a class='btn' href='' @ quoted (ustr ''/cases/'' @ sender_key @ ustr ''/archive'')
       @ ustr ''>Keep and Archive'' @ ELLIPSIS @ ustr ''</a>''
     else [])"

definition case_grid ::
  "ustring \<Rightarrow> ustring \<Rightarrow> ustring \<Rightarrow> ustring \<Rightarrow> ustring \<Rightarrow> ustring \<Rightarrow> ustring \<Rightarrow> ustring \<Rightarrow> ustring \<Rightarrow> ustring \<Rightarrow> ustring" where
  "case_grid evidence_heading evidence_note message_html evidence_panels signals_html technical_panel
      guidance_text actions policy_panel facts =
    BR @ ustr ''        <div class=\"detail-grid\">'' @ BR
    @ ustr ''          <div class=\"evidence-column\">'' @ BR
    @ ustr ''            <section class=\"panel\">'' @ BR
    @ ustr ''              <div class=\"panel-head\"><h2 class=\"panel-title\">'' @ evidence_heading @ ustr ''</h2>'' @ BR
    @ ustr ''                <p class=\"panel-note\">'' @ evidence_note @ ustr ''</p></div>'' @ BR
    @ ustr ''              '' @ message_html @ BR
    @ ustr ''            </section>'' @ BR
    @ ustr ''            '' @ evidence_panels @ BR
    @ ustr ''            <section class=\"panel\"><h2 class=\"panel-title\">Evidence Signals</h2>'' @ BR
    @ ustr ''              <div class=\"signal-breakdown\">'' @ signals_html @ ustr ''</div></section>'' @ BR
    @ ustr ''            '' @ technical_panel @ BR
    @ ustr ''          </div>'' @ BR
    @ ustr ''          <aside class=\"decision-rail\" aria-label=\"Decision\">'' @ BR
    @ ustr ''            '' @ change_notice @ BR
    @ ustr ''            <section class=\"rail-card decision-card\"><h2 class=\"rail-title\">Operator Action</h2>'' @ BR
    @ ustr ''              <p class=\"rail-help\">'' @ html_escape guidance_text @ ustr ''</p>'' @ BR
    @ ustr ''              <div class=\"action-stack\">'' @ actions @ ustr ''</div></section>'' @ BR
    @ ustr ''            '' @ policy_panel @ BR
    @ ustr ''            <section class=\"rail-card\"><h2 class=\"rail-title\">Restriction Details</h2>'' @ facts
    @ ustr ''</section>'' @ BR
    @ ustr ''          </aside>'' @ BR
    @ ustr ''        </div></main>''"

text \<open>A payload that is not an object counts as empty.\<close>

definition payload_of :: "answer \<Rightarrow> answer" where
  "payload_of item = (case get_or item ''payload'' JNull of JObj ms \<Rightarrow> ms | _ \<Rightarrow> [])"

text \<open>\<open>item.evidence_created_at or item.updated_at\<close>.\<close>

definition observed_time :: "answer \<Rightarrow> string + int" where
  "observed_time item =
    then_sum (member_of item ''evidence_created_at'') (\<lambda>created.
    if truthy created then as_int created else int_at item ''updated_at'')"

definition evidence_expiry :: "view \<Rightarrow> answer \<Rightarrow> string + ustring" where
  "evidence_expiry v item =
    then_sum (int_option_at item ''evidence_expires_at'') (\<lambda>expires_at. case expires_at of
      None \<Rightarrow> Inr (ustr ''Expired or unavailable'') | Some at \<Rightarrow> vw_timestamp v at)"

definition case_detail_page :: "view \<Rightarrow> answer \<Rightarrow> ustring \<Rightarrow> ustring option \<Rightarrow> string + nat list" where
  "case_detail_page v item csrf page_version =
    (let payload = payload_of item;
         available = (get_or item ''evidence_available'' JNull = JBool True);
         who = identity_from_value (get_or item ''identity'' JNull); user_id = map_option li_user_id who;
         (message_html, link_facts, technical) =
           (if available then review_sections v payload else (EVIDENCE_GONE, [], []));
         evidence_note = (if available then ustr ''Encrypted at rest; decrypted only for this owner-only view.''
           else unavailable_note (shown v (get_or item ''evidence_unavailable_reason'' JNull))
             @ ustr '' Only the encrypted control identity remains available.'');
         evidence_panels = (if available then ustr ''<section class='panel'><h2 class='panel-title'>Links and Buttons</h2>''
             @ link_facts @ ustr ''</section>'' else []);
         features = dumps_indented True 0 (sort_keys (get_or payload ''features'' (JObj []))) in
    then_sum (signal_breakdown v (get_or payload ''signals'' (JArr []))) (\<lambda>signals_html.
    then_sum (policy_decision_panel v payload None) (\<lambda>policy_panel.
    then_sum (observed_time item) (\<lambda>observed_at.
    then_sum (vw_timestamp v observed_at) (\<lambda>observed.
    then_sum (evidence_expiry v item) (\<lambda>expiry.
    then_sum (shown_at v item ''sender_key'') (\<lambda>sender_key.
    then_sum (member_of item ''archived_at'') (\<lambda>archived_at.
    then_sum (text_at item ''status'') (\<lambda>st.
    then_sum (int_option_at item ''suppressed_until'') (\<lambda>suppressed_until.
    then_sum (if archived_at \<noteq> JNull then member_of item ''has_open_actions'' else Inr JNull) (\<lambda>open_actions.
    then_sum (text_at item ''reason'') (\<lambda>reason.
    let archived = (archived_at \<noteq> JNull); status_label = human_label v st;
        actions = (if user_id \<noteq> None then action_form csrf sender_key ''allow'' ''Allow Sender'' (Some ''allow'') ''cases''
            else ustr ''<button class='btn' type='button' disabled>Allow Unavailable</button>'')
          @ secondary_action csrf sender_key archived (truthy open_actions)
              (st = ustr ''suppressed'' \<and> suppressed_until = None);
        facts = key_values [(''Restriction Cause'', html_escape (human_label v reason)), (''Triggered'', observed),
          (''Restriction'', html_escape (remaining v st suppressed_until)), (''Evidence Expires'', expiry)] in
    render_content
      (masthead (vw_checked_at v) (Some (if archived then ''archive'' else ''cases'')) (Some csrf)
       @ ustr ''<main class='page detail-page'>''
       @ page_header (heading who) None [] (identity_meta user_id None)
           (badge (if archived then ustr ''Archived '' @ DOT @ ustr '' '' @ status_label else status_label)
             (case_tone st archived))
           (Some (if archived then (''/cases/archive'', ''Archived Restrictions'') else (''/cases'', ''Needs Attention'')))
       @ case_grid (ustr (if available then ''Decrypted Local Evidence'' else ''Restriction Control'')) evidence_note
           message_html evidence_panels signals_html (technical_details (technical @ structural_features features))
           (allow_guidance (get_or item ''has_dialog_snapshot'' JNull = JBool True)) actions policy_panel facts)
      (ustr ''Active Case '' @ DOT @ ustr '' '' @ status_label) (Some (ustr ''notice'')) page_version))))))))))))"

end
