(* ===== verification/View_Safety.thy ===== *)
theory View_Safety
  imports View_Pages
begin

text \<open>
  What a sender writes cannot change the structure of a page. \<open>uniform F\<close>: whatever the texts are that
  \<open>F\<close> shows, the characters of its pages that an HTML parser treats as markup are the same, in the
  same order.
\<close>

definition uniform :: "('t \<Rightarrow> string + nat list) \<Rightarrow> bool" where
  "uniform F \<longleftrightarrow> (\<exists>M. \<forall>t. case F t of Inl e \<Rightarrow> True | Inr bytes \<Rightarrow> markup bytes = M)"

lemma uniform_error: "uniform (\<lambda>t. Inl e)"
  by (simp add: uniform_def)

lemma uniform_then:
  assumes "\<And>x. A = Inr x \<Longrightarrow> uniform (\<lambda>t. G t x)"
  shows "uniform (\<lambda>t. then_sum A (G t))"
  using assms by (cases A) (simp_all add: then_sum_def uniform_def)

subsection \<open>The frame\<close>

lemma markup_utf8: "markup (utf8_char c) = markup [c]"
  by (auto simp: utf8_char_def markup_def significant_def)

lemma markup_encoded: "markup (concat (map utf8_char t)) = markup t"
  by (induction t) (simp_all add: markup_utf8 markup_Cons)

lemma starts_with_longer:
  "length p \<le> length s \<Longrightarrow> starts_with (s @ b) p = starts_with s p"
  "starts_with s p \<Longrightarrow> length p \<le> length s"
  by (auto simp: starts_with_def) (metis length_take min.cobounded1)

lemma find_sub_longer: "find_sub a p = Some i \<Longrightarrow> find_sub (a @ b) p = Some i"
proof (induction a arbitrary: i)
  case Nil
  then show ?case by (cases b) (auto simp: starts_with_def split: if_splits)
next
  case (Cons c a)
  have long: "length p \<le> length (c # a)" using find_sub_Some [OF Cons.prems] by simp
  show ?case
  proof (cases "starts_with (c # a) p")
    case True
    with Cons.prems starts_with_longer(1) [OF long] show ?thesis by simp
  next
    case False
    with Cons.prems obtain j where j: "find_sub a p = Some j" "i = Suc j" by (auto split: option.splits)
    with Cons.IH [OF j(1)] False starts_with_longer(1) [OF long, of b] show ?thesis by simp
  qed
qed

lemma masthead_end: "\<exists>m. masthead checked active (Some csrf) = m @ ustr ''</header>''"
  unfolding masthead_def option.case by (simp only: append_assoc [symmetric]) (rule exI, rule refl)

text \<open>The frame is closed and opened within the masthead, whatever follows it.\<close>

lemma markup_framed:
  "\<exists>M. \<forall>rest. markup (framed (masthead checked active (Some csrf) @ rest)) = M @ markup rest @ markup (ustr ''</div>'')"
proof -
  let ?m = "masthead checked active (Some csrf)" and ?h = "ustr ''</header>''"
  obtain m where m: "?m = m @ ?h @ []" using masthead_end by force
  obtain i where i: "find_sub ?m ?h = Some i" using find_sub_exists [of m ?h "[]"] unfolding m by blast
  then have len: "i + 9 \<le> length ?m" using find_sub_Some [OF i] by simp
  have "framed (?m @ rest) = take (i + 9) ?m @ ustr ''<div data-dashboard-content>'' @ drop (i + 9) ?m @ rest
      @ ustr ''</div>''" for rest
    using len by (simp add: framed_def find_sub_longer [OF i])
  then show ?thesis
    by (intro exI [of _ "markup (take (i + 9) ?m @ ustr ''<div data-dashboard-content>'' @ drop (i + 9) ?m)"]) simp
qed

lemma uniform_render:
  assumes "\<exists>M. \<forall>t. markup (rest t) = M"
  shows "uniform (\<lambda>t. render_content (masthead checked active (Some csrf) @ rest t) title refresh version)"
proof -
  obtain R where R: "\<And>t. markup (rest t) = R" using assms by blast
  obtain M where M: "\<And>r. markup (framed (masthead checked active (Some csrf) @ r)) = M @ markup r @ markup (ustr ''</div>'')"
    using markup_framed by blast
  have "\<exists>D. \<forall>body. markup (document True ti refresh version body) = fst D @ markup body @ snd D" for ti
    unfolding document_def Let_def
    by (intro exI [of _ "(_, markup (ustr ''</body></html>''))"])
       (simp only: markup_append append_assoc fst_conv snd_conv, rule allI, simp only: append_assoc [symmetric])
  then obtain D where "\<And>ti body. markup (document True ti refresh version body) = fst (D ti) @ markup body @ snd (D ti)"
    by metis
  then have "markup bytes = fst (D ti) @ M @ R @ markup (ustr ''</div>'') @ snd (D ti)"
    if "encode_page (document True ti refresh version (framed (masthead checked active (Some csrf) @ rest t))) = Inr bytes"
    for ti t bytes
    using that by (auto simp: encode_page_def markup_encoded M R split: if_splits)
  from this [where ti = "if title = [] then ustr ''Gatekeeper Dashboard'' else title"] show ?thesis
    unfolding uniform_def render_content_def
    by (intro exI [where x = "fst (D (if title = [] then ustr ''Gatekeeper Dashboard'' else title)) @ M @ R @
          markup (ustr ''</div>'') @ snd (D (if title = [] then ustr ''Gatekeeper Dashboard'' else title))"] allI)
      (simp split: sum.split)
qed

subsection \<open>Texts of senders\<close>

text \<open>The answer to \<open>reviews.detail\<close> with what the sender chooses: names and the message.\<close>

record sender_texts =
  st_name :: ustring
  st_username :: ustring
  st_message :: ustring

definition with_texts :: "answer \<Rightarrow> int \<Rightarrow> sender_texts \<Rightarrow> answer" where
  "with_texts item user_id t =
    [(ustr ''identity'', JObj [(ustr ''user_id'', JInt user_id), (ustr ''name'', JStr (st_name t)),
        (ustr ''username'', JStr (st_username t))]),
     (ustr ''message'', JStr (st_message t))] @ item"

lemma ustr_eq [simp]: "ustr a = ustr b \<longleftrightarrow> a = b"
  unfolding ustr_def by (rule inj_map_eq_map) (rule injI, simp)

lemma with_texts_other:
  "name \<noteq> ''identity'' \<Longrightarrow> name \<noteq> ''message'' \<Longrightarrow> member_of (with_texts item u t) name = member_of item name"
  by (simp add: member_of_def with_texts_def)

lemma with_texts_fields:
  "text_at (with_texts item u t) ''signals'' = text_at item ''signals''"
  "text_at (with_texts item u t) ''classification'' = text_at item ''classification''"
  "text_at (with_texts item u t) ''features'' = text_at item ''features''"
  "int_at (with_texts item u t) ''updated_at'' = int_at item ''updated_at''"
  "shown_at v (with_texts item u t) ''message_count'' = shown_at v item ''message_count''"
  "shown_at v (with_texts item u t) ''id'' = shown_at v item ''id''"
  by (simp_all add: text_at_def int_at_def shown_at_def with_texts_other)

lemma markup_header: "markup (page_header title count lede meta aside back) = markup (page_header [] count lede meta aside back)"
  unfolding page_header_def Let_def markup_append markup_escape by (rule refl)

lemma markup_message: "markup (message_panel t) = markup (message_panel [])"
  unfolding message_panel_def markup_append markup_escape by (rule refl)

text \<open>The markup of the body without the texts: the heading is empty, and so is the message.\<close>

lemma markup_review_body:
  "markup (review_body v (Some \<lparr>li_user_id = i, li_name = n, li_username = u\<rparr>) (Some t) r c sg f p m ob csrf)
   = markup (review_body v (Some \<lparr>li_user_id = i, li_name = None, li_username = None\<rparr>) (Some []) r c sg f p m ob csrf)"
  unfolding review_body_def Let_def option.case option.map live_identity.select_convs markup_append
    markup_header [of "heading _"] markup_message [of t]
  by (rule refl)

definition who_of :: "int \<Rightarrow> sender_texts \<Rightarrow> live_identity option" where
  "who_of u t = Some \<lparr>li_user_id = show_int u, li_name = Some (st_name t), li_username = Some (st_username t)\<rparr>"

lemma with_texts_who:
  "identity_from_value (get_or (with_texts item u t) ''identity'' JNull) = who_of u t"
  "get_or (with_texts item u t) ''message'' JNull = JStr (st_message t)"
  "(JStr x = JNull) = False"
  by (simp_all add: with_texts_def get_or_def identity_from_value_def text_or_none_def who_of_def)

text \<open>C21. What a sender writes cannot change the structure of a review page: whatever the name, the
  account name and the message of the sender are, the quotation marks and angle brackets of the page
  are the same, in the same order.\<close>

theorem review_page_structure:
  "uniform (\<lambda>t. review_detail_page v (with_texts item user_id t) csrf version)"
  unfolding review_detail_page_def Let_def with_texts_fields with_texts_who if_False py_str.simps
    simp_thms who_of_def
  by (intro uniform_then uniform_render exI allI) (rule markup_review_body)

end
