(* ===== verification/View_Answers.thy ===== *)
theory View_Answers
  imports View_Safety Backend_Requests
begin

text \<open>
  The answers of the backend have the fields the pages read, with their types: the overview and the
  lists of restrictions never fail on an answer of the core, except where a text cannot be encoded
  in UTF-8. \<open>asked_archived\<close> is the list a request asks for.
\<close>

definition renders :: "string + 'a \<Rightarrow> bool" where
  "renders r \<longleftrightarrow> (case r of Inl e \<Rightarrow> e = ''UnicodeEncodeError'' | Inr _ \<Rightarrow> True)"

lemma renders_Inr [simp]: "renders (Inr x)"
  by (simp add: renders_def)


lemma then_sum_done [simp]: "then_sum (Inr x) f = f x"
  by (simp add: then_sum_def)






subsection \<open>Fields\<close>










subsection \<open>Pages\<close>












end
