(* ===== verification/Http.thy ===== *)
theory Http
  imports Runs Rpc View_Pages
begin

text \<open>
  \<open>dashboard_http.py\<close>: reading a request, the authentication gate, the routes with their handlers, and
  writing the answer. The server's state is its credentials, the state of the backend it calls, and
  the clocks; a \<open>web\<close> holds the backend itself and what the server takes from the standard library.
  Requests are handled one after another. Bodies of answers are lists of bytes.
\<close>

datatype notice = AuthenticatedActivity | LogoutScheduled

record 's web =
  wb_backend :: "'s backend"
  wb_tokens :: "nat \<Rightarrow> ustring"
  wb_view :: "nat \<Rightarrow> view"
  wb_unicode :: unicode
  wb_digits :: "nat \<Rightarrow> nat option"
  wb_cookies :: "ustring \<Rightarrow> (ustring \<times> ustring) list option"
  wb_netloc_scheme :: "ustring \<Rightarrow> bool"
  wb_asset :: "ustring \<Rightarrow> nat list option"

text \<open>\<open>ht_writable n\<close>: whether the \<open>n\<close>-th write of the token file succeeds.\<close>

record 's http =
  ht_credentials :: credentials
  ht_state :: 's
  ht_monotonic :: "nat \<Rightarrow> int"
  ht_readings :: nat
  ht_writable :: "nat \<Rightarrow> bool"
  ht_writes :: nat
  ht_rendered :: nat
  ht_notices :: "notice list"

type_synonym ('a, 's) http_prog = "('a, 's http) prog_on"
type_synonym response = "int \<times> headers \<times> nat list"

definition MAX_HEADER_BYTES :: nat where "MAX_HEADER_BYTES = 16 * 1024"
definition MAX_BODY_BYTES :: int where "MAX_BODY_BYTES = 4 * 1024"

definition ASSETS :: "ustring set" where
  "ASSETS = {ustr ''/dashboard.js'', ustr ''/dashboard-theme.js'', ustr ''/dashboard.css'', ustr ''/dashboard-error.css''}"

subsection \<open>Effects\<close>

definition creds :: "(credentials, 's) http_prog" where
  "creds = get_run ht_credentials"

definition set_creds :: "(credentials \<Rightarrow> credentials) \<Rightarrow> (unit, 's) http_prog" where
  "set_creds f = put_run (\<lambda>h. h\<lparr>ht_credentials := f (ht_credentials h)\<rparr>)"

definition monotonic_time :: "(int, 's) http_prog" where
  "monotonic_time = bind_prog (get_run (\<lambda>h. ht_monotonic h (ht_readings h))) (\<lambda>now.
     then_prog (put_run (\<lambda>h. h\<lparr>ht_readings := Suc (ht_readings h)\<rparr>)) (ret now))"

definition notify :: "notice \<Rightarrow> (unit, 's) http_prog" where
  "notify n = put_run (\<lambda>h. h\<lparr>ht_notices := ht_notices h @ [n]\<rparr>)"

text \<open>A change of the credentials that writes the token file.\<close>

definition with_token_file :: "(bool \<Rightarrow> credentials \<Rightarrow> (string + unit) \<times> credentials) \<Rightarrow> (unit, 's) http_prog" where
  "with_token_file f h =
    (let (r, c) = f (ht_writable h (ht_writes h)) (ht_credentials h) in
     (r, h\<lparr>ht_credentials := c, ht_writes := Suc (ht_writes h)\<rparr>))"

text \<open>\<open>await self.backend.request(...)\<close>. A \<open>DashboardBackendError\<close> is the exception \<open>backend:code\<close>; only
  codes in ASCII are ever compared with.\<close>

definition failure_exn :: "failure \<Rightarrow> exn" where
  "failure_exn f = (case f of
      Coded code \<Rightarrow> ''backend:'' @ (if list_all (\<lambda>c. c < 128) code then map char_of code else ''?'')
    | BadValue \<Rightarrow> ''ValueError''
    | Unreachable \<Rightarrow> ''ConnectionError''
    | Crashed \<Rightarrow> ''Exception'')"

definition request :: "'s web \<Rightarrow> string \<Rightarrow> json_object \<Rightarrow> (json_object, 's) http_prog" where
  "request wb meth params h =
    (let (r, s) = wb_backend wb (ustr meth) params (ht_state h) in
     (case r of Inl f \<Rightarrow> Inl (failure_exn f) | Inr answer \<Rightarrow> Inr answer, h\<lparr>ht_state := s\<rparr>))"

text \<open>The code of a \<open>DashboardBackendError\<close>.\<close>

definition backend_code :: "exn \<Rightarrow> string option" where
  "backend_code e = (if starts_with e ''backend:'' then Some (drop 8 e) else None)"

definition on_backend_error ::
  "('a, 's) http_prog \<Rightarrow> (string \<Rightarrow> ('a, 's) http_prog) \<Rightarrow> ('a, 's) http_prog" where
  "on_backend_error m handler h = (case m h of
      (Inl e, h') \<Rightarrow> (case backend_code e of Some code \<Rightarrow> handler code h' | None \<Rightarrow> (Inl e, h'))
    | r \<Rightarrow> r)"

text \<open>Rendering with the view of this moment.\<close>

definition render :: "'s web \<Rightarrow> (view \<Rightarrow> ustring \<Rightarrow> string + nat list) \<Rightarrow> (nat list, 's) http_prog" where
  "render wb f =
    bind_prog (get_run (\<lambda>h. f (wb_view wb (ht_rendered h)) (csrf_token (ht_credentials h)))) (\<lambda>r.
    then_prog (put_run (\<lambda>h. h\<lparr>ht_rendered := Suc (ht_rendered h)\<rparr>)) (need_sum r))"

definition answer :: "int \<Rightarrow> headers \<Rightarrow> nat list \<Rightarrow> (response, 's) http_prog" where
  "answer code hs body = ret (code, hs, body)"

definition error_answer :: "int \<Rightarrow> headers \<Rightarrow> string \<Rightarrow> (response, 's) http_prog" where
  "error_answer code hs title = bind_prog (need_sum (render_error title)) (answer code hs)"

definition not_found :: "(response, 's) http_prog" where
  "not_found = error_answer 404 [] ''Not Found''"

definition redirect :: "string \<Rightarrow> (response, 's) http_prog" where
  "redirect location = answer 303 [(''Location'', ustr location)] []"

definition bad_token :: "(response, 's) http_prog" where
  "bad_token = error_answer 400 [] ''Invalid Action Token''"

definition not_allowed :: "string \<Rightarrow> (response, 's) http_prog" where
  "not_allowed allowed = error_answer 405 [(''Allow'', ustr allowed)] ''Method Not Allowed''"

definition BACKEND_ERRORS :: "(string \<times> int \<times> string) list" where
  "BACKEND_ERRORS =
    [(''unknown_action'', 400, ''Unknown Action''),
     (''invalid_request'', 400, ''Invalid Request''),
     (''review_not_found'', 404, ''Review Item Not Found''),
     (''review_already_decided'', 409, ''This Item Has Already Been Reviewed''),
     (''review_not_pending'', 409, ''This Item Is No Longer Pending''),
     (''case_not_found'', 404, ''Active Case Not Found''),
     (''case_not_active'', 409, ''This Restriction Is No Longer Active''),
     (''identity_unavailable'', 409, ''Telegram Identity Is Unavailable''),
     (''restricted_sender_not_found'', 409, ''Restricted Sender Not Found''),
     (''use_active_case'', 409, ''Use Allow Sender in Active Cases''),
     (''telegram_action_failed'', 500, ''Telegram Action Failed; Item Was Not Changed''),
     (''restriction_release_failed'', 500, ''Restriction Release Failed''),
     (''case_not_archived'', 409, ''This Restriction Is Not Archived''),
     (''case_not_forgettable'', 409, ''This Restriction Cannot Be Forgotten While Work Is Pending''),
     (''core_unavailable'', 503, ''Dashboard Core Is Unavailable'')]"

definition backend_error_answer :: "string \<Rightarrow> (response, 's) http_prog" where
  "backend_error_answer code =
    (let (st, title) = (case map_of BACKEND_ERRORS code of Some r \<Rightarrow> r | None \<Rightarrow> (500, ''Request Failed''))
     in error_answer st [] title)"

subsection \<open>Forms and parameters\<close>

definition first_or :: "string \<Rightarrow> ustring \<Rightarrow> (ustring \<times> ustring) list \<Rightarrow> ustring" where
  "first_or name d values = (case first_value name values of Some t \<Rightarrow> t | None \<Rightarrow> d)"

text \<open>\<open>parse_qs(body.decode("utf-8"), strict_parsing=strict)\<close>.\<close>

definition posted :: "bool \<Rightarrow> blob \<Rightarrow> exn + (ustring \<times> ustring) list" where
  "posted strict body = (case utf8_decode False body of
      None \<Rightarrow> Inl ''UnicodeDecodeError''
    | Some t \<Rightarrow> (case parse_qs strict t of None \<Rightarrow> Inl ''ValueError'' | Some values \<Rightarrow> Inr values))"

definition check_csrf :: "ustring \<Rightarrow> (bool, 's) http_prog" where
  "check_csrf token = bind_prog creds (\<lambda>c. need_sum (accepts_csrf token c))"

text \<open>\<open>None\<close> when the token of the form is wrong.\<close>

definition csrf_form :: "blob \<Rightarrow> ((ustring \<times> ustring) list option, 's) http_prog" where
  "csrf_form body =
    bind_prog (need_sum (posted True body)) (\<lambda>values.
    bind_prog (check_csrf (first_or ''token'' [] values)) (\<lambda>ok. ret (if ok then Some values else None)))"

definition get_values :: "ustring \<Rightarrow> (ustring \<times> ustring) list" where
  "get_values qs = (case parse_qs False qs of Some values \<Rightarrow> values | None \<Rightarrow> [])"

text \<open>\<open>isascii() and isdecimal()\<close>, then \<open>int\<close>, which refuses more than 4300 digits.\<close>

definition decimal_text :: "ustring \<Rightarrow> bool" where
  "decimal_text t \<longleftrightarrow> t \<noteq> [] \<and> list_all is_digit t"

definition decimal_value :: "'s web \<Rightarrow> ustring \<Rightarrow> exn + int" where
  "decimal_value wb t = (case py_int (wb_digits wb) t of None \<Rightarrow> Inl ''ValueError'' | Some i \<Rightarrow> Inr i)"

definition page_number :: "'s web \<Rightarrow> ustring \<Rightarrow> exn + int option" where
  "page_number wb qs =
    (let raw = first_or ''page'' (ustr ''1'') (get_values qs) in
     if \<not> decimal_text raw then Inr None
     else then_sum (decimal_value wb raw) (\<lambda>page.
       Inr (if 1 \<le> page \<and> page \<le> 100000 then Some page else None)))"

definition is_sender_key :: "ustring \<Rightarrow> bool" where
  "is_sender_key k \<longleftrightarrow> length k = 64 \<and> list_all (\<lambda>c. is_digit c \<or> (97 \<le> c \<and> c \<le> 102)) k"

definition RETENTION_DAYS :: "(ustring \<times> int) list" where
  "RETENTION_DAYS = [(ustr ''30'', 30), (ustr ''90'', 90), (ustr ''180'', 180), (ustr ''365'', 365)]"

subsection \<open>Pages\<close>

definition backend_page_version :: "'s web \<Rightarrow> ustring \<Rightarrow> (ustring option, 's) http_prog" where
  "backend_page_version wb target =
    bind_prog (request wb ''page_version'' [(ustr ''target'', JStr target)]) (\<lambda>result.
    ret (case map_of result (ustr ''version'') of Some (JStr t) \<Rightarrow> Some t | _ \<Rightarrow> None))"

definition enforcement_index_page ::
  "'s web \<Rightarrow> int \<Rightarrow> bool \<Rightarrow> ustring option \<Rightarrow> int option \<Rightarrow> (nat list, 's) http_prog" where
  "enforcement_index_page wb page archived reason older_days =
    bind_prog (request wb ''cases.list''
        ([(ustr ''page'', JInt page), (ustr ''archived'', JBool archived)]
         @ map (\<lambda>(k, t). (ustr k, JStr t)) (reason_filter reason)
         @ (case older_days of None \<Rightarrow> [] | Some d \<Rightarrow> if d = 0 then [] else [(ustr ''older_days'', JInt d)]))) (\<lambda>result.
    bind_prog (need_sum (cases_list_base archived reason older_days)) (\<lambda>base.
    bind_prog (backend_page_version wb (paged_target base page)) (\<lambda>version.
    render wb (\<lambda>v csrf. cases_page v result page archived reason older_days csrf version))))"

definition show_enforcement :: "'s web \<Rightarrow> ustring \<Rightarrow> (response, 's) http_prog" where
  "show_enforcement wb sender_key =
    bind_prog (request wb ''cases.detail'' [(ustr ''sender_key'', JStr sender_key)]) (\<lambda>result.
    bind_prog (get_run (\<lambda>h. shown_at (wb_view wb (ht_rendered h)) result ''sender_key'')) (\<lambda>k.
    bind_prog (need_sum k) (\<lambda>shown_key.
    bind_prog (backend_page_version wb (ustr ''/cases/'' @ shown_key)) (\<lambda>version.
    bind_prog (render wb (\<lambda>v csrf. case_detail_page v result csrf version)) (answer 200 [])))))"

definition show_review :: "'s web \<Rightarrow> int \<Rightarrow> (response, 's) http_prog" where
  "show_review wb review_id =
    bind_prog (request wb ''reviews.detail'' [(ustr ''review_id'', JInt review_id)]) (\<lambda>result.
    bind_prog (get_run (\<lambda>h. shown_at (wb_view wb (ht_rendered h)) result ''id'')) (\<lambda>i.
    bind_prog (need_sum i) (\<lambda>shown_id.
    bind_prog (backend_page_version wb (ustr ''/review/'' @ shown_id)) (\<lambda>version.
    bind_prog (render wb (\<lambda>v csrf. review_detail_page v result csrf version)) (answer 200 [])))))"

definition dashboard_page :: "'s web \<Rightarrow> (nat list, 's) http_prog" where
  "dashboard_page wb =
    bind_prog (request wb ''overview'' []) (\<lambda>result.
    bind_prog (backend_page_version wb (ustr ''/'')) (\<lambda>version.
    render wb (\<lambda>v csrf. overview_page v result csrf version)))"

definition http_review_queue_page :: "'s web \<Rightarrow> int \<Rightarrow> (nat list, 's) http_prog" where
  "http_review_queue_page wb page =
    bind_prog (request wb ''reviews.list'' [(ustr ''page'', JInt page)]) (\<lambda>result.
    bind_prog (backend_page_version wb (paged_target (ustr ''/review'') page)) (\<lambda>version.
    render wb (\<lambda>v csrf. review_queue_page v result page csrf version)))"

subsection \<open>Handlers\<close>

type_synonym 's handler = "ustring \<Rightarrow> ustring \<Rightarrow> ustring \<Rightarrow> blob \<Rightarrow> (response, 's) http_prog"

abbreviation is_get :: "ustring \<Rightarrow> bool" where "is_get meth \<equiv> meth = ustr ''GET''"
abbreviation is_post :: "ustring \<Rightarrow> bool" where "is_post meth \<equiv> meth = ustr ''POST''"

definition serve_asset :: "'s web \<Rightarrow> 's handler" where
  "serve_asset wb meth asset_name qs body =
    (if \<not> is_get meth then answer 405 [(''Allow'', ustr ''GET'')] []
     else bind_prog (need ''FileNotFoundError'' (wb_asset wb asset_name)) (\<lambda>bytes.
       answer 200 [(''Content-Type'', if ends_with asset_name (ustr ''.js'') then ustr ''text/javascript; charset=utf-8''
         else ustr ''text/css; charset=utf-8'')] bytes))"

definition JSON_TYPE :: headers where
  "JSON_TYPE = [(''Content-Type'', ustr ''application/json'')]"

definition page_status :: "'s web \<Rightarrow> 's handler" where
  "page_status wb meth param qs body =
    (if \<not> is_get meth then answer 405 [(''Allow'', ustr ''GET'')] []
     else on_backend_error
       (bind_prog (request wb ''page_version'' [(ustr ''target'', JStr (first_or ''path'' [] (get_values qs)))]) (\<lambda>result.
        let version = (case map_of result (ustr ''version'') of Some v \<Rightarrow> v | None \<Rightarrow> JNull) in
        if version = JNull then answer 404 JSON_TYPE (ustr ''{}'')
        else bind_prog (get_run (\<lambda>h. vw_checked_at (wb_view wb (ht_rendered h)))) (\<lambda>checked_at.
          answer 200 JSON_TYPE (dumps True (JObj [(ustr ''version'', version), (ustr ''checked_at'', JStr checked_at)])))))
       (\<lambda>_. answer 404 JSON_TYPE (ustr ''{}'')))"

definition overview_route :: "'s web \<Rightarrow> 's handler" where
  "overview_route wb meth param qs body = bind_prog (dashboard_page wb) (answer 200 [])"

definition review_list_route :: "'s web \<Rightarrow> 's handler" where
  "review_list_route wb meth param qs body =
    bind_prog (need_sum (page_number wb qs)) (\<lambda>page. case page of
      None \<Rightarrow> not_found
    | Some p \<Rightarrow> on_backend_error (bind_prog (http_review_queue_page wb p) (answer 200 [])) (\<lambda>_. not_found))"

definition archive_list_route :: "'s web \<Rightarrow> 's handler" where
  "archive_list_route wb meth param qs body =
    bind_prog (need_sum (page_number wb qs)) (\<lambda>page. case page of
      None \<Rightarrow> not_found
    | Some p \<Rightarrow>
        (let values = get_values qs; reason = first_value ''reason'' values;
             older_text = first_value ''older_days'' values;
             older_days = (case older_text of None \<Rightarrow> None | Some t \<Rightarrow> map_of RETENTION_DAYS t) in
         if older_text \<noteq> None \<and> older_days = None then error_answer 400 [] ''Invalid Archive Filter''
         else on_backend_error (bind_prog (enforcement_index_page wb p True reason older_days) (answer 200 []))
           (\<lambda>_. not_found)))"

definition cases_list_route :: "'s web \<Rightarrow> 's handler" where
  "cases_list_route wb meth param qs body =
    bind_prog (need_sum (page_number wb qs)) (\<lambda>page. case page of
      None \<Rightarrow> not_found
    | Some p \<Rightarrow> on_backend_error (bind_prog (enforcement_index_page wb p False None None) (answer 200 []))
        (\<lambda>_. not_found))"

text \<open>A request in a \<open>try\<close> of its own, and what follows it.\<close>

definition with_answer ::
  "(json_object, 's) http_prog \<Rightarrow> (json_object \<Rightarrow> (response, 's) http_prog) \<Rightarrow> (response, 's) http_prog" where
  "with_answer m f h = (case m h of
      (Inl e, h') \<Rightarrow> (case backend_code e of Some code \<Rightarrow> backend_error_answer code h' | None \<Rightarrow> (Inl e, h'))
    | (Inr item, h') \<Rightarrow> f item h')"

text \<open>A write: the request to the backend, then a redirection.\<close>

definition decide_and_redirect :: "'s web \<Rightarrow> string \<Rightarrow> json_object \<Rightarrow> string \<Rightarrow> (response, 's) http_prog" where
  "decide_and_redirect wb meth params location =
    with_answer (request wb meth params) (\<lambda>_. redirect location)"

definition posted_form ::
  "blob \<Rightarrow> ((ustring \<times> ustring) list \<Rightarrow> (response, 's) http_prog) \<Rightarrow> (response, 's) http_prog" where
  "posted_form body action =
    bind_prog (csrf_form body) (\<lambda>form. case form of None \<Rightarrow> bad_token | Some values \<Rightarrow> action values)"

definition dispatch_review :: "'s web \<Rightarrow> 's handler" where
  "dispatch_review wb meth raw_review_id qs body = (case py_int (wb_digits wb) raw_review_id of
      None \<Rightarrow> not_found
    | Some review_id \<Rightarrow>
        if is_get meth then on_backend_error (show_review wb review_id) backend_error_answer
        else if \<not> is_post meth then not_allowed ''GET, POST''
        else posted_form body (\<lambda>values.
          let action = first_or ''action'' [] values in
          if action = ustr ''spam'' then error_answer 400 [] ''Confirmation Required''
          else decide_and_redirect wb ''reviews.decide''
            [(ustr ''review_id'', JInt review_id), (ustr ''action'', JStr action)] ''/review''))"

definition dispatch_enforcement :: "'s web \<Rightarrow> 's handler" where
  "dispatch_enforcement wb meth path qs body =
    (let sender_key = after_last 47 path in
     if \<not> is_sender_key sender_key then error_answer 404 [] ''Active Case Not Found''
     else if is_get meth then on_backend_error (show_enforcement wb sender_key) backend_error_answer
     else if \<not> is_post meth then not_allowed ''GET, POST''
     else posted_form body (\<lambda>values.
       decide_and_redirect wb ''cases.decide''
         [(ustr ''sender_key'', JStr sender_key), (ustr ''action'', JStr (first_or ''action'' [] values))] ''/cases''))"

definition dispatch_legacy_release :: "'s web \<Rightarrow> 's handler" where
  "dispatch_legacy_release wb meth param qs body =
    (if \<not> is_post meth then not_allowed ''POST''
     else posted_form body (\<lambda>values.
       let user_id_text = first_or ''user_id'' [] values in
       if \<not> decimal_text user_id_text then error_answer 400 [] ''Invalid Telegram User ID''
       else bind_prog (need_sum (decimal_value wb user_id_text)) (\<lambda>user_id.
         if user_id \<le> 0 \<or> user_id > 2 ^ 63 - 1 then error_answer 400 [] ''Invalid Telegram User ID''
         else decide_and_redirect wb ''cases.release_legacy'' [(ustr ''user_id'', JInt user_id)] ''/cases'')))"

definition confirm :: "'s web \<Rightarrow> confirmation \<Rightarrow> (response, 's) http_prog" where
  "confirm wb p = bind_prog (render wb (\<lambda>v csrf. confirmation_page (vw_checked_at v) csrf p)) (answer 200 [])"

definition forget_confirmation :: "ustring \<Rightarrow> confirmation" where
  "forget_confirmation sender_key =
    \<lparr>cf_nav = ''archive'', cf_title = ustr ''Release and Forget This Archived Restriction?'',
     cf_body = ustr ''This removes all local policy, evidence, identity, snapshot, and history ''
       @ ustr ''data. It does not restore, move, unmute, or delete the Telegram ''
       @ ustr ''conversation. A future message will be handled as an unknown sender.'',
     cf_action = ustr ''/cases/'' @ sender_key @ ustr ''/forget'', cf_button = ''Release and Forget'',
     cf_tone = ''block'', cf_cancel_href = ustr ''/cases/archive'', cf_page_title = ''Forget Restriction'',
     cf_hidden = [], cf_warning = Some ''Destructive Local Action'', cf_disabled = False\<rparr>"

text \<open>A field of an answer that is absent counts as \<open>None\<close>.\<close>

definition is_none :: "json_object \<Rightarrow> string \<Rightarrow> bool" where
  "is_none item name \<longleftrightarrow> get_or item name JNull = JNull"

definition dispatch_forget_confirmation :: "'s web \<Rightarrow> 's handler" where
  "dispatch_forget_confirmation wb meth sender_key qs body =
    (if \<not> is_sender_key sender_key then error_answer 404 [] ''Archived Restriction Not Found''
     else if is_get meth then
       with_answer (request wb ''cases.detail'' [(ustr ''sender_key'', JStr sender_key)]) (\<lambda>item.
         if is_none item ''archived_at'' \<or> \<not> is_none item ''suppressed_until''
         then backend_error_answer ''case_not_archived''
         else confirm wb (forget_confirmation sender_key))
     else if \<not> is_post meth then not_allowed ''GET, POST''
     else posted_form body (\<lambda>_.
       decide_and_redirect wb ''cases.decide''
         [(ustr ''sender_key'', JStr sender_key), (ustr ''action'', JStr (ustr ''forget''))] ''/cases/archive''))"

definition spam_confirmation :: "ustring \<Rightarrow> int \<Rightarrow> confirmation" where
  "spam_confirmation who review_id =
    \<lparr>cf_nav = ''reviews'', cf_title = ustr ''Suppress '' @ who @ ustr '' and Delete the Conversation?'',
     cf_body = ustr ''This permanently suppresses the sender and deletes the whole Telegram ''
       @ ustr ''conversation for both sides. Gatekeeper archives and mutes the dialog ''
       @ ustr ''first if needed, then runs the deletion immediately, including in ''
       @ ustr ''Monitor mode. Every pending review for this sender is resolved as spam. ''
       @ ustr ''Deleted messages cannot be recovered; allowing the sender later only '' @ ustr ''lifts the restriction.'',
     cf_action = ustr ''/review/'' @ show_int review_id @ ustr ''/spam'', cf_button = ''Suppress and Delete'',
     cf_tone = ''block'', cf_cancel_href = ustr ''/review/'' @ show_int review_id, cf_page_title = ''Suppress and Delete'',
     cf_hidden = [], cf_warning = Some ''Irreversible Telegram Action'', cf_disabled = False\<rparr>"

definition spam_identity :: "json_object \<Rightarrow> ustring" where
  "spam_identity item = (case identity_from_value (get_or item ''identity'' JNull) of
      None \<Rightarrow> ustr ''this sender''
    | Some i \<Rightarrow> with_username (case li_name i of None \<Rightarrow> ustr ''ID '' @ li_user_id i
        | Some name \<Rightarrow> if name = [] then ustr ''ID '' @ li_user_id i else name) i)"

definition dispatch_spam_confirmation :: "'s web \<Rightarrow> 's handler" where
  "dispatch_spam_confirmation wb meth raw_review_id qs body =
    (if \<not> decimal_text raw_review_id then not_found
     else bind_prog (need_sum (decimal_value wb raw_review_id)) (\<lambda>review_id.
       if is_get meth then
         with_answer (request wb ''reviews.detail'' [(ustr ''review_id'', JInt review_id)]) (\<lambda>item.
           confirm wb (spam_confirmation (spam_identity item) review_id))
       else if \<not> is_post meth then not_allowed ''GET, POST''
       else posted_form body (\<lambda>_.
         decide_and_redirect wb ''reviews.decide''
           [(ustr ''review_id'', JInt review_id), (ustr ''action'', JStr (ustr ''spam''))] ''/review'')))"

definition archive_confirmation :: "ustring \<Rightarrow> confirmation" where
  "archive_confirmation sender_key =
    \<lparr>cf_nav = ''cases'', cf_title = ustr ''Keep This Restriction and Move It to the Archive?'',
     cf_body = ustr ''The permanent suppression remains in force. The sender will remain ''
       @ ustr ''blocked by local policy, while its reviewable evidence keeps the existing ''
       @ ustr ''expiry. You can move the restriction back to Needs Attention later.'',
     cf_action = ustr ''/cases/'' @ sender_key @ ustr ''/archive'', cf_button = ''Keep and Archive'',
     cf_tone = ''primary'', cf_cancel_href = ustr ''/cases/'' @ sender_key, cf_page_title = ''Archive Restriction'',
     cf_hidden = [], cf_warning = None, cf_disabled = False\<rparr>"

definition dispatch_archive_confirmation :: "'s web \<Rightarrow> 's handler" where
  "dispatch_archive_confirmation wb meth sender_key qs body =
    (if \<not> is_sender_key sender_key then error_answer 404 [] ''Active Case Not Found''
     else if is_get meth then
       with_answer (request wb ''cases.detail'' [(ustr ''sender_key'', JStr sender_key)]) (\<lambda>item.
         if get_or item ''status'' JNull \<noteq> JStr (ustr ''suppressed'') \<or> \<not> is_none item ''suppressed_until''
            \<or> \<not> is_none item ''archived_at''
         then backend_error_answer ''case_not_found''
         else confirm wb (archive_confirmation sender_key))
     else if \<not> is_post meth then not_allowed ''GET, POST''
     else posted_form body (\<lambda>_.
       decide_and_redirect wb ''cases.decide''
         [(ustr ''sender_key'', JStr sender_key), (ustr ''action'', JStr (ustr ''keep''))] ''/cases/archive''))"

definition bulk_forget_confirmation :: "int \<Rightarrow> int \<Rightarrow> confirmation" where
  "bulk_forget_confirmation n days =
    \<lparr>cf_nav = ''archive'', cf_title = ustr ''Release and Forget '' @ show_int n @ ustr '' Archived ''
       @ ustr ''Restriction'' @ plural n @ ustr ''?'',
     cf_body = ustr ''Only permanent restrictions archived for at least '' @ show_int days @ ustr '' days and with ''
       @ ustr ''no pending or failed work are eligible. Telegram conversations are not '' @ ustr ''changed.'',
     cf_action = ustr ''/cases/archive/forget'', cf_button = ''Confirm Bulk Forget'', cf_tone = ''block'',
     cf_cancel_href = ustr ''/cases/archive'', cf_page_title = ''Bulk Forget'',
     cf_hidden = [(''days'', show_int days)], cf_warning = Some ''Destructive Local Action'', cf_disabled = (n = 0)\<rparr>"

definition dispatch_bulk_forget :: "'s web \<Rightarrow> 's handler" where
  "dispatch_bulk_forget wb meth param qs body =
    bind_prog (need_sum (if is_get meth then Inr (get_values qs) else posted False body)) (\<lambda>source.
    case map_of RETENTION_DAYS (first_or ''days'' [] source) of
      None \<Rightarrow> error_answer 400 [] ''Invalid Retention Age''
    | Some days \<Rightarrow>
        if is_get meth then
          bind_prog (request wb ''cases.forget_preview'' [(ustr ''days'', JInt days)]) (\<lambda>result.
          bind_prog (get_run (\<lambda>h. int_from (wb_view wb (ht_rendered h)) result ''count'')) (\<lambda>r.
          bind_prog (need_sum r) (\<lambda>n. confirm wb (bulk_forget_confirmation n days))))
        else if \<not> is_post meth then not_allowed ''GET, POST''
        else bind_prog (check_csrf (first_or ''token'' [] source)) (\<lambda>ok.
          if \<not> ok then bad_token
          else bind_prog (request wb ''cases.forget_bulk'' [(ustr ''days'', JInt days)]) (\<lambda>_.
            redirect ''/cases/archive'')))"

subsection \<open>Routes\<close>

definition exact :: "string \<Rightarrow> ustring \<Rightarrow> ustring option" where
  "exact expected path = (if path = ustr expected then Some [] else None)"

definition prefixed :: "string \<Rightarrow> ustring \<Rightarrow> ustring option" where
  "prefixed p path = (if starts_with path (ustr p) then Some (removeprefix path (ustr p)) else None)"

definition between :: "string \<Rightarrow> string \<Rightarrow> ustring \<Rightarrow> ustring option" where
  "between p q path =
    (if starts_with path (ustr p) \<and> ends_with path (ustr q)
     then Some (removesuffix (removeprefix path (ustr p)) (ustr q)) else None)"

definition asset :: "ustring \<Rightarrow> ustring option" where
  "asset path = (if path \<in> ASSETS then Some (removeprefix path [47]) else None)"

text \<open>A route: how it matches, its handler, and whether it is for \<open>GET\<close> only.\<close>

definition ROUTES :: "'s web \<Rightarrow> ((ustring \<Rightarrow> ustring option) \<times> 's handler \<times> bool) list" where
  "ROUTES wb =
    [(asset, serve_asset wb, False),
     (exact ''/dashboard/status'', page_status wb, False),
     (exact ''/'', overview_route wb, True),
     (exact ''/review'', review_list_route wb, True),
     (exact ''/cases/archive'', archive_list_route wb, True),
     (exact ''/cases/archive/forget'', dispatch_bulk_forget wb, False),
     (between ''/cases/'' ''/archive'', dispatch_archive_confirmation wb, False),
     (between ''/cases/'' ''/forget'', dispatch_forget_confirmation wb, False),
     (exact ''/cases'', cases_list_route wb, True),
     (exact ''/cases/release'', dispatch_legacy_release wb, False),
     (prefixed ''/cases/'', dispatch_enforcement wb, False),
     (between ''/review/'' ''/spam'', dispatch_spam_confirmation wb, False),
     (prefixed ''/review/'', dispatch_review wb, False)]"

fun first_route ::
  "((ustring \<Rightarrow> ustring option) \<times> 's handler \<times> bool) list \<Rightarrow> ustring \<Rightarrow> ustring \<Rightarrow> ('s handler \<times> ustring) option" where
  "first_route [] meth path = None"
| "first_route ((matches, handler, get_only) # routes) meth path =
    (if get_only \<and> \<not> is_get meth then first_route routes meth path
     else case matches path of
       Some param \<Rightarrow> Some (handler, param) | None \<Rightarrow> first_route routes meth path)"

definition dispatch_routes :: "'s web \<Rightarrow> ustring \<Rightarrow> ustring \<Rightarrow> blob \<Rightarrow> (response, 's) http_prog" where
  "dispatch_routes wb meth target body =
    bind_prog (need ''ValueError'' (urlsplit (wb_unicode wb) target)) (\<lambda>parsed.
    case first_route (ROUTES wb) meth (url_path parsed) of
      None \<Rightarrow> not_found
    | Some (handler, param) \<Rightarrow> handler meth param (url_query parsed) body)"

subsection \<open>The authentication gate\<close>

type_synonym request_headers = "(ustring \<times> ustring) list"

definition header :: "request_headers \<Rightarrow> string \<Rightarrow> ustring" where
  "header hs name = (case map_of hs (ustr name) of Some v \<Rightarrow> v | None \<Rightarrow> [])"

definition login :: "'s web \<Rightarrow> ustring \<Rightarrow> (response, 's) http_prog" where
  "login wb qs =
    bind_prog creds (\<lambda>c.
    bind_prog (need_sum (accepts_login (first_or ''token'' [] (get_values qs)) c)) (\<lambda>accepted.
    if \<not> accepted then error_answer 400 [] ''Invalid Access Token''
    else
      bind_prog monotonic_time (\<lambda>now.
      then_prog (set_creds (start_session (wb_tokens wb) now))
      (then_prog (notify AuthenticatedActivity)
      (then_prog (with_token_file write_access_token)
      (bind_prog creds (\<lambda>c.
       answer 303 [(''Location'', [47] @ capability_token c @ [47]), (''Set-Cookie'', session_cookie_header c)] []))))))) "

definition logout :: "'s web \<Rightarrow> ustring \<Rightarrow> blob \<Rightarrow> (response, 's) http_prog" where
  "logout wb meth body =
    (if \<not> is_post meth then answer 405 [(''Allow'', ustr ''POST'')] []
     else case posted True body of
       Inl _ \<Rightarrow> bad_token
     | Inr values \<Rightarrow>
         bind_prog (check_csrf (first_or ''token'' [] values)) (\<lambda>ok.
         if \<not> ok then bad_token
         else bind_prog creds (\<lambda>c.
           then_prog (with_token_file (invalidate_session (wb_tokens wb)))
           (then_prog (notify LogoutScheduled)
             (answer 303 [(''Location'', ustr ''/logged-out''), (''Set-Cookie'', expired_session_cookie_header c)] [])))))"

text \<open>\<open>has_valid_session\<close>, which reads the clock.\<close>

definition valid_session :: "'s web \<Rightarrow> request_headers \<Rightarrow> (bool, 's) http_prog" where
  "valid_session wb hs =
    bind_prog monotonic_time (\<lambda>now.
    bind_prog creds (\<lambda>c.
    need_sum (has_valid_session (wb_cookies wb) (header hs ''cookie'') now c)))"

definition authorized :: "'s web \<Rightarrow> ustring \<Rightarrow> request_headers \<Rightarrow> (ustring option, 's) http_prog" where
  "authorized wb path hs =
    bind_prog creds (\<lambda>c.
    bind_prog (need_sum (logical_path path c)) (\<lambda>found.
    case found of
      None \<Rightarrow> ret None
    | Some logical \<Rightarrow> bind_prog (valid_session wb hs) (\<lambda>ok. ret (if ok then Some logical else None))))"

definition serve_authorized ::
  "'s web \<Rightarrow> ustring \<Rightarrow> split_url \<Rightarrow> ustring \<Rightarrow> blob \<Rightarrow> (response, 's) http_prog" where
  "serve_authorized wb meth parsed logical body =
    bind_prog (dispatch_routes wb meth (urlunsplit (wb_netloc_scheme wb) (parsed\<lparr>url_path := logical\<rparr>)) body)
      (\<lambda>(code, hs, bytes).
    then_prog
      (if code < 400 then
         bind_prog monotonic_time (\<lambda>now. then_prog (set_creds (record_activity now)) (notify AuthenticatedActivity))
       else ret ())
      (bind_prog creds (\<lambda>c. answer code (capability_headers hs c) (capability_html bytes hs c))))"

definition local_host :: "ustring \<Rightarrow> bool" where
  "local_host host \<longleftrightarrow> starts_with host (ustr ''127.0.0.1:'') \<or> starts_with host (ustr ''localhost:'')"

definition dispatch ::
  "'s web \<Rightarrow> ustring \<Rightarrow> ustring \<Rightarrow> blob \<Rightarrow> request_headers option \<Rightarrow> (response, 's) http_prog" where
  "dispatch wb meth target body request_headers =
    bind_prog (need ''ValueError'' (urlsplit (wb_unicode wb) target)) (\<lambda>parsed.
    case request_headers of
      None \<Rightarrow> dispatch_routes wb meth target body
    | Some hs \<Rightarrow>
        if \<not> local_host (header hs ''host'') then error_answer 400 [] ''Invalid Host''
        else if url_path parsed = ustr ''/dashboard-error.css'' then dispatch_routes wb meth target body
        else if url_path parsed = ustr ''/logged-out'' then
          (if \<not> is_get meth then answer 405 [(''Allow'', ustr ''GET'')] []
           else error_answer 200 [] ''Dashboard Signed Out'')
        else if url_path parsed = ustr ''/login'' then login wb (url_query parsed)
        else
          bind_prog (authorized wb (url_path parsed) hs) (\<lambda>found. case found of
            None \<Rightarrow> error_answer 404 [] ''Dashboard Access Missing''
          | Some logical \<Rightarrow>
              if logical = ustr ''/logout'' then logout wb meth body
              else serve_authorized wb meth parsed logical body))"

subsection \<open>Connections\<close>

definition CRLF :: ustring where "CRLF = [13, 10]"

text \<open>\<open>readuntil(b"\r\n\r\n")\<close> with the stream's default limit of 64 KiB, on everything the peer sends before
  it closes or the time for reading is over. \<open>None\<close>: the terminator is not there (an
  \<open>IncompleteReadError\<close> or a \<open>TimeoutError\<close>); \<open>Some None\<close>: a \<open>LimitOverrunError\<close>.\<close>

definition STREAM_LIMIT :: nat where "STREAM_LIMIT = 65536"

definition read_header :: "nat list \<Rightarrow> nat list option option" where
  "read_header received = (case find_sub received (CRLF @ CRLF) of
      None \<Rightarrow> if STREAM_LIMIT + 3 < length received then Some None else None
    | Some i \<Rightarrow> if STREAM_LIMIT < i then Some None else Some (Some (take (i + 4) received)))"

text \<open>\<open>split\<close> at every occurrence of a separator of two characters.\<close>

fun split_crlf :: "ustring \<Rightarrow> ustring \<Rightarrow> ustring list" where
  "split_crlf [] acc = [rev acc]"
| "split_crlf [c] acc = [rev (c # acc)]"
| "split_crlf (c # d # cs) acc =
    (if [c, d] = CRLF then rev acc # split_crlf cs [] else split_crlf (d # cs) (c # acc))"

fun header_fields :: "unicode \<Rightarrow> ustring list \<Rightarrow> request_headers \<Rightarrow> exn + request_headers" where
  "header_fields u [] hs = Inr hs"
| "header_fields u (line # lines) hs =
    (if line = [] then header_fields u lines hs
     else if 58 \<notin> set line then Inl ''ValueError''
     else header_fields u lines (AList.update (casefold u (before_first 58 line)) (strip (after_first 58 line)) hs))"

type_synonym http_request = "ustring \<times> ustring \<times> blob \<times> request_headers"

definition read_request :: "unicode \<Rightarrow> (nat \<Rightarrow> nat option) \<Rightarrow> blob \<Rightarrow> exn + http_request" where
  "read_request u nd received = (case read_header (map unat received) of
      None \<Rightarrow> Inl ''IncompleteReadError''
    | Some None \<Rightarrow> Inl ''LimitOverrunError''
    | Some (Some head) \<Rightarrow>
        if MAX_HEADER_BYTES < length head then Inl ''ValueError''
        else
          (let lines = split_crlf head []; parts = split_on 32 (hd lines) [] in
           if length parts \<noteq> 3 \<or> parts ! 2 \<noteq> ustr ''HTTP/1.1'' then Inl ''ValueError''
           else then_sum (header_fields u (tl lines) []) (\<lambda>hs.
             case py_int nd (case map_of hs (ustr ''content-length'') of Some t \<Rightarrow> t | None \<Rightarrow> ustr ''0'') of
               None \<Rightarrow> Inl ''ValueError''
             | Some n \<Rightarrow>
                 if n < 0 \<or> n > MAX_BODY_BYTES then Inl ''ValueError''
                 else (let rest = drop (length head) received in
                   if length rest < nat n then Inl ''IncompleteReadError''
                   else Inr (parts ! 0, parts ! 1, take (nat n) rest, hs)))))"

text \<open>The exceptions answered with status 400; \<open>UnicodeError\<close> and \<open>JSONDecodeError\<close> are \<open>ValueError\<close>s.\<close>

definition BAD_REQUEST :: "exn set" where
  "BAD_REQUEST = {''ValueError'', ''UnicodeDecodeError'', ''UnicodeEncodeError'', ''IncompleteReadError'', ''TimeoutError''}"

definition handle_request :: "'s web \<Rightarrow> blob \<Rightarrow> (response, 's) http_prog" where
  "handle_request wb received h =
    (case bind_prog (need_sum (read_request (wb_unicode wb) (wb_digits wb) received))
            (\<lambda>(meth, target, body, hs). dispatch wb meth target body (Some hs)) h of
       (Inr r, h') \<Rightarrow> (Inr r, h')
     | (Inl e, h') \<Rightarrow>
         (if e \<in> BAD_REQUEST then error_answer 400 [] ''Invalid Request'' h'
          else error_answer 500 [] ''Request Failed'' h'))"

definition REASONS :: "(int \<times> string) list" where
  "REASONS = [(200, ''OK''), (303, ''See Other''), (400, ''Bad Request''), (404, ''Not Found''),
     (405, ''Method Not Allowed''), (409, ''Conflict''), (503, ''Service Unavailable'')]"

definition reason_phrase :: "int \<Rightarrow> string" where
  "reason_phrase code = (case map_of REASONS code of Some t \<Rightarrow> t | None \<Rightarrow> ''Internal Server Error'')"

text \<open>\<open>{**defaults, **headers}\<close>: a header of the answer replaces the default in its place.\<close>

definition response_headers :: "response \<Rightarrow> headers" where
  "response_headers = (\<lambda>(code, hs, body). fold (\<lambda>(k, v) d. AList.update k v d) hs
    [(''Content-Type'', ustr ''text/html; charset=utf-8''),
     (''Content-Length'', show_int (int (length body))),
     (''Connection'', ustr ''close''),
     (''Cache-Control'', ustr ''no-store''),
     (''Content-Security-Policy'',
      ustr ''default-src 'none'; style-src 'self'; script-src 'self'; '' @ ustr ''connect-src 'self'; ''
      @ ustr ''form-action 'self'; base-uri 'none'; frame-ancestors '' @ quoted (ustr ''none'')),
     (''Referrer-Policy'', ustr ''no-referrer''),
     (''X-Content-Type-Options'', ustr ''nosniff'')])"

definition response_head :: "response \<Rightarrow> ustring" where
  "response_head r =
    ustr ''HTTP/1.1 '' @ show_int (fst r) @ ustr '' '' @ ustr (reason_phrase (fst r)) @ CRLF
    @ concat (map (\<lambda>(k, v). ustr k @ ustr '': '' @ v @ CRLF) (response_headers r))"

text \<open>What is sent to the peer, if the head can be written in ASCII.\<close>

definition encode_answer :: "response \<Rightarrow> exn + nat list" where
  "encode_answer r =
    (if list_all (\<lambda>c. c < 128) (response_head r) then Inr (response_head r @ CRLF @ snd (snd r))
     else Inl ''UnicodeEncodeError'')"

definition http_connection :: "'s web \<Rightarrow> blob \<Rightarrow> (nat list, 's) http_prog" where
  "http_connection wb received =
    bind_prog (handle_request wb received) (\<lambda>r. need_sum (encode_answer r))"

end
