(* ===== verification/Http_Gate.thy ===== *)
theory Http_Gate
  imports Http
begin

text \<open>
  What reaches the backend through the HTTP server. \<open>reached b C s s'\<close>: the backend \<open>b\<close> came from \<open>s\<close> to
  \<open>s'\<close> by calls that satisfy \<open>C\<close> only. The locale \<open>http_contract\<close> is the contract between the routes and
  the backend: a relation on the server's states that the permitted calls keep is kept by every
  handler.
\<close>

definition reached :: "'s backend \<Rightarrow> (ustring \<Rightarrow> json_object \<Rightarrow> bool) \<Rightarrow> 's \<Rightarrow> 's \<Rightarrow> bool" where
  "reached b C = (\<lambda>s s'. \<exists>meth params. C meth params \<and> s' = snd (b meth params s))\<^sup>*\<^sup>*"

lemma reached_refl: "reached b C s s"
  by (simp add: reached_def)

lemma reached_call: "C meth params \<Longrightarrow> reached b C s (snd (b meth params s))"
  unfolding reached_def by (rule r_into_rtranclp) blast

lemma reached_trans: "reached b C s t \<Longrightarrow> reached b C t u \<Longrightarrow> reached b C s u"
  unfolding reached_def by (rule rtranclp_trans)

lemma reached_mono: "reached b C s t \<Longrightarrow> (\<And>meth params. C meth params \<Longrightarrow> D meth params) \<Longrightarrow> reached b D s t"
  unfolding reached_def by (erule predicate2D [OF rtranclp_mono, rotated]) blast

locale http_contract = run_relation R for R :: "'s http \<Rightarrow> 's http \<Rightarrow> bool" +
  fixes wb :: "'s web" and token :: ustring and C :: "ustring \<Rightarrow> json_object \<Rightarrow> bool"
  assumes call: "C (ustr meth) params \<Longrightarrow> R h (h\<lparr>ht_state := snd (wb_backend wb (ustr meth) params (ht_state h))\<rparr>)"
    and rendered: "R h (h\<lparr>ht_rendered := n\<rparr>)"
    and other_token: "csrf_token (ht_credentials h) \<noteq> token \<Longrightarrow> R h h'"
    and reads: "m \<in> READ_ONLY_METHODS \<Longrightarrow> C m params"
begin

lemma rel_request: "C (ustr meth) params \<Longrightarrow> stays R (request wb meth params)"
  by (auto simp: stays_def request_def split_beta call)

lemma rel_read: "ustr meth \<in> READ_ONLY_METHODS \<Longrightarrow> stays R (request wb meth params)"
  by (intro rel_request reads)

lemma rel_render: "stays R (render wb f)"
  unfolding render_def by (intro run_control) (simp add: stays_def put_run_def rendered)

lemma rel_catch:
  assumes "stays R m" and "\<And>code. stays R (f code)"
  shows "stays R (on_backend_error m f)"
  unfolding stays_def
proof
  fix h
  obtain r h' where m: "m h = (r, h')" by fastforce
  with assms(1) have "R h h'" using staysD [of R m h] by simp
  with assms(2) m show "R h (snd (on_backend_error m f h))"
    by (cases r) (auto simp: on_backend_error_def intro: R_trans staysD split: option.split)
qed

lemma rel_answer: "stays R (answer code hs body)" "stays R (error_answer code hs title)" "stays R not_found"
  "stays R bad_token" "stays R (not_allowed allowed)" "stays R (redirect location)"
  "stays R (backend_error_answer e)"
  unfolding not_found_def bad_token_def not_allowed_def redirect_def backend_error_answer_def split_beta Let_def
    error_answer_def answer_def by (intro run_control)+

lemma rel_with_answer:
  assumes "stays R m" and "\<And>item. stays R (f item)"
  shows "stays R (with_answer m f)"
  unfolding stays_def
proof
  fix h
  obtain r h' where m: "m h = (r, h')" by fastforce
  with assms(1) have R: "R h h'" using staysD [of R m h] by simp
  have "R h (snd (backend_error_answer code h'))" "R h (snd (f item h'))" for code item
    using R_trans [OF R] staysD [of R "backend_error_answer code" h'] staysD [of R "f item" h'] rel_answer(7) assms(2)
    by auto
  with R m show "R h (snd (with_answer m f h))"
    by (cases r) (auto simp: with_answer_def split: option.split)
qed

lemma rel_csrf:
  assumes "t = token \<Longrightarrow> stays R (f True)" and "stays R (f False)"
  shows "stays R (bind_prog (check_csrf t) f)"
  unfolding stays_def
proof
  fix h
  show "R h (snd (bind_prog (check_csrf t) f h))"
  proof (cases "csrf_token (ht_credentials h) = token")
    case True
    show ?thesis
    proof (cases "accepts_csrf t (ht_credentials h)")
      case (Inr ok)
      then have "ok \<Longrightarrow> t = token" using True by (auto simp: accepts_csrf_def compare_digest_def split: if_splits)
      then have "stays R (f ok)" using assms by (cases ok) simp_all
      moreover have "bind_prog (check_csrf t) f h = f ok h"
        using Inr by (simp add: check_csrf_def creds_def get_run_def bind_prog_def need_sum_def ret_def)
      ultimately show ?thesis using staysD by simp
    qed (simp add: check_csrf_def creds_def get_run_def bind_prog_def need_sum_def raise_exn_def R_refl)
  qed (rule other_token)
qed

lemma rel_posted:
  assumes "\<And>values. posted True body = Inr values \<Longrightarrow> first_or ''token'' [] values = token \<Longrightarrow> stays R (f values)"
  shows "stays R (posted_form body f)"
proof (cases "posted True body")
  case (Inl e)
  then show ?thesis by (simp add: posted_form_def csrf_form_def need_sum_def run_raise)
next
  case (Inr form)
  have "posted_form body f = bind_prog (check_csrf (first_or ''token'' [] form))
      (\<lambda>ok. case if ok then Some form else None of None \<Rightarrow> bad_token | Some vs \<Rightarrow> f vs)"
    by (simp add: posted_form_def csrf_form_def Inr need_sum_def bind_assoc)
  then show ?thesis by (simp only:) (rule rel_csrf; simp add: assms [OF Inr] rel_answer)
qed

lemma rel_decide: "C (ustr meth) params \<Longrightarrow> stays R (decide_and_redirect wb meth params location)"
  unfolding decide_and_redirect_def by (intro rel_with_answer rel_request rel_answer)

lemmas rel_rules = run_control rel_answer rel_render rel_read rel_catch rel_with_answer rel_posted rel_csrf rel_decide

subsection \<open>The handlers\<close>

lemma rel_status: "stays R (page_status wb meth param qs body)" "stays R (serve_asset wb meth param qs body)"
  unfolding page_status_def serve_asset_def Let_def
  by (intro rel_rules; simp add: READ_ONLY_METHODS_def)+

lemma rel_version: "stays R (backend_page_version wb target)"
  unfolding backend_page_version_def by (intro rel_rules) (simp add: READ_ONLY_METHODS_def)

lemma rel_pages:
  "stays R (enforcement_index_page wb page archived reason older_days)"
  "stays R (show_enforcement wb k)" "stays R (show_review wb i)" "stays R (dashboard_page wb)"
  "stays R (http_review_queue_page wb page)"
  unfolding enforcement_index_page_def show_enforcement_def show_review_def dashboard_page_def
    http_review_queue_page_def
  by (intro rel_rules rel_version; simp add: READ_ONLY_METHODS_def)+

lemma rel_confirm: "stays R (confirm wb p)"
  unfolding confirm_def by (intro rel_rules)

lemma rel_lists:
  "stays R (overview_route wb meth param qs body)" "stays R (review_list_route wb meth param qs body)"
  "stays R (archive_list_route wb meth param qs body)" "stays R (cases_list_route wb meth param qs body)"
  unfolding overview_route_def review_list_route_def archive_list_route_def cases_list_route_def Let_def
  by (intro rel_rules rel_pages)+

end

text \<open>A posted form with the CSRF token.\<close>

definition form_with_token :: "ustring \<Rightarrow> ustring \<Rightarrow> blob \<Rightarrow> bool" where
  "form_with_token token meth body \<longleftrightarrow> meth = ustr ''POST''
     \<and> (\<exists>strict values. posted strict body = Inr values \<and> first_or ''token'' [] values = token)"

text \<open>The calls a request may lead to: reading ones, and with the CSRF token also deciding ones.\<close>

definition permitted :: "ustring \<Rightarrow> ustring \<Rightarrow> blob \<Rightarrow> ustring \<Rightarrow> json_object \<Rightarrow> bool" where
  "permitted token meth body m params \<longleftrightarrow>
     m \<in> READ_ONLY_METHODS \<or> m \<in> WRITE_METHODS \<and> form_with_token token meth body"

definition http_rel :: "'s web \<Rightarrow> ustring \<Rightarrow> ustring \<Rightarrow> blob \<Rightarrow> 's http \<Rightarrow> 's http \<Rightarrow> bool" where
  "http_rel wb token meth body h h' \<longleftrightarrow> (csrf_token (ht_credentials h) = token \<longrightarrow>
     ht_credentials h' = ht_credentials h
     \<and> reached (wb_backend wb) (permitted token meth body) (ht_state h) (ht_state h'))"

interpretation gate: http_contract "http_rel wb token meth body" wb token "permitted token meth body"
  for wb :: "'s web" and token meth body
proof
  show "http_rel wb token meth body h h" for h :: "'s http"
    by (simp add: http_rel_def reached_refl)
  show "http_rel wb token meth body a c" if "http_rel wb token meth body a b" "http_rel wb token meth body b c"
    for a b c :: "'s http"
    using that by (auto simp: http_rel_def intro: reached_trans)
qed (auto simp: http_rel_def reached_refl reached_call permitted_def)

lemma gate_write:
  "ustr m \<in> WRITE_METHODS \<Longrightarrow> form_with_token token meth body \<Longrightarrow>
   stays (http_rel wb token meth body) (decide_and_redirect wb m params location)"
  by (intro gate.rel_decide) (simp add: permitted_def)

lemma gate_posted:
  assumes "\<And>values. form_with_token token meth body \<Longrightarrow> stays (http_rel wb token meth body) (f values)"
    and "is_post meth"
  shows "stays (http_rel wb token meth body) (posted_form body f)"
  using assms by (intro gate.rel_posted) (auto simp: form_with_token_def)

lemmas gate_rules = gate.run_control gate.rel_answer gate.rel_read gate.rel_catch gate.rel_with_answer
  gate.rel_pages gate.rel_confirm gate.rel_lists gate.rel_status

lemma gate_dispatch:
  "stays (http_rel wb token meth body) (dispatch_review wb meth param qs body)"
  "stays (http_rel wb token meth body) (dispatch_enforcement wb meth param qs body)"
  "stays (http_rel wb token meth body) (dispatch_legacy_release wb meth param qs body)"
  "stays (http_rel wb token meth body) (dispatch_forget_confirmation wb meth param qs body)"
  "stays (http_rel wb token meth body) (dispatch_spam_confirmation wb meth param qs body)"
  "stays (http_rel wb token meth body) (dispatch_archive_confirmation wb meth param qs body)"
  unfolding dispatch_review_def dispatch_enforcement_def dispatch_legacy_release_def
    dispatch_forget_confirmation_def dispatch_spam_confirmation_def dispatch_archive_confirmation_def Let_def
  by (intro gate_rules gate_posted gate_write; simp add: READ_ONLY_METHODS_def WRITE_METHODS_def)+

lemma gate_bulk_forget: "stays (http_rel wb token meth body) (dispatch_bulk_forget wb meth param qs body)"
proof -
  have form: "form_with_token token meth body"
    if "\<not> is_get meth" "is_post meth" "(if is_get meth then Inr (get_values qs) else posted False body) = Inr form"
      "first_or ''token'' [] form = token" for form
    using that unfolding form_with_token_def by auto
  show ?thesis
  proof (cases "if is_get meth then Inr (get_values qs) else posted False body")
    case (Inl e)
    then show ?thesis unfolding dispatch_bulk_forget_def by (simp add: need_sum_def gate.run_raise)
  next
    case (Inr source)
    have ok: "need_sum (Inr source) = ret source" by (simp add: need_sum_def)
    have read: "stays (http_rel wb token meth body)
        (bind_prog (request wb ''cases.forget_preview'' [(ustr ''days'', JInt days)]) (\<lambda>result.
         bind_prog (get_run (\<lambda>h. int_from (wb_view wb (ht_rendered h)) result ''count'')) (\<lambda>r.
         bind_prog (need_sum r) (\<lambda>n. confirm wb (bulk_forget_confirmation n days)))))" for days
      by (intro gate_rules) (simp add: READ_ONLY_METHODS_def)
    have erase: "stays (http_rel wb token meth body)
        (bind_prog (check_csrf (first_or ''token'' [] source)) (\<lambda>ok. if \<not> ok then bad_token
         else bind_prog (request wb ''cases.forget_bulk'' [(ustr ''days'', JInt days)]) (\<lambda>_. redirect ''/cases/archive'')))"
      if "\<not> is_get meth" "is_post meth" for days
    proof (rule gate.rel_csrf)
      assume "first_or ''token'' [] source = token"
      from form [OF that Inr this] show "stays (http_rel wb token meth body) (if \<not> True then bad_token
         else bind_prog (request wb ''cases.forget_bulk'' [(ustr ''days'', JInt days)]) (\<lambda>_. redirect ''/cases/archive''))"
        by (auto intro!: gate.run_bind gate.rel_request gate.rel_answer simp: permitted_def WRITE_METHODS_def)
    qed (simp add: gate.rel_answer)
    show ?thesis
      unfolding dispatch_bulk_forget_def Inr ok bind_ret
      by (intro gate.run_case_option gate.run_if gate.rel_answer read erase) simp_all
  qed
qed

lemma gate_route:
  assumes "(matches, handler, get_only) \<in> set (ROUTES wb)"
  shows "stays (http_rel wb token meth body) (handler meth param qs body)"
  using assms unfolding ROUTES_def
  by (auto intro: gate.rel_status gate.rel_lists gate_dispatch gate_bulk_forget)

lemma first_route_member:
  "first_route routes meth path = Some (handler, param) \<Longrightarrow> \<exists>matches get_only. (matches, handler, get_only) \<in> set routes"
  by (induction routes meth path rule: first_route.induct) (auto split: if_splits option.splits)

lemma gate_routes: "stays (http_rel wb token meth body) (dispatch_routes wb meth target body)"
  unfolding dispatch_routes_def
  by (intro gate.run_bind gate.run_need gate.run_case_option gate.rel_answer gate.run_case_prod)
    (blast dest: first_route_member intro: gate_route)

subsection \<open>The gate\<close>

definition same_state :: "'s http \<Rightarrow> 's http \<Rightarrow> bool" where
  "same_state h h' \<longleftrightarrow> ht_state h' = ht_state h"

interpretation same: run_relation same_state
  by unfold_locales (simp_all add: same_state_def)

lemma same_effects: "stays same_state creds" "stays same_state (set_creds f)" "stays same_state monotonic_time"
  "stays same_state (notify n)" "stays same_state (with_token_file g)"
  by (simp_all add: stays_def same_state_def creds_def get_run_def set_creds_def put_run_def monotonic_time_def
      bind_prog_def then_prog_def ret_def notify_def with_token_file_def split_beta Let_def)

lemma same_answers: "stays same_state (answer code hs body)" "stays same_state (error_answer code hs title)"
  "stays same_state bad_token" "stays same_state (check_csrf t)"
  unfolding bad_token_def error_answer_def answer_def check_csrf_def by (intro same.run_control same_effects)+

lemma same_login: "stays same_state (login wb qs)"
  unfolding login_def by (intro same.run_control same_effects same_answers)

lemma same_logout: "stays same_state (logout wb meth body)"
  unfolding logout_def by (intro same.run_control same_effects same_answers)

definition authenticated :: "'s web \<Rightarrow> 's http \<Rightarrow> ustring \<Rightarrow> request_headers \<Rightarrow> bool" where
  "authenticated wb h path hs \<longleftrightarrow>
     (\<exists>logical. logical_path path (ht_credentials h) = Inr (Some logical))
     \<and> has_valid_session (wb_cookies wb) (header hs ''cookie'') (ht_monotonic h (ht_readings h)) (ht_credentials h)
         = Inr True"

lemma authorized_result:
  assumes "authorized wb path hs h = (Inr (Some logical), h')"
  shows "authenticated wb h path hs \<and> ht_state h' = ht_state h \<and> ht_credentials h' = ht_credentials h"
  using assms
  by (auto simp: authorized_def creds_def get_run_def bind_prog_def need_sum_def valid_session_def monotonic_time_def
      then_prog_def put_run_def ret_def raise_exn_def authenticated_def split: sum.splits option.splits if_splits)

lemma same_authorized: "stays same_state (authorized wb path hs)"
  unfolding authorized_def valid_session_def by (intro same.run_control same_effects)

lemma served_state:
  "reached (wb_backend wb) (permitted (csrf_token (ht_credentials h)) meth body) (ht_state h)
     (ht_state (snd (serve_authorized wb meth parsed logical body h)))"
proof -
  let ?routes = "dispatch_routes wb meth (urlunsplit (wb_netloc_scheme wb) (parsed\<lparr>url_path := logical\<rparr>)) body"
  obtain r h1 where run: "?routes h = (r, h1)" by fastforce
  have "stays (http_rel wb (csrf_token (ht_credentials h)) meth body) ?routes" by (rule gate_routes)
  from staysD [OF this, of h] run
  have reached: "reached (wb_backend wb) (permitted (csrf_token (ht_credentials h)) meth body) (ht_state h) (ht_state h1)"
    by (metis http_rel_def snd_conv)
  have "stays same_state (then_prog (if code < (400::int) then bind_prog monotonic_time
      (\<lambda>now. then_prog (set_creds (record_activity now)) (notify AuthenticatedActivity)) else ret ())
      (bind_prog creds (\<lambda>c. answer code (capability_headers hs c) (capability_html bytes hs c))))" for code hs bytes
    by (intro same.run_control same_effects same_answers)
  then have "ht_state (snd (serve_authorized wb meth parsed logical body h)) = ht_state h1"
    unfolding serve_authorized_def by (cases r) (auto simp: bind_prog_def [of ?routes] run stays_def same_state_def)
  with reached show ?thesis by simp
qed

text \<open>Only the style sheet of the error pages is served before the gate.\<close>

lemma style_sheet_state:
  assumes "urlsplit (wb_unicode wb) target = Some parsed" and "url_path parsed = ustr ''/dashboard-error.css''"
  shows "ht_state (snd (dispatch_routes wb meth target body h)) = ht_state h"
proof -
  have "first_route (ROUTES wb) meth (url_path parsed) = Some (serve_asset wb, ustr ''dashboard-error.css'')"
    unfolding ROUTES_def assms(2) by (simp add: asset_def ASSETS_def removeprefix_def starts_with_def ustr_def)
  then have "dispatch_routes wb meth target body = serve_asset wb meth (ustr ''dashboard-error.css'') (url_query parsed) body"
    by (simp add: dispatch_routes_def need_def assms(1))
  moreover have "stays same_state (serve_asset wb meth (ustr ''dashboard-error.css'') (url_query parsed) body)"
    unfolding serve_asset_def by (intro same.run_control same_answers)
  ultimately show ?thesis by (simp add: stays_def same_state_def)
qed

lemma dispatch_state:
  "ht_state (snd (dispatch wb meth target body (Some hs) h)) = ht_state h
   \<or> (\<exists>parsed. urlsplit (wb_unicode wb) target = Some parsed \<and> local_host (header hs ''host'')
        \<and> authenticated wb h (url_path parsed) hs
        \<and> reached (wb_backend wb) (permitted (csrf_token (ht_credentials h)) meth body) (ht_state h)
            (ht_state (snd (dispatch wb meth target body (Some hs) h))))"
proof (cases "urlsplit (wb_unicode wb) target")
  case None
  then show ?thesis by (simp add: dispatch_def need_def raise_exn_def)
next
  case (Some parsed)
  let ?gate = "bind_prog (authorized wb (url_path parsed) hs) (\<lambda>found. case found of
            None \<Rightarrow> error_answer 404 [] ''Dashboard Access Missing''
          | Some logical \<Rightarrow> if logical = ustr ''/logout'' then logout wb meth body
              else serve_authorized wb meth parsed logical body)"
  have quiet: "ht_state (snd (m h)) = ht_state h" if "stays same_state m" for m :: "(response, 'a) http_prog" and h
    using that by (simp add: stays_def same_state_def)
  show ?thesis
  proof (cases "local_host (header hs ''host'') \<and> url_path parsed \<noteq> ustr ''/dashboard-error.css''
      \<and> url_path parsed \<noteq> ustr ''/logged-out'' \<and> url_path parsed \<noteq> ustr ''/login''")
    case False
    then have "ht_state (snd (dispatch wb meth target body (Some hs) h)) = ht_state h"
      by (auto simp: dispatch_def need_def Some quiet [OF same_answers(1)] quiet [OF same_answers(2)]
          quiet [OF same_login] style_sheet_state [OF Some])
    then show ?thesis ..
  next
    case True
    then have run: "dispatch wb meth target body (Some hs) h = ?gate h" by (simp add: dispatch_def need_def Some)
    obtain r h1 where auth: "authorized wb (url_path parsed) hs h = (r, h1)" by fastforce
    have "same_state h (snd (authorized wb (url_path parsed) hs h))" by (rule staysD) (rule same_authorized)
    then have same1: "ht_state h1 = ht_state h" by (simp add: auth same_state_def)
    show ?thesis
    proof (cases "\<exists>logical. r = Inr (Some logical) \<and> logical \<noteq> ustr ''/logout''")
      case False
      then have "ht_state (snd (?gate h)) = ht_state h"
        using same1 by (cases r) (auto simp: bind_prog_def [of "authorized _ _ _"] auth quiet [OF same_answers(2)]
            quiet [OF same_logout] split: option.split)
      with run show ?thesis by simp
    next
      case True
      then obtain logical where r: "r = Inr (Some logical)" "logical \<noteq> ustr ''/logout''" by blast
      note ok = authorized_result [OF auth [unfolded r(1)]]
      have "?gate h = serve_authorized wb meth parsed logical body h1"
        using r by (simp add: bind_prog_def [of "authorized _ _ _"] auth)
      with served_state [of wb h1 meth body parsed logical] ok
      have "reached (wb_backend wb) (permitted (csrf_token (ht_credentials h)) meth body) (ht_state h)
          (ht_state (snd (?gate h)))" by simp
      with run ok Some \<open>local_host _ \<and> _\<close> show ?thesis by auto
    qed
  qed
qed

text \<open>Nothing reaches the backend but through the gate. Whatever bytes arrive on a connection, either
  the backend is not called at all, or they are a request to a local address, under the capability of
  the running session and with its unexpired cookie, and the backend is called for reading methods
  only, or also for deciding ones if the request is a \<open>POST\<close> whose form carries the CSRF token.\<close>

lemma connection_reached:
  "ht_state (snd (http_connection wb received h)) = ht_state h
   \<or> (\<exists>meth target body hs parsed.
        read_request (wb_unicode wb) (wb_digits wb) received = Inr (meth, target, body, hs)
        \<and> urlsplit (wb_unicode wb) target = Some parsed \<and> local_host (header hs ''host'')
        \<and> authenticated wb h (url_path parsed) hs
        \<and> reached (wb_backend wb) (permitted (csrf_token (ht_credentials h)) meth body) (ht_state h)
            (ht_state (snd (http_connection wb received h))))"
proof -
  have errors: "ht_state (snd (error_answer code hs title h)) = ht_state h" for code hs title and h :: "'a http"
  proof -
    have "same_state h (snd (error_answer code hs title h))" by (rule staysD) (rule same_answers)
    then show ?thesis by (simp add: same_state_def)
  qed
  have final: "ht_state (snd (http_connection wb received h)) = ht_state (snd (handle_request wb received h))"
    unfolding http_connection_def by (auto simp: bind_prog_def need_sum_def ret_def raise_exn_def split: prod.split sum.split)
  show ?thesis
  proof (cases "read_request (wb_unicode wb) (wb_digits wb) received")
    case (Inl e)
    then have "ht_state (snd (handle_request wb received h)) = ht_state h"
      by (simp add: handle_request_def need_sum_def raise_exn_def errors)
    with final show ?thesis by simp
  next
    case (Inr request)
    obtain meth target body hs where request: "request = (meth, target, body, hs)" by (cases request) auto
    have "ht_state (snd (handle_request wb received h)) = ht_state (snd (dispatch wb meth target body (Some hs) h))"
      unfolding handle_request_def Inr request by (auto simp: need_sum_def errors split: prod.split sum.split)
    with dispatch_state [of wb meth target body hs h] Inr request final show ?thesis by (metis (no_types, lifting))
  qed
qed

end
