(* ===== verification/Http_Answers.thy ===== *)
theory Http_Answers
  imports Http_Gate
begin

text \<open>
  The server answers everything: whatever bytes arrive and whatever the backend and the pages do, the
  connection gets one of the known status lines. \<open>safe P m\<close>: with tokens in ASCII, \<open>m\<close> keeps them so, and
  what it returns satisfies \<open>P\<close>.
\<close>

abbreviation ascii :: "ustring \<Rightarrow> bool" where
  "ascii t \<equiv> list_all (\<lambda>c. c < 128) t"

definition ascii_credentials :: "credentials \<Rightarrow> bool" where
  "ascii_credentials c \<longleftrightarrow> ascii (capability_token c) \<and> (case session_token c of None \<Rightarrow> True | Some t \<Rightarrow> ascii t)"

definition STATUS_CODES :: "int set" where
  "STATUS_CODES = {200, 303, 400, 404, 405, 409, 500, 503}"

definition plain_response :: "response \<Rightarrow> bool" where
  "plain_response = (\<lambda>(code, hs, body). code \<in> STATUS_CODES \<and> list_all (\<lambda>(k, v). ascii (ustr k) \<and> ascii v) hs)"

definition safe :: "('a \<Rightarrow> bool) \<Rightarrow> ('a, 's) http_prog \<Rightarrow> bool" where
  "safe P m \<longleftrightarrow> (\<forall>h. ascii_credentials (ht_credentials h) \<longrightarrow>
     ascii_credentials (ht_credentials (snd (m h))) \<and> (case fst (m h) of Inl e \<Rightarrow> True | Inr x \<Rightarrow> P x))"

abbreviation always :: "('a, 's) http_prog \<Rightarrow> bool" where
  "always \<equiv> safe (\<lambda>_. True)"

abbreviation plain :: "(response, 's) http_prog \<Rightarrow> bool" where
  "plain \<equiv> safe plain_response"

lemma safe_ret: "P x \<Longrightarrow> safe P (ret x)"
  by (simp add: safe_def ret_def)

lemma safe_raise: "safe P (raise_exn e)"
  by (simp add: safe_def raise_exn_def)

lemma safe_bind:
  fixes m :: "('a, 's) http_prog"
  assumes "safe Q m" and "\<And>x. Q x \<Longrightarrow> safe P (f x)"
  shows "safe P (bind_prog m f)"
  unfolding safe_def
proof (intro allI impI)
  fix h :: "'s http" assume h: "ascii_credentials (ht_credentials h)"
  obtain r h' where m: "m h = (r, h')" by fastforce
  with assms(1) h have "ascii_credentials (ht_credentials h')" "case r of Inl e \<Rightarrow> True | Inr x \<Rightarrow> Q x"
    unfolding safe_def by force+
  with assms(2) m show "ascii_credentials (ht_credentials (snd (bind_prog m f h)))
      \<and> (case fst (bind_prog m f h) of Inl e \<Rightarrow> True | Inr x \<Rightarrow> P x)"
    by (cases r) (auto simp: bind_prog_def safe_def)
qed

lemma safe_after: "always m \<Longrightarrow> (\<And>x. safe P (f x)) \<Longrightarrow> safe P (bind_prog m f)"
  by (rule safe_bind)

lemma safe_then: "always m \<Longrightarrow> safe P n \<Longrightarrow> safe P (then_prog m n)"
  unfolding then_prog_def by (rule safe_after)

lemma safe_if: "(b \<Longrightarrow> safe P m) \<Longrightarrow> (\<not> b \<Longrightarrow> safe P n) \<Longrightarrow> safe P (if b then m else n)"
  by simp

lemma safe_option:
  "(x = None \<Longrightarrow> safe P m) \<Longrightarrow> (\<And>y. x = Some y \<Longrightarrow> safe P (f y)) \<Longrightarrow> safe P (case x of None \<Rightarrow> m | Some y \<Rightarrow> f y)"
  by (cases x) auto

lemma safe_prod: "(\<And>a b. x = (a, b) \<Longrightarrow> safe P (f a b)) \<Longrightarrow> safe P (case x of (a, b) \<Rightarrow> f a b)"
  by (cases x) auto

lemma safe_sum:
  "(\<And>a. x = Inl a \<Longrightarrow> safe P (f a)) \<Longrightarrow> (\<And>b. x = Inr b \<Longrightarrow> safe P (g b)) \<Longrightarrow> safe P (case x of Inl a \<Rightarrow> f a | Inr b \<Rightarrow> g b)"
  by (cases x) auto

lemma always_need: "always (need e x)" "always (need_sum y)"
  by (simp_all add: need_def need_sum_def safe_ret safe_raise split: option.split sum.split)

lemma always_effects: "always (get_run f)" "always creds" "always monotonic_time" "always (notify n)"
  "always (request wb meth params)" "always (render wb g)"
  by (simp_all add: safe_def get_run_def creds_def monotonic_time_def bind_prog_def put_run_def then_prog_def ret_def
      notify_def request_def split_beta Let_def render_def need_sum_def raise_exn_def split: sum.split)

lemma safe_catch:
  fixes m :: "('a, 's) http_prog"
  assumes "safe P m" and "\<And>code. safe P (f code)"
  shows "safe P (on_backend_error m f)"
  unfolding safe_def
proof (intro allI impI)
  fix h :: "'s http" assume h: "ascii_credentials (ht_credentials h)"
  obtain r h' where m: "m h = (r, h')" by fastforce
  with assms(1) h have "ascii_credentials (ht_credentials h')" "case r of Inl e \<Rightarrow> True | Inr x \<Rightarrow> P x"
    unfolding safe_def by force+
  with assms(2) m show "ascii_credentials (ht_credentials (snd (on_backend_error m f h)))
      \<and> (case fst (on_backend_error m f h) of Inl e \<Rightarrow> True | Inr x \<Rightarrow> P x)"
    by (cases r) (auto simp: on_backend_error_def safe_def split: option.split)
qed

subsection \<open>Answers\<close>

lemma plain_answer: "code \<in> STATUS_CODES \<Longrightarrow> list_all (\<lambda>(k, v). ascii (ustr k) \<and> ascii v) hs \<Longrightarrow> plain (answer code hs body)"
  by (simp add: answer_def safe_ret plain_response_def)

lemma plain_error: "code \<in> STATUS_CODES \<Longrightarrow> list_all (\<lambda>(k, v). ascii (ustr k) \<and> ascii v) hs \<Longrightarrow> plain (error_answer code hs title)"
  unfolding error_answer_def by (intro safe_after always_need plain_answer)

lemma plain_constants: "plain not_found" "plain bad_token" "plain (not_allowed ''GET, POST'')" "plain (not_allowed ''POST'')"
  "plain (redirect ''/review'')" "plain (redirect ''/cases'')" "plain (redirect ''/cases/archive'')"
  unfolding not_found_def bad_token_def not_allowed_def redirect_def
  by (intro plain_error plain_answer; simp add: STATUS_CODES_def ustr_def)+

lemma backend_codes: "(code, st, title) \<in> set BACKEND_ERRORS \<Longrightarrow> st \<in> STATUS_CODES"
  by (auto simp: BACKEND_ERRORS_def STATUS_CODES_def)

lemma plain_backend_error: "plain (backend_error_answer code)"
  unfolding backend_error_answer_def Let_def
  by (cases "map_of BACKEND_ERRORS code")
    (auto intro!: plain_error safe_prod dest!: map_of_SomeD backend_codes simp: STATUS_CODES_def)

lemma plain_with_answer:
  fixes wb :: "'s web"
  assumes "\<And>item. plain (f item)"
  shows "plain (with_answer (request wb meth params) f)"
  unfolding safe_def
proof (intro allI impI)
  fix h :: "'s http" assume h: "ascii_credentials (ht_credentials h)"
  obtain r h' where m: "request wb meth params h = (r, h')" by fastforce
  with always_effects(5) [of wb meth params] h have "ascii_credentials (ht_credentials h')"
    unfolding safe_def by force
  with assms plain_backend_error m show "ascii_credentials (ht_credentials (snd (with_answer (request wb meth params) f h)))
      \<and> (case fst (with_answer (request wb meth params) f h) of Inl e \<Rightarrow> True | Inr x \<Rightarrow> plain_response x)"
    by (cases r) (auto simp: with_answer_def safe_def split: option.split)
qed

lemma plain_200 [simp]: "plain (answer 200 [] body)"
  by (rule plain_answer) (simp_all add: STATUS_CODES_def)

lemma plain_400: "plain (error_answer 400 [] title)" "plain (error_answer 404 [] title)"
  "plain (error_answer 409 [] title)"
  by (rule plain_error; simp add: STATUS_CODES_def)+

lemma plain_on_error: "plain m \<Longrightarrow> (\<And>code. plain (f code)) \<Longrightarrow> plain (on_backend_error m f)"
  by (rule safe_catch)

lemma plain_assets: "plain (serve_asset wb meth param qs body)"
  unfolding serve_asset_def
  by (intro safe_if safe_after always_need plain_answer) (simp_all add: STATUS_CODES_def ustr_def)

lemma plain_status: "plain (page_status wb meth param qs body)"
  unfolding page_status_def Let_def
  by (intro safe_if plain_on_error safe_after always_effects plain_answer)
    (simp_all add: STATUS_CODES_def ustr_def JSON_TYPE_def)

lemma always_check: "always (check_csrf t)" "always (csrf_form body)"
  unfolding check_csrf_def csrf_form_def by (intro safe_after always_need always_effects safe_ret TrueI)+

lemma plain_posted: "(\<And>values. plain (f values)) \<Longrightarrow> plain (posted_form body f)"
  unfolding posted_form_def by (intro safe_after always_check safe_option plain_constants)

lemma plain_confirm: "plain (confirm wb p)"
  unfolding confirm_def by (intro safe_after always_effects plain_200)

lemma plain_decide:
  "plain (decide_and_redirect wb meth params ''/review'')" "plain (decide_and_redirect wb meth params ''/cases'')"
  "plain (decide_and_redirect wb meth params ''/cases/archive'')"
  unfolding decide_and_redirect_def by (intro plain_with_answer plain_constants)+

lemma always_version: "always (backend_page_version wb target)"
  unfolding backend_page_version_def by (intro safe_after always_effects safe_ret TrueI)

lemmas safe_rules = safe_if safe_option safe_prod safe_after always_need always_effects always_check always_version
  plain_200 plain_400 plain_constants plain_backend_error plain_on_error plain_with_answer plain_posted
  plain_confirm plain_decide

lemma always_pages:
  "always (enforcement_index_page wb page archived reason older_days)" "always (dashboard_page wb)"
  "always (http_review_queue_page wb page)"
  unfolding enforcement_index_page_def dashboard_page_def http_review_queue_page_def by (intro safe_rules)+

lemma plain_details: "plain (show_enforcement wb k)" "plain (show_review wb i)"
  unfolding show_enforcement_def show_review_def by (intro safe_rules)+

lemma plain_lists:
  "plain (overview_route wb meth param qs body)" "plain (review_list_route wb meth param qs body)"
  "plain (archive_list_route wb meth param qs body)" "plain (cases_list_route wb meth param qs body)"
  unfolding overview_route_def review_list_route_def archive_list_route_def cases_list_route_def Let_def
  by (intro safe_rules always_pages)+

lemma plain_dispatch:
  "plain (dispatch_review wb meth param qs body)" "plain (dispatch_enforcement wb meth param qs body)"
  "plain (dispatch_legacy_release wb meth param qs body)" "plain (dispatch_forget_confirmation wb meth param qs body)"
  "plain (dispatch_spam_confirmation wb meth param qs body)" "plain (dispatch_archive_confirmation wb meth param qs body)"
  "plain (dispatch_bulk_forget wb meth param qs body)"
  unfolding dispatch_review_def dispatch_enforcement_def dispatch_legacy_release_def
    dispatch_forget_confirmation_def dispatch_spam_confirmation_def dispatch_archive_confirmation_def
    dispatch_bulk_forget_def Let_def
  by (intro safe_rules plain_details)+

lemma plain_route:
  assumes "(matches, handler, get_only) \<in> set (ROUTES wb)"
  shows "plain (handler meth param qs body)"
  using assms unfolding ROUTES_def by (auto intro: plain_assets plain_status plain_lists plain_dispatch)

lemma plain_routes: "plain (dispatch_routes wb meth target body)"
  unfolding dispatch_routes_def
  by (intro safe_after always_need safe_option plain_constants safe_prod)
    (blast dest: first_route_member intro: plain_route)

subsection \<open>Sessions\<close>

lemma safe_creds: "safe ascii_credentials creds"
  by (simp add: safe_def creds_def get_run_def)

lemma always_set:
  "(\<And>c. ascii_credentials c \<Longrightarrow> ascii_credentials (f c)) \<Longrightarrow> always (set_creds f)"
  by (simp add: safe_def set_creds_def put_run_def)

lemma always_token_file:
  assumes "\<And>w c. ascii_credentials c \<Longrightarrow> ascii_credentials (snd (f w c))"
  shows "always (with_token_file f)"
  using assms by (auto simp: safe_def with_token_file_def split_beta Let_def split: sum.split)

lemma ascii_sessions:
  assumes "\<And>n. ascii (tok n)" and "ascii_credentials c"
  shows "ascii_credentials (start_session tok now c)" "ascii_credentials (snd (invalidate_session tok w c))"
    "ascii_credentials (snd (write_access_token w c))" "ascii_credentials (record_activity now c)"
  using assms by (simp_all add: ascii_credentials_def start_session_def activate_session_def invalidate_session_def
      write_access_token_def record_activity_def split: option.splits)

lemma ascii_digits: "ascii (show_int i)"
proof -
  have "is_digit c \<Longrightarrow> c < 128" for c by (simp add: is_digit_def)
  then show ?thesis by (auto simp: show_int_def list_all_iff ustr_def dest: show_nat_digits)
qed

lemma ascii_cookies:
  "ascii_credentials c \<Longrightarrow> ascii (session_cookie_header c)"
  "ascii_credentials c \<Longrightarrow> ascii (expired_session_cookie_header c)"
  by (auto simp: ascii_credentials_def session_cookie_header_def expired_session_cookie_header_def ascii_digits
      DASHBOARD_SESSION_COOKIE_def ustr_def split: option.splits)

lemma plain_login:
  assumes "\<And>n. ascii (wb_tokens wb n)"
  shows "plain (login wb qs)"
  unfolding login_def
  by (rule safe_after safe_bind [OF safe_creds] safe_then safe_if always_effects always_need plain_400 always_set
      always_token_file ascii_sessions assms plain_answer | assumption)+
    (auto simp: STATUS_CODES_def ustr_def ascii_cookies ascii_credentials_def)

lemma plain_logout:
  assumes "\<And>n. ascii (wb_tokens wb n)"
  shows "plain (logout wb meth body)"
  unfolding logout_def
  by (rule safe_after safe_bind [OF safe_creds] safe_then safe_if safe_sum always_effects always_check always_token_file
      ascii_sessions assms plain_constants plain_answer | assumption
      | simp add: STATUS_CODES_def ustr_def ascii_cookies; fail)+

lemma ascii_update: "list_all (\<lambda>(k, v). ascii (ustr k) \<and> ascii v) hs \<Longrightarrow> ascii (ustr k) \<Longrightarrow> ascii v
   \<Longrightarrow> list_all (\<lambda>(k, v). ascii (ustr k) \<and> ascii v) (AList.update k v hs)"
  by (induction hs) auto

lemma plain_capability:
  assumes "plain_response (code, hs, body)" and "ascii_credentials c"
  shows "plain_response (code, capability_headers hs c, body')"
proof -
  have "ascii v" if "map_of hs k = Some v" for k v
    using assms(1) map_of_SomeD [OF that] by (auto simp: plain_response_def list_all_iff)
  then show ?thesis using assms
    by (auto simp: capability_headers_def plain_response_def ascii_credentials_def split: option.split
        intro!: ascii_update) (simp add: ustr_def)
qed

lemma plain_serve:
  assumes "\<And>n. ascii (wb_tokens wb n)"
  shows "plain (serve_authorized wb meth parsed logical body)"
  unfolding serve_authorized_def
proof (rule safe_bind [OF plain_routes])
  fix r :: response
  assume r: "plain_response r"
  obtain code hs bytes where parts: "r = (code, hs, bytes)" by (cases r) auto
  have activity: "always (if code < 400 then bind_prog monotonic_time (\<lambda>now.
      then_prog (set_creds (record_activity now)) (notify AuthenticatedActivity)) else ret ())"
    by (intro safe_if safe_after safe_then always_effects always_set safe_ret TrueI ascii_sessions(4) [OF assms])
  have "plain (answer code (capability_headers hs c) (capability_html bytes hs c))" if "ascii_credentials c" for c
    using plain_capability [OF r [unfolded parts] that] by (simp add: answer_def safe_ret)
  with activity show "plain (case r of (code, hs, bytes) \<Rightarrow> then_prog
      (if code < 400 then bind_prog monotonic_time (\<lambda>now.
        then_prog (set_creds (record_activity now)) (notify AuthenticatedActivity)) else ret ())
      (bind_prog creds (\<lambda>c. answer code (capability_headers hs c) (capability_html bytes hs c))))"
    unfolding parts by (auto intro!: safe_then safe_bind [OF safe_creds])
qed

lemma always_authorized: "always (authorized wb path hs)"
  unfolding authorized_def valid_session_def
  by (intro safe_after always_effects always_need safe_option safe_ret TrueI)

lemma plain_gate:
  assumes "\<And>n. ascii (wb_tokens wb n)"
  shows "plain (dispatch wb meth target body hs)"
  unfolding dispatch_def
  by (intro safe_after always_need safe_option plain_routes safe_if plain_400 plain_answer plain_error plain_login
      plain_logout plain_serve always_authorized assms) (simp_all add: STATUS_CODES_def ustr_def)

subsection \<open>Connections\<close>

lemma scalar_ustr: "list_all scalar (ustr t)"
proof -
  have "scalar (of_char c)" for c :: char
  proof -
    have "of_char c mod 256 < (256::nat)" by simp
    then have "of_char c < (256::nat)" by (simp only: of_char_mod_256)
    then show ?thesis unfolding scalar_def surrogate_def by linarith
  qed
  then show ?thesis by (simp add: ustr_def list_all_iff)
qed

lemma scalar_escape: "list_all scalar t \<Longrightarrow> list_all scalar (html_escape t)"
proof (induction t)
  case (Cons c t)
  moreover from Cons.prems have "list_all scalar (html_char c)" by (simp add: html_char_def scalar_ustr)
  ultimately show ?case by (simp add: html_escape_def)
qed (simp add: html_escape_def)

text \<open>Every error page can be encoded.\<close>

lemma error_page: "\<exists>bytes. render_error title = Inr bytes"
proof -
  have "list_all scalar DOT" "scalar 10" by (simp_all add: DOT_def scalar_def surrogate_def)
  then show ?thesis
    unfolding render_error_def encode_page_def document_def masthead_def BRAND_def Let_def
    by (simp add: scalar_ustr scalar_escape)
qed

lemma handled:
  fixes wb :: "'s web"
  assumes tokens: "\<And>n. ascii (wb_tokens wb n)" and creds: "ascii_credentials (ht_credentials h)"
  shows "\<exists>r. fst (handle_request wb received h) = Inr r \<and> plain_response r"
proof -
  have failed: "\<exists>r. fst (error_answer code [] title h') = Inr r \<and> plain_response r"
    if "code \<in> STATUS_CODES" for code title and h' :: "'s http"
    using error_page [of title] that
    by (auto simp: error_answer_def need_sum_def answer_def ret_def plain_response_def)
  let ?run = "bind_prog (need_sum (read_request (wb_unicode wb) (wb_digits wb) received))
    (\<lambda>(meth, target, body, hs). dispatch wb meth target body (Some hs))"
  have "plain ?run" by (intro safe_after always_need safe_prod plain_gate tokens)
  obtain r h' where run: "?run h = (r, h')" by fastforce
  with \<open>plain ?run\<close> creds have "case r of Inl e \<Rightarrow> True | Inr x \<Rightarrow> plain_response x"
    unfolding safe_def by (metis fst_conv)
  then show ?thesis
    unfolding handle_request_def run
    by (cases r) (simp_all add: failed STATUS_CODES_def del: split_paired_Ex)
qed

lemma plain_head:
  assumes "plain_response r"
  shows "list_all (\<lambda>c. c < 128) (response_head r)"
proof -
  obtain code hs body where r: "r = (code, hs, body)" by (cases r) auto
  have phrase: "ascii (ustr (reason_phrase code))"
    by (simp add: reason_phrase_def REASONS_def ustr_def)
  have update: "list_all (\<lambda>(k, v). ascii (ustr k) \<and> ascii v) (fold (\<lambda>(k, v) d. AList.update k v d) hs d)"
    if "list_all (\<lambda>(k, v). ascii (ustr k) \<and> ascii v) d" for d
    using that assms unfolding r plain_response_def
    by (induction hs arbitrary: d) (auto intro: ascii_update)
  have "list_all (\<lambda>(k, v). ascii (ustr k) \<and> ascii v) (response_headers r)"
    unfolding response_headers_def r prod.case
    by (rule update) (simp add: ascii_digits quoted_def APOS_def ustr_def)
  then have "ascii (concat (map (\<lambda>(k, v). ustr k @ ustr '': '' @ v @ CRLF) (response_headers r)))"
    by (auto simp: list_all_iff CRLF_def ustr_def)
  with phrase show ?thesis
    by (simp add: response_head_def r ascii_digits CRLF_def) (simp add: ustr_def)
qed

text \<open>C23. Every connection is answered. Random tokens being ASCII, as those of \<open>secrets.token_urlsafe\<close> are,
  the server sends a complete HTTP response for any bytes it received, whatever the backend, the
  pages, the token file and the cookie parser do: its status is one of the eight the dashboard uses.\<close>

theorem connection_answered:
  assumes "\<And>n. ascii (wb_tokens wb n)" and "ascii_credentials (ht_credentials h)"
  shows "\<exists>code headers body. code \<in> STATUS_CODES \<and> fst (http_connection wb received h)
    = Inr (ustr ''HTTP/1.1 '' @ show_int code @ ustr '' '' @ ustr (reason_phrase code) @ CRLF @ headers @ CRLF @ body)"
proof -
  from handled [OF assms] obtain r h' where run: "handle_request wb received h = (Inr r, h')" and r: "plain_response r"
    by (metis prod.collapse)
  from r have "fst r \<in> STATUS_CODES" by (auto simp: plain_response_def)
  moreover have "fst (http_connection wb received h) = Inr (response_head r @ CRLF @ snd (snd r))"
    by (simp add: http_connection_def bind_prog_def run encode_answer_def plain_head [OF r] need_sum_def ret_def)
  ultimately show ?thesis unfolding response_head_def by (metis append_assoc)
qed

end
