(* ===== verification/Http_System.thy ===== *)
theory Http_System
  imports Http_Answers Core_System
begin

text \<open>
  The dashboard's server in front of the running core: its backend is \<open>dashboard_service\<close>. What the
  gate, the reading requests and the runs of the core promise together for whole sessions of
  connections.
\<close>

lemma reached_core:
  assumes "reached (dashboard_service bk) C c c'"
  shows "(core_step bk op ad)\<^sup>*\<^sup>* c c'"
proof -
  have "(\<lambda>s s'. \<exists>meth params. C meth params \<and> s' = snd (dashboard_service bk meth params s)) \<le> core_step bk op ad"
    by (auto intro: dashboard_request)
  from rtranclp_mono [OF this] assms show ?thesis unfolding reached_def by blast
qed

lemma reached_reading:
  assumes "reached (dashboard_service bk) (\<lambda>meth params. meth \<in> READ_ONLY_METHODS) c c'"
  shows "only_read c c'"
  using assms unfolding reached_def
proof (induction rule: rtranclp_induct)
  case base
  show ?case by (rule reads.R_refl)
next
  case (step a b)
  then obtain meth params where "meth \<in> READ_ONLY_METHODS" and b: "b = snd (backend_request bk meth params a)"
    by (auto simp: service_runs)
  then have "only_read a b" using staysD [OF reads.rel_reading_request] by blast
  with step.IH show ?case by (rule reads.R_trans)
qed

lemma permitted_reading:
  "\<not> form_with_token token meth body \<Longrightarrow> permitted token meth body m params \<Longrightarrow> m \<in> READ_ONLY_METHODS"
  by (simp add: permitted_def)

text \<open>C4. Only the signed-in user decides. Whatever bytes a connection brings, the core is at most read from,
  unless they are a \<open>POST\<close> to a local address, under the capability and with the unexpired cookie of the
  running session, whose form carries the CSRF token.\<close>

theorem only_signed_in_user_decides:
  assumes "wb_backend wb = dashboard_service bk"
  shows "only_read (ht_state h) (ht_state (snd (http_connection wb received h)))
   \<or> (\<exists>target body hs parsed.
        read_request (wb_unicode wb) (wb_digits wb) received = Inr (ustr ''POST'', target, body, hs)
        \<and> urlsplit (wb_unicode wb) target = Some parsed \<and> local_host (header hs ''host'')
        \<and> authenticated wb h (url_path parsed) hs
        \<and> form_with_token (csrf_token (ht_credentials h)) (ustr ''POST'') body)"
  using connection_reached [of wb received h]
proof (elim disjE exE conjE)
  assume "ht_state (snd (http_connection wb received h)) = ht_state h"
  then show ?thesis by (simp add: reads.R_refl)
next
  fix meth target body hs parsed
  assume request: "read_request (wb_unicode wb) (wb_digits wb) received = Inr (meth, target, body, hs)"
    "urlsplit (wb_unicode wb) target = Some parsed" "local_host (header hs ''host'')"
    "authenticated wb h (url_path parsed) hs"
    and calls: "reached (wb_backend wb) (permitted (csrf_token (ht_credentials h)) meth body) (ht_state h)
      (ht_state (snd (http_connection wb received h)))"
  show ?thesis
  proof (cases "form_with_token (csrf_token (ht_credentials h)) meth body")
    case True
    then have "meth = ustr ''POST''" by (simp add: form_with_token_def)
    with request True show ?thesis by blast
  next
    case False
    have "reached (dashboard_service bk) (\<lambda>meth params. meth \<in> READ_ONLY_METHODS) (ht_state h)
        (ht_state (snd (http_connection wb received h)))"
      using calls unfolding assms by (rule reached_mono) (rule permitted_reading [OF False])
    then show ?thesis by (blast intro: reached_reading)
  qed
qed

text \<open>A session: connections one after another.\<close>

definition serve :: "'s web \<Rightarrow> blob list \<Rightarrow> 's http \<Rightarrow> 's http" where
  "serve wb requests h = fold (\<lambda>received h. snd (http_connection wb received h)) requests h"

lemma connection_core:
  assumes "wb_backend wb = dashboard_service bk"
  shows "(core_step bk op ad)\<^sup>*\<^sup>* (ht_state h) (ht_state (snd (http_connection wb received h)))"
  using connection_reached [of wb received h] reached_core [of bk] unfolding assms by fastforce

lemma serve_core:
  assumes "wb_backend wb = dashboard_service bk"
  shows "(core_step bk op ad)\<^sup>*\<^sup>* (ht_state h) (ht_state (serve wb requests h))"
proof (induction requests arbitrary: h)
  case (Cons received requests)
  from connection_core [OF assms] Cons.IH [of "snd (http_connection wb received h)"] show ?case
    unfolding serve_def by (simp) (rule rtranclp_trans)
qed (simp add: serve_def)

text \<open>However many connections a session has and whatever they bring, malformed and hostile requests
  included, the core's database stays well-formed and its identity cache bounded.\<close>

theorem dashboard_sessions_keep_core:
  assumes "wb_backend wb = dashboard_service bk" and "patient (ht_state h)" and "wf_store (core_db (ht_state h))"
    and "identities_ok (ht_state h)"
  shows "wf_store (core_db (ht_state (serve wb requests h))) \<and> identities_ok (ht_state (serve wb requests h))"
proof -
  have run: "(core_step bk op ad)\<^sup>*\<^sup>* (ht_state h) (ht_state (serve wb requests h))" for op ad
    by (rule serve_core) (rule assms)
  from core_run_runs [OF run] assms(4) reachable_wf [OF core_run_store [OF run assms(2)] assms(3)]
  show ?thesis by (simp add: core_rel_def)
qed

subsection \<open>A session on a concrete core\<close>

definition demo_view :: view where
  "demo_view = \<lparr>vw_str = (\<lambda>_. []), vw_general = (\<lambda>_. Inl ''TypeError''), vw_float_int = (\<lambda>_. Inr 0),
     vw_digits = (\<lambda>_. None), vw_floats = (\<lambda>t. t), vw_title = (\<lambda>t. t), vw_lower = (\<lambda>t. t),
     vw_timestamp = (\<lambda>_. Inr []), vw_now = 1000, vw_checked_at = []\<rparr>"

definition demo_web :: "core web" where
  "demo_web = \<lparr>wb_backend = dashboard_service demo_backend, wb_tokens = (\<lambda>n. ustr ''token'' @ show_nat n),
     wb_view = (\<lambda>_. demo_view), wb_unicode = demo_unicode, wb_digits = (\<lambda>_. None), wb_cookies = (\<lambda>_. None),
     wb_netloc_scheme = (\<lambda>_. False), wb_asset = (\<lambda>_. None)\<rparr>"

definition demo_http :: "core http" where
  "demo_http = \<lparr>ht_credentials = new_credentials (wb_tokens demo_web), ht_state = demo_core stale_store,
     ht_monotonic = (\<lambda>n. int n), ht_readings = 0, ht_writable = (\<lambda>_. True), ht_writes = 0, ht_rendered = 0,
     ht_notices = []\<rparr>"

lemma demo_http_simps: "wb_backend demo_web = dashboard_service demo_backend"
  "ht_state demo_http = demo_core stale_store"
  by (simp_all add: demo_web_def demo_http_def)

lemma demo_tokens: "ascii (wb_tokens demo_web n)"
  using ascii_digits [of "int n"] by (simp add: demo_web_def show_int_def ustr_def)

text \<open>A request without a head: the answer is not a decision, and it is answered.\<close>

lemma only_signed_in_user_decides_witness:
  "only_read (ht_state demo_http) (ht_state (snd (http_connection demo_web [] demo_http)))"
proof -
  have "read_request (wb_unicode demo_web) (wb_digits demo_web) [] = Inl ''IncompleteReadError''"
    by (simp add: read_request_def read_header_def STREAM_LIMIT_def CRLF_def)
  with only_signed_in_user_decides [OF demo_http_simps(1), of demo_http "[]"] show ?thesis by auto
qed

lemma dashboard_sessions_keep_core_witness:
  "wf_store (core_db (ht_state (serve demo_web [[], [71, 69, 84]] demo_http)))
   \<and> identities_ok (ht_state (serve demo_web [[], [71, 69, 84]] demo_http))"
  by (rule dashboard_sessions_keep_core [OF demo_http_simps(1)])
    (simp_all add: demo_http_simps demo_core_ok stale_store_wf)

lemma connection_answered_witness:
  "\<exists>code headers body. code \<in> STATUS_CODES \<and> fst (http_connection demo_web [] demo_http)
    = Inr (ustr ''HTTP/1.1 '' @ show_int code @ ustr '' '' @ ustr (reason_phrase code) @ CRLF @ headers @ CRLF @ body)"
proof (rule connection_answered [OF demo_tokens])
  show "ascii_credentials (ht_credentials demo_http)"
    using demo_tokens by (simp add: demo_http_def ascii_credentials_def new_credentials_def)
qed

end
