(* ===== verification/Servers.thy ===== *)
theory Servers
  imports Effects
begin

text \<open>
  The Unix sockets of the two servers, \<open>DashboardRpcServer\<close> of \<open>dashboard_rpc.py\<close> in the core and
  \<open>DashboardHttpServer\<close> of \<open>dashboard_http.py\<close> in the sidecar: how \<open>start\<close> makes the socket, what the
  tasks of the connections do to the registries of the server, and what \<open>stop\<close> waits for. What a
  connection answers is the subject of \<open>Rpc\<close> and \<open>Http\<close>.
\<close>

subsection \<open>The socket\<close>

datatype path_kind = Socket | OtherFile

text \<open>What there is at the path of the socket and of its directory.\<close>

record socket_place =
  sp_exists :: bool
  sp_owned :: bool
  sp_mode :: nat
  sp_entry :: "path_kind option"
  sp_socket_mode :: nat

text \<open>\<open>mkdir(parents=True, exist_ok=True, mode=0o700)\<close>: the umask takes bits away.\<close>

definition make_parent :: "nat \<Rightarrow> socket_place \<Rightarrow> socket_place" where
  "make_parent umask p =
    (if sp_exists p then p
     else p\<lparr>sp_exists := True, sp_owned := True, sp_mode := (7 - umask div 64 mod 8) * 64, sp_entry := None\<rparr>)"

text \<open>The checks, the removal of an old socket, and the new one with mode 0600; \<open>fails\<close> is an
  \<open>OSError\<close> of \<open>start_unix_server\<close>.\<close>

definition bind_socket :: "nat \<Rightarrow> bool \<Rightarrow> socket_place \<Rightarrow> (exn + unit) \<times> socket_place" where
  "bind_socket umask fails p =
    (let p' = make_parent umask p in
     if \<not> sp_owned p' \<or> sp_mode p' mod 64 \<noteq> 0 then (Inl ''RuntimeError'', p')
     else if sp_entry p' = Some OtherFile then (Inl ''RuntimeError'', p')
     else if fails then (Inl ''OSError'', p'\<lparr>sp_entry := None\<rparr>)
     else (Inr (), p'\<lparr>sp_entry := Some Socket, sp_socket_mode := 384\<rparr>))"

definition unbind_socket :: "socket_place \<Rightarrow> socket_place" where
  "unbind_socket p = p\<lparr>sp_entry := None\<rparr>"

text \<open>A server that starts listens on a socket that only its owner can reach, and no start removes
  anything but a socket.\<close>

lemma bound_socket_private:
  "bind_socket umask fails p = (Inr (), p') \<Longrightarrow>
    sp_owned p' \<and> sp_mode p' mod 64 = 0 \<and> sp_entry p' = Some Socket \<and> sp_socket_mode p' = 384"
  by (auto simp: bind_socket_def Let_def split: if_splits)

lemma other_file_kept:
  assumes "sp_exists p" and "sp_entry p = Some OtherFile"
  shows "bind_socket umask fails p = (Inl ''RuntimeError'', p)"
  using assms by (simp add: bind_socket_def make_parent_def Let_def)

text \<open>In a new directory the start succeeds whatever the umask is.\<close>

lemma fresh_directory_accepted:
  "\<not> sp_exists p \<Longrightarrow> fst (bind_socket umask False p) = Inr ()"
  by (simp add: bind_socket_def make_parent_def Let_def)

subsection \<open>Connections\<close>

text \<open>A connection task reads its request, or works on it until its answer is written and its writer
  closed.\<close>

datatype connection_phase = Reading | Serving

record connections =
  cn_listening :: bool
  cn_next :: nat
  cn_tasks :: "(nat \<times> connection_phase) list"
  cn_cancelled :: "nat list"

definition listening :: connections where
  "listening = \<lparr>cn_listening = True, cn_next = 0, cn_tasks = [], cn_cancelled = []\<rparr>"

definition connection_opened :: "connections \<Rightarrow> connections" where
  "connection_opened c = c\<lparr>cn_next := Suc (cn_next c), cn_tasks := (cn_next c, Reading) # cn_tasks c\<rparr>"

definition request_taken :: "nat \<Rightarrow> connections \<Rightarrow> connections" where
  "request_taken i c = c\<lparr>cn_tasks := map (\<lambda>(n, ph). (n, if n = i then Serving else ph)) (cn_tasks c)\<rparr>"

definition connection_closed :: "nat \<Rightarrow> connections \<Rightarrow> connections" where
  "connection_closed i c = c\<lparr>cn_tasks := filter (\<lambda>(n, ph). n \<noteq> i) (cn_tasks c)\<rparr>"

text \<open>The first part of \<open>stop\<close>: the web server also cancels the tasks that still read, but not itself.\<close>

definition rpc_stop :: "connections \<Rightarrow> connections" where
  "rpc_stop c = c\<lparr>cn_listening := False\<rparr>"

definition http_stop :: "nat option \<Rightarrow> connections \<Rightarrow> connections" where
  "http_stop current c = (if \<not> cn_listening c then c
     else c\<lparr>cn_listening := False,
       cn_cancelled := map fst (filter (\<lambda>(n, ph). ph = Reading \<and> current \<noteq> Some n) (cn_tasks c)) @ cn_cancelled c\<rparr>)"

text \<open>The second part: every other task has ended. Then the socket is removed.\<close>

definition may_return :: "nat option \<Rightarrow> connections \<Rightarrow> bool" where
  "may_return current c \<longleftrightarrow> \<not> cn_listening c \<and> (\<forall>(n, ph)\<in>set (cn_tasks c). current = Some n)"

inductive connection_step :: "connections \<Rightarrow> connections \<Rightarrow> bool" where
  opens: "cn_listening c \<Longrightarrow> connection_step c (connection_opened c)"
| reads: "(i, Reading) \<in> set (cn_tasks c) \<Longrightarrow> i \<notin> set (cn_cancelled c) \<Longrightarrow> connection_step c (request_taken i c)"
| answers: "(i, Serving) \<in> set (cn_tasks c) \<Longrightarrow> i \<notin> set (cn_cancelled c) \<Longrightarrow> connection_step c (connection_closed i c)"
| cancelled: "i \<in> set (cn_cancelled c) \<Longrightarrow> connection_step c (connection_closed i c)"
| rpc_stops: "connection_step c (rpc_stop c)"
| http_stops: "connection_step c (http_stop current c)"

lemma taken_tasks [simp]:
  "map fst (cn_tasks (request_taken i c)) = map fst (cn_tasks c)" "fst ` set (cn_tasks (request_taken i c)) = fst ` set (cn_tasks c)"
  "cn_cancelled (request_taken i c) = cn_cancelled c" "cn_next (request_taken i c) = cn_next c"
  "cn_listening (request_taken i c) = cn_listening c"
  by (force simp: request_taken_def image_iff)+

lemma in_taken: "(n, ph) \<in> set (cn_tasks (request_taken i c))
    \<longleftrightarrow> (\<exists>q. (n, q) \<in> set (cn_tasks c) \<and> ph = (if n = i then Serving else q))"
  by (force simp: request_taken_def)

definition connections_ok :: "connections \<Rightarrow> bool" where
  "connections_ok c \<longleftrightarrow> distinct (map fst (cn_tasks c)) \<and> (\<forall>(n, ph)\<in>set (cn_tasks c). n < cn_next c)
     \<and> (\<forall>n\<in>set (cn_cancelled c). n < cn_next c \<and> (n, Serving) \<notin> set (cn_tasks c))"

lemma connection_step_ok: "connection_step c c' \<Longrightarrow> connections_ok c \<Longrightarrow> connections_ok c'"
proof (induction rule: connection_step.induct)
  case (opens c)
  then show ?case by (fastforce simp: connections_ok_def connection_opened_def)
next
  case (reads i c)
  then show ?case unfolding connections_ok_def by (auto simp: in_taken split: if_splits)
next
  case (http_stops c current)
  have "(n, Serving) \<notin> set (cn_tasks c)" if "(n, Reading) \<in> set (cn_tasks c)" for n
    using http_stops that eq_key_imp_eq_value [of "cn_tasks c" n Reading Serving] by (auto simp: connections_ok_def)
  with http_stops show ?case by (fastforce simp: connections_ok_def http_stop_def)
qed (auto simp: connections_ok_def connection_closed_def rpc_stop_def distinct_map_filter)

lemma reachable_connections_ok: "connection_step\<^sup>*\<^sup>* listening c \<Longrightarrow> connections_ok c"
proof (induction rule: rtranclp_induct)
  case base
  show ?case by (simp add: connections_ok_def listening_def)
qed (rule connection_step_ok)

text \<open>No stop cuts an answer off: a task that works on its request is never cancelled.\<close>

lemma answers_complete:
  "connection_step\<^sup>*\<^sup>* listening c \<Longrightarrow> (i, Serving) \<in> set (cn_tasks c) \<Longrightarrow> i \<notin> set (cn_cancelled c)"
  by (drule reachable_connections_ok) (auto simp: connections_ok_def)

text \<open>A stopped server takes no connection, and the ones it has come to an end, so that \<open>stop\<close> returns.\<close>

lemma stopped_stays: "connection_step c c' \<Longrightarrow> \<not> cn_listening c \<Longrightarrow>
    \<not> cn_listening c' \<and> fst ` set (cn_tasks c') \<subseteq> fst ` set (cn_tasks c)"
  by (induction rule: connection_step.induct)
    (auto simp: connection_closed_def rpc_stop_def http_stop_def)

lemma one_connection_ends:
  assumes "(i, ph) \<in> set (cn_tasks c)"
  shows "connection_step\<^sup>*\<^sup>* c (connection_closed i c)"
proof (cases "i \<in> set (cn_cancelled c)")
  case True
  then show ?thesis by (intro r_into_rtranclp cancelled)
next
  case False
  have closed: "connection_closed i (request_taken i c) = connection_closed i c"
  proof -
    have "filter (\<lambda>(n, ph). n \<noteq> i) (map (\<lambda>(n, ph). (n, if n = i then Serving else ph)) ts) = filter (\<lambda>(n, ph). n \<noteq> i) ts" for ts
      by (induction ts) auto
    then show ?thesis by (simp add: connection_closed_def request_taken_def)
  qed
  show ?thesis
  proof (cases ph)
    case Reading
    with assms False have "connection_step c (request_taken i c)" by (auto intro: reads)
    moreover have taken: "(i, Serving) \<in> set (cn_tasks (request_taken i c))" using assms by (auto simp: in_taken)
    with False have "connection_step (request_taken i c) (connection_closed i c)"
      using answers [of i "request_taken i c"] closed by simp
    ultimately show ?thesis by (meson converse_rtranclp_into_rtranclp r_into_rtranclp)
  next
    case Serving
    with assms False show ?thesis by (auto intro: answers)
  qed
qed

lemma stop_returns:
  "\<not> cn_listening c \<Longrightarrow> \<exists>c'. connection_step\<^sup>*\<^sup>* c c' \<and> may_return None c'"
proof (induction "length (cn_tasks c)" arbitrary: c rule: less_induct)
  case less
  show ?case
  proof (cases "cn_tasks c")
    case Nil
    with less.prems show ?thesis by (auto simp: may_return_def)
  next
    case (Cons x rest)
    obtain i ph where x: "x = (i, ph)" by (cases x)
    have "length (cn_tasks (connection_closed i c)) < length (cn_tasks c)"
      using Cons x by (simp add: connection_closed_def le_imp_less_Suc)
    moreover have "\<not> cn_listening (connection_closed i c)" using less.prems by (simp add: connection_closed_def)
    ultimately obtain c' where "connection_step\<^sup>*\<^sup>* (connection_closed i c) c'" "may_return None c'"
      using less.hyps by blast
    moreover have "connection_step\<^sup>*\<^sup>* c (connection_closed i c)"
      by (rule one_connection_ends) (use Cons x in auto)
    ultimately show ?thesis by (meson rtranclp_trans)
  qed
qed

end
