(* ===== verification/Sidecar.thy ===== *)
theory Sidecar
  imports Http_System Servers
begin

text \<open>
  \<open>dashboard_main.py\<close>: the sidecar process around the HTTP server. It asks the core once before it
  publishes a login token, hears of authenticated activity and of a logout from the server, and
  stops at a request or when it was idle for \<open>idle_seconds\<close>. Times are readings of the monotonic
  clock in nanoseconds. Of \<open>dashboard_http.py\<close> it holds \<open>start\<close> and \<open>stop\<close>, over the
  socket of \<open>Servers\<close>; the token file is the \<open>published_token\<close> of the credentials.
\<close>

subsection \<open>Starting and stopping the server\<close>

definition server_start :: "nat \<Rightarrow> bool \<Rightarrow> socket_place \<Rightarrow> (socket_place, 's) http_prog" where
  "server_start umask fails p = (case bind_socket umask fails p of
      (Inl e, _) \<Rightarrow> raise_exn e
    | (Inr _, p') \<Rightarrow> then_prog (with_token_file write_access_token) (ret p'))"

definition server_stop :: "socket_place \<Rightarrow> (socket_place, 's) http_prog" where
  "server_stop p = then_prog (set_creds (\<lambda>c. c\<lparr>published_token := None\<rparr>)) (ret (unbind_socket p))"

subsection \<open>The sidecar\<close>

record sidecar =
  sc_idle_seconds :: int
  sc_last_activity :: int
  sc_shutdown :: bool
  sc_reason :: string

definition DEFAULT_IDLE_SECONDS :: int where "DEFAULT_IDLE_SECONDS = 10 * 60"

definition new_sidecar :: "int \<Rightarrow> int \<Rightarrow> exn + sidecar" where
  "new_sidecar idle_seconds now =
    (if idle_seconds \<le> 0 then Inl ''ValueError''
     else Inr \<lparr>sc_idle_seconds = idle_seconds, sc_last_activity = now, sc_shutdown = False, sc_reason = ''stopped''\<rparr>)"

definition note_authenticated_activity :: "int \<Rightarrow> sidecar \<Rightarrow> sidecar" where
  "note_authenticated_activity now s = s\<lparr>sc_last_activity := now\<rparr>"

definition request_shutdown :: "string \<Rightarrow> sidecar \<Rightarrow> sidecar" where
  "request_shutdown reason s = (if sc_shutdown s then s else s\<lparr>sc_reason := reason, sc_shutdown := True\<rparr>)"

fun hear :: "int \<Rightarrow> notice \<Rightarrow> sidecar \<Rightarrow> sidecar" where
  "hear now AuthenticatedActivity s = note_authenticated_activity now s"
| "hear now LogoutScheduled s = request_shutdown ''logout'' s"

definition idle_time :: "int \<Rightarrow> sidecar \<Rightarrow> int" where
  "idle_time now s = now - sc_last_activity s"

text \<open>The head of the loop: \<open>None\<close> leaves it, \<open>Some t\<close> waits for the shutdown until the time \<open>t\<close>.\<close>

definition loop_head :: "int \<Rightarrow> sidecar \<Rightarrow> int option \<times> sidecar" where
  "loop_head now s =
    (if sc_shutdown s then (None, s)
     else (let remaining = sc_idle_seconds s * SECOND - idle_time now s in
       if remaining \<le> 0 then (None, request_shutdown ''idle_timeout'' s)
       else (Some (now + remaining), s)))"

text \<open>The wait is over: the shutdown was requested, or its time is up.\<close>

definition wait_timeout :: "int \<Rightarrow> sidecar \<Rightarrow> int option \<times> sidecar" where
  "wait_timeout now s =
    loop_head now (if idle_time now s \<ge> sc_idle_seconds s * SECOND then request_shutdown ''idle_timeout'' s else s)"

text \<open>The loop with what happens around it: the time, the end of the current wait, and the sidecar. The
  event loop may wake up late; a requested shutdown ends the wait.\<close>

type_synonym waiting = "int \<times> int option \<times> sidecar"

inductive sidecar_step :: "waiting \<Rightarrow> waiting \<Rightarrow> bool" where
  heard: "now \<le> t \<Longrightarrow> sidecar_step (now, Some until, s) (t, Some until, hear t n s)"
| signalled: "now \<le> t \<Longrightarrow> reason \<in> {''sigint'', ''sigterm''} \<Longrightarrow>
    sidecar_step (now, Some until, s) (t, Some until, request_shutdown reason s)"
| woken: "now \<le> t \<Longrightarrow> sc_shutdown s \<Longrightarrow> sidecar_step (now, Some until, s) (t, fst (loop_head t s), snd (loop_head t s))"
| timed_out: "now \<le> t \<Longrightarrow> until \<le> t \<Longrightarrow>
    sidecar_step (now, Some until, s) (t, fst (wait_timeout t s), snd (wait_timeout t s))"

inductive_cases sidecar_stepE: "sidecar_step w w'"

text \<open>Start of the process: the core is asked before the token is published. An unreachable core is the
  \<open>SystemExit\<close> of \<open>_run\<close>.\<close>

definition start_sidecar :: "'s web \<Rightarrow> nat \<Rightarrow> bool \<Rightarrow> socket_place \<Rightarrow> (socket_place, 's) http_prog" where
  "start_sidecar wb umask fails p =
    on_backend_error (bind_prog (request wb ''overview'' []) (\<lambda>_. server_start umask fails p)) (\<lambda>_. raise_exn ''SystemExit'')"

text \<open>A token is published only behind a socket that nobody but the owner can reach, and after the core
  has answered; a start that fails publishes none.\<close>

lemma published_privately:
  assumes "start_sidecar wb umask fails p h = (r, h')"
  shows "case r of
      Inr p' \<Rightarrow> sp_owned p' \<and> sp_mode p' mod 64 = 0 \<and> sp_entry p' = Some Socket \<and> sp_socket_mode p' = 384
        \<and> published_token (ht_credentials h') = Some (access_token (ht_credentials h))
        \<and> (\<exists>answer. fst (request wb ''overview'' [] h) = Inr answer)
    | Inl e \<Rightarrow> published_token (ht_credentials h') = published_token (ht_credentials h)"
proof -
  obtain q h1 where asked: "request wb ''overview'' [] h = (q, h1)" by fastforce
  have creds: "ht_credentials h1 = ht_credentials h" using asked by (auto simp: request_def split_beta)
  show ?thesis
  proof (cases q)
    case (Inl e)
    with assms asked creds show ?thesis
      by (auto simp: start_sidecar_def on_backend_error_def bind_prog_def raise_exn_def split: option.splits)
  next
    case (Inr answer)
    obtain b p' where bound: "bind_socket umask fails p = (b, p')" by fastforce
    obtain t h2 where token: "with_token_file write_access_token h1 = (t, h2)" by fastforce
    then have published: "case t of Inr _ \<Rightarrow> published_token (ht_credentials h2) = Some (access_token (ht_credentials h))
        | Inl e \<Rightarrow> e = ''OSError'' \<and> published_token (ht_credentials h2) = published_token (ht_credentials h)"
      by (auto simp: with_token_file_def write_access_token_def Let_def creds split: if_splits)
    have codes: "backend_code ''OSError'' = None" "backend_code ''RuntimeError'' = None"
      by (simp_all add: backend_code_def starts_with_def)
    have refused: "e = ''OSError'' \<or> e = ''RuntimeError''" if "b = Inl e" for e
      using bound that by (auto simp: bind_socket_def Let_def split: if_splits)
    show ?thesis
      using assms asked Inr bound token published refused bound_socket_private [of umask fails p p'] codes creds
      by (cases b; cases t)
        (auto simp: start_sidecar_def on_backend_error_def bind_prog_def then_prog_def server_start_def raise_exn_def
          ret_def split: option.splits)
  qed
qed

subsection \<open>Idle time\<close>

definition idle_limit :: "sidecar \<Rightarrow> int" where
  "idle_limit s = sc_last_activity s + sc_idle_seconds s * SECOND"

definition sidecar_ok :: "waiting \<Rightarrow> bool" where
  "sidecar_ok = (\<lambda>(now, until, s). sc_last_activity s \<le> now \<and> (case until of
      Some u \<Rightarrow> u \<le> idle_limit s \<and> (sc_shutdown s \<longrightarrow> sc_reason s \<noteq> ''idle_timeout'')
    | None \<Rightarrow> sc_shutdown s \<and> (sc_reason s = ''idle_timeout'' \<longrightarrow> idle_limit s \<le> now)))"

lemma shutdown_fields [simp]:
  "sc_last_activity (request_shutdown r s) = sc_last_activity s"
  "idle_limit (request_shutdown r s) = idle_limit s" "sc_shutdown (request_shutdown r s)"
  by (simp_all add: request_shutdown_def idle_limit_def)

lemma head_ok:
  assumes "sc_last_activity s \<le> now" and "sc_shutdown s \<longrightarrow> sc_reason s = ''idle_timeout'' \<longrightarrow> idle_limit s \<le> now"
  shows "sidecar_ok (now, fst (loop_head now s), snd (loop_head now s))"
  using assms by (auto simp: sidecar_ok_def loop_head_def Let_def idle_time_def idle_limit_def request_shutdown_def)

lemma sidecar_step_ok: "sidecar_step w w' \<Longrightarrow> sidecar_ok w \<Longrightarrow> sidecar_ok w'"
proof (induction rule: sidecar_step.induct)
  case (heard now t until s n)
  then show ?case
    by (cases n) (auto simp: sidecar_ok_def note_authenticated_activity_def idle_limit_def request_shutdown_def)
next
  case (signalled now t reason until s)
  then show ?case by (auto simp: sidecar_ok_def idle_limit_def request_shutdown_def)
next
  case (woken now t s until)
  then show ?case by (intro head_ok) (auto simp: sidecar_ok_def)
next
  case (timed_out now t until s)
  then show ?case unfolding wait_timeout_def
    by (intro head_ok) (auto simp: sidecar_ok_def idle_time_def idle_limit_def request_shutdown_def)
qed

lemma timeout_stops: "idle_limit s \<le> t \<Longrightarrow> fst (wait_timeout t s) = None"
  by (simp add: wait_timeout_def loop_head_def idle_time_def idle_limit_def)

text \<open>C37. The sidecar stops exactly when it was idle long enough or was asked to. From its start, while it
  runs it never waits past the idle limit counted from the last authenticated activity, and the first
  wait that ends at or after the limit stops it. When it has stopped, it was asked to, and the reason
  is the idle timeout only if the last authenticated activity was at least that long ago.\<close>

theorem sidecar_stops_when_idle:
  assumes "new_sidecar idle_seconds start = Inr s0"
    and "sidecar_step\<^sup>*\<^sup>* (start, fst (loop_head start s0), snd (loop_head start s0)) (now, until, s)"
  shows "case until of
      Some u \<Rightarrow> u \<le> idle_limit s \<and> (\<forall>t\<ge>idle_limit s. fst (wait_timeout t s) = None)
    | None \<Rightarrow> sc_shutdown s \<and> (sc_reason s = ''idle_timeout'' \<longrightarrow> idle_limit s \<le> now)"
proof -
  have "sidecar_ok (start, fst (loop_head start s0), snd (loop_head start s0))"
    using assms(1) by (intro head_ok) (auto simp: new_sidecar_def split: if_splits)
  with assms(2) have "sidecar_ok (now, until, s)"
    by (induction rule: rtranclp_induct) (auto intro: sidecar_step_ok)
  then show ?thesis by (auto simp: sidecar_ok_def timeout_stops split: option.splits)
qed

lemma sidecar_stops_when_idle_witness:
  "case fst (wait_timeout (600 * SECOND) \<lparr>sc_idle_seconds = 600, sc_last_activity = 0, sc_shutdown = False,
        sc_reason = ''stopped''\<rparr>) of
      Some u \<Rightarrow> False
    | None \<Rightarrow> sc_shutdown (snd (wait_timeout (600 * SECOND) \<lparr>sc_idle_seconds = 600, sc_last_activity = 0,
        sc_shutdown = False, sc_reason = ''stopped''\<rparr>))"
proof -
  let ?s = "\<lparr>sc_idle_seconds = 600, sc_last_activity = 0, sc_shutdown = False, sc_reason = ''stopped''\<rparr>"
  have start: "loop_head 0 ?s = (Some (600 * SECOND), ?s)"
    by (simp add: loop_head_def idle_time_def SECOND_def)
  have "sidecar_step (0, Some (600 * SECOND), ?s)
      (600 * SECOND, fst (wait_timeout (600 * SECOND) ?s), snd (wait_timeout (600 * SECOND) ?s))"
    by (rule timed_out) (simp_all add: SECOND_def)
  then have run: "sidecar_step\<^sup>*\<^sup>* (0, fst (loop_head 0 ?s), snd (loop_head 0 ?s))
      (600 * SECOND, fst (wait_timeout (600 * SECOND) ?s), snd (wait_timeout (600 * SECOND) ?s))"
    unfolding start by (simp add: r_into_rtranclp)
  have "fst (wait_timeout (600 * SECOND) ?s) = None" by (rule timeout_stops) (simp add: idle_limit_def)
  moreover from sidecar_stops_when_idle [OF _ run, of 600] have "fst (wait_timeout (600 * SECOND) ?s) = None
      \<longrightarrow> sc_shutdown (snd (wait_timeout (600 * SECOND) ?s))"
    by (simp add: new_sidecar_def split: option.splits)
  ultimately show ?thesis by simp
qed

subsection \<open>Strangers\<close>

definition quiet :: "'s http \<Rightarrow> 's http \<Rightarrow> bool" where
  "quiet h h' \<longleftrightarrow> ht_state h' = ht_state h \<and> ht_credentials h' = ht_credentials h \<and> ht_notices h' = ht_notices h"

interpretation quiet: run_relation quiet
  by unfold_locales (simp_all add: quiet_def)

lemma quiet_effects: "stays quiet creds" "stays quiet monotonic_time"
  by (simp_all add: stays_def quiet_def creds_def get_run_def monotonic_time_def bind_prog_def put_run_def
      then_prog_def ret_def)

lemma quiet_answers: "stays quiet (answer code hs body)" "stays quiet (error_answer code hs t)"
  unfolding error_answer_def answer_def by (intro quiet.run_control)+

lemma quiet_authorized: "stays quiet (authorized wb path hs)"
  unfolding authorized_def valid_session_def by (intro quiet.run_control quiet_effects)

text \<open>A request that logs in with the published token, or that comes from the running session.\<close>

definition credible :: "'s web \<Rightarrow> 's http \<Rightarrow> split_url \<Rightarrow> request_headers \<Rightarrow> bool" where
  "credible wb h parsed hs \<longleftrightarrow> local_host (header hs ''host'')
     \<and> (url_path parsed = ustr ''/login''
          \<and> accepts_login (first_or ''token'' [] (get_values (url_query parsed))) (ht_credentials h) = Inr True
        \<or> authenticated wb h (url_path parsed) hs)"

lemma login_refused:
  assumes "accepts_login (first_or ''token'' [] (get_values qs)) (ht_credentials h) \<noteq> Inr True"
  shows "quiet h (snd (login wb qs h))"
proof -
  have error: "quiet h (snd (error_answer 400 [] ''Invalid Access Token'' h))"
    by (rule staysD) (rule quiet_answers)
  show ?thesis
  proof (cases "accepts_login (first_or ''token'' [] (get_values qs)) (ht_credentials h)")
    case (Inl e)
    then show ?thesis
      by (simp add: login_def creds_def get_run_def bind_prog_def need_sum_def raise_exn_def quiet_def)
  next
    case (Inr ok)
    with assms have "\<not> ok" by (cases ok) simp_all
    with Inr have "login wb qs h = error_answer 400 [] ''Invalid Access Token'' h"
      by (simp add: login_def creds_def get_run_def bind_prog_def need_sum_def ret_def)
    with error show ?thesis by simp
  qed
qed

lemma style_sheet_quiet:
  assumes "urlsplit (wb_unicode wb) target = Some parsed" and "url_path parsed = ustr ''/dashboard-error.css''"
  shows "quiet h (snd (dispatch_routes wb meth target body h))"
proof -
  have "first_route (ROUTES wb) meth (url_path parsed) = Some (serve_asset wb, ustr ''dashboard-error.css'')"
    unfolding ROUTES_def assms(2) by (simp add: asset_def ASSETS_def removeprefix_def starts_with_def ustr_def)
  then have "dispatch_routes wb meth target body = serve_asset wb meth (ustr ''dashboard-error.css'') (url_query parsed) body"
    by (simp add: dispatch_routes_def need_def assms(1))
  moreover have "stays quiet (serve_asset wb meth (ustr ''dashboard-error.css'') (url_query parsed) body)"
    unfolding serve_asset_def by (intro quiet.run_control quiet_answers)
  ultimately show ?thesis by (simp add: stays_def)
qed

lemma stranger_dispatch:
  assumes "\<And>parsed. urlsplit (wb_unicode wb) target = Some parsed \<Longrightarrow> \<not> credible wb h parsed hs"
  shows "quiet h (snd (dispatch wb meth target body (Some hs) h))"
proof (cases "urlsplit (wb_unicode wb) target")
  case None
  then show ?thesis by (simp add: dispatch_def need_def raise_exn_def quiet_def)
next
  case (Some parsed)
  have answers: "quiet h (snd (answer code as bytes h))" "quiet h (snd (error_answer code as t h))"
    for code as bytes t
    by (rule staysD, rule quiet_answers)+
  have gate: "quiet h (snd (bind_prog (authorized wb (url_path parsed) hs) (\<lambda>found. case found of
            None \<Rightarrow> error_answer 404 [] ''Dashboard Access Missing''
          | Some logical \<Rightarrow> if logical = ustr ''/logout'' then logout wb meth body
              else serve_authorized wb meth parsed logical body) h))" (is "quiet h (snd (bind_prog ?auth ?rest h))")
    if "\<not> authenticated wb h (url_path parsed) hs"
  proof -
    obtain r h1 where auth: "?auth h = (r, h1)" by fastforce
    have "quiet h (snd (?auth h))" by (rule staysD) (rule quiet_authorized)
    with auth have q: "quiet h h1" by simp
    have "r \<noteq> Inr (Some logical)" for logical using authorized_result [of wb "url_path parsed" hs h logical h1] auth that by auto
    then consider e where "r = Inl e" | "r = Inr None" by (metis option.exhaust sum.exhaust)
    then show ?thesis
    proof cases
      case 2
      have "quiet h1 (snd (error_answer 404 [] ''Dashboard Access Missing'' h1))" by (rule staysD) (rule quiet_answers)
      with 2 q show ?thesis by (simp add: bind_prog_def [of ?auth] auth) (rule quiet.R_trans)
    qed (simp add: bind_prog_def auth q)
  qed
  from assms [OF Some] show ?thesis
    by (auto simp: dispatch_def need_def Some credible_def answers style_sheet_quiet [OF Some] login_refused gate)
qed

text \<open>C5. Strangers change nothing. Whatever bytes a connection brings, unless they are a request to a local
  address that logs in with the published token or comes under the capability and with the unexpired
  cookie of the running session, the core is not even asked, the credentials stay as they are, so that
  no attempt uses the login token up, and the sidecar does not hear of any activity.\<close>

theorem strangers_change_nothing:
  assumes "\<And>meth target body hs parsed. read_request (wb_unicode wb) (wb_digits wb) received = Inr (meth, target, body, hs)
      \<Longrightarrow> urlsplit (wb_unicode wb) target = Some parsed \<Longrightarrow> \<not> credible wb h parsed hs"
  shows "quiet h (snd (http_connection wb received h))"
proof -
  have errors: "quiet h' (snd (error_answer code as t h'))" for code as t and h' :: "'a http"
    by (rule staysD) (rule quiet_answers)
  have final: "snd (http_connection wb received h) = snd (handle_request wb received h)"
    unfolding http_connection_def by (auto simp: bind_prog_def need_sum_def ret_def raise_exn_def split: prod.split sum.split)
  show ?thesis
  proof (cases "read_request (wb_unicode wb) (wb_digits wb) received")
    case (Inl e)
    with final errors show ?thesis by (simp add: handle_request_def need_sum_def raise_exn_def)
  next
    case (Inr request)
    obtain meth target body hs where request: "request = (meth, target, body, hs)" by (cases request) auto
    have quiet: "quiet h (snd (dispatch wb meth target body (Some hs) h))"
      by (rule stranger_dispatch) (rule assms [OF Inr [unfolded request]])
    obtain r h1 where run: "dispatch wb meth target body (Some hs) h = (r, h1)" by fastforce
    with quiet have q: "quiet h h1" by simp
    from run have "snd (handle_request wb received h) = (case r of Inr _ \<Rightarrow> h1
        | Inl e \<Rightarrow> snd (error_answer (if e \<in> BAD_REQUEST then 400 else 500) []
            (if e \<in> BAD_REQUEST then ''Invalid Request'' else ''Request Failed'') h1))"
      unfolding handle_request_def Inr request by (simp add: need_sum_def split: sum.split)
    with final q errors quiet.R_trans [OF q] show ?thesis by (cases r) simp_all
  qed
qed

text \<open>A request for the dashboard without a host.\<close>

definition demo_request :: blob where
  "demo_request = map of_nat (ustr ''GET / HTTP/1.1'' @ CRLF @ ustr ''content-length: 0'' @ CRLF @ CRLF)"

lemma demo_request_read:
  "read_request (wb_unicode demo_web) (\<lambda>c. if is_digit c then Some (c - 48) else None) demo_request
    = Inr (ustr ''GET'', ustr ''/'', [], [(ustr ''content-length'', ustr ''0'')])"
  by code_simp

lemma strangers_change_nothing_witness:
  "quiet demo_http (snd (http_connection (demo_web\<lparr>wb_digits := \<lambda>c. if is_digit c then Some (c - 48) else None\<rparr>)
      demo_request demo_http))"
  by (rule strangers_change_nothing) (simp add: demo_request_read credible_def local_host_def header_def starts_with_def ustr_def)

end
