(* ===== verification/Adapter_Tasks.thy ===== *)
theory Adapter_Tasks
  imports Adapter_Workers
begin

text \<open>
  The tasks of \<open>TelegramAdapter\<close>: its three registries and what creating, cancelling, finishing and
  forgetting a task does to them. A task runs one \<open>job\<close>; it sleeps until its time and is awake
  afterwards; \<open>cancel\<close> only asks it to stop, so that a cancelled task lives until the event loop
  resumes it. Everything a handler schedules arrives here as the \<open>Scheduled\<close> entries of its trace,
  in their order; \<open>c\<close> is the current task, \<open>None\<close> for an event handler.
\<close>

record task_table =
  tt_next :: nat
  tt_tasks :: "(nat \<times> job) list"
  tt_awake :: "nat list"
  tt_cancelled :: "nat list"
  tt_timeouts :: "(sender_key \<times> nat) list"
  tt_maintenance :: "nat list"
  tt_cleanup :: "(sender_key \<times> nat list) list"

definition no_tasks :: task_table where
  "no_tasks = \<lparr>tt_next = 0, tt_tasks = [], tt_awake = [], tt_cancelled = [], tt_timeouts = [],
     tt_maintenance = [], tt_cleanup = []\<rparr>"

subsection \<open>Operations\<close>

definition cancel_task :: "nat \<Rightarrow> task_table \<Rightarrow> task_table" where
  "cancel_task i t = t\<lparr>tt_cancelled := i # tt_cancelled t\<rparr>"

text \<open>\<open>if task is not asyncio.current_task(): task.cancel()\<close>.\<close>

definition cancel_other :: "nat option \<Rightarrow> nat \<Rightarrow> task_table \<Rightarrow> task_table" where
  "cancel_other c i t = (if c = Some i then t else cancel_task i t)"

definition task_cancel_timeout :: "sender_key \<Rightarrow> nat option \<Rightarrow> task_table \<Rightarrow> task_table" where
  "task_cancel_timeout k c t = (case map_of (tt_timeouts t) k of
      None \<Rightarrow> t
    | Some i \<Rightarrow> cancel_other c i (t\<lparr>tt_timeouts := AList.delete k (tt_timeouts t)\<rparr>))"

text \<open>\<open>asyncio.create_task\<close>; the new task is number \<open>tt_next t\<close>.\<close>

definition create_task :: "job \<Rightarrow> task_table \<Rightarrow> task_table" where
  "create_task j t = t\<lparr>tt_next := Suc (tt_next t), tt_tasks := tt_tasks t @ [(tt_next t, j)]\<rparr>"

definition task_schedule_timeout :: "sender_key \<Rightarrow> job \<Rightarrow> nat option \<Rightarrow> task_table \<Rightarrow> task_table" where
  "task_schedule_timeout k j c t =
    (let t' = task_cancel_timeout k c t in
     (create_task j t')\<lparr>tt_timeouts := AList.update k (tt_next t') (tt_timeouts t')\<rparr>)"

definition track_maintenance_task :: "job \<Rightarrow> task_table \<Rightarrow> task_table" where
  "track_maintenance_task j t = (create_task j t)\<lparr>tt_maintenance := tt_next t # tt_maintenance t\<rparr>"

definition cleanup_of :: "task_table \<Rightarrow> sender_key \<Rightarrow> nat list" where
  "cleanup_of t k = (case map_of (tt_cleanup t) k of None \<Rightarrow> [] | Some is \<Rightarrow> is)"

definition track_sender_cleanup_task :: "sender_key \<Rightarrow> job \<Rightarrow> task_table \<Rightarrow> task_table" where
  "track_sender_cleanup_task k j t =
    (track_maintenance_task j t)\<lparr>tt_cleanup := AList.update k (tt_next t # cleanup_of t k) (tt_cleanup t)\<rparr>"

definition forget_sender_runtime_refs :: "sender_key \<Rightarrow> nat option \<Rightarrow> task_table \<Rightarrow> task_table" where
  "forget_sender_runtime_refs k c t =
    fold (cancel_other c) (cleanup_of t k) (t\<lparr>tt_cleanup := AList.delete k (tt_cleanup t)\<rparr>)"

fun schedule_job :: "job \<Rightarrow> nat option \<Rightarrow> task_table \<Rightarrow> task_table" where
  "schedule_job (TimeoutJob k expires_at grace minimum_delay peer) c t =
     task_schedule_timeout k (TimeoutJob k expires_at grace minimum_delay peer) c t"
| "schedule_job (CancelTimeoutJob k) c t = task_cancel_timeout k c t"
| "schedule_job (CancelCleanupJob k) c t = forget_sender_runtime_refs k c t"
| "schedule_job (MessageDeletionJob peer k since at) c t =
     track_sender_cleanup_task k (MessageDeletionJob peer k since at) t"
| "schedule_job (VerificationDeletionJob peer k ids at) c t =
     track_sender_cleanup_task k (VerificationDeletionJob peer k ids at) t"
| "schedule_job (DialogDeletionJob i at) c t = track_maintenance_task (DialogDeletionJob i at) t"
| "schedule_job (StateResetJob k seen at) c t = track_maintenance_task (StateResetJob k seen at) t"

fun timer_of :: "job \<Rightarrow> sender_key option" where
  "timer_of (TimeoutJob k expires_at grace minimum_delay peer) = Some k"
| "timer_of j = None"

text \<open>The end of a task; a timer's \<open>finally\<close> removes it from the registry if it is still there.\<close>

definition leave_registry :: "nat \<Rightarrow> job \<Rightarrow> task_table \<Rightarrow> task_table" where
  "leave_registry i j t = (case timer_of j of
      None \<Rightarrow> t
    | Some k \<Rightarrow> if map_of (tt_timeouts t) k = Some i then t\<lparr>tt_timeouts := AList.delete k (tt_timeouts t)\<rparr> else t)"

definition task_ends :: "nat \<Rightarrow> job \<Rightarrow> task_table \<Rightarrow> task_table" where
  "task_ends i j t = leave_registry i j
    (t\<lparr>tt_tasks := filter (\<lambda>(n, _). n \<noteq> i) (tt_tasks t), tt_awake := filter (\<lambda>n. n \<noteq> i) (tt_awake t)\<rparr>)"

text \<open>The callbacks of a finished task: of a cleanup task the sender is known.\<close>

definition discard_maintenance :: "nat \<Rightarrow> task_table \<Rightarrow> task_table" where
  "discard_maintenance i t = t\<lparr>tt_maintenance := filter (\<lambda>n. n \<noteq> i) (tt_maintenance t)\<rparr>"

definition cleanup_finished :: "sender_key \<Rightarrow> nat \<Rightarrow> task_table \<Rightarrow> task_table" where
  "cleanup_finished k i t =
    (let t' = discard_maintenance i t in
     case map_of (tt_cleanup t') k of
       None \<Rightarrow> t'
     | Some is \<Rightarrow> (let left = filter (\<lambda>n. n \<noteq> i) is in
         t'\<lparr>tt_cleanup := if left = [] then AList.delete k (tt_cleanup t') else AList.update k left (tt_cleanup t')\<rparr>))"

text \<open>The end of \<open>run\<close>: every registered task is cancelled.\<close>

definition cancel_all :: "task_table \<Rightarrow> task_table" where
  "cancel_all t = fold cancel_task (map snd (tt_timeouts t) @ tt_maintenance t) t"

subsection \<open>Steps\<close>

definition task_live :: "task_table \<Rightarrow> nat \<Rightarrow> bool" where
  "task_live t i \<longleftrightarrow> i \<in> fst ` set (tt_tasks t)"

inductive task_step :: "task_table \<Rightarrow> task_table \<Rightarrow> bool" where
  scheduled: "(\<And>i. c = Some i \<Longrightarrow> i \<in> set (tt_awake t)) \<Longrightarrow> task_step t (schedule_job j c t)"
| wakes: "task_live t i \<Longrightarrow> i \<notin> set (tt_cancelled t) \<Longrightarrow> task_step t (t\<lparr>tt_awake := i # tt_awake t\<rparr>)"
| ends: "(i, j) \<in> set (tt_tasks t) \<Longrightarrow> i \<in> set (tt_awake t) \<or> i \<in> set (tt_cancelled t) \<Longrightarrow> task_step t (task_ends i j t)"
| callback: "i < tt_next t \<Longrightarrow> \<not> task_live t i \<Longrightarrow> task_step t (discard_maintenance i t)"
| cleanup_callback: "i < tt_next t \<Longrightarrow> \<not> task_live t i \<Longrightarrow> task_step t (cleanup_finished k i t)"

text \<open>A task that still waits for its time and was not asked to stop.\<close>

definition sleeping :: "task_table \<Rightarrow> nat \<Rightarrow> job \<Rightarrow> bool" where
  "sleeping t i j \<longleftrightarrow> (i, j) \<in> set (tt_tasks t) \<and> i \<notin> set (tt_awake t) \<and> i \<notin> set (tt_cancelled t)"

fun cleanup_sender :: "job \<Rightarrow> sender_key option" where
  "cleanup_sender (MessageDeletionJob peer k since at) = Some k"
| "cleanup_sender (VerificationDeletionJob peer k ids at) = Some k"
| "cleanup_sender j = None"


subsection \<open>The registries\<close>

definition tasks_ok :: "task_table \<Rightarrow> bool" where
  "tasks_ok t \<longleftrightarrow> (\<forall>(i, j)\<in>set (tt_tasks t). i < tt_next t \<and> (timer_of j = None \<longrightarrow> i \<in> set (tt_maintenance t)))
     \<and> (\<forall>i j k. sleeping t i j \<longrightarrow> timer_of j = Some k \<longrightarrow> map_of (tt_timeouts t) k = Some i)
     \<and> (\<forall>i j k. sleeping t i j \<longrightarrow> cleanup_sender j = Some k \<longrightarrow> i \<in> set (cleanup_of t k))
     \<and> (\<forall>i\<in>set (tt_awake t). i < tt_next t) \<and> (\<forall>i\<in>set (tt_cancelled t). i < tt_next t)
     \<and> (\<forall>k i. map_of (tt_timeouts t) k = Some i \<longrightarrow> i < tt_next t)
     \<and> (\<forall>k. \<forall>i\<in>set (cleanup_of t k). i < tt_next t) \<and> (\<forall>i\<in>set (tt_maintenance t). i < tt_next t)"

lemma cancel_other_fields [simp]:
  "tt_next (cancel_other c i t) = tt_next t" "tt_tasks (cancel_other c i t) = tt_tasks t"
  "tt_awake (cancel_other c i t) = tt_awake t" "tt_timeouts (cancel_other c i t) = tt_timeouts t"
  "tt_maintenance (cancel_other c i t) = tt_maintenance t" "tt_cleanup (cancel_other c i t) = tt_cleanup t"
  by (simp_all add: cancel_other_def cancel_task_def)

lemma cancel_others_fields [simp]:
  "tt_next (fold (cancel_other c) is t) = tt_next t" "tt_tasks (fold (cancel_other c) is t) = tt_tasks t"
  "tt_awake (fold (cancel_other c) is t) = tt_awake t" "tt_timeouts (fold (cancel_other c) is t) = tt_timeouts t"
  "tt_maintenance (fold (cancel_other c) is t) = tt_maintenance t" "tt_cleanup (fold (cancel_other c) is t) = tt_cleanup t"
  by (induction "is" arbitrary: t) simp_all

lemma cancelled_others:
  "set (tt_cancelled (fold (cancel_other c) is t)) = set (tt_cancelled t) \<union> {i \<in> set is. c \<noteq> Some i}"
  by (induction "is" arbitrary: t) (auto simp: cancel_other_def cancel_task_def)

lemma cleanup_of_fold [simp]: "cleanup_of (fold (cancel_other c) is t) k = cleanup_of t k"
  by (simp add: cleanup_of_def)

abbreviation current :: "nat option \<Rightarrow> task_table \<Rightarrow> bool" where
  "current c t \<equiv> (\<forall>i. c = Some i \<longrightarrow> i \<in> set (tt_awake t))"

lemma sleeping_cancel: "sleeping (cancel_other c i t) n j \<longleftrightarrow> sleeping t n j \<and> (c = Some i \<or> n \<noteq> i)"
  by (auto simp: sleeping_def cancel_other_def cancel_task_def)

lemma sleeping_cancels:
  "sleeping (fold (cancel_other c) is t) n j \<longleftrightarrow> sleeping t n j \<and> (c = Some n \<or> n \<notin> set is)"
  by (auto simp: sleeping_def cancelled_others)

lemma sleeping_registries [simp]:
  "sleeping (t\<lparr>tt_timeouts := x\<rparr>) n j = sleeping t n j" "sleeping (t\<lparr>tt_maintenance := y\<rparr>) n j = sleeping t n j"
  "sleeping (t\<lparr>tt_cleanup := z\<rparr>) n j = sleeping t n j"
  by (simp_all add: sleeping_def)

lemma cleanup_of_registries [simp]:
  "cleanup_of (t\<lparr>tt_timeouts := x\<rparr>) = cleanup_of t" "cleanup_of (t\<lparr>tt_maintenance := y\<rparr>) = cleanup_of t"
  by (simp_all add: cleanup_of_def fun_eq_iff)

lemma cancels_ok: "tasks_ok t \<Longrightarrow> \<forall>i\<in>set is. i < tt_next t \<Longrightarrow> tasks_ok (fold (cancel_other c) is t)"
  unfolding tasks_ok_def by (simp add: sleeping_cancels cancelled_others) blast

lemma cancel_ok: "tasks_ok t \<Longrightarrow> i < tt_next t \<Longrightarrow> tasks_ok (cancel_other c i t)"
  using cancels_ok [of t "[i]"] by simp

lemma not_current: "current c t \<Longrightarrow> sleeping t n j \<Longrightarrow> c \<noteq> Some n"
  by (auto simp: sleeping_def)

lemma cancel_other_timeouts: "cancel_other c i (t\<lparr>tt_timeouts := x\<rparr>) = (cancel_other c i t)\<lparr>tt_timeouts := x\<rparr>"
  by (simp add: cancel_other_def cancel_task_def)

lemma cancel_other_cleanup: "cancel_other c i (t\<lparr>tt_cleanup := x\<rparr>) = (cancel_other c i t)\<lparr>tt_cleanup := x\<rparr>"
  by (simp add: cancel_other_def cancel_task_def)

lemma cancels_cleanup:
  "fold (cancel_other c) is (t\<lparr>tt_cleanup := x\<rparr>) = (fold (cancel_other c) is t)\<lparr>tt_cleanup := x\<rparr>"
  by (induction "is" arbitrary: t) (simp_all add: cancel_other_cleanup)

lemma timeouts_deleted_ok:
  assumes "tasks_ok t" and "\<And>n j. sleeping t n j \<Longrightarrow> timer_of j \<noteq> Some k"
  shows "tasks_ok (t\<lparr>tt_timeouts := AList.delete k (tt_timeouts t)\<rparr>)"
  using assms unfolding tasks_ok_def by (simp add: delete_conv')

lemma cancel_timeout_ok:
  assumes ok: "tasks_ok t" and "current c t"
  shows "tasks_ok (task_cancel_timeout k c t)"
    and "sleeping (task_cancel_timeout k c t) n j \<Longrightarrow> timer_of j \<noteq> Some k"
    and "sleeping (task_cancel_timeout k c t) n j \<Longrightarrow> sleeping t n j"
proof -
  have registered: "map_of (tt_timeouts t) k = Some n" if "sleeping t n j" "timer_of j = Some k" for n j
    using ok that unfolding tasks_ok_def by blast
  have none: "timer_of j \<noteq> Some k" if "sleeping (cancel_other c i t) n j" "map_of (tt_timeouts t) k = Some i" for n j i
    using that registered not_current [OF assms(2)] by (fastforce simp: sleeping_cancel)
  have "i < tt_next t" if "map_of (tt_timeouts t) k = Some i" for i
    using ok that unfolding tasks_ok_def by blast
  then show "tasks_ok (task_cancel_timeout k c t)"
    using ok none timeouts_deleted_ok [OF cancel_ok [OF ok]]
    by (auto simp: task_cancel_timeout_def cancel_other_timeouts split: option.split)
  show "sleeping (task_cancel_timeout k c t) n j \<Longrightarrow> timer_of j \<noteq> Some k"
    using none registered by (auto simp: task_cancel_timeout_def cancel_other_timeouts split: option.splits)
  show "sleeping (task_cancel_timeout k c t) n j \<Longrightarrow> sleeping t n j"
    by (auto simp: task_cancel_timeout_def cancel_other_timeouts sleeping_cancel split: option.splits)
qed


lemma create_sleeping:
  "sleeping (create_task j t) n j' \<Longrightarrow> sleeping t n j' \<or> (n, j') = (tt_next t, j)"
  by (auto simp: sleeping_def create_task_def)

lemma create_fields [simp]:
  "tt_next (create_task j t) = Suc (tt_next t)" "tt_tasks (create_task j t) = tt_tasks t @ [(tt_next t, j)]"
  "tt_awake (create_task j t) = tt_awake t" "tt_cancelled (create_task j t) = tt_cancelled t"
  "tt_timeouts (create_task j t) = tt_timeouts t" "tt_maintenance (create_task j t) = tt_maintenance t"
  "tt_cleanup (create_task j t) = tt_cleanup t" "cleanup_of (create_task j t) = cleanup_of t"
  by (simp_all add: create_task_def cleanup_of_def fun_eq_iff)

lemma schedule_timeout_ok:
  assumes ok: "tasks_ok t" and c: "current c t" and j: "timer_of j = Some k" "cleanup_sender j = None"
  shows "tasks_ok (task_schedule_timeout k j c t)"
proof -
  let ?t = "task_cancel_timeout k c t"
  note cancel = cancel_timeout_ok [OF ok c, where k = k]
  have "timer_of j' \<noteq> Some k" if "sleeping ?t n j'" for n j' using cancel(2) that .
  with cancel(1) j show ?thesis
    unfolding task_schedule_timeout_def Let_def tasks_ok_def
    by (auto simp: update_conv' less_Suc_eq dest!: create_sleeping)
qed

lemma maintenance_ok:
  assumes "tasks_ok t" and "timer_of j = None" and "cleanup_sender j = None"
  shows "tasks_ok (track_maintenance_task j t)"
  using assms unfolding tasks_ok_def track_maintenance_task_def
  by (auto simp: less_Suc_eq dest!: create_sleeping)

lemma cleanup_update:
  "cleanup_of (t\<lparr>tt_cleanup := AList.update k is (tt_cleanup t)\<rparr>) k' = (if k' = k then is else cleanup_of t k')"
  by (simp add: cleanup_of_def update_conv')

lemma cleanup_ok:
  assumes "tasks_ok t" and "timer_of j = None" and "cleanup_sender j = Some k"
  shows "tasks_ok (track_sender_cleanup_task k j t)"
  using assms unfolding tasks_ok_def track_sender_cleanup_task_def track_maintenance_task_def
  by (auto simp: less_Suc_eq cleanup_of_def update_conv' dest!: create_sleeping split: if_splits)

lemma forget_ok:
  assumes ok: "tasks_ok t" and c: "current c t"
  shows "tasks_ok (forget_sender_runtime_refs k c t)"
    and "sleeping (forget_sender_runtime_refs k c t) n j \<Longrightarrow> cleanup_sender j \<noteq> Some k"
proof -
  let ?t = "fold (cancel_other c) (cleanup_of t k) t"
  have forget: "forget_sender_runtime_refs k c t = ?t\<lparr>tt_cleanup := AList.delete k (tt_cleanup ?t)\<rparr>"
    by (simp add: forget_sender_runtime_refs_def cancels_cleanup)
  have none: "cleanup_sender j \<noteq> Some k" if "sleeping ?t n j" for n j
    using that ok not_current [OF c] unfolding tasks_ok_def sleeping_cancels by blast
  then show "sleeping (forget_sender_runtime_refs k c t) n j \<Longrightarrow> cleanup_sender j \<noteq> Some k"
    by (simp add: forget)
  have "tasks_ok ?t" using ok by (rule cancels_ok) (use ok in \<open>auto simp: tasks_ok_def\<close>)
  moreover have "cleanup_of (?t\<lparr>tt_cleanup := AList.delete k (tt_cleanup ?t)\<rparr>) k' = (if k' = k then [] else cleanup_of ?t k')"
    for k' by (simp add: cleanup_of_def delete_conv')
  ultimately show "tasks_ok (forget_sender_runtime_refs k c t)"
    unfolding forget using none unfolding tasks_ok_def by (auto split: if_splits)
qed

lemma schedule_job_ok: "tasks_ok t \<Longrightarrow> current c t \<Longrightarrow> tasks_ok (schedule_job j c t)"
  by (cases j) (simp_all add: schedule_timeout_ok cancel_timeout_ok maintenance_ok cleanup_ok forget_ok)


lemma tasks_shrink:
  assumes ok: "tasks_ok t" and same: "tt_next t' = tt_next t" "tt_timeouts t' = tt_timeouts t" "tt_cancelled t' = tt_cancelled t"
    and tasks: "set (tt_tasks t') \<subseteq> set (tt_tasks t)" "set (tt_awake t') \<subseteq> set (tt_awake t)"
    and sleeps: "\<And>n j. sleeping t' n j \<Longrightarrow> sleeping t n j"
    and maintenance: "set (tt_maintenance t') \<subseteq> set (tt_maintenance t)"
      "\<And>n j. (n, j) \<in> set (tt_tasks t') \<Longrightarrow> n \<in> set (tt_maintenance t) \<Longrightarrow> n \<in> set (tt_maintenance t')"
    and cleanup: "\<And>k. set (cleanup_of t' k) \<subseteq> set (cleanup_of t k)"
      "\<And>n j k. sleeping t' n j \<Longrightarrow> n \<in> set (cleanup_of t k) \<Longrightarrow> n \<in> set (cleanup_of t' k)"
  shows "tasks_ok t'"
  unfolding tasks_ok_def
proof (intro conjI)
  show "\<forall>(i, j)\<in>set (tt_tasks t'). i < tt_next t' \<and> (timer_of j = None \<longrightarrow> i \<in> set (tt_maintenance t'))"
    using ok tasks(1) maintenance(2) unfolding tasks_ok_def same by fast
  show "\<forall>i j k. sleeping t' i j \<longrightarrow> timer_of j = Some k \<longrightarrow> map_of (tt_timeouts t') k = Some i"
    using ok sleeps unfolding tasks_ok_def same by fast
  show "\<forall>i j k. sleeping t' i j \<longrightarrow> cleanup_sender j = Some k \<longrightarrow> i \<in> set (cleanup_of t' k)"
    using ok sleeps cleanup(2) unfolding tasks_ok_def by fast
  show "\<forall>k. \<forall>i\<in>set (cleanup_of t' k). i < tt_next t'"
    using ok cleanup(1) unfolding tasks_ok_def same by fast
qed (use ok tasks(2) maintenance(1) in \<open>unfold tasks_ok_def same, fast+\<close>)

lemma leave_ok:
  "tasks_ok t \<Longrightarrow> (\<And>n j' k. map_of (tt_timeouts t) k = Some i \<Longrightarrow> sleeping t n j' \<Longrightarrow> timer_of j' \<noteq> Some k)
    \<Longrightarrow> tasks_ok (leave_registry i j t)"
  by (auto simp: leave_registry_def intro: timeouts_deleted_ok split: option.split)

lemma ends_ok:
  assumes ok: "tasks_ok t"
  shows "tasks_ok (task_ends i j t)"
proof -
  let ?t = "t\<lparr>tt_tasks := filter (\<lambda>(n, _). n \<noteq> i) (tt_tasks t), tt_awake := filter (\<lambda>n. n \<noteq> i) (tt_awake t)\<rparr>"
  have sleeping: "sleeping ?t n j' \<Longrightarrow> sleeping t n j' \<and> n \<noteq> i" for n j'
    by (auto simp: sleeping_def)
  have ok': "tasks_ok ?t"
  proof (rule tasks_shrink [OF ok])
    show "sleeping ?t n j' \<Longrightarrow> sleeping t n j'" for n j' using sleeping by blast
  qed (auto simp: cleanup_of_def)
  have registered: "map_of (tt_timeouts t) k = Some n" if "sleeping t n j'" "timer_of j' = Some k" for k n j'
    using ok that unfolding tasks_ok_def by blast
  have "timer_of j' \<noteq> Some k" if "map_of (tt_timeouts ?t) k = Some i" "sleeping ?t n j'" for k n j'
    using that sleeping [OF that(2)] registered [of n j' k] by auto
  then show ?thesis unfolding task_ends_def by (intro leave_ok [OF ok']) blast
qed

lemma discard_ok:
  assumes "tasks_ok t" and "\<not> task_live t i"
  shows "tasks_ok (discard_maintenance i t)"
  by (rule tasks_shrink [OF assms(1)])
    (use assms(2) in \<open>auto simp: discard_maintenance_def sleeping_def cleanup_of_def task_live_def image_iff\<close>)

lemma cleanup_finished_ok:
  assumes ok: "tasks_ok t" and dead: "\<not> task_live t i"
  shows "tasks_ok (cleanup_finished k i t)"
proof -
  let ?t = "discard_maintenance i t"
  obtain x where x: "cleanup_finished k i t = ?t\<lparr>tt_cleanup := x\<rparr>"
  proof
    show "cleanup_finished k i t = ?t\<lparr>tt_cleanup := tt_cleanup (cleanup_finished k i t)\<rparr>"
      by (auto simp: cleanup_finished_def Let_def discard_maintenance_def split: option.split)
  qed
  have left: "cleanup_of (cleanup_finished k i t) k' = (if k' = k then filter (\<lambda>n. n \<noteq> i) (cleanup_of ?t k) else cleanup_of ?t k')"
    for k' by (auto simp: cleanup_finished_def Let_def cleanup_of_def discard_maintenance_def delete_conv' update_conv'
        split: option.split)
  show ?thesis unfolding x
  proof (rule tasks_shrink [OF discard_ok [OF ok dead]])
    show "set (cleanup_of (?t\<lparr>tt_cleanup := x\<rparr>) k') \<subseteq> set (cleanup_of ?t k')" for k'
      by (auto simp: left [unfolded x])
    show "n \<in> set (cleanup_of (?t\<lparr>tt_cleanup := x\<rparr>) k')"
      if "sleeping (?t\<lparr>tt_cleanup := x\<rparr>) n j" "n \<in> set (cleanup_of ?t k')" for n j k'
    proof -
      have "n \<noteq> i" using that(1) dead by (force simp: sleeping_def discard_maintenance_def task_live_def)
      with that(2) show ?thesis by (auto simp: left [unfolded x])
    qed
  qed simp_all
qed

lemma task_step_ok: "task_step t t' \<Longrightarrow> tasks_ok t \<Longrightarrow> tasks_ok t'"
proof (induction rule: task_step.induct)
  case (scheduled c t j)
  then show ?case by (intro schedule_job_ok) auto
next
  case (wakes t i)
  then show ?case by (auto simp: tasks_ok_def task_live_def sleeping_def cleanup_of_def)
qed (auto intro: ends_ok discard_ok cleanup_finished_ok)

lemma tasks_run_ok: "task_step\<^sup>*\<^sup>* no_tasks t \<Longrightarrow> tasks_ok t"
proof (induction rule: rtranclp_induct)
  case base
  show ?case by (simp add: tasks_ok_def no_tasks_def sleeping_def cleanup_of_def)
qed (rule task_step_ok)

lemma cancelled_all:
  "tt_tasks (fold cancel_task is t) = tt_tasks t" "tt_awake (fold cancel_task is t) = tt_awake t"
  "set (tt_cancelled (fold cancel_task is t)) = set (tt_cancelled t) \<union> set is"
  by (induction "is" arbitrary: t) (auto simp: cancel_task_def)

lemma timer_registered:
  "tasks_ok t \<Longrightarrow> sleeping t i j \<Longrightarrow> timer_of j = Some k \<Longrightarrow> map_of (tt_timeouts t) k = Some i"
  unfolding tasks_ok_def by blast

lemma cancel_all_sleeping:
  assumes "tasks_ok t"
  shows "\<not> sleeping (cancel_all t) i j"
proof
  assume "sleeping (cancel_all t) i j"
  then have "sleeping t i j" and n: "i \<notin> set (map snd (tt_timeouts t))" "i \<notin> set (tt_maintenance t)"
    unfolding cancel_all_def sleeping_def cancelled_all by auto
  then have "(i, j) \<in> set (tt_tasks t)" by (simp add: sleeping_def)
  with n assms have "timer_of j \<noteq> None" unfolding tasks_ok_def by fast
  then obtain k where "timer_of j = Some k" by blast
  with assms \<open>sleeping t i j\<close> have "map_of (tt_timeouts t) k = Some i" by (rule timer_registered)
  with n show False by (force dest: map_of_SomeD)
qed

text \<open>C19. No stale timer fires. However tasks are scheduled, woken, cancelled and finished, with their
  callbacks at any later time, each sender has at most one timer that still waits; cancelling the timer
  of a sender leaves none, and forgetting a sender leaves no waiting cleanup task; a new timer is the only
  one left; and the end of the service leaves no task waiting at all.\<close>

theorem no_stale_timer:
  assumes "task_step\<^sup>*\<^sup>* no_tasks t" and "\<And>i. c = Some i \<Longrightarrow> i \<in> set (tt_awake t)"
  shows "(\<forall>i j i' j' k. sleeping t i j \<and> sleeping t i' j' \<and> timer_of j = Some k \<and> timer_of j' = Some k \<longrightarrow> i = i')
    \<and> (\<forall>i j. sleeping (schedule_job (CancelTimeoutJob k) c t) i j \<longrightarrow> timer_of j \<noteq> Some k)
    \<and> (\<forall>i j. sleeping (schedule_job (CancelCleanupJob k) c t) i j \<longrightarrow> cleanup_sender j \<noteq> Some k)
    \<and> (\<forall>i j. sleeping (schedule_job (TimeoutJob k at grace delay peer) c t) i j \<and> timer_of j = Some k \<longrightarrow> i = tt_next t)
    \<and> (\<forall>i j. \<not> sleeping (cancel_all t) i j)"
proof (intro conjI)
  note ok = tasks_run_ok [OF assms(1)]
  have c: "current c t" using assms(2) by blast
  show "\<forall>i j i' j' k. sleeping t i j \<and> sleeping t i' j' \<and> timer_of j = Some k \<and> timer_of j' = Some k \<longrightarrow> i = i'"
  proof (intro allI impI, elim conjE)
    fix i j i' j' k
    assume "sleeping t i j" "sleeping t i' j'" "timer_of j = Some k" "timer_of j' = Some k"
    from timer_registered [OF ok this(1,3)] timer_registered [OF ok this(2,4)] show "i = i'" by simp
  qed
  show "\<forall>i j. sleeping (schedule_job (CancelTimeoutJob k) c t) i j \<longrightarrow> timer_of j \<noteq> Some k"
    using cancel_timeout_ok(2) [OF ok c] by simp
  show "\<forall>i j. sleeping (schedule_job (CancelCleanupJob k) c t) i j \<longrightarrow> cleanup_sender j \<noteq> Some k"
    using forget_ok(2) [OF ok c] by simp
  let ?t = "schedule_job (TimeoutJob k at grace delay peer) c t"
  have "map_of (tt_timeouts ?t) k = Some (tt_next t)"
    by (simp add: task_schedule_timeout_def task_cancel_timeout_def Let_def update_conv' split: option.split)
  then show "\<forall>i j. sleeping ?t i j \<and> timer_of j = Some k \<longrightarrow> i = tt_next t"
    using timer_registered [OF schedule_job_ok [OF ok c]] by fastforce
  show "\<forall>i j. \<not> sleeping (cancel_all t) i j"
    using cancel_all_sleeping [OF ok] by blast
qed

lemma no_stale_timer_witness:
  "sleeping (schedule_job (TimeoutJob ''s'' 90 5 0 None) None no_tasks) 0 (TimeoutJob ''s'' 90 5 0 None)
    \<and> \<not> sleeping (schedule_job (CancelTimeoutJob ''s'') None
          (schedule_job (TimeoutJob ''s'' 90 5 0 None) None no_tasks)) 0 (TimeoutJob ''s'' 90 5 0 None)"
proof
  have "task_step no_tasks (schedule_job (TimeoutJob ''s'' 90 5 0 None) None no_tasks)"
    by (rule task_step.scheduled) simp
  then have "task_step\<^sup>*\<^sup>* no_tasks (schedule_job (TimeoutJob ''s'' 90 5 0 None) None no_tasks)"
    by (rule r_into_rtranclp)
  from no_stale_timer [OF this, of None "''s''"] show
    "\<not> sleeping (schedule_job (CancelTimeoutJob ''s'') None
        (schedule_job (TimeoutJob ''s'' 90 5 0 None) None no_tasks)) 0 (TimeoutJob ''s'' 90 5 0 None)"
    by fastforce
qed code_simp

end
