(* ===== verification/Adapter_Recovery.thy ===== *)
theory Adapter_Recovery
  imports System Service_Rows Adapter_Tasks Core_System
begin

text \<open>
  The recovery at start-up, completely: for every database and every sequence of server replies it
  leaves no challenge half-issued and a waiting timer for every challenged sender, and starts every
  open deletion, or it stops at a request for a history that failed. The programs are followed to
  the events they emit, and the events to the task registries.
\<close>

subsection \<open>The timer a sequence of events leaves\<close>

fun timer_event :: "sender_key \<Rightarrow> event \<Rightarrow> job option \<Rightarrow> job option" where
  "timer_event k (Scheduled (TimeoutJob j expires_at grace minimum_delay peer)) old =
     (if j = k then Some (TimeoutJob j expires_at grace minimum_delay peer) else old)"
| "timer_event k (Scheduled (CancelTimeoutJob j)) old = (if j = k then None else old)"
| "timer_event k e old = old"

definition last_timer :: "sender_key \<Rightarrow> event list \<Rightarrow> job option" where
  "last_timer k es = fold (timer_event k) es None"

lemma last_timer_snoc [simp]: "last_timer k (es @ [e]) = timer_event k e (last_timer k es)"
  by (simp add: last_timer_def)

text \<open>A row that recovery has dealt with.\<close>

definition settled :: "sender_key \<Rightarrow> sender_row option \<Rightarrow> event list \<Rightarrow> bool" where
  "settled k ro es \<longleftrightarrow> (\<forall>r. ro = Some r \<longrightarrow> status r \<notin> CHALLENGE_STARTING_STATUSES
     \<and> (status r = CHALLENGED \<longrightarrow> (\<exists>at. challenge_expires_at r = Some at
          \<and> (at \<noteq> 0 \<longrightarrow> (\<exists>grace delay peer. last_timer k es = Some (TimeoutJob k at grace delay peer))))))"

definition settles :: "sender_key \<Rightarrow> sender_row option \<Rightarrow> 'a prog \<Rightarrow> bool" where
  "settles k r p \<longleftrightarrow> (\<forall>w. row_at k w = r \<longrightarrow> (\<exists>x w'. p w = (Inr x, w') \<and> settled k (row_at k w') (trace w')))"

lemma settles_bind:
  assumes "row_triple k r p P" and "\<And>x r'. P x r' \<Longrightarrow> settles k r' (f x)"
  shows "settles k r (bind_prog p f)"
  unfolding settles_def
proof (intro allI impI)
  fix w assume "row_at k w = r"
  with assms(1) obtain x w' where p: "p w = (Inr x, w')" "P x (row_at k w')"
    by (rule row_tripleE)
  then obtain y w'' where "f x w' = (Inr y, w'')" "settled k (row_at k w'') (trace w'')"
    using assms(2) unfolding settles_def by blast
  with p show "\<exists>x w'. bind_prog p f w = (Inr x, w') \<and> settled k (row_at k w') (trace w')"
    by (simp add: bind_Inr)
qed

lemma settles_skip: "harmless p \<Longrightarrow> (\<And>x. settles k r (f x)) \<Longrightarrow> settles k r (bind_prog p f)"
  by (rule settles_bind [OF triple_harmless [where Q = "\<lambda>_ r'. r' = r"]]) auto

lemma settles_then_skip: "harmless p \<Longrightarrow> settles k r q \<Longrightarrow> settles k r (then_prog p q)"
  unfolding then_prog_def by (rule settles_skip)

lemma settles_sender:
  "settles k r (p (case r of None \<Rightarrow> unknown_sender | Some x \<Rightarrow> sender_state.truncate x))
   \<Longrightarrow> settles k r (bind_prog (query (sender k)) p)"
  by (auto simp: settles_def row_at_def bind_prog_def query_def sender_def)

lemma settles_triple: "row_triple k r p (\<lambda>_. forgotten) \<Longrightarrow> settles k r p"
  by (fastforce simp: row_triple_def settles_def settled_def forgotten_def status_sets)

lemma update_sender_row:
  "f = update_sender k P h \<Longrightarrow> P r \<Longrightarrow> row_triple k (Some r) (transact f) (\<lambda>x ro. x \<and> ro = Some (h r))"
  by (auto simp: row_triple_def row_at_def transact_def update_sender_def table_simps)

lemma settles_update:
  assumes "f = update_sender k P h" and "P r" and "settles k (Some (h r)) (p True)"
  shows "settles k (Some r) (bind_prog (transact f) p)"
  by (rule settles_bind [OF update_sender_row [OF assms(1,2)]]) (use assms(3) in auto)

lemma settles_if:
  "(b \<Longrightarrow> settles k r p) \<Longrightarrow> (\<not> b \<Longrightarrow> settles k r q) \<Longrightarrow> settles k r (if b then p else q)"
  by simp

lemma reset_row:
  assumes "status r \<in> CHALLENGE_STARTING_STATUSES"
  shows "row_triple k (Some r) (transact (reset_incomplete_challenge k at)) (\<lambda>x ro. x \<and> forgotten ro)"
proof -
  have "row_triple k (Some r) (bind_prog (transact (reset_incomplete_challenge k at)) ret) (\<lambda>x ro. x \<and> forgotten ro)"
    by (rule reset_triple [OF assms]) (rule triple_ret, simp)
  moreover have "bind_prog (m :: bool prog) ret = m" for m
    by (rule ext) (simp add: bind_prog_def ret_def split: prod.split sum.split)
  ultimately show ?thesis by simp
qed

subsection \<open>One sender\<close>

lemmas safe = tg_safe.archive_harmless tg_safe.restore_harmless tg_safe.delete_harmless
  tg_safe.timeout_harmless tg_safe.delete_optional_harmless

lemma drop_recovery_triple:
  assumes "status r \<in> CHALLENGE_STARTING_STATUSES"
  shows "row_triple k (Some r) (drop_recovery (telegram_actions days peer j) k i result now) (\<lambda>_. forgotten)"
  unfolding drop_recovery_def
  by (intro triple_then_skip safe triple_bind [OF reset_row [OF assms]] harmless_audit triple_ret) simp

lemma abandon_triple:
  assumes "status r \<in> CHALLENGE_STARTING_STATUSES"
  shows "row_triple k (Some r) (abandon_incomplete_challenge k reason) (\<lambda>_. forgotten)"
  unfolding abandon_incomplete_challenge_def
  by (intro triple_skip harmless_clock triple_bind [OF reset_row [OF assms]])
    (auto intro: triple_harmless [OF harmless_audit])

lemma timer_started:
  assumes "status r = CHALLENGED" and "challenge_expires_at r = Some at"
  shows "settles k (Some r)
    (then_prog (schedule_timeout (telegram_actions days peer k) k (int_or (Some at) now) grace)
      (then_prog (change (audit k c x now)) (ret True)))"
  using assms
  by (auto simp: settles_def settled_def telegram_actions_def adapter_schedule_timeout_def then_prog_def
      bind_prog_def schedule_def change_def ret_def row_at_def audit_def Let_def int_or_def status_sets
      simp flip: append_Cons append_assoc)

lemma activate_settles:
  assumes "status r = CHALLENGE_ARCHIVING" and "challenge_expires_at r = Some at"
  shows "settles k (Some r) (activate_recovered (telegram_actions days peer k) k i now)"
  unfolding activate_recovered_def
proof (intro settles_skip safe, goal_cases)
  case (1 archived)
  let ?r = "r\<lparr>status := CHALLENGED, challenge_prompt := None, revision := revision r + 1, updated_at := now\<rparr>"
  show ?case
  proof (cases archived)
    case False
    then show ?thesis using assms by (simp add: settles_triple drop_recovery_triple status_sets)
  next
    case True
    show ?thesis
      by (simp add: True, rule settles_update [OF activate_challenge_def], simp add: assms)
        (simp, rule settles_sender, simp add: sender_state.defs assms timer_started)
  qed
qed

text \<open>The row as it is when the recovery looks at it.\<close>

lemma rebind_settles:
  assumes "status r = CHALLENGE_ISSUING"
  shows "settles k (Some r) (rebind_recovered g (telegram_actions days peer k) k i now)"
  unfolding rebind_recovered_def
  by (intro settles_then_skip harmless_automated, rule settles_update [OF refresh_challenge_expiry_def],
      simp add: assms, simp, rule settles_update [OF bind_challenge_message_def], simp add: assms)
    (simp add: activate_settles)

definition prompted :: "sender_row \<Rightarrow> int option \<Rightarrow> sender_row option \<Rightarrow> bool" where
  "prompted r x ro \<longleftrightarrow> (if x = None then forgotten ro else ro = Some r)"

lemma resend_triple:
  assumes "status r = CHALLENGE_ISSUING"
  shows "row_triple k (Some r) (resend_prompt (telegram_actions days peer k) k state now) (prompted r)"
proof -
  have st: "status r \<in> CHALLENGE_STARTING_STATUSES" using assms by (simp add: status_sets)
  have reset: "row_triple k (Some r) (bind_prog (transact (reset_incomplete_challenge k now)) (\<lambda>_. p)) (prompted r)"
    if p: "harmless p" "\<And>w. fst (p w) = Inr None" for p :: "int option prog"
  proof (rule triple_bind [OF reset_row [OF st]])
    fix x ro assume x: "x \<and> forgotten ro"
    show "row_triple k ro p (prompted r)" unfolding row_triple_def
    proof (intro allI impI)
      fix w assume w: "row_at k w = ro"
      obtain y w' where "p w = (Inr y, w')" "row_at k w' = row_at k w" by (rule harmless_row [OF p(1)])
      with p(2) [of w] x w show "\<exists>x w'. p w = (Inr x, w') \<and> prompted r x (row_at k w')"
        by (auto simp: prompted_def)
    qed
  qed
  have sent: "row_triple k (Some r) (try_except
      (bind_prog (need ''ValueError'' f) (\<lambda>formatting.
       bind_prog (send_text (telegram_actions days peer k) t None formatting) (\<lambda>i. ret (Some i)))) h) (prompted r)"
    if h: "row_triple k (Some r) h (prompted r)" for f t h
  proof -
    let ?p = "bind_prog (need ''ValueError'' f) (\<lambda>formatting.
       bind_prog (send_text (telegram_actions days peer k) t None formatting) (\<lambda>i. ret (Some i)))"
    have "snd (bind_prog (m :: int prog) (\<lambda>i. ret (Some i)) w) = snd (m w)" for m w
      by (simp add: bind_prog_def ret_def split: prod.split sum.split)
    then have rows: "row_at k (snd (?p w)) = row_at k w" for w
      by (cases f) (simp_all add: need_def raise_exn_def row_at_def tg_safe.send_keeps_rows)
    have some: "fst (?p w) \<noteq> Inr None" for w
      by (cases f) (auto simp: need_def raise_exn_def ret_def bind_prog_def split: prod.splits sum.splits)
    show ?thesis unfolding row_triple_def
    proof (intro allI impI)
      fix w assume w: "row_at k w = Some r"
      obtain x w' where p: "?p w = (x, w')" by fastforce
      with rows [of w] w have w': "row_at k w' = Some r" by simp
      show "\<exists>x w'. try_except ?p h w = (Inr x, w') \<and> prompted r x (row_at k w')"
      proof (cases x)
        case (Inl e)
        with p have "try_except ?p h w = h w'" by (simp add: try_except_def)
        with h w' show ?thesis unfolding row_triple_def by auto
      next
        case (Inr y)
        with p some [of w] obtain i where "y = Some i" by (cases y) auto
        with Inr p w' show ?thesis by (simp add: try_except_def prompted_def)
      qed
    qed
  qed
  have audited: "fst (then_prog (change f) (ret None) w) = Inr None" for f w
    by (simp add: then_prog_def bind_prog_def change_def ret_def)
  show ?thesis unfolding resend_prompt_def
    by (auto split: option.split list.split intro!: sent reset harmless_intros audited)
      (auto simp: ret_def)
qed

lemma recover_incomplete_settles:
  assumes st: "status r \<in> CHALLENGE_STARTING_STATUSES" and ok: "row_ok r"
  shows "settles k (Some r) (recover_incomplete_challenge g (telegram_actions days peer k) k recovered)"
proof -
  have "status r \<in> {CHALLENGE_ISSUING, CHALLENGE_ARCHIVING, CHALLENGED}"
    using st by (auto simp: status_sets)
  with ok have "challenge_expires_at r \<noteq> None" unfolding row_ok_def by blast
  then obtain at where at: "challenge_expires_at r = Some at" by blast
  show ?thesis unfolding recover_incomplete_challenge_def
  proof (rule settles_skip [OF harmless_clock], rule settles_sender, simp only: option.case,
      intro settles_if, goal_cases)
    case (1 now)
    with st show ?case by (simp add: sender_state.defs)
  next
    case (2 now)
    show ?case by (rule settles_triple) (rule drop_recovery_triple [OF st])
  next
    case (3 now)
    then have issuing: "status r = CHALLENGE_ISSUING" by (simp add: sender_state.defs)
    have "row_triple k (Some r) (case recovered of None \<Rightarrow> resend_prompt (telegram_actions days peer k) k state now
        | Some i \<Rightarrow> ret (Some i)) (prompted r)" for state
      by (cases recovered) (auto intro: resend_triple issuing triple_ret simp: prompted_def)
    then show ?case
    proof (rule settles_bind)
      fix x ro assume "prompted r x ro"
      then show "settles k ro (case x of None \<Rightarrow> ret False
          | Some i \<Rightarrow> rebind_recovered g (telegram_actions days peer k) k i now)"
        using rebind_settles [OF issuing]
        by (cases x) (simp_all add: prompted_def settles_triple triple_ret)
    qed
  next
    case (4 now)
    with st have "status r = CHALLENGE_ARCHIVING" by (simp add: status_sets sender_state.defs)
    then show ?case by (rule activate_settles) (rule at)
  qed
qed

subsection \<open>The other senders\<close>

text \<open>A program of one sender leaves the timers of the others alone.\<close>

interpretation timers: prog_relation "\<lambda>w w'. \<forall>j. j \<noteq> k \<longrightarrow> last_timer j (trace w') = last_timer j (trace w)" for k
  by unfold_locales auto

definition own_timer :: "sender_key \<Rightarrow> 'a prog \<Rightarrow> bool" where
  "own_timer k p \<longleftrightarrow> preserves (\<lambda>w w'. \<forall>j. j \<noteq> k \<longrightarrow> last_timer j (trace w') = last_timer j (trace w)) p"

lemmas own_control = timers.pres_control [folded own_timer_def]

lemma own_quiet: "quiet p \<Longrightarrow> own_timer k p"
  by (simp add: own_timer_def preserves_def quietD)

lemma own_schedule: "(\<And>j old. j \<noteq> k \<Longrightarrow> timer_event j (Scheduled e) old = old) \<Longrightarrow> own_timer k (schedule e)"
  by (simp add: own_timer_def preserves_def schedule_def)

lemma own_telegram: "own_timer k (telegram q)"
  by (simp add: own_timer_def preserves_def telegram_def Let_def)

lemma own_peer: "own_timer k (telegram_peer p q)"
  by (cases p) (simp_all add: telegram_peer_def own_telegram own_control)

lemma own_attempt: "own_timer k p \<Longrightarrow> own_timer k (attempt p)"
  by (simp add: own_timer_def preserves_def attempt_def)

lemma own_need: "own_timer k (need e x)"
  by (cases x) (simp_all add: need_def own_control)

lemma own_need_sum: "own_timer k (need_sum x)"
  by (cases x) (simp_all add: need_sum_def own_control)

lemmas own_parts = own_control own_attempt own_need own_need_sum own_telegram own_peer
  own_quiet [OF quiet_change] own_quiet [OF quiet_transact] own_quiet [OF quiet_read_clock]

lemma own_restore: "own_timer k (restore_dialog peer j)"
  unfolding restore_dialog_def by (auto intro!: own_parts simp: Let_def split_beta)

lemma own_archive: "own_timer k (tg_archive_and_mute days peer j)"
  unfolding tg_archive_and_mute_def tg_restore_from_pending_def snapshot_dialog_def
  by (auto intro!: own_parts own_restore split: option.splits reply.splits sum.splits)

lemma own_send: "own_timer k (tg_send_text peer t reply_to formatting)"
  unfolding tg_send_text_def by (auto intro!: own_parts split: reply.splits)

lemma own_timeout: "own_timer k (adapter_schedule_timeout k at grace delay peer)"
  unfolding adapter_schedule_timeout_def by (intro own_parts own_schedule) auto

lemma own_actions:
  "own_timer k (archive_and_mute (telegram_actions days peer k))"
  "own_timer k (restore_from_pending (telegram_actions days peer k))"
  "own_timer k (delete_message (telegram_actions days peer k) i)"
  "own_timer k (send_text (telegram_actions days peer k) t reply_to formatting)"
  "own_timer k (schedule_timeout (telegram_actions days peer k) k at grace)"
  by (auto simp: telegram_actions_def tg_restore_from_pending_def tg_delete_message_def
      intro!: own_archive own_restore own_send own_timeout own_parts)

lemma own_restore_retry: "own_timer k (restore_with_retry (telegram_actions days peer k))"
proof -
  have "own_timer k (restore_tries (telegram_actions days peer k) n)" for n
    by (induction n) (auto intro!: own_parts own_actions)
  then show ?thesis by (simp add: restore_with_retry_def)
qed

lemma own_drop: "own_timer k (drop_recovery (telegram_actions days peer k) k i result now)"
  unfolding drop_recovery_def by (intro own_parts own_actions)

lemma own_activate: "own_timer k (activate_recovered (telegram_actions days peer k) k i now)"
  unfolding activate_recovered_def by (intro own_parts own_actions own_drop own_restore_retry)

lemma own_rebind: "own_timer k (rebind_recovered g (telegram_actions days peer k) k i now)"
  unfolding rebind_recovered_def by (intro own_parts own_drop own_activate)

lemma own_resend: "own_timer k (resend_prompt (telegram_actions days peer k) k state now)"
  unfolding resend_prompt_def
  by (auto intro!: own_parts own_actions split: option.splits list.splits)

lemma own_recover_incomplete:
  "own_timer k (recover_incomplete_challenge g (telegram_actions days peer k) k recovered)"
  unfolding recover_incomplete_challenge_def
  by (intro own_parts own_drop own_activate own_rebind own_resend)

lemma own_recover: "own_timer k (recover_challenge ad k state)"
  unfolding recover_challenge_def abandon_incomplete_challenge_def acts_for_def Let_def
  by (auto intro!: own_parts own_timeout own_recover_incomplete split: option.splits reply.splits)

lemma recover_steps: "keeps (sender_step UNIV k)\<^sup>*\<^sup>* (recover_challenge ad k state)"
  unfolding recover_challenge_def adapter_schedule_timeout_def acts_for_def Let_def
  by (auto intro!: steps.keeps_control tg.abandon_keeps tg.recover_keeps split: option.splits reply.splits)

lemma sender_steps_other_rows:
  "(sender_step C k)\<^sup>*\<^sup>* s s' \<Longrightarrow> j \<noteq> k \<Longrightarrow> map_of (sender_table s') j = map_of (sender_table s) j"
  by (induction rule: rtranclp_induct) (auto dest: sender_step_other_rows)

lemma recover_frame:
  assumes "j \<noteq> k" and "recover_challenge ad k state w = (x, w')"
  shows "row_at j w' = row_at j w" and "last_timer j (trace w') = last_timer j (trace w)"
  using keepsD [OF recover_steps, of k w ad state] own_recover [of k ad state] assms
  by (auto simp: row_at_def own_timer_def dest: sender_steps_other_rows dest!: preservesD [where w = w])

subsection \<open>All senders\<close>

text \<open>The recovery stopped: the server refused the history in which a prompt is looked for.\<close>

definition history_failed :: "(exn + unit) \<times> world \<Rightarrow> bool" where
  "history_failed r \<longleftrightarrow> (\<exists>e p w'. r = (Inl e, w') \<and> e \<in> {''TelegramError'', ''TypeError''}
     \<and> trace w' \<noteq> [] \<and> last (trace w') = Telegram (IterMessages p 10 True))"

lemma history_request:
  assumes "\<And>recovered. settles k (row_at k w) (f recovered)"
  shows "(\<exists>x w'. bind_prog (bind_prog (telegram (IterMessages p 10 True)) (\<lambda>r. case r of
        ReplyHistory hs \<Rightarrow> ret (h hs) | _ \<Rightarrow> raise_exn ''TypeError'')) f w = (Inr x, w')
      \<and> settled k (row_at k w') (trace w'))
    \<or> history_failed (bind_prog (bind_prog (telegram (IterMessages p 10 True)) (\<lambda>r. case r of
        ReplyHistory hs \<Rightarrow> ret (h hs) | _ \<Rightarrow> raise_exn ''TypeError'')) f w)"
proof -
  let ?w = "w\<lparr>calls := Suc (calls w), trace := trace w @ [Telegram (IterMessages p 10 True)]\<rparr>"
  have "row_at k ?w = row_at k w" by (simp add: row_at_def)
  with assms have f: "\<exists>x w'. f y ?w = (Inr x, w') \<and> settled k (row_at k w') (trace w')" for y
    unfolding settles_def by auto
  show ?thesis
    by (cases "replies w (calls w)")
      (use f in \<open>simp_all add: telegram_def Let_def bind_prog_def ret_def raise_exn_def history_failed_def\<close>)
qed

definition challenged_row :: "sender_row \<Rightarrow> bool" where
  "challenged_row r \<longleftrightarrow> row_ok r \<and> status r \<in> {CHALLENGE_ISSUING, CHALLENGE_ARCHIVING, CHALLENGED}"

lemma settles_run:
  "settles k (row_at k w) p \<Longrightarrow> \<exists>x w'. p w = (Inr x, w') \<and> settled k (row_at k w') (trace w')"
  unfolding settles_def by blast

lemma settles_unit: "settles k r p \<Longrightarrow> settles k r (bind_prog p (\<lambda>_. ret ()))"
  unfolding settles_def by (fastforce simp: bind_prog_def ret_def)

lemma timeout_settles:
  "status r = CHALLENGED \<Longrightarrow> challenge_expires_at r = Some at
    \<Longrightarrow> settles k (Some r) (adapter_schedule_timeout k at grace delay peer)"
  by (auto simp: settles_def adapter_schedule_timeout_def then_prog_def bind_prog_def schedule_def
      settled_def row_at_def status_sets simp flip: append_Cons append_assoc)

lemma recover_challenge_outcome:
  assumes r: "row_at k w = Some r" and ok: "challenged_row r"
  shows "(\<exists>w'. recover_challenge ad k (sender_state.truncate r) w = (Inr (), w') \<and> settled k (row_at k w') (trace w'))
    \<or> history_failed (recover_challenge ad k (sender_state.truncate r) w)"
proof (cases "status r = CHALLENGED")
  case True
  with ok obtain at where at: "challenge_expires_at r = Some at"
    unfolding challenged_row_def row_ok_def by blast
  with True have "settles k (row_at k w) (adapter_schedule_timeout k at grace delay peer)" for grace delay peer
    unfolding r by (rule timeout_settles)
  from settles_run [OF this] have "\<exists>w'. adapter_schedule_timeout k at grace delay peer w = (Inr (), w')
      \<and> settled k (row_at k w') (trace w')" for grace delay peer by fastforce
  with True at show ?thesis by (simp add: recover_challenge_def Let_def sender_state.defs)
next
  case False
  with ok have st: "status r \<in> CHALLENGE_STARTING_STATUSES" and row: "row_ok r"
    by (auto simp: challenged_row_def status_sets)
  have abandoned: ?thesis
    if "recover_challenge ad k (sender_state.truncate r) = abandon_incomplete_challenge k reason" for reason
    using settles_run [of k w, unfolded r, OF settles_triple [OF abandon_triple [OF st]]] that by simp
  show ?thesis
  proof (cases "Option.bind (challenge_action_reference r) (prot_open_review (gk_protector (ad_gatekeeper ad)))")
    case None
    then show ?thesis
      by (cases "challenge_action_reference r")
        (rule abandoned, use False in \<open>simp add: recover_challenge_def sender_state.defs\<close>)+
  next
    case (Some x)
    obtain user_id access_hash i where x: "x = (user_id, access_hash, i)" by (cases x)
    from Some obtain reference where reference: "challenge_action_reference r = Some reference"
        "prot_open_review (gk_protector (ad_gatekeeper ad)) reference = Some (user_id, access_hash, i)"
      using x by (cases "challenge_action_reference r") auto
    let ?f = "\<lambda>recovered. bind_prog (recover_incomplete_challenge (ad_gatekeeper ad)
      (acts_for ad (Some (PeerUser user_id access_hash)) k) k recovered) (\<lambda>_. ret ())"
    have f: "settles k (row_at k w) (?f recovered)" for recovered
      unfolding r acts_for_def by (intro settles_unit recover_incomplete_settles st row)
    show ?thesis
    proof (cases "status r = CHALLENGE_ISSUING \<and> sender_state.challenge_prompt r \<notin> {None, Some []}")
      case True
      then show ?thesis
        using history_request [of k w ?f, OF f] reference
        by (simp add: recover_challenge_def Let_def sender_state.defs)
    next
      case other: False
      with False show ?thesis
        using settles_run [OF f [of None]] reference
        by (auto simp: recover_challenge_def Let_def sender_state.defs)
    qed
  qed
qed

definition recoverable :: "world \<Rightarrow> (sender_key \<times> sender_state) list \<Rightarrow> bool" where
  "recoverable w rows \<longleftrightarrow> distinct (map fst rows) \<and>
     (\<forall>(k, state)\<in>set rows. \<exists>r. row_at k w = Some r \<and> challenged_row r \<and> state = sender_state.truncate r)"

lemma recover_rows_outcome:
  "recoverable w rows \<Longrightarrow>
    (\<exists>w'. recover_rows ad rows w = (Inr (), w')
      \<and> (\<forall>k\<in>fst ` set rows. settled k (row_at k w') (trace w'))
      \<and> (\<forall>j. j \<notin> fst ` set rows \<longrightarrow> row_at j w' = row_at j w \<and> last_timer j (trace w') = last_timer j (trace w)))
    \<or> history_failed (recover_rows ad rows w)"
proof (induction rows arbitrary: w)
  case Nil
  show ?case by (simp add: ret_def)
next
  case (Cons row rows)
  obtain k state where row: "row = (k, state)" by fastforce
  with Cons.prems obtain r where r: "row_at k w = Some r" "challenged_row r" "state = sender_state.truncate r"
    and new: "k \<notin> fst ` set rows" by (auto simp: recoverable_def)
  show ?case
  proof (cases "history_failed (recover_challenge ad k state w)")
    case True
    then show ?thesis by (auto simp: row then_prog_def bind_prog_def history_failed_def)
  next
    case False
    with recover_challenge_outcome [OF r(1,2), of ad] r(3) obtain w1 where
      one: "recover_challenge ad k state w = (Inr (), w1)" "settled k (row_at k w1) (trace w1)" by auto
    note frame = recover_frame [OF _ one(1)]
    have rest: "recover_rows ad (row # rows) w = recover_rows ad rows w1"
      by (simp add: row then_prog_def bind_prog_def one(1))
    have "recoverable w1 rows"
      using Cons.prems new frame(1) unfolding recoverable_def row by (fastforce simp: image_iff)
    from Cons.IH [OF this] show ?thesis
    proof
      assume "history_failed (recover_rows ad rows w1)"
      then show ?thesis unfolding rest by blast
    next
      assume "\<exists>w'. recover_rows ad rows w1 = (Inr (), w')
        \<and> (\<forall>k\<in>fst ` set rows. settled k (row_at k w') (trace w'))
        \<and> (\<forall>j. j \<notin> fst ` set rows \<longrightarrow> row_at j w' = row_at j w1 \<and> last_timer j (trace w') = last_timer j (trace w1))"
      then obtain w' where w': "recover_rows ad rows w1 = (Inr (), w')"
        "\<forall>k\<in>fst ` set rows. settled k (row_at k w') (trace w')"
        "\<And>j. j \<notin> fst ` set rows \<Longrightarrow> row_at j w' = row_at j w1 \<and> last_timer j (trace w') = last_timer j (trace w1)"
        by blast
      from w'(3) [OF new] one(2) have "settled k (row_at k w') (trace w')" by (simp add: settled_def)
      with w' frame show ?thesis unfolding rest by (auto simp: row)
    qed
  qed
qed

subsection \<open>The tasks\<close>

lemma recoverable_states: "wf_store (db w) \<Longrightarrow> recoverable w (challenge_states (db w))"
  by (auto simp: recoverable_def challenge_states_def wf_store_def keys_ok_def rows_ok_def challenged_row_def
      row_at_def sender_def comp_def split_beta keys_of_def intro: distinct_map_filter)

lemma test_cleanup_runs: "harmless (recover_test_sender_cleanup ad)"
  unfolding recover_test_sender_cleanup_def Let_def
  by (auto intro!: harmless_intros split: option.split)

lemma test_cleanup_timers: "last_timer k (trace (snd (recover_test_sender_cleanup ad w))) = last_timer k (trace w)"
proof -
  have "own_timer (CHR ''x'' # k) (recover_test_sender_cleanup ad)"
    unfolding recover_test_sender_cleanup_def Let_def
    by (auto intro!: own_parts own_schedule split: option.split)
  from preservesD [OF this [unfolded own_timer_def], of w] show ?thesis by force
qed

lemma schedule_deletions_run:
  "schedule_deletions xs w =
    (Inr (), w\<lparr>trace := trace w @ map (\<lambda>a. Scheduled (DialogDeletionJob (act_id a) (act_execute_at a))) xs\<rparr>)"
  by (induction xs arbitrary: w) (simp_all add: ret_def then_prog_def bind_prog_def schedule_def)

lemma deletions_timers:
  "last_timer k (es @ map (\<lambda>a. Scheduled (DialogDeletionJob (f a) (g a))) xs) = last_timer k es"
  by (induction xs arbitrary: es) (simp_all add: last_timer_def)

text \<open>The registries after a sequence of events, each job handed to the event loop in its turn, while no
  task runs yet.\<close>

fun spawn :: "event \<Rightarrow> task_table \<Rightarrow> task_table" where
  "spawn (Scheduled j) t = schedule_job j None t"
| "spawn (Telegram q) t = t"

definition spawned :: "event list \<Rightarrow> task_table" where
  "spawned es = fold spawn es no_tasks"

lemma spawned_snoc [simp]: "spawned (es @ [e]) = spawn e (spawned es)"
  by (simp add: spawned_def)

definition spawn_ok :: "task_table \<Rightarrow> bool" where
  "spawn_ok t \<longleftrightarrow> distinct (map fst (tt_tasks t)) \<and> tt_awake t = []
     \<and> (\<forall>i\<in>fst ` set (tt_tasks t). i < tt_next t) \<and> (\<forall>i\<in>set (tt_cancelled t). i < tt_next t)
     \<and> (\<forall>k i. map_of (tt_timeouts t) k = Some i \<longrightarrow> i \<notin> set (tt_cancelled t)
          \<and> (\<exists>j. map_of (tt_tasks t) i = Some j \<and> timer_of j = Some k))
     \<and> (\<forall>k. \<forall>i\<in>set (cleanup_of t k). \<exists>j. map_of (tt_tasks t) i = Some j \<and> cleanup_sender j = Some k)
     \<and> (\<forall>(i, j)\<in>set (tt_tasks t). timer_of j = None \<and> cleanup_sender j = None \<longrightarrow> i \<notin> set (tt_cancelled t))"

definition timer_job :: "task_table \<Rightarrow> sender_key \<Rightarrow> job option" where
  "timer_job t k = Option.bind (map_of (tt_timeouts t) k) (map_of (tt_tasks t))"

lemma timer_or_cleanup: "timer_of j = None \<or> cleanup_sender j = None"
  by (cases j) simp_all

lemma spawn_cancel_timeout:
  assumes ok: "spawn_ok t"
  shows "spawn_ok (task_cancel_timeout k None t)"
    and "timer_job (task_cancel_timeout k None t) j = (if j = k then None else timer_job t j)"
    and "map_of (tt_timeouts (task_cancel_timeout k None t)) k = None"
proof -
  have "spawn_ok (cancel_other None i (t\<lparr>tt_timeouts := AList.delete k (tt_timeouts t)\<rparr>))"
    if i: "map_of (tt_timeouts t) k = Some i" for i
  proof -
    obtain j where j: "map_of (tt_tasks t) i = Some j" "timer_of j = Some k" "i < tt_next t"
      using ok i unfolding spawn_ok_def by (metis map_of_SomeD fst_conv image_eqI)
    have other: "n \<noteq> i" if "map_of (tt_timeouts t) k' = Some n" "k' \<noteq> k" for k' n
      using ok that j unfolding spawn_ok_def by (metis option.inject)
    have plain: "n \<noteq> i" if "(n, j') \<in> set (tt_tasks t)" "timer_of j' = None" for n j'
      using ok that j unfolding spawn_ok_def by (metis map_of_is_SomeI option.inject option.distinct(1))
    let ?t = "cancel_other None i (t\<lparr>tt_timeouts := AList.delete k (tt_timeouts t)\<rparr>)"
    have "cleanup_of ?t = cleanup_of t" "tt_cancelled ?t = i # tt_cancelled t"
      by (simp_all add: fun_eq_iff cleanup_of_def cancel_other_def cancel_task_def)
    then show ?thesis using ok j other plain unfolding spawn_ok_def by (auto simp: delete_conv')
  qed
  then show "spawn_ok (task_cancel_timeout k None t)"
    using ok by (auto simp: task_cancel_timeout_def split: option.split)
  show "timer_job (task_cancel_timeout k None t) j = (if j = k then None else timer_job t j)"
    and "map_of (tt_timeouts (task_cancel_timeout k None t)) k = None"
    by (auto simp: timer_job_def task_cancel_timeout_def delete_conv' split: option.split)
qed

lemma spawn_forget:
  assumes ok: "spawn_ok t"
  shows "spawn_ok (forget_sender_runtime_refs k None t)"
    and "timer_job (forget_sender_runtime_refs k None t) = timer_job t"
proof -
  have timer: "i \<notin> set (cleanup_of t k)" if "map_of (tt_timeouts t) k' = Some i" for k' i
    using ok that timer_or_cleanup unfolding spawn_ok_def by (metis option.inject option.distinct(1))
  have plain: "i \<notin> set (cleanup_of t k)" if "(i, j) \<in> set (tt_tasks t)" "cleanup_sender j = None" for i j
    using ok that unfolding spawn_ok_def by (metis map_of_is_SomeI option.inject option.distinct(1))
  have next_id: "i < tt_next t" if "i \<in> set (cleanup_of t k)" for i
    using ok that unfolding spawn_ok_def by (metis map_of_SomeD fst_conv image_eqI)
  have rest: "cleanup_of (t\<lparr>tt_cleanup := AList.delete k (tt_cleanup t)\<rparr>) k' = (if k' = k then [] else cleanup_of t k')"
    for k' by (simp add: cleanup_of_def delete_conv')
  show "spawn_ok (forget_sender_runtime_refs k None t)"
    using ok timer plain next_id
    unfolding spawn_ok_def forget_sender_runtime_refs_def by (auto simp: cancelled_others rest)
  show "timer_job (forget_sender_runtime_refs k None t) = timer_job t"
    by (simp add: fun_eq_iff timer_job_def forget_sender_runtime_refs_def)
qed

lemma spawn_create:
  assumes ok: "spawn_ok t" and j: "timer_of j = Some k \<Longrightarrow> map_of (tt_timeouts t) k = None"
  defines "t' \<equiv> create_task j t"
  shows "timer_of j = None \<Longrightarrow> cleanup_sender j = None \<Longrightarrow> spawn_ok (t'\<lparr>tt_maintenance := is\<rparr>)"
    and "cleanup_sender j = Some k
      \<Longrightarrow> spawn_ok (t'\<lparr>tt_maintenance := is, tt_cleanup := AList.update k (tt_next t # cleanup_of t k) (tt_cleanup t)\<rparr>)"
    and "timer_of j = Some k \<Longrightarrow> spawn_ok (t'\<lparr>tt_timeouts := AList.update k (tt_next t) (tt_timeouts t)\<rparr>)"
    and "timer_job t' k' = timer_job t k'"
    and "timer_job (t'\<lparr>tt_timeouts := AList.update k (tt_next t) (tt_timeouts t)\<rparr>) k'
      = (if k' = k then Some j else timer_job t k')"
proof -
  have fresh: "map_of (tt_tasks t) (tt_next t) = None" "tt_next t \<notin> set (tt_cancelled t)"
      "tt_next t \<notin> fst ` set (tt_tasks t)"
    using ok unfolding spawn_ok_def by (auto simp: map_of_eq_None_iff)
  have keep: "map_of (tt_tasks t @ [(tt_next t, j)]) i = (if i = tt_next t then Some j else map_of (tt_tasks t) i)" for i
    using fresh(1) by (auto simp: map_add_def split: option.split)
  have registered: "i \<noteq> tt_next t" if "map_of (tt_timeouts t) k' = Some i" for i k'
    using ok that fresh(1) unfolding spawn_ok_def by (metis option.distinct(1))
  have cleanup: "i \<noteq> tt_next t" if "i \<in> set (cleanup_of t k')" for i k'
    using ok that fresh(1) unfolding spawn_ok_def by (metis option.distinct(1))
  have created: "tt_next t' = Suc (tt_next t)" "tt_tasks t' = tt_tasks t @ [(tt_next t, j)]" "tt_awake t' = tt_awake t"
    "tt_cancelled t' = tt_cancelled t" "tt_timeouts t' = tt_timeouts t" "cleanup_of t' = cleanup_of t"
    by (simp_all add: t'_def)
  have old: "map_of (tt_tasks t @ [(tt_next t, j)]) i = map_of (tt_tasks t) i"
    if "map_of (tt_timeouts t) k' = Some i \<or> i \<in> set (cleanup_of t k')" for i k'
    using that registered cleanup keep by metis
  show "timer_of j = None \<Longrightarrow> cleanup_sender j = None \<Longrightarrow> spawn_ok (t'\<lparr>tt_maintenance := is\<rparr>)"
    using ok fresh old unfolding spawn_ok_def
    by (simp add: created less_Suc_eq del: map_of_append) (blast dest: map_of_SomeD)
  show "spawn_ok (t'\<lparr>tt_maintenance := is, tt_cleanup := AList.update k (tt_next t # cleanup_of t k) (tt_cleanup t)\<rparr>)"
    if j: "cleanup_sender j = Some k"
  proof -
    let ?t = "t'\<lparr>tt_maintenance := is, tt_cleanup := AList.update k (tt_next t # cleanup_of t k) (tt_cleanup t)\<rparr>"
    have clean: "cleanup_of ?t k' = (if k' = k then tt_next t # cleanup_of t k else cleanup_of t k')" for k'
      by (simp add: cleanup_of_def update_conv')
    have "\<exists>j'. map_of (tt_tasks ?t) i = Some j' \<and> cleanup_sender j' = Some k'" if "i \<in> set (cleanup_of ?t k')" for i k'
    proof (cases "i = tt_next t")
      case True
      with that j cleanup [of i k'] show ?thesis using fresh(1) by (auto simp: clean created map_add_def split: if_splits)
    next
      case False
      with that have i: "i \<in> set (cleanup_of t k')" by (auto simp: clean split: if_splits)
      with ok obtain j' where "map_of (tt_tasks t) i = Some j'" "cleanup_sender j' = Some k'"
        unfolding spawn_ok_def by blast
      with old [of k' i] i show ?thesis by (simp add: created del: map_of_append)
    qed
    moreover have "timer_of j = None" using j timer_or_cleanup [of j] by auto
    ultimately show ?thesis
      using ok fresh old j unfolding spawn_ok_def
      by (simp add: created less_Suc_eq del: map_of_append) (blast dest: map_of_SomeD)
  qed
  show "spawn_ok (t'\<lparr>tt_timeouts := AList.update k (tt_next t) (tt_timeouts t)\<rparr>)" if j: "timer_of j = Some k"
  proof -
    let ?t = "t'\<lparr>tt_timeouts := AList.update k (tt_next t) (tt_timeouts t)\<rparr>"
    have "i \<notin> set (tt_cancelled ?t) \<and> (\<exists>j'. map_of (tt_tasks ?t) i = Some j' \<and> timer_of j' = Some k')"
      if i: "map_of (tt_timeouts ?t) k' = Some i" for i k'
    proof (cases "k' = k")
      case True
      with i j fresh show ?thesis by (simp add: created update_conv' map_add_def)
    next
      case False
      with i have i': "map_of (tt_timeouts t) k' = Some i" by (simp add: update_conv')
      with ok obtain j' where "map_of (tt_tasks t) i = Some j'" "timer_of j' = Some k'" "i \<notin> set (tt_cancelled t)"
        unfolding spawn_ok_def by blast
      with old [of k' i] i' show ?thesis by (simp add: created del: map_of_append)
    qed
    then show ?thesis
      using ok fresh old j unfolding spawn_ok_def
      by (simp add: created less_Suc_eq del: map_of_append) (blast dest: map_of_SomeD)
  qed
  show "timer_job t' k' = timer_job t k'"
    and "timer_job (t'\<lparr>tt_timeouts := AList.update k (tt_next t) (tt_timeouts t)\<rparr>) k'
      = (if k' = k then Some j else timer_job t k')"
    using registered by (auto simp: timer_job_def created keep update_conv' simp del: map_of_append split: bind_split)
qed

lemma timer_job_registries [simp]:
  "timer_job (t\<lparr>tt_maintenance := is\<rparr>) = timer_job t" "timer_job (t\<lparr>tt_cleanup := x\<rparr>) = timer_job t"
  by (simp_all add: fun_eq_iff timer_job_def)

lemma spawn_timeout:
  assumes ok: "spawn_ok t" and j: "timer_of j = Some k"
  shows "spawn_ok (task_schedule_timeout k j None t)"
    and "timer_job (task_schedule_timeout k j None t) k' = (if k' = k then Some j else timer_job t k')"
proof -
  note cancel = spawn_cancel_timeout [OF ok, where k = k]
  have free: "timer_of j = Some k1 \<Longrightarrow> map_of (tt_timeouts (task_cancel_timeout k None t)) k1 = None" for k1
    using j cancel(3) by simp
  show "spawn_ok (task_schedule_timeout k j None t)"
    using spawn_create(3) [OF cancel(1) free j] j by (simp add: task_schedule_timeout_def Let_def)
  show "timer_job (task_schedule_timeout k j None t) k' = (if k' = k then Some j else timer_job t k')"
    using spawn_create(5) [OF cancel(1) free, where k = k and k' = k'] cancel(2)
    by (simp add: task_schedule_timeout_def Let_def)
qed

lemma spawn_maintenance:
  assumes ok: "spawn_ok t" and j: "timer_of j = None" "cleanup_sender j = None"
  shows "spawn_ok (track_maintenance_task j t)" and "timer_job (track_maintenance_task j t) k' = timer_job t k'"
  using spawn_create(1,4) [OF ok, where j = j] j by (simp_all add: track_maintenance_task_def)

lemma spawn_cleanup:
  assumes ok: "spawn_ok t" and j: "cleanup_sender j = Some k"
  shows "spawn_ok (track_sender_cleanup_task k j t)" and "timer_job (track_sender_cleanup_task k j t) k' = timer_job t k'"
proof -
  have none: "timer_of j = None" using j timer_or_cleanup [of j] by auto
  show "spawn_ok (track_sender_cleanup_task k j t)"
    using spawn_create(2) [OF ok _ j] none by (simp add: track_sender_cleanup_task_def track_maintenance_task_def)
  show "timer_job (track_sender_cleanup_task k j t) k' = timer_job t k'"
    using spawn_create(4) [OF ok, where j = j] none
    by (simp add: track_sender_cleanup_task_def track_maintenance_task_def)
qed

lemma spawn_schedule:
  assumes ok: "spawn_ok t"
  shows "spawn_ok (schedule_job j None t)"
    and "timer_job (schedule_job j None t) k = timer_event k (Scheduled j) (timer_job t k)"
  by (cases j; simp add: spawn_timeout spawn_maintenance spawn_cleanup spawn_cancel_timeout spawn_forget ok)+

lemma spawned_ok: "spawn_ok (spawned es)"
  and spawned_timers: "timer_job (spawned es) k = last_timer k es"
proof -
  have "spawn_ok (spawned es) \<and> timer_job (spawned es) k = last_timer k es"
  proof (induction es rule: rev_induct)
    case Nil
    show ?case by (simp add: spawned_def no_tasks_def spawn_ok_def timer_job_def last_timer_def cleanup_of_def)
  next
    case (snoc e es)
    then show ?case by (cases e) (simp_all add: spawn_schedule)
  qed
  then show "spawn_ok (spawned es)" "timer_job (spawned es) k = last_timer k es" by simp_all
qed

lemma sleeping_timer:
  assumes "last_timer k es = Some j"
  shows "\<exists>i. sleeping (spawned es) i j"
proof -
  from assms have "timer_job (spawned es) k = Some j" by (simp add: spawned_timers)
  then obtain i where "map_of (tt_timeouts (spawned es)) k = Some i" "map_of (tt_tasks (spawned es)) i = Some j"
    by (auto simp: timer_job_def bind_eq_Some_conv)
  then have "sleeping (spawned es) i j"
    using spawned_ok [of es] unfolding spawn_ok_def sleeping_def by (auto dest: map_of_SomeD)
  then show ?thesis ..
qed

lemma tasks_stay: "set (tt_tasks t) \<subseteq> set (tt_tasks (schedule_job j None t))"
  by (cases j) (auto simp: task_schedule_timeout_def task_cancel_timeout_def Let_def track_maintenance_task_def
      track_sender_cleanup_task_def forget_sender_runtime_refs_def split: option.split)

lemma sleeping_deletion:
  assumes "Scheduled (DialogDeletionJob n at) \<in> set es"
  shows "\<exists>i. sleeping (spawned es) i (DialogDeletionJob n at)"
proof -
  from assms have "DialogDeletionJob n at \<in> snd ` set (tt_tasks (spawned es))"
  proof (induction es rule: rev_induct)
    case (snoc e es)
    then show ?case
      using tasks_stay [of "spawned es"] by (cases e) (auto simp: track_maintenance_task_def image_iff)
  qed simp
  then obtain i where "(i, DialogDeletionJob n at) \<in> set (tt_tasks (spawned es))" by force
  with spawned_ok [of es] have "sleeping (spawned es) i (DialogDeletionJob n at)"
    unfolding spawn_ok_def sleeping_def by fastforce
  then show ?thesis ..
qed

definition recovered_fully :: "world \<Rightarrow> bool" where
  "recovered_fully w \<longleftrightarrow>
     (\<forall>k r. map_of (sender_table (db w)) k = Some r \<longrightarrow>
        status r \<notin> CHALLENGE_STARTING_STATUSES
        \<and> (status r = CHALLENGED \<longrightarrow> (\<exists>at. challenge_expires_at r = Some at
             \<and> (at \<noteq> 0 \<longrightarrow> (\<exists>i grace delay peer. sleeping (spawned (trace w)) i (TimeoutJob k at grace delay peer))))))
     \<and> (\<forall>a\<in>set (pending_actions (db w)).
          \<exists>i. sleeping (spawned (trace w)) i (DialogDeletionJob (act_id a) (act_execute_at a)))"

text \<open>C17. Recovery at start-up is complete. A new process that finishes it leaves no challenge half-issued;
  every challenged sender has a timer for the expiry in its row that waits in the registries, and every open
  deletion job has its task. The only way not to finish is that the server refuses one of the histories in
  which a lost prompt is looked for, which ends the start.\<close>

theorem recovery_complete:
  assumes "wf_store (db w)"
  shows "(\<exists>w'. recover ad w = (Inr (), w') \<and> recovered_fully w') \<or> history_failed (recover ad w)"
proof -
  from recover_rows_outcome [OF recoverable_states [OF assms], of ad] show ?thesis
  proof
    assume "history_failed (recover_rows ad (challenge_states (db w)) w)"
    then show ?thesis
      by (auto simp: recover_def recover_challenges_def then_prog_def bind_prog_def query_def history_failed_def)
  next
    let ?ks = "fst ` set (challenge_states (db w))"
    assume "\<exists>w1. recover_rows ad (challenge_states (db w)) w = (Inr (), w1)
      \<and> (\<forall>k\<in>?ks. settled k (row_at k w1) (trace w1))
      \<and> (\<forall>j. j \<notin> ?ks \<longrightarrow> row_at j w1 = row_at j w \<and> last_timer j (trace w1) = last_timer j (trace w))"
    then obtain w1 where w1: "recover_rows ad (challenge_states (db w)) w = (Inr (), w1)"
      "\<And>k. k \<in> ?ks \<Longrightarrow> settled k (row_at k w1) (trace w1)"
      "\<And>j. j \<notin> ?ks \<Longrightarrow> row_at j w1 = row_at j w" by blast
    obtain w2 where w2: "recover_test_sender_cleanup ad w1 = (Inr (), w2)" "sender_table (db w2) = sender_table (db w1)"
      by (rule harmlessE [OF test_cleanup_runs]) auto
    define w3 where "w3 = w2\<lparr>trace := trace w2
      @ map (\<lambda>a. Scheduled (DialogDeletionJob (act_id a) (act_execute_at a))) (pending_actions (db w2))\<rparr>"
    have run: "recover ad w = (Inr (), w3)"
      by (simp add: recover_def recover_challenges_def recover_pending_actions_def then_prog_def bind_prog_def
          query_def w1(1) w2(1) schedule_deletions_run w3_def)
    have settled: "settled k (row_at k w3) (trace w3)" for k
    proof (cases "k \<in> ?ks")
      case True
      with w1(2) [OF this] w2 test_cleanup_timers [of k ad w1] show ?thesis
        by (simp add: settled_def row_at_def w3_def deletions_timers)
    next
      case False
      with w1(3) [OF False] w2(2) show ?thesis
        by (fastforce simp: settled_def row_at_def w3_def challenge_states_def status_sets image_iff split_beta
            dest: map_of_SomeD)
    qed
    have "recovered_fully w3"
      unfolding recovered_fully_def
    proof (intro conjI allI impI ballI)
      fix k r assume r: "map_of (sender_table (db w3)) k = Some r"
      note ok = settled [of k, unfolded settled_def row_at_def r]
      then show "status r \<notin> CHALLENGE_STARTING_STATUSES" by blast
      show "\<exists>at. challenge_expires_at r = Some at \<and> (at \<noteq> 0 \<longrightarrow>
          (\<exists>i grace delay peer. sleeping (spawned (trace w3)) i (TimeoutJob k at grace delay peer)))"
        if "status r = CHALLENGED"
        using ok that sleeping_timer [of k "trace w3"] by blast
    next
      fix a assume "a \<in> set (pending_actions (db w3))"
      then show "\<exists>i. sleeping (spawned (trace w3)) i (DialogDeletionJob (act_id a) (act_execute_at a))"
        by (intro sleeping_deletion) (auto simp: w3_def)
    qed
    with run show ?thesis by blast
  qed
qed

definition crashed_store :: store where
  "crashed_store = demo_store Protect [(''me'', demo_row CHALLENGED), (''other'', (demo_row CHALLENGE_ARCHIVING)\<lparr>challenge_prompt := Some [55]\<rparr>)]"

lemma recovery_complete_witness:
  "\<exists>w'. recover demo_adapter (demo_world crashed_store) = (Inr (), w') \<and> recovered_fully w'"
proof -
  have "wf_store (db (demo_world crashed_store))"
    by (simp add: demo_world_def crashed_store_def demo_store_def demo_row_def wf_store_def keys_ok_def rows_ok_def
        row_ok_def reviews_ok_def actions_ok_def ids_ok_def at_most_one_def empty_store_def set_state_row_def status_sets
        keys_of_def)
  from recovery_complete [OF this, of demo_adapter] show ?thesis
  proof
    assume "history_failed (recover demo_adapter (demo_world crashed_store))"
    moreover have "fst (recover demo_adapter (demo_world crashed_store)) = Inr ()" by code_simp
    ultimately show ?thesis by (auto simp: history_failed_def)
  qed
qed

end
