(* ===== verification/Initialize.thy ===== *)
theory Initialize
  imports Config
begin

text \<open>
  \<open>scripts/initialize.py\<close>: the six private files a new installation starts from, and that the core
  starts with them; the scripts \<open>generate_hmac_key.py\<close>, \<open>generate_review_key.py\<close> and
  \<open>generate_session.py\<close>, which make one of these files each. The answers at the prompts, the result of the Telegram login (a session text, or
  an exception of the client) and the two random keys are arguments, and so is what the file system
  does to each write.
\<close>

text \<open>A directory: the mode and the bytes of each file. The scripts create every file with the mode 0600
  (an umask that takes even the owner's bits away is left out).\<close>

type_synonym disk = "ustring \<Rightarrow> (nat \<times> blob) option"

definition CREATION_MODE :: nat where
  "CREATION_MODE = 384"

abbreviation owner_only :: "blob \<Rightarrow> nat \<times> blob" where
  "owner_only b \<equiv> (CREATION_MODE, b)"

text \<open>What happens to a write: it succeeds, the file cannot be created, or it is created and the write
  breaks off after some bytes. An interrupt from the keyboard is left out.\<close>

datatype write_outcome = Written | NotCreated | BrokenOff nat

definition TARGETS :: "ustring list" where
  "TARGETS = map ustr [''telegram.api-hash.secret'', ''telegram.session.secret'', ''hmac.key'', ''review.key'',
     ''config.env'', ''deny-domains.txt'']"

definition api_hash_ok :: "ustring \<Rightarrow> bool" where
  "api_hash_ok h \<longleftrightarrow> length h = 32 \<and> list_all (\<lambda>c. hex_val c \<noteq> None) h"

definition write_private_file :: "write_outcome \<Rightarrow> ustring \<Rightarrow> blob \<Rightarrow> disk \<Rightarrow> (exn + unit) \<times> disk" where
  "write_private_file outcome path content d =
    (if d path \<noteq> None then (Inl ''FileExistsError'', d)
     else (case outcome of
        Written \<Rightarrow> (Inr (), d(path \<mapsto> owner_only content))
      | NotCreated \<Rightarrow> (Inl ''OSError'', d)
      | BrokenOff n \<Rightarrow> (Inl ''OSError'', d(path \<mapsto> owner_only (take n content)))))"

text \<open>The loop over \<open>values.items()\<close>; on an exception the files created so far are removed again.\<close>

fun write_files :: "(ustring \<Rightarrow> write_outcome) \<Rightarrow> (ustring \<times> blob) list \<Rightarrow> ustring list \<Rightarrow> disk \<Rightarrow> (exn + unit) \<times> disk" where
  "write_files outcome [] created d = (Inr (), d)"
| "write_files outcome ((path, content) # rest) created d =
     (case write_private_file (outcome path) path content d of
        (Inl e, d') \<Rightarrow> (Inl e, fold (\<lambda>p d. d(p := None)) created d')
      | (Inr _, d') \<Rightarrow> write_files outcome rest (created @ [path]) d')"

definition config_entries :: "int \<Rightarrow> (string \<times> ustring) list" where
  "config_entries number =
    [(''TG_API_ID'', show_int number),
     (''TG_DB_PATH'', ustr ''/var/lib/tg-pm-gatekeeper/state.sqlite3''),
     (''TG_API_HASH_FILE'', ustr ''/run/secrets/telegram_api_hash''),
     (''TG_SESSION_FILE'', ustr ''/run/secrets/telegram_session''),
     (''TG_HMAC_KEY_FILE'', ustr ''/run/secrets/hmac_key''),
     (''TG_REVIEW_KEY_FILE'', ustr ''/run/secrets/review_key''),
     (''TG_DENYLIST_FILE'', ustr ''/run/config/deny-domains.txt''),
     (''TG_CHALLENGE_TTL_SECONDS'', ustr ''60''),
     (''TG_CHALLENGE_MAX_ATTEMPTS'', ustr ''2''),
     (''TG_AUDIT_RETENTION_DAYS'', ustr ''30''),
     (''TG_PENDING_REVIEW_RETENTION_DAYS'', ustr ''7''),
     (''TG_ACTIVE_CASE_RETENTION_DAYS'', ustr ''30''),
     (''TG_ARCHIVED_RESTRICTION_RETENTION_DAYS'', []),
     (''TG_MUTE_DAYS'', ustr ''3650''),
     (''TG_OUTBOUND_LIMIT_PER_HOUR'', ustr ''10''),
     (''TG_OUTBOUND_NOTICE_RESERVE_PER_HOUR'', ustr ''3''),
     (''TG_OUTBOUND_NOTICE_LIMIT_PER_SENDER_PER_HOUR'', ustr ''3''),
     (''TG_TELEGRAM_OPERATOR_CONTROLS_ENABLED'', ustr ''false''),
     (''TG_TEST_SENDER_ID'', [])]"

definition render_config :: "int \<Rightarrow> blob" where
  "render_config number = bytes_of (concat (map (\<lambda>(name, t). ustr name @ [61] @ t @ [10]) (config_entries number)))"

record answers =
  an_api_id :: ustring
  an_api_hash :: ustring
  an_phone :: ustring

definition initial_files :: "int \<Rightarrow> ustring \<Rightarrow> blob \<Rightarrow> blob \<Rightarrow> blob \<Rightarrow> (ustring \<times> blob) list" where
  "initial_files number api_hash session key1 key2 = zip TARGETS
    [bytes_of api_hash @ [10], session, key1, key2, render_config number,
     ascii_bytes ''# One normalized denied domain per line.'' @ [10]]"

definition initialize ::
  "(nat \<Rightarrow> nat option) \<Rightarrow> answers \<Rightarrow> exn + ustring \<Rightarrow> blob \<Rightarrow> blob \<Rightarrow> (ustring \<Rightarrow> write_outcome)
   \<Rightarrow> disk \<Rightarrow> (exn + unit) \<times> disk" where
  "initialize nd an login key1 key2 outcome d =
    (if list_ex (\<lambda>p. d p \<noteq> None) TARGETS then (Inl ''SystemExit'', d)
     else (case py_int nd (strip (an_api_id an)) of
        None \<Rightarrow> (Inl ''SystemExit'', d)
      | Some number \<Rightarrow>
          (let api_hash = strip (an_api_hash an) in
           if number \<le> 0 \<or> \<not> api_hash_ok api_hash then (Inl ''SystemExit'', d)
           else if strip (an_phone an) = [] then (Inl ''SystemExit'', d)
           else (case login of
              Inl e \<Rightarrow> (Inl e, d)
            | Inr session \<Rightarrow> (case ascii_encode session of
                None \<Rightarrow> (Inl ''UnicodeEncodeError'', d)
              | Some s \<Rightarrow>
                  write_files outcome (initial_files number api_hash (s @ [10]) key1 key2) [] d)))))"

text \<open>The scripts that make one file each: a new key, or a new Telegram session. The text file of the
  session is created before its text is encoded.\<close>

definition generate_key :: "ustring \<Rightarrow> blob \<Rightarrow> write_outcome \<Rightarrow> disk \<Rightarrow> (exn + unit) \<times> disk" where
  "generate_key destination key outcome d =
    (if d destination \<noteq> None then (Inl ''SystemExit'', d) else write_private_file outcome destination key d)"

definition generate_hmac_key :: "blob \<Rightarrow> write_outcome \<Rightarrow> disk \<Rightarrow> (exn + unit) \<times> disk" where
  "generate_hmac_key = generate_key (ustr ''hmac.key'')"

definition generate_review_key :: "blob \<Rightarrow> write_outcome \<Rightarrow> disk \<Rightarrow> (exn + unit) \<times> disk" where
  "generate_review_key = generate_key (ustr ''review.key'')"

definition generate_session ::
  "(nat \<Rightarrow> nat option) \<Rightarrow> answers \<Rightarrow> exn + ustring \<Rightarrow> write_outcome \<Rightarrow> disk \<Rightarrow> (exn + unit) \<times> disk" where
  "generate_session nd an login outcome d =
    (let destination = ustr ''telegram.session.secret'' in
     if d destination \<noteq> None then (Inl ''SystemExit'', d)
     else if py_int nd (strip (an_api_id an)) = None then (Inl ''ValueError'', d)
     else (case login of
        Inl e \<Rightarrow> (Inl e, d)
      | Inr session \<Rightarrow> (case ascii_encode session of
          None \<Rightarrow> (case write_private_file outcome destination [] d of
              (Inl e, d') \<Rightarrow> (Inl e, d')
            | (Inr _, d') \<Rightarrow> (Inl ''UnicodeEncodeError'', d'))
        | Some s \<Rightarrow> write_private_file outcome destination (s @ [10]) d)))"

text \<open>The mounts of \<open>compose.yaml\<close>: the files are private, and the denylist is read as UTF-8.\<close>

definition MOUNTS :: "(ustring \<times> ustring) list" where
  "MOUNTS = map (\<lambda>(inside, file). (ustr inside, ustr file))
    [(''/run/secrets/telegram_api_hash'', ''telegram.api-hash.secret''),
     (''/run/secrets/telegram_session'', ''telegram.session.secret''),
     (''/run/secrets/hmac_key'', ''hmac.key''), (''/run/secrets/review_key'', ''review.key''),
     (''/run/config/deny-domains.txt'', ''deny-domains.txt'')]"

definition mounted :: "disk \<Rightarrow> ustring \<Rightarrow> (nat \<times> blob) option" where
  "mounted d path = Option.bind (map_of MOUNTS path) d"

definition deployed :: "disk \<Rightarrow> file_system" where
  "deployed d path = map_option (\<lambda>(m, b). \<lparr>pf_kind = RegularFile, pf_mode = m, pf_bytes = Some b\<rparr>) (mounted d path)"

definition deployed_texts :: "disk \<Rightarrow> ustring \<Rightarrow> ustring option option" where
  "deployed_texts d path = map_option (utf8_decode False \<circ> snd) (mounted d path)"

subsection \<open>Writing the files\<close>

text \<open>A run that failed: the files created are gone, except one whose own write broke off.\<close>

definition undone :: "(ustring \<Rightarrow> write_outcome) \<Rightarrow> ustring list \<Rightarrow> ustring set \<Rightarrow> disk \<Rightarrow> disk \<Rightarrow> bool" where
  "undone outcome files created d d' \<longleftrightarrow> (\<forall>p. d' p = (if p \<in> created then None else d p)
     \<or> p \<in> set files \<and> d p = None \<and> (\<exists>n. outcome p = BrokenOff n))"

lemma unlink_all: "fold (\<lambda>p d. d(p := None)) ps d = (\<lambda>p. if p \<in> set ps then None else d p)"
  by (induction ps arbitrary: d) (auto simp: fun_eq_iff)

lemma write_files_outcome:
  "distinct (map fst files) \<Longrightarrow> case write_files outcome files created d of
      (Inr _, d') \<Rightarrow> (\<forall>p\<in>fst ` set files. d p = None) \<and> d' = d ++ (map_option owner_only \<circ> map_of files)
    | (Inl _, d') \<Rightarrow> undone outcome (map fst files) (set created) d d'"
proof (induction outcome files created d rule: write_files.induct)
  case (1 outcome created d)
  show ?case by simp
next
  case (2 outcome path content rest created d)
  let ?w = "write_private_file (outcome path) path content d"
  show ?case
  proof (cases "fst ?w")
    case (Inl e)
    then show ?thesis
      by (auto simp: write_private_file_def undone_def unlink_all split: prod.split if_splits write_outcome.splits)
  next
    case (Inr u)
    then have w: "?w = (Inr (), d(path \<mapsto> owner_only content))" and absent: "d path = None"
      by (cases "d path"; auto simp: write_private_file_def split: write_outcome.splits)+
    have new: "path \<notin> fst ` set rest" and dist: "distinct (map fst rest)" using "2.prems" by auto
    from "2.IH" [OF w [symmetric] refl dist] have IH: "case write_files outcome rest (created @ [path]) (d(path \<mapsto> owner_only content)) of
        (Inr _, d') \<Rightarrow> (\<forall>p\<in>fst ` set rest. (d(path \<mapsto> owner_only content)) p = None) \<and> d' = d(path \<mapsto> owner_only content) ++ (map_option owner_only \<circ> map_of rest)
      | (Inl _, d') \<Rightarrow> undone outcome (map fst rest) (set (created @ [path])) (d(path \<mapsto> owner_only content)) d'" .
    have "m(path \<mapsto> owner_only content) ++ (map_option owner_only \<circ> map_of rest) = m ++ (map_option owner_only \<circ> (map_of rest)(path \<mapsto> content))" for m :: disk
      using new by (auto simp: fun_eq_iff map_add_def map_of_eq_None_iff [symmetric] split: option.split)
    moreover have "write_files outcome ((path, content) # rest) created d
        = write_files outcome rest (created @ [path]) (d(path \<mapsto> owner_only content))" by (simp add: w)
    moreover have "undone outcome (map fst ((path, content) # rest)) (set created) d d'"
      if "undone outcome (map fst rest) (set (created @ [path])) (d(path \<mapsto> owner_only content)) d'" for d'
      unfolding undone_def
    proof
      fix p
      from that have "d' p = (if p \<in> set (created @ [path]) then None else (d(path \<mapsto> owner_only content)) p)
          \<or> p \<in> fst ` set rest \<and> (d(path \<mapsto> owner_only content)) p = None \<and> (\<exists>n. outcome p = BrokenOff n)"
        unfolding undone_def set_map by blast
      then show "d' p = (if p \<in> set created then None else d p)
          \<or> p \<in> set (map fst ((path, content) # rest)) \<and> d p = None \<and> (\<exists>n. outcome p = BrokenOff n)"
        by (cases "p = path") (use absent new in auto)
    qed
    moreover have "d p = None" if "(d(path \<mapsto> owner_only content)) p = None" for p using that by (auto split: if_splits)
    moreover obtain r d' where "write_files outcome rest (created @ [path]) (d(path \<mapsto> owner_only content)) = (r, d')" by fastforce
    ultimately show ?thesis using IH absent by (cases r) simp_all
  qed
qed

subsection \<open>The configuration\<close>

text \<open>The table of decimal digits outside ASCII has digits.\<close>

definition digit_table :: "(nat \<Rightarrow> nat option) \<Rightarrow> bool" where
  "digit_table nd \<longleftrightarrow> (\<forall>c d. nd c = Some d \<longrightarrow> d < 10)"

lemma split_on_none: "c \<notin> set s \<Longrightarrow> split_on c s acc = [rev acc @ s]"
  by (induction s arbitrary: acc) auto

lemma decimal_digits:
  "list_all is_digit s \<Longrightarrow> foldl (\<lambda>n c. 10 * n + (case decimal_digit nd c of Some d \<Rightarrow> d | None \<Rightarrow> 0)) m s
     = foldl (\<lambda>n c. 10 * n + (c - 48)) m s"
  by (induction s arbitrary: m) (auto simp: decimal_digit_def)

lemma int_show_nat:
  assumes "length (show_nat n) \<le> MAX_INT_DIGITS"
  shows "py_int nd (show_nat n) = Some (int n)"
proof -
  have digits: "list_all is_digit (show_nat n)" by (auto simp: list_all_iff dest: show_nat_digits)
  then have "95 \<notin> set (show_nat n)" "hd (show_nat n) \<noteq> 45" "hd (show_nat n) \<noteq> 43"
    using hd_in_set [OF show_nat_nonempty [of n]] by (fastforce simp: list_all_iff is_digit_def)+
  moreover have "list_all (\<lambda>c. decimal_digit nd c \<noteq> None) (show_nat n)"
    using digits by (auto simp: list_all_iff decimal_digit_def)
  ultimately have body: "int_body nd (show_nat n) = Some n"
    using assms decimal_digits [OF digits] digits_value_show_nat [of n]
    by (simp add: int_body_def split_on_none digits_value_def)
  obtain c r where cr: "show_nat n = c # r" by (cases "show_nat n") auto
  from strip_show_nat [of n] body \<open>hd (show_nat n) \<noteq> 45\<close> \<open>hd (show_nat n) \<noteq> 43\<close> show ?thesis
    unfolding cr by (simp add: py_int_def)
qed

lemma digits_bound:
  assumes "digit_table nd"
  shows "foldl (\<lambda>n c. 10 * n + (case decimal_digit nd c of Some d \<Rightarrow> d | None \<Rightarrow> 0)) m s < (m + 1) * 10 ^ length s"
proof (induction s arbitrary: m)
  case (Cons c s)
  let ?v = "case decimal_digit nd c of Some d \<Rightarrow> d | None \<Rightarrow> 0"
  have "?v < 10" using assms by (auto simp: decimal_digit_def digit_table_def is_digit_def split: option.split)
  then have "10 * m + ?v + 1 \<le> 10 * (m + 1)" by simp
  then have "(10 * m + ?v + 1) * 10 ^ length s \<le> 10 * (m + 1) * 10 ^ length s" by (rule mult_le_mono1)
  with Cons.IH [of "10 * m + ?v"] have "foldl (\<lambda>n c. 10 * n + (case decimal_digit nd c of Some d \<Rightarrow> d | None \<Rightarrow> 0)) (10 * m + ?v) s
      < 10 * (m + 1) * 10 ^ length s" by (rule order_less_le_trans)
  moreover have "10 * (m + 1) * 10 ^ length s = (m + 1) * 10 ^ length (c # s)" by (simp add: algebra_simps)
  ultimately show ?case by (simp only: foldl_Cons)
qed simp

lemma py_int_show:
  assumes "digit_table nd" and "py_int nd raw = Some i" and "0 < i"
  shows "py_int nd (show_int i) = Some i"
proof -
  have body: "n < 10 ^ MAX_INT_DIGITS" if "int_body nd t = Some n" for n t
  proof -
    have "n < (0 + 1) * 10 ^ length (concat (split_on 95 t []))"
      using that digits_bound [OF assms(1), of 0 "concat (split_on 95 t [])"]
      by (auto simp: int_body_def Let_def split: if_splits)
    also have "\<dots> \<le> 10 ^ MAX_INT_DIGITS"
      using that by (auto simp: int_body_def Let_def split: if_splits intro!: power_increasing)
    finally show ?thesis .
  qed
  from assms(2,3) obtain t where "int_body nd t = Some (nat i)"
    by (auto simp: py_int_def split: list.splits if_splits)
  then have "nat i < 10 ^ MAX_INT_DIGITS" by (rule body)
  moreover obtain d where d: "MAX_INT_DIGITS = Suc d"
    by (cases MAX_INT_DIGITS) (simp_all add: MAX_INT_DIGITS_def)
  ultimately have "length (show_nat (nat i)) \<le> MAX_INT_DIGITS" unfolding d by (intro length_show_nat)
  from int_show_nat [OF this] assms(3) show ?thesis by (simp add: show_int_def)
qed

text \<open>The file's lines as the environment of the container.\<close>

definition config_environment :: "int \<Rightarrow> environment" where
  "config_environment number = map_of (config_entries number)"

lemma config_lookup:
  "config_environment i ''TG_API_HASH'' = None" "config_environment i ''TG_API_ID'' = Some (show_int i)"
  "config_environment i ''TG_DB_PATH'' = Some (ustr ''/var/lib/tg-pm-gatekeeper/state.sqlite3'')"
  "config_environment i ''TG_API_HASH_FILE'' = Some (ustr ''/run/secrets/telegram_api_hash'')"
  "config_environment i ''TG_SESSION_FILE'' = Some (ustr ''/run/secrets/telegram_session'')"
  "config_environment i ''TG_HMAC_KEY_FILE'' = Some (ustr ''/run/secrets/hmac_key'')"
  "config_environment i ''TG_REVIEW_KEY_FILE'' = Some (ustr ''/run/secrets/review_key'')"
  "config_environment i ''TG_DENYLIST_FILE'' = Some (ustr ''/run/config/deny-domains.txt'')"
  "config_environment i ''TG_CHALLENGE_TTL_SECONDS'' = Some (ustr ''60'')"
  "config_environment i ''TG_CHALLENGE_MAX_ATTEMPTS'' = Some (ustr ''2'')"
  "config_environment i ''TG_AUDIT_RETENTION_DAYS'' = Some (ustr ''30'')"
  "config_environment i ''TG_PENDING_REVIEW_RETENTION_DAYS'' = Some (ustr ''7'')"
  "config_environment i ''TG_ACTIVE_CASE_RETENTION_DAYS'' = Some (ustr ''30'')"
  "config_environment i ''TG_ARCHIVED_RESTRICTION_RETENTION_DAYS'' = Some []"
  "config_environment i ''TG_MUTE_DAYS'' = Some (ustr ''3650'')"
  "config_environment i ''TG_OUTBOUND_LIMIT_PER_HOUR'' = Some (ustr ''10'')"
  "config_environment i ''TG_OUTBOUND_NOTICE_RESERVE_PER_HOUR'' = Some (ustr ''3'')"
  "config_environment i ''TG_OUTBOUND_NOTICE_LIMIT_PER_SENDER_PER_HOUR'' = Some (ustr ''3'')"
  "config_environment i ''TG_TELEGRAM_OPERATOR_CONTROLS_ENABLED'' = Some (ustr ''false'')"
  "config_environment i ''TG_TEST_SENDER_ID'' = Some []"
  "config_environment i ''TG_DASHBOARD_RPC_SOCKET_PATH'' = None"
  by (simp_all add: config_environment_def config_entries_def)

lemma config_numbers:
  "py_int nd (ustr ''60'') = Some 60" "py_int nd (ustr ''2'') = Some 2" "py_int nd (ustr ''30'') = Some 30"
  "py_int nd (ustr ''7'') = Some 7" "py_int nd (ustr ''3650'') = Some 3650" "py_int nd (ustr ''10'') = Some 10"
  "py_int nd (ustr ''3'') = Some 3"
proof -
  have "ustr ''60'' = show_nat 60" "ustr ''2'' = show_nat 2" "ustr ''30'' = show_nat 30" "ustr ''7'' = show_nat 7"
    "ustr ''3650'' = show_nat 3650" "ustr ''10'' = show_nat 10" "ustr ''3'' = show_nat 3"
    by (simp_all add: ustr_def show_nat.simps)
  moreover have "length (show_nat 60) \<le> MAX_INT_DIGITS" "length (show_nat 2) \<le> MAX_INT_DIGITS"
    "length (show_nat 30) \<le> MAX_INT_DIGITS" "length (show_nat 7) \<le> MAX_INT_DIGITS"
    "length (show_nat 3650) \<le> MAX_INT_DIGITS" "length (show_nat 10) \<le> MAX_INT_DIGITS"
    "length (show_nat 3) \<le> MAX_INT_DIGITS"
    by (simp_all add: MAX_INT_DIGITS_def show_nat.simps)
  ultimately show "py_int nd (ustr ''60'') = Some 60" "py_int nd (ustr ''2'') = Some 2"
    "py_int nd (ustr ''30'') = Some 30" "py_int nd (ustr ''7'') = Some 7" "py_int nd (ustr ''3650'') = Some 3650"
    "py_int nd (ustr ''10'') = Some 10" "py_int nd (ustr ''3'') = Some 3"
    by (simp_all only: int_show_nat of_nat_numeral)
qed

text \<open>The settings a new installation has.\<close>

definition initial_settings :: "int \<Rightarrow> settings" where
  "initial_settings number =
    \<lparr>api_id = number, api_hash_file = ustr ''/run/secrets/telegram_api_hash'',
     database_path = ustr ''/var/lib/tg-pm-gatekeeper/state.sqlite3'',
     session_file = ustr ''/run/secrets/telegram_session'', hmac_key_file = ustr ''/run/secrets/hmac_key'',
     denylist_file = Some (ustr ''/run/config/deny-domains.txt''), challenge_ttl_seconds = 60,
     challenge_max_attempts = 2, audit_retention_days = 30, set_pending_review_retention_days = 7,
     active_case_retention_days = 30, archived_restriction_retention_days = None,
     dashboard_rpc_socket_path = ustr ''/run/tg-pm-gatekeeper/core.sock'', mute_days = 3650,
     outbound_limit_per_hour = 10, outbound_notice_reserve_per_hour = 3,
     outbound_notice_limit_per_sender_per_hour = 3, telegram_operator_controls_enabled = False,
     set_test_sender_id = None, review_key_file = ustr ''/run/secrets/review_key''\<rparr>"

lemma strip_show_int: "0 < i \<Longrightarrow> strip (show_int i) = show_int i"
  by (simp add: show_int_def)

lemma config_read:
  assumes "digit_table nd" and "py_int nd raw = Some i" and "0 < i" and fold: "casefold u (ustr ''false'') = ustr ''false''"
  shows "from_environment nd u (config_environment i) True = Inr (initial_settings i)"
proof -
  have id: "required (config_environment i) ''TG_API_ID'' = Inr (show_int i)"
  proof -
    have "list_all is_digit (show_int i)" "show_int i \<noteq> []"
      using assms(3) by (auto simp: show_int_def list_all_iff dest: show_nat_digits)
    then have "\<not> starts_with (show_int i) (ustr ''REPLACE_WITH_'')"
      by (auto simp: starts_with_iff list_all_iff is_digit_def ustr_def)
    with \<open>show_int i \<noteq> []\<close> show ?thesis
      by (simp add: required_def env_get_def config_lookup strip_show_int assms(3) Let_def)
  qed
  have strips: "strip (ustr ''/run/config/deny-domains.txt'') = ustr ''/run/config/deny-domains.txt''"
    "strip (ustr ''false'') = ustr ''false''"
    by (rule strip_id; auto simp: ustr_def is_space_def)+
  have strings: "ustr ''/run/config/deny-domains.txt'' \<noteq> []" "ustr ''false'' \<noteq> ustr ''true''" "strip [] = ([] :: ustring)"
    by (simp_all add: ustr_def strip_def rstrip_set_def)
  have paths: "length (remdups (map pure_path [ustr ''/run/secrets/telegram_api_hash'', ustr ''/run/secrets/telegram_session'',
      ustr ''/run/secrets/hmac_key'', ustr ''/run/secrets/review_key''])) = 4" by code_simp
  have number: "integer_setting nd (show_int i) = Inr i"
    by (simp add: integer_setting_def py_int_show [OF assms(1-3)])
  let ?e = "config_environment i"
  note read = return_iff positive_int_def env_get_def integer_setting_def config_lookup config_numbers
  have bounded: "bounded_int nd ?e ''TG_OUTBOUND_LIMIT_PER_HOUR'' 10 1 100 = Inr 10"
    "bounded_int nd ?e ''TG_CHALLENGE_TTL_SECONDS'' 60 30 600 = Inr 60"
    "bounded_int nd ?e ''TG_CHALLENGE_MAX_ATTEMPTS'' 2 1 5 = Inr 2"
    "positive_int nd ?e ''TG_AUDIT_RETENTION_DAYS'' 30 = Inr 30"
    "bounded_int nd ?e ''TG_PENDING_REVIEW_RETENTION_DAYS'' 7 1 7 = Inr 7"
    "bounded_int nd ?e ''TG_ACTIVE_CASE_RETENTION_DAYS'' 30 1 30 = Inr 30"
    "positive_int nd ?e ''TG_MUTE_DAYS'' 3650 = Inr 3650"
    "bounded_nonnegative_int nd ?e ''TG_OUTBOUND_NOTICE_RESERVE_PER_HOUR'' (min 3 (10 - 1)) 0 (10 - 1) = Inr 3"
    "bounded_int nd ?e ''TG_OUTBOUND_NOTICE_LIMIT_PER_SENDER_PER_HOUR'' 3 1 100 = Inr 3"
    by (simp_all add: read)
  have optional: "optional_bounded_int nd ?e ''TG_ARCHIVED_RESTRICTION_RETENTION_DAYS'' 30 3650 = Inr None"
    "optional_positive_int nd ?e ''TG_TEST_SENDER_ID'' = Inr None"
    by (simp_all add: optional_bounded_int_def optional_positive_int_def env_get_def config_lookup strings Let_def)
  have controls: "boolean u ?e ''TG_TELEGRAM_OPERATOR_CONTROLS_ENABLED'' False = Inr False"
    by (simp only: boolean_def env_get_def config_lookup option.case strips strings fold Let_def if_False if_True simp_thms)
  have step: "then_sum (Inr x) f = f x" for x :: 'x and f :: "'x \<Rightarrow> 'y + 'z" by (simp add: then_sum_def)
  show ?thesis
    unfolding from_environment_def
    by (simp only: step id number bounded optional controls env_get_def config_lookup option.case strips strings Let_def
        if_True if_False simp_thms settings.select_convs paths initial_settings_def)
qed

subsection \<open>The start of the core\<close>

lemma targets_distinct: "distinct TARGETS" "length TARGETS = 6"
  by (simp_all add: TARGETS_def ustr_def)

lemma initial_paths: "map fst (initial_files i h s k1 k2) = TARGETS"
  using targets_distinct(2) by (simp add: initial_files_def)

lemma initial_file:
  "map_of (initial_files i h s k1 k2) (ustr ''telegram.api-hash.secret'') = Some (bytes_of h @ [10])"
  "map_of (initial_files i h s k1 k2) (ustr ''hmac.key'') = Some k1"
  "map_of (initial_files i h s k1 k2) (ustr ''review.key'') = Some k2"
  "map_of (initial_files i h s k1 k2) (ustr ''config.env'') = Some (render_config i)"
  "map_of (initial_files i h s k1 k2) (ustr ''deny-domains.txt'')
    = Some (ascii_bytes ''# One normalized denied domain per line.'' @ [10])"
  by (simp_all add: initial_files_def TARGETS_def ustr_def)

lemma mount_points:
  "map_of MOUNTS (ustr ''/run/secrets/telegram_api_hash'') = Some (ustr ''telegram.api-hash.secret'')"
  "map_of MOUNTS (ustr ''/run/secrets/hmac_key'') = Some (ustr ''hmac.key'')"
  "map_of MOUNTS (ustr ''/run/secrets/review_key'') = Some (ustr ''review.key'')"
  "map_of MOUNTS (ustr ''/run/config/deny-domains.txt'') = Some (ustr ''deny-domains.txt'')"
  by (simp_all add: MOUNTS_def ustr_def)

lemma mounted_file: "map_of MOUNTS path = Some p \<Longrightarrow> mounted d path = d p"
  by (simp add: mounted_def)

lemma hex_range: "hex_val c \<noteq> None \<Longrightarrow> 48 \<le> c \<and> c \<le> 102"
  by (auto simp: hex_val_def split: if_splits)

lemma strip_bytes_line:
  assumes "\<forall>b\<in>set bs. \<not> byte_space b"
  shows "strip_bytes (bs @ [10]) = bs"
proof (cases bs)
  case Nil
  then show ?thesis by (simp add: strip_bytes_def byte_space_def)
next
  case (Cons b r)
  have "dropWhile byte_space (bs @ [10]) = bs @ [10]" using assms Cons by simp
  moreover have "dropWhile byte_space (rev bs) = rev bs"
    using assms hd_in_set [of "rev bs"] by (auto simp: dropWhile_eq_self_iff)
  moreover have "byte_space 10" by (simp add: byte_space_def)
  ultimately show ?thesis by (simp add: strip_bytes_def)
qed

lemma api_hash_read:
  assumes "api_hash_ok h" and d: "d (ustr ''telegram.api-hash.secret'') = Some (owner_only (bytes_of h @ [10]))"
  shows "read_api_hash (deployed d) (api_hash_file (initial_settings i)) = Inr h"
proof -
  have range: "48 \<le> c \<and> c \<le> 102" if "c \<in> set h" for c
    using assms(1) that hex_range by (auto simp: api_hash_ok_def list_all_iff)
  have "\<not> byte_space b" if "b \<in> set (bytes_of h)" for b
  proof -
    from that obtain c where c: "c \<in> set h" "b = word_of_nat c" by (auto simp: bytes_of_def)
    with range [OF c(1)] have "unat b = c" by (simp add: unat_of_nat)
    then have "48 \<le> unat b" using range [OF c(1)] by simp
    then show ?thesis by (auto simp: byte_space_def word_le_nat_alt)
  qed
  then have "strip_bytes (bytes_of h @ [10]) = bytes_of h" by (intro strip_bytes_line) blast
  moreover have "ascii_decode (bytes_of h) = Some h"
    using range by (intro ascii_round_trip) (force simp: list_all_iff)
  moreover have "length h = 32" using assms(1) by (simp add: api_hash_ok_def)
  moreover from this have "bytes_of h \<noteq> []" by (cases h) (simp_all add: bytes_of_def)
  ultimately show ?thesis
    using assms by (simp add: read_api_hash_def read_private_file_def deployed_def mounted_file [OF mount_points(1)]
        initial_settings_def api_hash_ok_def Let_def CREATION_MODE_def)
qed

lemma key_read:
  assumes "map_of MOUNTS path = Some p" and "d p = Some (owner_only k)" and "length k = 32"
  shows "read_private_file (deployed d) path 32 False = Inr k"
  using assms by (simp add: read_private_file_def deployed_def mounted_file [OF assms(1)] CREATION_MODE_def)

lemma denylist_empty:
  assumes "d (ustr ''deny-domains.txt'') = Some (owner_only (ascii_bytes ''# One normalized denied domain per line.'' @ [10]))"
  shows "read_denylist u (deployed_texts d) (denylist_file (initial_settings i)) = Inr []"
proof -
  let ?t = "ustr ''# One normalized denied domain per line.''"
  have bytes: "utf8_decode False (ascii_bytes ''# One normalized denied domain per line.'' @ [10]) = Some (?t @ [10])"
    by code_simp
  have lines: "splitlines (?t @ [10]) [] = [?t]" by (simp add: ustr_def is_line_break_def)
  have "strip ?t \<noteq> [] \<and> starts_with (strip ?t) [35]"
    by (simp add: strip_def rstrip_set_def ustr_def is_space_def starts_with_def)
  then have "denylist_domains u [?t] = Inr []" by (simp add: Let_def)
  with bytes lines assms show ?thesis
    by (simp add: read_denylist_def initial_settings_def deployed_texts_def mounted_file [OF mount_points(4)]
        load_denylist_def del: denylist_domains.simps)
qed

text \<open>A generated key is the one the core reads.\<close>

lemma generated_key_read:
  assumes "map_of MOUNTS path = Some destination" and "length key = 32"
    and "generate_key destination key outcome d = (Inr (), d')"
  shows "read_private_file (deployed d') path 32 False = Inr key" and "d' = d(destination \<mapsto> owner_only key)"
proof -
  from assms(3) show d': "d' = d(destination \<mapsto> owner_only key)"
    by (auto simp: generate_key_def write_private_file_def split: if_splits write_outcome.splits)
  show "read_private_file (deployed d') path 32 False = Inr key"
    by (rule key_read [OF assms(1) _ assms(2)]) (simp add: d')
qed

lemma initialize_cases:
  "(\<exists>e. initialize nd an login key1 key2 outcome d = (Inl e, d))
    \<or> (\<exists>i s. py_int nd (strip (an_api_id an)) = Some i \<and> 0 < i \<and> api_hash_ok (strip (an_api_hash an))
        \<and> initialize nd an login key1 key2 outcome d
          = write_files outcome (initial_files i (strip (an_api_hash an)) s key1 key2) [] d)"
  by (auto simp: initialize_def Let_def split: option.split sum.split)

text \<open>No script changes or removes a file that was there.\<close>

lemma private_file_kept: "d p = Some b \<Longrightarrow> snd (write_private_file outcome path content d) p = Some b"
  by (cases "p = path") (simp_all add: write_private_file_def split: write_outcome.split)

lemma scripts_keep_files:
  assumes "d p = Some b"
  shows "snd (generate_hmac_key key outcome d) p = Some b" and "snd (generate_review_key key outcome d) p = Some b"
    and "snd (generate_session nd an login outcome d) p = Some b"
    and "snd (initialize nd an login key1 key2 outcomes d) p = Some b"
proof -
  have key: "snd (generate_key path key outcome d) p = Some b" for path
    using private_file_kept [where p = p and d = d and b = b, OF assms] assms by (simp add: generate_key_def)
  show "snd (generate_hmac_key key outcome d) p = Some b" "snd (generate_review_key key outcome d) p = Some b"
    unfolding generate_hmac_key_def generate_review_key_def by (rule key)+
  show "snd (generate_session nd an login outcome d) p = Some b"
    using private_file_kept [where p = p and d = d and b = b, OF assms] assms
    by (auto simp: generate_session_def Let_def split: sum.split option.split prod.split) (metis snd_conv)+
  have files: "distinct (map fst (initial_files i h s key1 key2))" for i h s
    by (simp only: initial_paths targets_distinct)
  from initialize_cases [of nd an login key1 key2 outcomes d]
  show "snd (initialize nd an login key1 key2 outcomes d) p = Some b"
  proof (elim disjE exE conjE)
    fix i s assume run: "initialize nd an login key1 key2 outcomes d
      = write_files outcomes (initial_files i (strip (an_api_hash an)) s key1 key2) [] d"
    let ?files = "initial_files i (strip (an_api_hash an)) s key1 key2"
    obtain r d' where r: "write_files outcomes ?files [] d = (r, d')" by fastforce
    have "d' p = Some b"
    proof (cases r)
      case (Inl e)
      with write_files_outcome [OF files, of outcomes i "strip (an_api_hash an)" s "[]" d] r assms show ?thesis
        by (simp add: undone_def) (metis option.distinct(1))
    next
      case (Inr u)
      with write_files_outcome [OF files, of outcomes i "strip (an_api_hash an)" s "[]" d] r
      have "\<forall>q\<in>fst ` set ?files. d q = None" and d': "d' = d ++ (map_option owner_only \<circ> map_of ?files)" by simp_all
      with assms have "map_of ?files p = None" by (auto simp: map_of_eq_None_iff)
      with assms show ?thesis by (simp add: d' map_add_def)
    qed
    with run r show ?thesis by simp
  qed (use assms in simp)
qed

lemma new_store: "\<exists>store. open_store 7 None = Inr store \<and> get_mode store = Monitor"
  by (auto simp: open_store_def initialize_schema_def get_mode_def empty_store_def Let_def)

text \<open>The core on the files of a successful run, whatever else the directory holds.\<close>

lemma core_starts_on_files:
  assumes digits: "digit_table nd" and fold: "casefold u (ustr ''false'') = ustr ''false''"
    and keys: "length key1 = 32" "length key2 = 32"
    and number: "py_int nd raw = Some i" "0 < i" and hash: "api_hash_ok h"
    and d': "d' = d ++ (map_option owner_only \<circ> map_of (initial_files i h s key1 key2))"
  shows "d' (ustr ''config.env'') = Some (owner_only (render_config i))
    \<and> (\<exists>store g. start_core C tokens nd u (config_environment i) (deployed d') (deployed_texts d') None factory
          = Inr (initial_settings i, store, g) \<and> get_mode store = Monitor)
    \<and> read_api_hash (deployed d') (api_hash_file (initial_settings i)) = Inr h"
proof (intro conjI)
  let ?files = "initial_files i h s key1 key2"
  have stored: "d' p = Some (owner_only b)" if "map_of ?files p = Some b" for p b using that by (simp add: d')
  obtain store where store: "open_store 7 None = Inr store" "get_mode store = Monitor" using new_store by blast
  have read: "read_private_file (deployed d') (hmac_key_file (initial_settings i)) 32 False = Inr key1"
    "read_private_file (deployed d') (review_key_file (initial_settings i)) 32 False = Inr key2"
    unfolding initial_settings_def settings.select_convs
    by (rule key_read [OF mount_points(2)] key_read [OF mount_points(3)],
        simp add: stored [OF initial_file(2)] stored [OF initial_file(3)] initial_file, rule keys)+
  have fields: "set_pending_review_retention_days (initial_settings i) = 7"
    "outbound_limit_per_hour (initial_settings i) = 10" "outbound_notice_reserve_per_hour (initial_settings i) = 3"
    "outbound_notice_limit_per_sender_per_hour (initial_settings i) = 3"
    by (simp_all add: initial_settings_def)
  have denylist: "read_denylist u (deployed_texts d') (denylist_file (initial_settings i)) = Inr []"
    by (rule denylist_empty) (simp add: stored [OF initial_file(5)] initial_file)
  have "\<exists>g. start_core C tokens nd u (config_environment i) (deployed d') (deployed_texts d') None factory
      = Inr (initial_settings i, store, g)"
    unfolding start_core_def config_read [OF digits number fold]
    by (simp add: then_sum_def read denylist identifier_protector_def active_case_protector_def keys fields store
        new_gatekeeper_def)
  with store(2) show "\<exists>store g. start_core C tokens nd u (config_environment i) (deployed d') (deployed_texts d') None factory
      = Inr (initial_settings i, store, g) \<and> get_mode store = Monitor" by blast
  show "read_api_hash (deployed d') (api_hash_file (initial_settings i)) = Inr h"
    by (rule api_hash_read [OF hash]) (simp add: stored [OF initial_file(1)] initial_file)
  show "d' (ustr ''config.env'') = Some (owner_only (render_config i))"
    by (simp add: stored [OF initial_file(4)] initial_file)
qed

text \<open>C35. A new installation starts. When the initializer succeeds, it has created its six files, readable by
  their owner only, beside whatever was there, and the core started in the container on them reads exactly the default settings with
  the API id and hash that were entered, opens a new database in monitor mode, and starts. When it fails, the
  directory is as it was, except for a file whose own write broke off.\<close>

theorem initialized_core_starts:
  assumes digits: "digit_table nd" and fold: "casefold u (ustr ''false'') = ustr ''false''"
    and keys: "length key1 = 32" "length key2 = 32"
  shows "case initialize nd an login key1 key2 outcome d of
      (Inr _, d') \<Rightarrow> (\<forall>p. p \<notin> set TARGETS \<longrightarrow> d' p = d p) \<and> (\<forall>p\<in>set TARGETS. d p = None \<and> (\<exists>b. d' p = Some (384, b)))
        \<and> (\<exists>i store g. py_int nd (strip (an_api_id an)) = Some i \<and> d' (ustr ''config.env'') = Some (owner_only (render_config i))
            \<and> start_core C tokens nd u (config_environment i) (deployed d') (deployed_texts d') None factory
                = Inr (initial_settings i, store, g)
            \<and> get_mode store = Monitor
            \<and> read_api_hash (deployed d') (api_hash_file (initial_settings i)) = Inr (strip (an_api_hash an)))
    | (Inl _, d') \<Rightarrow> undone outcome TARGETS {} d d'"
proof -
  let ?r = "initialize nd an login key1 key2 outcome d"
  consider e where "?r = (Inl e, d)"
    | i s where "py_int nd (strip (an_api_id an)) = Some i" "0 < i" "api_hash_ok (strip (an_api_hash an))"
        "?r = write_files outcome (initial_files i (strip (an_api_hash an)) s key1 key2) [] d"
    using initialize_cases by metis
  then show ?thesis
  proof cases
    case 1
    then show ?thesis by (simp add: undone_def)
  next
    case (2 i s)
    let ?files = "initial_files i (strip (an_api_hash an)) s key1 key2"
    have paths: "map fst ?files = TARGETS"
      by (rule initial_paths)
    then have images: "fst ` set ?files = set TARGETS" by (metis set_map)
    from write_files_outcome [of ?files outcome "[]" d, unfolded paths images list.set] targets_distinct(1) 2(4)
    have out: "case ?r of (Inr _, d') \<Rightarrow> (\<forall>p\<in>set TARGETS. d p = None) \<and> d' = d ++ (map_option owner_only \<circ> map_of ?files)
      | (Inl _, d') \<Rightarrow> undone outcome TARGETS {} d d'" by simp
    show ?thesis
    proof (cases ?r)
      case (Pair res d')
      show ?thesis
      proof (cases res)
        case (Inl e)
        with out Pair show ?thesis by simp
      next
        case (Inr x)
        with out Pair have absent: "\<forall>p\<in>set TARGETS. d p = None" and d': "d' = d ++ (map_option owner_only \<circ> map_of ?files)" by simp_all
        have dom: "dom (map_of ?files) = set TARGETS" by (simp add: dom_map_of_conv_image_fst flip: paths)
        note started = core_starts_on_files [OF digits fold keys 2(1,2,3) d', of C tokens factory]
        have "(\<forall>p. p \<notin> set TARGETS \<longrightarrow> d' p = d p) \<and> (\<forall>p\<in>set TARGETS. d p = None \<and> (\<exists>b. d' p = Some (384, b)))"
          using dom absent by (auto simp: d' map_add_dom_app_simps domIff CREATION_MODE_def)
        with started 2(1) Pair Inr show ?thesis by auto
      qed
    qed
  qed
qed

lemma writes_succeed:
  "distinct (map fst files) \<Longrightarrow> \<forall>p\<in>fst ` set files. d p = None \<Longrightarrow> fst (write_files (\<lambda>_. Written) files created d) = Inr ()"
proof (induction files arbitrary: created d)
  case (Cons f files)
  obtain path content where f: "f = (path, content)" by fastforce
  have "fst (write_files (\<lambda>_. Written) files (created @ [path]) (d(path \<mapsto> owner_only content))) = Inr ()"
    by (rule Cons.IH) (use Cons.prems f in auto)
  with Cons.prems f show ?case by (simp add: write_private_file_def)
qed simp

lemma initialized_core_starts_witness:
  "\<exists>d'. initialize (\<lambda>_. None) \<lparr>an_api_id = ustr ''12345'', an_api_hash = replicate 32 97, an_phone = ustr ''1''\<rparr>
      (Inr (ustr ''session'')) (replicate 32 1) (replicate 32 2) (\<lambda>_. Written) Map.empty = (Inr (), d')
    \<and> d' (ustr ''config.env'') = Some (owner_only (render_config 12345))"
proof -
  let ?an = "\<lparr>an_api_id = ustr ''12345'', an_api_hash = replicate 32 97, an_phone = ustr ''1''\<rparr>"
  let ?u = "\<lparr>nfkc = (\<lambda>t. t), casefold = (\<lambda>t. t), lower = (\<lambda>t. t), idna_encode = Some, bracketed_host_ok = (\<lambda>_. False)\<rparr>"
  define r where "r = initialize (\<lambda>_. None) ?an (Inr (ustr ''session'')) (replicate 32 1) (replicate 32 2) (\<lambda>_. Written) Map.empty"
  have number: "py_int (\<lambda>_. None) (strip (an_api_id ?an)) = Some 12345"
    by (simp add: py_int_def int_body_def decimal_digit_def is_digit_def strip_def rstrip_set_def is_space_def ustr_def
        MAX_INT_DIGITS_def)
  have "strip (an_api_hash ?an) = replicate 32 97" "strip (an_phone ?an) = ustr ''1''"
    by (simp; rule strip_id; auto simp: is_space_def ustr_def)+
  moreover have "ascii_encode (ustr ''session'') = Some (bytes_of (ustr ''session''))" "ustr ''1'' \<noteq> []"
    by (simp_all add: ascii_encode_def ustr_def)
  ultimately have "r = write_files (\<lambda>_. Written) (initial_files 12345 (replicate 32 97) (bytes_of (ustr ''session'') @ [10])
      (replicate 32 1) (replicate 32 2)) [] Map.empty"
    using number unfolding r_def
    by (simp add: initialize_def api_hash_ok_def hex_val_def list_all_iff list_ex_iff Let_def)
  then have "fst r = Inr ()" by (simp only:, intro writes_succeed) (simp_all add: initial_paths targets_distinct)
  then obtain d' where r: "r = (Inr (), d')" by (cases r) auto
  have "case r of (Inr _, d') \<Rightarrow> (\<exists>i. py_int (\<lambda>_. None) (strip (an_api_id ?an)) = Some i
      \<and> d' (ustr ''config.env'') = Some (owner_only (render_config i))) | (Inl _, d') \<Rightarrow> True"
    using initialized_core_starts [where nd = "\<lambda>_. None" and u = ?u and ?key1.0 = "replicate 32 1" and ?key2.0 = "replicate 32 2"
        and an = ?an and login = "Inr (ustr ''session'')" and outcome = "\<lambda>_. Written" and d = Map.empty, folded r_def]
    by (simp add: digit_table_def r) blast
  with number r show ?thesis unfolding r_def by simp
qed

end
