(* ===== verification/Logging.thy ===== *)
theory Logging
  imports Py_Codec
begin

text \<open>
  \<open>logging_config.py\<close>: the lines the core writes to its log. The time is the text \<open>isoformat\<close> gives,
  and the message is the one \<open>getMessage\<close> has already put together.
\<close>

record log_record =
  lr_levelname :: ustring
  lr_name :: ustring
  lr_message :: ustring

definition log_payload :: "ustring \<Rightarrow> log_record \<Rightarrow> json" where
  "log_payload time r = JObj
    [(ustr ''time'', JStr time), (ustr ''level'', JStr (lr_levelname r)),
     (ustr ''component'', JStr (lr_name r)), (ustr ''event'', JStr (lr_message r))]"

definition safe_format :: "ustring \<Rightarrow> log_record \<Rightarrow> ustring" where
  "safe_format time r = dumps True (log_payload time r)"

text \<open>Whatever text a message carries, a record is one line of printable ASCII, so no message can forge
  another record or send control characters to a terminal.\<close>

lemma log_line_printable: "list_all printable (safe_format time r)"
proof -
  have "list_all printable (ustr ''time'') \<and> list_all printable (ustr ''level'')" by (simp add: ustr_def printable_def)
  then show ?thesis
    by (simp add: safe_format_def log_payload_def quote_printable printable_def)
qed

lemma log_line_single: "c \<in> set (safe_format time r) \<Longrightarrow> 32 \<le> c \<and> c \<le> 126"
  using log_line_printable [of time r] by (auto simp: list_all_iff printable_def)

text \<open>A reader of the log gets the record back.\<close>

lemma log_line_readable:
  assumes "list_all scalar time" and "list_all scalar (lr_levelname r)" and "list_all scalar (lr_name r)"
    and "list_all scalar (lr_message r)"
  shows "loads ft (safe_format time r) = Inr (log_payload time r)"
  unfolding safe_format_def
  by (rule loads_dumps) (use assms in \<open>simp add: log_payload_def ustr_def scalar_def surrogate_def\<close>)

end
