(* ===== verification/Sender_Locks.thy ===== *)
theory Sender_Locks
  imports Store_Restrictions
begin

text \<open>
  The locks of the core: \<open>SenderLockPool\<close> of \<open>service.py\<close>, which keeps the lock of a sender only as long
  as a task refers to it, and the command lock of \<open>operator_controls.py\<close>. Every other theory runs a
  handler that holds a sender's lock as one transition; here the tasks are interleaved at their
  \<open>async with\<close> statements. A lock serves its tasks in the order of their arrival, as \<open>asyncio.Lock\<close> does.
  What a task does between two lock operations is taken to end.
\<close>

datatype lock_name = SenderLock sender_key | CommandLock

datatype lock_object = PoolLock nat | CommandLockObject

subsection \<open>The pool\<close>

text \<open>The weak dictionary, with the number of the next lock object.\<close>

record lock_pool =
  lp_next :: nat
  lp_locks :: "(sender_key \<times> nat) list"

definition pool_lock :: "sender_key \<Rightarrow> lock_pool \<Rightarrow> nat \<times> lock_pool" where
  "pool_lock k p = (case map_of (lp_locks p) k of
      Some i \<Rightarrow> (i, p)
    | None \<Rightarrow> (lp_next p, p\<lparr>lp_next := Suc (lp_next p), lp_locks := (k, lp_next p) # lp_locks p\<rparr>))"

fun named_lock :: "lock_name \<Rightarrow> lock_pool \<Rightarrow> lock_object \<times> lock_pool" where
  "named_lock (SenderLock k) p = (PoolLock (fst (pool_lock k p)), snd (pool_lock k p))"
| "named_lock CommandLock p = (CommandLockObject, p)"

subsection \<open>What the tasks lock\<close>

datatype lock_op = Enter lock_name | Leave lock_name

text \<open>One sender at a time: an incoming message, a timer, a deletion, a decision of the operator. Several
  senders after each other: the bulk forget of the dashboard. The owner's commands in Saved Messages.
  The retention pass of the heartbeat, which holds the locks of all its senders at once.\<close>

datatype errand = SenderErrand sender_key | BulkErrand "sender_key list" | CommandErrand "sender_key list"
  | MaintenanceErrand "sender_key list"

fun is_maintenance :: "errand \<Rightarrow> bool" where
  "is_maintenance (MaintenanceErrand ks) = True"
| "is_maintenance _ = False"

definition async_with :: "lock_name \<Rightarrow> lock_op list \<Rightarrow> lock_op list" where
  "async_with n body = Enter n # body @ [Leave n]"

definition handle_script :: "sender_key \<Rightarrow> lock_op list" where
  "handle_script k = async_with (SenderLock k) []"

definition bulk_script :: "sender_key list \<Rightarrow> lock_op list" where
  "bulk_script ks = concat (map (\<lambda>k. async_with (SenderLock k) []) ks)"

definition command_script :: "sender_key list \<Rightarrow> lock_op list" where
  "command_script ks = async_with CommandLock (bulk_script ks)"

definition maintenance_script :: "sender_key list \<Rightarrow> lock_op list" where
  "maintenance_script ks = map (\<lambda>k. Enter (SenderLock k)) ks @ map (\<lambda>k. Leave (SenderLock k)) (rev ks)"

fun lock_script :: "errand \<Rightarrow> lock_op list" where
  "lock_script (SenderErrand k) = handle_script k"
| "lock_script (BulkErrand ks) = bulk_script ks"
| "lock_script (CommandErrand ks) = command_script ks"
| "lock_script (MaintenanceErrand ks) = maintenance_script ks"

subsection \<open>The locks\<close>

text \<open>\<open>ls_held\<close>: which task holds which lock, the latest first. \<open>ls_waiting\<close>: the tasks that wait, in the
  order of their arrival. \<open>ls_tasks\<close>: the tasks with what they still have to enter and leave.\<close>

type_synonym lock_claim = "nat \<times> lock_name \<times> lock_object"

record lock_state =
  ls_pool :: lock_pool
  ls_held :: "lock_claim list"
  ls_waiting :: "lock_claim list"
  ls_tasks :: "(nat \<times> errand \<times> lock_op list) list"

definition no_locks :: lock_state where
  "no_locks = \<lparr>ls_pool = \<lparr>lp_next = 0, lp_locks = []\<rparr>, ls_held = [], ls_waiting = [], ls_tasks = []\<rparr>"

definition object_of :: "lock_claim \<Rightarrow> lock_object" where
  "object_of c = snd (snd c)"

lemma object_of_claim [simp]: "object_of (t, n, l) = l"
  by (simp add: object_of_def)

definition advance :: "nat \<Rightarrow> (nat \<times> errand \<times> lock_op list) list \<Rightarrow> (nat \<times> errand \<times> lock_op list) list" where
  "advance t = map (\<lambda>(t', e, r). (t', e, if t' = t then tl r else r))"

definition take_lock :: "nat \<Rightarrow> lock_name \<Rightarrow> lock_object \<Rightarrow> lock_state \<Rightarrow> lock_state" where
  "take_lock t n l s = s\<lparr>ls_held := (t, n, l) # ls_held s, ls_tasks := advance t (ls_tasks s)\<rparr>"

definition enter_lock :: "nat \<Rightarrow> lock_name \<Rightarrow> lock_state \<Rightarrow> lock_state" where
  "enter_lock t n s =
    (let (l, p) = named_lock n (ls_pool s);
         s' = s\<lparr>ls_pool := p\<rparr>
     in if l \<in> object_of ` set (ls_held s) \<or> l \<in> object_of ` set (ls_waiting s)
        then s'\<lparr>ls_waiting := ls_waiting s @ [(t, n, l)]\<rparr>
        else take_lock t n l s')"

definition leave_lock :: "nat \<Rightarrow> lock_name \<Rightarrow> lock_state \<Rightarrow> lock_state" where
  "leave_lock t n s =
    s\<lparr>ls_held := filter (\<lambda>(t', n', l). t' = t \<longrightarrow> n' \<noteq> n) (ls_held s), ls_tasks := advance t (ls_tasks s)\<rparr>"

definition names_of :: "nat \<Rightarrow> lock_claim list \<Rightarrow> lock_name list" where
  "names_of t held = map (\<lambda>(t', n, l). n) (filter (\<lambda>(t', n, l). t' = t) held)"

text \<open>A cancelled task stops waiting; it, and a task with an exception, leaves the locks it holds, the
  latest first.\<close>

definition unwind :: "nat \<Rightarrow> lock_state \<Rightarrow> lock_state" where
  "unwind t s = s\<lparr>ls_waiting := filter (\<lambda>(t', n, l). t' \<noteq> t) (ls_waiting s),
     ls_tasks := map (\<lambda>(t', e, r). (t', e, if t' = t then map Leave (names_of t (ls_held s)) else r)) (ls_tasks s)\<rparr>"

inductive lock_progress :: "lock_state \<Rightarrow> lock_state \<Rightarrow> bool" where
  enters: "(t, e, Enter n # r) \<in> set (ls_tasks s) \<Longrightarrow> t \<notin> fst ` set (ls_waiting s) \<Longrightarrow>
    lock_progress s (enter_lock t n s)"
| granted: "ls_waiting s = ws @ (t, n, l) # ws' \<Longrightarrow> l \<notin> object_of ` set ws \<Longrightarrow> l \<notin> object_of ` set (ls_held s) \<Longrightarrow>
    lock_progress s (take_lock t n l (s\<lparr>ls_waiting := ws @ ws'\<rparr>))"
| leaves: "(t, e, Leave n # r) \<in> set (ls_tasks s) \<Longrightarrow> lock_progress s (leave_lock t n s)"
| ends: "(t, e, []) \<in> set (ls_tasks s) \<Longrightarrow>
    lock_progress s (s\<lparr>ls_tasks := filter (\<lambda>(t', _). t' \<noteq> t) (ls_tasks s)\<rparr>)"

text \<open>What else happens: tasks start, the heartbeat at most one retention pass at a time and on the keys the
  database gives; tasks fail or are cancelled; a lock nobody refers to is dropped from the pool.\<close>

inductive lock_step :: "lock_state \<Rightarrow> lock_state \<Rightarrow> bool" where
  progresses: "lock_progress s s' \<Longrightarrow> lock_step s s'"
| starts: "t \<notin> fst ` set (ls_tasks s) \<Longrightarrow> \<not> is_maintenance e \<Longrightarrow>
    lock_step s (s\<lparr>ls_tasks := (t, e, lock_script e) # ls_tasks s\<rparr>)"
| maintenance_starts: "t \<notin> fst ` set (ls_tasks s) \<Longrightarrow> \<forall>(t', e', r)\<in>set (ls_tasks s). \<not> is_maintenance e' \<Longrightarrow>
    e = MaintenanceErrand (maintenance_sender_keys now days st) \<Longrightarrow>
    lock_step s (s\<lparr>ls_tasks := (t, e, lock_script e) # ls_tasks s\<rparr>)"
| unwinds: "t \<in> fst ` set (ls_tasks s) \<Longrightarrow> lock_step s (unwind t s)"
| collected: "PoolLock i \<notin> object_of ` set (ls_held s) \<Longrightarrow> PoolLock i \<notin> object_of ` set (ls_waiting s) \<Longrightarrow>
    lock_step s (s\<lparr>ls_pool := (ls_pool s)\<lparr>lp_locks := filter (\<lambda>(k, j). j \<noteq> i) (lp_locks (ls_pool s))\<rparr>\<rparr>)"

subsection \<open>Scripts\<close>

text \<open>A script that enters and leaves in the order of a stack, never enters a lock it holds, holds at most
  one sender's lock unless it is the retention pass, and asks for the command lock first.\<close>

definition may_enter :: "errand \<Rightarrow> lock_name list \<Rightarrow> lock_name \<Rightarrow> bool" where
  "may_enter e H n \<longleftrightarrow> n \<notin> set H \<and> (n = CommandLock \<longrightarrow> H = []) \<and> (is_maintenance e \<or> set H \<subseteq> {CommandLock})"

fun balanced :: "errand \<Rightarrow> lock_name list \<Rightarrow> lock_op list \<Rightarrow> bool" where
  "balanced e H [] \<longleftrightarrow> H = []"
| "balanced e H (Enter n # r) \<longleftrightarrow> may_enter e H n \<and> balanced e (n # H) r"
| "balanced e H (Leave n # r) \<longleftrightarrow> H \<noteq> [] \<and> hd H = n \<and> balanced e (tl H) r"

lemma balanced_leaves [simp]: "balanced e H (map Leave H)"
  by (induction H) auto

lemma balanced_bulk:
  "set H \<subseteq> {CommandLock} \<Longrightarrow> balanced e H r \<Longrightarrow> balanced e H (bulk_script ks @ r)"
  by (induction ks) (auto simp: bulk_script_def async_with_def may_enter_def)

lemma balanced_maintenance:
  assumes "is_maintenance e"
  shows "distinct ks \<Longrightarrow> set H \<inter> SenderLock ` set ks = {} \<Longrightarrow>
    balanced e H (map (\<lambda>k. Enter (SenderLock k)) ks @ map (\<lambda>k. Leave (SenderLock k)) (rev ks) @ map Leave H)"
proof (induction ks arbitrary: H)
  case (Cons k ks)
  have "balanced e (SenderLock k # H)
      (map (\<lambda>k. Enter (SenderLock k)) ks @ map (\<lambda>k. Leave (SenderLock k)) (rev ks) @ map Leave (SenderLock k # H))"
    by (rule Cons.IH) (use Cons.prems in auto)
  with Cons.prems assms show ?case by (auto simp: may_enter_def)
qed simp

lemma maintenance_distinct: "distinct (maintenance_sender_keys now days st)"
  by (simp add: maintenance_sender_keys_def Let_def)

lemma script_balanced: "\<not> is_maintenance e \<Longrightarrow> balanced e [] (lock_script e)"
  using balanced_bulk [of "[]" e "[]"] balanced_bulk [of "[CommandLock]" e "[Leave CommandLock]"]
  by (cases e) (auto simp: handle_script_def command_script_def async_with_def may_enter_def)

lemma maintenance_balanced:
  "e = MaintenanceErrand (maintenance_sender_keys now days st) \<Longrightarrow> balanced e [] (lock_script e)"
  using balanced_maintenance [of e "maintenance_sender_keys now days st" "[]"]
  by (simp add: maintenance_script_def maintenance_distinct)

subsection \<open>The invariant\<close>

text \<open>A lock that is held or waited for is the one the pool has under its name: the pool drops no lock
  that a task refers to.\<close>

fun claim_ok :: "lock_pool \<Rightarrow> lock_claim \<Rightarrow> bool" where
  "claim_ok p (t, SenderLock k, l) \<longleftrightarrow> (\<exists>i. l = PoolLock i \<and> map_of (lp_locks p) k = Some i)"
| "claim_ok p (t, CommandLock, l) \<longleftrightarrow> l = CommandLockObject"

definition pool_ok :: "lock_pool \<Rightarrow> bool" where
  "pool_ok p \<longleftrightarrow> distinct (map fst (lp_locks p)) \<and> distinct (map snd (lp_locks p))
     \<and> (\<forall>(k, i)\<in>set (lp_locks p). i < lp_next p)"

definition claims_ok :: "lock_state \<Rightarrow> bool" where
  "claims_ok s \<longleftrightarrow> (\<forall>c\<in>set (ls_held s) \<union> set (ls_waiting s). claim_ok (ls_pool s) c \<and> fst c \<in> fst ` set (ls_tasks s))
     \<and> distinct (map object_of (ls_held s)) \<and> distinct (map fst (ls_waiting s))
     \<and> (\<forall>(t, n, l)\<in>set (ls_waiting s). \<exists>e r. (t, e, Enter n # r) \<in> set (ls_tasks s))"

definition scripts_ok :: "lock_state \<Rightarrow> bool" where
  "scripts_ok s \<longleftrightarrow> distinct (map fst (ls_tasks s))
     \<and> (\<forall>(t, e, r)\<in>set (ls_tasks s). balanced e (names_of t (ls_held s)) r)
     \<and> (\<forall>(t, e, r)\<in>set (ls_tasks s). \<forall>(t', e', r')\<in>set (ls_tasks s). is_maintenance e \<longrightarrow> is_maintenance e' \<longrightarrow> t = t')"

lemma claims_okI:
  assumes "\<And>c. c \<in> set (ls_held s) \<union> set (ls_waiting s) \<Longrightarrow> claim_ok (ls_pool s) c \<and> fst c \<in> fst ` set (ls_tasks s)"
    and "distinct (map object_of (ls_held s))" and "distinct (map fst (ls_waiting s))"
    and "\<And>t n l. (t, n, l) \<in> set (ls_waiting s) \<Longrightarrow> \<exists>e r. (t, e, Enter n # r) \<in> set (ls_tasks s)"
  shows "claims_ok s"
  using assms unfolding claims_ok_def by blast

lemma scripts_okI:
  assumes "distinct (map fst (ls_tasks s))"
    and "\<And>t e r. (t, e, r) \<in> set (ls_tasks s) \<Longrightarrow> balanced e (names_of t (ls_held s)) r"
    and "\<And>t e r t' e' r'. (t, e, r) \<in> set (ls_tasks s) \<Longrightarrow> (t', e', r') \<in> set (ls_tasks s) \<Longrightarrow>
      is_maintenance e \<Longrightarrow> is_maintenance e' \<Longrightarrow> t = t'"
  shows "scripts_ok s"
  using assms unfolding scripts_ok_def by blast

lemma claims_okD:
  assumes "claims_ok s"
  shows "c \<in> set (ls_held s) \<union> set (ls_waiting s) \<Longrightarrow> claim_ok (ls_pool s) c \<and> fst c \<in> fst ` set (ls_tasks s)"
    and "distinct (map object_of (ls_held s))" and "distinct (map fst (ls_waiting s))"
    and "(t, n, l) \<in> set (ls_waiting s) \<Longrightarrow> \<exists>e r. (t, e, Enter n # r) \<in> set (ls_tasks s)"
  using assms unfolding claims_ok_def by blast+

lemma scripts_okD:
  assumes "scripts_ok s"
  shows "distinct (map fst (ls_tasks s))"
    and "(t, e, r) \<in> set (ls_tasks s) \<Longrightarrow> balanced e (names_of t (ls_held s)) r"
    and "(t, e, r) \<in> set (ls_tasks s) \<Longrightarrow> (t', e', r') \<in> set (ls_tasks s) \<Longrightarrow>
      is_maintenance e \<Longrightarrow> is_maintenance e' \<Longrightarrow> t = t'"
  using assms unfolding scripts_ok_def by blast+

definition locks_ok :: "lock_state \<Rightarrow> bool" where
  "locks_ok s \<longleftrightarrow> pool_ok (ls_pool s) \<and> claims_ok s \<and> scripts_ok s"

lemma advance_tasks [simp]: "map fst (advance t ts) = map fst ts" "fst ` set (advance t ts) = fst ` set ts"
  by (auto simp: advance_def image_iff intro!: rev_image_eqI)

lemma in_advance: "(t', e, r) \<in> set (advance t ts) \<longleftrightarrow> (\<exists>q. (t', e, q) \<in> set ts \<and> r = (if t' = t then tl q else q))"
  by (force simp: advance_def)

lemma names_of_Cons [simp]: "names_of t ((t', n, l) # held) = (if t' = t then n # names_of t held else names_of t held)"
  by (simp add: names_of_def)

lemma one_task: "scripts_ok s \<Longrightarrow> (t, e, r) \<in> set (ls_tasks s) \<Longrightarrow> (t, e', r') \<in> set (ls_tasks s) \<Longrightarrow> e' = e \<and> r' = r"
  by (auto simp: scripts_ok_def dest: eq_key_imp_eq_value)

text \<open>The pool.\<close>

lemma pool_lock_ok:
  assumes "pool_ok p"
  shows "pool_ok (snd (pool_lock k p))" and "map_of (lp_locks (snd (pool_lock k p))) k = Some (fst (pool_lock k p))"
    and "map_of (lp_locks p) k' = Some i \<Longrightarrow> map_of (lp_locks (snd (pool_lock k p))) k' = Some i"
  using assms by (fastforce simp: pool_lock_def pool_ok_def map_of_eq_None_iff split: option.split dest: map_of_SomeD)+

lemma named_lock_ok:
  assumes "pool_ok p"
  shows "pool_ok (snd (named_lock n p))" and "claim_ok (snd (named_lock n p)) (t, n, fst (named_lock n p))"
  by (cases n; simp add: assms pool_lock_ok)+

lemma claim_kept: "pool_ok p \<Longrightarrow> claim_ok p c \<Longrightarrow> claim_ok (snd (named_lock n p)) c"
  by (cases n; induction p c rule: claim_ok.induct) (auto simp: pool_lock_ok(3))

lemma pool_grows:
  assumes "locks_ok s"
  shows "locks_ok (s\<lparr>ls_pool := snd (named_lock n (ls_pool s))\<rparr>)"
proof -
  have pool: "pool_ok (ls_pool s)" using assms by (simp add: locks_ok_def)
  from assms show ?thesis
    by (simp add: locks_ok_def claims_ok_def scripts_ok_def named_lock_ok(1) [OF pool] claim_kept [OF pool])
qed

lemma collected_ok:
  assumes "locks_ok s" and "PoolLock i \<notin> object_of ` set (ls_held s)" and "PoolLock i \<notin> object_of ` set (ls_waiting s)"
  shows "locks_ok (s\<lparr>ls_pool := (ls_pool s)\<lparr>lp_locks := filter (\<lambda>(k, j). j \<noteq> i) (lp_locks (ls_pool s))\<rparr>\<rparr>)"
proof -
  let ?p = "(ls_pool s)\<lparr>lp_locks := filter (\<lambda>(k, j). j \<noteq> i) (lp_locks (ls_pool s))\<rparr>"
  have pool: "pool_ok (ls_pool s)" using assms(1) by (simp add: locks_ok_def)
  then have new: "pool_ok ?p"
    by (auto simp: pool_ok_def intro: distinct_map_filter)
  have kept: "claim_ok ?p c" if "claim_ok (ls_pool s) c" "object_of c \<noteq> PoolLock i" for c
  proof (cases c)
    case (fields t n l)
    show ?thesis
    proof (cases n)
      case (SenderLock k)
      with fields that obtain j where "l = PoolLock j" "map_of (lp_locks (ls_pool s)) k = Some j" "j \<noteq> i"
        by (auto simp: object_of_def)
      then have "(k, j) \<in> set (lp_locks ?p)" by (auto dest: map_of_SomeD)
      with new have "map_of (lp_locks ?p) k = Some j" by (simp add: pool_ok_def)
      with SenderLock fields \<open>l = PoolLock j\<close> show ?thesis by simp
    qed (use fields that in simp)
  qed
  have "claim_ok ?p c" if "c \<in> set (ls_held s) \<union> set (ls_waiting s)" for c
  proof (rule kept)
    show "claim_ok (ls_pool s) c" using that assms(1) unfolding locks_ok_def claims_ok_def by blast
    show "object_of c \<noteq> PoolLock i" using that assms(2,3) by (metis UnE image_eqI)
  qed
  with new assms(1) show ?thesis by (simp add: locks_ok_def claims_ok_def scripts_ok_def)
qed

text \<open>Entering, leaving and ending.\<close>

lemma take_lock_ok:
  assumes ok: "locks_ok s" and task: "(t, e, Enter n # r) \<in> set (ls_tasks s)" and "t \<notin> fst ` set (ls_waiting s)"
    and "claim_ok (ls_pool s) (t, n, l)" and "l \<notin> object_of ` set (ls_held s)"
  shows "locks_ok (take_lock t n l s)"
proof -
  have claims: "claims_ok s" and scripts: "scripts_ok s" using ok by (simp_all add: locks_ok_def)
  have only: "q = Enter n # r \<and> e' = e" if "(t, e', q) \<in> set (ls_tasks s)" for e' q
    using one_task [OF scripts task that] by simp
  have t: "t \<in> fst ` set (ls_tasks s)" using task by force
  have "claims_ok (take_lock t n l s)"
  proof (rule claims_okI)
    fix c assume "c \<in> set (ls_held (take_lock t n l s)) \<union> set (ls_waiting (take_lock t n l s))"
    then have "c = (t, n, l) \<or> c \<in> set (ls_held s) \<union> set (ls_waiting s)" by (auto simp: take_lock_def)
    then have "claim_ok (ls_pool s) c \<and> fst c \<in> fst ` set (ls_tasks s)"
      using claims_okD(1) [OF claims] assms(4) t by (metis fst_conv)
    then show "claim_ok (ls_pool (take_lock t n l s)) c \<and> fst c \<in> fst ` set (ls_tasks (take_lock t n l s))"
      by (simp add: take_lock_def)
  next
    fix t' n' l' assume "(t', n', l') \<in> set (ls_waiting (take_lock t n l s))"
    then have w: "(t', n', l') \<in> set (ls_waiting s)" by (simp add: take_lock_def)
    with assms(3) have "t' \<noteq> t" by force
    moreover obtain e' r' where "(t', e', Enter n' # r') \<in> set (ls_tasks s)" using claims_okD(4) [OF claims w] by blast
    ultimately show "\<exists>e r. (t', e, Enter n' # r) \<in> set (ls_tasks (take_lock t n l s))"
      by (auto simp: take_lock_def in_advance)
  qed (use claims_okD [OF claims] assms(5) in \<open>simp_all add: take_lock_def object_of_def\<close>)
  moreover have "scripts_ok (take_lock t n l s)"
  proof (rule scripts_okI)
    fix t' e' r' assume "(t', e', r') \<in> set (ls_tasks (take_lock t n l s))"
    then obtain q where q: "(t', e', q) \<in> set (ls_tasks s)" "r' = (if t' = t then tl q else q)"
      by (auto simp: take_lock_def in_advance)
    show "balanced e' (names_of t' (ls_held (take_lock t n l s))) r'"
    proof (cases "t' = t")
      case True
      with only q(1) have "q = Enter n # r" by simp
      with True q scripts_okD(2) [OF scripts q(1)] show ?thesis by (simp add: take_lock_def)
    next
      case False
      with q scripts_okD(2) [OF scripts q(1)] show ?thesis by (simp add: take_lock_def)
    qed
  next
    fix a e r b e' r'
    assume "(a, e, r) \<in> set (ls_tasks (take_lock t n l s))" "(b, e', r') \<in> set (ls_tasks (take_lock t n l s))"
      "is_maintenance e" "is_maintenance e'"
    then show "a = b" using scripts_okD(3) [OF scripts] by (auto simp: take_lock_def in_advance)
  qed (use scripts_okD(1) [OF scripts] in \<open>simp add: take_lock_def\<close>)
  ultimately show ?thesis using ok by (simp add: locks_ok_def take_lock_def)
qed

lemma claims_fewer:
  assumes claims: "claims_ok s" and fewer: "set ws \<subseteq> set (ls_waiting s)" "distinct (map fst ws)"
  shows "claims_ok (s\<lparr>ls_waiting := ws\<rparr>)"
proof (rule claims_okI)
  fix c assume "c \<in> set (ls_held (s\<lparr>ls_waiting := ws\<rparr>)) \<union> set (ls_waiting (s\<lparr>ls_waiting := ws\<rparr>))"
  then have "c \<in> set (ls_held s) \<union> set (ls_waiting s)" using fewer(1) by auto
  from claims_okD(1) [OF claims this] show "claim_ok (ls_pool (s\<lparr>ls_waiting := ws\<rparr>)) c
      \<and> fst c \<in> fst ` set (ls_tasks (s\<lparr>ls_waiting := ws\<rparr>))" by simp
next
  fix t n l assume "(t, n, l) \<in> set (ls_waiting (s\<lparr>ls_waiting := ws\<rparr>))"
  then have "(t, n, l) \<in> set (ls_waiting s)" using fewer(1) by auto
  from claims_okD(4) [OF claims this] show "\<exists>e r. (t, e, Enter n # r) \<in> set (ls_tasks (s\<lparr>ls_waiting := ws\<rparr>))" by simp
qed (use claims_okD(2) [OF claims] fewer(2) in simp_all)

lemma enter_lock_ok:
  assumes ok: "locks_ok s" and task: "(t, e, Enter n # r) \<in> set (ls_tasks s)" and w: "t \<notin> fst ` set (ls_waiting s)"
  shows "locks_ok (enter_lock t n s)"
proof -
  obtain l p where lp: "named_lock n (ls_pool s) = (l, p)" by fastforce
  let ?s = "s\<lparr>ls_pool := p\<rparr>"
  have pool: "pool_ok (ls_pool s)" using ok by (simp add: locks_ok_def)
  have new: "locks_ok ?s" using pool_grows [OF ok, of n] lp by simp
  have claim: "claim_ok p (t, n, l)" using named_lock_ok(2) [OF pool, of n t] lp by simp
  show ?thesis
  proof (cases "l \<in> object_of ` set (ls_held s) \<or> l \<in> object_of ` set (ls_waiting s)")
    case True
    let ?w = "?s\<lparr>ls_waiting := ls_waiting s @ [(t, n, l)]\<rparr>"
    have claims: "claims_ok ?s" using new by (simp add: locks_ok_def)
    have t: "t \<in> fst ` set (ls_tasks s)" using task by force
    have "claims_ok ?w"
    proof (rule claims_okI)
      fix c assume "c \<in> set (ls_held ?w) \<union> set (ls_waiting ?w)"
      then have "c = (t, n, l) \<or> c \<in> set (ls_held ?s) \<union> set (ls_waiting ?s)" by auto
      then show "claim_ok (ls_pool ?w) c \<and> fst c \<in> fst ` set (ls_tasks ?w)"
        using claims_okD(1) [OF claims, of c] claim t by (elim disjE) simp_all
    next
      fix a m k assume "(a, m, k) \<in> set (ls_waiting ?w)"
      then show "\<exists>e r. (a, e, Enter m # r) \<in> set (ls_tasks ?w)"
        using claims_okD(4) [OF claims, of a m k] task by auto
    qed (use claims_okD(2,3) [OF claims] w in simp_all)
    moreover have "scripts_ok ?w" using new by (simp add: locks_ok_def scripts_ok_def)
    ultimately have "locks_ok ?w" using new by (simp add: locks_ok_def)
    with True lp show ?thesis by (simp add: enter_lock_def)
  next
    case False
    have "locks_ok (take_lock t n l ?s)"
      by (rule take_lock_ok [OF new, of t e n r]) (use task w claim False in auto)
    with False lp show ?thesis by (simp add: enter_lock_def)
  qed
qed

lemma granted_ok:
  assumes ok: "locks_ok s" and line: "ls_waiting s = ws @ (t, n, l) # ws'" and free: "l \<notin> object_of ` set (ls_held s)"
  shows "locks_ok (take_lock t n l (s\<lparr>ls_waiting := ws @ ws'\<rparr>))"
proof -
  have claims: "claims_ok s" using ok by (simp add: locks_ok_def)
  have here: "(t, n, l) \<in> set (ls_waiting s)" by (simp add: line)
  obtain e r where task: "(t, e, Enter n # r) \<in> set (ls_tasks s)" using claims_okD(4) [OF claims here] by blast
  have "claims_ok (s\<lparr>ls_waiting := ws @ ws'\<rparr>)"
    by (rule claims_fewer [OF claims]) (use claims_okD(3) [OF claims] in \<open>auto simp: line\<close>)
  then have "locks_ok (s\<lparr>ls_waiting := ws @ ws'\<rparr>)" using ok by (simp add: locks_ok_def scripts_ok_def)
  then show ?thesis
  proof (rule take_lock_ok)
    show "t \<notin> fst ` set (ls_waiting (s\<lparr>ls_waiting := ws @ ws'\<rparr>))" using claims_okD(3) [OF claims] by (auto simp: line)
    show "claim_ok (ls_pool (s\<lparr>ls_waiting := ws @ ws'\<rparr>)) (t, n, l)" using claims_okD(1) [OF claims] here by simp
  qed (use task free in simp_all)
qed

text \<open>Two claims to held locks under one name are one claim.\<close>

lemma claim_object: "claim_ok p (t, n, l) \<Longrightarrow> claim_ok p (t', n, l') \<Longrightarrow> l = l'"
  by (cases n) auto

lemma held_once:
  assumes "claims_ok s" and "(t, n, l) \<in> set (ls_held s)" and "(t', n, l') \<in> set (ls_held s)"
  shows "t' = t \<and> l' = l"
proof -
  have "claim_ok (ls_pool s) (t, n, l)" "claim_ok (ls_pool s) (t', n, l')"
    using claims_okD(1) [OF assms(1)] assms(2,3) by blast+
  then have "l' = l" using claim_object by metis
  with claims_okD(2) [OF assms(1)] assms(2,3) have "(t', n, l') = (t, n, l)"
    by (intro inj_onD [of object_of "set (ls_held s)"]) (simp_all add: distinct_map object_of_def)
  then show ?thesis by simp
qed

lemma in_names_of: "n \<in> set (names_of t held) \<longleftrightarrow> (\<exists>l. (t, n, l) \<in> set held)"
  by (force simp: names_of_def)

lemma names_of_leave:
  "names_of t (filter (\<lambda>(t', n', l). t' = a \<longrightarrow> n' \<noteq> n) held)
     = (if t = a then filter (\<lambda>n'. n' \<noteq> n) (names_of t held) else names_of t held)"
  by (induction held) (auto simp: names_of_def)

lemma held_names_distinct:
  assumes "claims_ok s"
  shows "distinct (names_of t (ls_held s))"
proof -
  have "distinct (ls_held s)" using claims_okD(2) [OF assms] by (simp add: distinct_map)
  moreover have "inj_on (\<lambda>(t', n, l). n) (set (ls_held s))"
    using held_once [OF assms] by (fastforce simp: inj_on_def)
  ultimately show ?thesis
    unfolding names_of_def by (intro distinct_map_filter) (simp add: distinct_map)
qed

lemma leave_lock_ok:
  assumes ok: "locks_ok s" and task: "(t, e, Leave n # r) \<in> set (ls_tasks s)"
  shows "locks_ok (leave_lock t n s)"
proof -
  have claims: "claims_ok s" and scripts: "scripts_ok s" using ok by (simp_all add: locks_ok_def)
  have only: "q = Leave n # r" if "(t, e', q) \<in> set (ls_tasks s)" for e' q
    using one_task [OF scripts task that] by simp
  have "claims_ok (leave_lock t n s)"
  proof (rule claims_okI)
    fix c assume "c \<in> set (ls_held (leave_lock t n s)) \<union> set (ls_waiting (leave_lock t n s))"
    then have "c \<in> set (ls_held s) \<union> set (ls_waiting s)" by (auto simp: leave_lock_def)
    from claims_okD(1) [OF claims this]
    show "claim_ok (ls_pool (leave_lock t n s)) c \<and> fst c \<in> fst ` set (ls_tasks (leave_lock t n s))"
      by (simp add: leave_lock_def)
  next
    fix a m l assume "(a, m, l) \<in> set (ls_waiting (leave_lock t n s))"
    then have "(a, m, l) \<in> set (ls_waiting s)" by (simp add: leave_lock_def)
    then obtain e' r' where w: "(a, e', Enter m # r') \<in> set (ls_tasks s)" using claims_okD(4) [OF claims] by blast
    then have "a \<noteq> t" using only by fastforce
    with w show "\<exists>e r. (a, e, Enter m # r) \<in> set (ls_tasks (leave_lock t n s))" by (auto simp: leave_lock_def in_advance)
  qed (use claims_okD(2,3) [OF claims] in \<open>simp_all add: leave_lock_def distinct_map_filter\<close>)
  moreover have "scripts_ok (leave_lock t n s)"
  proof (rule scripts_okI)
    fix a e' r' assume "(a, e', r') \<in> set (ls_tasks (leave_lock t n s))"
    then obtain q where q: "(a, e', q) \<in> set (ls_tasks s)" "r' = (if a = t then tl q else q)"
      by (auto simp: leave_lock_def in_advance)
    note b = scripts_okD(2) [OF scripts q(1)]
    show "balanced e' (names_of a (ls_held (leave_lock t n s))) r'"
    proof (cases "a = t")
      case True
      with only q(1) have l: "q = Leave n # r" by simp
      obtain H where H: "names_of t (ls_held s) = n # H" using b l True by (cases "names_of t (ls_held s)") auto
      then have "n \<notin> set H" using held_names_distinct [OF claims, of t] by simp
      then have "filter (\<lambda>n'. n' \<noteq> n) H = H" by (auto intro: filter_True)
      with H l b q True show ?thesis by (simp add: leave_lock_def names_of_leave)
    next
      case False
      with b q show ?thesis by (simp add: leave_lock_def names_of_leave)
    qed
  next
    fix a e r b e' r'
    assume "(a, e, r) \<in> set (ls_tasks (leave_lock t n s))" "(b, e', r') \<in> set (ls_tasks (leave_lock t n s))"
      "is_maintenance e" "is_maintenance e'"
    then show "a = b" using scripts_okD(3) [OF scripts] by (auto simp: leave_lock_def in_advance)
  qed (use scripts_okD(1) [OF scripts] in \<open>simp add: leave_lock_def\<close>)
  ultimately show ?thesis using ok by (simp add: locks_ok_def leave_lock_def)
qed

lemma lock_ends_ok:
  assumes ok: "locks_ok s" and task: "(t, e, []) \<in> set (ls_tasks s)"
  shows "locks_ok (s\<lparr>ls_tasks := filter (\<lambda>(t', _). t' \<noteq> t) (ls_tasks s)\<rparr>)" (is "locks_ok ?s")
proof -
  have claims: "claims_ok s" and scripts: "scripts_ok s" using ok by (simp_all add: locks_ok_def)
  have "names_of t (ls_held s) = []" using scripts_okD(2) [OF scripts task] by simp
  then have held: "fst c \<noteq> t" if "c \<in> set (ls_held s)" for c
    using that in_names_of [of "fst (snd c)" t "ls_held s"] by (cases c) auto
  have waiting: "fst c \<noteq> t" if w: "c \<in> set (ls_waiting s)" for c
  proof
    assume "fst c = t"
    with w claims_okD(4) [OF claims, of t "fst (snd c)" "snd (snd c)"]
    obtain e' r' where "(t, e', Enter (fst (snd c)) # r') \<in> set (ls_tasks s)" by auto
    from one_task [OF scripts task this] show False by simp
  qed
  have "claims_ok ?s"
  proof (rule claims_okI)
    fix c assume c: "c \<in> set (ls_held ?s) \<union> set (ls_waiting ?s)"
    then have "c \<in> set (ls_held s) \<or> c \<in> set (ls_waiting s)" by simp
    then have "fst c \<noteq> t" by (elim disjE; intro held waiting)
    with c claims_okD(1) [OF claims, of c] show "claim_ok (ls_pool ?s) c \<and> fst c \<in> fst ` set (ls_tasks ?s)" by force
  next
    fix a m l assume w: "(a, m, l) \<in> set (ls_waiting ?s)"
    then have "a \<noteq> t" using waiting by fastforce
    with w claims_okD(4) [OF claims, of a m l] show "\<exists>e r. (a, e, Enter m # r) \<in> set (ls_tasks ?s)" by auto
  qed (use claims_okD(2,3) [OF claims] in simp_all)
  moreover have "scripts_ok ?s"
    by (rule scripts_okI) (use scripts_okD [OF scripts] in \<open>auto simp: distinct_map_filter\<close>)
  ultimately show ?thesis using ok by (simp add: locks_ok_def)
qed

lemma lock_progress_ok: "lock_progress s s' \<Longrightarrow> locks_ok s \<Longrightarrow> locks_ok s'"
  by (induction rule: lock_progress.induct) (auto intro: enter_lock_ok granted_ok leave_lock_ok lock_ends_ok)

lemma start_ok:
  assumes ok: "locks_ok s" and new: "t \<notin> fst ` set (ls_tasks s)" and "balanced e [] (lock_script e)"
    and alone: "is_maintenance e \<longrightarrow> (\<forall>(t', e', r)\<in>set (ls_tasks s). \<not> is_maintenance e')"
  shows "locks_ok (s\<lparr>ls_tasks := (t, e, lock_script e) # ls_tasks s\<rparr>)" (is "locks_ok ?s")
proof -
  have claims: "claims_ok s" and scripts: "scripts_ok s" using ok by (simp_all add: locks_ok_def)
  have "(t, n, l) \<notin> set (ls_held s)" for n l using claims_okD(1) [OF claims, of "(t, n, l)"] new by auto
  then have none: "names_of t (ls_held s) = []" by (auto simp: names_of_def filter_empty_conv)
  have "claims_ok ?s"
  proof (rule claims_okI)
    fix c assume "c \<in> set (ls_held ?s) \<union> set (ls_waiting ?s)"
    with claims_okD(1) [OF claims, of c] show "claim_ok (ls_pool ?s) c \<and> fst c \<in> fst ` set (ls_tasks ?s)" by simp
  next
    fix a m l assume "(a, m, l) \<in> set (ls_waiting ?s)"
    with claims_okD(4) [OF claims, of a m l] show "\<exists>e r. (a, e, Enter m # r) \<in> set (ls_tasks ?s)" by auto
  qed (use claims_okD(2,3) [OF claims] in simp_all)
  moreover have "scripts_ok ?s"
  proof (rule scripts_okI)
    fix a e' r' assume "(a, e', r') \<in> set (ls_tasks ?s)"
    then show "balanced e' (names_of a (ls_held ?s)) r'" using scripts_okD(2) [OF scripts] none assms(3) by auto
  next
    fix a e1 r b e2 r'
    assume "(a, e1, r) \<in> set (ls_tasks ?s)" "(b, e2, r') \<in> set (ls_tasks ?s)" "is_maintenance e1" "is_maintenance e2"
    then show "a = b" using scripts_okD(3) [OF scripts] alone by fastforce
  qed (use scripts_okD(1) [OF scripts] new in simp)
  ultimately show ?thesis using ok by (simp add: locks_ok_def)
qed

lemma unwind_ok:
  assumes ok: "locks_ok s"
  shows "locks_ok (unwind t s)"
proof -
  let ?w = "filter (\<lambda>(t', n, l). t' \<noteq> t) (ls_waiting s)"
  have claims: "claims_ok s" and scripts: "scripts_ok s" using ok by (simp_all add: locks_ok_def)
  have keys: "fst ` set (ls_tasks (unwind t s)) = fst ` set (ls_tasks s)"
    "map fst (ls_tasks (unwind t s)) = map fst (ls_tasks s)"
    by (force simp: unwind_def image_iff)+
  have fewer: "claims_ok (s\<lparr>ls_waiting := ?w\<rparr>)"
    by (rule claims_fewer [OF claims]) (use claims_okD(3) [OF claims] in \<open>auto simp: distinct_map_filter\<close>)
  have "claims_ok (unwind t s)"
  proof (rule claims_okI)
    fix c assume "c \<in> set (ls_held (unwind t s)) \<union> set (ls_waiting (unwind t s))"
    then have "c \<in> set (ls_held (s\<lparr>ls_waiting := ?w\<rparr>)) \<union> set (ls_waiting (s\<lparr>ls_waiting := ?w\<rparr>))" by (simp add: unwind_def)
    from claims_okD(1) [OF fewer this] keys
    show "claim_ok (ls_pool (unwind t s)) c \<and> fst c \<in> fst ` set (ls_tasks (unwind t s))" by (simp add: unwind_def)
  next
    fix a m l assume "(a, m, l) \<in> set (ls_waiting (unwind t s))"
    then have "(a, m, l) \<in> set (ls_waiting s)" "a \<noteq> t" by (auto simp: unwind_def)
    then obtain e r where "(a, e, Enter m # r) \<in> set (ls_tasks s)" using claims_okD(4) [OF claims] by blast
    with \<open>a \<noteq> t\<close> show "\<exists>e r. (a, e, Enter m # r) \<in> set (ls_tasks (unwind t s))" by (force simp: unwind_def)
  qed (use claims_okD(2,3) [OF fewer] in \<open>simp_all add: unwind_def\<close>)
  moreover have "scripts_ok (unwind t s)"
  proof (rule scripts_okI)
    fix a e r assume "(a, e, r) \<in> set (ls_tasks (unwind t s))"
    then show "balanced e (names_of a (ls_held (unwind t s))) r"
      using scripts_okD(2) [OF scripts] by (auto simp: unwind_def split: if_splits)
  next
    fix a e1 r b e2 r'
    assume "(a, e1, r) \<in> set (ls_tasks (unwind t s))" "(b, e2, r') \<in> set (ls_tasks (unwind t s))"
      "is_maintenance e1" "is_maintenance e2"
    then show "a = b" using scripts_okD(3) [OF scripts] by (auto simp: unwind_def)
  qed (use scripts_okD(1) [OF scripts] keys in simp)
  ultimately show ?thesis using ok by (simp add: locks_ok_def unwind_def)
qed

lemma lock_step_ok: "lock_step s s' \<Longrightarrow> locks_ok s \<Longrightarrow> locks_ok s'"
proof (induction rule: lock_step.induct)
  case (starts t s e)
  then show ?case by (intro start_ok) (auto simp: script_balanced)
next
  case (maintenance_starts t s e now days st)
  then show ?case by (intro start_ok maintenance_balanced) auto
qed (auto intro: lock_progress_ok unwind_ok collected_ok)

lemma no_locks_ok: "locks_ok no_locks"
  by (simp add: no_locks_def locks_ok_def pool_ok_def claims_ok_def scripts_ok_def)

lemma reachable_locks_ok: "lock_step\<^sup>*\<^sup>* no_locks s \<Longrightarrow> locks_ok s"
  by (induction rule: rtranclp_induct) (auto intro: lock_step_ok no_locks_ok)

subsection \<open>Mutual exclusion\<close>

text \<open>C15. A sender's lock excludes: however tasks start, wait, are cancelled, fail and finish, and whatever
  locks the pool has dropped in between, two tasks never hold the lock of the same sender at the same
  time, and a task that asks for the lock of a sender that is held or waited for gets the same lock
  object, so that it has to wait.\<close>

theorem sender_exclusion:
  assumes "lock_step\<^sup>*\<^sup>* no_locks s" and "(t, SenderLock k, l) \<in> set (ls_held s)"
  shows "((t', SenderLock k, l') \<in> set (ls_held s) \<longrightarrow> t' = t \<and> l' = l)
    \<and> ((t', SenderLock k, l') \<in> set (ls_waiting s) \<longrightarrow> l' = l)
    \<and> fst (named_lock (SenderLock k) (ls_pool s)) = l
    \<and> ls_held (enter_lock t' (SenderLock k) s) = ls_held s"
proof -
  have claims: "claims_ok s" using reachable_locks_ok [OF assms(1)] by (simp add: locks_ok_def)
  have claim: "claim_ok (ls_pool s) (t, SenderLock k, l)" using claims_okD(1) [OF claims] assms(2) by blast
  then have found: "fst (named_lock (SenderLock k) (ls_pool s)) = l" by (auto simp: pool_lock_def)
  have "l' = l" if "(t', SenderLock k, l') \<in> set (ls_waiting s)"
    using claims_okD(1) [OF claims] that claim claim_object by blast
  moreover have "l \<in> object_of ` set (ls_held s)" using assms(2) by (force simp: object_of_def)
  then have "ls_held (enter_lock t' (SenderLock k) s) = ls_held s"
    using found by (simp add: enter_lock_def split_beta)
  ultimately show ?thesis using held_once [OF claims assms(2)] found by blast
qed

text \<open>One task in the lock of a sender, and another one that asks for it.\<close>

definition one_inside :: lock_state where
  "one_inside = \<lparr>ls_pool = \<lparr>lp_next = 1, lp_locks = [(''a'', 0)]\<rparr>, ls_held = [(0, SenderLock ''a'', PoolLock 0)],
     ls_waiting = [], ls_tasks = [(1, SenderErrand ''a'', handle_script ''a''), (0, SenderErrand ''a'', [Leave (SenderLock ''a'')])]\<rparr>"

lemma one_inside_reached: "lock_step\<^sup>*\<^sup>* no_locks one_inside"
proof -
  let ?s1 = "no_locks\<lparr>ls_tasks := [(0, SenderErrand ''a'', lock_script (SenderErrand ''a''))]\<rparr>"
  let ?s2 = "enter_lock 0 (SenderLock ''a'') ?s1"
  have "lock_step no_locks ?s1" using starts [of 0 no_locks "SenderErrand ''a''"] by (simp add: no_locks_def)
  moreover have "lock_step ?s1 ?s2"
    by (rule progresses, rule enters [of 0 "SenderErrand ''a''" _ "[Leave (SenderLock ''a'')]"])
      (simp_all add: handle_script_def async_with_def no_locks_def)
  moreover have "lock_step ?s2 one_inside"
    using starts [of 1 ?s2 "SenderErrand ''a''"]
    by (simp add: one_inside_def no_locks_def enter_lock_def pool_lock_def take_lock_def handle_script_def async_with_def advance_def)
  ultimately show ?thesis by (meson rtranclp.rtrancl_into_rtrancl rtranclp.rtrancl_refl)
qed

lemma sender_exclusion_witness:
  "ls_held (enter_lock 1 (SenderLock ''a'') one_inside) = [(0, SenderLock ''a'', PoolLock 0)]"
  using sender_exclusion [OF one_inside_reached, of 0 "''a''" "PoolLock 0" 1] by (simp add: one_inside_def)

subsection \<open>Every task gets its locks\<close>

lemma claim_name:
  assumes "pool_ok p" and "claim_ok p (t, n, l)" and "claim_ok p (t', n', l)"
  shows "n' = n"
proof (cases n)
  case (SenderLock k)
  with assms(2) obtain i where i: "l = PoolLock i" "map_of (lp_locks p) k = Some i" by auto
  with assms(3) obtain k' where k': "n' = SenderLock k'" "map_of (lp_locks p) k' = Some i" by (cases n') auto
  from assms(1) have "inj_on snd (set (lp_locks p))" by (simp add: pool_ok_def distinct_map)
  with i(2) k'(2) have "(k', i) = (k, i)" by (intro inj_onD [of snd "set (lp_locks p)"]) (auto dest: map_of_SomeD)
  with SenderLock k' show ?thesis by simp
next
  case CommandLock
  with assms(2,3) show ?thesis by (cases n') auto
qed

text \<open>A task that waits for a lock that is held, and does not ask for what it may not.\<close>

lemma blocked:
  assumes ok: "locks_ok s" and w: "(t, n, l) \<in> set (ls_waiting s)" and "l \<in> object_of ` set (ls_held s)"
  obtains t' e r where "(t', n, l) \<in> set (ls_held s)" and "(t, e, Enter n # r) \<in> set (ls_tasks s)"
    and "may_enter e (names_of t (ls_held s)) n"
proof -
  have claims: "claims_ok s" and scripts: "scripts_ok s" and pool: "pool_ok (ls_pool s)"
    using ok by (simp_all add: locks_ok_def)
  from assms(3) obtain t' n' where h: "(t', n', l) \<in> set (ls_held s)" by (auto simp: object_of_def)
  then have "claim_ok (ls_pool s) (t', n', l)" "claim_ok (ls_pool s) (t, n, l)"
    using claims_okD(1) [OF claims] w by blast+
  then have "n' = n" using claim_name [OF pool] by blast
  moreover obtain e r where task: "(t, e, Enter n # r) \<in> set (ls_tasks s)" using claims_okD(4) [OF claims w] by blast
  ultimately show thesis using that h scripts_okD(2) [OF scripts task] by simp
qed

text \<open>Only the retention pass waits while it holds a sender's lock, so no ring of waiting tasks closes.\<close>

lemma no_deadlock:
  assumes ok: "locks_ok s" and all: "\<forall>x\<in>set (ls_tasks s). fst x \<in> fst ` set (ls_waiting s)"
    and held: "\<forall>c\<in>set (ls_waiting s). object_of c \<in> object_of ` set (ls_held s)"
  shows "ls_waiting s = []"
proof (rule ccontr)
  have claims: "claims_ok s" and scripts: "scripts_ok s" using ok by (simp_all add: locks_ok_def)
  have holder: "\<exists>m l' e r t'. (t, m, l') \<in> set (ls_waiting s) \<and> (t, e, Enter m # r) \<in> set (ls_tasks s)
      \<and> may_enter e (names_of t (ls_held s)) m \<and> (t', m, l') \<in> set (ls_held s) \<and> n \<in> set (names_of t (ls_held s))"
    if "(t, n, l) \<in> set (ls_held s)" for t n l
  proof -
    from claims_okD(1) [OF claims] that have "t \<in> fst ` set (ls_tasks s)" by fastforce
    with all obtain m l' where w: "(t, m, l') \<in> set (ls_waiting s)" by fastforce
    from bspec [OF held w] have "l' \<in> object_of ` set (ls_held s)" by simp
    from blocked [OF ok w this] w that show ?thesis by (metis in_names_of)
  qed
  have sender: False if "(t, SenderLock k, l) \<in> set (ls_held s)" for t k l
  proof -
    from holder [OF that] obtain m l' e r t' where t: "(t, e, Enter m # r) \<in> set (ls_tasks s)"
      "may_enter e (names_of t (ls_held s)) m" "(t', m, l') \<in> set (ls_held s)"
      "SenderLock k \<in> set (names_of t (ls_held s))" by blast
    then have me: "is_maintenance e" "m \<noteq> CommandLock" "m \<notin> set (names_of t (ls_held s))"
      by (auto simp: may_enter_def)
    from holder [OF t(3)] obtain m' l'' e' r' where t': "(t', e', Enter m' # r') \<in> set (ls_tasks s)"
      "may_enter e' (names_of t' (ls_held s)) m'" "m \<in> set (names_of t' (ls_held s))" by blast
    with me(2) have "is_maintenance e'" by (auto simp: may_enter_def)
    with me(1) t(1) t'(1) have "t' = t" using scripts_okD(3) [OF scripts] by blast
    with t'(3) me(3) show False by simp
  qed
  assume "ls_waiting s \<noteq> []"
  then obtain t n l where w: "(t, n, l) \<in> set (ls_waiting s)" by (metis list.set_sel(1) prod_cases3)
  from bspec [OF held w] have "l \<in> object_of ` set (ls_held s)" by simp
  from blocked [OF ok w this] obtain t' where h: "(t', n, l) \<in> set (ls_held s)" by blast
  from holder [OF h] obtain m l' e t'' where m: "may_enter e (names_of t' (ls_held s)) m" "(t'', m, l') \<in> set (ls_held s)"
    "n \<in> set (names_of t' (ls_held s))" by blast
  show False
  proof (cases n)
    case (SenderLock k)
    with h sender show False by blast
  next
    case CommandLock
    with m(1,3) obtain k where "m = SenderLock k" by (cases m) (auto simp: may_enter_def)
    with m(2) sender show False by blast
  qed
qed

lemma some_progress:
  assumes ok: "locks_ok s" and "ls_tasks s \<noteq> []"
  shows "\<exists>s'. lock_progress s s'"
proof (cases "\<forall>x\<in>set (ls_tasks s). fst x \<in> fst ` set (ls_waiting s)")
  case True
  then have "ls_waiting s \<noteq> []" using assms(2) by (cases "ls_tasks s") auto
  with no_deadlock [OF ok True] obtain c where "c \<in> set (ls_waiting s)" "object_of c \<notin> object_of ` set (ls_held s)"
    by blast
  then obtain ws c' ws' where line: "ls_waiting s = ws @ c' # ws'" "object_of c' = object_of c"
      "\<forall>d\<in>set ws. object_of d \<noteq> object_of c"
    using split_list_first_prop [of "ls_waiting s" "\<lambda>d. object_of d = object_of c"] by blast
  obtain t n l where c': "c' = (t, n, l)" by (cases c')
  from granted [OF line(1) [unfolded c']] line(2,3) c' \<open>object_of c \<notin> object_of ` set (ls_held s)\<close>
  show ?thesis by (force simp: object_of_def)
next
  case False
  then obtain t e r where t: "(t, e, r) \<in> set (ls_tasks s)" "t \<notin> fst ` set (ls_waiting s)" by force
  show ?thesis
  proof (cases r)
    case Nil
    with t(1) show ?thesis using ends by blast
  next
    case (Cons x r')
    with t show ?thesis by (cases x) (blast intro: enters leaves)+
  qed
qed

definition steps_left :: "lock_state \<Rightarrow> nat" where
  "steps_left s = sum_list (map (\<lambda>(t, e, r). Suc (length r)) (ls_tasks s))"

lemma advance_le: "sum_list (map (\<lambda>(t, e, r). Suc (length r)) (advance t ts)) \<le> sum_list (map (\<lambda>(t, e, r). Suc (length r)) ts)"
  by (induction ts) (auto simp: advance_def)

lemma advance_Cons [simp]: "advance t ((t', e, r) # ts) = (t', e, if t' = t then tl r else r) # advance t ts"
  by (simp add: advance_def)

lemma advance_less:
  "(t, e, x # r) \<in> set ts \<Longrightarrow>
    sum_list (map (\<lambda>(t, e, r). Suc (length r)) (advance t ts)) < sum_list (map (\<lambda>(t, e, r). Suc (length r)) ts)"
proof (induction ts)
  case (Cons a ts)
  obtain t' e' r' where a: "a = (t', e', r')" by (cases a)
  show ?case
  proof (cases "a = (t, e, x # r)")
    case True
    with advance_le [of t ts] show ?thesis by simp
  next
    case False
    with Cons a have "sum_list (map (\<lambda>(t, e, r). Suc (length r)) (advance t ts))
        < sum_list (map (\<lambda>(t, e, r). Suc (length r)) ts)" by auto
    then show ?thesis by (simp add: a) linarith
  qed
qed simp

lemma ended_less:
  "x \<in> set ts \<Longrightarrow> \<not> P x \<Longrightarrow>
    sum_list (map (\<lambda>(t, e, r). Suc (length r)) (filter P ts)) < sum_list (map (\<lambda>(t, e, r). Suc (length r)) ts)"
proof (induction ts)
  case (Cons a ts)
  have le: "sum_list (map (\<lambda>(t, e, r). Suc (length r)) (filter P ts)) \<le> sum_list (map (\<lambda>(t, e, r). Suc (length r)) ts)"
    by (induction ts) auto
  show ?case
    using Cons le by (cases a) auto
qed simp

lemma waiting_fewer: "locks_ok s \<Longrightarrow> length (ls_waiting s) \<le> length (ls_tasks s)"
proof -
  assume "locks_ok s"
  then have claims: "claims_ok s" and scripts: "scripts_ok s" by (simp_all add: locks_ok_def)
  have "fst ` set (ls_waiting s) \<subseteq> fst ` set (ls_tasks s)" using claims_okD(1) [OF claims] by blast
  then have "card (set (map fst (ls_waiting s))) \<le> card (set (map fst (ls_tasks s)))" by (intro card_mono) simp_all
  with claims_okD(3) [OF claims] scripts_okD(1) [OF scripts] show ?thesis by (simp only: distinct_card length_map)
qed

definition lock_measure :: "lock_state \<Rightarrow> nat \<times> nat" where
  "lock_measure s = (steps_left s, length (ls_tasks s) - length (ls_waiting s))"

lemma taken_less:
  "(t, e, x # r) \<in> set (ls_tasks s) \<Longrightarrow> steps_left (take_lock t n l s) < steps_left s"
  unfolding steps_left_def take_lock_def by (simp add: advance_less)

lemma progress_decreases:
  "lock_progress s s' \<Longrightarrow> locks_ok s \<Longrightarrow> (lock_measure s', lock_measure s) \<in> less_than <*lex*> less_than"
proof (induction rule: lock_progress.induct)
  case (enters t e n r s)
  obtain l p where lp: "named_lock n (ls_pool s) = (l, p)" by fastforce
  show ?case
  proof (cases "l \<in> object_of ` set (ls_held s) \<or> l \<in> object_of ` set (ls_waiting s)")
    case True
    have "locks_ok (enter_lock t n s)" by (rule enter_lock_ok [OF enters(3,1,2)])
    from waiting_fewer [OF this] True lp
    have "Suc (length (ls_waiting s)) \<le> length (ls_tasks s)" by (simp add: enter_lock_def)
    with True lp show ?thesis by (auto simp: lock_measure_def steps_left_def enter_lock_def)
  next
    case False
    with lp taken_less [of t e "Enter n" r "s\<lparr>ls_pool := p\<rparr>" n l] enters(1)
    show ?thesis by (simp add: lock_measure_def enter_lock_def steps_left_def)
  qed
next
  case (granted s ws t n l ws')
  then obtain e r where "(t, e, Enter n # r) \<in> set (ls_tasks s)"
    using claims_okD(4) [of s t n l] by (auto simp: locks_ok_def)
  with taken_less [of t e "Enter n" r "s\<lparr>ls_waiting := ws @ ws'\<rparr>" n l] show ?case
    by (simp add: lock_measure_def steps_left_def)
next
  case (leaves t e n r s)
  then show ?case by (simp add: lock_measure_def steps_left_def leave_lock_def advance_less)
next
  case (ends t e s)
  then show ?case by (simp add: lock_measure_def steps_left_def ended_less split_beta)
qed

lemma progress_finishes:
  "locks_ok s \<Longrightarrow> \<exists>s'. lock_progress\<^sup>*\<^sup>* s s' \<and> ls_tasks s' = []"
proof (induction s rule: wf_induct_rule [OF wf_inv_image [OF wf_lex_prod [OF wf_less_than wf_less_than], of lock_measure]])
  case (1 s)
  show ?case
  proof (cases "ls_tasks s = []")
    case False
    with some_progress [OF 1(2)] obtain s1 where s1: "lock_progress s s1" by blast
    with progress_decreases [OF s1 1(2)] 1(1) lock_progress_ok [OF s1 1(2)]
    obtain s' where "lock_progress\<^sup>*\<^sup>* s1 s'" "ls_tasks s' = []" by (auto simp: in_inv_image)
    with s1 show ?thesis by (blast intro: converse_rtranclp_into_rtranclp)
  qed blast
qed

lemma progress_ends:
  assumes "locks_ok (f 0)" and "\<And>i. lock_progress (f i) (f (Suc i))"
  shows False
proof -
  have ok: "locks_ok (f i)" for i
    by (induction i) (use assms lock_progress_ok in auto)
  have "wf (inv_image (less_than <*lex*> less_than) lock_measure)" by (intro wf_inv_image wf_lex_prod wf_less_than)
  moreover have "(f (Suc i), f i) \<in> inv_image (less_than <*lex*> less_than) lock_measure" for i
    using progress_decreases [OF assms(2) ok] by (simp add: in_inv_image)
  ultimately show False unfolding wf_iff_no_infinite_down_chain by blast
qed

text \<open>C16. No task waits for ever. From every state the core can reach, as long as no new task starts, the
  tasks that are there enter and leave their locks, one step after another, until all of them have
  finished; they can neither block each other, nor go on without end, and whichever task moves first,
  the others still finish. The retention pass may hold any number of senders' locks meanwhile, because it
  asks for every sender once and is the only task that waits with a sender's lock in its hands.\<close>

theorem tasks_get_their_locks:
  assumes "lock_step\<^sup>*\<^sup>* no_locks s"
  shows "(\<exists>s'. lock_progress\<^sup>*\<^sup>* s s' \<and> ls_tasks s' = [])
    \<and> (\<forall>s'. lock_progress\<^sup>*\<^sup>* s s' \<longrightarrow> (\<forall>s''. \<not> lock_progress s' s'') \<longrightarrow> ls_tasks s' = [] \<and> ls_held s' = [])
    \<and> (\<nexists>f. f 0 = s \<and> (\<forall>i. lock_progress (f i) (f (Suc i))))"
proof -
  have ok: "locks_ok s" by (rule reachable_locks_ok [OF assms])
  have reach: "locks_ok s'" if "lock_progress\<^sup>*\<^sup>* s s'" for s'
    using that by (induction rule: rtranclp_induct) (use ok lock_progress_ok in auto)
  have "ls_tasks s' = [] \<and> ls_held s' = []" if "lock_progress\<^sup>*\<^sup>* s s'" "\<forall>s''. \<not> lock_progress s' s''" for s'
  proof -
    have "ls_tasks s' = []" using some_progress [OF reach [OF that(1)]] that(2) by blast
    moreover from this have "c \<notin> set (ls_held s')" for c
      using claims_okD(1) [of s' c] reach [OF that(1)] by (auto simp: locks_ok_def)
    then have "ls_held s' = []" by (cases "ls_held s'") auto
    ultimately show ?thesis by blast
  qed
  with progress_finishes [OF ok] progress_ends ok show ?thesis by blast
qed

lemma tasks_get_their_locks_witness:
  "length (ls_tasks one_inside) = 2 \<and> (\<exists>s'. lock_progress\<^sup>*\<^sup>* one_inside s' \<and> ls_tasks s' = [])"
  using tasks_get_their_locks [OF one_inside_reached] by (simp add: one_inside_def)

end
