(* ===== verification/Spec2Isabelle.thy ===== *)
theory Spec2Isabelle
  imports Service_Arrivals Store_Properties Core_System Backend_Decisions View_Safety View_Answers Sidecar
    Adapter_Recovery Initialize Logging Sender_Locks
begin

text \<open>
  A model of \<open>tg-pm-gatekeeper\<close>, a service that screens the private messages of one Telegram account.
  Paths are relative to \<open>src/tg_pm_gatekeeper/\<close> unless they begin with \<open>scripts/\<close>.

  The program. The core process (\<open>main.py\<close>, \<open>telegram_adapter.py\<close>) is logged in to Telegram as
  its owner. For every incoming private message the service (\<open>service.py\<close>) looks up the sender's row
  in a SQLite database (\<open>store/\<close>), collects evidence from the message (\<open>message_facts.py\<close>,
  \<open>rules.py\<close>), lets the policy decide (\<open>policy.py\<close>), and then allows the sender, asks for the
  answer to an arithmetic challenge, or restricts the dialog for a time or for good. Prompts, archiving
  and deletions go through Telegram, which may fail at every request; timers and deletion jobs continue a
  decision later and are recovered from the database after a restart. The owner steers the core by
  commands in the chat with oneself (\<open>operator_controls.py\<close>), by the command line (\<open>cli.py\<close>), and by
  a dashboard: a sidecar process (\<open>dashboard_main.py\<close>) with an HTTP server (\<open>dashboard_http.py\<close>,
  \<open>dashboard_session.py\<close>, \<open>dashboard_views/\<close>), which asks the core over a line protocol on a Unix
  socket (\<open>dashboard_rpc.py\<close>, \<open>dashboard_backend.py\<close>).

  Conventions. Text of users is a list of code points (\<open>ustring\<close>), bytes are \<open>8 word\<close>s, internal
  codes are HOL strings, and Python's integers are \<open>int\<close>. An exception is a value \<open>Inl e\<close> with the
  name of its class. One SQLite transaction is one function on the record \<open>store\<close>. Code with effects is
  a program on a state (\<open>world\<close> for the service, \<open>core\<close> for the core process, \<open>http\<close> for the web
  server), which returns or raises and leaves the state it has changed so far. The clock readings, the
  random draws and the replies of the Telegram server are streams in the state, so a theorem about all
  states is one about all sequences of replies. What is not in the repository is an argument: the Unicode
  tables (\<open>unicode\<close>), the ciphers (\<open>ciphers\<close> with the laws \<open>good_ciphers\<close>), SHA-256, the cookie
  parser, the printing of floats, the file system's answer to a write.
\<close>

text \<open>
  Theories and the code they model.

  Base. \<open>Prelude\<close>: basic types, the tables, the lemma collections. \<open>Py_Text\<close>, \<open>Py_Url\<close>,
  \<open>Py_Json\<close>, \<open>Py_Codec\<close>, \<open>Py_Form\<close>: the string operations, \<open>urllib.parse\<close>, \<open>json\<close> and the codecs as
  far as the program uses them.

  Decisions. \<open>States\<close>: \<open>states.py\<close>, \<open>store/models.py\<close>. \<open>Policy\<close>: \<open>policy.py\<close>. \<open>Url_Rules\<close>,
  \<open>Signals\<close>, \<open>Signal_Codes\<close>: \<open>rules.py\<close>. \<open>Message_Facts\<close>: \<open>message_facts.py\<close>. \<open>Challenge_Text\<close>: the pure
  part of \<open>service.py\<close>.

  Database. \<open>Store_Base\<close> (schema, migrations, mode, claimed messages), \<open>Store_Senders\<close>,
  \<open>Store_Challenges\<close>, \<open>Store_Actions\<close>, \<open>Store_Reviews\<close>, \<open>Store_Restrictions\<close>, \<open>Store_Events\<close>,
  \<open>Store_Maintenance\<close>: one theory for each file of \<open>store/\<close>. \<open>Store_Steps\<close> has the operations as an
  inductive relation, graded by capabilities; \<open>Store_Invariants\<close> and \<open>Store_Properties\<close> the invariants.

  Service. \<open>Effects\<close> (programs, their combinators, the protocol \<open>MessageActions\<close>), \<open>Service_Core\<close>,
  \<open>Service_Notices\<close>, \<open>Service_Challenge\<close>, \<open>Service\<close>, \<open>Service_Recovery\<close>: \<open>GatekeeperService\<close>.
  \<open>Sender_Locks\<close>: \<open>SenderLockPool\<close> and every \<open>async with\<close> on a lock of the core.
  \<open>Service_Contract\<close>, \<open>Service_Security\<close>, \<open>Service_Outcomes\<close>, \<open>Service_Rows\<close>,
  \<open>Readable_Messages\<close>, \<open>Service_Replies\<close>, \<open>Service_Arrivals\<close>: what is proved about it.

  Core process. \<open>Restriction_Actions\<close>: \<open>restriction_actions.py\<close>. \<open>Adapter\<close>, \<open>Adapter_Workers\<close>,
  \<open>Adapter_Tasks\<close>, \<open>Adapter_Run\<close>, \<open>Adapter_Recovery\<close>: \<open>telegram_adapter.py\<close>. \<open>System\<close> and
  \<open>Core_System\<close>: the service and the whole core as transition systems. \<open>Crypto\<close>: \<open>crypto.py\<close>.
  \<open>Config\<close>: \<open>config.py\<close> and the start in \<open>main.py\<close>. \<open>Cli\<close>: \<open>cli.py\<close>. \<open>Logging\<close>:
  \<open>logging_config.py\<close>. \<open>Core\<close>, \<open>Backend\<close>, \<open>Backend_Requests\<close>: \<open>dashboard_backend.py\<close>, with
  \<open>Backend_Reads\<close>, \<open>Backend_Contract\<close>, \<open>Backend_Decisions\<close>. \<open>Operator\<close>: \<open>operator_controls.py\<close>.
  \<open>Initialize\<close>: \<open>scripts/initialize.py\<close> and the scripts that generate keys and the session.

  Dashboard. \<open>Rpc\<close>: \<open>dashboard_rpc.py\<close>. \<open>Servers\<close>: start, stop and connection tasks of both servers. \<open>Session\<close>: \<open>dashboard_session.py\<close>. \<open>Http\<close>, \<open>Http_Gate\<close>,
  \<open>Http_Answers\<close>, \<open>Http_System\<close>: \<open>dashboard_http.py\<close>, alone and in front of the core. \<open>Sidecar\<close>:
  \<open>dashboard_main.py\<close>. \<open>View_Components\<close>, \<open>View_Labels\<close>, \<open>View_Evidence\<close>, \<open>View_Pages\<close>:
  \<open>dashboard_views/\<close>, with \<open>View_Safety\<close> and \<open>View_Answers\<close>. \<open>Runs\<close>: programs over any state.
  \<open>Scenarios\<close>: concrete inputs for the witnesses.
\<close>

text \<open>
  What the lemmas show, by group.

  The state machine. Every handler of the service moves the database only by steps of the sender it
  handles (\<open>sender_contract\<close>), and the capabilities it needs tell what evidence, answer or trust a
  ban, a release or an attempt rests on (\<open>Service_Security\<close>). The outcome of every kind of message, for
  every sequence of server replies, is in \<open>Service_Replies\<close> and \<open>Service_Arrivals\<close>, by the triples of
  \<open>Service_Rows\<close>; a message whose campaign text has no fingerprint ends as \<open>fail_safe\<close> with its row
  untouched, and \<open>Readable_Messages\<close> shows that for the keyed protector of the core this takes a lone
  surrogate. \<open>Adapter_Recovery\<close> does the same for the start after a crash.

  The locks. Everything above runs a handler as one transition, because it holds its sender's lock.
  \<open>Sender_Locks\<close> interleaves the tasks at their locks instead and justifies this: a sender's lock excludes,
  although the pool forgets locks nobody refers to, and the tasks of the core cannot deadlock.

  The composition. \<open>Core_System\<close> has one inductive rule for each thing that can happen to the core;
  the invariants of the database and the bound of the identity cache hold in every reachable core, and a
  deletion job of a released sender never reaches Telegram. \<open>Http_System\<close> puts the web server in
  front: without session, capability and CSRF token a connection only reads. \<open>Rpc\<close> shows that the socket
  between the two processes changes neither results nor effects.

  The interfaces. \<open>prog_relation\<close>, \<open>store_relation\<close> and \<open>run_relation\<close> state the rules of the program
  combinators for a preorder on states; \<open>sender_contract\<close>, \<open>safe_actions\<close>, \<open>core_reading\<close>,
  \<open>core_contract\<close> and \<open>http_contract\<close> are the contracts between a caller and its provider. All of them
  are interpreted for the model's own definitions.

  Data. Round trips of JSON, of UTF-8, of the sealed references and of the sealed cases; bounds of the
  settings; the answers of the hourly quota as a sliding window over the earlier answers; the end of every
  token when a session starts or ends; what the detector's codes mean for the policy; that a page's markup
  does not depend on what a sender wrote, and that the pages can show every answer of the backend.

  Bounds and fuel. The one definition with fuel is the JSON parser \<open>p_value\<close>: \<open>loads\<close> gives it
  more than the length of its input, and \<open>p_value_fuel\<close> shows that more fuel changes nothing. Loops of the
  code that need not be structural are \<open>function\<close>s with a measure. The heartbeat loop and the idle loop of
  the sidecar are one turn and a step relation over turns.

  Not modelled, and why. Handlers of different senders are not interleaved inside one transition; what
  other tasks do while a handler waits for a lock is a parameter of the core's state. The Telethon client
  (its construction, connection and caches), the transport of the sockets and asyncio's scheduler are code
  outside the repository; a read timeout is an event, not a time. \<open>argparse\<close>, the handlers of the
  logging module, signal handlers and log lines have no effect on the state modelled. \<open>review_admin.py\<close> is a
  constructor that passes its arguments on; the style sheets, the browser script and the deployment scripts
  are not Python. An interrupt from the keyboard in the middle of a script is left out. Python's limits on recursion and memory are not modelled.
\<close>

end
